(* ===== verification/Prelude.thy ===== *)
theory Prelude
  imports Main
begin

text \<open>
  What every component shares: instants and durations as the program counts them, the
  errors of the store, the SQL statements the store issues on a table (a list of rows),
  and the interface contracts the components are verified against.

  \<^item> An instant is the number of nanoseconds since Go's zero time (1 January of the
    year 1, UTC), so the zero time is \<open>0\<close> and \<open>IsZero\<close> is a comparison; a duration is
    a number of nanoseconds, as in Go.
  \<^item> A table is the list of its rows. The locale \<open>table\<close> is the contract of a keyed
    table inside a larger state; the locale \<open>single_use\<close> is the contract of a
    credential that can be spent at most once; the locale \<open>codec\<close> is the contract of an
    encoding with its decoder.
\<close>

named_theorems frame_simps \<open>fields that an operation leaves alone\<close>
named_theorems sql_simps \<open>reading a table after a statement\<close>
named_theorems stmt_defs \<open>the operations of the store, unfolded to statements\<close>
named_theorems db_ok_pres \<open>operations that keep the constraints of the database\<close>

subsection \<open>Instants and durations\<close>

type_synonym time = int
type_synonym duration = int

abbreviation IsZero :: "time \<Rightarrow> bool" where "IsZero t \<equiv> t = 0"
abbreviation After :: "time \<Rightarrow> time \<Rightarrow> bool" where "After a b \<equiv> b < a"
abbreviation Before :: "time \<Rightarrow> time \<Rightarrow> bool" where "Before a b \<equiv> a < b"

abbreviation Second :: duration where "Second \<equiv> 1000000000"
abbreviation Minute :: duration where "Minute \<equiv> 60000000000"
abbreviation Hour :: duration where "Hour \<equiv> 3600000000000"

text \<open>
  Subtracting two instants saturates at the bounds of an \<open>int64\<close>, about 292 years: the
  difference between a current instant and the zero time is the largest duration.
\<close>

definition time_Sub :: "time \<Rightarrow> time \<Rightarrow> duration" where
  "time_Sub a b = max (- (2 ^ 63)) (min (2 ^ 63 - 1) (a - b))"

lemma time_Sub_small: "\<bar>a - b\<bar> < 2 ^ 63 \<Longrightarrow> time_Sub a b = a - b"
  by (auto simp: time_Sub_def)

lemma time_Sub_less: "d \<le> 2 ^ 63 - 1 \<Longrightarrow> - (2 ^ 63) < d \<Longrightarrow> time_Sub a b < d \<longleftrightarrow> a - b < d"
  by (auto simp: time_Sub_def)

lemma time_Sub_greater: "0 \<le> d \<Longrightarrow> d < time_Sub a b \<Longrightarrow> d < a - b"
  by (auto simp: time_Sub_def)

text \<open>The Unix time of an instant, in whole seconds.\<close>

definition Unix :: "time \<Rightarrow> int" where
  "Unix t = t div Second - 62135596800"

definition time_of_Unix :: "int \<Rightarrow> time" where
  "time_of_Unix s = (s + 62135596800) * Second"

lemma Unix_time_of_Unix [simp]: "Unix (time_of_Unix s) = s"
  by (simp add: Unix_def time_of_Unix_def)

lemma time_of_Unix_less [simp]: "time_of_Unix a < time_of_Unix b \<longleftrightarrow> a < b"
  by (simp add: time_of_Unix_def)

subsection \<open>Errors of the store\<close>

text \<open>
  \<open>ErrNotFound\<close> is the store's own sentinel, \<open>ErrNoRows\<close> the raw error of the SQL layer
  that some getters pass on, \<open>ErrConstraint\<close> a violated key, \<open>ErrCollides\<close> the refusal to
  mirror a directory user over a local account, \<open>ErrFault\<close> a statement the database did
  not execute.
\<close>

datatype db_err = ErrNotFound | ErrNoRows | ErrConstraint | ErrCollides | ErrFault

type_synonym 'a res = "db_err + 'a"

fun is_ok :: "'e + 'a \<Rightarrow> bool" where
  "is_ok (Inr _) = True"
| "is_ok (Inl _) = False"

lemma is_ok_iff: "is_ok r \<longleftrightarrow> (\<exists>x. r = Inr x)"
  by (cases r) auto

subsection \<open>SQL statements on a list of rows\<close>

text \<open>SELECT of one row: the row, or \<open>sql.ErrNoRows\<close>.\<close>

definition sel1 :: "('r \<Rightarrow> bool) \<Rightarrow> 'r list \<Rightarrow> 'r res" where
  "sel1 p t = (case find p t of None \<Rightarrow> Inl ErrNotFound | Some r \<Rightarrow> Inr r)"

text \<open>UPDATE ... SET f WHERE p, DELETE ... WHERE p, and the rows such a statement affects.\<close>

definition upd :: "('r \<Rightarrow> bool) \<Rightarrow> ('r \<Rightarrow> 'r) \<Rightarrow> 'r list \<Rightarrow> 'r list" where
  "upd p f t = map (\<lambda>r. if p r then f r else r) t"

definition del :: "('r \<Rightarrow> bool) \<Rightarrow> 'r list \<Rightarrow> 'r list" where
  "del p t = filter (\<lambda>r. \<not> p r) t"

definition affected :: "('r \<Rightarrow> bool) \<Rightarrow> 'r list \<Rightarrow> nat" where
  "affected p t = length (filter p t)"

lemma affected_0_iff: "affected p t = 0 \<longleftrightarrow> (\<forall>r \<in> set t. \<not> p r)"
  by (auto simp: affected_def filter_empty_conv)

lemma affected_pos_iff: "0 < affected p t \<longleftrightarrow> (\<exists>r \<in> set t. p r)"
  using affected_0_iff [of p t] by auto

lemma set_upd: "r \<in> set (upd p f t) \<longleftrightarrow> (\<exists>q \<in> set t. r = (if p q then f q else q))"
  by (auto simp: upd_def)

lemma in_updE:
  assumes "x \<in> set (upd p f t)"
  obtains (changed) r where "r \<in> set t" "p r" "x = f r" | (kept) "x \<in> set t" "\<not> p x"
  using assms unfolding upd_def by (auto split: if_splits)

lemma set_del [sql_simps]: "set (del p t) = {r \<in> set t. \<not> p r}"
  by (auto simp: del_def)

lemma length_upd [simp]: "length (upd p f t) = length t"
  by (simp add: upd_def)

lemma upd_Nil [simp]: "upd p f [] = []"
  by (simp add: upd_def)

lemma del_Nil [simp]: "del p [] = []"
  by (simp add: del_def)

lemma upd_Cons [simp]: "upd p f (r # t) = (if p r then f r else r) # upd p f t"
  by (simp add: upd_def)

lemma del_Cons [simp]: "del p (r # t) = (if p r then del p t else r # del p t)"
  by (simp add: del_def)

lemma upd_id: "(\<And>r. r \<in> set t \<Longrightarrow> p r \<Longrightarrow> f r = r) \<Longrightarrow> upd p f t = t"
  by (induction t) auto

lemma upd_none: "(\<And>r. r \<in> set t \<Longrightarrow> \<not> p r) \<Longrightarrow> upd p f t = t"
  by (rule upd_id) auto

lemma sel1_Inr: "sel1 p t = Inr r \<Longrightarrow> r \<in> set t \<and> p r"
  by (auto simp: sel1_def find_Some_iff split: option.splits)

lemma sel1_Nil [simp]: "sel1 p [] = Inl ErrNotFound"
  by (simp add: sel1_def)

lemma sel1_Cons [simp]: "sel1 p (r # t) = (if p r then Inr r else sel1 p t)"
  by (simp add: sel1_def)

lemma sel1_Inl: "sel1 p t = Inl e \<longleftrightarrow> e = ErrNotFound \<and> (\<forall>r \<in> set t. \<not> p r)"
  by (induction t) auto

text \<open>An update that changes neither the condition nor the rows it selects is seen by every
  later SELECT as the updated row.\<close>

lemma find_upd:
  assumes "\<And>r. q (f r) = q r"
  shows "find q (upd p f t) = map_option (\<lambda>r. if p r then f r else r) (find q t)"
  by (induction t) (auto simp: assms)

lemma sel1_upd:
  assumes "\<And>r. q (f r) = q r"
  shows "sel1 q (upd p f t) = map_sum id (\<lambda>r. if p r then f r else r) (sel1 q t)"
  by (simp add: sel1_def find_upd [of q f, OF assms] split: option.split)

lemma find_del_irrelevant: "(\<And>r. r \<in> set t \<Longrightarrow> q r \<Longrightarrow> \<not> p r) \<Longrightarrow> find q (del p t) = find q t"
  by (induction t) auto

lemma sel1_del_irrelevant: "(\<And>r. r \<in> set t \<Longrightarrow> q r \<Longrightarrow> \<not> p r) \<Longrightarrow> sel1 q (del p t) = sel1 q t"
  by (simp add: sel1_def find_del_irrelevant)

text \<open>A key is unique in a table: no two rows share it.\<close>

definition uniq_on :: "('r \<Rightarrow> 'k) \<Rightarrow> 'r list \<Rightarrow> bool" where
  "uniq_on key t = distinct (map key t)"

lemma uniq_on_Nil [simp]: "uniq_on key []"
  by (simp add: uniq_on_def)

lemma uniq_on_Cons [simp]: "uniq_on key (r # t) \<longleftrightarrow> key r \<notin> key ` set t \<and> uniq_on key t"
  by (simp add: uniq_on_def)

lemma uniq_on_del: "uniq_on key t \<Longrightarrow> uniq_on key (del p t)"
  by (induction t) (auto simp: set_del)

lemma uniq_on_upd: "(\<And>r. key (f r) = key r) \<Longrightarrow> uniq_on key (upd p f t) = uniq_on key t"
proof -
  assume k: "\<And>r. key (f r) = key r"
  have "map key (upd p f t) = map key t"
    by (induction t) (auto simp: k)
  then show ?thesis by (simp add: uniq_on_def)
qed

lemma uniq_on_append1: "uniq_on key (t @ [r]) \<longleftrightarrow> uniq_on key t \<and> key r \<notin> key ` set t"
  by (auto simp: uniq_on_def)

lemma uniq_on_eq:
  assumes "uniq_on key t" and "r \<in> set t" and "s \<in> set t" and "key r = key s"
  shows "r = s"
  using assms by (induction t) (auto, (metis imageI)+)

lemma sel1_key:
  assumes "uniq_on key t" and "r \<in> set t"
  shows "sel1 (\<lambda>x. key x = key r) t = Inr r"
  using assms by (induction t) auto

lemma sel1_append:
  "sel1 p (t @ [r]) = (case sel1 p t of Inr x \<Rightarrow> Inr x | Inl e \<Rightarrow> if p r then Inr r else Inl e)"
  by (induction t) auto

subsection \<open>Contract: a keyed table inside a state\<close>

text \<open>
  \<open>rows\<close> reads the table of a state and \<open>alter\<close> applies a statement to it. From the one
  law that a statement acts on the rows alone, a keyed lookup behaves like a finite map.
\<close>

locale table =
  fixes rows :: "'d \<Rightarrow> 'r list"
    and alter :: "('r list \<Rightarrow> 'r list) \<Rightarrow> 'd \<Rightarrow> 'd"
    and key :: "'r \<Rightarrow> 'k"
  assumes rows_alter: "rows (alter g d) = g (rows d)"
begin

lemma insert_unique:
  assumes "uniq_on key (rows d)" and "key r \<notin> key ` set (rows d)"
  shows "uniq_on key (rows (alter (\<lambda>t. t @ [r]) d))"
  using assms by (simp add: rows_alter uniq_on_append1)

lemma update_unique:
  assumes "\<And>r. key (f r) = key r"
  shows "uniq_on key (rows (alter (upd p f) d)) = uniq_on key (rows d)"
  by (simp add: rows_alter uniq_on_upd [of key f, OF assms])

lemma delete_unique: "uniq_on key (rows d) \<Longrightarrow> uniq_on key (rows (alter (del p) d))"
  by (simp add: rows_alter uniq_on_del)

lemma lookup_inserted:
  assumes "key r \<notin> key ` set (rows d)"
  shows "sel1 (\<lambda>x. key x = key r) (rows (alter (\<lambda>t. t @ [r]) d)) = Inr r"
proof -
  have "sel1 (\<lambda>x. key x = key r) (rows d) = Inl ErrNotFound"
    using assms by (force simp: sel1_Inl image_iff)
  then show ?thesis by (simp add: rows_alter sel1_append)
qed

lemma lookup_updated:
  assumes "\<And>r. key (f r) = key r"
  shows "sel1 (\<lambda>x. key x = k) (rows (alter (upd (\<lambda>x. key x = k) f) d))
     = map_sum id f (sel1 (\<lambda>x. key x = k) (rows d))"
proof -
  have "find (\<lambda>x. key x = k) (upd (\<lambda>x. key x = k) f t) = map_option f (find (\<lambda>x. key x = k) t)" for t
    by (induction t) (auto simp: assms)
  then show ?thesis by (simp add: rows_alter sel1_def split: option.split)
qed

lemma lookup_deleted: "sel1 (\<lambda>x. key x = k) (rows (alter (del (\<lambda>x. key x = k)) d)) = Inl ErrNotFound"
  by (simp add: rows_alter sel1_Inl set_del)

end

subsection \<open>Contract: a credential that can be spent once\<close>

text \<open>
  \<open>step\<close> runs one operation of a component whose states satisfy \<open>inv\<close>; \<open>spends k op d\<close>
  says that operation, run in state \<open>d\<close>, succeeds in redeeming the credential \<open>k\<close>;
  \<open>mints k op\<close> that it would create a credential under that name. \<open>dead k d\<close> is the
  component's own record that \<open>k\<close> can no longer be redeemed. From four laws, no run redeems
  one credential twice.
\<close>

locale single_use =
  fixes step :: "'op \<Rightarrow> 'd \<Rightarrow> 'd"
    and inv :: "'d \<Rightarrow> bool"
    and spends :: "'k \<Rightarrow> 'op \<Rightarrow> 'd \<Rightarrow> bool"
    and mints :: "'k \<Rightarrow> 'op \<Rightarrow> bool"
    and dead :: "'k \<Rightarrow> 'd \<Rightarrow> bool"
  assumes inv_step: "inv d \<Longrightarrow> inv (step x d)"
    and spend_kills: "inv d \<Longrightarrow> spends k x d \<Longrightarrow> dead k (step x d)"
    and dead_stays: "dead k d \<Longrightarrow> \<not> mints k x \<Longrightarrow> dead k (step x d)"
    and dead_refuses: "dead k d \<Longrightarrow> \<not> spends k x d"
begin

fun redemptions :: "'k \<Rightarrow> 'op list \<Rightarrow> 'd \<Rightarrow> nat" where
  "redemptions k [] d = 0"
| "redemptions k (x # xs) d = (if spends k x d then 1 else 0) + redemptions k xs (step x d)"

lemma dead_run:
  assumes "dead k d" and "\<forall>x \<in> set xs. \<not> mints k x"
  shows "dead k (fold step xs d)"
  using assms by (induction xs arbitrary: d) (auto simp: dead_stays)

lemma dead_never_redeemed:
  assumes "dead k d" and "\<forall>x \<in> set xs. \<not> mints k x"
  shows "redemptions k xs d = 0"
  using assms by (induction xs arbitrary: d) (auto simp: dead_refuses dead_stays)

lemma at_most_one:
  assumes "inv d" and "\<forall>x \<in> set xs. \<not> mints k x"
  shows "redemptions k xs d \<le> 1"
  using assms
proof (induction xs arbitrary: d)
  case Nil
  show ?case by simp
next
  case (Cons x xs)
  show ?case
  proof (cases "spends k x d")
    case True
    then have "redemptions k xs (step x d) = 0"
      using Cons.prems by (intro dead_never_redeemed) (auto intro: spend_kills)
    with True show ?thesis by simp
  next
    case False
    with Cons show ?thesis by (simp add: inv_step)
  qed
qed

end

subsection \<open>Contract: an encoding and its decoder\<close>

locale codec =
  fixes encode :: "'a \<Rightarrow> 'b"
    and decode :: "'b \<Rightarrow> 'a option"
    and valid :: "'a \<Rightarrow> bool"
  assumes decode_encode: "valid x \<Longrightarrow> decode (encode x) = Some x"
begin

lemma encode_injective: "valid x \<Longrightarrow> valid y \<Longrightarrow> encode x = encode y \<Longrightarrow> x = y"
  by (metis decode_encode option.inject)

end

end
