(* ===== verification/GoStd.thy ===== *)
theory GoStd
  imports Prelude
begin

text \<open>
  The parts of Go's standard library the program rests on: strings as byte sequences,
  UTF-8 decoding, white space, case folding, splitting and decimal numbers.

  A Go string is a sequence of bytes; an Isabelle \<open>string\<close> is a list of 8-bit characters,
  so \<open>length\<close> counts bytes exactly as \<open>len\<close> does. Case folding is exact for every
  result that is ASCII: ASCII letters, and the four other code points whose upper or
  lower case is an ASCII letter; every other code point is left as it is.
\<close>

subsection \<open>Runes\<close>

abbreviation byte :: "char \<Rightarrow> nat" where "byte c \<equiv> of_char c"

definition cont_byte :: "nat \<Rightarrow> nat \<Rightarrow> char \<Rightarrow> bool" where
  "cont_byte lo hi c \<longleftrightarrow> lo \<le> byte c \<and> byte c \<le> hi"

definition RuneError :: nat where "RuneError = 65533"

text \<open>\<open>utf8.DecodeRuneInString\<close>: the first code point and its width; an invalid sequence is
  one byte wide and decodes to U+FFFD.\<close>

definition DecodeRune :: "string \<Rightarrow> nat \<times> nat" where
  "DecodeRune s = (case s of [] \<Rightarrow> (RuneError, 0) | c # r \<Rightarrow>
     (let a = byte c; second = (\<lambda>lo hi. r \<noteq> [] \<and> cont_byte lo hi (r ! 0));
          third = (1 < length r \<and> cont_byte 128 191 (r ! 1));
          fourth = (2 < length r \<and> cont_byte 128 191 (r ! 2))
      in if a < 128 then (a, 1)
         else if 194 \<le> a \<and> a \<le> 223 \<and> second 128 191 then
           ((a - 192) * 64 + (byte (r ! 0) - 128), 2)
         else if 224 \<le> a \<and> a \<le> 239 \<and> second (if a = 224 then 160 else 128) (if a = 237 then 159 else 191)
              \<and> third then
           ((a - 224) * 4096 + (byte (r ! 0) - 128) * 64 + (byte (r ! 1) - 128), 3)
         else if 240 \<le> a \<and> a \<le> 244 \<and> second (if a = 240 then 144 else 128) (if a = 244 then 143 else 191)
              \<and> third \<and> fourth then
           ((a - 240) * 262144 + (byte (r ! 0) - 128) * 4096 + (byte (r ! 1) - 128) * 64
              + (byte (r ! 2) - 128), 4)
         else (RuneError, 1)))"

text \<open>The code points of a string, each with the bytes that encode it (\<open>for _, r := range s\<close>).\<close>

function runes :: "string \<Rightarrow> (nat \<times> string) list" where
  "runes [] = []"
| "runes (c # cs) = (let (r, w) = DecodeRune (c # cs) in (r, take w (c # cs)) # runes (drop (w - 1) cs))"
  by pat_completeness auto
termination
  by (relation "measure length") auto

declare runes.simps(2) [simp del]

definition ascii :: "string \<Rightarrow> bool" where
  "ascii s \<longleftrightarrow> list_all (\<lambda>c. byte c < 128) s"

lemma runes_ascii_Cons: "byte c < 128 \<Longrightarrow> runes (c # cs) = (byte c, [c]) # runes cs"
  by (simp add: runes.simps(2) DecodeRune_def)

lemma runes_ascii: "ascii s \<Longrightarrow> runes s = map (\<lambda>c. (byte c, [c])) s"
  by (induction s) (auto simp: ascii_def runes_ascii_Cons)

definition rune_count :: "string \<Rightarrow> nat" where
  "rune_count s = length (runes s)"

text \<open>\<open>unicode.IsSpace\<close>.\<close>

definition IsSpace :: "nat \<Rightarrow> bool" where
  "IsSpace r \<longleftrightarrow> (9 \<le> r \<and> r \<le> 13) \<or> r = 32 \<or> r = 133 \<or> r = 160 \<or> r = 5760 \<or> (8192 \<le> r \<and> r \<le> 8202)
     \<or> r = 8232 \<or> r = 8233 \<or> r = 8239 \<or> r = 8287 \<or> r = 12288"

definition TrimSpace :: "string \<Rightarrow> string" where
  "TrimSpace s = concat (map snd (rev (dropWhile (IsSpace \<circ> fst)
     (rev (dropWhile (IsSpace \<circ> fst) (runes s))))))"

lemma TrimSpace_no_space:
  assumes "ascii s" and "\<forall>c \<in> set s. \<not> IsSpace (byte c)"
  shows "TrimSpace s = s"
proof -
  have d: "dropWhile (IsSpace \<circ> fst) (map (\<lambda>c. (byte c, [c])) t) = map (\<lambda>c. (byte c, [c])) t"
    if "\<forall>c \<in> set t. \<not> IsSpace (byte c)" for t
    using that by (cases t) auto
  have "concat (map (\<lambda>c. [c]) t) = t" for t :: string
    by (induction t) auto
  then show ?thesis
    using assms d [of s] d [of "rev s"] by (simp add: TrimSpace_def runes_ascii rev_map comp_def)
qed

text \<open>\<open>strings.Fields\<close>: the maximal runs of code points that are not white space.\<close>

fun fields_from :: "(nat \<times> string) list \<Rightarrow> string \<Rightarrow> string list" where
  "fields_from [] cur = (if cur = [] then [] else [cur])"
| "fields_from ((r, b) # rs) cur =
     (if IsSpace r then (if cur = [] then fields_from rs [] else cur # fields_from rs [])
      else fields_from rs (cur @ b))"

definition Fields :: "string \<Rightarrow> string list" where
  "Fields s = fields_from (runes s) []"

lemma Fields_Nil [simp]: "Fields [] = []"
  by (simp add: Fields_def)

fun intercalate :: "string \<Rightarrow> string list \<Rightarrow> string" where
  "intercalate sep [] = []"
| "intercalate sep [s] = s"
| "intercalate sep (s # t # ss) = s @ sep @ intercalate sep (t # ss)"

text \<open>A word is a non-empty ASCII string without white space; joining words with blanks and
  splitting the result gives the words back.\<close>

definition word_str :: "string \<Rightarrow> bool" where
  "word_str s \<longleftrightarrow> s \<noteq> [] \<and> list_all (\<lambda>c. byte c < 128 \<and> \<not> IsSpace (byte c)) s"

lemma fields_from_word:
  "list_all (\<lambda>c. byte c < 128 \<and> \<not> IsSpace (byte c)) w \<Longrightarrow>
     fields_from (runes (w @ s)) cur = fields_from (runes s) (cur @ w)"
  by (induction w arbitrary: cur) (auto simp: runes_ascii_Cons)

lemma fields_from_space:
  "cur \<noteq> [] \<Longrightarrow> fields_from (runes (CHR '' '' # s)) cur = cur # fields_from (runes s) []"
  by (simp add: runes_ascii_Cons IsSpace_def)

lemma Fields_word: "word_str w \<Longrightarrow> Fields w = [w]"
  using fields_from_word [of w "[]" "[]"] by (simp add: Fields_def word_str_def)

lemma Fields_word_blank: "word_str w \<Longrightarrow> Fields (w @ '' '' @ s) = w # Fields s"
  using fields_from_word [of w "'' '' @ s" "[]"] fields_from_space [of w s]
  by (simp add: Fields_def word_str_def)

lemma Fields_intercalate: "list_all word_str ws \<Longrightarrow> Fields (intercalate '' '' ws) = ws"
proof (induction ws rule: induct_list012)
  case (3 a b ws)
  then show ?case using Fields_word_blank [of a] by simp
qed (auto simp: Fields_word)

subsection \<open>Case, prefixes, splitting\<close>

definition ToUpper :: "string \<Rightarrow> string" where
  "ToUpper s = concat (map (\<lambda>(r, b). if 97 \<le> r \<and> r \<le> 122 then [char_of (r - 32)]
     else if r = 305 then ''I'' else if r = 383 then ''S'' else b) (runes s))"

definition ToLower :: "string \<Rightarrow> string" where
  "ToLower s = concat (map (\<lambda>(r, b). if 65 \<le> r \<and> r \<le> 90 then [char_of (r + 32)]
     else if r = 304 then ''i'' else if r = 8490 then ''k'' else b) (runes s))"

definition lower_char :: "char \<Rightarrow> char" where
  "lower_char c = (if 65 \<le> byte c \<and> byte c \<le> 90 then char_of (byte c + 32) else c)"

definition upper_char :: "char \<Rightarrow> char" where
  "upper_char c = (if 97 \<le> byte c \<and> byte c \<le> 122 then char_of (byte c - 32) else c)"

lemma concat_map_singleton: "concat (map (\<lambda>x. [f x]) xs) = map f xs"
  by (induction xs) auto

lemma ToLower_ascii:
  assumes "ascii s"
  shows "ToLower s = map lower_char s"
proof -
  have "ToLower s = concat (map (\<lambda>c. [lower_char c]) s)"
    unfolding ToLower_def runes_ascii [OF assms] map_map comp_def using assms
    by (intro arg_cong [where f = concat] map_cong refl)
       (auto simp: lower_char_def ascii_def list_all_iff)
  then show ?thesis by (simp add: concat_map_singleton)
qed

lemma ToUpper_ascii:
  assumes "ascii s"
  shows "ToUpper s = map upper_char s"
proof -
  have "ToUpper s = concat (map (\<lambda>c. [upper_char c]) s)"
    unfolding ToUpper_def runes_ascii [OF assms] map_map comp_def using assms
    by (intro arg_cong [where f = concat] map_cong refl)
       (auto simp: upper_char_def ascii_def list_all_iff)
  then show ?thesis by (simp add: concat_map_singleton)
qed

definition HasPrefix :: "string \<Rightarrow> string \<Rightarrow> bool" where
  "HasPrefix s p \<longleftrightarrow> take (length p) s = p"

definition CutPrefix :: "string \<Rightarrow> string \<Rightarrow> string option" where
  "CutPrefix s p = (if HasPrefix s p then Some (drop (length p) s) else None)"

text \<open>\<open>strings.TrimRight(s, "/")\<close> and \<open>strings.ReplaceAll(s, c, "")\<close> for one ASCII character.\<close>

definition TrimRight :: "char \<Rightarrow> string \<Rightarrow> string" where
  "TrimRight c s = rev (dropWhile (\<lambda>d. d = c) (rev s))"

definition RemoveAll :: "char \<Rightarrow> string \<Rightarrow> string" where
  "RemoveAll c s = filter (\<lambda>d. d \<noteq> c) s"

text \<open>\<open>strings.Split(s, sep)\<close> for a one-character separator.\<close>

fun split_on :: "char \<Rightarrow> string \<Rightarrow> string list" where
  "split_on c [] = [[]]"
| "split_on c (d # s) = (if d = c then [] # split_on c s
     else (case split_on c s of [] \<Rightarrow> [[d]] | t # ts \<Rightarrow> (d # t) # ts))"

lemma split_on_not_Nil [simp]: "split_on c s \<noteq> []"
  by (induction s) (auto split: list.split)

lemma split_on_no_sep: "c \<notin> set s \<Longrightarrow> split_on c s = [s]"
  by (induction s) auto

lemma split_on_append: "c \<notin> set s \<Longrightarrow> split_on c (s @ c # t) = s # split_on c t"
  by (induction s) auto

subsection \<open>Decimal numbers\<close>

definition digit_char :: "nat \<Rightarrow> char" where
  "digit_char d = char_of (48 + d)"

definition is_digit :: "char \<Rightarrow> bool" where
  "is_digit c \<longleftrightarrow> 48 \<le> byte c \<and> byte c \<le> 57"

definition digit_val :: "char \<Rightarrow> nat" where
  "digit_val c = byte c - 48"

fun itoa :: "nat \<Rightarrow> string" where
  "itoa n = (if n < 10 then [digit_char n] else itoa (n div 10) @ [digit_char (n mod 10)])"

declare itoa.simps [simp del]

definition dec_val :: "string \<Rightarrow> nat" where
  "dec_val s = fold (\<lambda>c v. 10 * v + digit_val c) s 0"

lemma digit_val_char: "d < 10 \<Longrightarrow> digit_val (digit_char d) = d"
  by (simp add: digit_val_def digit_char_def)

lemma is_digit_char: "d < 10 \<Longrightarrow> is_digit (digit_char d)"
  by (simp add: is_digit_def digit_char_def)

lemma dec_val_itoa: "dec_val (itoa n) = n"
proof (induction n rule: itoa.induct)
  case (1 n)
  then show ?case
    by (cases "n < 10") (auto simp: itoa.simps [of n] dec_val_def digit_val_char)
qed

lemma itoa_digits: "list_all is_digit (itoa n)"
proof (induction n rule: itoa.induct)
  case (1 n)
  then show ?case
    by (cases "n < 10") (auto simp: itoa.simps [of n] is_digit_char)
qed

lemma itoa_not_Nil [simp]: "itoa n \<noteq> []"
  by (subst itoa.simps) simp

end
