(* ===== verification/RateLimit.thy ===== *)
theory RateLimit
  imports GoStd
begin

text \<open>
  The fixed-window limiter of failed attempts (\<open>internal/web/ratelimit.go\<close>). The map of
  windows is a partial function; every operation takes the limiter's clock reading \<open>now\<close>
  and runs under the limiter's lock, so operations never interleave.

  The refinement target forgets the clean-up of expired windows: \<open>rl_budget\<close> says how many
  attempts a key has used at an instant, and every operation is described by it alone.
\<close>

definition defaultLoginMaxAttempts :: int where "defaultLoginMaxAttempts = 5"
definition defaultLoginIPMaxAttempts :: int where "defaultLoginIPMaxAttempts = 20"
definition defaultRateLimitWindow :: duration where "defaultRateLimitWindow = 15 * Minute"
definition defaultPasswordVerifyConcurrency :: int where "defaultPasswordVerifyConcurrency = 4"
definition defaultMaxLoginUsernameBytes :: int where "defaultMaxLoginUsernameBytes = 320"
definition defaultMaxLoginPasswordBytes :: int where "defaultMaxLoginPasswordBytes = 1024"

record window =
  w_count :: int
  w_resetAt :: time

record rateLimiter =
  rl_windows :: "string \<Rightarrow> window option"
  rl_lastReap :: time

definition newRateLimiter :: rateLimiter where
  "newRateLimiter = \<lparr>rl_windows = (\<lambda>_. None), rl_lastReap = 0\<rparr>"

definition normalizeLimit :: "int \<Rightarrow> duration \<Rightarrow> int \<times> duration" where
  "normalizeLimit mx ttl = (if mx < 1 then defaultLoginMaxAttempts else mx,
     if ttl \<le> 0 then defaultRateLimitWindow else ttl)"

definition reap :: "time \<Rightarrow> duration \<Rightarrow> rateLimiter \<Rightarrow> rateLimiter" where
  "reap now ttl rl = (if time_Sub now (rl_lastReap rl) < ttl then rl
     else \<lparr>rl_windows = (\<lambda>k. case rl_windows rl k of None \<Rightarrow> None
              | Some w \<Rightarrow> if After now (w_resetAt w) then None else Some w),
           rl_lastReap = now\<rparr>)"

definition Allowed :: "string \<Rightarrow> int \<Rightarrow> duration \<Rightarrow> time \<Rightarrow> rateLimiter \<Rightarrow> bool \<times> rateLimiter" where
  "Allowed key mx ttl now rl =
     (let (mx', ttl') = normalizeLimit mx ttl;
          rl' = reap now ttl' rl
      in case rl_windows rl' key of
           None \<Rightarrow> (True, rl')
         | Some w \<Rightarrow> (if After now (w_resetAt w) then True else w_count w < mx', rl'))"

definition Fail :: "string \<Rightarrow> duration \<Rightarrow> time \<Rightarrow> rateLimiter \<Rightarrow> rateLimiter" where
  "Fail key ttl now rl =
     (let (_, ttl') = normalizeLimit 1 ttl;
          rl' = reap now ttl' rl;
          fresh = rl'\<lparr>rl_windows := (rl_windows rl')(key \<mapsto> \<lparr>w_count = 1, w_resetAt = now + ttl'\<rparr>)\<rparr>
      in case rl_windows rl' key of
           None \<Rightarrow> fresh
         | Some w \<Rightarrow> if After now (w_resetAt w) then fresh
             else rl'\<lparr>rl_windows := (rl_windows rl')(key \<mapsto> w\<lparr>w_count := w_count w + 1\<rparr>)\<rparr>)"

definition Reset :: "string \<Rightarrow> rateLimiter \<Rightarrow> rateLimiter" where
  "Reset key rl = rl\<lparr>rl_windows := (rl_windows rl)(key := None)\<rparr>"

subsection \<open>Refinement\<close>

text \<open>The window of a key that is still open at an instant.\<close>

definition open_window :: "rateLimiter \<Rightarrow> time \<Rightarrow> string \<Rightarrow> window option" where
  "open_window rl now k = (case rl_windows rl k of None \<Rightarrow> None
     | Some w \<Rightarrow> if After now (w_resetAt w) then None else Some w)"

definition rl_budget :: "rateLimiter \<Rightarrow> time \<Rightarrow> string \<Rightarrow> int" where
  "rl_budget rl now k = (case open_window rl now k of None \<Rightarrow> 0 | Some w \<Rightarrow> w_count w)"

lemma open_window_reap: "now \<le> t \<Longrightarrow> open_window (reap now ttl rl) t k = open_window rl t k"
  by (auto simp: open_window_def reap_def split: option.split)

lemma Allowed_iff: "fst (Allowed key mx ttl now rl) \<longleftrightarrow>
    open_window rl now key = None \<or> rl_budget rl now key < fst (normalizeLimit mx ttl)"
proof -
  have "fst (Allowed key mx ttl now rl) \<longleftrightarrow> (case open_window (reap now (snd (normalizeLimit mx ttl)) rl) now key of
      None \<Rightarrow> True | Some w \<Rightarrow> w_count w < fst (normalizeLimit mx ttl))"
    by (auto simp: Allowed_def open_window_def Let_def split_beta split: option.split)
  then show ?thesis by (simp add: open_window_reap rl_budget_def split: option.split)
qed

lemma open_window_Allowed: "now \<le> t \<Longrightarrow> open_window (snd (Allowed key mx ttl now rl)) t k = open_window rl t k"
  by (simp add: Allowed_def Let_def split_beta open_window_reap split: option.split)

lemma open_window_Fail:
  assumes "now \<le> t"
  shows "open_window (Fail key ttl now rl) t k =
    (if k \<noteq> key then open_window rl t k
     else (let w = (case open_window rl now key of
              None \<Rightarrow> \<lparr>w_count = 1, w_resetAt = now + snd (normalizeLimit 1 ttl)\<rparr>
            | Some w \<Rightarrow> w\<lparr>w_count := w_count w + 1\<rparr>)
           in if After t (w_resetAt w) then None else Some w))"
proof -
  let ?rl = "reap now (snd (normalizeLimit 1 ttl)) rl"
  have o: "open_window ?rl u j = open_window rl u j" if "now \<le> u" for u j
    using that by (rule open_window_reap)
  have "open_window (Fail key ttl now rl) t k =
    (if k \<noteq> key then open_window ?rl t k
     else (let w = (case open_window ?rl now key of
              None \<Rightarrow> \<lparr>w_count = 1, w_resetAt = now + snd (normalizeLimit 1 ttl)\<rparr>
            | Some w \<Rightarrow> w\<lparr>w_count := w_count w + 1\<rparr>)
           in if After t (w_resetAt w) then None else Some w))"
    by (auto simp: Fail_def open_window_def Let_def split_beta split: option.split)
  then show ?thesis using o assms by simp
qed

lemma open_window_Reset: "open_window (Reset key rl) t k = (if k = key then None else open_window rl t k)"
  by (simp add: open_window_def Reset_def)

text \<open>C39: The clean-up of expired windows is invisible: what the limiter answers, and what a failure or
  a success changes, is a function of the windows still open, and of the failing key alone.\<close>

theorem limiter_refines_budget:
  assumes "now \<le> t"
  shows "(fst (Allowed key mx ttl now rl) \<longleftrightarrow>
      open_window rl now key = None \<or> rl_budget rl now key < fst (normalizeLimit mx ttl))
    \<and> open_window (snd (Allowed key mx ttl now rl)) t k = open_window rl t k
    \<and> (k \<noteq> key \<longrightarrow> open_window (Fail key ttl now rl) t k = open_window rl t k)
    \<and> rl_budget (Fail key ttl now rl) now key = rl_budget rl now key + 1
    \<and> rl_budget (Reset key rl) t key = 0 \<and> (k \<noteq> key \<longrightarrow> open_window (Reset key rl) t k = open_window rl t k)"
proof -
  have "0 < snd (normalizeLimit 1 ttl)"
    by (simp add: normalizeLimit_def defaultRateLimitWindow_def)
  moreover have "\<not> After now (w_resetAt w)" if "open_window rl now key = Some w" for w
    using that by (auto simp: open_window_def split: option.splits if_splits)
  ultimately have "rl_budget (Fail key ttl now rl) now key = rl_budget rl now key + 1"
    by (auto simp: rl_budget_def open_window_Fail Let_def split: option.split)
  then show ?thesis
    using assms by (simp add: Allowed_iff open_window_Allowed open_window_Fail open_window_Reset rl_budget_def)
qed

subsection \<open>The bound\<close>

text \<open>An attacker's attempts on one key: each is admitted when \<open>Allowed\<close> says so, and then fails.
  The result counts the admitted ones.\<close>

fun guesses :: "string \<Rightarrow> int \<Rightarrow> duration \<Rightarrow> time list \<Rightarrow> rateLimiter \<Rightarrow> int" where
  "guesses key mx ttl [] rl = 0"
| "guesses key mx ttl (t # ts) rl = (let (ok, rl') = Allowed key mx ttl t rl
     in if ok then 1 + guesses key mx ttl ts (Fail key ttl t rl') else guesses key mx ttl ts rl')"

lemma guesses_open:
  assumes "open_window rl t0 key = Some w" and "\<forall>t \<in> set ts. t0 \<le> t \<and> t \<le> w_resetAt w" and "sorted ts"
    and "w_count w \<le> fst (normalizeLimit mx ttl)"
  shows "guesses key mx ttl ts rl \<le> fst (normalizeLimit mx ttl) - w_count w"
  using assms
proof (induction ts arbitrary: rl w t0)
  case (Cons t ts)
  have win: "rl_windows rl key = Some w" using Cons.prems(1)
    by (auto simp: open_window_def split: option.splits if_splits)
  have t: "t0 \<le> t" "t \<le> w_resetAt w" using Cons.prems(2) by auto
  then have o: "open_window rl t key = Some w" using win by (simp add: open_window_def)
  let ?rl = "snd (Allowed key mx ttl t rl)"
  have o': "open_window ?rl t key = Some w" using o by (simp add: open_window_Allowed)
  show ?case
  proof (cases "fst (Allowed key mx ttl t rl)")
    case True
    then have c: "w_count w < fst (normalizeLimit mx ttl)" using o by (simp add: Allowed_iff rl_budget_def)
    have "open_window (Fail key ttl t ?rl) t key = Some (w\<lparr>w_count := w_count w + 1\<rparr>)"
      using o' t by (simp add: open_window_Fail)
    then have "guesses key mx ttl ts (Fail key ttl t ?rl) \<le> fst (normalizeLimit mx ttl) - (w_count w + 1)"
      using Cons.IH [of "Fail key ttl t ?rl" t "w\<lparr>w_count := w_count w + 1\<rparr>"] Cons.prems(2,3) c by auto
    with True show ?thesis by (simp add: split_beta)
  next
    case False
    have "guesses key mx ttl ts ?rl \<le> fst (normalizeLimit mx ttl) - w_count w"
      using Cons.IH [OF o'] Cons.prems by auto
    with False show ?thesis by (simp add: split_beta)
  qed
qed simp

lemma guesses_closed:
  assumes "open_window rl t0 key = None" and "\<forall>t \<in> set ts. t0 \<le> t \<and> t \<le> t0 + snd (normalizeLimit 1 ttl)" and "sorted ts"
  shows "guesses key mx ttl ts rl \<le> fst (normalizeLimit mx ttl)"
proof (cases ts)
  case Nil
  then show ?thesis by (simp add: normalizeLimit_def defaultLoginMaxAttempts_def)
next
  case (Cons t us)
  have "open_window rl t key = None"
    using assms(1,2) Cons by (auto simp: open_window_def split: option.splits if_splits)
  then have a: "fst (Allowed key mx ttl t rl)" and o: "open_window (snd (Allowed key mx ttl t rl)) t key = None"
    by (simp_all add: Allowed_iff open_window_Allowed)
  let ?rl = "Fail key ttl t (snd (Allowed key mx ttl t rl))"
  let ?w = "\<lparr>w_count = 1, w_resetAt = t + snd (normalizeLimit 1 ttl)\<rparr>"
  have "0 < snd (normalizeLimit 1 ttl)" by (simp add: normalizeLimit_def defaultRateLimitWindow_def)
  then have "open_window ?rl t key = Some ?w" using o by (simp add: open_window_Fail)
  moreover have "\<forall>u \<in> set us. t \<le> u \<and> u \<le> w_resetAt ?w" using assms(2,3) Cons by auto
  moreover have "1 \<le> fst (normalizeLimit mx ttl)" by (simp add: normalizeLimit_def defaultLoginMaxAttempts_def)
  ultimately have "guesses key mx ttl us ?rl \<le> fst (normalizeLimit mx ttl) - 1"
    using guesses_open [of ?rl t key ?w us mx ttl] assms(3) Cons by simp
  then show ?thesis using Cons a by (simp add: split_beta)
qed

text \<open>C40: From a state in which a key has no open window, no sequence of failing attempts within one
  window length is admitted more often than the configured maximum, whatever clean-ups run and
  whatever limits are configured (non-positive ones fall back to the defaults).\<close>

theorem failed_attempts_bounded:
  assumes "open_window rl t0 key = None"
    and "\<forall>t \<in> set ts. t0 \<le> t \<and> t \<le> t0 + snd (normalizeLimit 1 ttl)" and "sorted ts"
  shows "guesses key mx ttl ts rl \<le> fst (normalizeLimit mx ttl)"
  using assms by (rule guesses_closed)

theorem failed_attempts_bounded_witness:
  "guesses ''k'' 2 10 [5, 6, 7, 8] newRateLimiter = 2"
proof (rule antisym)
  have "guesses ''k'' 2 10 [5, 6, 7, 8] newRateLimiter \<le> fst (normalizeLimit 2 10)"
    by (rule failed_attempts_bounded [of _ 5])
       (simp_all add: open_window_def newRateLimiter_def normalizeLimit_def)
  then show "guesses ''k'' 2 10 [5, 6, 7, 8] newRateLimiter \<le> 2" by (simp add: normalizeLimit_def)
qed (simp add: Allowed_def Fail_def reap_def newRateLimiter_def normalizeLimit_def time_Sub_def)

theorem limiter_refines_budget_witness:
  "rl_budget (Fail ''k'' 10 5 newRateLimiter) 5 ''k'' = 1"
  using limiter_refines_budget [of 5 5 "''k''" 3 10 newRateLimiter "''k''"]
  by (simp add: rl_budget_def open_window_def newRateLimiter_def)

end
