(* ===== verification/GoUrl.thy ===== *)
theory GoUrl
  imports GoStd
begin

text \<open>
  The parts of \<open>net/url\<close> and of the address parsers of \<open>net\<close> and \<open>net/netip\<close> (Go 1.26) that decide
  which redirect targets and DPoP targets the program accepts: \<open>url.Parse\<close>, \<open>URL.Hostname\<close>,
  \<open>URL.Port\<close>, IP literals and \<open>IP.IsLoopback\<close>. \<open>None\<close> is an error.
\<close>

subsection \<open>Cutting strings\<close>

definition before :: "char \<Rightarrow> string \<Rightarrow> string" where
  "before c s = takeWhile (\<lambda>d. d \<noteq> c) s"

definition after :: "char \<Rightarrow> string \<Rightarrow> string" where
  "after c s = drop 1 (dropWhile (\<lambda>d. d \<noteq> c) s)"

definition before_last :: "char \<Rightarrow> string \<Rightarrow> string" where
  "before_last c s = rev (after c (rev s))"

definition after_last :: "char \<Rightarrow> string \<Rightarrow> string" where
  "after_last c s = rev (before c (rev s))"

lemma before_append [simp]: "c \<notin> set s \<Longrightarrow> before c (s @ c # t) = s"
  by (induction s) (auto simp: before_def)

lemma before_none [simp]: "c \<notin> set s \<Longrightarrow> before c s = s"
  by (induction s) (auto simp: before_def)

lemma after_append [simp]: "c \<notin> set s \<Longrightarrow> after c (s @ c # t) = t"
  by (induction s) (auto simp: after_def)

lemma after_none [simp]: "c \<notin> set s \<Longrightarrow> after c s = []"
  by (induction s) (auto simp: after_def)

lemma cut_last_append [simp]: "c \<notin> set t \<Longrightarrow> before_last c (s @ c # t) = s \<and> after_last c (s @ c # t) = t"
  by (simp add: before_last_def after_last_def)

subsection \<open>IP addresses\<close>

definition hex_digit :: "char \<Rightarrow> nat option" where
  "hex_digit c = (let b = byte c in
     if 48 \<le> b \<and> b \<le> 57 then Some (b - 48) else if 97 \<le> b \<and> b \<le> 102 then Some (b - 87)
     else if 65 \<le> b \<and> b \<le> 70 then Some (b - 55) else None)"

definition is_hex :: "char \<Rightarrow> bool" where "is_hex c \<longleftrightarrow> hex_digit c \<noteq> None"

definition hex_val :: "string \<Rightarrow> nat" where
  "hex_val s = foldl (\<lambda>a c. 16 * a + the (hex_digit c)) 0 s"

text \<open>A dotted quad: four decimal numbers below 256 without leading zeros.\<close>

definition ip4_field :: "string \<Rightarrow> nat option" where
  "ip4_field s = (if s \<noteq> [] \<and> list_all is_digit s \<and> (length s = 1 \<or> hd s \<noteq> CHR ''0'') \<and> dec_val s < 256
     then Some (dec_val s) else None)"

definition ParseIPv4 :: "string \<Rightarrow> nat list option" where
  "ParseIPv4 s = (case map ip4_field (split_on CHR ''.'' s) of
     [Some a, Some b, Some c, Some d] \<Rightarrow> Some [a, b, c, d] | _ \<Rightarrow> None)"

text \<open>Groups of an IPv6 address; the last may be a dotted quad when \<open>v4\<close> holds.\<close>

fun ip6_groups :: "bool \<Rightarrow> string list \<Rightarrow> nat list option" where
  "ip6_groups v4 [] = Some []"
| "ip6_groups v4 (g # gs) = (if g \<noteq> [] \<and> length g \<le> 4 \<and> list_all is_hex g
     then map_option (\<lambda>r. hex_val g # r) (ip6_groups v4 gs)
     else if v4 \<and> gs = [] then map_option (\<lambda>q. [256 * q ! 0 + q ! 1, 256 * q ! 2 + q ! 3]) (ParseIPv4 g)
     else None)"

fun cut_ellipsis :: "string \<Rightarrow> (string \<times> string) option" where
  "cut_ellipsis (a # b # s) = (if a = CHR '':'' \<and> b = CHR '':'' then Some ([], s)
     else map_option (\<lambda>(l, r). (a # l, r)) (cut_ellipsis (b # s)))"
| "cut_ellipsis _ = None"

definition colon_parts :: "string \<Rightarrow> string list" where
  "colon_parts s = (if s = [] then [] else split_on CHR '':'' s)"

text \<open>The eight 16-bit groups of an address without a zone.\<close>

definition ParseIPv6 :: "string \<Rightarrow> nat list option" where
  "ParseIPv6 s = (case cut_ellipsis s of
     None \<Rightarrow> (case ip6_groups True (colon_parts s) of
        Some gs \<Rightarrow> if length gs = 8 then Some gs else None | None \<Rightarrow> None)
   | Some (l, r) \<Rightarrow> (case (ip6_groups False (colon_parts l), ip6_groups True (colon_parts r)) of
        (Some a, Some b) \<Rightarrow> if length a + length b \<le> 7 then Some (a @ replicate (8 - length a - length b) 0 @ b) else None
      | _ \<Rightarrow> None))"

text \<open>\<open>netip.ParseAddr\<close> accepts an IPv6 address with an optional non-empty zone.\<close>

definition ip6_literal :: "string \<Rightarrow> bool" where
  "ip6_literal s \<longleftrightarrow> CHR '':'' \<in> set (before CHR ''%'' s) \<and> ParseIPv6 (before CHR ''%'' s) \<noteq> None
     \<and> (CHR ''%'' \<in> set s \<longrightarrow> after CHR ''%'' s \<noteq> [])"

text \<open>\<open>net.ParseIP(s)\<close> followed by \<open>IsLoopback\<close>: 127.0.0.0/8, also IPv4-mapped, and ::1.\<close>

definition ip_loopback :: "string \<Rightarrow> bool" where
  "ip_loopback s \<longleftrightarrow> (case ParseIPv4 s of Some q \<Rightarrow> hd q = 127
     | None \<Rightarrow> (case ParseIPv6 s of None \<Rightarrow> False
        | Some gs \<Rightarrow> gs = [0, 0, 0, 0, 0, 0, 0, 1] \<or> (take 6 gs = [0, 0, 0, 0, 0, 65535] \<and> gs ! 6 div 256 = 127)))"

subsection \<open>Escapes\<close>

datatype enc_mode = encodePath | encodeUserPassword | encodeFragment | encodeHost | encodeZone | encodeQueryComponent

definition host_char :: "char \<Rightarrow> bool" where
  "host_char c \<longleftrightarrow> (let b = byte c in (97 \<le> b \<and> b \<le> 122) \<or> (65 \<le> b \<and> b \<le> 90) \<or> (48 \<le> b \<and> b \<le> 57)
     \<or> c \<in> set ''!$&()*+,;=:[]<>-_.~'' \<or> b = 34 \<or> b = 39)"

fun unescape :: "enc_mode \<Rightarrow> string \<Rightarrow> string option" where
  "unescape m [] = Some []"
| "unescape m (c # s) =
    (if c = CHR ''%'' then
       (case s of
          a # b # r \<Rightarrow>
            (if \<not> is_hex a \<or> \<not> is_hex b then None
             else (let v = 16 * the (hex_digit a) + the (hex_digit b) in
               if m = encodeHost \<and> the (hex_digit a) < 8 \<and> v \<noteq> 37 then None
               else if m = encodeZone \<and> v \<noteq> 37 \<and> v \<noteq> 32 \<and> \<not> host_char (char_of v) then None
               else map_option (\<lambda>t. char_of v # t) (unescape m r)))
        | _ \<Rightarrow> None)
     else if (m = encodeHost \<or> m = encodeZone) \<and> byte c < 128 \<and> \<not> host_char c then None
     else map_option (\<lambda>t. (if c = CHR ''+'' \<and> m = encodeQueryComponent then CHR '' '' else c) # t) (unescape m s))"

lemma unescape_plain: "CHR ''%'' \<notin> set s \<Longrightarrow> m \<notin> {encodeHost, encodeZone, encodeQueryComponent} \<Longrightarrow> unescape m s = Some s"
  by (induction s) auto

lemma unescape_host: "list_all (\<lambda>c. host_char c \<and> c \<noteq> CHR ''%'') s \<Longrightarrow> m \<noteq> encodeQueryComponent \<Longrightarrow> unescape m s = Some s"
  by (induction s) auto

subsection \<open>url.Parse\<close>

record url =
  u_Scheme :: string
  u_Opaque :: string
  u_User :: "(string \<times> string option) option"
  u_Host :: string
  u_Path :: string
  u_RawPath :: string
  u_OmitHost :: bool
  u_ForceQuery :: bool
  u_RawQuery :: string
  u_Fragment :: string
  u_RawFragment :: string

definition alpha :: "char \<Rightarrow> bool" where
  "alpha c \<longleftrightarrow> (let b = byte c in (97 \<le> b \<and> b \<le> 122) \<or> (65 \<le> b \<and> b \<le> 90))"

text \<open>\<open>getScheme\<close>: scheme and rest; a string without a valid scheme has the empty one, a leading colon
  is an error.\<close>

definition scheme_char :: "char \<Rightarrow> bool" where
  "scheme_char c \<longleftrightarrow> alpha c \<or> is_digit c \<or> c \<in> set ''+-.''"

definition getScheme :: "string \<Rightarrow> (string \<times> string) option" where
  "getScheme s = (let sch = takeWhile scheme_char s; r = dropWhile scheme_char s in
     if s \<noteq> [] \<and> hd s = CHR '':'' then None
     else if sch \<noteq> [] \<and> alpha (hd sch) \<and> r \<noteq> [] \<and> hd r = CHR '':'' then Some (sch, tl r)
     else Some ([], s))"

definition validOptionalPort :: "string \<Rightarrow> bool" where
  "validOptionalPort p \<longleftrightarrow> p = [] \<or> (hd p = CHR '':'' \<and> list_all is_digit (tl p))"

definition is_postgres :: "string \<Rightarrow> bool" where
  "is_postgres scheme \<longleftrightarrow> scheme = ''postgresql'' \<or> scheme = ''postgres''"

fun cut_zone :: "string \<Rightarrow> (string \<times> string) option" where
  "cut_zone (a # b # c # s) = (if [a, b, c] = ''%25'' then Some ([], a # b # c # s)
     else map_option (\<lambda>(l, r). (a # l, r)) (cut_zone (b # c # s)))"
| "cut_zone _ = None"

definition opt_append :: "string option \<Rightarrow> string option \<Rightarrow> string option" where
  "opt_append a b = (case a of None \<Rightarrow> None | Some x \<Rightarrow> map_option (\<lambda>y. x @ y) b)"

definition parseHost :: "string \<Rightarrow> string \<Rightarrow> string option" where
  "parseHost scheme host =
    (if CHR ''['' \<in> set host then
       (if hd host \<noteq> CHR ''['' \<or> CHR ''['' \<in> set (tl host) \<or> CHR '']'' \<notin> set host then None
        else let name = tl (before_last CHR '']'' host); colonPort = after_last CHR '']'' host;
                 name' = (case cut_zone name of None \<Rightarrow> unescape encodeHost name
                          | Some (h, z) \<Rightarrow> opt_append (unescape encodeHost h) (unescape encodeZone z))
          in if \<not> validOptionalPort colonPort then None
             else (case name' of None \<Rightarrow> None
               | Some n \<Rightarrow> if ip6_literal n then Some (''['' @ n @ '']'' @ colonPort) else None))
     else if CHR '':'' \<in> set host
          \<and> \<not> validOptionalPort (CHR '':'' # (if is_postgres scheme then after_last CHR '':'' host else after CHR '':'' host)) then None
     else unescape encodeHost host)"

definition userinfo_char :: "char \<Rightarrow> bool" where
  "userinfo_char c \<longleftrightarrow> alpha c \<or> is_digit c \<or> c \<in> set ''-._:~!$&()*+,;=%@'' \<or> byte c = 39"

definition parseUserinfo :: "string \<Rightarrow> (string \<times> string option) option" where
  "parseUserinfo ui = (if \<not> list_all userinfo_char ui then None
     else if CHR '':'' \<notin> set ui then map_option (\<lambda>n. (n, None)) (unescape encodeUserPassword ui)
     else (case (unescape encodeUserPassword (before CHR '':'' ui), unescape encodeUserPassword (after CHR '':'' ui)) of
        (Some n, Some p) \<Rightarrow> Some (n, Some p) | _ \<Rightarrow> None))"

definition parseAuthority :: "string \<Rightarrow> string \<Rightarrow> ((string \<times> string option) option \<times> string) option" where
  "parseAuthority scheme a =
    (if CHR ''@'' \<notin> set a then map_option (\<lambda>h. (None, h)) (parseHost scheme a)
     else (case parseHost scheme (after_last CHR ''@'' a) of None \<Rightarrow> None
       | Some h \<Rightarrow> map_option (\<lambda>u. (Some u, h)) (parseUserinfo (before_last CHR ''@'' a))))"

definition ctl_byte :: "char \<Rightarrow> bool" where
  "ctl_byte c \<longleftrightarrow> byte c < 32 \<or> byte c = 127"

definition empty_url :: url where
  "empty_url = \<lparr>u_Scheme = '''', u_Opaque = '''', u_User = None, u_Host = '''', u_Path = '''', u_RawPath = '''',
     u_OmitHost = False, u_ForceQuery = False, u_RawQuery = '''', u_Fragment = '''', u_RawFragment = ''''\<rparr>"

text \<open>\<open>setPath\<close> keeps the text of the path only when it is not the usual encoding of the path; here it is
  always kept, which \<open>EscapedPath\<close> does not distinguish. The fragment is treated alike.\<close>

definition setPath :: "string \<Rightarrow> url \<Rightarrow> url option" where
  "setPath p u = map_option (\<lambda>path. u\<lparr>u_Path := path, u_RawPath := p\<rparr>) (unescape encodePath p)"

definition url_parse :: "string \<Rightarrow> url option" where
  "url_parse raw =
    (if list_ex ctl_byte raw then None
     else if raw = ''*'' then Some (empty_url\<lparr>u_Path := ''*''\<rparr>)
     else (case getScheme raw of None \<Rightarrow> None
       | Some (scheme0, rest0) \<Rightarrow>
         (let scheme = ToLower scheme0;
              force = (rest0 \<noteq> [] \<and> last rest0 = CHR ''?'' \<and> CHR ''?'' \<notin> set (butlast rest0));
              rest = before CHR ''?'' rest0;
              u = empty_url\<lparr>u_Scheme := scheme, u_ForceQuery := force, u_RawQuery := after CHR ''?'' rest0\<rparr>
          in if \<not> HasPrefix rest ''/'' \<and> scheme \<noteq> [] then Some (u\<lparr>u_Opaque := rest\<rparr>)
             else if \<not> HasPrefix rest ''/'' \<and> CHR '':'' \<in> set (before CHR ''/'' rest) then None
             else if (scheme \<noteq> [] \<or> \<not> HasPrefix rest ''///'') \<and> HasPrefix rest ''//'' then
               (let a = before CHR ''/'' (drop 2 rest); path = drop (length a) (drop 2 rest) in
                case parseAuthority scheme a of None \<Rightarrow> None
                | Some (user, host) \<Rightarrow> setPath path (u\<lparr>u_User := user, u_Host := host\<rparr>))
             else setPath rest (u\<lparr>u_OmitHost := (scheme \<noteq> [])\<rparr>))))"

definition url_Parse :: "string \<Rightarrow> url option" where
  "url_Parse raw = (let frag = after CHR ''#'' raw in
     case url_parse (before CHR ''#'' raw) of None \<Rightarrow> None
     | Some u \<Rightarrow> if frag = [] then Some u else map_option (\<lambda>f. u\<lparr>u_Fragment := f, u_RawFragment := frag\<rparr>) (unescape encodeFragment frag))"

definition splitHostPort :: "string \<Rightarrow> string \<times> string" where
  "splitHostPort hp =
    (let (host, port) = (if CHR '':'' \<in> set hp \<and> validOptionalPort (CHR '':'' # after_last CHR '':'' hp)
           then (before_last CHR '':'' hp, after_last CHR '':'' hp) else (hp, ''''))
     in (if host \<noteq> [] \<and> hd host = CHR ''['' \<and> last host = CHR '']'' then butlast (tl host) else host, port))"

definition url_Hostname :: "url \<Rightarrow> string" where "url_Hostname u = fst (splitHostPort (u_Host u))"
definition url_Port :: "url \<Rightarrow> string" where "url_Port u = snd (splitHostPort (u_Host u))"

definition isLoopbackHost :: "string \<Rightarrow> bool" where
  "isLoopbackHost host0 \<longleftrightarrow> (let host = ToLower host0 in host = ''localhost'' \<or> ip_loopback host)"

end
