(* ===== verification/GoCrypto.thy ===== *)
theory GoCrypto
  imports GoStd "HOL-Library.Word"
begin

text \<open>
  The parts of Go's \<open>crypto\<close> and \<open>encoding\<close> packages the program rests on: the hex, base64
  and base32 codecs with their decoders' leniencies, SHA-256, SHA-1, HMAC and constant-time
  comparison. Bytes are characters, words are \<open>32 word\<close>.

  The codecs are interpretations of \<open>codec\<close>; of the digests only their length is used, never
  their values.
\<close>

unbundle bit_operations_syntax

subsection \<open>Regrouping bits\<close>

definition to_bits :: "nat \<Rightarrow> nat \<Rightarrow> bool list" where
  "to_bits w n = map (\<lambda>i. (n div 2 ^ (w - 1 - i)) mod 2 = 1) [0..<w]"

definition from_bits :: "bool list \<Rightarrow> nat" where
  "from_bits bs = foldl (\<lambda>a b. 2 * a + of_bool b) 0 bs"

function chunks :: "nat \<Rightarrow> 'a list \<Rightarrow> 'a list list" where
  "chunks k xs = (if k = 0 \<or> xs = [] then [] else take k xs # chunks k (drop k xs))"
  by pat_completeness auto
termination by (relation "measure (\<lambda>(k, xs). length xs)") auto

declare chunks.simps [simp del]

definition pad_bits :: "nat \<Rightarrow> bool list \<Rightarrow> bool list" where
  "pad_bits k bs = bs @ replicate (k - length bs) False"

definition bytes_bits :: "string \<Rightarrow> bool list" where
  "bytes_bits s = concat (map (\<lambda>c. to_bits 8 (byte c)) s)"

definition bits_bytes :: "bool list \<Rightarrow> string" where
  "bits_bytes bs = map (\<lambda>b. char_of (from_bits b)) (chunks 8 (take (8 * (length bs div 8)) bs))"

text \<open>The \<open>k\<close>-bit digits of a byte sequence, the last one filled with zero bits, and back: bits
  that do not make up a byte are dropped.\<close>

definition encode_digits :: "nat \<Rightarrow> string \<Rightarrow> nat list" where
  "encode_digits k s = map (\<lambda>b. from_bits (pad_bits k b)) (chunks k (bytes_bits s))"

definition decode_digits :: "nat \<Rightarrow> nat list \<Rightarrow> string" where
  "decode_digits k ds = bits_bytes (concat (map (to_bits k) ds))"

lemma from_bits_snoc: "from_bits (bs @ [b]) = 2 * from_bits bs + of_bool b"
  by (simp add: from_bits_def)

lemma to_bits_Suc: "to_bits (Suc w) n = to_bits w (n div 2) @ [n mod 2 = 1]"
proof -
  have "(n div 2 ^ (w - i)) mod 2 = (n div 2 div 2 ^ (w - 1 - i)) mod 2" if "i < w" for i
  proof -
    have "w - i = Suc (w - 1 - i)" using that by simp
    then show ?thesis by (simp add: div_mult2_eq)
  qed
  then show ?thesis by (simp add: to_bits_def)
qed

lemma length_to_bits [simp]: "length (to_bits w n) = w"
  by (simp add: to_bits_def)

lemma from_to_bits: "n < 2 ^ w \<Longrightarrow> from_bits (to_bits w n) = n"
proof (induction w arbitrary: n)
  case 0
  then show ?case by (simp add: from_bits_def to_bits_def)
next
  case (Suc w)
  then have "from_bits (to_bits w (n div 2)) = n div 2" by simp
  then show ?case by (auto simp: to_bits_Suc from_bits_snoc) presburger+
qed

lemma to_from_bits: "to_bits (length bs) (from_bits bs) = bs"
proof (induction bs rule: rev_induct)
  case Nil
  show ?case by (simp add: to_bits_def)
next
  case (snoc b bs)
  then show ?case by (simp add: to_bits_Suc from_bits_snoc)
qed

lemma from_bits_less: "from_bits bs < 2 ^ length bs"
  by (induction bs rule: rev_induct) (auto simp: from_bits_snoc from_bits_def)

lemma chunks_Nil [simp]: "chunks k [] = []"
  by (subst chunks.simps) simp

lemma chunks_step: "0 < k \<Longrightarrow> xs \<noteq> [] \<Longrightarrow> chunks k xs = take k xs # chunks k (drop k xs)"
  by (subst chunks.simps) simp

lemma concat_chunks: "0 < k \<Longrightarrow> concat (chunks k xs) = xs"
  by (induction k xs rule: chunks.induct) (subst chunks.simps, auto)

lemma chunks_append: "0 < k \<Longrightarrow> length c = k \<Longrightarrow> chunks k (c @ xs) = c # chunks k xs"
  by (subst chunks.simps) auto

lemma length_chunks: "0 < k \<Longrightarrow> length (chunks k xs) = (length xs + k - 1) div k"
proof (induction k xs rule: chunks.induct)
  case (1 k xs)
  show ?case
  proof (cases "xs = []")
    case True
    with 1 show ?thesis by (subst chunks.simps) simp
  next
    case False
    have "length (chunks k xs) = Suc ((length (drop k xs) + k - 1) div k)"
      using 1 False by (subst chunks.simps) simp
    also have "\<dots> = (length xs + k - 1) div k"
    proof (cases "k \<le> length xs")
      case True
      have a: "length xs + k - 1 = (length xs - 1) + k" using False by (cases xs) auto
      have b: "length (drop k xs) + k - 1 = length xs - 1" using True by simp
      show ?thesis unfolding a b using div_add_self2 [of k "length xs - 1"] 1(2) by linarith
    next
      case False
      then have "(length xs + k - 1) div k = 1"
        using \<open>xs \<noteq> []\<close> 1(2) by (intro div_nat_eqI) (cases xs; auto)+
      then show ?thesis using False 1(2) by simp
    qed
    finally show ?thesis .
  qed
qed

text \<open>Reading the padded digits back gives the bits and fewer than \<open>k\<close> zero bits.\<close>

lemma bits_of_digits:
  "0 < k \<Longrightarrow> \<exists>r < k. concat (map (to_bits k) (map (\<lambda>b. from_bits (pad_bits k b)) (chunks k bs)))
     = bs @ replicate r False"
proof (induction k bs rule: chunks.induct)
  case (1 k bs)
  show ?case
  proof (cases "bs = []")
    case True
    with 1 show ?thesis by auto
  next
    case False
    have digit: "to_bits k (from_bits (pad_bits k (take k bs))) = pad_bits k (take k bs)"
      using to_from_bits [of "pad_bits k (take k bs)"] by (simp add: pad_bits_def)
    note step = chunks_step [OF 1(2) False]
    show ?thesis
    proof (cases "k \<le> length bs")
      case True
      then have p: "pad_bits k (take k bs) = take k bs" by (simp add: pad_bits_def)
      have "\<not> (k = 0 \<or> bs = [])" using 1(2) False by simp
      from 1(1) [OF this 1(2)] obtain r where "r < k"
        "concat (map (to_bits k) (map (\<lambda>b. from_bits (pad_bits k b)) (chunks k (drop k bs)))) = drop k bs @ replicate r False"
        by blast
      then show ?thesis
        using digit by (intro exI [of _ r]) (simp add: step p)
    next
      case False
      then have t: "take k bs = bs" "drop k bs = []" by simp_all
      then have "concat (map (to_bits k) (map (\<lambda>b. from_bits (pad_bits k b)) (chunks k bs))) = pad_bits k bs"
        using digit by (simp add: step)
      then show ?thesis
        using False \<open>bs \<noteq> []\<close> by (intro exI [of _ "k - length bs"]) (simp add: pad_bits_def)
    qed
  qed
qed

lemma length_bytes_bits [simp]: "length (bytes_bits s) = 8 * length s"
  by (induction s) (auto simp: bytes_bits_def)

lemma byte_less [simp]: "byte c < 256"
  by (metis nat_of_char_less_256)

lemma chunks_bytes: "chunks 8 (bytes_bits s) = map (\<lambda>c. to_bits 8 (byte c)) s"
proof (induction s)
  case Nil
  show ?case by (subst chunks.simps) (simp add: bytes_bits_def)
next
  case (Cons c s)
  then show ?case
    using chunks_append [of 8 "to_bits 8 (byte c)" "bytes_bits s"] by (simp add: bytes_bits_def)
qed

lemma decode_encode_digits:
  assumes "0 < k" "k \<le> 8"
  shows "decode_digits k (encode_digits k s) = s"
proof -
  obtain r where r: "r < k" "concat (map (to_bits k) (encode_digits k s)) = bytes_bits s @ replicate r False"
    using bits_of_digits [OF assms(1), of "bytes_bits s"] by (auto simp: encode_digits_def)
  have "(8 * length s + r) div 8 = length s" using r(1) assms(2) by simp
  then have "bits_bytes (bytes_bits s @ replicate r False)
      = map (\<lambda>b. char_of (from_bits b)) (chunks 8 (bytes_bits s))"
    by (simp add: bits_bytes_def)
  also have "\<dots> = s"
    unfolding chunks_bytes map_map comp_def
    by (rule map_idI) (simp add: from_to_bits)
  finally show ?thesis using r(2) by (simp add: decode_digits_def)
qed

lemma encode_digits_less: "0 < k \<Longrightarrow> list_all (\<lambda>d. d < 2 ^ k) (encode_digits k s)"
proof -
  assume k: "0 < k"
  have "from_bits (pad_bits k b) < 2 ^ k" if "b \<in> set (chunks k xs)" for b xs
  proof -
    have "length b \<le> k"
      using that k by (induction k xs rule: chunks.induct) (subst (asm) (2) chunks.simps, auto split: if_splits)
    then show ?thesis using from_bits_less [of "pad_bits k b"] by (simp add: pad_bits_def)
  qed
  then show ?thesis by (auto simp: encode_digits_def list_all_iff)
qed

lemma length_encode_digits: "0 < k \<Longrightarrow> length (encode_digits k s) = (8 * length s + k - 1) div k"
  by (simp add: encode_digits_def length_chunks)

subsection \<open>Alphabets\<close>

definition alphabet_index :: "string \<Rightarrow> char \<Rightarrow> nat option" where
  "alphabet_index al c = (let i = length (takeWhile (\<lambda>a. a \<noteq> c) al) in if i < length al then Some i else None)"

fun digits_of :: "string \<Rightarrow> string \<Rightarrow> nat list option" where
  "digits_of al [] = Some []"
| "digits_of al (c # cs) = (case alphabet_index al c of None \<Rightarrow> None
     | Some i \<Rightarrow> (case digits_of al cs of None \<Rightarrow> None | Some is \<Rightarrow> Some (i # is)))"

lemma alphabet_index_nth: "distinct al \<Longrightarrow> i < length al \<Longrightarrow> alphabet_index al (al ! i) = Some i"
proof -
  assume d: "distinct al" and i: "i < length al"
  have "takeWhile (\<lambda>a. a \<noteq> al ! i) al = take i al"
    using d i by (intro takeWhile_eq_take_P_nth) (auto simp: nth_eq_iff_index_eq)
  then show ?thesis using i by (simp add: alphabet_index_def)
qed

lemma digits_of_map_nth:
  "distinct al \<Longrightarrow> list_all (\<lambda>i. i < length al) is \<Longrightarrow> digits_of al (map ((!) al) is) = Some is"
  by (induction "is") (auto simp: alphabet_index_nth)

text \<open>A decoder first drops the line ends.\<close>

definition strip_newlines :: "string \<Rightarrow> string" where
  "strip_newlines s = filter (\<lambda>c. c \<noteq> CHR 10 \<and> c \<noteq> CHR 13) s"

definition b64url_alphabet :: string where
  "b64url_alphabet = ''ABCDEFGHIJKLMNOPQRSTUVWXYZabcdefghijklmnopqrstuvwxyz0123456789-_''"

definition b64std_alphabet :: string where
  "b64std_alphabet = ''ABCDEFGHIJKLMNOPQRSTUVWXYZabcdefghijklmnopqrstuvwxyz0123456789+/''"

definition b32_alphabet :: string where
  "b32_alphabet = ''ABCDEFGHIJKLMNOPQRSTUVWXYZ234567''"

definition hex_alphabet :: string where
  "hex_alphabet = ''0123456789abcdef''"

subsection \<open>base64 without padding\<close>

text \<open>\<open>base64.RawURLEncoding\<close> and \<open>base64.RawStdEncoding\<close>: not strict, so left-over bits may be
  anything, but a single left-over digit is an error.\<close>

definition b64_encode :: "string \<Rightarrow> string \<Rightarrow> string" where
  "b64_encode al s = map ((!) al) (encode_digits 6 s)"

definition b64_decode :: "string \<Rightarrow> string \<Rightarrow> string option" where
  "b64_decode al s = (case digits_of al (strip_newlines s) of None \<Rightarrow> None
     | Some ds \<Rightarrow> if length ds mod 4 = 1 then None else Some (decode_digits 6 ds))"

definition RawURLEncode :: "string \<Rightarrow> string" where "RawURLEncode = b64_encode b64url_alphabet"
definition RawURLDecode :: "string \<Rightarrow> string option" where "RawURLDecode = b64_decode b64url_alphabet"
definition RawStdEncode :: "string \<Rightarrow> string" where "RawStdEncode = b64_encode b64std_alphabet"
definition RawStdDecode :: "string \<Rightarrow> string option" where "RawStdDecode = b64_decode b64std_alphabet"

lemma strip_newlines_id: "list_all (\<lambda>c. c \<in> set al) s \<Longrightarrow> CHR 10 \<notin> set al \<Longrightarrow> CHR 13 \<notin> set al \<Longrightarrow> strip_newlines s = s"
  by (induction s) (auto simp: strip_newlines_def)

lemma b64_digit_count: "(8 * n + 6 - 1) div 6 mod 4 \<noteq> (1::nat)"
proof -
  define q where "q = n div 3"
  have "(8 * (3 * q + r) + 6 - 1) div 6 mod 4 = (8 * r + 5) div 6 mod 4" for r :: nat
  proof -
    have "8 * (3 * q + r) + 6 - 1 = 8 * r + 5 + 6 * (4 * q)" by simp
    then show ?thesis by (simp only: div_mult_self2) simp
  qed
  from this [of "n mod 3"] have "(8 * n + 6 - 1) div 6 mod 4 = (8 * (n mod 3) + 5) div 6 mod 4"
    by (simp add: q_def)
  moreover have "n mod 3 = 0 \<or> n mod 3 = 1 \<or> n mod 3 = 2" by linarith
  ultimately show ?thesis by auto
qed

lemma b64_decode_encode:
  assumes "length al = 64" "distinct al" "CHR 10 \<notin> set al" "CHR 13 \<notin> set al"
  shows "b64_decode al (b64_encode al s) = Some s"
proof -
  have d: "list_all (\<lambda>i. i < length al) (encode_digits 6 s)"
    using encode_digits_less [of 6 s] assms(1) by simp
  have "strip_newlines (b64_encode al s) = b64_encode al s"
    using d by (intro strip_newlines_id [of al]) (auto simp: b64_encode_def list_all_iff assms)
  then show ?thesis
    using digits_of_map_nth [OF assms(2) d] b64_digit_count [of "length s"] decode_encode_digits [of 6 s]
      length_encode_digits [of 6 s]
    by (simp add: b64_decode_def b64_encode_def)
qed

lemma RawURL_roundtrip: "RawURLDecode (RawURLEncode s) = Some s"
  unfolding RawURLDecode_def RawURLEncode_def by (rule b64_decode_encode) (simp_all add: b64url_alphabet_def)

lemma RawStd_roundtrip: "RawStdDecode (RawStdEncode s) = Some s"
  unfolding RawStdDecode_def RawStdEncode_def by (rule b64_decode_encode) (simp_all add: b64std_alphabet_def)

interpretation b64url: codec RawURLEncode RawURLDecode "\<lambda>_. True"
  by unfold_locales (rule RawURL_roundtrip)

interpretation b64std: codec RawStdEncode RawStdDecode "\<lambda>_. True"
  by unfold_locales (rule RawStd_roundtrip)

lemma b64_encode_set: "length al = 64 \<Longrightarrow> c \<in> set (b64_encode al s) \<Longrightarrow> c \<in> set al"
  using encode_digits_less [of 6 s] by (auto simp: b64_encode_def list_all_iff)

lemma length_b64_encode: "length (b64_encode al s) = (8 * length s + 5) div 6"
  by (simp add: b64_encode_def length_encode_digits)

subsection \<open>base32 without padding\<close>

text \<open>A last group of 1, 3 or 6 digits, which no encoder produces, decodes to nothing.\<close>

definition b32_encode :: "string \<Rightarrow> string" where
  "b32_encode s = map ((!) b32_alphabet) (encode_digits 5 s)"

definition b32_decode :: "string \<Rightarrow> string option" where
  "b32_decode s = (case digits_of b32_alphabet (strip_newlines s) of None \<Rightarrow> None
     | Some ds \<Rightarrow> (let r = length ds mod 8
         in Some (decode_digits 5 (if r \<in> {1, 3, 6} then take (length ds - r) ds else ds))))"

lemma b32_digit_count: "(8 * n + 5 - 1) div 5 mod 8 \<notin> {1, 3, 6::nat}"
proof -
  define q where "q = n div 5"
  have "(8 * (5 * q + r) + 5 - 1) div 5 mod 8 = (8 * r + 4) div 5 mod 8" for r :: nat
  proof -
    have "8 * (5 * q + r) + 5 - 1 = 8 * r + 4 + 5 * (8 * q)" by simp
    then show ?thesis by (simp only: div_mult_self2) simp
  qed
  from this [of "n mod 5"] have "(8 * n + 5 - 1) div 5 mod 8 = (8 * (n mod 5) + 4) div 5 mod 8"
    by (simp add: q_def)
  moreover have "n mod 5 = 0 \<or> n mod 5 = 1 \<or> n mod 5 = 2 \<or> n mod 5 = 3 \<or> n mod 5 = 4" by linarith
  ultimately show ?thesis by auto
qed

lemma b32_roundtrip: "b32_decode (b32_encode s) = Some s"
proof -
  have al: "length b32_alphabet = 32" "distinct b32_alphabet" "CHR 10 \<notin> set b32_alphabet" "CHR 13 \<notin> set b32_alphabet"
    by (simp_all add: b32_alphabet_def)
  have d: "list_all (\<lambda>i. i < length b32_alphabet) (encode_digits 5 s)"
    using encode_digits_less [of 5 s] al(1) by simp
  have "strip_newlines (b32_encode s) = b32_encode s"
    using d by (intro strip_newlines_id [of b32_alphabet]) (auto simp: b32_encode_def list_all_iff al)
  then show ?thesis
    using digits_of_map_nth [OF al(2) d] b32_digit_count [of "length s"] decode_encode_digits [of 5 s]
      length_encode_digits [of 5 s]
    by (simp add: b32_decode_def b32_encode_def Let_def)
qed

interpretation b32: codec b32_encode b32_decode "\<lambda>_. True"
  by unfold_locales (rule b32_roundtrip)

subsection \<open>hex\<close>

definition hex_encode :: "string \<Rightarrow> string" where
  "hex_encode s = concat (map (\<lambda>c. [hex_alphabet ! (byte c div 16), hex_alphabet ! (byte c mod 16)]) s)"

lemma length_hex_encode [simp]: "length (hex_encode s) = 2 * length s"
  by (induction s) (auto simp: hex_encode_def)

lemma hex_digit_inject:
  "a < 16 \<Longrightarrow> b < 16 \<Longrightarrow> hex_alphabet ! a = hex_alphabet ! b \<longleftrightarrow> a = b"
  using nth_eq_iff_index_eq [of hex_alphabet a b] by (simp add: hex_alphabet_def)

lemma hex_encode_inject: "hex_encode s = hex_encode t \<longleftrightarrow> s = t"
proof (induction s arbitrary: t)
  case Nil
  show ?case by (cases t) (auto simp: hex_encode_def)
next
  case (Cons c s)
  show ?case
  proof (cases t)
    case (Cons e u)
    have "byte c div 16 = byte e div 16 \<and> byte c mod 16 = byte e mod 16 \<longleftrightarrow> c = e"
      by (metis div_mult_mod_eq of_char_eq_iff)
    moreover have "byte x div 16 < 16" for x :: char
      using byte_less [of x] by linarith
    ultimately show ?thesis
      using Cons.IH [of u] Cons by (auto simp: hex_encode_def hex_digit_inject)
  qed (simp add: hex_encode_def)
qed

subsection \<open>SHA-256\<close>

definition be_word :: "string \<Rightarrow> 32 word" where
  "be_word bs = of_nat (foldl (\<lambda>a c. 256 * a + byte c) 0 bs)"

definition be_bytes :: "nat \<Rightarrow> nat \<Rightarrow> string" where
  "be_bytes n v = map (\<lambda>i. char_of (v div 256 ^ (n - 1 - i))) [0..<n]"

definition word_bytes :: "32 word \<Rightarrow> string" where
  "word_bytes w = be_bytes 4 (unat w)"

lemma length_word_bytes [simp]: "length (word_bytes w) = 4"
  by (simp add: word_bytes_def be_bytes_def)

text \<open>Merkle-Damgard padding to a multiple of 64 bytes, the bit length last.\<close>

definition md_pad :: "string \<Rightarrow> string" where
  "md_pad m = m @ [CHR 0x80] @ replicate ((119 - length m mod 64) mod 64) (CHR 0x00) @ be_bytes 8 (8 * length m)"

definition blocks :: "string \<Rightarrow> 32 word list list" where
  "blocks m = map (\<lambda>b. map be_word (chunks 4 b)) (chunks 64 (md_pad m))"

definition sha256_K :: "32 word list" where
  "sha256_K =
    [0x428A2F98, 0x71374491, 0xB5C0FBCF, 0xE9B5DBA5, 0x3956C25B, 0x59F111F1, 0x923F82A4, 0xAB1C5ED5,
     0xD807AA98, 0x12835B01, 0x243185BE, 0x550C7DC3, 0x72BE5D74, 0x80DEB1FE, 0x9BDC06A7, 0xC19BF174,
     0xE49B69C1, 0xEFBE4786, 0x0FC19DC6, 0x240CA1CC, 0x2DE92C6F, 0x4A7484AA, 0x5CB0A9DC, 0x76F988DA,
     0x983E5152, 0xA831C66D, 0xB00327C8, 0xBF597FC7, 0xC6E00BF3, 0xD5A79147, 0x06CA6351, 0x14292967,
     0x27B70A85, 0x2E1B2138, 0x4D2C6DFC, 0x53380D13, 0x650A7354, 0x766A0ABB, 0x81C2C92E, 0x92722C85,
     0xA2BFE8A1, 0xA81A664B, 0xC24B8B70, 0xC76C51A3, 0xD192E819, 0xD6990624, 0xF40E3585, 0x106AA070,
     0x19A4C116, 0x1E376C08, 0x2748774C, 0x34B0BCB5, 0x391C0CB3, 0x4ED8AA4A, 0x5B9CCA4F, 0x682E6FF3,
     0x748F82EE, 0x78A5636F, 0x84C87814, 0x8CC70208, 0x90BEFFFA, 0xA4506CEB, 0xBEF9A3F7, 0xC67178F2]"

definition sha256_H :: "32 word list" where
  "sha256_H =
    [0x6A09E667, 0xBB67AE85, 0x3C6EF372, 0xA54FF53A, 0x510E527F, 0x9B05688C, 0x1F83D9AB, 0x5BE0CD19]"

text \<open>The message schedule, newest word first.\<close>

definition sha256_next :: "32 word list \<Rightarrow> 32 word" where
  "sha256_next w = (let a = w ! 1; b = w ! 14 in
     (word_rotr 17 a XOR word_rotr 19 a XOR drop_bit 10 a) + w ! 6 +
     (word_rotr 7 b XOR word_rotr 18 b XOR drop_bit 3 b) + w ! 15)"

fun extend :: "('a list \<Rightarrow> 'a) \<Rightarrow> nat \<Rightarrow> 'a list \<Rightarrow> 'a list" where
  "extend f 0 w = w"
| "extend f (Suc n) w = extend f n (f w # w)"

fun sha256_round :: "32 word list \<Rightarrow> 32 word \<times> 32 word \<Rightarrow> 32 word list" where
  "sha256_round [a, b, c, d, e, f, g, h] (k, w) =
     (let t1 = h + (word_rotr 6 e XOR word_rotr 11 e XOR word_rotr 25 e) + ((e AND f) XOR (NOT e AND g)) + k + w;
          t2 = (word_rotr 2 a XOR word_rotr 13 a XOR word_rotr 22 a) + ((a AND b) XOR (a AND c) XOR (b AND c))
      in [t1 + t2, a, b, c, d + t1, e, f, g])"
| "sha256_round s _ = s"

definition sha256_block :: "32 word list \<Rightarrow> 32 word list \<Rightarrow> 32 word list" where
  "sha256_block h m = map2 (+) h (foldl sha256_round h (zip sha256_K (rev (extend sha256_next 48 (rev m)))))"

definition Sum256 :: "string \<Rightarrow> string" where
  "Sum256 m = concat (map word_bytes (foldl sha256_block sha256_H (blocks m)))"

lemma length_sha256_round: "length s = 8 \<Longrightarrow> length (sha256_round s kw) = 8"
  by (cases "(s, kw)" rule: sha256_round.cases) (auto simp: Let_def)

lemma length_foldl_round: "length s = 8 \<Longrightarrow> length (foldl sha256_round s kws) = 8"
  by (induction kws arbitrary: s) (auto simp: length_sha256_round)

lemma length_sha256_block: "length h = 8 \<Longrightarrow> length (sha256_block h m) = 8"
  by (simp add: sha256_block_def length_foldl_round)

lemma length_foldl_block: "length h = 8 \<Longrightarrow> length (foldl sha256_block h ms) = 8"
  by (induction ms arbitrary: h) (auto simp: length_sha256_block)

lemma length_concat_word_bytes: "length (concat (map word_bytes ws)) = 4 * length ws"
  by (induction ws) auto

lemma length_Sum256 [simp]: "length (Sum256 m) = 32"
  using length_foldl_block [of sha256_H "blocks m"]
  by (simp add: Sum256_def length_concat_word_bytes) (simp add: sha256_H_def)

subsection \<open>SHA-1 and HMAC\<close>

definition sha1_H :: "32 word list" where
  "sha1_H = [0x67452301, 0xEFCDAB89, 0x98BADCFE, 0x10325476, 0xC3D2E1F0]"

definition sha1_next :: "32 word list \<Rightarrow> 32 word" where
  "sha1_next w = word_rotl 1 (w ! 2 XOR w ! 7 XOR w ! 13 XOR w ! 15)"

definition sha1_fk :: "nat \<Rightarrow> 32 word \<Rightarrow> 32 word \<Rightarrow> 32 word \<Rightarrow> 32 word \<times> 32 word" where
  "sha1_fk t b c d =
     (if t < 20 then ((b AND c) OR (NOT b AND d), 0x5A827999)
      else if t < 40 then (b XOR c XOR d, 0x6ED9EBA1)
      else if t < 60 then ((b AND c) OR (b AND d) OR (c AND d), 0x8F1BBCDC)
      else (b XOR c XOR d, 0xCA62C1D6))"

fun sha1_round :: "32 word list \<Rightarrow> nat \<times> 32 word \<Rightarrow> 32 word list" where
  "sha1_round [a, b, c, d, e] (t, w) =
     (let (f, k) = sha1_fk t b c d in [word_rotl 5 a + f + e + k + w, a, word_rotl 30 b, c, d])"
| "sha1_round s _ = s"

definition sha1_block :: "32 word list \<Rightarrow> 32 word list \<Rightarrow> 32 word list" where
  "sha1_block h m = map2 (+) h (foldl sha1_round h (zip [0..<80] (rev (extend sha1_next 64 (rev m)))))"

definition SumSHA1 :: "string \<Rightarrow> string" where
  "SumSHA1 m = concat (map word_bytes (foldl sha1_block sha1_H (blocks m)))"

lemma length_sha1_round: "length s = 5 \<Longrightarrow> length (sha1_round s tw) = 5"
  by (cases "(s, tw)" rule: sha1_round.cases) (auto simp: Let_def split_beta)

lemma length_foldl_sha1_round: "length s = 5 \<Longrightarrow> length (foldl sha1_round s tws) = 5"
  by (induction tws arbitrary: s) (auto simp: length_sha1_round)

lemma length_sha1_block: "length h = 5 \<Longrightarrow> length (sha1_block h m) = 5"
  by (simp add: sha1_block_def length_foldl_sha1_round)

lemma length_foldl_sha1_block: "length h = 5 \<Longrightarrow> length (foldl sha1_block h ms) = 5"
  by (induction ms arbitrary: h) (auto simp: length_sha1_block)

lemma length_SumSHA1 [simp]: "length (SumSHA1 m) = 20"
  using length_foldl_sha1_block [of sha1_H "blocks m"]
  by (simp add: SumSHA1_def length_concat_word_bytes) (simp add: sha1_H_def)

definition xor_pad :: "nat \<Rightarrow> string \<Rightarrow> string" where
  "xor_pad b key = map (\<lambda>c. char_of (b XOR byte c)) key"

definition hmac_sha1 :: "string \<Rightarrow> string \<Rightarrow> string" where
  "hmac_sha1 key msg = (let k0 = (if length key > 64 then SumSHA1 key else key);
     k = k0 @ replicate (64 - length k0) (CHR 0x00)
     in SumSHA1 (xor_pad 0x5C k @ SumSHA1 (xor_pad 0x36 k @ msg)))"

lemma length_hmac_sha1 [simp]: "length (hmac_sha1 key msg) = 20"
  by (simp add: hmac_sha1_def Let_def)

subsection \<open>Comparison\<close>

text \<open>\<open>subtle.ConstantTimeCompare(a, b) == 1\<close>: equal lengths and equal bytes.\<close>

definition ConstantTimeCompare :: "string \<Rightarrow> string \<Rightarrow> bool" where
  "ConstantTimeCompare a b \<longleftrightarrow> length a = length b \<and>
     foldl (OR) 0 (map2 (\<lambda>x y. byte x XOR byte y) a b) = (0::nat)"

lemma ConstantTimeCompare_eq: "ConstantTimeCompare a b \<longleftrightarrow> a = b"
proof -
  have "foldl (OR) v (map2 (\<lambda>x y. byte x XOR byte y) a b) = (0::nat) \<longleftrightarrow> v = 0 \<and> a = b"
    if "length a = length b" for v
    using that
  proof (induction a b arbitrary: v rule: list_induct2)
    case (Cons x xs y ys)
    have "byte x XOR byte y = 0 \<longleftrightarrow> x = y"
      by (metis of_char_eq_iff xor.assoc xor.left_neutral xor.right_neutral xor_self_eq)
    with Cons show ?case by (auto simp: or_eq_0_iff)
  qed simp
  then show ?thesis by (auto simp: ConstantTimeCompare_def)
qed

end
