(* ===== verification/Oidc.thy ===== *)
theory Oidc
  imports GoCrypto
begin

text \<open>
  The protocol constants and pure functions of \<open>internal/oidc\<close>: scopes (\<open>scope.go\<close>), PKCE
  (\<open>pkce.go\<close>) and the discovery document (\<open>discovery.go\<close>).
\<close>

subsection \<open>Scopes\<close>

definition ScopeOpenID :: string where "ScopeOpenID = ''openid''"
definition ScopeProfile :: string where "ScopeProfile = ''profile''"
definition ScopeEmail :: string where "ScopeEmail = ''email''"
definition ScopeOfflineAccess :: string where "ScopeOfflineAccess = ''offline_access''"
definition ScopeDeviceEnroll :: string where "ScopeDeviceEnroll = ''device:enroll''"

lemmas scope_defs = ScopeOpenID_def ScopeProfile_def ScopeEmail_def ScopeOfflineAccess_def ScopeDeviceEnroll_def

definition SupportedScopes :: "string list" where
  "SupportedScopes = [ScopeOpenID, ScopeProfile, ScopeEmail, ScopeOfflineAccess, ScopeDeviceEnroll]"

definition SplitScope :: "string \<Rightarrow> string list" where
  "SplitScope scope = Fields scope"

definition HasScope :: "string \<Rightarrow> string \<Rightarrow> bool" where
  "HasScope scope want \<longleftrightarrow> want \<in> set (SplitScope scope)"

fun ScopesSubset :: "string list \<Rightarrow> string list \<Rightarrow> bool" where
  "ScopesSubset [] allowed = True"
| "ScopesSubset (r # rs) allowed = (if r \<notin> set allowed then False else ScopesSubset rs allowed)"

lemma ScopesSubset_iff: "ScopesSubset rs allowed \<longleftrightarrow> set rs \<subseteq> set allowed"
  by (induction rs) auto

lemma SplitScope_Nil [simp]: "SplitScope [] = []"
  by (simp add: SplitScope_def)

text \<open>Joining scope names with blanks and splitting the result gives the names back.\<close>

lemma SplitScope_join: "list_all word_str ss \<Longrightarrow> SplitScope (intercalate '' '' ss) = ss"
  by (simp add: SplitScope_def Fields_intercalate)

subsection \<open>PKCE\<close>

definition PKCEMethodS256 :: string where "PKCEMethodS256 = ''S256''"

definition ComputeS256Challenge :: "string \<Rightarrow> string" where
  "ComputeS256Challenge verifier = RawURLEncode (Sum256 verifier)"

definition VerifyPKCE :: "string \<Rightarrow> string \<Rightarrow> string \<Rightarrow> bool" where
  "VerifyPKCE verifier challenge method =
     (if method = PKCEMethodS256 then ConstantTimeCompare (ComputeS256Challenge verifier) challenge
      else if method = ''plain'' then ConstantTimeCompare verifier challenge
      else False)"

lemma ComputeS256Challenge_length: "length (ComputeS256Challenge v) = 43"
  by (simp add: ComputeS256Challenge_def RawURLEncode_def length_b64_encode)

lemma VerifyPKCE_S256: "VerifyPKCE v c PKCEMethodS256 \<longleftrightarrow> RawURLDecode c = Some (Sum256 v) \<and> c = RawURLEncode (Sum256 v)"
  by (auto simp: VerifyPKCE_def ConstantTimeCompare_eq ComputeS256Challenge_def RawURL_roundtrip)

subsection \<open>Discovery\<close>

definition GrantTypeDeviceCode :: string where
  "GrantTypeDeviceCode = ''urn:ietf:params:oauth:grant-type:device_code''"
definition GrantTypeJWTBearer :: string where
  "GrantTypeJWTBearer = ''urn:ietf:params:oauth:grant-type:jwt-bearer''"
definition GrantTypeTokenExchange :: string where
  "GrantTypeTokenExchange = ''urn:ietf:params:oauth:grant-type:token-exchange''"

record DiscoveryDocument =
  dd_Issuer :: string
  dd_AuthorizationEndpoint :: string
  dd_TokenEndpoint :: string
  dd_UserinfoEndpoint :: string
  dd_DeviceAuthorizationEndpoint :: string
  dd_JWKSURI :: string
  dd_RevocationEndpoint :: string
  dd_IntrospectionEndpoint :: string
  dd_EndSessionEndpoint :: string
  dd_ResponseTypesSupported :: "string list"
  dd_GrantTypesSupported :: "string list"
  dd_SubjectTypesSupported :: "string list"
  dd_IDTokenSigningAlgValuesSupported :: "string list"
  dd_ScopesSupported :: "string list"
  dd_TokenEndpointAuthMethodsSupported :: "string list"
  dd_CodeChallengeMethodsSupported :: "string list"
  dd_PromptValuesSupported :: "string list"
  dd_ClaimsSupported :: "string list"
  dd_DPoPSigningAlgValuesSupported :: "string list"

definition BuildDiscovery :: "string \<Rightarrow> string \<Rightarrow> DiscoveryDocument" where
  "BuildDiscovery issuer publicURL =
     (let iss = TrimRight CHR ''/'' issuer;
          base0 = TrimRight CHR ''/'' publicURL;
          base = (if base0 = '''' then iss else base0)
      in \<lparr>dd_Issuer = iss,
          dd_AuthorizationEndpoint = base @ ''/oauth2/authorize'',
          dd_TokenEndpoint = base @ ''/oauth2/token'',
          dd_UserinfoEndpoint = base @ ''/userinfo'',
          dd_DeviceAuthorizationEndpoint = base @ ''/oauth2/device_authorization'',
          dd_JWKSURI = base @ ''/jwks.json'',
          dd_RevocationEndpoint = base @ ''/oauth2/revoke'',
          dd_IntrospectionEndpoint = base @ ''/oauth2/introspect'',
          dd_EndSessionEndpoint = base @ ''/logout'',
          dd_ResponseTypesSupported = [''code''],
          dd_GrantTypesSupported = [''authorization_code'', ''refresh_token'', ''client_credentials'',
            GrantTypeDeviceCode, GrantTypeJWTBearer, GrantTypeTokenExchange],
          dd_SubjectTypesSupported = [''public''],
          dd_IDTokenSigningAlgValuesSupported = [''RS256'', ''EdDSA''],
          dd_ScopesSupported = [ScopeOpenID, ScopeProfile, ScopeEmail, ScopeOfflineAccess, ScopeDeviceEnroll],
          dd_TokenEndpointAuthMethodsSupported = [''client_secret_basic'', ''client_secret_post'', ''none''],
          dd_CodeChallengeMethodsSupported = [''S256''],
          dd_PromptValuesSupported = [''none'', ''login'', ''consent''],
          dd_ClaimsSupported = [''sub'', ''iss'', ''aud'', ''exp'', ''iat'',
            ''email'', ''email_verified'', ''preferred_username'', ''name'',
            ''auth_time'', ''amr'', ''device_id'', ''device_trust'', ''act'', ''groups''],
          dd_DPoPSigningAlgValuesSupported = [''EdDSA'', ''ES256'', ''RS256'']\<rparr>)"

lemma TrimRight_idem [simp]: "TrimRight c (TrimRight c s) = TrimRight c s"
proof -
  have "dropWhile (\<lambda>d. d = c) (dropWhile (\<lambda>d. d = c) t) = dropWhile (\<lambda>d. d = c) t" for t
    by (induction t) auto
  then show ?thesis by (simp add: TrimRight_def)
qed

text \<open>The document depends on the two addresses only up to trailing slashes, and moving the
  endpoints never moves the issuer.\<close>

lemma BuildDiscovery_trim:
  "BuildDiscovery (TrimRight CHR ''/'' i) (TrimRight CHR ''/'' p) = BuildDiscovery i p"
  by (simp add: BuildDiscovery_def)

lemma BuildDiscovery_issuer: "dd_Issuer (BuildDiscovery i p) = TrimRight CHR ''/'' i"
  by (simp add: BuildDiscovery_def Let_def)

lemma BuildDiscovery_default: "BuildDiscovery i '''' = BuildDiscovery i i"
  by (simp add: BuildDiscovery_def TrimRight_def)

end
