(* ===== verification/Model.thy ===== *)
theory Model
  imports GoStd
begin

text \<open>
  The domain types of the program (\<open>internal/model/model.go\<close>): one record per struct, with
  the struct's fields under a prefix of their own, one definition per method, and the string
  constants by their Go names. A pointer that may be nil is an option, a \<open>time.Time\<close> an
  instant, a Go \<open>int\<close> an \<open>int\<close>.
\<close>

subsection \<open>Constants\<close>

definition ClientTypePublic :: string where "ClientTypePublic = ''public''"
definition ClientTypeConfidential :: string where "ClientTypeConfidential = ''confidential''"

definition PasswordTokenActivation :: string where "PasswordTokenActivation = ''activation''"
definition PasswordTokenReset :: string where "PasswordTokenReset = ''reset''"

definition WebAuthnPurposeRegister :: string where "WebAuthnPurposeRegister = ''register''"
definition WebAuthnPurposeLogin :: string where "WebAuthnPurposeLogin = ''login''"

definition EnrollmentClientID :: string where "EnrollmentClientID = ''omni-enrollment''"

definition DeviceStatusPending :: string where "DeviceStatusPending = ''pending''"
definition DeviceStatusActive :: string where "DeviceStatusActive = ''active''"
definition DeviceStatusRevoked :: string where "DeviceStatusRevoked = ''revoked''"

definition DeviceTrustEnrolled :: string where "DeviceTrustEnrolled = ''enrolled''"
definition DeviceTrustHardware :: string where "DeviceTrustHardware = ''hardware''"

definition KeyBackendFile :: string where "KeyBackendFile = ''file''"
definition KeyBackendDPAPI :: string where "KeyBackendDPAPI = ''dpapi''"
definition KeyBackendTPM :: string where "KeyBackendTPM = ''tpm''"
definition KeyBackendSecureEnclave :: string where "KeyBackendSecureEnclave = ''secure-enclave''"
definition KeyBackendStrongBox :: string where "KeyBackendStrongBox = ''strongbox''"
definition KeyBackendAndroidTEE :: string where "KeyBackendAndroidTEE = ''tee''"

definition DeviceCodePending :: string where "DeviceCodePending = ''pending''"
definition DeviceCodeApproved :: string where "DeviceCodeApproved = ''approved''"
definition DeviceCodeDenied :: string where "DeviceCodeDenied = ''denied''"
definition DeviceCodeConsumed :: string where "DeviceCodeConsumed = ''consumed''"

lemmas device_status_defs = DeviceStatusPending_def DeviceStatusActive_def DeviceStatusRevoked_def
lemmas device_code_status_defs =
  DeviceCodePending_def DeviceCodeApproved_def DeviceCodeDenied_def DeviceCodeConsumed_def

subsection \<open>Users, sessions, and what proves a user\<close>

record User =
  usr_ID :: string
  usr_Username :: string
  usr_Email :: string
  usr_PasswordHash :: string
  usr_IsAdmin :: bool
  usr_Disabled :: bool
  usr_AuthSource :: string
  usr_ExternalID :: string
  usr_FailedLoginCount :: int
  usr_LockedUntil :: time
  usr_MFAEnabled :: bool
  usr_TOTPSecret :: string
  usr_WebAuthnHandle :: string
  usr_CreatedAt :: time
  usr_UpdatedAt :: time

definition IsLocal :: "User \<Rightarrow> bool" where
  "IsLocal u \<longleftrightarrow> usr_AuthSource u = '''' \<or> usr_AuthSource u = ''local''"

definition IsLocked :: "User \<Rightarrow> time \<Rightarrow> bool" where
  "IsLocked u now \<longleftrightarrow> \<not> IsZero (usr_LockedUntil u) \<and> Before now (usr_LockedUntil u)"

record Session =
  ses_ID :: string
  ses_UserID :: string
  ses_CSRFSecret :: string
  ses_UserAgent :: string
  ses_CreatedAt :: time
  ses_ExpiresAt :: time
  ses_LastSeenAt :: time
  ses_AMR :: string

record AuditEvent =
  aud_ID :: string
  aud_CreatedAt :: time
  aud_Event :: string
  aud_ActorUserID :: string
  aud_Username :: string
  aud_ClientID :: string
  aud_IP :: string
  aud_UserAgent :: string
  aud_Success :: bool
  aud_Detail :: string

record PasswordToken =
  pt_ID :: string
  pt_UserID :: string
  pt_TokenHash :: string
  pt_Purpose :: string
  pt_Used :: bool
  pt_ExpiresAt :: time
  pt_CreatedAt :: time

record RecoveryCode =
  rc_ID :: string
  rc_UserID :: string
  rc_CodeHash :: string
  rc_Used :: bool
  rc_CreatedAt :: time

record LoginChallenge =
  lc_ID :: string
  lc_UserID :: string
  lc_Next :: string
  lc_Req :: string
  lc_AMR :: string
  lc_CreatedAt :: time
  lc_ExpiresAt :: time

record WebAuthnCredential =
  wc_ID :: string
  wc_UserID :: string
  wc_Name :: string
  wc_Credential :: string
  wc_AAGUID :: string
  wc_BackupEligible :: bool
  wc_CreatedAt :: time
  wc_LastUsedAt :: time

record WebAuthnCeremony =
  wy_ID :: string
  wy_UserID :: string
  wy_Purpose :: string
  wy_SessionData :: string
  wy_Next :: string
  wy_Req :: string
  wy_CreatedAt :: time
  wy_ExpiresAt :: time

subsection \<open>Clients, settings, branding\<close>

record Client =
  cl_ClientID :: string
  cl_ClientSecretHash :: string
  cl_Name :: string
  cl_RedirectURIs :: "string list"
  cl_AllowedScopes :: "string list"
  cl_Type :: string
  cl_Disabled :: bool
  cl_DisplayName :: string
  cl_LogoURL :: string
  cl_HomepageURL :: string
  cl_PostLogoutRedirectURIs :: "string list"
  cl_SkipConsent :: bool
  cl_CreatedAt :: time
  cl_UpdatedAt :: time

definition IsPublic :: "Client \<Rightarrow> bool" where
  "IsPublic c \<longleftrightarrow> cl_Type c = ClientTypePublic"

definition BuiltIn :: "Client \<Rightarrow> bool" where
  "BuiltIn c \<longleftrightarrow> cl_ClientID c = EnrollmentClientID"

definition Label :: "Client \<Rightarrow> string" where
  "Label c = (if cl_DisplayName c \<noteq> '''' then cl_DisplayName c
     else if cl_Name c \<noteq> '''' then cl_Name c
     else cl_ClientID c)"

record Settings =
  set_Issuer :: string
  set_PublicURL :: string
  set_TokenTTL :: string
  set_RefreshTokenTTL :: string
  set_MaxFailedLogins :: int
  set_LockoutDuration :: string
  set_RateLimitWindow :: string
  set_LoginIPMaxAttempts :: int
  set_PasswordVerifyConcurrency :: int
  set_MaxLoginUsernameBytes :: int
  set_MaxLoginPasswordBytes :: int
  set_AllowLoopbackHTTPRedirect :: bool
  set_AllowPrivateNetworkHTTPRedirect :: bool
  set_AllowPrivateSchemeRedirect :: bool
  set_PasswordMinLength :: int
  set_RequireUpper :: bool
  set_RequireLower :: bool
  set_RequireNumber :: bool
  set_RequireSymbol :: bool
  set_SessionIdleTimeout :: string
  set_SessionLifetime :: string
  set_CookieSecure :: bool
  set_MaxLogoBytes :: int
  set_LDAPManageEnabled :: bool
  set_LogLevel :: string
  set_LogHTTPRequests :: string
  set_DeviceTokenTTL :: string
  set_RequireDeviceApproval :: bool
  set_Seeded :: bool
  set_UpdatedAt :: time

record Branding =
  br_ProductName :: string
  br_LogoBytes :: string
  br_LogoContentType :: string
  br_AccentColor :: string
  br_FooterText :: string
  br_BackgroundStyle :: string
  br_UpdatedAt :: time

subsection \<open>Authorization requests, codes, tokens\<close>

record AuthRequest =
  ar_ID :: string
  ar_ClientID :: string
  ar_RedirectURI :: string
  ar_ResponseType :: string
  ar_Scope :: string
  ar_State :: string
  ar_Nonce :: string
  ar_CodeChallenge :: string
  ar_CodeChallengeMethod :: string
  ar_CreatedAt :: time
  ar_ExpiresAt :: time

record AuthorizationCode =
  ac_CodeHash :: string
  ac_ClientID :: string
  ac_UserID :: string
  ac_RedirectURI :: string
  ac_Scope :: string
  ac_Nonce :: string
  ac_CodeChallenge :: string
  ac_CodeChallengeMethod :: string
  ac_ExpiresAt :: time
  ac_Used :: bool
  ac_CreatedAt :: time
  ac_AuthTime :: time
  ac_AMR :: string

record RefreshToken =
  rt_ID :: string
  rt_TokenHash :: string
  rt_ClientID :: string
  rt_UserID :: string
  rt_Scope :: string
  rt_RotatedFrom :: string
  rt_Revoked :: bool
  rt_ExpiresAt :: time
  rt_CreatedAt :: time
  rt_AuthTime :: time
  rt_AMR :: string
  rt_DeviceID :: string
  rt_DPoPJKT :: string

record SigningKey =
  sk_KID :: string
  sk_Alg :: string
  sk_PublicJWK :: string
  sk_PrivatePEM :: string
  sk_Active :: bool
  sk_CreatedAt :: time

subsection \<open>Devices\<close>

definition TrustForKeyBackend :: "string \<Rightarrow> string" where
  "TrustForKeyBackend backend =
     (if backend \<in> {KeyBackendTPM, KeyBackendSecureEnclave, KeyBackendStrongBox, KeyBackendAndroidTEE}
      then DeviceTrustHardware else DeviceTrustEnrolled)"

record DevicePosture =
  po_OSName :: string
  po_OSVersion :: string
  po_DiskEncrypted :: "bool option"
  po_ScreenLock :: "bool option"
  po_KeyBackend :: string

record PersonalAccessToken =
  pat_ID :: string
  pat_UserID :: string
  pat_DeviceID :: string
  pat_ClientID :: string
  pat_Name :: string
  pat_Scope :: string
  pat_CreatedAt :: time
  pat_ExpiresAt :: time
  pat_LastUsedAt :: "time option"
  pat_RevokedAt :: "time option"

definition pat_Active :: "PersonalAccessToken \<Rightarrow> time \<Rightarrow> bool" where
  "pat_Active p now \<longleftrightarrow> pat_RevokedAt p = None \<and> Before now (pat_ExpiresAt p)"

record Device =
  dev_ID :: string
  dev_OwnerUserID :: string
  dev_Name :: string
  dev_Hostname :: string
  dev_Platform :: string
  dev_Architecture :: string
  dev_PublicKey :: string
  dev_PublicKeyAlgorithm :: string
  dev_Fingerprint :: string
  dev_PreviousFingerprint :: string
  dev_Status :: string
  dev_TrustLevel :: string
  dev_KeyBackend :: string
  dev_Posture :: string
  dev_PostureAt :: time
  dev_OwnerOnly :: bool
  dev_CreatedAt :: time
  dev_EnrolledAt :: time
  dev_LastSeenAt :: time
  dev_RevokedAt :: time

definition IsActive :: "Device \<Rightarrow> bool" where
  "IsActive d \<longleftrightarrow> dev_Status d = DeviceStatusActive"

definition IsPending :: "Device \<Rightarrow> bool" where
  "IsPending d \<longleftrightarrow> dev_Status d = DeviceStatusPending"

record DeviceCode =
  dc_ID :: string
  dc_DeviceCodeHash :: string
  dc_UserCode :: string
  dc_ClientID :: string
  dc_Scope :: string
  dc_DeviceID :: string
  dc_DeviceName :: string
  dc_DevicePlatform :: string
  dc_Status :: string
  dc_UserID :: string
  dc_AMR :: string
  dc_AuthTime :: time
  dc_LastPolledAt :: time
  dc_CreatedAt :: time
  dc_ExpiresAt :: time

text \<open>An active device is neither pending nor revoked; the three statuses are distinct strings.\<close>

lemma IsActive_status: "IsActive d \<Longrightarrow> dev_Status d \<noteq> DeviceStatusRevoked \<and> \<not> IsPending d"
  by (simp add: IsActive_def IsPending_def device_status_defs)

end
