(* ===== verification/StoreBase.thy ===== *)
theory StoreBase
  imports Model
begin

text \<open>
  The database (\<open>internal/store\<close>): one list of rows per table, and the statements the
  repository runs on it.

  \<^item> \<open>db\<close> holds every table of the migrations. A single-row table is the row itself.
  \<^item> \<open>db_faults\<close> names the statements the database fails to execute (a lost connection, a
    full disk): every error branch of a repository function is reached by some \<open>db\<close>. A
    statement that fails changes nothing, and a transaction that fails is rolled back.
  \<^item> \<open>db_ok\<close> collects the PRIMARY KEY, UNIQUE and FOREIGN KEY constraints of the migrations.
    A statement that writes a key column is checked against them, as the database does;
    that the others keep them is proved.
\<close>

subsection \<open>State\<close>

record jti_row =
  jti_Hash :: string
  jti_DeviceID :: string
  jti_ExpiresAt :: time

record db =
  db_users :: "User list"
  db_sessions :: "Session list"
  db_password_tokens :: "PasswordToken list"
  db_recovery_codes :: "RecoveryCode list"
  db_login_challenges :: "LoginChallenge list"
  db_webauthn_credentials :: "WebAuthnCredential list"
  db_webauthn_ceremonies :: "WebAuthnCeremony list"
  db_clients :: "Client list"
  db_auth_requests :: "AuthRequest list"
  db_auth_codes :: "AuthorizationCode list"
  db_refresh_tokens :: "RefreshToken list"
  db_signing_keys :: "SigningKey list"
  db_devices :: "Device list"
  db_device_codes :: "DeviceCode list"
  db_jtis :: "jti_row list"
  db_pats :: "PersonalAccessToken list"
  db_audit_log :: "AuditEvent list"
  db_settings :: Settings
  db_branding :: "Branding option"
  db_app_secret :: "string option"
  db_faults :: "string list"

definition fault :: "db \<Rightarrow> string \<Rightarrow> bool" where
  "fault d op \<longleftrightarrow> op \<in> set (db_faults d)"

subsection \<open>Statements\<close>

text \<open>A query; a statement whose effect is \<open>f\<close>; the same with \<open>requireRow\<close>, for a statement
  that selects \<open>n\<close> rows; and a statement the database accepts only under \<open>ok\<close>.\<close>

definition query :: "string \<Rightarrow> 'a res \<Rightarrow> db \<Rightarrow> 'a res" where
  "query op r d = (if fault d op then Inl ErrFault else r)"

definition exec :: "string \<Rightarrow> (db \<Rightarrow> db) \<Rightarrow> db \<Rightarrow> unit res \<times> db" where
  "exec op f d = (if fault d op then (Inl ErrFault, d) else (Inr (), f d))"

definition requireRow :: "nat \<Rightarrow> unit res" where
  "requireRow n = (if n = 0 then Inl ErrNotFound else Inr ())"

definition execRow :: "string \<Rightarrow> nat \<Rightarrow> (db \<Rightarrow> db) \<Rightarrow> db \<Rightarrow> unit res \<times> db" where
  "execRow op n f d = (if fault d op then (Inl ErrFault, d) else (requireRow n, f d))"

definition checked :: "(db \<Rightarrow> bool) \<Rightarrow> (string \<Rightarrow> (db \<Rightarrow> db) \<Rightarrow> db \<Rightarrow> 'a res \<times> db)
    \<Rightarrow> string \<Rightarrow> (db \<Rightarrow> db) \<Rightarrow> db \<Rightarrow> 'a res \<times> db" where
  "checked ok st op f d = (if \<not> fault d op \<and> \<not> ok (f d) then (Inl ErrConstraint, d) else st op f d)"

definition insert_row :: "string \<Rightarrow> (db \<Rightarrow> bool) \<Rightarrow> (db \<Rightarrow> db) \<Rightarrow> db \<Rightarrow> unit res \<times> db" where
  "insert_row op ok f = checked ok exec op f"

text \<open>The number of rows a statement changed.\<close>

definition execCount :: "string \<Rightarrow> nat \<Rightarrow> (db \<Rightarrow> db) \<Rightarrow> db \<Rightarrow> int res \<times> db" where
  "execCount op n f d = (if fault d op then (Inl ErrFault, d) else (Inr (int n), f d))"

text \<open>SELECT ... ORDER BY created_at DESC / ASC; rows with one time stamp stay in table order.\<close>

definition newest_first :: "('r \<Rightarrow> time) \<Rightarrow> 'r list \<Rightarrow> 'r list" where
  "newest_first f t = sort_key (\<lambda>r. - f r) t"

definition oldest_first :: "('r \<Rightarrow> time) \<Rightarrow> 'r list \<Rightarrow> 'r list" where
  "oldest_first f t = sort_key f t"

lemma query_Inr: "query op r d = Inr x \<longleftrightarrow> \<not> fault d op \<and> r = Inr x"
  by (simp add: query_def)

lemma snd_exec: "snd (exec op f d) = (if fault d op then d else f d)"
  by (simp add: exec_def)

lemma fst_exec: "fst (exec op f d) = (if fault d op then Inl ErrFault else Inr ())"
  by (simp add: exec_def)

lemma snd_execRow: "snd (execRow op n f d) = (if fault d op then d else f d)"
  by (simp add: execRow_def)

lemma snd_execCount: "snd (execCount op n f d) = (if fault d op then d else f d)"
  by (simp add: execCount_def)

lemma snd_insert_row: "snd (insert_row op ok f d) = (if fault d op \<or> \<not> ok (f d) then d else f d)"
  by (simp add: insert_row_def checked_def exec_def)

lemma execRow_Inr: "fst (execRow op n f d) = Inr u \<longleftrightarrow> \<not> fault d op \<and> 0 < n"
  by (simp add: execRow_def requireRow_def)

lemma insert_row_Inr: "fst (insert_row op ok f d) = Inr u \<longleftrightarrow> \<not> fault d op \<and> ok (f d)"
  by (simp add: insert_row_def checked_def exec_def)

lemmas stmt_snd = snd_exec snd_execRow snd_execCount snd_insert_row

text \<open>What a statement leaves alone, it leaves alone on every branch.\<close>

lemma stmt_frame:
  assumes "g (f d) = g d"
  shows "g (snd (exec op f d)) = g d" "g (snd (execRow op n f d)) = g d"
    "g (snd (execCount op n f d)) = g d" "g (snd (insert_row op ok f d)) = g d"
  using assms by (auto simp: stmt_snd)

lemma stmt_keeps:
  assumes "P d" and "P (f d)"
  shows "P (snd (exec op f d))" "P (snd (execRow op n f d))"
    "P (snd (execCount op n f d))" "P (snd (insert_row op ok f d))"
  using assms by (auto simp: stmt_snd)

lemma insert_keeps:
  assumes "P d" and "ok (f d) \<Longrightarrow> P (f d)"
  shows "P (snd (insert_row op ok f d))"
  using assms by (auto simp: stmt_snd)

subsection \<open>Constraints of the migrations\<close>

text \<open>The keys of the users table: \<open>id\<close>, \<open>username\<close>, \<open>email\<close>, and the partial unique indexes on
  \<open>(auth_source, external_id)\<close> and \<open>webauthn_handle\<close>.\<close>

definition users_ok :: "User list \<Rightarrow> bool" where
  "users_ok t \<longleftrightarrow> uniq_on usr_ID t \<and> uniq_on usr_Username t \<and> uniq_on usr_Email t
     \<and> uniq_on (\<lambda>u. (usr_AuthSource u, usr_ExternalID u)) (filter (\<lambda>u. usr_ExternalID u \<noteq> '''') t)
     \<and> uniq_on usr_WebAuthnHandle (filter (\<lambda>u. usr_WebAuthnHandle u \<noteq> '''') t)"

text \<open>A reference to a user: \<open>REFERENCES users(id)\<close>.\<close>

definition fk_user :: "db \<Rightarrow> string \<Rightarrow> bool" where
  "fk_user d i \<longleftrightarrow> i \<in> usr_ID ` set (db_users d)"

definition sessions_ok :: "db \<Rightarrow> bool" where
  "sessions_ok d \<longleftrightarrow> uniq_on ses_ID (db_sessions d) \<and> list_all (\<lambda>s. fk_user d (ses_UserID s)) (db_sessions d)"

definition password_tokens_ok :: "db \<Rightarrow> bool" where
  "password_tokens_ok d \<longleftrightarrow> uniq_on pt_ID (db_password_tokens d) \<and> uniq_on pt_TokenHash (db_password_tokens d)
     \<and> list_all (\<lambda>t. fk_user d (pt_UserID t)) (db_password_tokens d)"

definition recovery_codes_ok :: "db \<Rightarrow> bool" where
  "recovery_codes_ok d \<longleftrightarrow> uniq_on rc_ID (db_recovery_codes d)
     \<and> list_all (\<lambda>c. fk_user d (rc_UserID c)) (db_recovery_codes d)"

definition login_challenges_ok :: "db \<Rightarrow> bool" where
  "login_challenges_ok d \<longleftrightarrow> uniq_on lc_ID (db_login_challenges d)
     \<and> list_all (\<lambda>c. fk_user d (lc_UserID c)) (db_login_challenges d)"

definition webauthn_ok :: "db \<Rightarrow> bool" where
  "webauthn_ok d \<longleftrightarrow> uniq_on wc_ID (db_webauthn_credentials d) \<and> uniq_on wy_ID (db_webauthn_ceremonies d)
     \<and> list_all (\<lambda>c. fk_user d (wc_UserID c)) (db_webauthn_credentials d)"

definition grants_ok :: "db \<Rightarrow> bool" where
  "grants_ok d \<longleftrightarrow> uniq_on cl_ClientID (db_clients d) \<and> uniq_on ar_ID (db_auth_requests d)
     \<and> uniq_on ac_CodeHash (db_auth_codes d) \<and> uniq_on rt_ID (db_refresh_tokens d)
     \<and> uniq_on rt_TokenHash (db_refresh_tokens d) \<and> uniq_on sk_KID (db_signing_keys d)"

definition devices_ok :: "db \<Rightarrow> bool" where
  "devices_ok d \<longleftrightarrow> uniq_on dev_ID (db_devices d) \<and> uniq_on dev_Fingerprint (db_devices d)
     \<and> list_all (\<lambda>v. fk_user d (dev_OwnerUserID v)) (db_devices d)"

definition device_codes_ok :: "db \<Rightarrow> bool" where
  "device_codes_ok d \<longleftrightarrow> uniq_on dc_ID (db_device_codes d) \<and> uniq_on dc_DeviceCodeHash (db_device_codes d)
     \<and> uniq_on dc_UserCode (db_device_codes d)"

definition jtis_ok :: "db \<Rightarrow> bool" where
  "jtis_ok d \<longleftrightarrow> uniq_on jti_Hash (db_jtis d)"

definition pats_ok :: "db \<Rightarrow> bool" where
  "pats_ok d \<longleftrightarrow> uniq_on pat_ID (db_pats d)"

definition audit_ok :: "db \<Rightarrow> bool" where
  "audit_ok d \<longleftrightarrow> uniq_on aud_ID (db_audit_log d)"

definition db_ok :: "db \<Rightarrow> bool" where
  "db_ok d \<longleftrightarrow> users_ok (db_users d) \<and> sessions_ok d \<and> password_tokens_ok d \<and> recovery_codes_ok d
     \<and> login_challenges_ok d \<and> webauthn_ok d \<and> grants_ok d \<and> devices_ok d \<and> device_codes_ok d
     \<and> jtis_ok d \<and> pats_ok d \<and> audit_ok d"

lemmas ok_defs = sessions_ok_def password_tokens_ok_def recovery_codes_ok_def login_challenges_ok_def
  webauthn_ok_def grants_ok_def devices_ok_def device_codes_ok_def jtis_ok_def pats_ok_def audit_ok_def
  fk_user_def

lemma list_all_upd: "(\<And>r. r \<in> set t \<Longrightarrow> Q r \<Longrightarrow> Q (f r)) \<Longrightarrow> list_all Q t \<Longrightarrow> list_all Q (upd p f t)"
  by (auto simp: list_all_iff set_upd)

lemma list_all_del: "list_all Q t \<Longrightarrow> list_all Q (del p t)"
  by (auto simp: list_all_iff set_del)

text \<open>A query that satisfies its key columns is answered by one row.\<close>

lemma key_of_image: "key ` set (upd p f t) = key ` set t" if "\<And>r. key (f r) = key r"
  by (induction t) (auto simp: that)

subsection \<open>Tables of the database as keyed tables\<close>

interpretation users_tbl: table db_users db_users_update usr_ID
  by unfold_locales simp

interpretation sessions_tbl: table db_sessions db_sessions_update ses_ID
  by unfold_locales simp

interpretation refresh_tbl: table db_refresh_tokens db_refresh_tokens_update rt_ID
  by unfold_locales simp

interpretation devices_tbl: table db_devices db_devices_update dev_ID
  by unfold_locales simp

interpretation device_codes_tbl: table db_device_codes db_device_codes_update dc_ID
  by unfold_locales simp

interpretation clients_tbl: table db_clients db_clients_update cl_ClientID
  by unfold_locales simp

interpretation pats_tbl: table db_pats db_pats_update pat_ID
  by unfold_locales simp

end
