(* ===== verification/Accounts.thy ===== *)
theory Accounts
  imports StoreBase
begin

text \<open>
  The repositories of an account (\<open>internal/store\<close>: \<open>users.go\<close>, \<open>users_security.go\<close>,
  \<open>sessions.go\<close>, \<open>password_tokens.go\<close>, \<open>mfa.go\<close>, \<open>webauthn.go\<close>): one definition per method,
  with the clock reading \<open>now\<close> of the method as an argument, and a random identifier the
  method draws as another.
\<close>

subsection \<open>users.go\<close>

text \<open>\<open>CreateUser\<close> first fills in the default source; the caller sees the filled-in struct.\<close>

definition norm_user :: "User \<Rightarrow> User" where
  "norm_user u = (if usr_AuthSource u = '''' then u\<lparr>usr_AuthSource := ''local''\<rparr> else u)"

definition CreateUser :: "User \<Rightarrow> db \<Rightarrow> unit res \<times> db" where
  "CreateUser u = insert_row ''CreateUser'' (\<lambda>d. users_ok (db_users d))
     (db_users_update (\<lambda>t. t @ [norm_user u]))"

definition GetUserByID :: "string \<Rightarrow> db \<Rightarrow> User res" where
  "GetUserByID i d = query ''GetUserByID'' (sel1 (\<lambda>u. usr_ID u = i) (db_users d)) d"

definition GetUserByUsername :: "string \<Rightarrow> db \<Rightarrow> User res" where
  "GetUserByUsername n d = query ''GetUserByUsername'' (sel1 (\<lambda>u. usr_Username u = n) (db_users d)) d"

definition GetUserByEmail :: "string \<Rightarrow> db \<Rightarrow> User res" where
  "GetUserByEmail e d = query ''GetUserByEmail'' (sel1 (\<lambda>u. usr_Email u = e) (db_users d)) d"

definition GetUserByExternalID :: "string \<Rightarrow> string \<Rightarrow> db \<Rightarrow> User res" where
  "GetUserByExternalID src ext d = query ''GetUserByExternalID''
     (sel1 (\<lambda>u. usr_AuthSource u = src \<and> usr_ExternalID u = ext) (db_users d)) d"

definition update_users :: "string \<Rightarrow> string \<Rightarrow> (User \<Rightarrow> User) \<Rightarrow> db \<Rightarrow> unit res \<times> db" where
  "update_users op i f d = execRow op (affected (\<lambda>u. usr_ID u = i) (db_users d))
     (db_users_update (upd (\<lambda>u. usr_ID u = i) f)) d"

text \<open>The same statement when it writes a column with a unique index.\<close>

definition update_user_keys :: "string \<Rightarrow> string \<Rightarrow> (User \<Rightarrow> User) \<Rightarrow> db \<Rightarrow> unit res \<times> db" where
  "update_user_keys op i f d = checked (\<lambda>d. users_ok (db_users d))
     (\<lambda>op f d'. execRow op (affected (\<lambda>u. usr_ID u = i) (db_users d)) f d')
     op (db_users_update (upd (\<lambda>u. usr_ID u = i) f)) d"

definition UpsertExternalUser ::
  "string \<Rightarrow> string \<Rightarrow> string \<Rightarrow> string \<Rightarrow> bool \<Rightarrow> string \<Rightarrow> time \<Rightarrow> db \<Rightarrow> User res \<times> db" where
  "UpsertExternalUser source externalID username email isAdmin uuid now d =
     (case GetUserByExternalID source externalID d of
        Inr existing \<Rightarrow>
          (let (r, d') = update_user_keys ''UpsertExternalUser'' (usr_ID existing)
               (\<lambda>u. u\<lparr>usr_Email := email, usr_IsAdmin := isAdmin, usr_UpdatedAt := now\<rparr>) d
           in (case r of
                 Inl e \<Rightarrow> (Inl e, d')
               | Inr _ \<Rightarrow> (Inr (existing\<lparr>usr_Email := email, usr_IsAdmin := isAdmin, usr_UpdatedAt := now\<rparr>), d')))
      | Inl e \<Rightarrow>
          if e \<noteq> ErrNotFound then (Inl e, d)
          else if (case GetUserByUsername username d of Inr local \<Rightarrow> IsLocal local | Inl _ \<Rightarrow> False)
          then (Inl ErrCollides, d)
          else (let u = \<lparr>usr_ID = uuid, usr_Username = username, usr_Email = email, usr_PasswordHash = '''',
                         usr_IsAdmin = isAdmin, usr_Disabled = False, usr_AuthSource = source,
                         usr_ExternalID = externalID, usr_FailedLoginCount = 0, usr_LockedUntil = 0,
                         usr_MFAEnabled = False, usr_TOTPSecret = '''', usr_WebAuthnHandle = '''',
                         usr_CreatedAt = now, usr_UpdatedAt = now\<rparr>;
                    (r, d') = CreateUser u d
                in (case r of Inl e \<Rightarrow> (Inl e, d') | Inr _ \<Rightarrow> (Inr (norm_user u), d'))))"

definition UpdateUser :: "User \<Rightarrow> time \<Rightarrow> db \<Rightarrow> unit res \<times> db" where
  "UpdateUser u now = update_user_keys ''UpdateUser'' (usr_ID u)
     (\<lambda>r. r\<lparr>usr_Email := usr_Email u, usr_IsAdmin := usr_IsAdmin u, usr_Disabled := usr_Disabled u,
            usr_UpdatedAt := now\<rparr>)"

definition LinkUserToExternal :: "string \<Rightarrow> string \<Rightarrow> string \<Rightarrow> time \<Rightarrow> db \<Rightarrow> unit res \<times> db" where
  "LinkUserToExternal i source externalID now = update_user_keys ''LinkUserToExternal'' i
     (\<lambda>r. r\<lparr>usr_AuthSource := source, usr_ExternalID := externalID, usr_PasswordHash := '''',
            usr_UpdatedAt := now\<rparr>)"

definition SetUserPassword :: "string \<Rightarrow> string \<Rightarrow> time \<Rightarrow> db \<Rightarrow> unit res \<times> db" where
  "SetUserPassword i h now = update_users ''SetUserPassword'' i
     (\<lambda>r. r\<lparr>usr_PasswordHash := h, usr_UpdatedAt := now\<rparr>)"

text \<open>\<open>UPDATE personal_access_tokens SET revoked_at = at WHERE ... AND revoked_at IS NULL\<close>, which
  three repositories issue.\<close>

definition revoke_pats :: "(PersonalAccessToken \<Rightarrow> bool) \<Rightarrow> time \<Rightarrow> PersonalAccessToken list \<Rightarrow> PersonalAccessToken list" where
  "revoke_pats p t = upd (\<lambda>x. p x \<and> pat_RevokedAt x = None) (\<lambda>x. x\<lparr>pat_RevokedAt := Some t\<rparr>)"

definition SetUserDisabled :: "string \<Rightarrow> bool \<Rightarrow> time \<Rightarrow> db \<Rightarrow> unit res \<times> db" where
  "SetUserDisabled i disabled now d =
     (let (r, d') = update_users ''SetUserDisabled'' i (\<lambda>r. r\<lparr>usr_Disabled := disabled, usr_UpdatedAt := now\<rparr>) d
      in if r = Inl ErrFault then (r, d')
         else if disabled then
           (let (r2, d2) = exec ''SetUserDisabled/pats''
                (db_pats_update (revoke_pats (\<lambda>p. pat_UserID p = i) now)) d'
            in case r2 of Inl e \<Rightarrow> (Inl e, d2) | Inr _ \<Rightarrow> (r, d2))
         else (r, d'))"

text \<open>Deleting a user takes the rows that refer to it along (\<open>ON DELETE CASCADE\<close>).\<close>

definition cascade_user :: "string \<Rightarrow> db \<Rightarrow> db" where
  "cascade_user i d = d\<lparr>db_users := del (\<lambda>u. usr_ID u = i) (db_users d),
     db_sessions := del (\<lambda>s. ses_UserID s = i) (db_sessions d),
     db_password_tokens := del (\<lambda>t. pt_UserID t = i) (db_password_tokens d),
     db_recovery_codes := del (\<lambda>c. rc_UserID c = i) (db_recovery_codes d),
     db_login_challenges := del (\<lambda>c. lc_UserID c = i) (db_login_challenges d),
     db_webauthn_credentials := del (\<lambda>c. wc_UserID c = i) (db_webauthn_credentials d),
     db_devices := del (\<lambda>v. dev_OwnerUserID v = i) (db_devices d)\<rparr>"

definition DeleteUser :: "string \<Rightarrow> db \<Rightarrow> unit res \<times> db" where
  "DeleteUser i d =
     (let (r, d') = exec ''DeleteUser/pats'' (db_pats_update (del (\<lambda>p. pat_UserID p = i))) d
      in case r of Inl e \<Rightarrow> (Inl e, d')
         | Inr _ \<Rightarrow> execRow ''DeleteUser'' (affected (\<lambda>u. usr_ID u = i) (db_users d')) (cascade_user i) d')"

definition CountAdmins :: "db \<Rightarrow> int res" where
  "CountAdmins d = query ''CountAdmins''
     (Inr (int (affected (\<lambda>u. usr_IsAdmin u \<and> \<not> usr_Disabled u) (db_users d)))) d"

definition ListUsers :: "db \<Rightarrow> User list res" where
  "ListUsers d = query ''ListUsers'' (Inr (oldest_first usr_CreatedAt (db_users d))) d"

subsection \<open>users_security.go\<close>

definition failed_login_row :: "int \<Rightarrow> time \<Rightarrow> time \<Rightarrow> User \<Rightarrow> User" where
  "failed_login_row threshold lockUntil now u = u\<lparr>usr_FailedLoginCount := usr_FailedLoginCount u + 1,
     usr_LockedUntil := (if usr_FailedLoginCount u + 1 \<ge> threshold then lockUntil else usr_LockedUntil u),
     usr_UpdatedAt := now\<rparr>"

definition RecordFailedLogin :: "string \<Rightarrow> int \<Rightarrow> time \<Rightarrow> time \<Rightarrow> db \<Rightarrow> int res \<times> db" where
  "RecordFailedLogin i threshold lockUntil now d =
     (let (r, d') = exec ''RecordFailedLogin''
            (db_users_update (upd (\<lambda>u. usr_ID u = i) (failed_login_row threshold lockUntil now))) d
      in case r of Inl e \<Rightarrow> (Inl e, d')
         | Inr _ \<Rightarrow> (case query ''RecordFailedLogin/count'' (sel1 (\<lambda>u. usr_ID u = i) (db_users d')) d' of
                       Inr u \<Rightarrow> (Inr (usr_FailedLoginCount u), d')
                     | Inl e \<Rightarrow> (Inl (if e = ErrNotFound then ErrNoRows else e), d')))"

definition ResetFailedLogins :: "string \<Rightarrow> time \<Rightarrow> db \<Rightarrow> unit res \<times> db" where
  "ResetFailedLogins i now = exec ''ResetFailedLogins'' (db_users_update (upd (\<lambda>u. usr_ID u = i)
     (\<lambda>u. u\<lparr>usr_FailedLoginCount := 0, usr_LockedUntil := 0, usr_UpdatedAt := now\<rparr>)))"

definition SetUserMFA :: "string \<Rightarrow> bool \<Rightarrow> string \<Rightarrow> time \<Rightarrow> db \<Rightarrow> unit res \<times> db" where
  "SetUserMFA i enabled encSecret now = update_users ''SetUserMFA'' i
     (\<lambda>r. r\<lparr>usr_MFAEnabled := enabled, usr_TOTPSecret := encSecret, usr_UpdatedAt := now\<rparr>)"

subsection \<open>sessions.go\<close>

definition CreateSession :: "Session \<Rightarrow> db \<Rightarrow> unit res \<times> db" where
  "CreateSession s = insert_row ''CreateSession'' sessions_ok (db_sessions_update (\<lambda>t. t @ [s]))"

definition TouchSession :: "string \<Rightarrow> time \<Rightarrow> db \<Rightarrow> unit res \<times> db" where
  "TouchSession i at = exec ''TouchSession''
     (db_sessions_update (upd (\<lambda>s. ses_ID s = i) (\<lambda>s. s\<lparr>ses_LastSeenAt := at\<rparr>)))"

definition ListSessionsForUser :: "string \<Rightarrow> time \<Rightarrow> db \<Rightarrow> Session list res" where
  "ListSessionsForUser userID now d = query ''ListSessionsForUser''
     (Inr (newest_first ses_CreatedAt
        (filter (\<lambda>s. ses_UserID s = userID \<and> After (ses_ExpiresAt s) now) (db_sessions d)))) d"

definition DeleteSessionsForUser :: "string \<Rightarrow> string \<Rightarrow> db \<Rightarrow> int res \<times> db" where
  "DeleteSessionsForUser userID keepID d =
     (let p = (\<lambda>s. ses_UserID s = userID \<and> ses_ID s \<noteq> keepID)
      in execCount ''DeleteSessionsForUser'' (affected p (db_sessions d)) (db_sessions_update (del p)) d)"

definition CountActiveSessions :: "time \<Rightarrow> db \<Rightarrow> int res" where
  "CountActiveSessions now d = query ''CountActiveSessions''
     (Inr (int (affected (\<lambda>s. After (ses_ExpiresAt s) now) (db_sessions d)))) d"

definition GetSession :: "string \<Rightarrow> time \<Rightarrow> db \<Rightarrow> Session res" where
  "GetSession i now d = (case query ''GetSession'' (sel1 (\<lambda>s. ses_ID s = i) (db_sessions d)) d of
     Inl e \<Rightarrow> Inl e
   | Inr s \<Rightarrow> if After now (ses_ExpiresAt s) then Inl ErrNotFound else Inr s)"

definition DeleteSession :: "string \<Rightarrow> db \<Rightarrow> unit res \<times> db" where
  "DeleteSession i = exec ''DeleteSession'' (db_sessions_update (del (\<lambda>s. ses_ID s = i)))"

definition DeleteExpiredSessions :: "time \<Rightarrow> db \<Rightarrow> int res \<times> db" where
  "DeleteExpiredSessions now d =
     (let p = (\<lambda>s. Before (ses_ExpiresAt s) now)
      in execCount ''DeleteExpiredSessions'' (affected p (db_sessions d)) (db_sessions_update (del p)) d)"

subsection \<open>password\_tokens.go\<close>

definition CreatePasswordToken :: "PasswordToken \<Rightarrow> db \<Rightarrow> unit res \<times> db" where
  "CreatePasswordToken t = insert_row ''CreatePasswordToken'' password_tokens_ok
     (db_password_tokens_update (\<lambda>ts. ts @ [t\<lparr>pt_Used := False\<rparr>]))"

definition pt_usable :: "string \<Rightarrow> time \<Rightarrow> PasswordToken \<Rightarrow> bool" where
  "pt_usable h now t \<longleftrightarrow> pt_TokenHash t = h \<and> \<not> pt_Used t \<and> After (pt_ExpiresAt t) now"

definition ConsumePasswordToken :: "string \<Rightarrow> time \<Rightarrow> db \<Rightarrow> PasswordToken option res \<times> db" where
  "ConsumePasswordToken h now d =
     (let (r, d') = execCount ''ConsumePasswordToken'' (affected (pt_usable h now) (db_password_tokens d))
            (db_password_tokens_update (upd (pt_usable h now) (\<lambda>t. t\<lparr>pt_Used := True\<rparr>))) d
      in case r of Inl e \<Rightarrow> (Inl e, d')
         | Inr n \<Rightarrow> if n = 0 then (Inr None, d')
             else (case query ''ConsumePasswordToken/row''
                          (sel1 (\<lambda>t. pt_TokenHash t = h) (db_password_tokens d')) d' of
                     Inl e \<Rightarrow> (Inl (if e = ErrNotFound then ErrNoRows else e), d')
                   | Inr t \<Rightarrow> (Inr (Some t), d')))"

definition GetValidPasswordToken :: "string \<Rightarrow> time \<Rightarrow> db \<Rightarrow> PasswordToken res" where
  "GetValidPasswordToken h now d =
     (case query ''GetValidPasswordToken'' (sel1 (pt_usable h now) (db_password_tokens d)) d of
        Inl _ \<Rightarrow> Inl ErrNotFound | Inr t \<Rightarrow> Inr t)"

definition DeletePasswordTokensForUser :: "string \<Rightarrow> db \<Rightarrow> unit res \<times> db" where
  "DeletePasswordTokensForUser userID = exec ''DeletePasswordTokensForUser''
     (db_password_tokens_update (del (\<lambda>t. pt_UserID t = userID)))"

subsection \<open>mfa.go\<close>

text \<open>One transaction: any failing statement leaves the old codes in place.\<close>

definition ReplaceRecoveryCodes :: "string \<Rightarrow> RecoveryCode list \<Rightarrow> db \<Rightarrow> unit res \<times> db" where
  "ReplaceRecoveryCodes userID codes = insert_row ''ReplaceRecoveryCodes'' recovery_codes_ok
     (db_recovery_codes_update (\<lambda>t. del (\<lambda>c. rc_UserID c = userID) t @
        map (\<lambda>c. c\<lparr>rc_UserID := userID, rc_Used := False\<rparr>) codes))"

definition rc_usable :: "string \<Rightarrow> string \<Rightarrow> RecoveryCode \<Rightarrow> bool" where
  "rc_usable userID h c \<longleftrightarrow> rc_UserID c = userID \<and> rc_CodeHash c = h \<and> \<not> rc_Used c"

definition ConsumeRecoveryCode :: "string \<Rightarrow> string \<Rightarrow> db \<Rightarrow> bool res \<times> db" where
  "ConsumeRecoveryCode userID h d =
     (let (r, d') = execCount ''ConsumeRecoveryCode'' (affected (rc_usable userID h) (db_recovery_codes d))
            (db_recovery_codes_update (upd (rc_usable userID h) (\<lambda>c. c\<lparr>rc_Used := True\<rparr>))) d
      in (map_sum id (\<lambda>n. n > 0) r, d'))"

definition CountRecoveryCodes :: "string \<Rightarrow> db \<Rightarrow> int res" where
  "CountRecoveryCodes userID d = query ''CountRecoveryCodes''
     (Inr (int (affected (\<lambda>c. rc_UserID c = userID \<and> \<not> rc_Used c) (db_recovery_codes d)))) d"

definition DeleteRecoveryCodes :: "string \<Rightarrow> db \<Rightarrow> unit res \<times> db" where
  "DeleteRecoveryCodes userID = exec ''DeleteRecoveryCodes''
     (db_recovery_codes_update (del (\<lambda>c. rc_UserID c = userID)))"

definition CreateLoginChallenge :: "LoginChallenge \<Rightarrow> db \<Rightarrow> unit res \<times> db" where
  "CreateLoginChallenge c = insert_row ''CreateLoginChallenge'' login_challenges_ok
     (db_login_challenges_update (\<lambda>t. t @ [c]))"

definition GetLoginChallenge :: "string \<Rightarrow> time \<Rightarrow> db \<Rightarrow> LoginChallenge res" where
  "GetLoginChallenge i now d =
     (case query ''GetLoginChallenge'' (sel1 (\<lambda>c. lc_ID c = i) (db_login_challenges d)) d of
        Inl e \<Rightarrow> Inl e
      | Inr c \<Rightarrow> if After now (lc_ExpiresAt c) then Inl ErrNotFound else Inr c)"

definition DeleteLoginChallenge :: "string \<Rightarrow> db \<Rightarrow> unit res \<times> db" where
  "DeleteLoginChallenge i = exec ''DeleteLoginChallenge'' (db_login_challenges_update (del (\<lambda>c. lc_ID c = i)))"

subsection \<open>webauthn.go\<close>

definition CreateWebAuthnCredential :: "WebAuthnCredential \<Rightarrow> db \<Rightarrow> unit res \<times> db" where
  "CreateWebAuthnCredential c = insert_row ''CreateWebAuthnCredential'' webauthn_ok
     (db_webauthn_credentials_update (\<lambda>t. t @ [c]))"

definition GetWebAuthnCredential :: "string \<Rightarrow> db \<Rightarrow> WebAuthnCredential res" where
  "GetWebAuthnCredential i d = query ''GetWebAuthnCredential''
     (sel1 (\<lambda>c. wc_ID c = i) (db_webauthn_credentials d)) d"

definition ListWebAuthnCredentials :: "string \<Rightarrow> db \<Rightarrow> WebAuthnCredential list res" where
  "ListWebAuthnCredentials userID d = query ''ListWebAuthnCredentials''
     (Inr (oldest_first wc_CreatedAt (filter (\<lambda>c. wc_UserID c = userID) (db_webauthn_credentials d)))) d"

definition CountWebAuthnCredentials :: "string \<Rightarrow> db \<Rightarrow> int res" where
  "CountWebAuthnCredentials userID d = query ''CountWebAuthnCredentials''
     (Inr (int (affected (\<lambda>c. wc_UserID c = userID) (db_webauthn_credentials d)))) d"

definition UpdateWebAuthnCredential :: "string \<Rightarrow> string \<Rightarrow> time \<Rightarrow> db \<Rightarrow> unit res \<times> db" where
  "UpdateWebAuthnCredential i credential usedAt d =
     execRow ''UpdateWebAuthnCredential'' (affected (\<lambda>c. wc_ID c = i) (db_webauthn_credentials d))
       (db_webauthn_credentials_update (upd (\<lambda>c. wc_ID c = i)
          (\<lambda>c. c\<lparr>wc_Credential := credential, wc_LastUsedAt := usedAt\<rparr>))) d"

definition DeleteWebAuthnCredential :: "string \<Rightarrow> string \<Rightarrow> db \<Rightarrow> unit res \<times> db" where
  "DeleteWebAuthnCredential userID i d =
     (let p = (\<lambda>c. wc_ID c = i \<and> wc_UserID c = userID)
      in execRow ''DeleteWebAuthnCredential'' (affected p (db_webauthn_credentials d))
           (db_webauthn_credentials_update (del p)) d)"

definition DeleteWebAuthnCredentialsForUser :: "string \<Rightarrow> db \<Rightarrow> int res \<times> db" where
  "DeleteWebAuthnCredentialsForUser userID d =
     (let p = (\<lambda>c. wc_UserID c = userID)
      in execCount ''DeleteWebAuthnCredentialsForUser'' (affected p (db_webauthn_credentials d))
           (db_webauthn_credentials_update (del p)) d)"

definition SetUserWebAuthnHandle :: "string \<Rightarrow> string \<Rightarrow> db \<Rightarrow> unit res \<times> db" where
  "SetUserWebAuthnHandle userID handle d =
     (let p = (\<lambda>u. usr_ID u = userID \<and> usr_WebAuthnHandle u = '''')
      in checked (\<lambda>d. users_ok (db_users d)) (\<lambda>op f d'. execRow op (affected p (db_users d)) f d')
           ''SetUserWebAuthnHandle'' (db_users_update (upd p (\<lambda>u. u\<lparr>usr_WebAuthnHandle := handle\<rparr>))) d)"

definition GetUserByWebAuthnHandle :: "string \<Rightarrow> db \<Rightarrow> User res" where
  "GetUserByWebAuthnHandle handle d =
     (if handle = '''' then Inl ErrNotFound
      else query ''GetUserByWebAuthnHandle'' (sel1 (\<lambda>u. usr_WebAuthnHandle u = handle) (db_users d)) d)"

definition CreateWebAuthnCeremony :: "WebAuthnCeremony \<Rightarrow> db \<Rightarrow> unit res \<times> db" where
  "CreateWebAuthnCeremony c = insert_row ''CreateWebAuthnCeremony'' webauthn_ok
     (db_webauthn_ceremonies_update (\<lambda>t. t @ [c]))"

text \<open>Fetch and delete in one transaction; an expired ceremony is deleted and not returned.\<close>

definition ConsumeWebAuthnCeremony :: "string \<Rightarrow> time \<Rightarrow> db \<Rightarrow> WebAuthnCeremony res \<times> db" where
  "ConsumeWebAuthnCeremony i now d =
     (if fault d ''ConsumeWebAuthnCeremony'' then (Inl ErrFault, d)
      else case sel1 (\<lambda>c. wy_ID c = i) (db_webauthn_ceremonies d) of
        Inl e \<Rightarrow> (Inl e, d)
      | Inr c \<Rightarrow>
          (let d' = db_webauthn_ceremonies_update (del (\<lambda>c. wy_ID c = i)) d
           in if After now (wy_ExpiresAt c) then (Inl ErrNotFound, d') else (Inr c, d')))"

definition DeleteExpiredWebAuthnCeremonies :: "time \<Rightarrow> db \<Rightarrow> int res \<times> db" where
  "DeleteExpiredWebAuthnCeremonies now d =
     (let p = (\<lambda>c. Before (wy_ExpiresAt c) now)
      in execCount ''DeleteExpiredWebAuthnCeremonies'' (affected p (db_webauthn_ceremonies d))
           (db_webauthn_ceremonies_update (del p)) d)"

end
