(* ===== verification/Credentials.thy ===== *)
theory Credentials
  imports Oidc Accounts
begin

text \<open>
  Credentials (\<open>internal/auth\<close>): random tokens and their hashes (\<open>random.go\<close>, \<open>tokens.go\<close>),
  CSRF tokens (\<open>csrf.go\<close>), Argon2id password hashes in PHC format (\<open>password.go\<close>), the
  password policy (\<open>policy.go\<close>), one-time codes (\<open>totp.go\<close>) and the check of a local password
  (\<open>authenticate.go\<close>).

  Random bytes are arguments. The key derivation \<open>argon2.IDKey\<close> is third-party code and an
  argument \<open>idkey\<close>; \<open>None\<close> is its panic on parameters it refuses. The Unicode categories and
  the lower case of a code point are arguments \<open>uc\<close> beyond Latin-1 and ASCII.
\<close>

subsection \<open>random.go, tokens.go\<close>

definition RandomToken :: "string \<Rightarrow> string" where
  "RandomToken rnd = RawURLEncode rnd"

definition RandomHex :: "string \<Rightarrow> string" where
  "RandomHex rnd = hex_encode rnd"

definition HashToken :: "string \<Rightarrow> string" where
  "HashToken token = hex_encode (Sum256 token)"

definition SecretMatches :: "string \<Rightarrow> string \<Rightarrow> bool" where
  "SecretMatches presented storedHash = ConstantTimeCompare (HashToken presented) storedHash"

lemma SecretMatches_iff: "SecretMatches p h \<longleftrightarrow> h = HashToken p"
  by (auto simp: SecretMatches_def ConstantTimeCompare_eq)

lemma HashToken_length [simp]: "length (HashToken t) = 64"
  by (simp add: HashToken_def)

lemma HashToken_not_Nil [simp]: "HashToken t \<noteq> []"
  by (metis HashToken_length list.size(3) zero_neq_numeral)

subsection \<open>csrf.go\<close>

text \<open>The cookie of the request, if it carries one; the second component is the cookie the
  response sets.\<close>

definition CSRFToken :: "string option \<Rightarrow> string \<Rightarrow> string \<times> string option" where
  "CSRFToken cookie rnd = (case cookie of
     Some c \<Rightarrow> if c \<noteq> '''' then (c, None) else (RandomToken rnd, Some (RandomToken rnd))
   | None \<Rightarrow> (RandomToken rnd, Some (RandomToken rnd)))"

definition ValidateCSRFToken :: "string option \<Rightarrow> string \<Rightarrow> bool" where
  "ValidateCSRFToken cookie submitted = (case cookie of
     None \<Rightarrow> False
   | Some c \<Rightarrow> if c = '''' \<or> submitted = '''' then False else ConstantTimeCompare c submitted)"

definition ValidateSessionCSRF :: "Session option \<Rightarrow> string \<Rightarrow> bool" where
  "ValidateSessionCSRF sess submitted = (case sess of
     None \<Rightarrow> False
   | Some s \<Rightarrow> if ses_CSRFSecret s = '''' \<or> submitted = '''' then False
       else ConstantTimeCompare (ses_CSRFSecret s) submitted)"

lemma ValidateCSRFToken_iff: "ValidateCSRFToken cookie t \<longleftrightarrow> cookie = Some t \<and> t \<noteq> ''''"
  by (auto simp: ValidateCSRFToken_def ConstantTimeCompare_eq split: option.split)

lemma ValidateSessionCSRF_iff:
  "ValidateSessionCSRF sess t \<longleftrightarrow> (\<exists>s. sess = Some s \<and> ses_CSRFSecret s = t \<and> t \<noteq> '''')"
  by (auto simp: ValidateSessionCSRF_def ConstantTimeCompare_eq split: option.split)

lemma CSRFToken_validates:
  "rnd \<noteq> [] \<Longrightarrow> CSRFToken cookie rnd = (tok, issued) \<Longrightarrow>
     ValidateCSRFToken (case issued of Some c \<Rightarrow> Some c | None \<Rightarrow> cookie) tok"
  using length_b64_encode [of b64url_alphabet rnd]
  by (auto simp: CSRFToken_def ValidateCSRFToken_iff RandomToken_def RawURLEncode_def split: option.splits if_splits)
     (cases rnd; simp)+

subsection \<open>password.go\<close>

record argon2Params =
  ap_memory :: nat
  ap_time :: nat
  ap_threads :: nat
  ap_saltLen :: nat
  ap_keyLen :: nat

definition defaultParams :: argon2Params where
  "defaultParams = \<lparr>ap_memory = 64 * 1024, ap_time = 2, ap_threads = 4, ap_saltLen = 16, ap_keyLen = 32\<rparr>"

definition argon2_Version :: nat where "argon2_Version = 19"

text \<open>\<open>argon2.IDKey(password, salt, time, memory, threads, keyLen)\<close>.\<close>

type_synonym idkey = "string \<Rightarrow> string \<Rightarrow> nat \<Rightarrow> nat \<Rightarrow> nat \<Rightarrow> nat \<Rightarrow> string option"

definition phc :: "argon2Params \<Rightarrow> string \<Rightarrow> string \<Rightarrow> string" where
  "phc p salt key = ''$argon2id$v='' @ itoa argon2_Version @ ''$m='' @ itoa (ap_memory p) @ '',t='' @ itoa (ap_time p)
     @ '',p='' @ itoa (ap_threads p) @ ''$'' @ RawStdEncode salt @ ''$'' @ RawStdEncode key"

text \<open>\<open>salt\<close> is what \<open>rand.Read\<close> filled in, \<open>None\<close> when it failed.\<close>

definition HashPassword :: "idkey \<Rightarrow> string option \<Rightarrow> string \<Rightarrow> string option" where
  "HashPassword idkey salt plain = (case salt of
     None \<Rightarrow> None
   | Some s \<Rightarrow> (let p = defaultParams in
       map_option (phc p s) (idkey plain s (ap_time p) (ap_memory p) (ap_threads p) (ap_keyLen p))))"

text \<open>\<open>fmt.Sscanf\<close> with literals and \<open>%d\<close> verbs: a verb skips blanks (not line ends) before the
  number; a signed one takes a sign; what follows the last verb is not looked at.\<close>

fun scan_lit :: "string \<Rightarrow> string \<Rightarrow> string option" where
  "scan_lit [] s = Some s"
| "scan_lit (f # fs) [] = None"
| "scan_lit (f # fs) (c # cs) = (if f = c then scan_lit fs cs else None)"

fun skip_space :: "(nat \<times> string) list \<Rightarrow> string option" where
  "skip_space [] = Some []"
| "skip_space ((r, b) # rs) =
     (if r = 13 \<and> (case rs of (r', _) # _ \<Rightarrow> r' = 10 | [] \<Rightarrow> False) then skip_space rs
      else if r = 10 then None
      else if IsSpace r then skip_space rs
      else Some (b @ concat (map snd rs)))"

definition scan_digits :: "string \<Rightarrow> (nat \<times> string) option" where
  "scan_digits s = (let ds = takeWhile is_digit s
     in if ds = [] then None else Some (dec_val ds, dropWhile is_digit s))"

definition scan_uint32 :: "string \<Rightarrow> (nat \<times> string) option" where
  "scan_uint32 s = (case skip_space (runes s) of None \<Rightarrow> None
     | Some t \<Rightarrow> (case scan_digits t of None \<Rightarrow> None
         | Some (n, rest) \<Rightarrow> if n < 2 ^ 32 then Some (n, rest) else None))"

definition scan_int :: "string \<Rightarrow> (int \<times> string) option" where
  "scan_int s = (case skip_space (runes s) of None \<Rightarrow> None
     | Some t \<Rightarrow> (let neg = (t \<noteq> [] \<and> hd t = CHR ''-'');
                     u = (if t \<noteq> [] \<and> (hd t = CHR ''-'' \<or> hd t = CHR ''+'') then tl t else t)
         in case scan_digits u of None \<Rightarrow> None
            | Some (n, rest) \<Rightarrow> (let v = (if neg then - int n else int n)
                in if - (2 ^ 63) \<le> v \<and> v < 2 ^ 63 then Some (v, rest) else None)))"

definition scan_version :: "string \<Rightarrow> int option" where
  "scan_version s = (case scan_lit ''v='' s of None \<Rightarrow> None | Some t \<Rightarrow> map_option fst (scan_int t))"

definition scan_costs :: "string \<Rightarrow> (nat \<times> nat \<times> nat) option" where
  "scan_costs s = (case Option.bind (scan_lit ''m='' s) scan_uint32 of None \<Rightarrow> None
     | Some (m, s1) \<Rightarrow> (case Option.bind (scan_lit '',t='' s1) scan_uint32 of None \<Rightarrow> None
       | Some (t, s2) \<Rightarrow> (case Option.bind (scan_lit '',p='' s2) scan_uint32 of None \<Rightarrow> None
         | Some (p, _) \<Rightarrow> Some (m, t, p))))"

definition decodeHash :: "string \<Rightarrow> (argon2Params \<times> string \<times> string) option" where
  "decodeHash encoded =
     (let parts = split_on CHR ''$'' encoded in
      if length parts \<noteq> 6 \<or> parts ! 1 \<noteq> ''argon2id'' then None
      else case scan_version (parts ! 2) of None \<Rightarrow> None
      | Some version \<Rightarrow> if version \<noteq> int argon2_Version then None
        else case scan_costs (parts ! 3) of None \<Rightarrow> None
        | Some (mem, iters, threads) \<Rightarrow>
          (case RawStdDecode (parts ! 4) of None \<Rightarrow> None
           | Some salt \<Rightarrow> (case RawStdDecode (parts ! 5) of None \<Rightarrow> None
               | Some hash \<Rightarrow> Some (\<lparr>ap_memory = mem, ap_time = iters, ap_threads = threads mod 256,
                    ap_saltLen = length salt mod 2 ^ 32, ap_keyLen = length hash mod 2 ^ 32\<rparr>, salt, hash))))"

text \<open>What \<open>VerifyPassword\<close> does: an error for a malformed hash, a panic of the key derivation, or
  a verdict.\<close>

datatype verdict = Malformed | Panics | Verdict bool

definition VerifyPassword :: "idkey \<Rightarrow> string \<Rightarrow> string \<Rightarrow> verdict" where
  "VerifyPassword idkey plain encoded = (case decodeHash encoded of
     None \<Rightarrow> Malformed
   | Some (p, salt, want) \<Rightarrow>
       (case idkey plain salt (ap_time p) (ap_memory p) (ap_threads p) (ap_keyLen p) of
          None \<Rightarrow> Panics
        | Some got \<Rightarrow> Verdict (ConstantTimeCompare want got)))"

text \<open>The documented behaviour of \<open>argon2.IDKey\<close> the round trip rests on: with at least one pass,
  one lane and one byte of output it returns a key of the requested length.\<close>

definition idkey_total :: "idkey \<Rightarrow> bool" where
  "idkey_total idkey \<longleftrightarrow> (\<forall>pw salt t m p n. 1 \<le> t \<longrightarrow> 1 \<le> p \<longrightarrow> 1 \<le> n \<longrightarrow>
     (\<exists>key. idkey pw salt t m p n = Some key \<and> length key = n))"

lemma no_dollar_b64: "CHR ''$'' \<notin> set (RawStdEncode s)"
  using b64_encode_set [of b64std_alphabet "CHR ''$''" s] by (auto simp: RawStdEncode_def b64std_alphabet_def)

lemma phc_default:
  "phc defaultParams salt key = ''$argon2id$v=19$m=65536,t=2,p=4$'' @ RawStdEncode salt @ ''$'' @ RawStdEncode key"
  by (simp add: phc_def defaultParams_def argon2_Version_def itoa.simps digit_char_def) code_simp

lemma split_phc:
  "split_on CHR ''$'' (phc defaultParams salt key) =
     ['''', ''argon2id'', ''v=19'', ''m=65536,t=2,p=4'', RawStdEncode salt, RawStdEncode key]"
proof -
  have "split_on CHR ''$'' (RawStdEncode salt @ ''$'' @ RawStdEncode key) = [RawStdEncode salt, RawStdEncode key]"
    using split_on_append [OF no_dollar_b64, of salt "RawStdEncode key"] split_on_no_sep [OF no_dollar_b64, of key] by simp
  then show ?thesis by (simp add: phc_default)
qed

lemma decodeHash_phc:
  assumes "length salt = 16" and "length key = 32"
  shows "decodeHash (phc defaultParams salt key) = Some (defaultParams, salt, key)"
proof -
  have v: "scan_version ''v=19'' = Some 19"
    by (simp add: scan_version_def scan_int_def scan_digits_def runes_ascii_Cons IsSpace_def is_digit_def dec_val_def
        digit_val_def)
  have c: "scan_costs ''m=65536,t=2,p=4'' = Some (65536, 2, 4)"
    by (simp add: scan_costs_def scan_uint32_def scan_digits_def runes_ascii_Cons IsSpace_def is_digit_def dec_val_def
        digit_val_def)
  show ?thesis
    unfolding decodeHash_def split_phc Let_def
    by (simp add: v c argon2_Version_def RawStd_roundtrip assms) (simp add: defaultParams_def)
qed

text \<open>A password hash verifies exactly the passwords that derive the same key: the hash the program
  writes is read back with the parameters, the salt and the key it was made of, never malformed and
  never a panic, and the verdict on a candidate is whether its derived key is the stored one.\<close>

theorem password_roundtrip:
  assumes "idkey_total idkey" and "length salt = 16"
  shows "\<exists>h. HashPassword idkey (Some salt) plain = Some h
    \<and> VerifyPassword idkey plain h = Verdict True
    \<and> VerifyPassword idkey other h = Verdict (idkey other salt 2 65536 4 32 = idkey plain salt 2 65536 4 32)"
proof -
  obtain key where k: "idkey plain salt 2 65536 4 32 = Some key" "length key = 32"
    using assms(1) unfolding idkey_total_def by (metis one_le_numeral)
  obtain key' where k': "idkey other salt 2 65536 4 32 = Some key'"
    using assms(1) unfolding idkey_total_def by (metis one_le_numeral)
  have h: "HashPassword idkey (Some salt) plain = Some (phc defaultParams salt key)"
    using k by (simp add: HashPassword_def defaultParams_def)
  show ?thesis
    using decodeHash_phc [OF assms(2) k(2)] k k'
    by (auto simp: h VerifyPassword_def defaultParams_def ConstantTimeCompare_eq)
qed

theorem password_roundtrip_witness:
  "\<exists>h. HashPassword (\<lambda>pw salt t m p n. if t = 0 \<or> p = 0 \<or> n = 0 then None else Some (take n (pw @ salt @ replicate n CHR ''k'')))
     (Some (replicate 16 CHR ''s'')) ''pw'' = Some h"
proof -
  let ?k = "\<lambda>pw salt t m p n. if t = 0 \<or> p = 0 \<or> n = 0 then None else Some (take n (pw @ salt @ replicate n CHR ''k''))"
  have "idkey_total ?k" by (auto simp: idkey_total_def min_def)
  from password_roundtrip [OF this, of "replicate 16 CHR ''s''" "''pw''" "''pw''"] show ?thesis by auto
qed

text \<open>An account without a local hash, such as a directory user, matches no password.\<close>

lemma VerifyPassword_empty: "VerifyPassword idkey plain '''' = Malformed"
  by (simp add: VerifyPassword_def decodeHash_def)

subsection \<open>policy.go\<close>

text \<open>The Unicode tables of the \<open>unicode\<close> package: exact on Latin-1, an argument above it, and the
  lower case of a code point above ASCII as the bytes of its encoding.\<close>

record unicode_tables =
  uc_upper :: "nat \<Rightarrow> bool"
  uc_lower :: "nat \<Rightarrow> bool"
  uc_number :: "nat \<Rightarrow> bool"
  uc_punct_symbol :: "nat \<Rightarrow> bool"
  uc_to_lower :: "nat \<Rightarrow> string \<Rightarrow> string"

definition IsUpper :: "unicode_tables \<Rightarrow> nat \<Rightarrow> bool" where
  "IsUpper uc r = (if r < 256 then (65 \<le> r \<and> r \<le> 90) \<or> (192 \<le> r \<and> r \<le> 222 \<and> r \<noteq> 215) else uc_upper uc r)"

definition IsLower :: "unicode_tables \<Rightarrow> nat \<Rightarrow> bool" where
  "IsLower uc r = (if r < 256 then (97 \<le> r \<and> r \<le> 122) \<or> r = 181 \<or> (223 \<le> r \<and> r \<noteq> 247) else uc_lower uc r)"

definition IsNumber :: "unicode_tables \<Rightarrow> nat \<Rightarrow> bool" where
  "IsNumber uc r = (if r < 256 then (48 \<le> r \<and> r \<le> 57) \<or> r \<in> {178, 179, 185, 188, 189, 190} else uc_number uc r)"

definition IsPunctOrSymbol :: "unicode_tables \<Rightarrow> nat \<Rightarrow> bool" where
  "IsPunctOrSymbol uc r = (if r < 128 then (33 \<le> r \<and> r \<le> 47) \<or> (58 \<le> r \<and> r \<le> 64) \<or> (91 \<le> r \<and> r \<le> 96) \<or> (123 \<le> r \<and> r \<le> 126)
     else if r < 256 then (161 \<le> r \<and> r \<le> 169) \<or> r \<in> {171, 172, 174, 175, 176, 177, 180, 182, 183, 184, 187, 191, 215, 247}
     else uc_punct_symbol uc r)"

definition toLower :: "unicode_tables \<Rightarrow> string \<Rightarrow> string" where
  "toLower uc s = concat (map (\<lambda>(r, b). if r < 128 then map lower_char b else uc_to_lower uc r b) (runes s))"

record PasswordPolicy =
  pp_MinLength :: int
  pp_RequireUpper :: bool
  pp_RequireLower :: bool
  pp_RequireNumber :: bool
  pp_RequireSymbol :: bool

definition min_length :: "PasswordPolicy \<Rightarrow> int" where
  "min_length p = (if pp_MinLength p < 8 then 8 else pp_MinLength p)"

definition Describe :: "PasswordPolicy \<Rightarrow> string" where
  "Describe p = intercalate '', '' ([''at least '' @ itoa (nat (min_length p)) @ '' characters'']
     @ (if pp_RequireUpper p then [''an uppercase letter''] else [])
     @ (if pp_RequireLower p then [''a lowercase letter''] else [])
     @ (if pp_RequireNumber p then [''a number''] else [])
     @ (if pp_RequireSymbol p then [''a symbol''] else []))"

text \<open>The classes found so far, one code point at a time; a code point counts for the first class it
  belongs to.\<close>

record char_classes =
  cc_upper :: bool
  cc_lower :: bool
  cc_number :: bool
  cc_symbol :: bool

fun classify :: "unicode_tables \<Rightarrow> (nat \<times> string) list \<Rightarrow> char_classes \<Rightarrow> char_classes" where
  "classify uc [] k = k"
| "classify uc ((r, b) # rs) k = classify uc rs
     (if IsUpper uc r then k\<lparr>cc_upper := True\<rparr>
      else if IsLower uc r then k\<lparr>cc_lower := True\<rparr>
      else if IsNumber uc r then k\<lparr>cc_number := True\<rparr>
      else if IsPunctOrSymbol uc r then k\<lparr>cc_symbol := True\<rparr>
      else k)"

definition ValidatePassword :: "unicode_tables \<Rightarrow> string \<Rightarrow> string \<Rightarrow> string \<Rightarrow> PasswordPolicy \<Rightarrow> string" where
  "ValidatePassword uc password username email p =
     (if int (rune_count password) < min_length p then
        ''Password must be at least '' @ itoa (nat (min_length p)) @ '' characters.''
      else let k = classify uc (runes password) \<lparr>cc_upper = False, cc_lower = False, cc_number = False, cc_symbol = False\<rparr>;
               lower = toLower uc password
      in if pp_RequireUpper p \<and> \<not> cc_upper k then ''Password must contain an uppercase letter.''
         else if pp_RequireLower p \<and> \<not> cc_lower k then ''Password must contain a lowercase letter.''
         else if pp_RequireNumber p \<and> \<not> cc_number k then ''Password must contain a number.''
         else if pp_RequireSymbol p \<and> \<not> cc_symbol k then ''Password must contain a symbol.''
         else if username \<noteq> '''' \<and> lower = toLower uc username then ''Password must not match your username.''
         else if email \<noteq> '''' \<and> lower = toLower uc email then ''Password must not match your email.''
         else '''')"

definition sample_tables :: unicode_tables where
  "sample_tables = \<lparr>uc_upper = \<lambda>_. False, uc_lower = \<lambda>_. False, uc_number = \<lambda>_. False, uc_punct_symbol = \<lambda>_. False,
     uc_to_lower = \<lambda>_ b. b\<rparr>"

lemma classify_classes:
  "cc_upper (classify uc rs k) \<longleftrightarrow> cc_upper k \<or> (\<exists>r \<in> fst ` set rs. IsUpper uc r)"
  "cc_lower (classify uc rs k) \<longleftrightarrow> cc_lower k \<or> (\<exists>r \<in> fst ` set rs. IsLower uc r \<and> \<not> IsUpper uc r)"
  "cc_number (classify uc rs k) \<longleftrightarrow> cc_number k \<or> (\<exists>r \<in> fst ` set rs. IsNumber uc r \<and> \<not> IsUpper uc r \<and> \<not> IsLower uc r)"
  "cc_symbol (classify uc rs k) \<longleftrightarrow> cc_symbol k \<or> (\<exists>r \<in> fst ` set rs. IsPunctOrSymbol uc r \<and> \<not> IsUpper uc r \<and> \<not> IsLower uc r
     \<and> \<not> IsNumber uc r)"
  by (induction uc rs k rule: classify.induct) auto

text \<open>A password is accepted exactly when it has at least eight code points and the configured
  minimum, contains every required class of character, and is neither the username nor the email up
  to case; a policy cannot lower the minimum below eight.\<close>

theorem ValidatePassword_accepts:
  "ValidatePassword uc pw username email p = '''' \<longleftrightarrow>
     8 \<le> rune_count pw \<and> pp_MinLength p \<le> int (rune_count pw)
     \<and> (pp_RequireUpper p \<longrightarrow> (\<exists>r \<in> fst ` set (runes pw). IsUpper uc r))
     \<and> (pp_RequireLower p \<longrightarrow> (\<exists>r \<in> fst ` set (runes pw). IsLower uc r \<and> \<not> IsUpper uc r))
     \<and> (pp_RequireNumber p \<longrightarrow> (\<exists>r \<in> fst ` set (runes pw). IsNumber uc r \<and> \<not> IsUpper uc r \<and> \<not> IsLower uc r))
     \<and> (pp_RequireSymbol p \<longrightarrow> (\<exists>r \<in> fst ` set (runes pw). IsPunctOrSymbol uc r \<and> \<not> IsUpper uc r \<and> \<not> IsLower uc r
          \<and> \<not> IsNumber uc r))
     \<and> (username \<noteq> '''' \<longrightarrow> toLower uc pw \<noteq> toLower uc username) \<and> (email \<noteq> '''' \<longrightarrow> toLower uc pw \<noteq> toLower uc email)"
  by (auto simp: ValidatePassword_def Let_def classify_classes min_length_def)

definition sample_policy :: PasswordPolicy where
  "sample_policy = \<lparr>pp_MinLength = 4, pp_RequireUpper = True, pp_RequireLower = True, pp_RequireNumber = True, pp_RequireSymbol = True\<rparr>"

theorem ValidatePassword_accepts_witness:
  "8 \<le> rune_count ''Secret-1x'' \<and> (\<exists>r \<in> fst ` set (runes ''Secret-1x''). IsUpper sample_tables r)
     \<and> ValidatePassword sample_tables ''Secret-1x'' ''alice'' '''' sample_policy = ''''"
proof -
  have "ValidatePassword sample_tables ''Secret-1x'' ''alice'' '''' sample_policy = ''''" by code_simp
  with ValidatePassword_accepts [of sample_tables "''Secret-1x''" "''alice''" "''''" sample_policy] show ?thesis
    by (simp add: sample_policy_def)
qed

subsection \<open>totp.go\<close>

definition totpDigits :: nat where "totpDigits = 6"
definition totpPeriod :: duration where "totpPeriod = 30 * Second"
definition totpSkew :: int where "totpSkew = 1"

definition normalizeSecret :: "string \<Rightarrow> string" where
  "normalizeSecret s = ToUpper (RemoveAll CHR '' '' (TrimSpace s))"

definition GenerateTOTPSecret :: "string option \<Rightarrow> string option" where
  "GenerateTOTPSecret rnd = map_option b32_encode rnd"

fun pow10_loop :: "nat \<Rightarrow> 32 word \<Rightarrow> 32 word" where
  "pow10_loop 0 r = r"
| "pow10_loop (Suc n) r = pow10_loop n (r * 10)"

definition pow10 :: "nat \<Rightarrow> 32 word" where
  "pow10 n = pow10_loop n 1"

text \<open>\<open>%0*d\<close>: decimal, filled with zeros on the left up to the width.\<close>

definition zero_padded :: "nat \<Rightarrow> nat \<Rightarrow> string" where
  "zero_padded w n = replicate (w - length (itoa n)) CHR ''0'' @ itoa n"

definition byte_word :: "char \<Rightarrow> 32 word" where
  "byte_word c = of_nat (byte c)"

text \<open>The index of a byte slice is \<open>None\<close> out of range, where Go panics.\<close>

definition byte_at :: "string \<Rightarrow> nat \<Rightarrow> char option" where
  "byte_at s i = (if i < length s then Some (s ! i) else None)"

definition hotp :: "string \<Rightarrow> nat \<Rightarrow> string option" where
  "hotp key counter =
     (let sum = hmac_sha1 key (be_bytes 8 counter) in
      case byte_at sum (length sum - 1) of None \<Rightarrow> None
      | Some l \<Rightarrow> (let offset = byte l AND 15 in
          case (byte_at sum offset, byte_at sum (offset + 1), byte_at sum (offset + 2), byte_at sum (offset + 3)) of
            (Some b0, Some b1, Some b2, Some b3) \<Rightarrow>
              (let bin = push_bit 24 (byte_word b0 AND 0x7F) OR push_bit 16 (byte_word b1)
                         OR push_bit 8 (byte_word b2) OR byte_word b3
               in Some (zero_padded totpDigits (unat (bin mod pow10 totpDigits))))
          | _ \<Rightarrow> None))"

definition uint64 :: "int \<Rightarrow> nat" where
  "uint64 i = nat (i mod 2 ^ 64)"

definition TOTPCode :: "string \<Rightarrow> time \<Rightarrow> string option" where
  "TOTPCode secret t = (case b32_decode (normalizeSecret secret) of None \<Rightarrow> None
     | Some key \<Rightarrow> hotp key (uint64 (Unix t) div 30))"

fun try_steps :: "string \<Rightarrow> string \<Rightarrow> int \<Rightarrow> int list \<Rightarrow> bool" where
  "try_steps key code base [] = False"
| "try_steps key code base (d # ds) = (case hotp key (uint64 (base + d)) of
     None \<Rightarrow> False
   | Some want \<Rightarrow> if ConstantTimeCompare want code then True else try_steps key code base ds)"

definition VerifyTOTP :: "string \<Rightarrow> string \<Rightarrow> time \<Rightarrow> bool" where
  "VerifyTOTP secret code0 t =
     (let code = TrimSpace code0 in
      if length code \<noteq> totpDigits then False
      else case b32_decode (normalizeSecret secret) of None \<Rightarrow> False
      | Some key \<Rightarrow> try_steps key code (int (uint64 (Unix t) div 30)) [- totpSkew .. totpSkew])"

text \<open>The query and path escapes of \<open>net/url\<close>.\<close>

definition unreserved :: "char \<Rightarrow> bool" where
  "unreserved c \<longleftrightarrow> (65 \<le> byte c \<and> byte c \<le> 90) \<or> (97 \<le> byte c \<and> byte c \<le> 122) \<or> is_digit c \<or> c \<in> set ''-_.~''"

definition percent :: "char \<Rightarrow> string" where
  "percent c = ''%'' @ map upper_char (hex_encode [c])"

definition PathEscape :: "string \<Rightarrow> string" where
  "PathEscape s = concat (map (\<lambda>c. if unreserved c \<or> c \<in> set ''$&+=:@'' then [c] else percent c) s)"

definition QueryEscape :: "string \<Rightarrow> string" where
  "QueryEscape s = concat (map (\<lambda>c. if c = CHR '' '' then ''+'' else if unreserved c then [c] else percent c) s)"

text \<open>\<open>Values.Encode\<close> writes the parameters in the order of their names.\<close>

definition TOTPProvisioningURI :: "string \<Rightarrow> string \<Rightarrow> string \<Rightarrow> string" where
  "TOTPProvisioningURI secret issuer account =
     ''otpauth://totp/'' @ PathEscape (issuer @ '':'' @ account) @ ''?algorithm=SHA1&digits='' @ itoa totpDigits
     @ ''&issuer='' @ QueryEscape issuer @ ''&period=30&secret='' @ QueryEscape (normalizeSecret secret)"

lemma length_itoa: "n < 10 ^ Suc w \<Longrightarrow> length (itoa n) \<le> Suc w"
proof (induction w arbitrary: n)
  case 0
  then show ?case by (subst itoa.simps) simp
next
  case (Suc w)
  then have "n div 10 < 10 ^ Suc w" by (simp add: less_mult_imp_div_less mult.commute)
  with Suc.IH [of "n div 10"] show ?case by (subst itoa.simps) simp
qed

lemma zero_padded_width:
  assumes "n < 10 ^ w" and "0 < w"
  shows "length (zero_padded w n) = w \<and> list_all is_digit (zero_padded w n)"
proof -
  have "length (itoa n) \<le> w" using length_itoa [of n "w - 1"] assms by simp
  moreover have "list_all is_digit (replicate k CHR ''0'')" for k
    by (auto simp: list_all_iff is_digit_def)
  ultimately show ?thesis using itoa_digits [of n] by (simp add: zero_padded_def)
qed

lemma pow10_6: "pow10 totpDigits = 1000000"
  by (simp add: pow10_def totpDigits_def eval_nat_numeral)

lemma and_15: "(n::nat) AND 15 < 16"
proof -
  have "n AND 15 = take_bit 4 n" by (simp add: take_bit_eq_mask mask_eq_exp_minus_1)
  then show ?thesis using take_bit_nat_less_exp [of 4 n] by simp
qed

lemma hotp_total: "\<exists>c. hotp key counter = Some c \<and> length c = totpDigits \<and> list_all is_digit c"
proof -
  let ?s = "hmac_sha1 key (be_bytes 8 counter)"
  let ?o = "byte (?s ! 19) AND 15"
  let ?w = "\<lambda>i. byte_word (?s ! i)"
  let ?bin = "push_bit 24 (?w ?o AND 0x7F) OR push_bit 16 (?w (?o + 1)) OR push_bit 8 (?w (?o + 2)) OR ?w (?o + 3)"
  have "?o < 16" by (rule and_15)
  then have "hotp key counter = Some (zero_padded totpDigits (unat (?bin mod pow10 totpDigits)))"
    by (simp add: hotp_def byte_at_def Let_def)
  moreover have "unat (?bin mod pow10 totpDigits) < 10 ^ totpDigits"
    unfolding pow10_6 by (simp add: unat_mod totpDigits_def)
  ultimately show ?thesis using zero_padded_width [of _ totpDigits] by (auto simp: totpDigits_def)
qed

text \<open>A generated secret survives normalization and decodes to the bytes it was made of.\<close>

lemma b32_chars: "c \<in> set (b32_encode s) \<Longrightarrow> c \<in> set b32_alphabet"
proof -
  have "length b32_alphabet = 32" by (simp add: b32_alphabet_def)
  then show "c \<in> set (b32_encode s) \<Longrightarrow> c \<in> set b32_alphabet"
    using encode_digits_less [of 5 s] by (auto simp: b32_encode_def list_all_iff)
qed

lemma normalizeSecret_generated: "normalizeSecret (b32_encode s) = b32_encode s"
proof -
  have al: "list_all (\<lambda>c. (65 \<le> byte c \<and> byte c \<le> 90) \<or> (50 \<le> byte c \<and> byte c \<le> 55)) b32_alphabet"
    by (simp add: b32_alphabet_def)
  have "byte c < 128 \<and> \<not> IsSpace (byte c) \<and> c \<noteq> CHR '' '' \<and> upper_char c = c" if "c \<in> set b32_alphabet" for c
  proof -
    have "(65 \<le> byte c \<and> byte c \<le> 90) \<or> (50 \<le> byte c \<and> byte c \<le> 55)"
      using al that by (simp add: list_all_iff)
    then show ?thesis by (auto simp: IsSpace_def upper_char_def)
  qed
  then have a: "\<forall>c \<in> set (b32_encode s). byte c < 128 \<and> \<not> IsSpace (byte c) \<and> c \<noteq> CHR '' '' \<and> upper_char c = c"
    using b32_chars by blast
  then have t: "TrimSpace (b32_encode s) = b32_encode s"
    by (intro TrimSpace_no_space) (auto simp: ascii_def list_all_iff)
  have r: "RemoveAll CHR '' '' (b32_encode s) = b32_encode s"
    using a by (simp add: RemoveAll_def)
  have "ascii (b32_encode s)" using a by (simp add: ascii_def list_all_iff)
  then have "ToUpper (b32_encode s) = b32_encode s"
    using a by (simp add: ToUpper_ascii map_idI)
  with t r show ?thesis by (simp add: normalizeSecret_def)
qed

lemma try_steps_iff:
  "try_steps key code base ds \<longleftrightarrow> (\<exists>d \<in> set ds. hotp key (uint64 (base + d)) = Some code)"
proof (induction ds)
  case (Cons d ds)
  obtain c where "hotp key (uint64 (base + d)) = Some c" using hotp_total by blast
  with Cons show ?case by (auto simp: ConstantTimeCompare_eq)
qed simp

text \<open>For a generated secret the computation of a one-time code never runs out of its digest and
  always yields six digits, and a submitted code is accepted exactly when, white space around it
  aside, it is the code of the current 30-second step, the one before or the one after.\<close>

theorem TOTP_correct:
  assumes "0 \<le> Unix t" and "Unix t < 2 ^ 63"
  shows "(\<exists>c. TOTPCode (b32_encode rnd) t = Some c \<and> length c = 6 \<and> list_all is_digit c)
    \<and> (VerifyTOTP (b32_encode rnd) code t \<longleftrightarrow>
        (\<exists>d \<in> {-1, 0, 1}. hotp rnd (uint64 (Unix t div 30 + d)) = Some (TrimSpace code)))"
proof -
  have u: "uint64 (Unix t) div 30 = nat (Unix t div 30)"
    using assms by (simp add: uint64_def nat_div_distrib)
  have b: "int (nat (Unix t div 30)) = Unix t div 30" using assms(1) by simp
  have l: "length (TrimSpace code) = totpDigits" if "hotp rnd k = Some (TrimSpace code)" for k
    using hotp_total [of rnd k] that by auto
  have ds: "{- totpSkew .. totpSkew} = {-1, 0, 1}" by (auto simp: totpSkew_def)
  obtain c where "hotp rnd (nat (Unix t div 30)) = Some c" "length c = totpDigits" "list_all is_digit c"
    using hotp_total by blast
  then show ?thesis
    using l unfolding VerifyTOTP_def TOTPCode_def Let_def normalizeSecret_generated b32_roundtrip u b
    by (auto simp: try_steps_iff ds totpDigits_def)
qed

theorem TOTP_correct_witness:
  "\<exists>c. TOTPCode (b32_encode ''12345678901234567890'') (time_of_Unix 59) = Some c \<and> length c = 6 \<and> list_all is_digit c"
  by (rule TOTP_correct [THEN conjunct1]) simp_all

subsection \<open>authenticate.go\<close>

datatype auth_err = ErrInvalidCredentials | LookupError db_err | LookupPanic

text \<open>\<open>dummyHash\<close> is only compared against to spend the time; its verdict is dropped.\<close>

definition Authenticate :: "idkey \<Rightarrow> (string \<Rightarrow> User res) \<Rightarrow> string \<Rightarrow> string \<Rightarrow> auth_err + User" where
  "Authenticate idkey lookup username password = (case lookup username of
     Inl e \<Rightarrow> if e = ErrNotFound then Inl ErrInvalidCredentials else Inl (LookupError e)
   | Inr u \<Rightarrow> (case VerifyPassword idkey password (usr_PasswordHash u) of
        Panics \<Rightarrow> Inl LookupPanic
      | Malformed \<Rightarrow> Inl ErrInvalidCredentials
      | Verdict ok \<Rightarrow> if \<not> ok then Inl ErrInvalidCredentials
          else if usr_Disabled u then Inl ErrInvalidCredentials
          else Inr u))"

lemma Authenticate_Inr:
  "Authenticate idkey lookup n p = Inr u \<longleftrightarrow>
     lookup n = Inr u \<and> VerifyPassword idkey p (usr_PasswordHash u) = Verdict True \<and> \<not> usr_Disabled u"
  by (auto simp: Authenticate_def split: sum.split verdict.split)

text \<open>Unknown user, wrong password and disabled account give one and the same answer.\<close>

lemma Authenticate_uniform:
  "lookup n = Inl ErrNotFound \<or>
     (\<exists>u. lookup n = Inr u \<and> (VerifyPassword idkey p (usr_PasswordHash u) \<in> {Malformed, Verdict False}
        \<or> VerifyPassword idkey p (usr_PasswordHash u) = Verdict True \<and> usr_Disabled u))
   \<Longrightarrow> Authenticate idkey lookup n p = Inl ErrInvalidCredentials"
  by (auto simp: Authenticate_def)

end
