(* ===== verification/UrlText.thy ===== *)
theory UrlText
  imports GoUrl Credentials "HOL-Library.List_Lexorder" "HOL-Library.Char_ord"
begin

text \<open>
  How \<open>net/url\<close> writes: \<open>URL.String\<close> with its escapes, the values of a query, and the redirect targets
  the handlers build from them. A query has at most the number of parameters Go's parser accepts.
\<close>

subsection \<open>Escapes\<close>

text \<open>\<open>shouldEscape\<close>, negated.\<close>

definition plain_char :: "enc_mode \<Rightarrow> char \<Rightarrow> bool" where
  "plain_char m c \<longleftrightarrow> alpha c \<or> is_digit c
     \<or> (m \<in> {encodeHost, encodeZone} \<and> (c \<in> set ''!$&()*+,;=:[]<>'' \<or> byte c = 34 \<or> byte c = 39))
     \<or> c \<in> set ''-_.~''
     \<or> (c \<in> set ''$&+,/:;=?@'' \<and> (case m of
          encodePath \<Rightarrow> c \<noteq> CHR ''?''
        | encodeUserPassword \<Rightarrow> c \<notin> set ''@/?:''
        | encodeFragment \<Rightarrow> True
        | _ \<Rightarrow> False))
     \<or> (m = encodeFragment \<and> c \<in> set ''!()*'')"

definition escape :: "enc_mode \<Rightarrow> string \<Rightarrow> string" where
  "escape m s = concat (map (\<lambda>c. if plain_char m c then [c]
     else if c = CHR '' '' \<and> m = encodeQueryComponent then ''+'' else percent c) s)"

definition validEncoded :: "enc_mode \<Rightarrow> string \<Rightarrow> bool" where
  "validEncoded m s \<longleftrightarrow> list_all (\<lambda>c. c \<in> set ''!$&()*+,;=:@[]%'' \<or> byte c = 39 \<or> plain_char m c) s"

definition escaped_as :: "enc_mode \<Rightarrow> string \<Rightarrow> string \<Rightarrow> string" where
  "escaped_as m raw s = (if raw \<noteq> [] \<and> validEncoded m raw \<and> unescape m raw = Some s then raw else escape m s)"

definition EscapedPath :: "url \<Rightarrow> string" where
  "EscapedPath u = (if u_RawPath u \<noteq> [] \<and> validEncoded encodePath (u_RawPath u) \<and> unescape encodePath (u_RawPath u) = Some (u_Path u)
     then u_RawPath u else if u_Path u = ''*'' then ''*'' else escape encodePath (u_Path u))"

definition EscapedFragment :: "url \<Rightarrow> string" where
  "EscapedFragment u = escaped_as encodeFragment (u_RawFragment u) (u_Fragment u)"

definition Userinfo_String :: "string \<times> string option \<Rightarrow> string" where
  "Userinfo_String ui = escape encodeUserPassword (fst ui) @ (case snd ui of None \<Rightarrow> [] | Some p \<Rightarrow> '':'' @ escape encodeUserPassword p)"

definition url_String :: "url \<Rightarrow> string" where
  "url_String u =
    (let scheme = (if u_Scheme u \<noteq> [] then u_Scheme u @ '':'' else []);
         authority = (if u_Scheme u = [] \<and> u_Host u = [] \<and> u_User u = None then []
           else if u_OmitHost u \<and> u_Host u = [] \<and> u_User u = None then []
           else (if u_Host u \<noteq> [] \<or> u_Path u \<noteq> [] \<or> u_User u \<noteq> None then ''//'' else [])
             @ (case u_User u of None \<Rightarrow> [] | Some ui \<Rightarrow> Userinfo_String ui @ ''@'')
             @ escape encodeHost (u_Host u));
         path = EscapedPath u;
         slash = (if path \<noteq> [] \<and> hd path \<noteq> CHR ''/'' \<and> u_Host u \<noteq> [] then ''/'' else []);
         dot = (if scheme @ authority @ slash = [] \<and> CHR '':'' \<in> set (before CHR ''/'' path) then ''./'' else [])
     in scheme @ (if u_Opaque u \<noteq> [] then u_Opaque u else authority @ slash @ dot @ path)
        @ (if u_ForceQuery u \<or> u_RawQuery u \<noteq> [] then ''?'' @ u_RawQuery u else [])
        @ (if u_Fragment u \<noteq> [] then ''#'' @ EscapedFragment u else []))"

subsection \<open>Queries\<close>

type_synonym query_values = "(string \<times> string) list"

text \<open>\<open>ParseQuery\<close> without its error: a parameter that does not parse is left out.\<close>

definition query_param :: "string \<Rightarrow> query_values" where
  "query_param p = (if p = [] \<or> CHR '';'' \<in> set p then []
     else (case (unescape encodeQueryComponent (before CHR ''='' p), unescape encodeQueryComponent (after CHR ''='' p)) of
        (Some k, Some v) \<Rightarrow> [(k, v)] | _ \<Rightarrow> []))"

definition ParseQuery :: "string \<Rightarrow> query_values" where
  "ParseQuery q = (if q = [] then [] else concat (map query_param (split_on CHR ''&'' q)))"

definition values_Set :: "string \<Rightarrow> string \<Rightarrow> query_values \<Rightarrow> query_values" where
  "values_Set k v ps = filter (\<lambda>p. fst p \<noteq> k) ps @ [(k, v)]"

definition values_Encode :: "query_values \<Rightarrow> string" where
  "values_Encode ps = intercalate ''&'' (map (\<lambda>(k, v). QueryEscape k @ ''='' @ QueryEscape v) (sort_key fst ps))"

definition with_query :: "url \<Rightarrow> (query_values \<Rightarrow> query_values) \<Rightarrow> string" where
  "with_query u f = url_String (u\<lparr>u_RawQuery := values_Encode (f (ParseQuery (u_RawQuery u)))\<rparr>)"

text \<open>A percent escape: two hexadecimal digits, which read back as the byte.\<close>

lemma upper_hex:
  assumes "n < 16"
  shows "hex_digit (upper_char (hex_alphabet ! n)) = Some n \<and> upper_char (hex_alphabet ! n) \<notin> set ''&=;''"
proof -
  have "n \<in> set [0..<16]" using assms by simp
  then show ?thesis
    by (simp add: upt_rec) (elim disjE; hypsubst; simp add: hex_alphabet_def upper_char_def hex_digit_def char_of_def bit_0)
qed

lemma percent_reads: "\<exists>a b. percent c = [CHR ''%'', a, b] \<and> is_hex a \<and> is_hex b
    \<and> char_of (16 * the (hex_digit a) + the (hex_digit b)) = c \<and> a \<notin> set ''&=;'' \<and> b \<notin> set ''&=;''"
proof -
  have "byte c div 16 < 16" using byte_less [of c] by (simp add: less_mult_imp_div_less)
  from upper_hex [OF this] upper_hex [of "byte c mod 16"] show ?thesis
    by (simp add: percent_def hex_encode_def is_hex_def)
qed

lemma QueryEscape_Cons: "QueryEscape (c # s) = QueryEscape [c] @ QueryEscape s"
  by (simp add: QueryEscape_def)

lemma QueryEscape_chars: "set (QueryEscape s) \<inter> set ''&=;'' = {}"
proof (induction s)
  case (Cons c s)
  obtain a b where "percent c = [CHR ''%'', a, b]" "a \<notin> set ''&=;''" "b \<notin> set ''&=;''"
    using percent_reads [of c] by blast
  moreover have "\<not> unreserved CHR ''&''" "\<not> unreserved CHR ''=''" "\<not> unreserved CHR '';''" by code_simp+
  ultimately have "set (QueryEscape [c]) \<inter> set ''&=;'' = {}"
    by (auto simp: QueryEscape_def)
  with Cons show ?case by (subst QueryEscape_Cons) auto
qed (simp add: QueryEscape_def)

text \<open>What \<open>QueryEscape\<close> writes is read back, and contains none of the separators of a query.\<close>

lemma QueryEscape_unescape: "unescape encodeQueryComponent (QueryEscape s) = Some s"
proof (induction s)
  case (Cons c s)
  obtain a b where p: "percent c = [CHR ''%'', a, b]" "is_hex a" "is_hex b"
      "char_of (16 * the (hex_digit a) + the (hex_digit b)) = c"
    using percent_reads [of c] by blast
  have u: "\<not> unreserved CHR ''+''" "\<not> unreserved CHR ''%''" by code_simp+
  show ?case
  proof (cases "unreserved c \<or> c = CHR '' ''")
    case True
    then show ?thesis using Cons u by (subst QueryEscape_Cons) (auto simp: QueryEscape_def)
  next
    case False
    then have "QueryEscape [c] = percent c" by (simp add: QueryEscape_def)
    then show ?thesis using Cons p by (subst QueryEscape_Cons) simp
  qed
qed (simp add: QueryEscape_def)

lemma split_on_intercalate:
  assumes "list_all (\<lambda>w. c \<notin> set w) ws" and "ws \<noteq> []"
  shows "split_on c (intercalate [c] ws) = ws"
  using assms by (induction ws rule: induct_list012) (simp_all add: split_on_no_sep split_on_append)

text \<open>A query that was written is read back: the parameters, ordered by name.\<close>

lemma ParseQuery_Encode:
  "ParseQuery (values_Encode ps) = sort_key fst ps"
proof -
  let ?w = "\<lambda>(k, v). QueryEscape k @ ''='' @ QueryEscape v"
  have w: "query_param (?w p) = [p]" "CHR ''&'' \<notin> set (?w p)" "?w p \<noteq> []" for p
    using QueryEscape_chars [of "fst p"] QueryEscape_chars [of "snd p"]
    by (auto simp: query_param_def QueryEscape_unescape split: prod.splits)
  have ne: "intercalate ''&'' (map ?w qs) \<noteq> []" if "qs \<noteq> []" for qs :: query_values
    using that w(3) by (induction qs rule: induct_list012) auto
  have "concat (map query_param (map ?w qs)) = qs" for qs
    using w(1) by (induction qs) auto
  moreover have "split_on CHR ''&'' (intercalate ''&'' (map ?w qs)) = map ?w qs" if "qs \<noteq> []" for qs
    using that w(2) by (intro split_on_intercalate) (auto simp: list_all_iff)
  ultimately have "ParseQuery (intercalate ''&'' (map ?w qs)) = qs" for qs
    using ne [of qs] by (cases "qs = []") (auto simp: ParseQuery_def)
  then show ?thesis by (simp add: values_Encode_def)
qed

end
