(* ===== verification/Settings.thy ===== *)
theory Settings
  imports RateLimit UrlText
begin

text \<open>
  The live settings (\<open>internal/web/settings.go\<close>): the parsed view the issuer, the session manager
  and the handlers read, its defaults, and its clean-up with \<open>config.NormalizePublicURL\<close>. A Go \<open>int\<close> is
  an \<open>int\<close>, a \<open>time.Duration\<close> its nanoseconds.
\<close>

subsection \<open>The view\<close>

record SettingsView =
  sv_Issuer :: string
  sv_PublicURL :: string
  sv_TokenTTL :: duration
  sv_RefreshTokenTTL :: duration
  sv_MaxFailedLogins :: int
  sv_LockoutDuration :: duration
  sv_RateLimitWindow :: duration
  sv_LoginIPMaxAttempts :: int
  sv_PasswordVerifyConcurrency :: int
  sv_MaxLoginUsernameBytes :: int
  sv_MaxLoginPasswordBytes :: int
  sv_AllowLoopbackHTTPRedirect :: bool
  sv_AllowPrivateNetworkHTTPRedirect :: bool
  sv_AllowPrivateSchemeRedirect :: bool
  sv_PasswordMinLength :: int
  sv_RequireUpper :: bool
  sv_RequireLower :: bool
  sv_RequireNumber :: bool
  sv_RequireSymbol :: bool
  sv_SessionIdleTimeout :: duration
  sv_SessionLifetime :: duration
  sv_CookieSecure :: bool
  sv_MaxLogoBytes :: int
  sv_LDAPManageEnabled :: bool
  sv_LogLevel :: string
  sv_LogHTTPRequests :: string
  sv_DeviceTokenTTL :: duration
  sv_RequireDeviceApproval :: bool

definition view_PasswordPolicy :: "SettingsView \<Rightarrow> PasswordPolicy" where
  "view_PasswordPolicy v = \<lparr>pp_MinLength = sv_PasswordMinLength v, pp_RequireUpper = sv_RequireUpper v,
     pp_RequireLower = sv_RequireLower v, pp_RequireNumber = sv_RequireNumber v, pp_RequireSymbol = sv_RequireSymbol v\<rparr>"

definition sessionTTL :: duration where "sessionTTL = 12 * Hour"
definition defaultDeviceTokenTTL :: duration where "defaultDeviceTokenTTL = Hour"
definition defaultMaxLogoBytes :: int where "defaultMaxLogoBytes = 512 * 1024"

definition or_pos :: "int \<Rightarrow> int \<Rightarrow> int" where
  "or_pos d x = (if x \<le> 0 then d else x)"

definition or_text :: "string \<Rightarrow> string \<Rightarrow> string" where
  "or_text d s = (if s = '''' then d else s)"

definition withRuntimeSettingDefaults :: "SettingsView \<Rightarrow> SettingsView" where
  "withRuntimeSettingDefaults v = v\<lparr>
     sv_TokenTTL := or_pos (15 * Minute) (sv_TokenTTL v),
     sv_RefreshTokenTTL := or_pos (720 * Hour) (sv_RefreshTokenTTL v),
     sv_MaxFailedLogins := or_pos defaultLoginMaxAttempts (sv_MaxFailedLogins v),
     sv_LockoutDuration := or_pos defaultRateLimitWindow (sv_LockoutDuration v),
     sv_RateLimitWindow := or_pos defaultRateLimitWindow (sv_RateLimitWindow v),
     sv_LoginIPMaxAttempts := or_pos defaultLoginIPMaxAttempts (sv_LoginIPMaxAttempts v),
     sv_PasswordVerifyConcurrency := or_pos defaultPasswordVerifyConcurrency (sv_PasswordVerifyConcurrency v),
     sv_MaxLoginUsernameBytes := or_pos defaultMaxLoginUsernameBytes (sv_MaxLoginUsernameBytes v),
     sv_MaxLoginPasswordBytes := or_pos defaultMaxLoginPasswordBytes (sv_MaxLoginPasswordBytes v),
     sv_PasswordMinLength := or_pos 12 (sv_PasswordMinLength v),
     sv_SessionLifetime := or_pos sessionTTL (sv_SessionLifetime v),
     sv_MaxLogoBytes := or_pos defaultMaxLogoBytes (sv_MaxLogoBytes v),
     sv_LogLevel := or_text ''info'' (sv_LogLevel v),
     sv_LogHTTPRequests := or_text ''errors'' (sv_LogHTTPRequests v),
     sv_DeviceTokenTTL := or_pos defaultDeviceTokenTTL (sv_DeviceTokenTTL v)\<rparr>"

subsection \<open>config.NormalizePublicURL\<close>

datatype url_err = URLRequired | URLNotAbsolute | URLScheme | URLCredentials | URLQuery | URLInsecure

definition isLoopbackURL :: "url \<Rightarrow> bool" where
  "isLoopbackURL u \<longleftrightarrow> (let host = ToLower (url_Hostname u) in host = ''localhost'' \<or> ip_loopback host)"

definition NormalizePublicURL :: "string \<Rightarrow> bool \<Rightarrow> url_err + (string \<times> url)" where
  "NormalizePublicURL raw0 allowInsecureHTTP =
    (let raw = TrimSpace raw0 in
     if raw = '''' then Inl URLRequired
     else (case url_Parse raw of
       None \<Rightarrow> Inl URLNotAbsolute
     | Some u \<Rightarrow>
       if u_Scheme u = '''' \<or> u_Host u = '''' then Inl URLNotAbsolute
       else if u_Scheme u \<noteq> ''https'' \<and> u_Scheme u \<noteq> ''http'' then Inl URLScheme
       else if u_User u \<noteq> None then Inl URLCredentials
       else if u_RawQuery u \<noteq> '''' \<or> u_Fragment u \<noteq> '''' then Inl URLQuery
       else if u_Scheme u = ''http'' \<and> \<not> isLoopbackURL u \<and> \<not> allowInsecureHTTP then Inl URLInsecure
       else (let u' = u\<lparr>u_Path := TrimRight CHR ''/'' (u_Path u)\<rparr> in Inr (url_String u', u'))))"

subsection \<open>The service\<close>

definition sanitizeSettingsView :: "SettingsView \<Rightarrow> SettingsView \<Rightarrow> bool \<Rightarrow> SettingsView" where
  "sanitizeSettingsView v0 def allowInsecureHTTP =
    (let v = withRuntimeSettingDefaults v0 in
     case NormalizePublicURL (sv_Issuer v) allowInsecureHTTP of
       Inl _ \<Rightarrow> def
     | Inr (issuer, _) \<Rightarrow> (case NormalizePublicURL (sv_PublicURL v) allowInsecureHTTP of
          Inl _ \<Rightarrow> def
        | Inr (publicURL, parsed) \<Rightarrow>
            (let v1 = v\<lparr>sv_Issuer := issuer, sv_PublicURL := publicURL\<rparr>;
                 v2 = (if u_Scheme parsed = ''https'' then v1\<lparr>sv_CookieSecure := True\<rparr> else v1)
             in if u_Scheme parsed = ''http'' then v2\<lparr>sv_CookieSecure := False\<rparr> else v2)))"

lemma NormalizePublicURL_Inr:
  assumes "NormalizePublicURL raw b = Inr (s, u)"
  shows "u_Scheme u \<in> {''http'', ''https''} \<and> u_Host u \<noteq> [] \<and> u_User u = None \<and> u_RawQuery u = [] \<and> u_Fragment u = []
    \<and> s = url_String u \<and> (u_Scheme u = ''http'' \<and> \<not> isLoopbackURL u \<longrightarrow> b)"
  using assms
  by (auto simp: NormalizePublicURL_def Let_def isLoopbackURL_def url_Hostname_def simp del: not_None_eq split: if_splits option.splits)

lemma withRuntimeSettingDefaults_urls [simp]:
  "sv_Issuer (withRuntimeSettingDefaults v) = sv_Issuer v" "sv_PublicURL (withRuntimeSettingDefaults v) = sv_PublicURL v"
  by (simp_all add: withRuntimeSettingDefaults_def)

text \<open>Every limit and lifetime the defaults cover is positive.\<close>

definition limits_set :: "SettingsView \<Rightarrow> bool" where
  "limits_set v \<longleftrightarrow> 0 < sv_TokenTTL v \<and> 0 < sv_RefreshTokenTTL v \<and> 0 < sv_MaxFailedLogins v \<and> 0 < sv_LockoutDuration v
     \<and> 0 < sv_RateLimitWindow v \<and> 0 < sv_LoginIPMaxAttempts v \<and> 0 < sv_PasswordVerifyConcurrency v
     \<and> 0 < sv_MaxLoginUsernameBytes v \<and> 0 < sv_MaxLoginPasswordBytes v \<and> 0 < sv_PasswordMinLength v
     \<and> 0 < sv_SessionLifetime v \<and> 0 < sv_MaxLogoBytes v \<and> 0 < sv_DeviceTokenTTL v"

lemma withRuntimeSettingDefaults_limits: "limits_set (withRuntimeSettingDefaults v)"
  by (simp add: limits_set_def withRuntimeSettingDefaults_def or_pos_def defaultLoginMaxAttempts_def defaultRateLimitWindow_def
      defaultLoginIPMaxAttempts_def defaultPasswordVerifyConcurrency_def defaultMaxLoginUsernameBytes_def
      defaultMaxLoginPasswordBytes_def sessionTTL_def defaultMaxLogoBytes_def defaultDeviceTokenTTL_def)

text \<open>Whatever was stored, the settings that go live are the given defaults or a view whose issuer and
  public URL are normalized absolute http or https URLs without credentials, query or fragment (plain
  http only on the loopback unless allowed), whose limits and lifetimes are positive, and whose
  cookies are secure exactly when the public URL is https.\<close>

theorem sanitizeSettingsView_safe:
  "sanitizeSettingsView v def b = def \<or>
   (\<exists>iss pub. sv_Issuer (sanitizeSettingsView v def b) = url_String iss \<and> sv_PublicURL (sanitizeSettingsView v def b) = url_String pub
      \<and> list_all (\<lambda>u. u_Scheme u \<in> {''http'', ''https''} \<and> u_Host u \<noteq> [] \<and> u_User u = None \<and> u_RawQuery u = [] \<and> u_Fragment u = []
           \<and> (u_Scheme u = ''https'' \<or> isLoopbackURL u \<or> b)) [iss, pub]
      \<and> limits_set (sanitizeSettingsView v def b)
      \<and> (sv_CookieSecure (sanitizeSettingsView v def b) \<longleftrightarrow> u_Scheme pub = ''https''))"
proof -
  let ?w = "withRuntimeSettingDefaults v"
  show ?thesis
  proof (cases "\<exists>i iu p pu. NormalizePublicURL (sv_Issuer v) b = Inr (i, iu) \<and> NormalizePublicURL (sv_PublicURL v) b = Inr (p, pu)")
    case True
    then obtain i iu p pu where n: "NormalizePublicURL (sv_Issuer v) b = Inr (i, iu)" "NormalizePublicURL (sv_PublicURL v) b = Inr (p, pu)"
      by blast
    have s: "sanitizeSettingsView v def b = ?w\<lparr>sv_Issuer := i, sv_PublicURL := p, sv_CookieSecure := u_Scheme pu = ''https''\<rparr>"
      using NormalizePublicURL_Inr [OF n(2)] n by (auto simp: sanitizeSettingsView_def Let_def)
    show ?thesis
      using NormalizePublicURL_Inr [OF n(1)] NormalizePublicURL_Inr [OF n(2)] withRuntimeSettingDefaults_limits [of v]
      unfolding s by (intro disjI2 exI [of _ iu] exI [of _ pu]) (auto simp: limits_set_def)
  next
    case False
    then show ?thesis
      by (auto simp: sanitizeSettingsView_def Let_def split: sum.splits)
  qed
qed

end
