(* ===== verification/Grants.thy ===== *)
theory Grants
  imports StoreBase
begin

text \<open>
  The repositories of clients, grants and keys (\<open>internal/store\<close>: \<open>auth_codes.go\<close>,
  \<open>auth_requests.go\<close>, \<open>refresh_tokens.go\<close>, \<open>clients.go\<close>, \<open>signing_keys.go\<close>,
  \<open>settings.go\<close>, \<open>app_secret.go\<close>, \<open>audit.go\<close>, \<open>branding.go\<close>).
\<close>

subsection \<open>auth\_codes.go\<close>

definition CreateAuthCode :: "AuthorizationCode \<Rightarrow> db \<Rightarrow> unit res \<times> db" where
  "CreateAuthCode c = insert_row ''CreateAuthCode'' grants_ok (db_auth_codes_update (\<lambda>t. t @ [c]))"

text \<open>
  The transaction of \<open>ConsumeAuthCode\<close> reads the row, decides, and then marks it; the second
  statement does not repeat the condition \<open>used = FALSE\<close>. Its two statements are separate
  definitions, so that two transactions can be interleaved.
\<close>

definition ConsumeAuthCode_select :: "string \<Rightarrow> time \<Rightarrow> db \<Rightarrow> AuthorizationCode res" where
  "ConsumeAuthCode_select h now d = (case sel1 (\<lambda>c. ac_CodeHash c = h) (db_auth_codes d) of
     Inl e \<Rightarrow> Inl e
   | Inr c \<Rightarrow> if ac_Used c \<or> After now (ac_ExpiresAt c) then Inl ErrNotFound else Inr c)"

definition ConsumeAuthCode_mark :: "string \<Rightarrow> db \<Rightarrow> db" where
  "ConsumeAuthCode_mark h = db_auth_codes_update (upd (\<lambda>c. ac_CodeHash c = h) (\<lambda>c. c\<lparr>ac_Used := True\<rparr>))"

definition ConsumeAuthCode :: "string \<Rightarrow> time \<Rightarrow> db \<Rightarrow> AuthorizationCode res \<times> db" where
  "ConsumeAuthCode h now d =
     (if fault d ''ConsumeAuthCode'' then (Inl ErrFault, d)
      else case ConsumeAuthCode_select h now d of
        Inl e \<Rightarrow> (Inl e, d)
      | Inr c \<Rightarrow> if fault d ''ConsumeAuthCode/commit'' then (Inl ErrFault, d)
          else (Inr (c\<lparr>ac_Used := True\<rparr>), ConsumeAuthCode_mark h d))"

definition DeleteExpiredAuthCodes :: "time \<Rightarrow> db \<Rightarrow> int res \<times> db" where
  "DeleteExpiredAuthCodes now d =
     (let p = (\<lambda>c. Before (ac_ExpiresAt c) now)
      in execCount ''DeleteExpiredAuthCodes'' (affected p (db_auth_codes d)) (db_auth_codes_update (del p)) d)"

subsection \<open>auth\_requests.go\<close>

definition CreateAuthRequest :: "AuthRequest \<Rightarrow> db \<Rightarrow> unit res \<times> db" where
  "CreateAuthRequest a = insert_row ''CreateAuthRequest'' grants_ok (db_auth_requests_update (\<lambda>t. t @ [a]))"

definition GetAuthRequest :: "string \<Rightarrow> time \<Rightarrow> db \<Rightarrow> AuthRequest res" where
  "GetAuthRequest i now d =
     (case query ''GetAuthRequest'' (sel1 (\<lambda>a. ar_ID a = i) (db_auth_requests d)) d of
        Inl e \<Rightarrow> Inl e
      | Inr a \<Rightarrow> if After now (ar_ExpiresAt a) then Inl ErrNotFound else Inr a)"

definition DeleteAuthRequest :: "string \<Rightarrow> db \<Rightarrow> unit res \<times> db" where
  "DeleteAuthRequest i = exec ''DeleteAuthRequest'' (db_auth_requests_update (del (\<lambda>a. ar_ID a = i)))"

definition DeleteExpiredAuthRequests :: "time \<Rightarrow> db \<Rightarrow> int res \<times> db" where
  "DeleteExpiredAuthRequests now d =
     (let p = (\<lambda>a. Before (ar_ExpiresAt a) now)
      in execCount ''DeleteExpiredAuthRequests'' (affected p (db_auth_requests d))
           (db_auth_requests_update (del p)) d)"

subsection \<open>refresh\_tokens.go\<close>

definition CreateRefreshToken :: "RefreshToken \<Rightarrow> db \<Rightarrow> unit res \<times> db" where
  "CreateRefreshToken rt = insert_row ''CreateRefreshToken'' grants_ok (db_refresh_tokens_update (\<lambda>t. t @ [rt]))"

definition active_token :: "string \<Rightarrow> RefreshToken \<Rightarrow> bool" where
  "active_token i t \<longleftrightarrow> rt_ID t = i \<and> \<not> rt_Revoked t"

definition rotate_rows :: "string \<Rightarrow> RefreshToken option \<Rightarrow> RefreshToken list \<Rightarrow> RefreshToken list" where
  "rotate_rows oldID newRT ts = upd (active_token oldID) (\<lambda>t. t\<lparr>rt_Revoked := True\<rparr>) ts @
     (case newRT of None \<Rightarrow> [] | Some rt \<Rightarrow> [rt])"

definition RotateRefreshToken :: "string \<Rightarrow> RefreshToken option \<Rightarrow> db \<Rightarrow> bool res \<times> db" where
  "RotateRefreshToken oldID newRT d =
     (if fault d ''RotateRefreshToken'' then (Inl ErrFault, d)
      else if affected (active_token oldID) (db_refresh_tokens d) = 0 then (Inr False, d)
      else if \<not> grants_ok (db_refresh_tokens_update (rotate_rows oldID newRT) d) then (Inl ErrConstraint, d)
      else if fault d ''RotateRefreshToken/commit'' then (Inl ErrFault, d)
      else (Inr True, db_refresh_tokens_update (rotate_rows oldID newRT) d))"

definition GetRefreshTokenByHash :: "string \<Rightarrow> db \<Rightarrow> RefreshToken res" where
  "GetRefreshTokenByHash h d = query ''GetRefreshTokenByHash''
     (sel1 (\<lambda>t. rt_TokenHash t = h) (db_refresh_tokens d)) d"

definition RevokeRefreshToken :: "string \<Rightarrow> db \<Rightarrow> unit res \<times> db" where
  "RevokeRefreshToken i = exec ''RevokeRefreshToken''
     (db_refresh_tokens_update (upd (\<lambda>t. rt_ID t = i) (\<lambda>t. t\<lparr>rt_Revoked := True\<rparr>)))"

definition RevokeRefreshTokensForUserClient :: "string \<Rightarrow> string \<Rightarrow> db \<Rightarrow> unit res \<times> db" where
  "RevokeRefreshTokensForUserClient userID clientID = exec ''RevokeRefreshTokensForUserClient''
     (db_refresh_tokens_update (upd (\<lambda>t. rt_UserID t = userID \<and> rt_ClientID t = clientID)
        (\<lambda>t. t\<lparr>rt_Revoked := True\<rparr>)))"

subsection \<open>clients.go\<close>

definition CreateClient :: "Client \<Rightarrow> db \<Rightarrow> unit res \<times> db" where
  "CreateClient c = insert_row ''CreateClient'' grants_ok (db_clients_update (\<lambda>t. t @ [c]))"

definition GetClient :: "string \<Rightarrow> db \<Rightarrow> Client res" where
  "GetClient i d = query ''GetClient'' (sel1 (\<lambda>c. cl_ClientID c = i) (db_clients d)) d"

definition ListClients :: "db \<Rightarrow> Client list res" where
  "ListClients d = query ''ListClients'' (Inr (oldest_first cl_CreatedAt (db_clients d))) d"

definition update_clients :: "string \<Rightarrow> string \<Rightarrow> (Client \<Rightarrow> Client) \<Rightarrow> db \<Rightarrow> unit res \<times> db" where
  "update_clients op i f d = execRow op (affected (\<lambda>c. cl_ClientID c = i) (db_clients d))
     (db_clients_update (upd (\<lambda>c. cl_ClientID c = i) f)) d"

definition UpdateClient :: "Client \<Rightarrow> time \<Rightarrow> db \<Rightarrow> unit res \<times> db" where
  "UpdateClient c now = update_clients ''UpdateClient'' (cl_ClientID c)
     (\<lambda>r. r\<lparr>cl_Name := cl_Name c, cl_RedirectURIs := cl_RedirectURIs c, cl_AllowedScopes := cl_AllowedScopes c,
        cl_Type := cl_Type c, cl_Disabled := cl_Disabled c, cl_DisplayName := cl_DisplayName c,
        cl_LogoURL := cl_LogoURL c, cl_HomepageURL := cl_HomepageURL c,
        cl_PostLogoutRedirectURIs := cl_PostLogoutRedirectURIs c, cl_SkipConsent := cl_SkipConsent c,
        cl_UpdatedAt := now\<rparr>)"

definition SetClientSecretHash :: "string \<Rightarrow> string \<Rightarrow> time \<Rightarrow> db \<Rightarrow> unit res \<times> db" where
  "SetClientSecretHash i h now = update_clients ''SetClientSecretHash'' i
     (\<lambda>r. r\<lparr>cl_ClientSecretHash := h, cl_UpdatedAt := now\<rparr>)"

definition SetClientDisabled :: "string \<Rightarrow> bool \<Rightarrow> time \<Rightarrow> db \<Rightarrow> unit res \<times> db" where
  "SetClientDisabled i disabled now = update_clients ''SetClientDisabled'' i
     (\<lambda>r. r\<lparr>cl_Disabled := disabled, cl_UpdatedAt := now\<rparr>)"

subsection \<open>signing\_keys.go\<close>

definition CreateSigningKey :: "SigningKey \<Rightarrow> db \<Rightarrow> unit res \<times> db" where
  "CreateSigningKey k = insert_row ''CreateSigningKey'' grants_ok (db_signing_keys_update (\<lambda>t. t @ [k]))"

definition ListSigningKeys :: "db \<Rightarrow> SigningKey list res" where
  "ListSigningKeys d = query ''ListSigningKeys'' (Inr (newest_first sk_CreatedAt (db_signing_keys d))) d"

definition GetActiveSigningKey :: "string \<Rightarrow> db \<Rightarrow> SigningKey res" where
  "GetActiveSigningKey alg d = query ''GetActiveSigningKey''
     (sel1 (\<lambda>k. sk_Alg k = alg \<and> sk_Active k) (newest_first sk_CreatedAt (db_signing_keys d))) d"

subsection \<open>settings.go, app\_secret.go, branding.go, audit.go\<close>

definition GetSettings :: "db \<Rightarrow> Settings res" where
  "GetSettings d = query ''GetSettings'' (Inr (db_settings d)) d"

definition UpdateSettings :: "Settings \<Rightarrow> time \<Rightarrow> db \<Rightarrow> unit res \<times> db" where
  "UpdateSettings s now = exec ''UpdateSettings''
     (\<lambda>d. d\<lparr>db_settings := s\<lparr>set_Seeded := True, set_UpdatedAt := now\<rparr>\<rparr>)"

text \<open>The generator is an argument: \<open>None\<close> when it fails.\<close>

definition GetOrCreateAppSecret :: "string option \<Rightarrow> db \<Rightarrow> string res \<times> db" where
  "GetOrCreateAppSecret gen d =
     (if fault d ''GetOrCreateAppSecret/read'' then (Inl ErrFault, d)
      else case db_app_secret d of
        Some key \<Rightarrow> (Inr key, d)
      | None \<Rightarrow> (case gen of
            None \<Rightarrow> (Inl ErrFault, d)
          | Some key \<Rightarrow> (let (r, d') = exec ''GetOrCreateAppSecret/insert'' (db_app_secret_update (\<lambda>_. Some key)) d
              in case r of Inl e \<Rightarrow> (Inl e, d')
                 | Inr _ \<Rightarrow> (if fault d' ''GetOrCreateAppSecret/reread'' then Inl ErrFault
                              else case db_app_secret d' of Some k \<Rightarrow> Inr k | None \<Rightarrow> Inl ErrNoRows, d'))))"

definition GetBranding :: "db \<Rightarrow> Branding res" where
  "GetBranding d = query ''GetBranding'' (Inr (case db_branding d of Some b \<Rightarrow> b
     | None \<Rightarrow> \<lparr>br_ProductName = ''Omni Identity'', br_LogoBytes = '''', br_LogoContentType = '''',
                br_AccentColor = '''', br_FooterText = '''', br_BackgroundStyle = '''', br_UpdatedAt = 0\<rparr>)) d"

definition UpdateBranding :: "Branding \<Rightarrow> time \<Rightarrow> db \<Rightarrow> unit res \<times> db" where
  "UpdateBranding b now = exec ''UpdateBranding'' (db_branding_update (map_option
     (\<lambda>r. r\<lparr>br_ProductName := br_ProductName b, br_AccentColor := br_AccentColor b,
        br_FooterText := br_FooterText b, br_BackgroundStyle := br_BackgroundStyle b, br_UpdatedAt := now\<rparr>)))"

definition SetBrandingLogo :: "string \<Rightarrow> string \<Rightarrow> time \<Rightarrow> db \<Rightarrow> unit res \<times> db" where
  "SetBrandingLogo bytes contentType now = exec ''SetBrandingLogo'' (db_branding_update (map_option
     (\<lambda>r. r\<lparr>br_LogoBytes := bytes, br_LogoContentType := contentType, br_UpdatedAt := now\<rparr>)))"

definition AppendAuditEvent :: "AuditEvent \<Rightarrow> db \<Rightarrow> unit res \<times> db" where
  "AppendAuditEvent e = insert_row ''AppendAuditEvent'' audit_ok (db_audit_log_update (\<lambda>t. t @ [e]))"

definition ListAuditEvents :: "int \<Rightarrow> db \<Rightarrow> AuditEvent list res" where
  "ListAuditEvents limit d = query ''ListAuditEvents''
     (Inr (take (nat (if limit \<le> 0 \<or> limit > 1000 then 200 else limit))
        (newest_first aud_CreatedAt (db_audit_log d)))) d"

end
