(* ===== verification/DeviceStore.thy ===== *)
theory DeviceStore
  imports Accounts
begin

text \<open>
  The repositories of enrolled devices (\<open>internal/store\<close>: \<open>devices.go\<close>,
  \<open>personal_access_tokens.go\<close>): devices, RFC 8628 device codes, single-use identifiers of
  assertions and proofs, and personal access tokens.
\<close>

subsection \<open>devices.go: devices\<close>

definition CreateDevice :: "Device \<Rightarrow> db \<Rightarrow> unit res \<times> db" where
  "CreateDevice v = insert_row ''CreateDevice'' devices_ok (db_devices_update (\<lambda>t. t @ [v]))"

definition SetDevicePosture :: "string \<Rightarrow> string \<Rightarrow> time \<Rightarrow> string \<Rightarrow> string \<Rightarrow> db \<Rightarrow> unit res \<times> db" where
  "SetDevicePosture i posture at keyBackend trust = exec ''SetDevicePosture''
     (db_devices_update (upd (\<lambda>v. dev_ID v = i) (\<lambda>v.
        if keyBackend \<noteq> '''' then v\<lparr>dev_Posture := posture, dev_PostureAt := at,
          dev_KeyBackend := keyBackend, dev_TrustLevel := trust\<rparr>
        else v\<lparr>dev_Posture := posture, dev_PostureAt := at\<rparr>)))"

definition GetDevice :: "string \<Rightarrow> db \<Rightarrow> Device res" where
  "GetDevice i d = query ''GetDevice'' (sel1 (\<lambda>v. dev_ID v = i) (db_devices d)) d"

definition FingerprintInUse :: "string \<Rightarrow> db \<Rightarrow> bool res" where
  "FingerprintInUse fp d = query ''FingerprintInUse''
     (Inr (0 < affected (\<lambda>v. dev_Fingerprint v = fp \<or> dev_PreviousFingerprint v = fp) (db_devices d))) d"

definition ListDevicesForUser :: "string \<Rightarrow> db \<Rightarrow> Device list res" where
  "ListDevicesForUser userID d = query ''ListDevicesForUser''
     (Inr (newest_first dev_CreatedAt (filter (\<lambda>v. dev_OwnerUserID v = userID) (db_devices d)))) d"

definition ListDevices :: "db \<Rightarrow> Device list res" where
  "ListDevices d = query ''ListDevices'' (Inr (newest_first dev_CreatedAt (db_devices d))) d"

definition CountActiveDevices :: "db \<Rightarrow> int res" where
  "CountActiveDevices d = query ''CountActiveDevices''
     (Inr (int (affected (\<lambda>v. dev_Status v = DeviceStatusActive) (db_devices d)))) d"

definition TouchDevice :: "string \<Rightarrow> time \<Rightarrow> db \<Rightarrow> unit res \<times> db" where
  "TouchDevice i at = exec ''TouchDevice''
     (db_devices_update (upd (\<lambda>v. dev_ID v = i) (\<lambda>v. v\<lparr>dev_LastSeenAt := at\<rparr>)))"

text \<open>One transaction: the device, its refresh tokens and its personal access tokens, or nothing.\<close>

definition RevokeDevice :: "string \<Rightarrow> time \<Rightarrow> db \<Rightarrow> unit res \<times> db" where
  "RevokeDevice i at d =
     (let p = (\<lambda>v. dev_ID v = i \<and> dev_Status v \<noteq> DeviceStatusRevoked)
      in if fault d ''RevokeDevice'' then (Inl ErrFault, d)
         else if affected p (db_devices d) = 0 then (Inl ErrNotFound, d)
         else (Inr (), d\<lparr>
           db_devices := upd p (\<lambda>v. v\<lparr>dev_Status := DeviceStatusRevoked, dev_RevokedAt := at\<rparr>) (db_devices d),
           db_refresh_tokens := upd (\<lambda>t. rt_DeviceID t = i) (\<lambda>t. t\<lparr>rt_Revoked := True\<rparr>) (db_refresh_tokens d),
           db_pats := revoke_pats (\<lambda>x. pat_DeviceID x = i) at (db_pats d)\<rparr>))"

definition DeleteDevice :: "string \<Rightarrow> db \<Rightarrow> unit res \<times> db" where
  "DeleteDevice i d =
     (let p = (\<lambda>v. dev_ID v = i \<and> dev_Status v = DeviceStatusRevoked)
      in execRow ''DeleteDevice'' (affected p (db_devices d)) (db_devices_update (del p)) d)"

definition rotate_key :: "string \<Rightarrow> string \<Rightarrow> string \<Rightarrow> string \<Rightarrow> string \<Rightarrow> Device \<Rightarrow> Device" where
  "rotate_key publicKey alg fingerprint keyBackend trust v =
     (let v' = v\<lparr>dev_PreviousFingerprint := dev_Fingerprint v, dev_PublicKey := publicKey,
                 dev_PublicKeyAlgorithm := alg, dev_Fingerprint := fingerprint\<rparr>
      in if keyBackend \<noteq> '''' then v'\<lparr>dev_KeyBackend := keyBackend, dev_TrustLevel := trust\<rparr> else v')"

definition RotateDeviceKey ::
  "string \<Rightarrow> string \<Rightarrow> string \<Rightarrow> string \<Rightarrow> string \<Rightarrow> string \<Rightarrow> db \<Rightarrow> unit res \<times> db" where
  "RotateDeviceKey i publicKey alg fingerprint keyBackend trust d =
     (let p = (\<lambda>v. dev_ID v = i \<and> dev_Status v = DeviceStatusActive)
      in checked devices_ok (\<lambda>op f d'. execRow op (affected p (db_devices d)) f d') ''RotateDeviceKey''
           (db_devices_update (upd p (rotate_key publicKey alg fingerprint keyBackend trust))) d)"

definition ApproveDevice :: "string \<Rightarrow> time \<Rightarrow> db \<Rightarrow> unit res \<times> db" where
  "ApproveDevice i at d =
     (let p = (\<lambda>v. dev_ID v = i \<and> dev_Status v = DeviceStatusPending)
      in execRow ''ApproveDevice'' (affected p (db_devices d))
           (db_devices_update (upd p (\<lambda>v. v\<lparr>dev_Status := DeviceStatusActive, dev_EnrolledAt := at\<rparr>))) d)"

definition SetDeviceOwnerOnly :: "string \<Rightarrow> string \<Rightarrow> bool \<Rightarrow> db \<Rightarrow> unit res \<times> db" where
  "SetDeviceOwnerOnly i ownerID ownerOnly d =
     (let p = (\<lambda>v. dev_ID v = i \<and> dev_OwnerUserID v = ownerID)
      in execRow ''SetDeviceOwnerOnly'' (affected p (db_devices d))
           (db_devices_update (upd p (\<lambda>v. v\<lparr>dev_OwnerOnly := ownerOnly\<rparr>))) d)"

definition CountPendingDevices :: "db \<Rightarrow> int res" where
  "CountPendingDevices d = query ''CountPendingDevices''
     (Inr (int (affected (\<lambda>v. dev_Status v = DeviceStatusPending) (db_devices d)))) d"

definition RevokeRefreshTokensForDevice :: "string \<Rightarrow> db \<Rightarrow> unit res \<times> db" where
  "RevokeRefreshTokensForDevice deviceID = exec ''RevokeRefreshTokensForDevice''
     (db_refresh_tokens_update (upd (\<lambda>t. rt_DeviceID t = deviceID) (\<lambda>t. t\<lparr>rt_Revoked := True\<rparr>)))"

subsection \<open>devices.go: single-use identifiers\<close>

text \<open>Two statements outside a transaction: pruning what has expired, and an insertion that a
  row with the same key turns into nothing.\<close>

definition ConsumeJTI :: "string \<Rightarrow> string \<Rightarrow> time \<Rightarrow> time \<Rightarrow> db \<Rightarrow> bool res \<times> db" where
  "ConsumeJTI h deviceID expiresAt now d =
     (let (r, d1) = exec ''ConsumeJTI/prune'' (db_jtis_update (del (\<lambda>j. Before (jti_ExpiresAt j) now))) d
      in case r of Inl e \<Rightarrow> (Inl e, d1)
         | Inr _ \<Rightarrow>
             if fault d1 ''ConsumeJTI'' then (Inl ErrFault, d1)
             else if 0 < affected (\<lambda>j. jti_Hash j = h) (db_jtis d1) then (Inr False, d1)
             else (Inr True, db_jtis_update (\<lambda>t. t @
                    [\<lparr>jti_Hash = h, jti_DeviceID = deviceID, jti_ExpiresAt = expiresAt\<rparr>]) d1))"

subsection \<open>devices.go: device codes\<close>

definition CreateDeviceCode :: "DeviceCode \<Rightarrow> db \<Rightarrow> unit res \<times> db" where
  "CreateDeviceCode c = insert_row ''CreateDeviceCode'' device_codes_ok (db_device_codes_update (\<lambda>t. t @ [c]))"

definition GetDeviceCodeByHash :: "string \<Rightarrow> db \<Rightarrow> DeviceCode res" where
  "GetDeviceCodeByHash h d = query ''GetDeviceCodeByHash''
     (sel1 (\<lambda>c. dc_DeviceCodeHash c = h) (db_device_codes d)) d"

definition GetPendingDeviceCodeByUserCode :: "string \<Rightarrow> time \<Rightarrow> db \<Rightarrow> DeviceCode res" where
  "GetPendingDeviceCodeByUserCode userCode now d =
     (case query ''GetPendingDeviceCodeByUserCode'' (sel1 (\<lambda>c. dc_UserCode c = userCode) (db_device_codes d)) d of
        Inl e \<Rightarrow> Inl e
      | Inr c \<Rightarrow> if dc_Status c \<noteq> DeviceCodePending \<or> After now (dc_ExpiresAt c) then Inl ErrNotFound else Inr c)"

text \<open>\<open>UPDATE device_codes SET ... WHERE id = ? AND status = ?\<close>\<close>

definition update_device_code :: "string \<Rightarrow> string \<Rightarrow> string \<Rightarrow> (DeviceCode \<Rightarrow> DeviceCode) \<Rightarrow> db \<Rightarrow> unit res \<times> db" where
  "update_device_code op i from f d =
     (let p = (\<lambda>c. dc_ID c = i \<and> dc_Status c = from)
      in execRow op (affected p (db_device_codes d)) (db_device_codes_update (upd p f)) d)"

definition ApproveDeviceCode :: "string \<Rightarrow> string \<Rightarrow> string \<Rightarrow> time \<Rightarrow> db \<Rightarrow> unit res \<times> db" where
  "ApproveDeviceCode i userID amr authTime = update_device_code ''ApproveDeviceCode'' i DeviceCodePending
     (\<lambda>c. c\<lparr>dc_Status := DeviceCodeApproved, dc_UserID := userID, dc_AMR := amr, dc_AuthTime := authTime\<rparr>)"

definition DenyDeviceCode :: "string \<Rightarrow> db \<Rightarrow> unit res \<times> db" where
  "DenyDeviceCode i = update_device_code ''DenyDeviceCode'' i DeviceCodePending
     (\<lambda>c. c\<lparr>dc_Status := DeviceCodeDenied\<rparr>)"

definition ConsumeDeviceCode :: "string \<Rightarrow> db \<Rightarrow> bool res \<times> db" where
  "ConsumeDeviceCode i d =
     (let p = (\<lambda>c. dc_ID c = i \<and> dc_Status c = DeviceCodeApproved);
          (r, d') = execCount ''ConsumeDeviceCode'' (affected p (db_device_codes d))
            (db_device_codes_update (upd p (\<lambda>c. c\<lparr>dc_Status := DeviceCodeConsumed\<rparr>))) d
      in (map_sum id (\<lambda>n. n = 1) r, d'))"

definition MarkDeviceCodePolled :: "string \<Rightarrow> time \<Rightarrow> db \<Rightarrow> unit res \<times> db" where
  "MarkDeviceCodePolled i at = exec ''MarkDeviceCodePolled''
     (db_device_codes_update (upd (\<lambda>c. dc_ID c = i) (\<lambda>c. c\<lparr>dc_LastPolledAt := at\<rparr>)))"

definition DeleteExpiredDeviceCodes :: "time \<Rightarrow> db \<Rightarrow> int res \<times> db" where
  "DeleteExpiredDeviceCodes now d =
     (let p = (\<lambda>c. Before (dc_ExpiresAt c) now)
      in execCount ''DeleteExpiredDeviceCodes'' (affected p (db_device_codes d))
           (db_device_codes_update (del p)) d)"

subsection \<open>personal\_access\_tokens.go\<close>

definition ptrTime :: "time option \<Rightarrow> time" where
  "ptrTime t = (case t of None \<Rightarrow> 0 | Some x \<Rightarrow> x)"

definition nullTime :: "time \<Rightarrow> time option" where
  "nullTime t = (if IsZero t then None else Some t)"

definition CreatePAT :: "PersonalAccessToken \<Rightarrow> db \<Rightarrow> unit res \<times> db" where
  "CreatePAT p = insert_row ''CreatePAT'' pats_ok (db_pats_update (\<lambda>t. t @
     [p\<lparr>pat_LastUsedAt := nullTime (ptrTime (pat_LastUsedAt p)),
        pat_RevokedAt := nullTime (ptrTime (pat_RevokedAt p))\<rparr>]))"

text \<open>\<open>scanPAT\<close> passes \<open>sql.ErrNoRows\<close> on as it is.\<close>

definition GetPAT :: "string \<Rightarrow> db \<Rightarrow> PersonalAccessToken res" where
  "GetPAT i d = (case query ''GetPAT'' (sel1 (\<lambda>p. pat_ID p = i) (db_pats d)) d of
     Inl e \<Rightarrow> Inl (if e = ErrNotFound then ErrNoRows else e) | Inr p \<Rightarrow> Inr p)"

definition ListActivePATsForDevice :: "string \<Rightarrow> time \<Rightarrow> db \<Rightarrow> PersonalAccessToken list res" where
  "ListActivePATsForDevice deviceID now d = query ''ListActivePATsForDevice''
     (Inr (newest_first pat_CreatedAt
        (filter (\<lambda>p. pat_DeviceID p = deviceID \<and> pat_RevokedAt p = None \<and> After (pat_ExpiresAt p) now) (db_pats d)))) d"

definition RevokePATForDevice :: "string \<Rightarrow> string \<Rightarrow> time \<Rightarrow> db \<Rightarrow> bool res \<times> db" where
  "RevokePATForDevice i deviceID now d =
     (let p = (\<lambda>x. pat_ID x = i \<and> pat_DeviceID x = deviceID);
          (r, d') = execCount ''RevokePATForDevice''
            (affected (\<lambda>x. p x \<and> pat_RevokedAt x = None) (db_pats d)) (db_pats_update (revoke_pats p now)) d
      in (map_sum id (\<lambda>n. n > 0) r, d'))"

definition RevokePATsForDevice :: "string \<Rightarrow> time \<Rightarrow> db \<Rightarrow> unit res \<times> db" where
  "RevokePATsForDevice deviceID now = exec ''RevokePATsForDevice''
     (db_pats_update (revoke_pats (\<lambda>x. pat_DeviceID x = deviceID) now))"

definition RevokePATsForUser :: "string \<Rightarrow> time \<Rightarrow> db \<Rightarrow> unit res \<times> db" where
  "RevokePATsForUser userID now = exec ''RevokePATsForUser''
     (db_pats_update (revoke_pats (\<lambda>x. pat_UserID x = userID) now))"

definition RevokedPATJTIs :: "time \<Rightarrow> db \<Rightarrow> string list res" where
  "RevokedPATJTIs now d = query ''RevokedPATJTIs''
     (Inr (map pat_ID (filter (\<lambda>p. pat_RevokedAt p \<noteq> None \<and> After (pat_ExpiresAt p) now) (db_pats d)))) d"

end
