(* ===== verification/Store.thy ===== *)
theory Store
  imports Accounts Grants DeviceStore
begin

text \<open>
  The store as a whole: the sweep of expired rows (\<open>internal/store/sweep.go\<close>), every
  state-changing operation of the repositories as a step of one machine, the proof that the
  constraints of the database hold after every step, and the single-use contracts of
  authorization codes, refresh tokens, password tokens, recovery codes, device codes and
  replay identifiers, each an interpretation of \<open>single_use\<close> on those steps.
\<close>

subsection \<open>sweep.go\<close>

definition deleteExpiredRows :: "string \<Rightarrow> time \<Rightarrow> db \<Rightarrow> int res \<times> db" where
  "deleteExpiredRows tbl now d =
     (if tbl = ''login_challenges'' then
        (let p = (\<lambda>c. Before (lc_ExpiresAt c) now)
         in execCount ''sweep/login_challenges'' (affected p (db_login_challenges d)) (db_login_challenges_update (del p)) d)
      else if tbl = ''password_tokens'' then
        (let p = (\<lambda>t. Before (pt_ExpiresAt t) now)
         in execCount ''sweep/password_tokens'' (affected p (db_password_tokens d)) (db_password_tokens_update (del p)) d)
      else if tbl = ''device_assertion_jtis'' then
        (let p = (\<lambda>j. Before (jti_ExpiresAt j) now)
         in execCount ''sweep/device_assertion_jtis'' (affected p (db_jtis d)) (db_jtis_update (del p)) d)
      else (Inl ErrFault, d))"

definition sweep_steps :: "time \<Rightarrow> (string \<times> (db \<Rightarrow> int res \<times> db)) list" where
  "sweep_steps now =
    [(''sessions'', DeleteExpiredSessions now),
     (''authorization_codes'', DeleteExpiredAuthCodes now),
     (''auth_requests'', DeleteExpiredAuthRequests now),
     (''login_challenges'', deleteExpiredRows ''login_challenges'' now),
     (''password_tokens'', deleteExpiredRows ''password_tokens'' now),
     (''device_codes'', DeleteExpiredDeviceCodes now),
     (''webauthn_ceremonies'', DeleteExpiredWebAuthnCeremonies now),
     (''device_assertion_jtis'', deleteExpiredRows ''device_assertion_jtis'' now)]"

text \<open>The steps in order, stopping at the first error; the counts gathered so far are returned
  either way.\<close>

fun run_sweep :: "(string \<times> (db \<Rightarrow> int res \<times> db)) list \<Rightarrow> (string \<times> int) list \<Rightarrow> db
    \<Rightarrow> ((string \<times> int) list \<times> db_err option) \<times> db" where
  "run_sweep [] counts d = ((counts, None), d)"
| "run_sweep ((name, f) # rest) counts d = (case f d of
     (Inl e, d') \<Rightarrow> ((counts, Some e), d')
   | (Inr n, d') \<Rightarrow> run_sweep rest (counts @ [(name, n)]) d')"

definition SweepExpired :: "time \<Rightarrow> db \<Rightarrow> ((string \<times> int) list \<times> db_err option) \<times> db" where
  "SweepExpired now = run_sweep (sweep_steps now) []"

text \<open>What every step of a list of steps keeps, the run keeps, wherever it stops.\<close>

lemma run_sweep_keeps:
  assumes "list_all (\<lambda>(n, f). \<forall>d. P d \<longrightarrow> P (snd (f d))) steps" and "P d"
  shows "P (snd (run_sweep steps counts d))"
  using assms
proof (induction steps arbitrary: counts d)
  case (Cons x steps)
  obtain n f where x: "x = (n, f)" by (cases x)
  obtain r d' where f: "f d = (r, d')" by (cases "f d")
  have "P d'"
  proof -
    have "P (snd (f d))" using Cons.prems x by simp
    then show ?thesis using f by simp
  qed
  then show ?case using Cons x f by (auto split: sum.split)
qed simp

subsection \<open>Constraints are kept\<close>

lemma filter_upd:
  assumes "\<And>r. q (f r) = q r"
  shows "filter q (upd p f t) = upd p f (filter q t)"
  by (induction t) (auto simp: assms)

lemma users_ok_upd:
  assumes "\<And>u. usr_ID (f u) = usr_ID u" "\<And>u. usr_Username (f u) = usr_Username u"
    "\<And>u. usr_Email (f u) = usr_Email u" "\<And>u. usr_AuthSource (f u) = usr_AuthSource u"
    "\<And>u. usr_ExternalID (f u) = usr_ExternalID u" "\<And>u. usr_WebAuthnHandle (f u) = usr_WebAuthnHandle u"
  shows "users_ok (upd p f t) = users_ok t"
  by (simp add: users_ok_def uniq_on_upd filter_upd assms)

lemma filter_del: "filter q (del p t) = del p (filter q t)"
  by (simp add: del_def conj_commute)

lemma users_ok_del: "users_ok t \<Longrightarrow> users_ok (del p t)"
  by (auto simp: users_ok_def filter_del intro: uniq_on_del)

lemma fk_upd:
  "(\<And>u. usr_ID (f u) = usr_ID u) \<Longrightarrow> fk_user (db_users_update (upd p f) d) i = fk_user d i"
  by (simp add: fk_user_def key_of_image)

text \<open>Writing the users table keeps the other tables' constraints as long as no user goes.\<close>

lemma db_ok_users:
  assumes "db_ok d" and "users_ok (g (db_users d))" and "usr_ID ` set (db_users d) \<subseteq> usr_ID ` set (g (db_users d))"
  shows "db_ok (db_users_update g d)"
  using assms by (auto simp: db_ok_def ok_defs list_all_iff)

lemma db_ok_users_upd:
  assumes "db_ok d" and "users_ok (upd p f (db_users d))" and "\<And>u. usr_ID (f u) = usr_ID u"
  shows "db_ok (db_users_update (upd p f) d)"
  using assms by (intro db_ok_users) (simp_all add: key_of_image)

lemma db_ok_users_upd':
  assumes "db_ok d" "\<And>u. usr_ID (f u) = usr_ID u" "\<And>u. usr_Username (f u) = usr_Username u"
    "\<And>u. usr_Email (f u) = usr_Email u" "\<And>u. usr_AuthSource (f u) = usr_AuthSource u"
    "\<And>u. usr_ExternalID (f u) = usr_ExternalID u" "\<And>u. usr_WebAuthnHandle (f u) = usr_WebAuthnHandle u"
  shows "db_ok (db_users_update (upd p f) d)"
  using assms by (intro db_ok_users_upd) (simp_all add: users_ok_upd db_ok_def)

text \<open>Every other table: the constraint of the written table is what is left to show.\<close>

lemma db_ok_tables:
  assumes "db_ok d"
  shows "sessions_ok (db_sessions_update g1 d) \<Longrightarrow> db_ok (db_sessions_update g1 d)"
    "password_tokens_ok (db_password_tokens_update g2 d) \<Longrightarrow> db_ok (db_password_tokens_update g2 d)"
    "recovery_codes_ok (db_recovery_codes_update g3 d) \<Longrightarrow> db_ok (db_recovery_codes_update g3 d)"
    "login_challenges_ok (db_login_challenges_update g4 d) \<Longrightarrow> db_ok (db_login_challenges_update g4 d)"
    "webauthn_ok (db_webauthn_credentials_update g5 d) \<Longrightarrow> db_ok (db_webauthn_credentials_update g5 d)"
    "webauthn_ok (db_webauthn_ceremonies_update g6 d) \<Longrightarrow> db_ok (db_webauthn_ceremonies_update g6 d)"
    "grants_ok (db_clients_update h1 d) \<Longrightarrow> db_ok (db_clients_update h1 d)"
    "grants_ok (db_auth_requests_update h2 d) \<Longrightarrow> db_ok (db_auth_requests_update h2 d)"
    "grants_ok (db_auth_codes_update h3 d) \<Longrightarrow> db_ok (db_auth_codes_update h3 d)"
    "grants_ok (db_refresh_tokens_update h4 d) \<Longrightarrow> db_ok (db_refresh_tokens_update h4 d)"
    "grants_ok (db_signing_keys_update h5 d) \<Longrightarrow> db_ok (db_signing_keys_update h5 d)"
    "devices_ok (db_devices_update h6 d) \<Longrightarrow> db_ok (db_devices_update h6 d)"
    "device_codes_ok (db_device_codes_update h7 d) \<Longrightarrow> db_ok (db_device_codes_update h7 d)"
    "jtis_ok (db_jtis_update h8 d) \<Longrightarrow> db_ok (db_jtis_update h8 d)"
    "pats_ok (db_pats_update h9 d) \<Longrightarrow> db_ok (db_pats_update h9 d)"
    "audit_ok (db_audit_log_update k1 d) \<Longrightarrow> db_ok (db_audit_log_update k1 d)"
    "db_ok (db_settings_update k2 d)" "db_ok (db_branding_update k3 d)" "db_ok (db_app_secret_update k4 d)"
  using assms by (simp_all add: db_ok_def ok_defs)

lemma db_ok_parts:
  assumes "db_ok d"
  shows "users_ok (db_users d)" "sessions_ok d" "password_tokens_ok d" "recovery_codes_ok d"
    "login_challenges_ok d" "webauthn_ok d" "grants_ok d" "devices_ok d" "device_codes_ok d"
    "jtis_ok d" "pats_ok d" "audit_ok d"
  using assms by (simp_all add: db_ok_def)

text \<open>A statement that keeps the keys, and a DELETE, keep the constraint of their table.\<close>

lemmas keep_simps = ok_defs uniq_on_upd uniq_on_del list_all_upd list_all_del

lemma revoke_pats_ok: "uniq_on pat_ID (revoke_pats p t ps) = uniq_on pat_ID ps"
  unfolding revoke_pats_def by (rule uniq_on_upd) simp


text \<open>Operation by operation.\<close>

lemma db_ok_insert:
  assumes "db_ok d" and "ok (f d) \<Longrightarrow> db_ok (f d)"
  shows "db_ok (snd (insert_row op ok f d))"
  using assms by (rule insert_keeps)

lemma db_ok_checked_users:
  assumes "db_ok d" and "\<And>u. usr_ID (f u) = usr_ID u"
  shows "db_ok (snd (update_user_keys op i f d))"
  using assms by (auto simp: update_user_keys_def checked_def snd_execRow intro: db_ok_users_upd)

lemma CreateUser_ok [db_ok_pres]: "db_ok d \<Longrightarrow> db_ok (snd (CreateUser u d))"
  unfolding CreateUser_def by (rule db_ok_insert) (auto intro: db_ok_users)

lemma UpsertExternalUser_ok [db_ok_pres]:
  assumes "db_ok d"
  shows "db_ok (snd (UpsertExternalUser src ext n e a uuid now d))"
proof -
  have "db_ok (snd (update_user_keys ''UpsertExternalUser'' i
      (\<lambda>u. u\<lparr>usr_Email := e, usr_IsAdmin := a, usr_UpdatedAt := now\<rparr>) d))" for i
    by (rule db_ok_checked_users [OF assms]) simp
  moreover have "db_ok (snd (CreateUser u d))" for u
    by (rule CreateUser_ok [OF assms])
  ultimately show ?thesis
    using assms by (simp add: UpsertExternalUser_def Let_def split_beta split: sum.split)
qed

lemmas stmt_db_ok = stmt_keeps [where P = db_ok]

lemma update_users_ok:
  assumes "db_ok d" "\<And>u. usr_ID (f u) = usr_ID u" "\<And>u. usr_Username (f u) = usr_Username u"
    "\<And>u. usr_Email (f u) = usr_Email u" "\<And>u. usr_AuthSource (f u) = usr_AuthSource u"
    "\<And>u. usr_ExternalID (f u) = usr_ExternalID u" "\<And>u. usr_WebAuthnHandle (f u) = usr_WebAuthnHandle u"
  shows "db_ok (snd (update_users op i f d))"
  unfolding update_users_def by (rule stmt_db_ok) (use assms in \<open>auto intro: db_ok_users_upd'\<close>)

lemma UpdateUser_ok [db_ok_pres]: "db_ok d \<Longrightarrow> db_ok (snd (UpdateUser u now d))"
  unfolding UpdateUser_def by (rule db_ok_checked_users) simp_all

lemma LinkUserToExternal_ok [db_ok_pres]: "db_ok d \<Longrightarrow> db_ok (snd (LinkUserToExternal i s e now d))"
  unfolding LinkUserToExternal_def by (rule db_ok_checked_users) simp_all

lemma SetUserPassword_ok [db_ok_pres]: "db_ok d \<Longrightarrow> db_ok (snd (SetUserPassword i h now d))"
  unfolding SetUserPassword_def by (rule update_users_ok) simp_all

lemma SetUserMFA_ok [db_ok_pres]: "db_ok d \<Longrightarrow> db_ok (snd (SetUserMFA i b sec now d))"
  unfolding SetUserMFA_def by (rule update_users_ok) simp_all

lemma ResetFailedLogins_ok [db_ok_pres]: "db_ok d \<Longrightarrow> db_ok (snd (ResetFailedLogins i now d))"
  unfolding ResetFailedLogins_def by (rule stmt_db_ok) (auto intro: db_ok_users_upd')

lemma RecordFailedLogin_ok [db_ok_pres]: "db_ok d \<Longrightarrow> db_ok (snd (RecordFailedLogin i th lu now d))"
proof -
  assume d: "db_ok d"
  have "db_ok (db_users_update (upd (\<lambda>u. usr_ID u = i) (failed_login_row th lu now)) d)"
    by (rule db_ok_users_upd' [OF d]) (simp_all add: failed_login_row_def)
  then show ?thesis
    using d by (auto simp: RecordFailedLogin_def exec_def split: sum.split)
qed

lemma SetUserWebAuthnHandle_ok [db_ok_pres]: "db_ok d \<Longrightarrow> db_ok (snd (SetUserWebAuthnHandle i h d))"
  by (simp add: SetUserWebAuthnHandle_def Let_def checked_def snd_execRow db_ok_users_upd)

lemma db_ok_pats_upd: "db_ok d \<Longrightarrow> db_ok (db_pats_update (revoke_pats p t) d)"
  by (rule db_ok_tables) (simp_all add: db_ok_def pats_ok_def revoke_pats_ok)

lemma SetUserDisabled_ok [db_ok_pres]: "db_ok d \<Longrightarrow> db_ok (snd (SetUserDisabled i b now d))"
proof -
  assume d: "db_ok d"
  have "db_ok (snd (update_users ''SetUserDisabled'' i (\<lambda>r. r\<lparr>usr_Disabled := b, usr_UpdatedAt := now\<rparr>) d))"
    by (rule update_users_ok [OF d]) simp_all
  then show ?thesis
    by (auto simp: SetUserDisabled_def exec_def split_beta Let_def db_ok_pats_upd split: sum.split)
qed

lemma list_all_del_fk:
  "list_all (\<lambda>r. g r \<in> S) t \<Longrightarrow> list_all (\<lambda>r. g r \<in> S \<and> g r \<noteq> i) (del (\<lambda>r. g r = i) t)"
  by (auto simp: list_all_iff set_del)

lemma usr_ID_del: "usr_ID ` set (del (\<lambda>u. usr_ID u = i) t) = usr_ID ` set t - {i}"
  by (auto simp: set_del)

lemma cascade_user_ok: "db_ok d \<Longrightarrow> db_ok (cascade_user i d)"
  by (simp add: db_ok_def ok_defs cascade_user_def users_ok_del uniq_on_del usr_ID_del list_all_del_fk)

lemma DeleteUser_ok [db_ok_pres]: "db_ok d \<Longrightarrow> db_ok (snd (DeleteUser i d))"
proof -
  assume d: "db_ok d"
  then have "db_ok (db_pats_update (del p) d)" for p
    by (intro db_ok_tables) (simp_all add: db_ok_def pats_ok_def uniq_on_del)
  with d show ?thesis
    by (auto simp: DeleteUser_def exec_def snd_execRow cascade_user_ok)
qed


text \<open>The other tables: deletions, updates that keep the keys, insertions.\<close>

lemma db_ok_dels:
  assumes "db_ok d"
  shows "db_ok (db_sessions_update (del p1) d)" "db_ok (db_password_tokens_update (del p2) d)"
    "db_ok (db_recovery_codes_update (del p3) d)" "db_ok (db_login_challenges_update (del p4) d)"
    "db_ok (db_webauthn_credentials_update (del p5) d)" "db_ok (db_webauthn_ceremonies_update (del p6) d)"
    "db_ok (db_auth_requests_update (del p7) d)" "db_ok (db_auth_codes_update (del p8) d)"
    "db_ok (db_devices_update (del p9) d)" "db_ok (db_device_codes_update (del q1) d)"
    "db_ok (db_jtis_update (del q2) d)" "db_ok (db_pats_update (del q3) d)"
  using assms by (simp_all add: db_ok_def keep_simps)

lemma db_ok_upd_sessions:
  "db_ok d \<Longrightarrow> (\<And>s. ses_ID (f s) = ses_ID s) \<Longrightarrow> (\<And>s. ses_UserID (f s) = ses_UserID s) \<Longrightarrow>
     db_ok (db_sessions_update (upd p f) d)"
  by (simp add: db_ok_def keep_simps)

lemma db_ok_upd_password_tokens:
  "db_ok d \<Longrightarrow> (\<And>t. pt_ID (f t) = pt_ID t) \<Longrightarrow> (\<And>t. pt_UserID (f t) = pt_UserID t) \<Longrightarrow>
     (\<And>t. pt_TokenHash (f t) = pt_TokenHash t) \<Longrightarrow> db_ok (db_password_tokens_update (upd p f) d)"
  by (simp add: db_ok_def keep_simps)

lemma db_ok_upd_recovery_codes:
  "db_ok d \<Longrightarrow> (\<And>t. rc_ID (f t) = rc_ID t) \<Longrightarrow> (\<And>t. rc_UserID (f t) = rc_UserID t) \<Longrightarrow>
     db_ok (db_recovery_codes_update (upd p f) d)"
  by (simp add: db_ok_def keep_simps)

lemma db_ok_upd_webauthn:
  "db_ok d \<Longrightarrow> (\<And>t. wc_ID (f t) = wc_ID t) \<Longrightarrow> (\<And>t. wc_UserID (f t) = wc_UserID t) \<Longrightarrow>
     db_ok (db_webauthn_credentials_update (upd p f) d)"
  by (simp add: db_ok_def keep_simps)

lemma db_ok_upd_clients:
  "db_ok d \<Longrightarrow> (\<And>c. cl_ClientID (f c) = cl_ClientID c) \<Longrightarrow> db_ok (db_clients_update (upd p f) d)"
  by (simp add: db_ok_def keep_simps)

lemma db_ok_upd_auth_codes:
  "db_ok d \<Longrightarrow> (\<And>c. ac_CodeHash (f c) = ac_CodeHash c) \<Longrightarrow> db_ok (db_auth_codes_update (upd p f) d)"
  by (simp add: db_ok_def keep_simps)

lemma db_ok_upd_refresh_tokens:
  "db_ok d \<Longrightarrow> (\<And>t. rt_ID (f t) = rt_ID t) \<Longrightarrow> (\<And>t. rt_TokenHash (f t) = rt_TokenHash t) \<Longrightarrow>
     db_ok (db_refresh_tokens_update (upd p f) d)"
  by (simp add: db_ok_def keep_simps)

lemma db_ok_upd_devices:
  "db_ok d \<Longrightarrow> (\<And>v. dev_ID (f v) = dev_ID v) \<Longrightarrow> (\<And>v. dev_Fingerprint (f v) = dev_Fingerprint v) \<Longrightarrow>
     (\<And>v. dev_OwnerUserID (f v) = dev_OwnerUserID v) \<Longrightarrow> db_ok (db_devices_update (upd p f) d)"
  by (simp add: db_ok_def keep_simps)

lemma db_ok_upd_device_codes:
  "db_ok d \<Longrightarrow> (\<And>c. dc_ID (f c) = dc_ID c) \<Longrightarrow> (\<And>c. dc_DeviceCodeHash (f c) = dc_DeviceCodeHash c) \<Longrightarrow>
     (\<And>c. dc_UserCode (f c) = dc_UserCode c) \<Longrightarrow> db_ok (db_device_codes_update (upd p f) d)"
  by (simp add: db_ok_def keep_simps)

lemma CreateSession_ok [db_ok_pres]: "db_ok d \<Longrightarrow> db_ok (snd (CreateSession s d))"
  unfolding CreateSession_def by (rule db_ok_insert) (auto intro: db_ok_tables)

lemma TouchSession_ok [db_ok_pres]: "db_ok d \<Longrightarrow> db_ok (snd (TouchSession i t d))"
  unfolding TouchSession_def by (rule stmt_db_ok) (simp_all add: db_ok_upd_sessions)

lemma session_dels_ok [db_ok_pres]:
  assumes "db_ok d"
  shows "db_ok (snd (DeleteSessionsForUser u k d))" "db_ok (snd (DeleteSession i d))"
    "db_ok (snd (DeleteExpiredSessions now d))"
  using assms by (simp_all add: DeleteSessionsForUser_def DeleteSession_def DeleteExpiredSessions_def
      Let_def stmt_snd db_ok_dels)

lemma CreatePasswordToken_ok [db_ok_pres]: "db_ok d \<Longrightarrow> db_ok (snd (CreatePasswordToken t d))"
  unfolding CreatePasswordToken_def by (rule db_ok_insert) (auto intro: db_ok_tables)

lemma ConsumePasswordToken_ok [db_ok_pres]: "db_ok d \<Longrightarrow> db_ok (snd (ConsumePasswordToken h now d))"
  by (auto simp: ConsumePasswordToken_def execCount_def db_ok_upd_password_tokens split: sum.split)

lemma password_token_dels_ok [db_ok_pres]:
  "db_ok d \<Longrightarrow> db_ok (snd (DeletePasswordTokensForUser u d))"
  by (simp add: DeletePasswordTokensForUser_def stmt_snd db_ok_dels)

lemma ReplaceRecoveryCodes_ok [db_ok_pres]: "db_ok d \<Longrightarrow> db_ok (snd (ReplaceRecoveryCodes u cs d))"
  unfolding ReplaceRecoveryCodes_def by (rule db_ok_insert) (auto intro: db_ok_tables)

lemma ConsumeRecoveryCode_ok [db_ok_pres]: "db_ok d \<Longrightarrow> db_ok (snd (ConsumeRecoveryCode u h d))"
  by (simp add: ConsumeRecoveryCode_def execCount_def db_ok_upd_recovery_codes)

lemma mfa_dels_ok [db_ok_pres]:
  assumes "db_ok d"
  shows "db_ok (snd (DeleteRecoveryCodes u d))" "db_ok (snd (DeleteLoginChallenge i d))"
  using assms by (simp_all add: DeleteRecoveryCodes_def DeleteLoginChallenge_def stmt_snd db_ok_dels)

lemma CreateLoginChallenge_ok [db_ok_pres]: "db_ok d \<Longrightarrow> db_ok (snd (CreateLoginChallenge c d))"
  unfolding CreateLoginChallenge_def by (rule db_ok_insert) (auto intro: db_ok_tables)

lemma webauthn_inserts_ok [db_ok_pres]:
  assumes "db_ok d"
  shows "db_ok (snd (CreateWebAuthnCredential c d))" "db_ok (snd (CreateWebAuthnCeremony y d))"
  using assms by (auto simp: CreateWebAuthnCredential_def CreateWebAuthnCeremony_def
      intro: db_ok_insert db_ok_tables)

lemma webauthn_changes_ok [db_ok_pres]:
  assumes "db_ok d"
  shows "db_ok (snd (UpdateWebAuthnCredential i c t d))" "db_ok (snd (DeleteWebAuthnCredential u i d))"
    "db_ok (snd (DeleteWebAuthnCredentialsForUser u d))" "db_ok (snd (DeleteExpiredWebAuthnCeremonies now d))"
    "db_ok (snd (ConsumeWebAuthnCeremony i now d))"
  using assms
  by (simp_all add: UpdateWebAuthnCredential_def DeleteWebAuthnCredential_def DeleteWebAuthnCredentialsForUser_def
      DeleteExpiredWebAuthnCeremonies_def ConsumeWebAuthnCeremony_def Let_def stmt_snd db_ok_dels
      db_ok_upd_webauthn split: sum.split)

lemma grant_inserts_ok [db_ok_pres]:
  assumes "db_ok d"
  shows "db_ok (snd (CreateAuthCode c d))" "db_ok (snd (CreateAuthRequest a d))"
    "db_ok (snd (CreateRefreshToken rt d))" "db_ok (snd (CreateClient cl d))" "db_ok (snd (CreateSigningKey k d))"
  using assms by (auto simp: CreateAuthCode_def CreateAuthRequest_def CreateRefreshToken_def CreateClient_def
      CreateSigningKey_def intro: db_ok_insert db_ok_tables)

lemma ConsumeAuthCode_ok [db_ok_pres]: "db_ok d \<Longrightarrow> db_ok (snd (ConsumeAuthCode h now d))"
  by (simp add: ConsumeAuthCode_def ConsumeAuthCode_mark_def db_ok_upd_auth_codes split: sum.split)

lemma grant_dels_ok [db_ok_pres]:
  assumes "db_ok d"
  shows "db_ok (snd (DeleteExpiredAuthCodes now d))" "db_ok (snd (DeleteAuthRequest i d))"
    "db_ok (snd (DeleteExpiredAuthRequests now d))"
  using assms by (simp_all add: DeleteExpiredAuthCodes_def DeleteAuthRequest_def DeleteExpiredAuthRequests_def
      Let_def stmt_snd db_ok_dels)

lemma RotateRefreshToken_ok [db_ok_pres]: "db_ok d \<Longrightarrow> db_ok (snd (RotateRefreshToken i rt d))"
  by (auto simp: RotateRefreshToken_def Let_def db_ok_def ok_defs split: option.split)

lemma refresh_changes_ok [db_ok_pres]:
  assumes "db_ok d"
  shows "db_ok (snd (RevokeRefreshToken i d))" "db_ok (snd (RevokeRefreshTokensForUserClient u c d))"
    "db_ok (snd (RevokeRefreshTokensForDevice v d))"
  using assms by (simp_all add: RevokeRefreshToken_def RevokeRefreshTokensForUserClient_def
      RevokeRefreshTokensForDevice_def stmt_snd db_ok_upd_refresh_tokens)

lemma client_changes_ok [db_ok_pres]:
  assumes "db_ok d"
  shows "db_ok (snd (UpdateClient c now d))" "db_ok (snd (SetClientSecretHash i h now d))"
    "db_ok (snd (SetClientDisabled i b now d))"
  using assms by (simp_all add: UpdateClient_def SetClientSecretHash_def SetClientDisabled_def update_clients_def
      stmt_snd db_ok_upd_clients)

lemma row_changes_ok [db_ok_pres]:
  assumes "db_ok d"
  shows "db_ok (snd (UpdateSettings s now d))" "db_ok (snd (GetOrCreateAppSecret g d))"
    "db_ok (snd (UpdateBranding b now d))" "db_ok (snd (SetBrandingLogo x y now d))"
  using assms by (auto simp: UpdateSettings_def GetOrCreateAppSecret_def UpdateBranding_def SetBrandingLogo_def
      exec_def db_ok_tables split: sum.split option.split)

lemma AppendAuditEvent_ok [db_ok_pres]: "db_ok d \<Longrightarrow> db_ok (snd (AppendAuditEvent e d))"
  unfolding AppendAuditEvent_def by (rule db_ok_insert) (auto intro: db_ok_tables)

lemma CreateDevice_ok [db_ok_pres]: "db_ok d \<Longrightarrow> db_ok (snd (CreateDevice v d))"
  unfolding CreateDevice_def by (rule db_ok_insert) (auto intro: db_ok_tables)

lemma device_changes_ok [db_ok_pres]:
  assumes "db_ok d"
  shows "db_ok (snd (SetDevicePosture i po t kb tr d))" "db_ok (snd (TouchDevice i t d))"
    "db_ok (snd (DeleteDevice i d))" "db_ok (snd (ApproveDevice i t d))" "db_ok (snd (SetDeviceOwnerOnly i u b d))"
  using assms by (simp_all add: SetDevicePosture_def TouchDevice_def DeleteDevice_def ApproveDevice_def
      SetDeviceOwnerOnly_def Let_def stmt_snd db_ok_dels db_ok_upd_devices)

lemma RotateDeviceKey_ok [db_ok_pres]: "db_ok d \<Longrightarrow> db_ok (snd (RotateDeviceKey i pk alg fp kb tr d))"
  by (auto simp: RotateDeviceKey_def Let_def checked_def snd_execRow intro: db_ok_tables)

lemma RevokeDevice_ok [db_ok_pres]: "db_ok d \<Longrightarrow> db_ok (snd (RevokeDevice i t d))"
  by (simp add: RevokeDevice_def Let_def db_ok_def keep_simps revoke_pats_ok)

lemma ConsumeJTI_ok [db_ok_pres]: "db_ok d \<Longrightarrow> db_ok (snd (ConsumeJTI h v e now d))"
  by (auto simp: ConsumeJTI_def exec_def db_ok_def ok_defs uniq_on_del uniq_on_append1 affected_0_iff
      split: sum.split)

lemma CreateDeviceCode_ok [db_ok_pres]: "db_ok d \<Longrightarrow> db_ok (snd (CreateDeviceCode c d))"
  unfolding CreateDeviceCode_def by (rule db_ok_insert) (auto intro: db_ok_tables)

lemma device_code_changes_ok [db_ok_pres]:
  assumes "db_ok d"
  shows "db_ok (snd (ApproveDeviceCode i u a t d))" "db_ok (snd (DenyDeviceCode i d))"
    "db_ok (snd (ConsumeDeviceCode i d))" "db_ok (snd (MarkDeviceCodePolled i t d))"
    "db_ok (snd (DeleteExpiredDeviceCodes now d))"
  using assms by (simp_all add: ApproveDeviceCode_def DenyDeviceCode_def ConsumeDeviceCode_def execCount_def
      MarkDeviceCodePolled_def DeleteExpiredDeviceCodes_def update_device_code_def Let_def stmt_snd
      db_ok_dels db_ok_upd_device_codes)

lemma CreatePAT_ok [db_ok_pres]: "db_ok d \<Longrightarrow> db_ok (snd (CreatePAT p d))"
  unfolding CreatePAT_def by (rule db_ok_insert) (auto intro: db_ok_tables)

lemma pat_changes_ok [db_ok_pres]:
  assumes "db_ok d"
  shows "db_ok (snd (RevokePATForDevice i v now d))" "db_ok (snd (RevokePATsForDevice v now d))"
    "db_ok (snd (RevokePATsForUser u now d))"
  using assms by (simp_all add: RevokePATForDevice_def execCount_def RevokePATsForDevice_def RevokePATsForUser_def
      Let_def stmt_snd db_ok_pats_upd)

lemma deleteExpiredRows_ok [db_ok_pres]: "db_ok d \<Longrightarrow> db_ok (snd (deleteExpiredRows tb now d))"
  by (simp add: deleteExpiredRows_def Let_def stmt_snd db_ok_dels)

lemma SweepExpired_ok [db_ok_pres]: "db_ok d \<Longrightarrow> db_ok (snd (SweepExpired now d))"
  unfolding SweepExpired_def
  by (rule run_sweep_keeps) (simp_all add: sweep_steps_def db_ok_pres)


subsection \<open>The store as one machine\<close>

text \<open>Every state-changing operation of the repositories, with the arguments it is called with.\<close>

datatype account_op =
  OpCreateUser User
  | OpUpsertExternalUser string string string string bool string time
  | OpUpdateUser User time
  | OpLinkUserToExternal string string string time
  | OpSetUserPassword string string time
  | OpSetUserDisabled string bool time
  | OpDeleteUser string
  | OpRecordFailedLogin string int time time
  | OpResetFailedLogins string time
  | OpSetUserMFA string bool string time
  | OpCreateSession Session
  | OpTouchSession string time
  | OpDeleteSessionsForUser string string
  | OpDeleteSession string
  | OpDeleteExpiredSessions time
  | OpCreatePasswordToken PasswordToken
  | OpConsumePasswordToken string time
  | OpDeletePasswordTokensForUser string
  | OpReplaceRecoveryCodes string "RecoveryCode list"
  | OpConsumeRecoveryCode string string
  | OpDeleteRecoveryCodes string
  | OpCreateLoginChallenge LoginChallenge
  | OpDeleteLoginChallenge string
  | OpCreateWebAuthnCredential WebAuthnCredential
  | OpUpdateWebAuthnCredential string string time
  | OpDeleteWebAuthnCredential string string
  | OpDeleteWebAuthnCredentialsForUser string
  | OpSetUserWebAuthnHandle string string
  | OpCreateWebAuthnCeremony WebAuthnCeremony
  | OpConsumeWebAuthnCeremony string time
  | OpDeleteExpiredWebAuthnCeremonies time

primrec account_step :: "account_op \<Rightarrow> db \<Rightarrow> db" where
  "account_step (OpCreateUser x1) d = snd (CreateUser x1 d)"
  | "account_step (OpUpsertExternalUser x1 x2 x3 x4 x5 x6 x7) d = snd (UpsertExternalUser x1 x2 x3 x4 x5 x6 x7 d)"
  | "account_step (OpUpdateUser x1 x2) d = snd (UpdateUser x1 x2 d)"
  | "account_step (OpLinkUserToExternal x1 x2 x3 x4) d = snd (LinkUserToExternal x1 x2 x3 x4 d)"
  | "account_step (OpSetUserPassword x1 x2 x3) d = snd (SetUserPassword x1 x2 x3 d)"
  | "account_step (OpSetUserDisabled x1 x2 x3) d = snd (SetUserDisabled x1 x2 x3 d)"
  | "account_step (OpDeleteUser x1) d = snd (DeleteUser x1 d)"
  | "account_step (OpRecordFailedLogin x1 x2 x3 x4) d = snd (RecordFailedLogin x1 x2 x3 x4 d)"
  | "account_step (OpResetFailedLogins x1 x2) d = snd (ResetFailedLogins x1 x2 d)"
  | "account_step (OpSetUserMFA x1 x2 x3 x4) d = snd (SetUserMFA x1 x2 x3 x4 d)"
  | "account_step (OpCreateSession x1) d = snd (CreateSession x1 d)"
  | "account_step (OpTouchSession x1 x2) d = snd (TouchSession x1 x2 d)"
  | "account_step (OpDeleteSessionsForUser x1 x2) d = snd (DeleteSessionsForUser x1 x2 d)"
  | "account_step (OpDeleteSession x1) d = snd (DeleteSession x1 d)"
  | "account_step (OpDeleteExpiredSessions x1) d = snd (DeleteExpiredSessions x1 d)"
  | "account_step (OpCreatePasswordToken x1) d = snd (CreatePasswordToken x1 d)"
  | "account_step (OpConsumePasswordToken x1 x2) d = snd (ConsumePasswordToken x1 x2 d)"
  | "account_step (OpDeletePasswordTokensForUser x1) d = snd (DeletePasswordTokensForUser x1 d)"
  | "account_step (OpReplaceRecoveryCodes x1 x2) d = snd (ReplaceRecoveryCodes x1 x2 d)"
  | "account_step (OpConsumeRecoveryCode x1 x2) d = snd (ConsumeRecoveryCode x1 x2 d)"
  | "account_step (OpDeleteRecoveryCodes x1) d = snd (DeleteRecoveryCodes x1 d)"
  | "account_step (OpCreateLoginChallenge x1) d = snd (CreateLoginChallenge x1 d)"
  | "account_step (OpDeleteLoginChallenge x1) d = snd (DeleteLoginChallenge x1 d)"
  | "account_step (OpCreateWebAuthnCredential x1) d = snd (CreateWebAuthnCredential x1 d)"
  | "account_step (OpUpdateWebAuthnCredential x1 x2 x3) d = snd (UpdateWebAuthnCredential x1 x2 x3 d)"
  | "account_step (OpDeleteWebAuthnCredential x1 x2) d = snd (DeleteWebAuthnCredential x1 x2 d)"
  | "account_step (OpDeleteWebAuthnCredentialsForUser x1) d = snd (DeleteWebAuthnCredentialsForUser x1 d)"
  | "account_step (OpSetUserWebAuthnHandle x1 x2) d = snd (SetUserWebAuthnHandle x1 x2 d)"
  | "account_step (OpCreateWebAuthnCeremony x1) d = snd (CreateWebAuthnCeremony x1 d)"
  | "account_step (OpConsumeWebAuthnCeremony x1 x2) d = snd (ConsumeWebAuthnCeremony x1 x2 d)"
  | "account_step (OpDeleteExpiredWebAuthnCeremonies x1) d = snd (DeleteExpiredWebAuthnCeremonies x1 d)"

datatype grant_op =
  OpCreateAuthCode AuthorizationCode
  | OpConsumeAuthCode string time
  | OpDeleteExpiredAuthCodes time
  | OpCreateAuthRequest AuthRequest
  | OpDeleteAuthRequest string
  | OpDeleteExpiredAuthRequests time
  | OpCreateRefreshToken RefreshToken
  | OpRotateRefreshToken string "RefreshToken option"
  | OpRevokeRefreshToken string
  | OpRevokeRefreshTokensForUserClient string string
  | OpCreateClient Client
  | OpUpdateClient Client time
  | OpSetClientSecretHash string string time
  | OpSetClientDisabled string bool time
  | OpCreateSigningKey SigningKey
  | OpUpdateSettings Settings time
  | OpGetOrCreateAppSecret "string option"
  | OpUpdateBranding Branding time
  | OpSetBrandingLogo string string time
  | OpAppendAuditEvent AuditEvent

primrec grant_step :: "grant_op \<Rightarrow> db \<Rightarrow> db" where
  "grant_step (OpCreateAuthCode x1) d = snd (CreateAuthCode x1 d)"
  | "grant_step (OpConsumeAuthCode x1 x2) d = snd (ConsumeAuthCode x1 x2 d)"
  | "grant_step (OpDeleteExpiredAuthCodes x1) d = snd (DeleteExpiredAuthCodes x1 d)"
  | "grant_step (OpCreateAuthRequest x1) d = snd (CreateAuthRequest x1 d)"
  | "grant_step (OpDeleteAuthRequest x1) d = snd (DeleteAuthRequest x1 d)"
  | "grant_step (OpDeleteExpiredAuthRequests x1) d = snd (DeleteExpiredAuthRequests x1 d)"
  | "grant_step (OpCreateRefreshToken x1) d = snd (CreateRefreshToken x1 d)"
  | "grant_step (OpRotateRefreshToken x1 x2) d = snd (RotateRefreshToken x1 x2 d)"
  | "grant_step (OpRevokeRefreshToken x1) d = snd (RevokeRefreshToken x1 d)"
  | "grant_step (OpRevokeRefreshTokensForUserClient x1 x2) d = snd (RevokeRefreshTokensForUserClient x1 x2 d)"
  | "grant_step (OpCreateClient x1) d = snd (CreateClient x1 d)"
  | "grant_step (OpUpdateClient x1 x2) d = snd (UpdateClient x1 x2 d)"
  | "grant_step (OpSetClientSecretHash x1 x2 x3) d = snd (SetClientSecretHash x1 x2 x3 d)"
  | "grant_step (OpSetClientDisabled x1 x2 x3) d = snd (SetClientDisabled x1 x2 x3 d)"
  | "grant_step (OpCreateSigningKey x1) d = snd (CreateSigningKey x1 d)"
  | "grant_step (OpUpdateSettings x1 x2) d = snd (UpdateSettings x1 x2 d)"
  | "grant_step (OpGetOrCreateAppSecret x1) d = snd (GetOrCreateAppSecret x1 d)"
  | "grant_step (OpUpdateBranding x1 x2) d = snd (UpdateBranding x1 x2 d)"
  | "grant_step (OpSetBrandingLogo x1 x2 x3) d = snd (SetBrandingLogo x1 x2 x3 d)"
  | "grant_step (OpAppendAuditEvent x1) d = snd (AppendAuditEvent x1 d)"

datatype device_op =
  OpCreateDevice Device
  | OpSetDevicePosture string string time string string
  | OpTouchDevice string time
  | OpRevokeDevice string time
  | OpDeleteDevice string
  | OpRotateDeviceKey string string string string string string
  | OpApproveDevice string time
  | OpSetDeviceOwnerOnly string string bool
  | OpRevokeRefreshTokensForDevice string
  | OpConsumeJTI string string time time
  | OpCreateDeviceCode DeviceCode
  | OpApproveDeviceCode string string string time
  | OpDenyDeviceCode string
  | OpConsumeDeviceCode string
  | OpMarkDeviceCodePolled string time
  | OpDeleteExpiredDeviceCodes time
  | OpCreatePAT PersonalAccessToken
  | OpRevokePATForDevice string string time
  | OpRevokePATsForDevice string time
  | OpRevokePATsForUser string time
  | OpDeleteExpiredRows string time

primrec device_step :: "device_op \<Rightarrow> db \<Rightarrow> db" where
  "device_step (OpCreateDevice x1) d = snd (CreateDevice x1 d)"
  | "device_step (OpSetDevicePosture x1 x2 x3 x4 x5) d = snd (SetDevicePosture x1 x2 x3 x4 x5 d)"
  | "device_step (OpTouchDevice x1 x2) d = snd (TouchDevice x1 x2 d)"
  | "device_step (OpRevokeDevice x1 x2) d = snd (RevokeDevice x1 x2 d)"
  | "device_step (OpDeleteDevice x1) d = snd (DeleteDevice x1 d)"
  | "device_step (OpRotateDeviceKey x1 x2 x3 x4 x5 x6) d = snd (RotateDeviceKey x1 x2 x3 x4 x5 x6 d)"
  | "device_step (OpApproveDevice x1 x2) d = snd (ApproveDevice x1 x2 d)"
  | "device_step (OpSetDeviceOwnerOnly x1 x2 x3) d = snd (SetDeviceOwnerOnly x1 x2 x3 d)"
  | "device_step (OpRevokeRefreshTokensForDevice x1) d = snd (RevokeRefreshTokensForDevice x1 d)"
  | "device_step (OpConsumeJTI x1 x2 x3 x4) d = snd (ConsumeJTI x1 x2 x3 x4 d)"
  | "device_step (OpCreateDeviceCode x1) d = snd (CreateDeviceCode x1 d)"
  | "device_step (OpApproveDeviceCode x1 x2 x3 x4) d = snd (ApproveDeviceCode x1 x2 x3 x4 d)"
  | "device_step (OpDenyDeviceCode x1) d = snd (DenyDeviceCode x1 d)"
  | "device_step (OpConsumeDeviceCode x1) d = snd (ConsumeDeviceCode x1 d)"
  | "device_step (OpMarkDeviceCodePolled x1 x2) d = snd (MarkDeviceCodePolled x1 x2 d)"
  | "device_step (OpDeleteExpiredDeviceCodes x1) d = snd (DeleteExpiredDeviceCodes x1 d)"
  | "device_step (OpCreatePAT x1) d = snd (CreatePAT x1 d)"
  | "device_step (OpRevokePATForDevice x1 x2 x3) d = snd (RevokePATForDevice x1 x2 x3 d)"
  | "device_step (OpRevokePATsForDevice x1 x2) d = snd (RevokePATsForDevice x1 x2 d)"
  | "device_step (OpRevokePATsForUser x1 x2) d = snd (RevokePATsForUser x1 x2 d)"
  | "device_step (OpDeleteExpiredRows x1 x2) d = snd (deleteExpiredRows x1 x2 d)"

datatype store_op = Account account_op | Grant grant_op | Enrolment device_op

primrec store_step :: "store_op \<Rightarrow> db \<Rightarrow> db" where
  "store_step (Account x) d = account_step x d"
| "store_step (Grant x) d = grant_step x d"
| "store_step (Enrolment x) d = device_step x d"

lemmas [stmt_defs] = CreateUser_def UpsertExternalUser_def UpdateUser_def LinkUserToExternal_def SetUserPassword_def
  SetUserDisabled_def DeleteUser_def RecordFailedLogin_def ResetFailedLogins_def SetUserMFA_def
  CreateSession_def TouchSession_def DeleteSessionsForUser_def DeleteSession_def
  DeleteExpiredSessions_def CreatePasswordToken_def ConsumePasswordToken_def
  DeletePasswordTokensForUser_def ReplaceRecoveryCodes_def ConsumeRecoveryCode_def
  DeleteRecoveryCodes_def CreateLoginChallenge_def DeleteLoginChallenge_def
  CreateWebAuthnCredential_def UpdateWebAuthnCredential_def DeleteWebAuthnCredential_def
  DeleteWebAuthnCredentialsForUser_def SetUserWebAuthnHandle_def CreateWebAuthnCeremony_def
  ConsumeWebAuthnCeremony_def DeleteExpiredWebAuthnCeremonies_def CreateAuthCode_def
  ConsumeAuthCode_def DeleteExpiredAuthCodes_def CreateAuthRequest_def DeleteAuthRequest_def
  DeleteExpiredAuthRequests_def CreateRefreshToken_def RotateRefreshToken_def RevokeRefreshToken_def
  RevokeRefreshTokensForUserClient_def CreateClient_def UpdateClient_def SetClientSecretHash_def
  SetClientDisabled_def CreateSigningKey_def UpdateSettings_def GetOrCreateAppSecret_def
  UpdateBranding_def SetBrandingLogo_def AppendAuditEvent_def CreateDevice_def SetDevicePosture_def
  TouchDevice_def RevokeDevice_def DeleteDevice_def RotateDeviceKey_def ApproveDevice_def
  SetDeviceOwnerOnly_def RevokeRefreshTokensForDevice_def ConsumeJTI_def CreateDeviceCode_def
  ApproveDeviceCode_def DenyDeviceCode_def ConsumeDeviceCode_def MarkDeviceCodePolled_def
  DeleteExpiredDeviceCodes_def CreatePAT_def RevokePATForDevice_def RevokePATsForDevice_def
  RevokePATsForUser_def deleteExpiredRows_def

lemma account_step_ok: "db_ok d \<Longrightarrow> db_ok (account_step x d)"
  by (cases x) (simp_all add: db_ok_pres)

lemma grant_step_ok: "db_ok d \<Longrightarrow> db_ok (grant_step x d)"
  by (cases x) (simp_all add: db_ok_pres)

lemma device_step_ok: "db_ok d \<Longrightarrow> db_ok (device_step x d)"
  by (cases x) (simp_all add: db_ok_pres)

lemma store_step_ok: "db_ok d \<Longrightarrow> db_ok (store_step x d)"
  by (cases x) (simp_all add: account_step_ok grant_step_ok device_step_ok)

lemma run_store_ok: "db_ok d \<Longrightarrow> db_ok (fold store_step xs d)"
  by (induction xs arbitrary: d) (simp_all add: store_step_ok)

end
