(* ===== verification/Samples.thy ===== *)
theory Samples
  imports Store
begin

text \<open>
  A small database in which the hypotheses of the properties hold: one local administrator
  with a session, one directory user, a public and a confidential client, one authorization
  code, one refresh token, an active device with a device code, and a personal access token.
\<close>

definition alice :: User where
  "alice = \<lparr>usr_ID = ''u1'', usr_Username = ''alice'', usr_Email = ''alice@example.org'', usr_PasswordHash = ''$x'',
     usr_IsAdmin = True, usr_Disabled = False, usr_AuthSource = ''local'', usr_ExternalID = '''',
     usr_FailedLoginCount = 0, usr_LockedUntil = 0, usr_MFAEnabled = False, usr_TOTPSecret = '''',
     usr_WebAuthnHandle = '''', usr_CreatedAt = 1, usr_UpdatedAt = 1\<rparr>"

definition bob :: User where
  "bob = \<lparr>usr_ID = ''u2'', usr_Username = ''bob'', usr_Email = ''bob@example.org'', usr_PasswordHash = '''',
     usr_IsAdmin = False, usr_Disabled = False, usr_AuthSource = ''ldap'', usr_ExternalID = ''cn=bob'',
     usr_FailedLoginCount = 0, usr_LockedUntil = 0, usr_MFAEnabled = False, usr_TOTPSecret = '''',
     usr_WebAuthnHandle = '''', usr_CreatedAt = 2, usr_UpdatedAt = 2\<rparr>"

definition alice_session :: Session where
  "alice_session = \<lparr>ses_ID = ''s1'', ses_UserID = ''u1'', ses_CSRFSecret = ''c'', ses_UserAgent = ''ua'',
     ses_CreatedAt = 10, ses_ExpiresAt = 1000, ses_LastSeenAt = 10, ses_AMR = ''pwd''\<rparr>"

definition web_client :: Client where
  "web_client = \<lparr>cl_ClientID = ''web'', cl_ClientSecretHash = '''', cl_Name = ''Web'',
     cl_RedirectURIs = [''https://web/cb''], cl_AllowedScopes = [''openid'', ''offline_access''],
     cl_Type = ''public'', cl_Disabled = False, cl_DisplayName = '''', cl_LogoURL = '''', cl_HomepageURL = '''',
     cl_PostLogoutRedirectURIs = [], cl_SkipConsent = False, cl_CreatedAt = 1, cl_UpdatedAt = 1\<rparr>"

definition alice_code :: AuthorizationCode where
  "alice_code = \<lparr>ac_CodeHash = ''h1'', ac_ClientID = ''web'', ac_UserID = ''u1'', ac_RedirectURI = ''https://web/cb'',
     ac_Scope = ''openid offline_access'', ac_Nonce = ''n'', ac_CodeChallenge = ''cc'', ac_CodeChallengeMethod = ''S256'',
     ac_ExpiresAt = 500, ac_Used = False, ac_CreatedAt = 20, ac_AuthTime = 10, ac_AMR = ''pwd''\<rparr>"

definition alice_refresh :: RefreshToken where
  "alice_refresh = \<lparr>rt_ID = ''r1'', rt_TokenHash = ''rh1'', rt_ClientID = ''web'', rt_UserID = ''u1'',
     rt_Scope = ''openid offline_access'', rt_RotatedFrom = '''', rt_Revoked = False, rt_ExpiresAt = 900,
     rt_CreatedAt = 20, rt_AuthTime = 10, rt_AMR = ''pwd'', rt_DeviceID = ''d1'', rt_DPoPJKT = ''''\<rparr>"

definition alice_device :: Device where
  "alice_device = \<lparr>dev_ID = ''d1'', dev_OwnerUserID = ''u1'', dev_Name = ''laptop'', dev_Hostname = ''h'',
     dev_Platform = ''linux'', dev_Architecture = ''amd64'', dev_PublicKey = ''{}'', dev_PublicKeyAlgorithm = ''ES256'',
     dev_Fingerprint = ''fp1'', dev_PreviousFingerprint = '''', dev_Status = ''active'', dev_TrustLevel = ''enrolled'',
     dev_KeyBackend = ''file'', dev_Posture = '''', dev_PostureAt = 0, dev_OwnerOnly = True, dev_CreatedAt = 5,
     dev_EnrolledAt = 5, dev_LastSeenAt = 0, dev_RevokedAt = 0\<rparr>"

definition sample_device_code :: DeviceCode where
  "sample_device_code = \<lparr>dc_ID = ''dc1'', dc_DeviceCodeHash = ''dch1'', dc_UserCode = ''BCDF-GHJK'', dc_ClientID = ''web'',
     dc_Scope = ''openid'', dc_DeviceID = ''d1'', dc_DeviceName = '''', dc_DevicePlatform = '''', dc_Status = ''pending'',
     dc_UserID = '''', dc_AMR = '''', dc_AuthTime = 0, dc_LastPolledAt = 0, dc_CreatedAt = 20, dc_ExpiresAt = 620\<rparr>"

definition alice_pat :: PersonalAccessToken where
  "alice_pat = \<lparr>pat_ID = ''p1'', pat_UserID = ''u1'', pat_DeviceID = ''d1'', pat_ClientID = ''web'', pat_Name = ''ci'',
     pat_Scope = ''openid'', pat_CreatedAt = 20, pat_ExpiresAt = 900, pat_LastUsedAt = None, pat_RevokedAt = None\<rparr>"

definition alice_password_token :: PasswordToken where
  "alice_password_token = \<lparr>pt_ID = ''t1'', pt_UserID = ''u1'', pt_TokenHash = ''th1'', pt_Purpose = ''reset'',
     pt_Used = False, pt_ExpiresAt = 500, pt_CreatedAt = 20\<rparr>"

definition alice_recovery :: RecoveryCode where
  "alice_recovery = \<lparr>rc_ID = ''c1'', rc_UserID = ''u1'', rc_CodeHash = ''ch1'', rc_Used = False, rc_CreatedAt = 20\<rparr>"

definition sample_ceremony :: WebAuthnCeremony where
  "sample_ceremony = \<lparr>wy_ID = ''y1'', wy_UserID = '''', wy_Purpose = ''login'', wy_SessionData = ''{}'', wy_Next = ''/'',
     wy_Req = '''', wy_CreatedAt = 20, wy_ExpiresAt = 320\<rparr>"

definition sample_settings :: Settings where
  "sample_settings = \<lparr>set_Issuer = ''https://id'', set_PublicURL = '''', set_TokenTTL = ''15m'',
     set_RefreshTokenTTL = ''720h'', set_MaxFailedLogins = 5, set_LockoutDuration = ''15m'', set_RateLimitWindow = ''15m'',
     set_LoginIPMaxAttempts = 20, set_PasswordVerifyConcurrency = 4, set_MaxLoginUsernameBytes = 320,
     set_MaxLoginPasswordBytes = 1024, set_AllowLoopbackHTTPRedirect = True, set_AllowPrivateNetworkHTTPRedirect = False,
     set_AllowPrivateSchemeRedirect = False, set_PasswordMinLength = 12, set_RequireUpper = True, set_RequireLower = True,
     set_RequireNumber = True, set_RequireSymbol = False, set_SessionIdleTimeout = ''30m'', set_SessionLifetime = ''12h'',
     set_CookieSecure = True, set_MaxLogoBytes = 1000, set_LDAPManageEnabled = False, set_LogLevel = ''info'',
     set_LogHTTPRequests = ''all'', set_DeviceTokenTTL = ''1h'', set_RequireDeviceApproval = False, set_Seeded = True,
     set_UpdatedAt = 1\<rparr>"

definition sample_db :: db where
  "sample_db = \<lparr>db_users = [alice, bob], db_sessions = [alice_session], db_password_tokens = [alice_password_token],
     db_recovery_codes = [alice_recovery], db_login_challenges = [], db_webauthn_credentials = [],
     db_webauthn_ceremonies = [sample_ceremony], db_clients = [web_client], db_auth_requests = [],
     db_auth_codes = [alice_code], db_refresh_tokens = [alice_refresh], db_signing_keys = [],
     db_devices = [alice_device], db_device_codes = [sample_device_code], db_jtis = [], db_pats = [alice_pat],
     db_audit_log = [], db_settings = sample_settings, db_branding = None, db_app_secret = None, db_faults = []\<rparr>"

lemmas sample_defs = sample_db_def alice_def bob_def alice_session_def web_client_def alice_code_def alice_refresh_def
  alice_device_def sample_device_code_def alice_pat_def alice_password_token_def alice_recovery_def sample_ceremony_def

lemma sample_db_ok: "db_ok sample_db"
  by (simp add: db_ok_def ok_defs users_ok_def sample_defs)

end
