(* ===== verification/StoreMachine.thy ===== *)
theory StoreMachine
  imports Samples
begin

text \<open>
  What holds of every run of the store machine: the tables an operation leaves alone, the
  single-use contracts of the credentials kept in the database (each an interpretation of
  \<open>single_use\<close>), and paths of store operations, in which the handlers of the server are
  described.
\<close>

subsection \<open>Frames\<close>

lemmas raw_stmts = exec_def execRow_def execCount_def insert_row_def checked_def query_def Let_def
  update_users_def update_user_keys_def update_clients_def update_device_code_def cascade_user_def

lemma account_step_frame [frame_simps]:
  "db_auth_codes (account_step x d) = db_auth_codes d"
  "db_auth_requests (account_step x d) = db_auth_requests d"
  "db_refresh_tokens (account_step x d) = db_refresh_tokens d"
  "db_clients (account_step x d) = db_clients d"
  "db_signing_keys (account_step x d) = db_signing_keys d"
  "db_device_codes (account_step x d) = db_device_codes d"
  "db_jtis (account_step x d) = db_jtis d"
  "db_audit_log (account_step x d) = db_audit_log d"
  by (cases x; auto simp: stmt_defs raw_stmts split: sum.split)+

lemma grant_step_frame [frame_simps]:
  "db_users (grant_step x d) = db_users d"
  "db_sessions (grant_step x d) = db_sessions d"
  "db_password_tokens (grant_step x d) = db_password_tokens d"
  "db_recovery_codes (grant_step x d) = db_recovery_codes d"
  "db_login_challenges (grant_step x d) = db_login_challenges d"
  "db_webauthn_credentials (grant_step x d) = db_webauthn_credentials d"
  "db_webauthn_ceremonies (grant_step x d) = db_webauthn_ceremonies d"
  "db_devices (grant_step x d) = db_devices d"
  "db_device_codes (grant_step x d) = db_device_codes d"
  "db_jtis (grant_step x d) = db_jtis d"
  "db_pats (grant_step x d) = db_pats d"
  by (cases x; auto simp: stmt_defs raw_stmts ConsumeAuthCode_mark_def split: sum.split option.split)+

lemma device_step_frame [frame_simps]:
  "db_users (device_step x d) = db_users d"
  "db_sessions (device_step x d) = db_sessions d"
  "db_recovery_codes (device_step x d) = db_recovery_codes d"
  "db_webauthn_credentials (device_step x d) = db_webauthn_credentials d"
  "db_webauthn_ceremonies (device_step x d) = db_webauthn_ceremonies d"
  "db_auth_codes (device_step x d) = db_auth_codes d"
  "db_auth_requests (device_step x d) = db_auth_requests d"
  "db_clients (device_step x d) = db_clients d"
  "db_signing_keys (device_step x d) = db_signing_keys d"
  "db_audit_log (device_step x d) = db_audit_log d"
  by (cases x; auto simp: stmt_defs raw_stmts split: sum.split)+

lemma ball_upd: "(\<forall>r \<in> set (upd p f t). Q r) = (\<forall>r \<in> set t. Q (if p r then f r else r))"
  by (induction t) auto

subsection \<open>Authorization codes\<close>

fun mints_code :: "string \<Rightarrow> store_op \<Rightarrow> bool" where
  "mints_code h (Grant (OpCreateAuthCode c)) = (ac_CodeHash c = h)"
| "mints_code h _ = False"

fun spends_code :: "string \<Rightarrow> store_op \<Rightarrow> db \<Rightarrow> bool" where
  "spends_code h (Grant (OpConsumeAuthCode k now)) d = (k = h \<and> is_ok (fst (ConsumeAuthCode k now d)))"
| "spends_code h _ d = False"

definition dead_code :: "string \<Rightarrow> db \<Rightarrow> bool" where
  "dead_code h d = list_all (\<lambda>c. ac_CodeHash c = h \<longrightarrow> ac_Used c) (db_auth_codes d)"

lemma ConsumeAuthCode_result:
  "is_ok (fst (ConsumeAuthCode h now d)) \<Longrightarrow> \<exists>c \<in> set (db_auth_codes d). ac_CodeHash c = h
     \<and> \<not> ac_Used c \<and> now \<le> ac_ExpiresAt c \<and> ConsumeAuthCode h now d = (Inr (c\<lparr>ac_Used := True\<rparr>), ConsumeAuthCode_mark h d)"
  by (auto simp: ConsumeAuthCode_def ConsumeAuthCode_select_def dest!: sel1_Inr split: sum.splits if_splits)

lemma dead_code_grant:
  "dead_code h d \<Longrightarrow> \<not> mints_code h (Grant x) \<Longrightarrow> dead_code h (grant_step x d)"
  by (cases x) (auto simp: dead_code_def list_all_iff stmt_defs raw_stmts ConsumeAuthCode_mark_def
      set_upd set_del split: sum.split option.split)

lemma dead_code_step:
  assumes "dead_code h d" and "\<not> mints_code h x"
  shows "dead_code h (store_step x d)"
proof (cases x)
  case (Grant y)
  with assms show ?thesis by (simp add: dead_code_grant)
qed (use assms in \<open>simp_all add: dead_code_def frame_simps\<close>)

interpretation auth_code: single_use store_step db_ok spends_code mints_code dead_code
proof unfold_locales
  fix k x d
  assume "spends_code k x d"
  then obtain now where x: "x = Grant (OpConsumeAuthCode k now)" and ok: "is_ok (fst (ConsumeAuthCode k now d))"
    by (cases "(k, x, d)" rule: spends_code.cases) auto
  from ConsumeAuthCode_result [OF ok] x show "dead_code k (store_step x d)"
    by (auto simp: dead_code_def ConsumeAuthCode_mark_def list_all_iff set_upd)
next
  fix k x d
  assume d: "dead_code k d"
  show "\<not> spends_code k x d"
  proof
    assume "spends_code k x d"
    then obtain now where "is_ok (fst (ConsumeAuthCode k now d))"
      by (cases "(k, x, d)" rule: spends_code.cases) auto
    from ConsumeAuthCode_result [OF this] d show False by (auto simp: dead_code_def list_all_iff)
  qed
qed (auto simp: store_step_ok dead_code_step)

subsection \<open>Refresh tokens\<close>

fun mints_refresh :: "string \<Rightarrow> store_op \<Rightarrow> bool" where
  "mints_refresh i (Grant (OpCreateRefreshToken rt)) = (rt_ID rt = i)"
| "mints_refresh i (Grant (OpRotateRefreshToken j (Some rt))) = (rt_ID rt = i)"
| "mints_refresh i _ = False"

fun spends_refresh :: "string \<Rightarrow> store_op \<Rightarrow> db \<Rightarrow> bool" where
  "spends_refresh i (Grant (OpRotateRefreshToken j rt)) d = (j = i \<and> fst (RotateRefreshToken j rt d) = Inr True)"
| "spends_refresh i _ d = False"

definition dead_refresh :: "string \<Rightarrow> db \<Rightarrow> bool" where
  "dead_refresh i d = list_all (\<lambda>t. rt_ID t = i \<longrightarrow> rt_Revoked t) (db_refresh_tokens d)"

lemma RotateRefreshToken_True:
  assumes "fst (RotateRefreshToken i rt d) = Inr True"
  shows "\<exists>t \<in> set (db_refresh_tokens d). active_token i t"
    and "snd (RotateRefreshToken i rt d) = db_refresh_tokens_update (rotate_rows i rt) d"
    and "grants_ok (db_refresh_tokens_update (rotate_rows i rt) d)"
proof -
  have *: "\<not> fault d ''RotateRefreshToken''" "0 < affected (active_token i) (db_refresh_tokens d)"
    "grants_ok (db_refresh_tokens_update (rotate_rows i rt) d)" "\<not> fault d ''RotateRefreshToken/commit''"
    using assms unfolding RotateRefreshToken_def by (auto simp del: not_less split: if_split_asm)
  then show "\<exists>t \<in> set (db_refresh_tokens d). active_token i t"
    by (simp add: affected_pos_iff)
  show "grants_ok (db_refresh_tokens_update (rotate_rows i rt) d)" by (rule *)
  show "snd (RotateRefreshToken i rt d) = db_refresh_tokens_update (rotate_rows i rt) d"
    using * by (simp add: RotateRefreshToken_def)
qed

lemma RotateRefreshToken_False:
  "fst (RotateRefreshToken i rt d) \<noteq> Inr True \<Longrightarrow> snd (RotateRefreshToken i rt d) = d"
  by (auto simp: RotateRefreshToken_def)

lemma revoking_keeps_dead:
  "list_all (\<lambda>t. rt_ID t = i \<longrightarrow> rt_Revoked t) ts \<Longrightarrow>
     list_all (\<lambda>t. rt_ID t = i \<longrightarrow> rt_Revoked t) (upd p (\<lambda>t. t\<lparr>rt_Revoked := True\<rparr>) ts)"
  by (induction ts) auto

lemma revoking_all_dead:
  "list_all (\<lambda>t. rt_ID t = i \<longrightarrow> rt_Revoked t)
     (upd (active_token i) (\<lambda>t. t\<lparr>rt_Revoked := True\<rparr>) ts)"
  by (induction ts) (auto simp: active_token_def)

lemma dead_refresh_grant:
  "dead_refresh i d \<Longrightarrow> \<not> mints_refresh i (Grant x) \<Longrightarrow> dead_refresh i (grant_step x d)"
  by (cases x) (auto simp: dead_refresh_def stmt_defs raw_stmts ConsumeAuthCode_mark_def
      rotate_rows_def revoking_keeps_dead split: sum.split option.split)

lemma dead_refresh_device: "dead_refresh i d \<Longrightarrow> dead_refresh i (device_step x d)"
  by (cases x) (auto simp: dead_refresh_def stmt_defs raw_stmts revoking_keeps_dead split: sum.split)

lemma dead_refresh_step:
  assumes "dead_refresh i d" and "\<not> mints_refresh i x"
  shows "dead_refresh i (store_step x d)"
proof (cases x)
  case (Account y)
  with assms show ?thesis by (simp add: dead_refresh_def frame_simps)
qed (use assms in \<open>simp_all add: dead_refresh_grant dead_refresh_device\<close>)

interpretation refresh: single_use store_step db_ok spends_refresh mints_refresh dead_refresh
proof unfold_locales
  fix i x d
  assume ok: "db_ok d" and "spends_refresh i x d"
  then obtain rt where x: "x = Grant (OpRotateRefreshToken i rt)" and r: "fst (RotateRefreshToken i rt d) = Inr True"
    by (cases "(i, x, d)" rule: spends_refresh.cases) auto
  from RotateRefreshToken_True [OF r] obtain t where t: "t \<in> set (db_refresh_tokens d)" "rt_ID t = i"
    and u: "uniq_on rt_ID (rotate_rows i rt (db_refresh_tokens d))"
    and s: "snd (RotateRefreshToken i rt d) = db_refresh_tokens_update (rotate_rows i rt) d"
    by (auto simp: grants_ok_def active_token_def)
  have "rt_ID r \<noteq> i" if "rt = Some r" for r
    using u t that unfolding rotate_rows_def by (auto simp: uniq_on_append1 key_of_image)
  then show "dead_refresh i (store_step x d)"
    using x by (auto simp: dead_refresh_def s rotate_rows_def revoking_all_dead split: option.split)
next
  fix i x d
  assume d: "dead_refresh i d"
  show "\<not> spends_refresh i x d"
  proof
    assume "spends_refresh i x d"
    then obtain rt where "fst (RotateRefreshToken i rt d) = Inr True"
      by (cases "(i, x, d)" rule: spends_refresh.cases) auto
    from RotateRefreshToken_True(1) [OF this] d show False
      by (auto simp: dead_refresh_def list_all_iff active_token_def)
  qed
qed (auto simp: store_step_ok dead_refresh_step)


subsection \<open>Password tokens\<close>

fun mints_password_token :: "string \<Rightarrow> store_op \<Rightarrow> bool" where
  "mints_password_token h (Account (OpCreatePasswordToken t)) = (pt_TokenHash t = h)"
| "mints_password_token h _ = False"

fun spends_password_token :: "string \<Rightarrow> store_op \<Rightarrow> db \<Rightarrow> bool" where
  "spends_password_token h (Account (OpConsumePasswordToken k now)) d =
     (k = h \<and> (\<exists>t. fst (ConsumePasswordToken k now d) = Inr (Some t)))"
| "spends_password_token h _ d = False"

definition dead_password_token :: "string \<Rightarrow> db \<Rightarrow> bool" where
  "dead_password_token h d = list_all (\<lambda>t. pt_TokenHash t = h \<longrightarrow> pt_Used t) (db_password_tokens d)"

lemma ConsumePasswordToken_Some:
  assumes "db_ok d" and "fst (ConsumePasswordToken h now d) = Inr (Some t)"
  shows "\<exists>s \<in> set (db_password_tokens d). pt_usable h now s \<and> t = s\<lparr>pt_Used := True\<rparr>"
    and "snd (ConsumePasswordToken h now d) =
      db_password_tokens_update (upd (pt_usable h now) (\<lambda>t. t\<lparr>pt_Used := True\<rparr>)) d"
proof -
  have nf: "\<not> fault d ''ConsumePasswordToken''" and pos: "0 < affected (pt_usable h now) (db_password_tokens d)"
    and sel: "sel1 (\<lambda>t. pt_TokenHash t = h)
       (upd (pt_usable h now) (\<lambda>t. t\<lparr>pt_Used := True\<rparr>) (db_password_tokens d)) = Inr t"
    using assms(2) by (auto simp: ConsumePasswordToken_def raw_stmts split: if_splits sum.splits)
  then show "snd (ConsumePasswordToken h now d) =
      db_password_tokens_update (upd (pt_usable h now) (\<lambda>t. t\<lparr>pt_Used := True\<rparr>)) d"
    by (auto simp: ConsumePasswordToken_def raw_stmts split: sum.split)
  from pos obtain s where s: "s \<in> set (db_password_tokens d)" "pt_usable h now s"
    by (auto simp: affected_pos_iff)
  have "uniq_on pt_TokenHash (db_password_tokens d)"
    using assms(1) by (simp add: db_ok_def password_tokens_ok_def)
  moreover have "pt_TokenHash s = h" using s by (simp add: pt_usable_def)
  ultimately have "sel1 (\<lambda>t. pt_TokenHash t = h) (db_password_tokens d) = Inr s"
    using sel1_key [of pt_TokenHash "db_password_tokens d" s] s by simp
  with sel s have "t = s\<lparr>pt_Used := True\<rparr>"
    by (subst (asm) sel1_upd) auto
  with s show "\<exists>s \<in> set (db_password_tokens d). pt_usable h now s \<and> t = s\<lparr>pt_Used := True\<rparr>" by blast
qed

lemma using_keeps_dead_token:
  "list_all (\<lambda>t. pt_TokenHash t = h \<longrightarrow> pt_Used t) ts \<Longrightarrow>
     list_all (\<lambda>t. pt_TokenHash t = h \<longrightarrow> pt_Used t) (upd p (\<lambda>t. t\<lparr>pt_Used := True\<rparr>) ts)"
  by (induction ts) auto

lemma dead_password_token_account:
  "dead_password_token h d \<Longrightarrow> \<not> mints_password_token h (Account x) \<Longrightarrow> dead_password_token h (account_step x d)"
  by (cases x) (auto simp: dead_password_token_def stmt_defs raw_stmts using_keeps_dead_token list_all_del
      split: sum.split)

lemma dead_password_token_device: "dead_password_token h d \<Longrightarrow> dead_password_token h (device_step x d)"
  by (cases x) (auto simp: dead_password_token_def stmt_defs raw_stmts list_all_del split: sum.split)

lemma dead_password_token_step:
  assumes "dead_password_token h d" and "\<not> mints_password_token h x"
  shows "dead_password_token h (store_step x d)"
proof (cases x)
  case (Grant y)
  with assms show ?thesis by (simp add: dead_password_token_def frame_simps)
qed (use assms in \<open>simp_all add: dead_password_token_account dead_password_token_device\<close>)

interpretation password_token: single_use store_step db_ok spends_password_token mints_password_token dead_password_token
proof unfold_locales
  fix h x d
  assume ok: "db_ok d" and "spends_password_token h x d"
  then obtain now t where x: "x = Account (OpConsumePasswordToken h now)"
    and r: "fst (ConsumePasswordToken h now d) = Inr (Some t)"
    by (cases "(h, x, d)" rule: spends_password_token.cases) auto
  from ConsumePasswordToken_Some(1) [OF ok r] obtain s where
    s: "s \<in> set (db_password_tokens d)" "pt_usable h now s" by blast
  have u: "uniq_on pt_TokenHash (db_password_tokens d)"
    using ok by (simp add: db_ok_def password_tokens_ok_def)
  have "pt_usable h now q" if "q \<in> set (db_password_tokens d)" "pt_TokenHash q = h" for q
    using uniq_on_eq [OF u that(1) s(1)] s that by (simp add: pt_usable_def)
  then show "dead_password_token h (store_step x d)"
    using x ConsumePasswordToken_Some(2) [OF ok r]
    by (auto simp: dead_password_token_def ball_upd list_all_iff)
next
  fix h x d
  assume d: "dead_password_token h d"
  have "affected (pt_usable h now) (db_password_tokens d) = 0" for now
    using d by (auto simp: affected_0_iff pt_usable_def dead_password_token_def list_all_iff)
  then have "fst (ConsumePasswordToken h now d) \<noteq> Inr (Some t)" for now t
    by (simp add: ConsumePasswordToken_def raw_stmts)
  then show "\<not> spends_password_token h x d"
    by (cases "(h, x, d)" rule: spends_password_token.cases) auto
qed (auto simp: store_step_ok dead_password_token_step)

subsection \<open>Recovery codes\<close>

fun mints_recovery :: "string \<times> string \<Rightarrow> store_op \<Rightarrow> bool" where
  "mints_recovery (u, h) (Account (OpReplaceRecoveryCodes v cs)) = (v = u \<and> h \<in> rc_CodeHash ` set cs)"
| "mints_recovery k _ = False"

fun spends_recovery :: "string \<times> string \<Rightarrow> store_op \<Rightarrow> db \<Rightarrow> bool" where
  "spends_recovery (u, h) (Account (OpConsumeRecoveryCode v k)) d =
     (v = u \<and> k = h \<and> fst (ConsumeRecoveryCode v k d) = Inr True)"
| "spends_recovery k _ d = False"

definition dead_recovery :: "string \<times> string \<Rightarrow> db \<Rightarrow> bool" where
  "dead_recovery k d = list_all (\<lambda>c. \<not> rc_usable (fst k) (snd k) c) (db_recovery_codes d)"

lemma using_kills_recovery:
  "list_all (\<lambda>c. \<not> rc_usable u h c) (upd (rc_usable u h) (\<lambda>c. c\<lparr>rc_Used := True\<rparr>) t)"
  by (induction t) (auto simp: rc_usable_def)

lemma using_keeps_dead_recovery:
  "list_all (\<lambda>c. \<not> rc_usable u h c) t \<Longrightarrow>
     list_all (\<lambda>c. \<not> rc_usable u h c) (upd p (\<lambda>c. c\<lparr>rc_Used := True\<rparr>) t)"
  by (induction t) (auto simp: rc_usable_def)

lemma fresh_recovery_codes:
  "v = u \<longrightarrow> h \<notin> rc_CodeHash ` set cs \<Longrightarrow>
     list_all (\<lambda>c. \<not> rc_usable u h c) (map (\<lambda>c. c\<lparr>rc_UserID := v, rc_Used := False\<rparr>) cs)"
  by (auto simp: list_all_iff rc_usable_def)

lemma dead_recovery_account:
  "dead_recovery k d \<Longrightarrow> \<not> mints_recovery k (Account x) \<Longrightarrow> dead_recovery k (account_step x d)"
  by (cases x; cases k) (auto simp: dead_recovery_def stmt_defs raw_stmts using_keeps_dead_recovery list_all_del
      fresh_recovery_codes split: sum.split)

lemma dead_recovery_step:
  assumes "dead_recovery k d" and "\<not> mints_recovery k x"
  shows "dead_recovery k (store_step x d)"
proof (cases x)
  case (Account y)
  with assms show ?thesis by (simp add: dead_recovery_account)
qed (use assms in \<open>simp_all add: dead_recovery_def frame_simps\<close>)

lemma ConsumeRecoveryCode_True:
  "fst (ConsumeRecoveryCode u h d) = Inr True \<longleftrightarrow>
     \<not> fault d ''ConsumeRecoveryCode'' \<and> 0 < affected (rc_usable u h) (db_recovery_codes d)"
  by (auto simp: ConsumeRecoveryCode_def execCount_def)

interpretation recovery_code: single_use store_step db_ok spends_recovery mints_recovery dead_recovery
proof unfold_locales
  fix k x d
  assume "spends_recovery k x d"
  then obtain u h where k: "k = (u, h)" "x = Account (OpConsumeRecoveryCode u h)"
    "fst (ConsumeRecoveryCode u h d) = Inr True"
    by (cases "(k, x, d)" rule: spends_recovery.cases) auto
  then show "dead_recovery k (store_step x d)"
    by (simp add: ConsumeRecoveryCode_True dead_recovery_def using_kills_recovery)
       (simp add: ConsumeRecoveryCode_def raw_stmts using_kills_recovery)
next
  fix k x d
  assume "dead_recovery k d"
  then show "\<not> spends_recovery k x d"
    by (cases "(k, x, d)" rule: spends_recovery.cases)
       (auto simp: ConsumeRecoveryCode_True dead_recovery_def affected_pos_iff list_all_iff)
qed (auto simp: store_step_ok dead_recovery_step)


subsection \<open>Device codes\<close>

fun mints_device_code :: "string \<Rightarrow> store_op \<Rightarrow> bool" where
  "mints_device_code i (Enrolment (OpCreateDeviceCode c)) = (dc_ID c = i)"
| "mints_device_code i _ = False"

fun spends_device_code :: "string \<Rightarrow> store_op \<Rightarrow> db \<Rightarrow> bool" where
  "spends_device_code i (Enrolment (OpConsumeDeviceCode j)) d = (j = i \<and> fst (ConsumeDeviceCode j d) = Inr True)"
| "spends_device_code i _ d = False"

text \<open>The states no operation leaves again.\<close>

definition dc_final :: "DeviceCode \<Rightarrow> bool" where
  "dc_final c \<longleftrightarrow> dc_Status c \<noteq> DeviceCodePending \<and> dc_Status c \<noteq> DeviceCodeApproved"

definition dead_device_code :: "string \<Rightarrow> db \<Rightarrow> bool" where
  "dead_device_code i d = list_all (\<lambda>c. dc_ID c = i \<longrightarrow> dc_final c) (db_device_codes d)"

lemma dead_device_code_device:
  "dead_device_code i d \<Longrightarrow> \<not> mints_device_code i (Enrolment x) \<Longrightarrow> dead_device_code i (device_step x d)"
proof -
  have keep: "list_all (\<lambda>c. dc_ID c = i \<longrightarrow> dc_final c) (upd (\<lambda>c. dc_ID c = j \<and> dc_Status c = s) f t)"
    if "list_all (\<lambda>c. dc_ID c = i \<longrightarrow> dc_final c) t" "s = DeviceCodePending \<or> s = DeviceCodeApproved"
      "\<And>c. dc_ID (f c) = dc_ID c" for j s f t
    using that by (induction t) (auto simp: dc_final_def)
  have poll: "list_all (\<lambda>c. dc_ID c = i \<longrightarrow> dc_final c) (upd p (\<lambda>c. c\<lparr>dc_LastPolledAt := t\<rparr>) ts)"
    if "list_all (\<lambda>c. dc_ID c = i \<longrightarrow> dc_final c) ts" for p t ts
    using that by (induction ts) (auto simp: dc_final_def)
  show "dead_device_code i d \<Longrightarrow> \<not> mints_device_code i (Enrolment x) \<Longrightarrow> dead_device_code i (device_step x d)"
    by (cases x) (auto simp: dead_device_code_def stmt_defs raw_stmts keep poll list_all_del split: sum.split)
qed

lemma dead_device_code_step:
  assumes "dead_device_code i d" and "\<not> mints_device_code i x"
  shows "dead_device_code i (store_step x d)"
proof (cases x)
  case (Enrolment y)
  with assms show ?thesis by (simp add: dead_device_code_device)
qed (use assms in \<open>simp_all add: dead_device_code_def frame_simps\<close>)

lemma ConsumeDeviceCode_True:
  "fst (ConsumeDeviceCode i d) = Inr True \<longleftrightarrow> \<not> fault d ''ConsumeDeviceCode'' \<and>
     affected (\<lambda>c. dc_ID c = i \<and> dc_Status c = DeviceCodeApproved) (db_device_codes d) = 1"
  by (auto simp: ConsumeDeviceCode_def execCount_def Let_def)

interpretation device_code: single_use store_step db_ok spends_device_code mints_device_code dead_device_code
proof unfold_locales
  fix i x d
  assume ok: "db_ok d" and "spends_device_code i x d"
  then have x: "x = Enrolment (OpConsumeDeviceCode i)" and r: "fst (ConsumeDeviceCode i d) = Inr True"
    by (cases "(i, x, d)" rule: spends_device_code.cases, auto)+
  let ?p = "\<lambda>c. dc_ID c = i \<and> dc_Status c = DeviceCodeApproved"
  from r obtain c where c: "c \<in> set (db_device_codes d)" "?p c"
    using affected_pos_iff [of ?p "db_device_codes d"] by (auto simp: ConsumeDeviceCode_True)
  have u: "uniq_on dc_ID (db_device_codes d)"
    using ok by (simp add: db_ok_def device_codes_ok_def)
  have "?p q" if "q \<in> set (db_device_codes d)" "dc_ID q = i" for q
    using uniq_on_eq [OF u that(1) c(1)] c that by simp
  then show "dead_device_code i (store_step x d)"
    using x r by (auto simp: dead_device_code_def ConsumeDeviceCode_True list_all_iff ConsumeDeviceCode_def
        raw_stmts ball_upd dc_final_def device_code_status_defs)
next
  fix i x d
  assume d: "dead_device_code i d"
  have "affected (\<lambda>c. dc_ID c = i \<and> dc_Status c = DeviceCodeApproved) (db_device_codes d) = 0"
    using d by (auto simp: affected_0_iff dead_device_code_def list_all_iff dc_final_def)
  then show "\<not> spends_device_code i x d"
    by (cases "(i, x, d)" rule: spends_device_code.cases) (auto simp: ConsumeDeviceCode_True)
qed (auto simp: store_step_ok dead_device_code_step)

subsection \<open>WebAuthn ceremonies\<close>

fun mints_ceremony :: "string \<Rightarrow> store_op \<Rightarrow> bool" where
  "mints_ceremony i (Account (OpCreateWebAuthnCeremony c)) = (wy_ID c = i)"
| "mints_ceremony i _ = False"

fun spends_ceremony :: "string \<Rightarrow> store_op \<Rightarrow> db \<Rightarrow> bool" where
  "spends_ceremony i (Account (OpConsumeWebAuthnCeremony j now)) d =
     (j = i \<and> is_ok (fst (ConsumeWebAuthnCeremony j now d)))"
| "spends_ceremony i _ d = False"

definition dead_ceremony :: "string \<Rightarrow> db \<Rightarrow> bool" where
  "dead_ceremony i d = list_all (\<lambda>c. wy_ID c \<noteq> i) (db_webauthn_ceremonies d)"

lemma dead_ceremony_account:
  "dead_ceremony i d \<Longrightarrow> \<not> mints_ceremony i (Account x) \<Longrightarrow> dead_ceremony i (account_step x d)"
  by (cases x) (auto simp: dead_ceremony_def stmt_defs raw_stmts list_all_del split: sum.split)

lemma dead_ceremony_step:
  assumes "dead_ceremony i d" and "\<not> mints_ceremony i x"
  shows "dead_ceremony i (store_step x d)"
proof (cases x)
  case (Account y)
  with assms show ?thesis by (simp add: dead_ceremony_account)
qed (use assms in \<open>simp_all add: dead_ceremony_def frame_simps\<close>)

interpretation ceremony: single_use store_step db_ok spends_ceremony mints_ceremony dead_ceremony
proof unfold_locales
  fix i x d
  assume "spends_ceremony i x d"
  then obtain now where "x = Account (OpConsumeWebAuthnCeremony i now)"
    "is_ok (fst (ConsumeWebAuthnCeremony i now d))"
    by (cases "(i, x, d)" rule: spends_ceremony.cases) auto
  then show "dead_ceremony i (store_step x d)"
    by (auto simp: dead_ceremony_def ConsumeWebAuthnCeremony_def raw_stmts list_all_iff set_del split: sum.splits if_splits)
next
  fix i x d
  assume "dead_ceremony i d"
  then have "sel1 (\<lambda>c. wy_ID c = i) (db_webauthn_ceremonies d) = Inl ErrNotFound"
    by (auto simp: sel1_Inl dead_ceremony_def list_all_iff)
  then show "\<not> spends_ceremony i x d"
    by (cases "(i, x, d)" rule: spends_ceremony.cases) (auto simp: ConsumeWebAuthnCeremony_def)
qed (auto simp: store_step_ok dead_ceremony_step)

end
