(* ===== verification/Sessions.thy ===== *)
theory Sessions
  imports Credentials StoreMachine
begin

text \<open>
  Browser sessions (\<open>internal/auth/session.go\<close>): the manager issues a session and its cookie,
  finds the session of a request, and destroys it. The live configuration (lifetime, idle
  timeout, cookie flag) is a record; the random session id and CSRF secret and the clock
  reading are arguments; a response is described by the cookie it sets.
\<close>

record session_cfg =
  sc_Secure :: bool
  sc_Lifetime :: duration
  sc_Idle :: duration

record cookie =
  ck_Value :: string
  ck_Secure :: bool
  ck_Expires :: time
  ck_MaxAge :: int

datatype session_err = ErrNoSession | SessionStoreErr db_err

definition with_cookie :: "string option \<Rightarrow> bool" where
  "with_cookie c \<longleftrightarrow> (case c of None \<Rightarrow> False | Some v \<Rightarrow> v \<noteq> '''')"

definition Issue :: "session_cfg \<Rightarrow> string option \<Rightarrow> string \<Rightarrow> string \<Rightarrow> string \<Rightarrow> string \<Rightarrow> string \<Rightarrow> time \<Rightarrow> db
    \<Rightarrow> (Session res \<times> cookie option) \<times> db" where
  "Issue cfg ck userID amr ua uuid rnd now d =
     (let d1 = (if with_cookie ck then snd (DeleteSession (the ck) d) else d);
          sess = \<lparr>ses_ID = uuid, ses_UserID = userID, ses_CSRFSecret = RandomToken rnd, ses_UserAgent = ua,
                  ses_CreatedAt = now, ses_ExpiresAt = now + sc_Lifetime cfg, ses_LastSeenAt = now, ses_AMR = amr\<rparr>;
          (r, d2) = CreateSession sess d1
      in case r of
           Inl e \<Rightarrow> ((Inl e, None), d2)
         | Inr _ \<Rightarrow> ((Inr sess, Some \<lparr>ck_Value = uuid, ck_Secure = sc_Secure cfg, ck_Expires = ses_ExpiresAt sess,
               ck_MaxAge = sc_Lifetime cfg div Second\<rparr>), d2))"

definition Current :: "session_cfg \<Rightarrow> string option \<Rightarrow> time \<Rightarrow> db \<Rightarrow> (session_err + Session) \<times> db" where
  "Current cfg ck now d =
     (if \<not> with_cookie ck then (Inl ErrNoSession, d)
      else case GetSession (the ck) now d of
        Inl e \<Rightarrow> (if e = ErrNotFound then (Inl ErrNoSession, d) else (Inl (SessionStoreErr e), d))
      | Inr sess \<Rightarrow>
          if 0 < sc_Idle cfg then
            (let last = (if IsZero (ses_LastSeenAt sess) then ses_CreatedAt sess else ses_LastSeenAt sess)
             in if time_Sub now last > sc_Idle cfg then (Inl ErrNoSession, snd (DeleteSession (ses_ID sess) d))
                else (Inr (sess\<lparr>ses_LastSeenAt := now\<rparr>), snd (TouchSession (ses_ID sess) now d)))
          else (Inr sess, d))"

definition Destroy :: "string option \<Rightarrow> db \<Rightarrow> unit res \<times> db" where
  "Destroy ck d = (if with_cookie ck then DeleteSession (the ck) d else (Inr (), d))"

lemma GetSession_Inr:
  "GetSession i now d = Inr s \<Longrightarrow> s \<in> set (db_sessions d) \<and> ses_ID s = i \<and> now \<le> ses_ExpiresAt s"
  by (auto simp: GetSession_def query_def dest!: sel1_Inr split: if_splits sum.splits)

lemma DeleteSession_gone:
  "\<not> fault d ''DeleteSession'' \<Longrightarrow> i \<notin> ses_ID ` set (db_sessions (snd (DeleteSession i d)))"
  by (auto simp: DeleteSession_def exec_def set_del)

lemma gone_GetSession: "i \<notin> ses_ID ` set (db_sessions d) \<Longrightarrow> \<not> is_ok (GetSession i now d)"
  by (auto dest: GetSession_Inr simp: is_ok_iff)

lemma sessions_after_Issue:
  assumes "Issue cfg ck u amr ua uuid rnd now d = ((Inr s, c), d')"
  shows "db_sessions d' = (if with_cookie ck \<and> \<not> fault d ''DeleteSession''
       then del (\<lambda>s. ses_ID s = the ck) (db_sessions d) else db_sessions d) @ [s]"
    and "uniq_on ses_ID (db_sessions d')" and "fk_user d u" and "db_faults d' = db_faults d"
    and "ses_ID s = uuid" "ses_UserID s = u" "ses_AMR s = amr" "ses_ExpiresAt s = now + sc_Lifetime cfg"
    "ses_LastSeenAt s = now" "c = Some \<lparr>ck_Value = uuid, ck_Secure = sc_Secure cfg, ck_Expires = now + sc_Lifetime cfg,
      ck_MaxAge = sc_Lifetime cfg div Second\<rparr>"
  using assms
  by (auto simp: Issue_def Let_def CreateSession_def insert_row_def checked_def exec_def DeleteSession_def
      sessions_ok_def fk_user_def split: if_splits sum.splits prod.splits)

text \<open>A login rotates the session: a success sets a cookie naming a new session of that user, which a
  later request finds until its lifetime ends; and the session the browser presented before, possibly
  planted by somebody else, is gone.\<close>

theorem Issue_rotates:
  assumes "Issue cfg ck u amr ua uuid rnd now d = ((Inr s, c), d')"
  shows "map_option ck_Value c = Some uuid \<and> ses_UserID s = u
    \<and> (\<not> fault d' ''GetSession'' \<longrightarrow> t \<le> now + sc_Lifetime cfg \<longrightarrow> GetSession uuid t d' = Inr s)
    \<and> (\<forall>old. ck = Some old \<and> old \<noteq> '''' \<and> old \<noteq> uuid \<and> \<not> fault d ''DeleteSession'' \<longrightarrow> \<not> is_ok (GetSession old t d'))"
proof -
  note f = sessions_after_Issue [OF assms]
  have "s \<in> set (db_sessions d')" using f(1) by simp
  then have "sel1 (\<lambda>x. ses_ID x = uuid) (db_sessions d') = Inr s"
    using sel1_key [OF f(2), of s] f(5) by simp
  then have "GetSession uuid t d' = Inr s" if "\<not> fault d' ''GetSession''" "t \<le> now + sc_Lifetime cfg"
    using that f(8) by (simp add: GetSession_def query_def)
  moreover have "\<not> is_ok (GetSession old t d')"
    if "ck = Some old" "old \<noteq> ''''" "old \<noteq> uuid" "\<not> fault d ''DeleteSession''" for old
    using that f(1,5) by (intro gone_GetSession) (auto simp: with_cookie_def set_del)
  ultimately show ?thesis using f by simp
qed

text \<open>A request is given a session only when its cookie names a stored row that has neither reached
  its absolute expiry nor been idle longer than the timeout; one that has been idle too long is
  deleted on the spot, so no later request revives it.\<close>

theorem Current_guards:
  assumes "Current cfg ck now d = (r, d')" and "\<bar>now\<bar> < 2 ^ 62" and "db_ok d"
    and "\<forall>s \<in> set (db_sessions d). \<bar>ses_LastSeenAt s\<bar> < 2 ^ 62 \<and> \<bar>ses_CreatedAt s\<bar> < 2 ^ 62"
  shows "(\<forall>s. r = Inr s \<longrightarrow> (\<exists>row \<in> set (db_sessions d). ck = Some (ses_ID row) \<and> ses_UserID s = ses_UserID row
          \<and> now \<le> ses_ExpiresAt row
          \<and> (0 < sc_Idle cfg \<longrightarrow> now - (if IsZero (ses_LastSeenAt row) then ses_CreatedAt row else ses_LastSeenAt row) \<le> sc_Idle cfg)))
    \<and> (\<forall>row \<in> set (db_sessions d). ck = Some (ses_ID row) \<and> ses_ID row \<noteq> '''' \<and> 0 < sc_Idle cfg \<and> now \<le> ses_ExpiresAt row
          \<and> sc_Idle cfg < now - (if IsZero (ses_LastSeenAt row) then ses_CreatedAt row else ses_LastSeenAt row)
          \<and> sc_Idle cfg < 2 ^ 63 - 1 \<and> db_faults d = []
        \<longrightarrow> r = Inl ErrNoSession \<and> ses_ID row \<notin> ses_ID ` set (db_sessions d'))"
proof -
  have sub: "time_Sub now (ses_LastSeenAt s) = now - ses_LastSeenAt s \<and> time_Sub now (ses_CreatedAt s) = now - ses_CreatedAt s"
    if "s \<in> set (db_sessions d)" for s
    using assms(2,4) that by (auto intro!: time_Sub_small)
  have "\<exists>row \<in> set (db_sessions d). ck = Some (ses_ID row) \<and> ses_UserID s = ses_UserID row \<and> now \<le> ses_ExpiresAt row
          \<and> (0 < sc_Idle cfg \<longrightarrow> now - (if IsZero (ses_LastSeenAt row) then ses_CreatedAt row else ses_LastSeenAt row) \<le> sc_Idle cfg)"
    if ok: "r = Inr s" for s
  proof -
    obtain v where ck: "ck = Some v" "v \<noteq> ''''"
      using assms(1) ok by (auto simp: Current_def with_cookie_def split: if_splits option.splits)
    obtain row where row: "GetSession v now d = Inr row"
      using assms(1) ok ck by (auto simp: Current_def with_cookie_def split: if_splits sum.splits)
    from GetSession_Inr [OF row] have m: "row \<in> set (db_sessions d)" "ses_ID row = v" "now \<le> ses_ExpiresAt row" by auto
    show ?thesis
      using assms(1) ok ck row m sub [OF m(1)]
      by (intro bexI [of _ row]) (auto simp: Current_def with_cookie_def Let_def split: if_splits)
  qed
  moreover have "r = Inl ErrNoSession \<and> ses_ID row \<notin> ses_ID ` set (db_sessions d')"
    if "row \<in> set (db_sessions d)" "ck = Some (ses_ID row)" "ses_ID row \<noteq> ''''" "0 < sc_Idle cfg" "now \<le> ses_ExpiresAt row"
       "sc_Idle cfg < now - (if IsZero (ses_LastSeenAt row) then ses_CreatedAt row else ses_LastSeenAt row)"
       "db_faults d = []" for row
  proof -
    have u: "uniq_on ses_ID (db_sessions d)" using assms(3) by (simp add: db_ok_def sessions_ok_def)
    have "GetSession (ses_ID row) now d = Inr row"
      using sel1_key [OF u that(1)] that(5,7) by (simp add: GetSession_def query_def fault_def)
    then show ?thesis
      using assms(1) that sub [OF that(1)] DeleteSession_gone [of d "ses_ID row"]
      by (auto simp: Current_def with_cookie_def Let_def fault_def split: if_splits)
  qed
  ultimately show ?thesis by blast
qed

definition sample_cfg :: session_cfg where
  "sample_cfg = \<lparr>sc_Secure = True, sc_Lifetime = 1000, sc_Idle = 100\<rparr>"

theorem Issue_rotates_witness:
  "\<not> is_ok (GetSession ''s1'' 40 (snd (Issue sample_cfg (Some ''s1'') ''u1'' ''pwd'' ''ua'' ''s2'' ''r'' 30 sample_db)))"
proof -
  have "\<exists>s c. fst (Issue sample_cfg (Some ''s1'') ''u1'' ''pwd'' ''ua'' ''s2'' ''r'' 30 sample_db) = (Inr s, c)"
    by (simp add: Issue_def with_cookie_def DeleteSession_def CreateSession_def raw_stmts fault_def sessions_ok_def
        fk_user_def sample_defs)
  then obtain s c where "Issue sample_cfg (Some ''s1'') ''u1'' ''pwd'' ''ua'' ''s2'' ''r'' 30 sample_db
      = ((Inr s, c), snd (Issue sample_cfg (Some ''s1'') ''u1'' ''pwd'' ''ua'' ''s2'' ''r'' 30 sample_db))"
    by (metis prod.collapse)
  from Issue_rotates [OF this, of 40] show ?thesis by (simp add: fault_def sample_defs)
qed

theorem Current_guards_witness:
  "fst (Current sample_cfg (Some ''s1'') 500 sample_db) = Inl ErrNoSession"
  using Current_guards [OF prod.collapse [symmetric], of 500 sample_db sample_cfg "Some ''s1''"] sample_db_ok
  by (auto simp: sample_cfg_def sample_defs)

end
