(* ===== verification/GoJson.thy ===== *)
theory GoJson
  imports Complex_Main GoUrl
begin

text \<open>
  The parts of \<open>encoding/json\<close> the program uses: decoding a text to a value and encoding a string.
  A number is the rational it denotes (the rounding to a float64 is not modelled); an object lists
  its members in the order of the text. The decoder runs on fuel, one more than the length of the
  text, since each nested call has consumed a character.
\<close>

datatype json = JNull | JBool bool | JNum rat | JStr string | JArr "json list" | JObj "(string \<times> json) list"

subsection \<open>Strings\<close>

definition quote :: char where "quote = CHR 34"
definition backslash :: char where "backslash = CHR 92"

lemmas punct_defs = quote_def backslash_def

definition hex_nibble :: "nat \<Rightarrow> char" where
  "hex_nibble d = (if d < 10 then char_of (48 + d) else char_of (87 + d))"

definition replacement :: string where
  "replacement = [char_of (239::nat), char_of (191::nat), char_of (189::nat)]"

definition esc_rune :: "nat \<times> string \<Rightarrow> string" where
  "esc_rune = (\<lambda>(r, b).
     if r < 128 then
       (if r = 34 \<or> r = 92 then backslash # b
        else if r = 8 then [backslash, CHR ''b''] else if r = 12 then [backslash, CHR ''f'']
        else if r = 10 then [backslash, CHR ''n''] else if r = 13 then [backslash, CHR ''r'']
        else if r = 9 then [backslash, CHR ''t'']
        else if r < 32 \<or> r = 60 \<or> r = 62 \<or> r = 38 then backslash # ''u00'' @ [hex_nibble (r div 16), hex_nibble (r mod 16)]
        else b)
     else if r = RuneError \<and> length b = 1 then backslash # ''ufffd''
     else if r = 8232 then backslash # ''u2028'' else if r = 8233 then backslash # ''u2029''
     else b)"

text \<open>\<open>json.Marshal\<close> of a string.\<close>

definition jstr :: "string \<Rightarrow> string" where
  "jstr s = quote # concat (map esc_rune (runes s)) @ [quote]"

definition encode_rune :: "nat \<Rightarrow> string" where
  "encode_rune r = (if r < 128 then [char_of r]
     else if r < 2048 then [char_of (192 + r div 64), char_of (128 + r mod 64)]
     else if r < 65536 then [char_of (224 + r div 4096), char_of (128 + r div 64 mod 64), char_of (128 + r mod 64)]
     else [char_of (240 + r div 262144), char_of (128 + r div 4096 mod 64), char_of (128 + r div 64 mod 64), char_of (128 + r mod 64)])"

text \<open>\<open>getu4\<close> after a backslash and \<open>u\<close>, and the code point of an escape with its surrogate pair.\<close>

definition getu4 :: "string \<Rightarrow> nat option" where
  "getu4 s = (if 4 \<le> length s \<and> list_all is_hex (take 4 s) then Some (hex_val (take 4 s)) else None)"

definition unicode_escape :: "string \<Rightarrow> (string \<times> string) option" where
  "unicode_escape s = (case getu4 s of None \<Rightarrow> None
     | Some r \<Rightarrow>
       if r < 55296 \<or> 57343 < r then Some (encode_rune r, drop 4 s)
       else (case (if r < 56320 \<and> take 2 (drop 4 s) = [backslash, CHR ''u''] then getu4 (drop 6 s) else None) of
          Some r2 \<Rightarrow> if 56320 \<le> r2 \<and> r2 \<le> 57343
            then Some (encode_rune (65536 + (r - 55296) * 1024 + (r2 - 56320)), drop 10 s)
            else Some (replacement, drop 4 s)
        | None \<Rightarrow> Some (replacement, drop 4 s)))"

definition next_unit :: "string \<Rightarrow> (string \<times> string) option" where
  "next_unit s = (case s of [] \<Rightarrow> None
     | c # r \<Rightarrow>
       if c = backslash then
         (case r of [] \<Rightarrow> None
          | d # r' \<Rightarrow>
            if d = quote \<or> d = backslash \<or> d = CHR ''/'' then Some ([d], r')
            else if d = CHR ''b'' then Some ([CHR 8], r') else if d = CHR ''f'' then Some ([CHR 12], r')
            else if d = CHR ''n'' then Some ([CHR 10], r') else if d = CHR ''r'' then Some ([CHR 13], r')
            else if d = CHR ''t'' then Some ([CHR 9], r')
            else if d = CHR ''u'' then unicode_escape r' else None)
       else if byte c < 32 then None
       else if byte c < 128 then Some ([c], r)
       else (let (rn, w) = DecodeRune s in
         if rn = RuneError \<and> w = 1 then Some (replacement, r) else Some (take w s, drop w s)))"

text \<open>The rest of a string after its opening quote.\<close>

function json_chars :: "string \<Rightarrow> (string \<times> string) option" where
  "json_chars s = (if s \<noteq> [] \<and> hd s = quote then Some ([], tl s)
     else (case next_unit s of None \<Rightarrow> None
       | Some (b, r) \<Rightarrow> if length r < length s then map_option (\<lambda>(t, r'). (b @ t, r')) (json_chars r) else None))"
  by pat_completeness auto
termination
  by (relation "measure length") auto

declare json_chars.simps [simp del]

subsection \<open>Values\<close>

definition json_ws :: "char \<Rightarrow> bool" where
  "json_ws c \<longleftrightarrow> byte c = 32 \<or> byte c = 9 \<or> byte c = 10 \<or> byte c = 13"

definition skip_ws :: "string \<Rightarrow> string" where
  "skip_ws s = dropWhile json_ws s"

definition digits_prefix :: "string \<Rightarrow> string \<times> string" where
  "digits_prefix s = (takeWhile is_digit s, dropWhile is_digit s)"

definition json_frac :: "string \<Rightarrow> (rat \<times> string) option" where
  "json_frac s = (if s \<noteq> [] \<and> hd s = CHR ''.'' then
       (let (ds, r) = digits_prefix (tl s) in
        if ds = [] then None else Some (of_nat (dec_val ds) / 10 ^ length ds, r))
     else Some (0, s))"

definition json_exp :: "string \<Rightarrow> (rat \<times> string) option" where
  "json_exp s = (if s \<noteq> [] \<and> hd s \<in> set ''eE'' then
       (let neg = (HasPrefix (tl s) ''-''); r0 = (if neg \<or> HasPrefix (tl s) ''+'' then drop 1 (tl s) else tl s);
            (ds, r) = digits_prefix r0 in
        if ds = [] then None
        else Some (if neg then 1 / 10 ^ dec_val ds else 10 ^ dec_val ds, r))
     else Some (1, s))"

definition json_number :: "string \<Rightarrow> (rat \<times> string) option" where
  "json_number s =
     (let neg = HasPrefix s ''-''; s1 = (if neg then tl s else s);
          (ds, r) = (if HasPrefix s1 ''0'' then (''0'', tl s1) else digits_prefix s1)
      in if ds = [] then None
         else (case json_frac r of None \<Rightarrow> None
           | Some (f, r1) \<Rightarrow> (case json_exp r1 of None \<Rightarrow> None
              | Some (e, r2) \<Rightarrow> Some ((if neg then -1 else 1) * (of_nat (dec_val ds) + f) * e, r2))))"

fun json_value :: "nat \<Rightarrow> string \<Rightarrow> (json \<times> string) option"
  and json_members :: "nat \<Rightarrow> string \<Rightarrow> ((string \<times> json) list \<times> string) option"
  and json_elems :: "nat \<Rightarrow> string \<Rightarrow> (json list \<times> string) option" where
  "json_value 0 s = None"
| "json_value (Suc n) s0 = (case skip_ws s0 of [] \<Rightarrow> None
     | c # r \<Rightarrow>
       if c = CHR ''{'' then
         (if HasPrefix (skip_ws r) ''}'' then Some (JObj [], tl (skip_ws r))
          else map_option (\<lambda>(ms, t). (JObj ms, t)) (json_members n r))
       else if c = CHR ''['' then
         (if HasPrefix (skip_ws r) '']'' then Some (JArr [], tl (skip_ws r))
          else map_option (\<lambda>(vs, t). (JArr vs, t)) (json_elems n r))
       else if c = quote then map_option (\<lambda>(t, r'). (JStr t, r')) (json_chars r)
       else if HasPrefix (c # r) ''true'' then Some (JBool True, drop 3 r)
       else if HasPrefix (c # r) ''false'' then Some (JBool False, drop 4 r)
       else if HasPrefix (c # r) ''null'' then Some (JNull, drop 3 r)
       else map_option (\<lambda>(q, t). (JNum q, t)) (json_number (c # r)))"
| "json_members 0 s = None"
| "json_members (Suc n) s0 = (case skip_ws s0 of [] \<Rightarrow> None
     | c # r \<Rightarrow>
       if c \<noteq> quote then None
       else (case json_chars r of None \<Rightarrow> None
         | Some (k, r1) \<Rightarrow>
           if \<not> HasPrefix (skip_ws r1) '':'' then None
           else (case json_value n (tl (skip_ws r1)) of None \<Rightarrow> None
             | Some (v, r2) \<Rightarrow>
               if HasPrefix (skip_ws r2) '','' then map_option (\<lambda>(ms, t). ((k, v) # ms, t)) (json_members n (tl (skip_ws r2)))
               else if HasPrefix (skip_ws r2) ''}'' then Some ([(k, v)], tl (skip_ws r2))
               else None)))"
| "json_elems 0 s = None"
| "json_elems (Suc n) s = (case json_value n s of None \<Rightarrow> None
     | Some (v, r2) \<Rightarrow>
       if HasPrefix (skip_ws r2) '','' then map_option (\<lambda>(vs, t). (v # vs, t)) (json_elems n (tl (skip_ws r2)))
       else if HasPrefix (skip_ws r2) '']'' then Some ([v], tl (skip_ws r2))
       else None)"

text \<open>\<open>json.Unmarshal\<close>, and the first value of a stream (\<open>json.Decoder\<close>).\<close>

definition json_decode :: "string \<Rightarrow> json option" where
  "json_decode s = (case json_value (length s + 1) s of
     Some (v, r) \<Rightarrow> if skip_ws r = [] then Some v else None | None \<Rightarrow> None)"

definition json_decode_first :: "string \<Rightarrow> json option" where
  "json_decode_first s = map_option fst (json_value (length s + 1) s)"

subsection \<open>Encoded strings and objects decode\<close>

lemma hex_digit_nibble: "d < 16 \<Longrightarrow> hex_digit (hex_nibble d) = Some d"
proof -
  assume "d < 16"
  then have "d = 0 \<or> d = 1 \<or> d = 2 \<or> d = 3 \<or> d = 4 \<or> d = 5 \<or> d = 6 \<or> d = 7 \<or> d = 8 \<or> d = 9 \<or> d = 10 \<or> d = 11
    \<or> d = 12 \<or> d = 13 \<or> d = 14 \<or> d = 15" by presburger
  then show ?thesis by (elim disjE) (simp_all add: hex_digit_def hex_nibble_def)
qed

lemma unicode_escape_low:
  assumes "v < 128"
  shows "unicode_escape (''00'' @ [hex_nibble (v div 16), hex_nibble (v mod 16)] @ s) = Some ([char_of v], s)"
proof -
  note h = hex_digit_nibble [of "v div 16"] hex_digit_nibble [of "v mod 16"]
  have d: "hex_digit (CHR ''0'') = Some 0" by (simp add: hex_digit_def)
  have "getu4 (''00'' @ [hex_nibble (v div 16), hex_nibble (v mod 16)] @ s) = Some v"
    using h assms d by (simp add: getu4_def is_hex_def hex_val_def numeral_2_eq_2 del: One_nat_def)
  then show ?thesis
    using assms by (simp add: unicode_escape_def encode_rune_def)
qed

lemma next_unit_esc:
  assumes "byte c < 128"
  shows "next_unit (esc_rune (byte c, [c]) @ s) = Some ([c], s)"
    and "esc_rune (byte c, [c]) \<noteq> []" and "hd (esc_rune (byte c, [c])) \<noteq> quote"
proof -
  have e: "c = char_of (byte c)" by simp
  have "next_unit (esc_rune (byte c, [c]) @ s) = Some ([c], s) \<and> esc_rune (byte c, [c]) \<noteq> [] \<and> hd (esc_rune (byte c, [c])) \<noteq> quote"
  proof (cases "byte c < 32 \<or> byte c = 60 \<or> byte c = 62 \<or> byte c = 38 \<or> byte c = 34 \<or> byte c = 92")
    case False
    then show ?thesis
      using assms by (auto simp: esc_rune_def next_unit_def punct_defs)
  next
    case True
    have u: "next_unit (backslash # ''u00'' @ [hex_nibble (byte c div 16), hex_nibble (byte c mod 16)] @ s) = Some ([c], s)"
      using unicode_escape_low [OF assms, of s] by (simp add: next_unit_def punct_defs)
    have k: "byte c \<in> {34, 92, 8, 12, 10, 13, 9} \<or> esc_rune (byte c, [c])
        = backslash # ''u00'' @ [hex_nibble (byte c div 16), hex_nibble (byte c mod 16)]"
      using True assms by (auto simp: esc_rune_def)
    moreover have "?thesis" if "byte c \<in> {34, 92, 8, 12, 10, 13, 9}"
    proof -
      have "byte c = byte (CHR 34) \<or> byte c = byte (CHR 92) \<or> byte c = byte (CHR 8) \<or> byte c = byte (CHR 12)
        \<or> byte c = byte (CHR 10) \<or> byte c = byte (CHR 13) \<or> byte c = byte (CHR 9)"
        using that by simp
      then have "c = CHR 34 \<or> c = CHR 92 \<or> c = CHR 8 \<or> c = CHR 12 \<or> c = CHR 10 \<or> c = CHR 13 \<or> c = CHR 9"
        by (simp only: of_char_eq_iff)
      then show ?thesis
        by (elim disjE) (simp_all add: esc_rune_def next_unit_def punct_defs)
    qed
    ultimately show ?thesis using u by (auto simp: punct_defs)
  qed
  then show "next_unit (esc_rune (byte c, [c]) @ s) = Some ([c], s)" "esc_rune (byte c, [c]) \<noteq> []"
    "hd (esc_rune (byte c, [c])) \<noteq> quote" by auto
qed

lemma jstr_ascii: "ascii s \<Longrightarrow> jstr s = quote # concat (map (\<lambda>c. esc_rune (byte c, [c])) s) @ [quote]"
  by (simp add: jstr_def runes_ascii comp_def)

lemma json_chars_esc:
  assumes "ascii s"
  shows "json_chars (concat (map (\<lambda>c. esc_rune (byte c, [c])) s) @ quote # r) = Some (s, r)"
  using assms
proof (induction s)
  case Nil
  then show ?case by (simp add: json_chars.simps)
next
  case (Cons c s)
  then have c: "byte c < 128" and s: "ascii s" by (auto simp: ascii_def)
  let ?t = "concat (map (\<lambda>c. esc_rune (byte c, [c])) s) @ quote # r"
  note n = next_unit_esc [OF c]
  have "hd (esc_rune (byte c, [c]) @ ?t) \<noteq> quote" using n(2,3) by simp
  moreover have "length ?t < length (esc_rune (byte c, [c]) @ ?t)" using n(2) by simp
  ultimately show ?case
    using n(1) [of ?t] n(2) Cons.IH [OF s] by (subst json_chars.simps) simp
qed

lemma jstr_decodes: "ascii s \<Longrightarrow> \<exists>t. jstr s = quote # t \<and> (\<forall>r. json_chars (t @ r) = Some (s, r))"
  using json_chars_esc by (simp add: jstr_ascii)

text \<open>The text of an object whose members are strings.\<close>

fun members_text :: "(string \<times> string) list \<Rightarrow> string" where
  "members_text [] = ''''"
| "members_text [(k, v)] = jstr k @ '':'' @ jstr v"
| "members_text ((k, v) # m # ms) = jstr k @ '':'' @ jstr v @ '','' @ members_text (m # ms)"

lemma skip_ws_no [simp]: "\<not> json_ws c \<Longrightarrow> skip_ws (c # s) = c # s"
  by (simp add: skip_ws_def)

lemma json_ws_punct [simp]: "\<not> json_ws quote" "\<not> json_ws CHR '':''" "\<not> json_ws CHR '',''" "\<not> json_ws CHR ''{''" "\<not> json_ws CHR ''}''"
  by (simp_all add: json_ws_def punct_defs)

lemma quote_neq [simp]: "quote \<noteq> CHR ''{''" "quote \<noteq> CHR ''[''" "quote \<noteq> CHR ''}''"
  by (simp_all add: punct_defs)

lemma HasPrefix_char [simp]: "HasPrefix (c # s) [d] \<longleftrightarrow> c = d"
  by (simp add: HasPrefix_def)

lemma json_value_jstr: "ascii s \<Longrightarrow> 0 < n \<Longrightarrow> json_value n (jstr s @ r) = Some (JStr s, r)"
  using jstr_decodes [of s] by (cases n) auto

lemma json_members_text:
  assumes "ms \<noteq> []" "\<forall>(k, v) \<in> set ms. ascii k \<and> ascii v" "length ms < n"
  shows "json_members n (members_text ms @ CHR ''}'' # r) = Some (map (\<lambda>(k, v). (k, JStr v)) ms, r)"
  using assms
proof (induction ms arbitrary: n rule: members_text.induct)
  case (2 k v)
  then obtain m where n: "n = Suc m" "0 < m" by (cases n) auto
  obtain t where t: "jstr k = quote # t" "\<And>r. json_chars (t @ r) = Some (k, r)"
    using 2 jstr_decodes [of k] by auto
  from 2 n show ?case by (simp add: t json_value_jstr)
next
  case (3 k v m' ms)
  then obtain m where n: "n = Suc m" "0 < m" by (cases n) auto
  obtain t where t: "jstr k = quote # t" "\<And>r. json_chars (t @ r) = Some (k, r)"
    using 3 jstr_decodes [of k] by auto
  from 3 n show ?case by (simp add: t json_value_jstr)
qed simp

lemma members_text_length: "length ms \<le> length (members_text ms)"
  by (induction ms rule: members_text.induct) (auto simp: jstr_def)

lemma jstr_hd: "HasPrefix (skip_ws (jstr s @ r)) ''}'' \<longleftrightarrow> False" "hd (jstr s) = quote" "jstr s \<noteq> []"
  by (simp_all add: jstr_def)

lemma json_decode_members:
  assumes "ms \<noteq> []" "\<forall>(k, v) \<in> set ms. ascii k \<and> ascii v"
  shows "json_decode (CHR ''{'' # members_text ms @ ''}'') = Some (JObj (map (\<lambda>(k, v). (k, JStr v)) ms))"
proof -
  have "\<not> HasPrefix (skip_ws (members_text ms @ ''}'')) ''}''"
    using assms(1) by (cases ms rule: members_text.cases) (simp_all add: jstr_hd)
  moreover have "length ms < length (members_text ms) + 2"
    using members_text_length [of ms] by simp
  note json_members_text [OF assms this, of "[]"]
  ultimately show ?thesis
    by (simp add: json_decode_def skip_ws_def json_ws_def)
qed

end
