(* ===== verification/Jwk.thy ===== *)
theory Jwk
  imports GoCrypto GoJson
begin

text \<open>
  Public JSON Web Keys (\<open>internal/pop/jwk.go\<close>): parsing with the refusal of private members, the
  checks on the key material, the algorithm a key implies, and the canonical form whose SHA-256 is
  the RFC 7638 thumbprint. The on-curve check of \<open>crypto/ecdh\<close> is written out for P-256.
\<close>

subsection \<open>Numbers and keys\<close>

definition AlgEdDSA :: string where "AlgEdDSA = ''EdDSA''"
definition AlgES256 :: string where "AlgES256 = ''ES256''"
definition AlgRS256 :: string where "AlgRS256 = ''RS256''"

definition AllowedAlgs :: "string list" where
  "AllowedAlgs = [AlgEdDSA, AlgES256, AlgRS256]"

lemmas alg_defs = AlgEdDSA_def AlgES256_def AlgRS256_def

text \<open>\<open>crypto.JWK_PublicKey\<close>: an Ed25519 key is its bytes, a P-256 key its coordinates, an RSA key its
  modulus and exponent; a key of another type or curve is opaque.\<close>

datatype pubkey = Ed25519Key string | P256Key nat nat | RSAKey nat nat | OtherKey string

text \<open>\<open>big.Int.SetBytes\<close> and \<open>big.Int.Bytes\<close>.\<close>

definition be_val :: "string \<Rightarrow> nat" where
  "be_val s = foldl (\<lambda>a c. 256 * a + byte c) 0 s"

fun min_bytes :: "nat \<Rightarrow> string" where
  "min_bytes n = (if n = 0 then [] else min_bytes (n div 256) @ [char_of n])"

declare min_bytes.simps [simp del]

definition p256_p :: nat where
  "p256_p = 2 ^ 256 - 2 ^ 224 + 2 ^ 192 + 2 ^ 96 - 1"

definition p256_b :: nat where
  "p256_b = 0x5ac635d8aa3a93e7b3ebbd55769886bc651d06b0cc53b0f63bce3c3e27d2604b"

text \<open>\<open>ecdh.P256().NewPublicKey\<close> on an uncompressed point: reduced coordinates on the curve.\<close>

definition on_p256 :: "nat \<Rightarrow> nat \<Rightarrow> bool" where
  "on_p256 x y \<longleftrightarrow> x < p256_p \<and> y < p256_p
     \<and> (int y ^ 2 - (int x ^ 3 - 3 * int x + int p256_b)) mod int p256_p = 0"

definition minRSABits :: nat where "minRSABits = 2048"

subsection \<open>The JWK\<close>

record JWK =
  jwk_Kty :: string
  jwk_Crv :: string
  jwk_X :: string
  jwk_Y :: string
  jwk_N :: string
  jwk_E :: string
  jwk_Alg :: string
  jwk_Kid :: string
  jwk_Use :: string

definition empty_jwk :: JWK where
  "empty_jwk = \<lparr>jwk_Kty = '''', jwk_Crv = '''', jwk_X = '''', jwk_Y = '''', jwk_N = '''', jwk_E = '''', jwk_Alg = '''',
     jwk_Kid = '''', jwk_Use = ''''\<rparr>"

datatype jwk_err = ErrJSON | ErrPrivateKeyMaterial | ErrKty | ErrCurve | ErrKeyMaterial | ErrShortRSA | ErrExponent | ErrAlgMismatch

definition privateMembers :: "string list" where
  "privateMembers = [''d'', ''p'', ''q'', ''dp'', ''dq'', ''qi'', ''oth'', ''k'']"

definition JWK_PublicKey :: "JWK \<Rightarrow> jwk_err + pubkey" where
  "JWK_PublicKey j =
    (if jwk_Kty j = ''OKP'' then
       (if jwk_Crv j \<noteq> ''Ed25519'' then Inl ErrCurve
        else (case RawURLDecode (jwk_X j) of
            Some x \<Rightarrow> if length x = 32 then Inr (Ed25519Key x) else Inl ErrKeyMaterial
          | None \<Rightarrow> Inl ErrKeyMaterial))
     else if jwk_Kty j = ''EC'' then
       (if jwk_Crv j \<noteq> ''P-256'' then Inl ErrCurve
        else (case (RawURLDecode (jwk_X j), RawURLDecode (jwk_Y j)) of
            (Some x, Some y) \<Rightarrow> if length x \<noteq> 32 \<or> length y \<noteq> 32 then Inl ErrKeyMaterial
               else if \<not> on_p256 (be_val x) (be_val y) then Inl ErrKeyMaterial
               else Inr (P256Key (be_val x) (be_val y))
          | _ \<Rightarrow> Inl ErrKeyMaterial))
     else if jwk_Kty j = ''RSA'' then
       (case (RawURLDecode (jwk_N j), RawURLDecode (jwk_E j)) of
            (Some n, Some e) \<Rightarrow> if n = [] \<or> e = [] \<or> 4 < length e then Inl ErrKeyMaterial
               else if be_val n < 2 ^ (minRSABits - 1) then Inl ErrShortRSA
               else if be_val e < 3 \<or> even (be_val e) then Inl ErrExponent
               else Inr (RSAKey (be_val n) (be_val e))
          | _ \<Rightarrow> Inl ErrKeyMaterial)
     else Inl ErrKty)"

definition kty_alg :: "string \<Rightarrow> string option" where
  "kty_alg kty = (if kty = ''OKP'' then Some AlgEdDSA else if kty = ''EC'' then Some AlgES256
     else if kty = ''RSA'' then Some AlgRS256 else None)"

definition JWK_Algorithm :: "JWK \<Rightarrow> jwk_err + string" where
  "JWK_Algorithm j = (case kty_alg (jwk_Kty j) of None \<Rightarrow> Inl ErrKty
     | Some alg \<Rightarrow> if jwk_Alg j \<noteq> [] \<and> jwk_Alg j \<noteq> alg then Inl ErrAlgMismatch else Inr alg)"

text \<open>How \<open>json.Unmarshal\<close> fills the struct: each member sets the field of its name, compared without
  regard to case; \<open>null\<close> leaves the field alone, and a value that is not a string is an error.\<close>

definition fold_name :: "string \<Rightarrow> string" where
  "fold_name s = concat (map (\<lambda>(r, b). if r < 128 then map lower_char b
     else if r = 8490 then ''k'' else if r = 383 then ''s'' else b) (runes s))"

definition set_field :: "string \<Rightarrow> string \<Rightarrow> JWK \<Rightarrow> JWK option" where
  "set_field name v j =
    (if name = ''kty'' then Some (j\<lparr>jwk_Kty := v\<rparr>) else if name = ''crv'' then Some (j\<lparr>jwk_Crv := v\<rparr>)
     else if name = ''x'' then Some (j\<lparr>jwk_X := v\<rparr>) else if name = ''y'' then Some (j\<lparr>jwk_Y := v\<rparr>)
     else if name = ''n'' then Some (j\<lparr>jwk_N := v\<rparr>) else if name = ''e'' then Some (j\<lparr>jwk_E := v\<rparr>)
     else if name = ''alg'' then Some (j\<lparr>jwk_Alg := v\<rparr>) else if name = ''kid'' then Some (j\<lparr>jwk_Kid := v\<rparr>)
     else if name = ''use'' then Some (j\<lparr>jwk_Use := v\<rparr>) else None)"

fun unmarshal_jwk :: "(string \<times> json) list \<Rightarrow> JWK \<Rightarrow> JWK option" where
  "unmarshal_jwk [] j = Some j"
| "unmarshal_jwk ((k, v) # ms) j = (case set_field (fold_name k) '''' j of
     None \<Rightarrow> unmarshal_jwk ms j
   | Some _ \<Rightarrow> (case v of
        JStr s \<Rightarrow> unmarshal_jwk ms (the (set_field (fold_name k) s j))
      | JNull \<Rightarrow> unmarshal_jwk ms j
      | _ \<Rightarrow> None))"

text \<open>\<open>ParseJWK\<close> on a decoded value, and on a text.\<close>

definition ParseJWK_value :: "json \<Rightarrow> jwk_err + JWK" where
  "ParseJWK_value v =
    (case (case v of JObj ms \<Rightarrow> Some ms | JNull \<Rightarrow> Some [] | _ \<Rightarrow> None) of
       None \<Rightarrow> Inl ErrJSON
     | Some members \<Rightarrow>
       if list_ex (\<lambda>m. m \<in> fst ` set members) privateMembers then Inl ErrPrivateKeyMaterial
       else (case unmarshal_jwk members empty_jwk of
          None \<Rightarrow> Inl ErrJSON
        | Some j \<Rightarrow> (case JWK_PublicKey j of Inl e \<Rightarrow> Inl e
            | Inr _ \<Rightarrow> (case JWK_Algorithm j of Inl e \<Rightarrow> Inl e | Inr _ \<Rightarrow> Inr j))))"

definition ParseJWK :: "string \<Rightarrow> jwk_err + JWK" where
  "ParseJWK raw = (case json_decode raw of None \<Rightarrow> Inl ErrJSON | Some v \<Rightarrow> ParseJWK_value v)"

definition FromPublicKey :: "pubkey \<Rightarrow> jwk_err + JWK" where
  "FromPublicKey pub = (case pub of
       Ed25519Key k \<Rightarrow> Inr (empty_jwk\<lparr>jwk_Kty := ''OKP'', jwk_Crv := ''Ed25519'', jwk_X := RawURLEncode k, jwk_Alg := AlgEdDSA\<rparr>)
     | P256Key x y \<Rightarrow> Inr (empty_jwk\<lparr>jwk_Kty := ''EC'', jwk_Crv := ''P-256'', jwk_Alg := AlgES256,
          jwk_X := RawURLEncode (be_bytes 32 x), jwk_Y := RawURLEncode (be_bytes 32 y)\<rparr>)
     | RSAKey n e \<Rightarrow> if n < 2 ^ (minRSABits - 1) then Inl ErrShortRSA
          else Inr (empty_jwk\<lparr>jwk_Kty := ''RSA'', jwk_Alg := AlgRS256, jwk_N := RawURLEncode (min_bytes n),
            jwk_E := RawURLEncode (min_bytes e)\<rparr>)
     | OtherKey _ \<Rightarrow> Inl ErrKty)"

definition canonical :: "JWK \<Rightarrow> jwk_err + string" where
  "canonical j = (case JWK_PublicKey j of Inl e \<Rightarrow> Inl e
     | Inr _ \<Rightarrow>
       if jwk_Kty j = ''OKP'' then
         Inr (''{'' @ jstr ''crv'' @ '':'' @ jstr (jwk_Crv j) @ '','' @ jstr ''kty'' @ '':'' @ jstr ''OKP'' @ '',''
            @ jstr ''x'' @ '':'' @ jstr (jwk_X j) @ ''}'')
       else if jwk_Kty j = ''EC'' then
         Inr (''{'' @ jstr ''crv'' @ '':'' @ jstr (jwk_Crv j) @ '','' @ jstr ''kty'' @ '':'' @ jstr ''EC'' @ '',''
            @ jstr ''x'' @ '':'' @ jstr (jwk_X j) @ '','' @ jstr ''y'' @ '':'' @ jstr (jwk_Y j) @ ''}'')
       else Inr (''{'' @ jstr ''e'' @ '':'' @ jstr (jwk_E j) @ '','' @ jstr ''kty'' @ '':'' @ jstr ''RSA'' @ '',''
            @ jstr ''n'' @ '':'' @ jstr (jwk_N j) @ ''}''))"

definition Thumbprint :: "JWK \<Rightarrow> jwk_err + string" where
  "Thumbprint j = (case canonical j of Inl e \<Rightarrow> Inl e | Inr c \<Rightarrow> Inr (RawURLEncode (Sum256 c)))"

definition SigningAlgorithm :: "pubkey \<Rightarrow> jwk_err + string" where
  "SigningAlgorithm pub = (case FromPublicKey pub of Inl e \<Rightarrow> Inl e | Inr j \<Rightarrow> JWK_Algorithm j)"

subsection \<open>What parsing accepts\<close>

text \<open>The strength the program asks of a key, and the algorithm that goes with its type.\<close>

definition strong_key :: "pubkey \<Rightarrow> bool" where
  "strong_key k = (case k of Ed25519Key x \<Rightarrow> length x = 32 | P256Key x y \<Rightarrow> on_p256 x y
     | RSAKey n e \<Rightarrow> 2 ^ (minRSABits - 1) \<le> n \<and> 3 \<le> e \<and> odd e \<and> e < 2 ^ 32 | OtherKey _ \<Rightarrow> False)"

definition key_alg :: "pubkey \<Rightarrow> string" where
  "key_alg k = (case k of Ed25519Key _ \<Rightarrow> AlgEdDSA | P256Key _ _ \<Rightarrow> AlgES256 | RSAKey _ _ \<Rightarrow> AlgRS256 | OtherKey _ \<Rightarrow> '''')"

lemma be_val_snoc: "be_val (s @ [c]) = 256 * be_val s + byte c"
  by (simp add: be_val_def)

lemma be_val_less: "be_val s < 256 ^ length s"
proof (induction s rule: rev_induct)
  case (snoc c s)
  have "256 * be_val s + byte c < 256 * be_val s + 256" by simp
  also have "\<dots> \<le> 256 * 256 ^ length s" using snoc by (metis mult_Suc_right mult_le_mono2 Suc_leI add.commute)
  finally show ?case by (simp add: be_val_snoc)
qed (simp add: be_val_def)

lemma be_val_min_bytes: "be_val (min_bytes n) = n"
proof (induction n rule: min_bytes.induct)
  case (1 n)
  show ?case
  proof (cases "n = 0")
    case True
    then show ?thesis by (simp add: min_bytes.simps [of 0] be_val_def)
  next
    case False
    then show ?thesis
      using 1 by (simp add: min_bytes.simps [of n] be_val_snoc)
  qed
qed

lemma min_bytes_Nil: "min_bytes n = [] \<longleftrightarrow> n = 0"
  by (simp add: min_bytes.simps [of n])

lemma length_min_bytes: "n < 256 ^ k \<Longrightarrow> length (min_bytes n) \<le> k"
proof (induction k arbitrary: n)
  case 0
  then show ?case by (simp add: min_bytes.simps [of 0])
next
  case (Suc k)
  show ?case
  proof (cases "n = 0")
    case False
    have "n div 256 < 256 ^ k" using Suc.prems by (simp add: less_mult_imp_div_less mult.commute)
    then show ?thesis using Suc.IH [of "n div 256"] by (simp add: min_bytes.simps [of n])
  qed (simp add: min_bytes.simps [of 0])
qed

lemma be_bytes_Suc: "be_bytes (Suc n) v = be_bytes n (v div 256) @ [char_of v]"
proof -
  have "map (\<lambda>i. char_of (v div 256 ^ (Suc n - 1 - i))) [0..<n] = map (\<lambda>i. char_of (v div 256 div 256 ^ (n - 1 - i)) :: char) [0..<n]"
  proof (rule map_cong [OF refl])
    fix i assume "i \<in> set [0..<n]"
    then have "Suc n - 1 - i = Suc (n - 1 - i)" by auto
    then show "char_of (v div 256 ^ (Suc n - 1 - i)) = (char_of (v div 256 div 256 ^ (n - 1 - i)) :: char)"
      by (simp add: div_mult2_eq)
  qed
  then show ?thesis by (simp add: be_bytes_def)
qed

lemma be_val_be_bytes: "v < 256 ^ n \<Longrightarrow> be_val (be_bytes n v) = v"
proof (induction n arbitrary: v)
  case 0
  then show ?case by (simp add: be_bytes_def be_val_def)
next
  case (Suc n)
  have "v div 256 < 256 ^ n" using Suc.prems by (simp add: less_mult_imp_div_less mult.commute)
  then show ?case using Suc.IH by (simp add: be_bytes_Suc be_val_snoc)
qed

lemma length_be_bytes [simp]: "length (be_bytes n v) = n"
  by (simp add: be_bytes_def)

lemma strong_of_JWK:
  assumes "JWK_PublicKey j = Inr k"
  shows "strong_key k \<and> kty_alg (jwk_Kty j) = Some (key_alg k)"
proof -
  have e: "be_val s < 2 ^ 32" if "length s \<le> 4" for s
  proof -
    have "be_val s < 256 ^ length s" by (rule be_val_less)
    also have "\<dots> \<le> 256 ^ 4" using that by (intro power_increasing) auto
    finally show ?thesis by simp
  qed
  show ?thesis
    using assms e unfolding JWK_PublicKey_def
    by (auto simp: strong_key_def key_alg_def kty_alg_def split: if_split_asm option.split_asm prod.split_asm)
qed

text \<open>A JWK is accepted only if it is a JSON object without private members whose key is strong
  enough: a 32-byte Ed25519 key, a point on P-256, or an RSA modulus of at least 2048 bits with an odd
  exponent of at least 3; the algorithm is the one of the key type, whatever the key claims.\<close>

theorem ParseJWK_sound:
  assumes "ParseJWK raw = Inr j"
  shows "\<exists>ms k. json_decode raw = Some (JObj ms) \<and> set privateMembers \<inter> fst ` set ms = {}
    \<and> JWK_PublicKey j = Inr k \<and> strong_key k \<and> JWK_Algorithm j = Inr (key_alg k)"
proof -
  obtain v where v: "json_decode raw = Some v" "ParseJWK_value v = Inr j"
    using assms by (auto simp: ParseJWK_def split: option.splits)
  then obtain ms where ms: "v = JObj ms \<or> (v = JNull \<and> ms = [])"
    "\<not> list_ex (\<lambda>m. m \<in> fst ` set ms) privateMembers" "unmarshal_jwk ms empty_jwk = Some j"
    and k: "\<exists>k. JWK_PublicKey j = Inr k" "\<exists>a. JWK_Algorithm j = Inr a"
    by (auto simp: ParseJWK_value_def split: json.splits if_split_asm option.splits sum.splits)
  from k obtain k a where k: "JWK_PublicKey j = Inr k" "JWK_Algorithm j = Inr a" by blast
  have "v = JObj ms"
    using ms(1,3) k(1) by (auto simp: empty_jwk_def JWK_PublicKey_def)
  then show ?thesis
    using v(1) ms(2) k strong_of_JWK [OF k(1)]
    by (auto simp: list_ex_iff JWK_Algorithm_def split: if_splits)
qed

subsection \<open>The canonical form\<close>

lemma alphabet_index_mem: "alphabet_index al a = Some i \<Longrightarrow> a \<in> set al"
proof (rule ccontr)
  assume i: "alphabet_index al a = Some i" and a: "a \<notin> set al"
  from a have "takeWhile (\<lambda>b. b \<noteq> a) al = al" by (induction al) auto
  with i show False by (simp add: alphabet_index_def)
qed

lemma digits_of_mem: "digits_of al s = Some ds \<Longrightarrow> set s \<subseteq> set al"
  by (induction s arbitrary: ds) (auto intro: alphabet_index_mem split: option.splits)

lemma b64url_ascii: "c \<in> set b64url_alphabet \<Longrightarrow> byte c < 128"
proof -
  have "list_all (\<lambda>c. byte c < (128::nat)) b64url_alphabet" by code_simp
  then show "c \<in> set b64url_alphabet \<Longrightarrow> byte c < 128" by (simp add: list_all_iff)
qed

lemma RawURLDecode_ascii:
  assumes "RawURLDecode s = Some b"
  shows "ascii s"
proof -
  obtain ds where "digits_of b64url_alphabet (strip_newlines s) = Some ds"
    using assms by (auto simp: RawURLDecode_def b64_decode_def split: option.splits)
  from digits_of_mem [OF this] have "c \<in> set b64url_alphabet \<or> c = CHR 10 \<or> c = CHR 13" if "c \<in> set s" for c
    using that by (auto simp: strip_newlines_def)
  then have "byte c < 128" if "c \<in> set s" for c
    using that b64url_ascii by fastforce
  then show ?thesis by (simp add: ascii_def list_all_iff)
qed

lemma RawURLEncode_ascii: "ascii (RawURLEncode s)"
  using RawURL_roundtrip by (rule RawURLDecode_ascii)

lemma RawURLEncode_Nil: "RawURLEncode s = '''' \<longleftrightarrow> s = ''''"
proof
  assume e: "RawURLEncode s = ''''"
  have "RawURLDecode (RawURLEncode s) = Some s" by (rule RawURL_roundtrip)
  moreover have "RawURLDecode '''' = Some ''''" by code_simp
  ultimately show "s = ''''" by (simp add: e)
next
  have "RawURLEncode '''' = ''''" by code_simp
  then show "s = '''' \<Longrightarrow> RawURLEncode s = ''''" by simp
qed

lemma key_texts_not_Nil:
  assumes "2 ^ (minRSABits - 1) \<le> n" and "3 \<le> e"
  shows "RawURLEncode (min_bytes n) \<noteq> ''''" "RawURLEncode (min_bytes e) \<noteq> ''''"
proof -
  have "n \<noteq> 0" using assms(1) by (metis gr0I le_zero_eq power_not_zero zero_neq_numeral)
  then show "RawURLEncode (min_bytes n) \<noteq> ''''" "RawURLEncode (min_bytes e) \<noteq> ''''"
    using assms(2) by (simp_all add: RawURLEncode_Nil min_bytes_Nil)
qed

text \<open>The members the canonical form keeps.\<close>

definition required :: "JWK \<Rightarrow> JWK" where
  "required j = (if jwk_Kty j = ''OKP'' then empty_jwk\<lparr>jwk_Kty := ''OKP'', jwk_Crv := jwk_Crv j, jwk_X := jwk_X j\<rparr>
     else if jwk_Kty j = ''EC'' then empty_jwk\<lparr>jwk_Kty := ''EC'', jwk_Crv := jwk_Crv j, jwk_X := jwk_X j, jwk_Y := jwk_Y j\<rparr>
     else empty_jwk\<lparr>jwk_Kty := ''RSA'', jwk_N := jwk_N j, jwk_E := jwk_E j\<rparr>)"

lemma fold_name_ascii: "ascii s \<Longrightarrow> fold_name s = map lower_char s"
  by (induction s) (auto simp: fold_name_def runes_ascii ascii_def)

lemma fold_names [simp]:
  "fold_name ''kty'' = ''kty''" "fold_name ''crv'' = ''crv''" "fold_name ''x'' = ''x''" "fold_name ''y'' = ''y''"
  "fold_name ''n'' = ''n''" "fold_name ''e'' = ''e''"
  by (simp_all add: fold_name_ascii ascii_def lower_char_def)

lemma ascii_names [simp]:
  "ascii ''kty''" "ascii ''crv''" "ascii ''x''" "ascii ''y''" "ascii ''n''" "ascii ''e''" "ascii ''OKP''" "ascii ''EC''"
  "ascii ''RSA''" "ascii ''Ed25519''" "ascii ''P-256''"
  by (simp_all add: ascii_def)

lemma PublicKey_required: "JWK_PublicKey j = Inr k \<Longrightarrow> JWK_PublicKey (required j) = Inr k"
  unfolding JWK_PublicKey_def
  by (auto simp: required_def empty_jwk_def cong: option.case_cong split: if_split_asm)

lemma Algorithm_required: "JWK_PublicKey j = Inr k \<Longrightarrow> JWK_Algorithm (required j) = Inr (key_alg k)"
  using strong_of_JWK [of j k]
  by (auto simp: required_def empty_jwk_def JWK_Algorithm_def kty_alg_def alg_defs key_alg_def split: if_splits)

lemma canonical_OKP:
  assumes "jwk_Kty j = ''OKP''" "JWK_PublicKey j = Inr k"
  shows "canonical j = Inr (CHR ''{'' # members_text [(''crv'', jwk_Crv j), (''kty'', ''OKP''), (''x'', jwk_X j)] @ ''}'')"
  using assms by (simp add: canonical_def)

lemma canonical_EC:
  assumes "jwk_Kty j = ''EC''" "JWK_PublicKey j = Inr k"
  shows "canonical j = Inr (CHR ''{'' # members_text [(''crv'', jwk_Crv j), (''kty'', ''EC''), (''x'', jwk_X j), (''y'', jwk_Y j)] @ ''}'')"
  using assms by (simp add: canonical_def)

lemma canonical_RSA:
  assumes "jwk_Kty j = ''RSA''" "JWK_PublicKey j = Inr k"
  shows "canonical j = Inr (CHR ''{'' # members_text [(''e'', jwk_E j), (''kty'', ''RSA''), (''n'', jwk_N j)] @ ''}'')"
  using assms by (simp add: canonical_def)

lemma ParseJWK_canonical:
  assumes k: "JWK_PublicKey j = Inr k" and c: "canonical j = Inr c"
  shows "ParseJWK c = Inr (required j)"
proof -
  note v = PublicKey_required [OF k] Algorithm_required [OF k]
  consider "jwk_Kty j = ''OKP''" | "jwk_Kty j = ''EC''" | "jwk_Kty j = ''RSA''"
    using k by (auto simp: JWK_PublicKey_def split: if_split_asm)
  then show ?thesis
  proof cases
    case 1
    with k have "jwk_Crv j = ''Ed25519''" "ascii (jwk_X j)"
      by (auto simp: JWK_PublicKey_def intro: RawURLDecode_ascii split: if_split_asm option.split_asm)
    then have "json_decode c = Some (JObj [(''crv'', JStr (jwk_Crv j)), (''kty'', JStr ''OKP''), (''x'', JStr (jwk_X j))])"
      using canonical_OKP [OF 1 k] c json_decode_members [of "[(''crv'', jwk_Crv j), (''kty'', ''OKP''), (''x'', jwk_X j)]"]
      by simp
    with v 1 show ?thesis
      by (simp add: ParseJWK_def ParseJWK_value_def privateMembers_def set_field_def empty_jwk_def required_def)
  next
    case 2
    with k have "jwk_Crv j = ''P-256''" "ascii (jwk_X j)" "ascii (jwk_Y j)"
      by (auto simp: JWK_PublicKey_def intro: RawURLDecode_ascii split: if_split_asm option.split_asm prod.split_asm)
    then have "json_decode c = Some (JObj [(''crv'', JStr (jwk_Crv j)), (''kty'', JStr ''EC''), (''x'', JStr (jwk_X j)), (''y'', JStr (jwk_Y j))])"
      using canonical_EC [OF 2 k] c json_decode_members [of "[(''crv'', jwk_Crv j), (''kty'', ''EC''), (''x'', jwk_X j), (''y'', jwk_Y j)]"]
      by simp
    with v 2 show ?thesis
      by (simp add: ParseJWK_def ParseJWK_value_def privateMembers_def set_field_def empty_jwk_def required_def)
  next
    case 3
    with k have "ascii (jwk_E j)" "ascii (jwk_N j)"
      by (auto simp: JWK_PublicKey_def intro: RawURLDecode_ascii split: if_split_asm option.split_asm prod.split_asm)
    then have "json_decode c = Some (JObj [(''e'', JStr (jwk_E j)), (''kty'', JStr ''RSA''), (''n'', JStr (jwk_N j))])"
      using canonical_RSA [OF 3 k] c json_decode_members [of "[(''e'', jwk_E j), (''kty'', ''RSA''), (''n'', jwk_N j)]"]
      by simp
    with v 3 show ?thesis
      by (simp add: ParseJWK_def ParseJWK_value_def privateMembers_def set_field_def empty_jwk_def required_def)
  qed
qed

lemma canonical_defined: "JWK_PublicKey j = Inr k \<Longrightarrow> \<exists>c. canonical j = Inr c"
  by (simp add: canonical_def)

lemma canonical_key: "canonical j = Inr c \<Longrightarrow> \<exists>k. JWK_PublicKey j = Inr k"
  by (auto simp: canonical_def split: sum.splits)

subsection \<open>Round trips and thumbprints\<close>

lemma PublicKey_frame [simp]:
  "JWK_PublicKey (j\<lparr>jwk_Alg := a\<rparr>) = JWK_PublicKey j" "JWK_PublicKey (j\<lparr>jwk_Kid := a\<rparr>) = JWK_PublicKey j"
  by (simp_all add: JWK_PublicKey_def cong: option.case_cong if_cong)

lemma canonical_frame [simp]:
  "canonical (j\<lparr>jwk_Alg := a\<rparr>) = canonical j" "canonical (j\<lparr>jwk_Kid := a\<rparr>) = canonical j"
  by (simp_all add: canonical_def cong: sum.case_cong if_cong)

lemma FromPublicKey_strong:
  assumes "strong_key k"
  shows "\<exists>j. FromPublicKey k = Inr j \<and> JWK_PublicKey j = Inr k \<and> JWK_Algorithm j = Inr (key_alg k)
    \<and> required j = j\<lparr>jwk_Alg := ''''\<rparr>"
proof (cases k)
  case (Ed25519Key x)
  then show ?thesis using assms
    by (simp add: strong_key_def FromPublicKey_def JWK_PublicKey_def JWK_Algorithm_def kty_alg_def key_alg_def
        required_def empty_jwk_def RawURL_roundtrip)
next
  case (P256Key x y)
  have "p256_p < 256 ^ 32" by (simp add: p256_p_def)
  then have "x < 256 ^ 32" "y < 256 ^ 32" and "on_p256 x y"
    using assms P256Key by (auto simp: strong_key_def on_p256_def)
  with P256Key show ?thesis
    by (simp add: FromPublicKey_def JWK_PublicKey_def JWK_Algorithm_def kty_alg_def key_alg_def
        required_def empty_jwk_def RawURL_roundtrip be_val_be_bytes)
next
  case (RSAKey n e)
  then have n: "2 ^ (minRSABits - 1) \<le> n" and e: "3 \<le> e" "odd e" "e < 256 ^ 4"
    using assms by (auto simp: strong_key_def)
  have "0 < n" using n by (metis gr0I le_zero_eq power_not_zero zero_neq_numeral)
  moreover have "\<not> n < 2 ^ (minRSABits - 1)" using n by simp
  ultimately show ?thesis
    using RSAKey e length_min_bytes [OF e(3)]
    by (simp add: FromPublicKey_def JWK_PublicKey_def JWK_Algorithm_def kty_alg_def key_alg_def
        required_def empty_jwk_def RawURL_roundtrip be_val_min_bytes min_bytes_Nil)
qed (use assms in \<open>simp add: strong_key_def\<close>)

text \<open>A strong public key survives its journey to a JWK, to the canonical text kept in the database
  and back: the stored text parses, to a JWK with the same key, the algorithm of the key and the same
  thumbprint.\<close>

theorem stored_key_roundtrip:
  assumes "strong_key k"
  shows "\<exists>j c. FromPublicKey k = Inr j \<and> canonical j = Inr c
    \<and> (\<exists>j'. ParseJWK c = Inr j' \<and> JWK_PublicKey j' = Inr k \<and> JWK_Algorithm j' = Inr (key_alg k)
        \<and> Thumbprint j' = Thumbprint j)"
proof -
  obtain j where j: "FromPublicKey k = Inr j" "JWK_PublicKey j = Inr k" "required j = j\<lparr>jwk_Alg := ''''\<rparr>"
    using FromPublicKey_strong [OF assms] by blast
  obtain c where c: "canonical j = Inr c" using canonical_defined [OF j(2)] by blast
  have "canonical (required j) = canonical j"
    by (simp add: j(3))
  then have "Thumbprint (required j) = Thumbprint j" by (simp add: Thumbprint_def)
  with ParseJWK_canonical [OF j(2) c] PublicKey_required [OF j(2)] Algorithm_required [OF j(2)] j c
  show ?thesis by auto
qed

text \<open>A thumbprint determines the key: two JWKs with the same thumbprint hold the same public key, or
  their canonical forms are a collision of SHA-256.\<close>

theorem Thumbprint_identifies_key:
  assumes "Thumbprint j1 = Inr t" and "Thumbprint j2 = Inr t"
  shows "JWK_PublicKey j1 = JWK_PublicKey j2
    \<or> (\<exists>c1 c2. canonical j1 = Inr c1 \<and> canonical j2 = Inr c2 \<and> c1 \<noteq> c2 \<and> Sum256 c1 = Sum256 c2)"
proof -
  obtain c1 c2 where c: "canonical j1 = Inr c1" "canonical j2 = Inr c2"
    "t = RawURLEncode (Sum256 c1)" "t = RawURLEncode (Sum256 c2)"
    using assms by (auto simp: Thumbprint_def split: sum.splits)
  then have s: "Sum256 c1 = Sum256 c2" using RawURL_roundtrip by (metis option.inject)
  show ?thesis
  proof (cases "c1 = c2")
    case True
    obtain k1 k2 where k: "JWK_PublicKey j1 = Inr k1" "JWK_PublicKey j2 = Inr k2"
      using canonical_key c(1,2) by blast
    have "required j1 = required j2"
      using ParseJWK_canonical [OF k(1) c(1)] ParseJWK_canonical [OF k(2) c(2)] True by simp
    then show ?thesis using PublicKey_required [OF k(1)] PublicKey_required [OF k(2)] k by simp
  next
    case False
    then show ?thesis using c s by blast
  qed
qed

text \<open>The converse fails: the thumbprint is taken of the member texts as they came, and base64url ignores
  the two unused bits of the last digit and line ends, so one key has several canonical forms.\<close>

definition zero_key :: "string \<Rightarrow> JWK" where
  "zero_key end_digit = empty_jwk\<lparr>jwk_Kty := ''OKP'', jwk_Crv := ''Ed25519'', jwk_X := replicate 42 (CHR ''A'') @ end_digit\<rparr>"

text \<open>One Ed25519 key has more than one canonical form, hence more than one thumbprint unless SHA-256
  collides: a last digit that differs in unused bits, or a line end, gives the same key material.\<close>

theorem canonical_not_unique:
  "JWK_PublicKey (zero_key ''A'') = JWK_PublicKey (zero_key ''B'') \<and> canonical (zero_key ''A'') \<noteq> canonical (zero_key ''B'')
   \<and> JWK_PublicKey (zero_key ''A'') = JWK_PublicKey (zero_key (''A'' @ [CHR 10]))
   \<and> canonical (zero_key ''A'') \<noteq> canonical (zero_key (''A'' @ [CHR 10]))
   \<and> is_ok (canonical (zero_key ''A'')) \<and> is_ok (canonical (zero_key ''B'')) \<and> is_ok (canonical (zero_key (''A'' @ [CHR 10])))"
  by code_simp

theorem ParseJWK_sound_witness:
  "\<exists>ms k. json_decode ''{\"kty\":\"OKP\",\"crv\":\"Ed25519\",\"x\":\"AAAAAAAAAAAAAAAAAAAAAAAAAAAAAAAAAAAAAAAAAAA\"}'' = Some (JObj ms)
     \<and> set privateMembers \<inter> fst ` set ms = {} \<and> strong_key k"
proof -
  have "ParseJWK ''{\"kty\":\"OKP\",\"crv\":\"Ed25519\",\"x\":\"AAAAAAAAAAAAAAAAAAAAAAAAAAAAAAAAAAAAAAAAAAA\"}'' = Inr (zero_key ''A'')"
    by code_simp
  from ParseJWK_sound [OF this] show ?thesis by blast
qed

theorem stored_key_roundtrip_witness:
  "\<exists>j c. FromPublicKey (Ed25519Key (replicate 32 CHR ''k'')) = Inr j \<and> canonical j = Inr c
    \<and> (\<exists>j'. ParseJWK c = Inr j' \<and> JWK_PublicKey j' = Inr (Ed25519Key (replicate 32 CHR ''k'')))"
proof -
  have "strong_key (Ed25519Key (replicate 32 CHR ''k''))" by (simp add: strong_key_def)
  from stored_key_roundtrip [OF this] show ?thesis by blast
qed

theorem Thumbprint_identifies_key_witness:
  "\<exists>t. Thumbprint (zero_key ''A'') = Inr t \<and> JWK_PublicKey (zero_key ''A'') = JWK_PublicKey (zero_key ''A''\<lparr>jwk_Kid := ''x''\<rparr>)"
proof -
  have "is_ok (canonical (zero_key ''A''))" by code_simp
  then obtain t where t: "Thumbprint (zero_key ''A'') = Inr t"
    by (cases "canonical (zero_key ''A'')") (auto simp: Thumbprint_def)
  have "Thumbprint (zero_key ''A''\<lparr>jwk_Kid := ''x''\<rparr>) = Inr t"
    using t by (simp add: Thumbprint_def)
  from Thumbprint_identifies_key [OF t this] show ?thesis
    using t by auto
qed

end
