(* ===== verification/Jwt.thy ===== *)
theory Jwt
  imports Samples Jwk
begin

text \<open>
  JSON Web Tokens (\<open>internal/tokens\<close>): the claims of each kind of token (\<open>jwt.go\<close>), their
  verification, and the signing keys kept in the database (\<open>keys.go\<close>).

  The JWT library is third-party code and an argument \<open>lib\<close> of the definitions: signing,
  parsing with verification, and parsing without. \<open>jwt_contract\<close> states the documented
  behaviour of the parser the program relies on. Key pairs are opaque: a PEM encoding is
  read by an argument \<open>pem\<close> that returns the private and the public key.
\<close>

subsection \<open>Claims\<close>

type_synonym claims = "string \<Rightarrow> json option"

fun str_of :: "json option \<Rightarrow> string" where
  "str_of (Some (JStr s)) = s"
| "str_of _ = ''''"

definition jint :: "int \<Rightarrow> json" where
  "jint i = JNum (of_int i)"

text \<open>The options of a parser, and the library.\<close>

record jwt_opts =
  jo_methods :: "string list"
  jo_validate :: bool
  jo_issuer :: "string option"
  jo_audience :: "string option"
  jo_exp_required :: bool
  jo_iat :: bool
  jo_leeway :: duration
  jo_now :: time

record jwtlib =
  jl_Sign :: "string \<Rightarrow> string \<Rightarrow> claims \<Rightarrow> claims \<Rightarrow> string option"
  jl_Parse :: "jwt_opts \<Rightarrow> (claims \<Rightarrow> pubkey option) \<Rightarrow> string \<Rightarrow> (claims \<times> claims) option"
  jl_ParseUnverified :: "string \<Rightarrow> (claims \<times> claims) option"
  jl_Signed :: "string \<Rightarrow> string \<Rightarrow> pubkey \<Rightarrow> bool"

definition audience_of :: "json option \<Rightarrow> string list" where
  "audience_of v = (case v of Some (JStr s) \<Rightarrow> [s]
     | Some (JArr xs) \<Rightarrow> map (\<lambda>x. str_of (Some x)) xs | _ \<Rightarrow> [])"

text \<open>What the library checks of the claims: a time claim against the clock with the leeway, the
  expected issuer and audience.\<close>

definition claims_valid :: "jwt_opts \<Rightarrow> claims \<Rightarrow> bool" where
  "claims_valid opts c \<longleftrightarrow>
     (case c ''exp'' of None \<Rightarrow> \<not> jo_exp_required opts
        | Some (JNum n) \<Rightarrow> jo_now opts < time_of_Unix \<lceil>n\<rceil> + jo_leeway opts
        | Some _ \<Rightarrow> False)
   \<and> (jo_iat opts \<longrightarrow> (case c ''iat'' of Some (JNum n) \<Rightarrow> time_of_Unix \<lfloor>n\<rfloor> - jo_leeway opts \<le> jo_now opts
        | Some _ \<Rightarrow> False | None \<Rightarrow> True))
   \<and> (case c ''nbf'' of Some (JNum n) \<Rightarrow> time_of_Unix \<lfloor>n\<rfloor> - jo_leeway opts \<le> jo_now opts
        | Some _ \<Rightarrow> False | None \<Rightarrow> True)
   \<and> (case jo_issuer opts of None \<Rightarrow> True | Some i \<Rightarrow> c ''iss'' = Some (JStr i))
   \<and> (case jo_audience opts of None \<Rightarrow> True | Some a \<Rightarrow> a \<in> set (audience_of (c ''aud'')))"

text \<open>The contract of \<open>ParseWithClaims\<close>: it returns the header and claims of the token, having checked
  that its algorithm is an allowed one, that the key function gave a key for its header, and that
  the signature verifies under that key; and, unless told not to, the claims.\<close>

definition jwt_contract :: "jwtlib \<Rightarrow> bool" where
  "jwt_contract lib \<longleftrightarrow> (\<forall>opts kf raw h c. jl_Parse lib opts kf raw = Some (h, c) \<longrightarrow>
     jl_ParseUnverified lib raw = Some (h, c)
   \<and> (\<exists>key. kf h = Some key \<and> str_of (h ''alg'') \<in> set (jo_methods opts) \<and> jl_Signed lib raw (str_of (h ''alg'')) key)
   \<and> (jo_validate opts \<longrightarrow> claims_valid opts c))"

subsection \<open>keys.go\<close>

record Signer =
  sg_KID :: string
  sg_Alg :: string
  sg_Key :: string

record KeyManager =
  km_signers :: "string \<Rightarrow> Signer option"
  km_verifiers :: "string \<Rightarrow> pubkey option"
  km_jwks :: string

text \<open>The JSON of the local \<open>jwk\<close> struct: its members in order, the last four left out when empty.\<close>

definition signing_jwk :: "string \<Rightarrow> string \<Rightarrow> string \<Rightarrow> (string \<times> string) list \<Rightarrow> string" where
  "signing_jwk kty alg kid material = CHR ''{'' # members_text ([(''kty'', kty), (''use'', ''sig''), (''alg'', alg), (''kid'', kid)]
     @ filter (\<lambda>m. snd m \<noteq> '''') material) @ ''}''"

definition newSigningKeyModel :: "string \<Rightarrow> string \<Rightarrow> string \<Rightarrow> string \<Rightarrow> time \<Rightarrow> SigningKey" where
  "newSigningKeyModel kid alg publicJWK privatePEM now =
     \<lparr>sk_KID = kid, sk_Alg = alg, sk_PublicJWK = publicJWK, sk_PrivatePEM = privatePEM, sk_Active = True, sk_CreatedAt = now\<rparr>"

text \<open>What the generators of \<open>crypto/rsa\<close> and \<open>crypto/ed25519\<close> and the encoder of PKCS #8 return: the random
  bytes of the key id, the public key and the PEM of the private one; \<open>None\<close> when they fail.\<close>

record keygen =
  kg_rsa :: "(string \<times> nat \<times> nat \<times> string) option"
  kg_ed25519 :: "(string \<times> string \<times> string) option"

definition newKID :: "string \<Rightarrow> string" where
  "newKID rnd = RawURLEncode rnd"

definition generateRSAKey :: "keygen \<Rightarrow> time \<Rightarrow> SigningKey option" where
  "generateRSAKey gen now = (case kg_rsa gen of None \<Rightarrow> None
     | Some (rnd, n, e, pem) \<Rightarrow> Some (newSigningKeyModel (newKID rnd) AlgRS256
         (signing_jwk ''RSA'' AlgRS256 (newKID rnd) [(''n'', RawURLEncode (min_bytes n)), (''e'', RawURLEncode (min_bytes e))]) pem now))"

definition generateEd25519Key :: "keygen \<Rightarrow> time \<Rightarrow> SigningKey option" where
  "generateEd25519Key gen now = (case kg_ed25519 gen of None \<Rightarrow> None
     | Some (rnd, pub, pem) \<Rightarrow> Some (newSigningKeyModel (newKID rnd) AlgEdDSA
         (signing_jwk ''OKP'' AlgEdDSA (newKID rnd) [(''crv'', ''Ed25519''), (''x'', RawURLEncode pub)]) pem now))"

definition generateKey :: "keygen \<Rightarrow> string \<Rightarrow> time \<Rightarrow> SigningKey option" where
  "generateKey gen alg now = (if alg = AlgRS256 then generateRSAKey gen now
     else if alg = AlgEdDSA then generateEd25519Key gen now else None)"

fun load_keys :: "(string \<Rightarrow> (string \<times> pubkey) option) \<Rightarrow> SigningKey list \<Rightarrow> KeyManager \<Rightarrow> KeyManager option" where
  "load_keys pem [] km = Some km"
| "load_keys pem (k # ks) km = (case pem (sk_PrivatePEM k) of
     None \<Rightarrow> None
   | Some (priv, pub) \<Rightarrow>
       let km1 = km\<lparr>km_verifiers := (km_verifiers km)(sk_KID k \<mapsto> pub)\<rparr>;
           km2 = (if sk_Active k \<and> km_signers km1 (sk_Alg k) = None
                  then km1\<lparr>km_signers := (km_signers km1)(sk_Alg k \<mapsto> \<lparr>sg_KID = sk_KID k, sg_Alg = sk_Alg k, sg_Key = priv\<rparr>)\<rparr>
                  else km1)
       in load_keys pem ks km2)"

definition load :: "(string \<Rightarrow> (string \<times> pubkey) option) \<Rightarrow> db \<Rightarrow> KeyManager option" where
  "load pem d = (case ListSigningKeys d of
     Inl _ \<Rightarrow> None
   | Inr keys \<Rightarrow> map_option (\<lambda>km. km\<lparr>km_jwks := ''{\"keys\":['' @ intercalate '','' (map sk_PublicJWK keys) @ '']}''\<rparr>)
       (load_keys pem keys \<lparr>km_signers = Map.empty, km_verifiers = Map.empty, km_jwks = ''''\<rparr>))"

fun ensure_keys :: "keygen \<Rightarrow> time \<Rightarrow> string list \<Rightarrow> db \<Rightarrow> bool \<times> db" where
  "ensure_keys gen now [] d = (True, d)"
| "ensure_keys gen now (alg # algs) d = (case GetActiveSigningKey alg d of
     Inr _ \<Rightarrow> ensure_keys gen now algs d
   | Inl e \<Rightarrow> if e \<noteq> ErrNotFound then (False, d)
       else case generateKey gen alg now of
         None \<Rightarrow> (False, d)
       | Some key \<Rightarrow> (let (r, d') = CreateSigningKey key d
           in if is_ok r then ensure_keys gen now algs d' else (False, d')))"

definition NewKeyManager :: "keygen \<Rightarrow> (string \<Rightarrow> (string \<times> pubkey) option)
    \<Rightarrow> time \<Rightarrow> db \<Rightarrow> KeyManager option \<times> db" where
  "NewKeyManager gen pem now d = (let (ok, d') = ensure_keys gen now [AlgRS256, AlgEdDSA] d
     in if ok then (load pem d', d') else (None, d'))"

definition JWKS :: "KeyManager \<Rightarrow> string" where
  "JWKS km = km_jwks km"

definition Signer_for :: "KeyManager \<Rightarrow> string \<Rightarrow> Signer option" where
  "Signer_for km alg = km_signers km alg"

definition DefaultSigner :: "KeyManager \<Rightarrow> Signer option" where
  "DefaultSigner km = km_signers km AlgRS256"

definition PublicKey :: "KeyManager \<Rightarrow> string \<Rightarrow> pubkey option" where
  "PublicKey km kid = km_verifiers km kid"

subsection \<open>jwt.go: issuing\<close>

record Profile =
  pf_Email :: string
  pf_EmailVerified :: bool
  pf_PreferredUsername :: string
  pf_Name :: string

record issuer_cfg =
  ic_Issuer :: string
  ic_AccessTTL :: duration
  ic_IDTTL :: duration

definition TokenUseAccess :: string where "TokenUseAccess = ''access''"
definition TokenUseDevice :: string where "TokenUseDevice = ''device''"
definition TokenUseRevocation :: string where "TokenUseRevocation = ''revocation''"

lemmas token_use_defs = TokenUseAccess_def TokenUseDevice_def TokenUseRevocation_def

definition signingMethod :: "string \<Rightarrow> string option" where
  "signingMethod alg = (if alg = AlgRS256 \<or> alg = AlgEdDSA then Some alg else None)"

definition sign_claims :: "jwtlib \<Rightarrow> KeyManager \<Rightarrow> claims \<Rightarrow> string option" where
  "sign_claims lib km c = (case DefaultSigner km of
     None \<Rightarrow> None
   | Some s \<Rightarrow> (case signingMethod (sg_Alg s) of
        None \<Rightarrow> None
      | Some m \<Rightarrow> jl_Sign lib m (sg_Key s) [''typ'' \<mapsto> JStr ''JWT'', ''alg'' \<mapsto> JStr m, ''kid'' \<mapsto> JStr (sg_KID s)] c))"

definition access_claims :: "issuer_cfg \<Rightarrow> time \<Rightarrow> string \<Rightarrow> string \<Rightarrow> string \<Rightarrow> claims \<Rightarrow> claims" where
  "access_claims cfg now subject audience scope extra = extra(''iss'' \<mapsto> JStr (ic_Issuer cfg), ''sub'' \<mapsto> JStr subject,
     ''aud'' \<mapsto> JStr audience, ''iat'' \<mapsto> jint (Unix now), ''exp'' \<mapsto> jint (Unix (now + ic_AccessTTL cfg)),
     ''scope'' \<mapsto> JStr scope, ''token_use'' \<mapsto> JStr TokenUseAccess)"

definition IssueAccessTokenWithClaims ::
  "jwtlib \<Rightarrow> KeyManager \<Rightarrow> issuer_cfg \<Rightarrow> time \<Rightarrow> string \<Rightarrow> string \<Rightarrow> string \<Rightarrow> claims \<Rightarrow> string option" where
  "IssueAccessTokenWithClaims lib km cfg now subject audience scope extra =
     sign_claims lib km (access_claims cfg now subject audience scope extra)"

definition IssueAccessToken :: "jwtlib \<Rightarrow> KeyManager \<Rightarrow> issuer_cfg \<Rightarrow> time \<Rightarrow> string \<Rightarrow> string \<Rightarrow> string \<Rightarrow> string option" where
  "IssueAccessToken lib km cfg now subject audience scope =
     IssueAccessTokenWithClaims lib km cfg now subject audience scope Map.empty"

definition pat_claims :: "issuer_cfg \<Rightarrow> time \<Rightarrow> string \<Rightarrow> string \<Rightarrow> string \<Rightarrow> string \<Rightarrow> duration \<Rightarrow> claims \<Rightarrow> claims" where
  "pat_claims cfg now subject audience scope jti ttl extra = extra(''iss'' \<mapsto> JStr (ic_Issuer cfg), ''sub'' \<mapsto> JStr subject,
     ''aud'' \<mapsto> JStr audience, ''iat'' \<mapsto> jint (Unix now), ''exp'' \<mapsto> jint (Unix (now + ttl)),
     ''scope'' \<mapsto> JStr scope, ''token_use'' \<mapsto> JStr TokenUseAccess, ''jti'' \<mapsto> JStr jti, ''pat'' \<mapsto> JBool True)"

definition IssuePersonalAccessToken ::
  "jwtlib \<Rightarrow> KeyManager \<Rightarrow> issuer_cfg \<Rightarrow> time \<Rightarrow> string \<Rightarrow> string \<Rightarrow> string \<Rightarrow> string \<Rightarrow> duration \<Rightarrow> claims \<Rightarrow> string option" where
  "IssuePersonalAccessToken lib km cfg now subject audience scope jti ttl extra =
     sign_claims lib km (pat_claims cfg now subject audience scope jti ttl extra)"

definition id_claims :: "issuer_cfg \<Rightarrow> time \<Rightarrow> string \<Rightarrow> string \<Rightarrow> Profile \<Rightarrow> string \<Rightarrow> time \<Rightarrow> claims \<Rightarrow> claims" where
  "id_claims cfg now subject audience p nonce authTime extra =
     (let c = extra(''iss'' \<mapsto> JStr (ic_Issuer cfg), ''sub'' \<mapsto> JStr subject, ''aud'' \<mapsto> JStr audience,
        ''iat'' \<mapsto> jint (Unix now), ''exp'' \<mapsto> jint (Unix (now + ic_IDTTL cfg)), ''auth_time'' \<mapsto> jint (Unix authTime),
        ''email'' \<mapsto> JStr (pf_Email p), ''email_verified'' \<mapsto> JBool (pf_EmailVerified p),
        ''preferred_username'' \<mapsto> JStr (pf_PreferredUsername p), ''name'' \<mapsto> JStr (pf_Name p))
      in if nonce \<noteq> '''' then c(''nonce'' \<mapsto> JStr nonce) else c)"

definition IssueIDTokenWithClaims ::
  "jwtlib \<Rightarrow> KeyManager \<Rightarrow> issuer_cfg \<Rightarrow> time \<Rightarrow> string \<Rightarrow> string \<Rightarrow> Profile \<Rightarrow> string \<Rightarrow> time \<Rightarrow> claims \<Rightarrow> string option" where
  "IssueIDTokenWithClaims lib km cfg now subject audience p nonce authTime extra =
     sign_claims lib km (id_claims cfg now subject audience p nonce authTime extra)"

definition IssueIDToken ::
  "jwtlib \<Rightarrow> KeyManager \<Rightarrow> issuer_cfg \<Rightarrow> time \<Rightarrow> string \<Rightarrow> string \<Rightarrow> Profile \<Rightarrow> string \<Rightarrow> time \<Rightarrow> string option" where
  "IssueIDToken lib km cfg now subject audience p nonce authTime =
     IssueIDTokenWithClaims lib km cfg now subject audience p nonce authTime Map.empty"

definition device_claims :: "issuer_cfg \<Rightarrow> time \<Rightarrow> string \<Rightarrow> string \<Rightarrow> string \<Rightarrow> string \<Rightarrow> string \<Rightarrow> duration \<Rightarrow> claims" where
  "device_claims cfg now deviceID ownerSub trust audience jkt ttl =
     (let c = [''iss'' \<mapsto> JStr (ic_Issuer cfg), ''sub'' \<mapsto> JStr deviceID, ''aud'' \<mapsto> JStr audience,
        ''iat'' \<mapsto> jint (Unix now), ''exp'' \<mapsto> jint (Unix (now + ttl)), ''token_use'' \<mapsto> JStr TokenUseDevice,
        ''device_id'' \<mapsto> JStr deviceID, ''device_trust'' \<mapsto> JStr trust, ''owner_sub'' \<mapsto> JStr ownerSub]
      in if jkt \<noteq> '''' then c(''cnf'' \<mapsto> JObj [(''jkt'', JStr jkt)]) else c)"

definition IssueDeviceToken ::
  "jwtlib \<Rightarrow> KeyManager \<Rightarrow> issuer_cfg \<Rightarrow> time \<Rightarrow> string \<Rightarrow> string \<Rightarrow> string \<Rightarrow> string \<Rightarrow> string \<Rightarrow> duration \<Rightarrow> string option" where
  "IssueDeviceToken lib km cfg now deviceID ownerSub trust audience jkt ttl =
     sign_claims lib km (device_claims cfg now deviceID ownerSub trust audience jkt ttl)"

definition revocation_claims :: "issuer_cfg \<Rightarrow> time \<Rightarrow> string \<Rightarrow> string \<Rightarrow> string \<Rightarrow> string \<Rightarrow> duration \<Rightarrow> claims" where
  "revocation_claims cfg now uuid subject deviceID reason ttl =
     (let c0 = [''iss'' \<mapsto> JStr (ic_Issuer cfg), ''iat'' \<mapsto> jint (Unix now), ''exp'' \<mapsto> jint (Unix (now + ttl)),
            ''jti'' \<mapsto> JStr uuid, ''token_use'' \<mapsto> JStr TokenUseRevocation];
          c1 = (if subject \<noteq> '''' then c0(''sub'' \<mapsto> JStr subject) else c0);
          c2 = (if deviceID \<noteq> '''' then c1(''device_id'' \<mapsto> JStr deviceID) else c1)
      in if reason \<noteq> '''' then c2(''reason'' \<mapsto> JStr reason) else c2)"

definition IssueRevocationToken ::
  "jwtlib \<Rightarrow> KeyManager \<Rightarrow> issuer_cfg \<Rightarrow> time \<Rightarrow> string \<Rightarrow> string \<Rightarrow> string \<Rightarrow> string \<Rightarrow> duration \<Rightarrow> string option" where
  "IssueRevocationToken lib km cfg now uuid subject deviceID reason ttl =
     sign_claims lib km (revocation_claims cfg now uuid subject deviceID reason ttl)"

definition AMRList :: "string \<Rightarrow> string list" where
  "AMRList amr = Fields amr"

subsection \<open>jwt.go: verifying\<close>

record VerifiedToken =
  vt_Subject :: string
  vt_Audience :: string
  vt_Scope :: string
  vt_Email :: string
  vt_PreferredUsername :: string
  vt_DeviceID :: string
  vt_DeviceTrust :: string
  vt_JKT :: string
  vt_Claims :: claims

definition IsAccessToken :: "VerifiedToken \<Rightarrow> bool" where
  "IsAccessToken v \<longleftrightarrow> vt_Claims v ''token_use'' = Some (JStr TokenUseAccess)"

definition IsDeviceToken :: "VerifiedToken \<Rightarrow> bool" where
  "IsDeviceToken v \<longleftrightarrow> vt_Claims v ''token_use'' = Some (JStr TokenUseDevice)"

definition audienceString :: "claims \<Rightarrow> string" where
  "audienceString c = (case c ''aud'' of
     Some (JStr s) \<Rightarrow> s
   | Some (JArr (x # xs)) \<Rightarrow> str_of (Some x)
   | _ \<Rightarrow> '''')"

definition cnf_jkt :: "claims \<Rightarrow> string" where
  "cnf_jkt c = (case c ''cnf'' of Some (JObj ms) \<Rightarrow> str_of (map_of ms ''jkt'') | _ \<Rightarrow> '''')"

definition key_for :: "KeyManager \<Rightarrow> claims \<Rightarrow> pubkey option" where
  "key_for km h = PublicKey km (str_of (h ''kid''))"

definition Verify :: "jwtlib \<Rightarrow> KeyManager \<Rightarrow> issuer_cfg \<Rightarrow> time \<Rightarrow> string \<Rightarrow> VerifiedToken option" where
  "Verify lib km cfg now tokenStr =
     (case jl_Parse lib \<lparr>jo_methods = [AlgRS256, AlgEdDSA], jo_validate = True, jo_issuer = Some (ic_Issuer cfg),
             jo_audience = None, jo_exp_required = True, jo_iat = False, jo_leeway = 0, jo_now = now\<rparr> (key_for km) tokenStr of
        None \<Rightarrow> None
      | Some (h, c) \<Rightarrow> Some \<lparr>vt_Subject = str_of (c ''sub''), vt_Audience = audienceString c, vt_Scope = str_of (c ''scope''),
          vt_Email = str_of (c ''email''), vt_PreferredUsername = str_of (c ''preferred_username''),
          vt_DeviceID = str_of (c ''device_id''), vt_DeviceTrust = str_of (c ''device_trust''), vt_JKT = cnf_jkt c,
          vt_Claims = c\<rparr>)"

definition ParseIDTokenHint :: "jwtlib \<Rightarrow> KeyManager \<Rightarrow> issuer_cfg \<Rightarrow> time \<Rightarrow> string \<Rightarrow> VerifiedToken option" where
  "ParseIDTokenHint lib km cfg now tokenStr =
     (case jl_Parse lib \<lparr>jo_methods = [AlgRS256, AlgEdDSA], jo_validate = False, jo_issuer = None, jo_audience = None,
             jo_exp_required = False, jo_iat = False, jo_leeway = 0, jo_now = now\<rparr> (key_for km) tokenStr of
        None \<Rightarrow> None
      | Some (h, c) \<Rightarrow> if str_of (c ''iss'') \<noteq> ic_Issuer cfg then None
          else Some \<lparr>vt_Subject = str_of (c ''sub''), vt_Audience = audienceString c, vt_Scope = '''',
            vt_Email = '''', vt_PreferredUsername = '''', vt_DeviceID = '''', vt_DeviceTrust = '''', vt_JKT = '''',
            vt_Claims = c\<rparr>)"

subsection \<open>What a token says\<close>

text \<open>The claims the issuer sets itself, per kind of token.\<close>

definition core_access :: "string list" where
  "core_access = [''iss'', ''sub'', ''aud'', ''iat'', ''exp'', ''scope'', ''token_use'']"

definition core_id :: "string list" where
  "core_id = [''iss'', ''sub'', ''aud'', ''iat'', ''exp'', ''auth_time'', ''email'', ''email_verified'',
     ''preferred_username'', ''name'']"

text \<open>Extra claims never override what the issuer sets: in an access token, a personal access token
  and an ID token every core claim is the issuer's whatever the extra claims are, every other claim
  is the extra one, and the extra claims alone decide whether an ID token carries \<open>token_use\<close>.\<close>

theorem extra_never_overrides:
  "(\<forall>k \<in> set core_access. access_claims cfg now sub aud scope extra k = access_claims cfg now sub aud scope Map.empty k
        \<and> pat_claims cfg now sub aud scope jti ttl extra k = pat_claims cfg now sub aud scope jti ttl Map.empty k)
   \<and> (\<forall>k. k \<notin> set core_access \<longrightarrow> access_claims cfg now sub aud scope extra k = extra k)
   \<and> (\<forall>k. k \<notin> set (''jti'' # ''pat'' # core_access) \<longrightarrow> pat_claims cfg now sub aud scope jti ttl extra k = extra k)
   \<and> pat_claims cfg now sub aud scope jti ttl extra ''jti'' = Some (JStr jti)
   \<and> (\<forall>k \<in> set core_id. id_claims cfg now sub aud p nonce t extra k = id_claims cfg now sub aud p nonce t Map.empty k)
   \<and> (\<forall>k. k \<notin> set (''nonce'' # core_id) \<longrightarrow> id_claims cfg now sub aud p nonce t extra k = extra k)
   \<and> access_claims cfg now sub aud scope extra ''token_use'' = Some (JStr TokenUseAccess)"
  by (simp add: access_claims_def pat_claims_def id_claims_def core_access_def core_id_def Let_def)

text \<open>C32: A token is accepted only if its signature verifies, with RS256 or EdDSA, under the stored key
  its header names, its issuer is this server and it has not expired; the subject, audience, scope
  and key binding reported are those of the signed claims.\<close>

theorem Verify_sound:
  assumes "jwt_contract lib" and "Verify lib km cfg now raw = Some vt"
  shows "\<exists>h kid key alg. jl_ParseUnverified lib raw = Some (h, vt_Claims vt) \<and> str_of (h ''kid'') = kid
    \<and> km_verifiers km kid = Some key \<and> alg \<in> {AlgRS256, AlgEdDSA} \<and> jl_Signed lib raw alg key
    \<and> vt_Claims vt ''iss'' = Some (JStr (ic_Issuer cfg))
    \<and> (\<exists>n. vt_Claims vt ''exp'' = Some (JNum n) \<and> now < time_of_Unix \<lceil>n\<rceil>)
    \<and> vt_Subject vt = str_of (vt_Claims vt ''sub'') \<and> vt_Scope vt = str_of (vt_Claims vt ''scope'')
    \<and> vt_Audience vt = audienceString (vt_Claims vt) \<and> vt_JKT vt = cnf_jkt (vt_Claims vt)"
proof -
  let ?o = "\<lparr>jo_methods = [AlgRS256, AlgEdDSA], jo_validate = True, jo_issuer = Some (ic_Issuer cfg),
             jo_audience = None, jo_exp_required = True, jo_iat = False, jo_leeway = 0, jo_now = now\<rparr>"
  obtain h c where hc: "jl_Parse lib ?o (key_for km) raw = Some (h, c)"
    using assms(2) by (auto simp: Verify_def split: option.splits)
  from assms(1)[unfolded jwt_contract_def, rule_format, OF hc]
  obtain key where p: "jl_ParseUnverified lib raw = Some (h, c)" "key_for km h = Some key"
    "str_of (h ''alg'') \<in> {AlgRS256, AlgEdDSA}" "jl_Signed lib raw (str_of (h ''alg'')) key" "claims_valid ?o c"
    by auto
  have e: "c ''iss'' = Some (JStr (ic_Issuer cfg))" "\<exists>n. c ''exp'' = Some (JNum n) \<and> now < time_of_Unix \<lceil>n\<rceil>"
    using p(5) by (auto simp: claims_valid_def split: option.splits json.splits)
  have vt: "vt_Claims vt = c" "vt_Subject vt = str_of (c ''sub'')" "vt_Scope vt = str_of (c ''scope'')"
    "vt_Audience vt = audienceString c" "vt_JKT vt = cnf_jkt c"
    using assms(2) hc by (auto simp: Verify_def)
  show ?thesis
    unfolding vt using p e by (auto simp: key_for_def PublicKey_def)
qed

subsection \<open>A sample library\<close>

text \<open>A library that knows one token, \<open>tok\<close>, with the header \<open>h\<close> and the claims \<open>c\<close>, signed under the
  key \<open>k\<close>: it satisfies the contract, so that the theorems that assume it are not vacuous.\<close>

definition sample_lib :: "claims \<Rightarrow> claims \<Rightarrow> pubkey \<Rightarrow> jwtlib" where
  "sample_lib h c k = \<lparr>jl_Sign = \<lambda>m key hd cl. if hd = h \<and> cl = c then Some ''tok'' else None,
     jl_Parse = \<lambda>opts kf raw. if raw = ''tok'' \<and> kf h = Some k \<and> str_of (h ''alg'') \<in> set (jo_methods opts)
         \<and> (jo_validate opts \<longrightarrow> claims_valid opts c) then Some (h, c) else None,
     jl_ParseUnverified = \<lambda>raw. if raw = ''tok'' then Some (h, c) else None,
     jl_Signed = \<lambda>raw alg key. raw = ''tok'' \<and> key = k\<rparr>"

lemma sample_lib_contract: "jwt_contract (sample_lib h c k)"
  by (simp add: jwt_contract_def sample_lib_def)

definition sample_header :: claims where
  "sample_header = [''alg'' \<mapsto> JStr ''RS256'', ''kid'' \<mapsto> JStr ''kid1'', ''typ'' \<mapsto> JStr ''JWT'']"

definition sample_km :: KeyManager where
  "sample_km = \<lparr>km_signers = [AlgRS256 \<mapsto> \<lparr>sg_KID = ''kid1'', sg_Alg = ''RS256'', sg_Key = ''priv''\<rparr>],
     km_verifiers = [''kid1'' \<mapsto> (RSAKey 15 3)], km_jwks = ''''\<rparr>"

definition sample_issuer :: issuer_cfg where
  "sample_issuer = \<lparr>ic_Issuer = ''https://id'', ic_AccessTTL = 900 * Second, ic_IDTTL = 900 * Second\<rparr>"

theorem Verify_sound_witness:
  "\<exists>h kid key alg. jl_ParseUnverified (sample_lib sample_header (access_claims sample_issuer 0 ''u1'' ''c1'' ''openid'' Map.empty) (RSAKey 15 3)) ''tok''
      = Some (h, access_claims sample_issuer 0 ''u1'' ''c1'' ''openid'' Map.empty) \<and> str_of (h ''kid'') = kid
    \<and> km_verifiers sample_km kid = Some key \<and> alg \<in> {AlgRS256, AlgEdDSA}"
proof -
  let ?c = "access_claims sample_issuer 0 ''u1'' ''c1'' ''openid'' Map.empty"
  have "Verify (sample_lib sample_header ?c (RSAKey 15 3)) sample_km sample_issuer 0 ''tok'' = Some \<lparr>vt_Subject = ''u1'',
      vt_Audience = ''c1'', vt_Scope = ''openid'', vt_Email = '''', vt_PreferredUsername = '''', vt_DeviceID = '''',
      vt_DeviceTrust = '''', vt_JKT = '''', vt_Claims = ?c\<rparr>"
    by (simp add: Verify_def sample_lib_def sample_header_def sample_km_def sample_issuer_def key_for_def PublicKey_def
        AlgRS256_def AlgEdDSA_def claims_valid_def access_claims_def jint_def audienceString_def cnf_jkt_def
        time_of_Unix_def Unix_def)
  from Verify_sound [OF sample_lib_contract this] show ?thesis by auto
qed

theorem extra_never_overrides_witness:
  "access_claims sample_issuer 0 ''u1'' ''c1'' ''openid'' [''sub'' \<mapsto> JStr ''root'', ''groups'' \<mapsto> JStr ''g''] ''sub''
     = Some (JStr ''u1'')
   \<and> access_claims sample_issuer 0 ''u1'' ''c1'' ''openid'' [''sub'' \<mapsto> JStr ''root'', ''groups'' \<mapsto> JStr ''g''] ''groups''
     = Some (JStr ''g'')"
proof -
  note e = extra_never_overrides [where cfg = sample_issuer and now = 0 and sub = "''u1''" and aud = "''c1''"
      and scope = "''openid''" and extra = "[''sub'' \<mapsto> JStr ''root'', ''groups'' \<mapsto> JStr ''g'']"]
  from e have "access_claims sample_issuer 0 ''u1'' ''c1'' ''openid'' [''sub'' \<mapsto> JStr ''root'', ''groups'' \<mapsto> JStr ''g''] ''sub''
     = access_claims sample_issuer 0 ''u1'' ''c1'' ''openid'' Map.empty ''sub''"
    by (auto simp: core_access_def)
  moreover from e have "access_claims sample_issuer 0 ''u1'' ''c1'' ''openid'' [''sub'' \<mapsto> JStr ''root'', ''groups'' \<mapsto> JStr ''g''] ''groups''
     = [''sub'' \<mapsto> JStr ''root'', ''groups'' \<mapsto> JStr ''g''] ''groups''"
    by (simp add: core_access_def)
  ultimately show ?thesis by (simp add: access_claims_def)
qed

subsection \<open>Issued tokens verify\<close>

text \<open>What signing promises: a token signed with a private key parses, under the public key of the
  pair, to the header and claims it was made of, when the checks asked for pass. \<open>rep\<close> holds of the
  claims that JSON carries unchanged (valid UTF-8 strings, integers a float64 holds).\<close>

definition jwt_signs :: "jwtlib \<Rightarrow> (string \<Rightarrow> pubkey \<Rightarrow> bool) \<Rightarrow> (claims \<Rightarrow> bool) \<Rightarrow> bool" where
  "jwt_signs lib pair rep \<longleftrightarrow> (\<forall>alg priv pub h c raw opts kf.
     jl_Sign lib alg priv h c = Some raw \<and> pair priv pub \<and> rep c \<and> kf h = Some pub \<and> h ''alg'' = Some (JStr alg)
     \<and> alg \<in> set (jo_methods opts) \<and> (jo_validate opts \<longrightarrow> claims_valid opts c) \<longrightarrow> jl_Parse lib opts kf raw = Some (h, c))"

definition verified :: "claims \<Rightarrow> VerifiedToken" where
  "verified c = \<lparr>vt_Subject = str_of (c ''sub''), vt_Audience = audienceString c, vt_Scope = str_of (c ''scope''),
     vt_Email = str_of (c ''email''), vt_PreferredUsername = str_of (c ''preferred_username''),
     vt_DeviceID = str_of (c ''device_id''), vt_DeviceTrust = str_of (c ''device_trust''), vt_JKT = cnf_jkt c, vt_Claims = c\<rparr>"

lemma issued_verifies:
  assumes lib: "jwt_contract lib" "jwt_signs lib pair rep" "rep c"
    and km: "DefaultSigner km = Some s" "PublicKey km (sg_KID s) = Some pub" "pair (sg_Key s) pub"
    and raw: "sign_claims lib km c = Some raw"
    and c: "c ''iss'' = Some (JStr (ic_Issuer cfg))" "c ''exp'' = Some (jint e)" "c ''nbf'' = None"
  shows "Verify lib km cfg now raw = (if now < time_of_Unix e then Some (verified c) else None)"
proof -
  let ?h = "[''typ'' \<mapsto> JStr ''JWT'', ''alg'' \<mapsto> JStr (sg_Alg s), ''kid'' \<mapsto> JStr (sg_KID s)]"
  let ?o = "\<lambda>v. \<lparr>jo_methods = [AlgRS256, AlgEdDSA], jo_validate = v, jo_issuer = Some (ic_Issuer cfg),
             jo_audience = None, jo_exp_required = True, jo_iat = False, jo_leeway = 0, jo_now = now\<rparr>"
  have sg: "jl_Sign lib (sg_Alg s) (sg_Key s) ?h c = Some raw" "sg_Alg s \<in> {AlgRS256, AlgEdDSA}"
    using raw km(1) by (auto simp: sign_claims_def signingMethod_def split: option.splits if_splits)
  have kf: "key_for km ?h = Some pub" using km(2) by (simp add: key_for_def)
  have parse: "jl_Parse lib (?o v) (key_for km) raw = Some (?h, c)" if "v \<longrightarrow> claims_valid (?o v) c" for v
    using lib(2)[unfolded jwt_signs_def, rule_format, of "sg_Alg s" "sg_Key s" ?h c raw pub "key_for km" "?o v"] sg kf km(3) lib(3) that
    by auto
  have valid: "claims_valid (?o True) c \<longleftrightarrow> now < time_of_Unix e"
    using c by (simp add: claims_valid_def jint_def)
  show ?thesis
  proof (cases "now < time_of_Unix e")
    case True
    then show ?thesis using parse [of True] valid by (simp add: Verify_def verified_def)
  next
    case False
    have "jl_Parse lib (?o True) (key_for km) raw = None"
    proof (rule ccontr)
      assume "\<not> ?thesis"
      then obtain h' c' where p: "jl_Parse lib (?o True) (key_for km) raw = Some (h', c')" by auto
      have "jl_ParseUnverified lib raw = Some (?h, c)"
        using lib(1)[unfolded jwt_contract_def, rule_format, OF parse [of False]] by simp
      moreover have "jl_ParseUnverified lib raw = Some (h', c')" "claims_valid (?o True) c'"
        using lib(1)[unfolded jwt_contract_def, rule_format, OF p] by auto
      ultimately show False using valid False by simp
    qed
    with False show ?thesis by (simp add: Verify_def)
  qed
qed

text \<open>C31: The tokens the server issues are accepted by its own verifier until the second they expire and
  refused from then on; an access token verifies as an access token of its subject, audience and
  scope, and a device token as a device token bound to the device's key: neither passes for the
  other, nor does a revocation notice for either.\<close>

theorem issued_tokens_verify:
  assumes "jwt_contract lib" "jwt_signs lib pair rep"
    and "DefaultSigner km = Some s" "PublicKey km (sg_KID s) = Some pub" "pair (sg_Key s) pub"
  shows "(IssueAccessTokenWithClaims lib km cfg now sub aud scope extra = Some raw
      \<and> rep (access_claims cfg now sub aud scope extra) \<and> extra ''nbf'' = None \<longrightarrow>
      (if time_of_Unix (Unix (now + ic_AccessTTL cfg)) \<le> now' then Verify lib km cfg now' raw = None
       else \<exists>vt. Verify lib km cfg now' raw = Some vt \<and> vt_Subject vt = sub \<and> vt_Audience vt = aud
         \<and> vt_Scope vt = scope \<and> IsAccessToken vt \<and> \<not> IsDeviceToken vt))
    \<and> (IssueDeviceToken lib km cfg now dev owner trust aud jkt ttl = Some raw
      \<and> rep (device_claims cfg now dev owner trust aud jkt ttl) \<longrightarrow>
      (if time_of_Unix (Unix (now + ttl)) \<le> now' then Verify lib km cfg now' raw = None
       else \<exists>vt. Verify lib km cfg now' raw = Some vt \<and> vt_Subject vt = dev \<and> vt_DeviceID vt = dev
         \<and> vt_DeviceTrust vt = trust \<and> vt_JKT vt = jkt \<and> IsDeviceToken vt \<and> \<not> IsAccessToken vt))
    \<and> (IssueRevocationToken lib km cfg now uuid sub dev reason ttl = Some raw
      \<and> rep (revocation_claims cfg now uuid sub dev reason ttl) \<and> Verify lib km cfg now' raw = Some vt
      \<longrightarrow> \<not> IsDeviceToken vt \<and> \<not> IsAccessToken vt)"
    (is "?A \<and> ?D \<and> ?R")
proof (intro conjI impI)
  note iv = issued_verifies [OF assms(1,2) _ assms(3-5)]
  {
    let ?c = "access_claims cfg now sub aud scope extra"
    assume r: "IssueAccessTokenWithClaims lib km cfg now sub aud scope extra = Some raw \<and> rep ?c \<and> extra ''nbf'' = None"
    have c: "?c ''iss'' = Some (JStr (ic_Issuer cfg))" "?c ''exp'' = Some (jint (Unix (now + ic_AccessTTL cfg)))" "?c ''nbf'' = None"
      using r by (simp_all add: access_claims_def)
    have "Verify lib km cfg now' raw = (if now' < time_of_Unix (Unix (now + ic_AccessTTL cfg)) then Some (verified ?c) else None)"
      using r by (intro iv [OF _ _ c]) (simp_all add: IssueAccessTokenWithClaims_def)
    then show "if time_of_Unix (Unix (now + ic_AccessTTL cfg)) \<le> now' then Verify lib km cfg now' raw = None
       else \<exists>vt. Verify lib km cfg now' raw = Some vt \<and> vt_Subject vt = sub \<and> vt_Audience vt = aud
         \<and> vt_Scope vt = scope \<and> IsAccessToken vt \<and> \<not> IsDeviceToken vt"
      by (simp add: verified_def access_claims_def audienceString_def IsAccessToken_def IsDeviceToken_def token_use_defs)
  next
    let ?c = "device_claims cfg now dev owner trust aud jkt ttl"
    assume r: "IssueDeviceToken lib km cfg now dev owner trust aud jkt ttl = Some raw \<and> rep ?c"
    have c: "?c ''iss'' = Some (JStr (ic_Issuer cfg))" "?c ''exp'' = Some (jint (Unix (now + ttl)))" "?c ''nbf'' = None"
      by (simp_all add: device_claims_def Let_def)
    have "Verify lib km cfg now' raw = (if now' < time_of_Unix (Unix (now + ttl)) then Some (verified ?c) else None)"
      using r by (intro iv [OF _ _ c]) (simp_all add: IssueDeviceToken_def)
    then show "if time_of_Unix (Unix (now + ttl)) \<le> now' then Verify lib km cfg now' raw = None
       else \<exists>vt. Verify lib km cfg now' raw = Some vt \<and> vt_Subject vt = dev \<and> vt_DeviceID vt = dev
         \<and> vt_DeviceTrust vt = trust \<and> vt_JKT vt = jkt \<and> IsDeviceToken vt \<and> \<not> IsAccessToken vt"
      by (simp add: verified_def device_claims_def Let_def cnf_jkt_def IsAccessToken_def IsDeviceToken_def token_use_defs)
  next
    let ?c = "revocation_claims cfg now uuid sub dev reason ttl"
    assume r: "IssueRevocationToken lib km cfg now uuid sub dev reason ttl = Some raw \<and> rep ?c
      \<and> Verify lib km cfg now' raw = Some vt"
    have c: "?c ''iss'' = Some (JStr (ic_Issuer cfg))" "?c ''exp'' = Some (jint (Unix (now + ttl)))" "?c ''nbf'' = None"
      and u: "?c ''token_use'' = Some (JStr TokenUseRevocation)"
      by (simp_all add: revocation_claims_def Let_def)
    have "Verify lib km cfg now' raw = (if now' < time_of_Unix (Unix (now + ttl)) then Some (verified ?c) else None)"
      using r by (intro iv [OF _ _ c]) (simp_all add: IssueRevocationToken_def)
    with r have "vt = verified ?c" by (simp split: if_splits)
    with u show "\<not> IsDeviceToken vt" "\<not> IsAccessToken vt"
      by (simp_all add: verified_def IsAccessToken_def IsDeviceToken_def token_use_defs)
  }
qed

lemma sample_lib_signs:
  "jwt_signs (sample_lib h c k) (\<lambda>priv pub. pub = k) (\<lambda>c. True)"
  by (auto simp: jwt_signs_def sample_lib_def split: if_splits)

theorem issued_tokens_verify_witness:
  "\<exists>vt. Verify (sample_lib sample_header (access_claims sample_issuer 0 ''u1'' ''c1'' ''openid'' Map.empty) (RSAKey 15 3))
      sample_km sample_issuer 1 ''tok'' = Some vt \<and> vt_Subject vt = ''u1'' \<and> IsAccessToken vt \<and> \<not> IsDeviceToken vt"
proof -
  let ?l = "sample_lib sample_header (access_claims sample_issuer 0 ''u1'' ''c1'' ''openid'' Map.empty) (RSAKey 15 3)"
  have s: "DefaultSigner sample_km = Some \<lparr>sg_KID = ''kid1'', sg_Alg = ''RS256'', sg_Key = ''priv''\<rparr>"
    "PublicKey sample_km ''kid1'' = Some (RSAKey 15 3)"
    by (simp_all add: DefaultSigner_def PublicKey_def sample_km_def)
  have h: "sample_header = [''typ'' \<mapsto> JStr ''JWT'', ''alg'' \<mapsto> JStr ''RS256'', ''kid'' \<mapsto> JStr ''kid1'']"
    by (auto simp: sample_header_def)
  have i: "IssueAccessTokenWithClaims ?l sample_km sample_issuer 0 ''u1'' ''c1'' ''openid'' Map.empty = Some ''tok''"
    by (simp add: IssueAccessTokenWithClaims_def sign_claims_def s signingMethod_def AlgRS256_def sample_lib_def h)
  have t: "\<not> time_of_Unix (Unix (0 + ic_AccessTTL sample_issuer)) \<le> 1"
    by (simp add: time_of_Unix_def Unix_def sample_issuer_def)
  note l = sample_lib_contract [of sample_header "access_claims sample_issuer 0 ''u1'' ''c1'' ''openid'' Map.empty" "RSAKey 15 3"]
    sample_lib_signs [of sample_header "access_claims sample_issuer 0 ''u1'' ''c1'' ''openid'' Map.empty" "RSAKey 15 3"]
  note v = issued_tokens_verify [OF l s(1) _ refl, simplified, OF s(2), of sample_issuer 0 "''u1''" "''c1''" "''openid''" Map.empty "''tok''" 1]
  from conjunct1 [OF v] i t show ?thesis by auto
qed

subsection \<open>The keys\<close>

lemma load_keys_verifiers:
  assumes "load_keys pem ks km = Some km'" and "distinct (map sk_KID ks)"
  shows "\<forall>k \<in> set ks. \<exists>priv pub. pem (sk_PrivatePEM k) = Some (priv, pub) \<and> km_verifiers km' (sk_KID k) = Some pub"
    and "\<forall>i. i \<notin> sk_KID ` set ks \<longrightarrow> km_verifiers km' i = km_verifiers km i"
  using assms
proof (induction pem ks km rule: load_keys.induct)
  case (2 pem k ks km)
  {
    case 1
    with 2 show ?case by (fastforce simp: Let_def split: option.splits if_splits prod.splits)
  next
    case 2
    with "2.IH" show ?case by (fastforce simp: Let_def split: option.splits if_splits prod.splits)
  }
qed auto

lemma load_keys_signers:
  assumes "load_keys pem ks km = Some km'"
  shows "km_signers km' alg = (case km_signers km alg of Some s \<Rightarrow> Some s
    | None \<Rightarrow> (case find (\<lambda>k. sk_Alg k = alg \<and> sk_Active k) ks of None \<Rightarrow> None
        | Some k \<Rightarrow> map_option (\<lambda>(priv, pub). \<lparr>sg_KID = sk_KID k, sg_Alg = sk_Alg k, sg_Key = priv\<rparr>) (pem (sk_PrivatePEM k))))"
  using assms
  by (induction pem ks km rule: load_keys.induct) (auto simp: Let_def split: option.splits if_splits)

lemma newest_first_set [simp]: "set (newest_first f t) = set t"
  by (simp add: newest_first_def)

lemma GetActive_exists:
  "\<not> fault d ''GetActiveSigningKey'' \<Longrightarrow>
     is_ok (GetActiveSigningKey alg d) \<longleftrightarrow> (\<exists>k \<in> set (db_signing_keys d). sk_Alg k = alg \<and> sk_Active k)"
proof -
  assume f: "\<not> fault d ''GetActiveSigningKey''"
  show ?thesis
  proof (cases "sel1 (\<lambda>k. sk_Alg k = alg \<and> sk_Active k) (newest_first sk_CreatedAt (db_signing_keys d))")
    case (Inl e)
    have "\<forall>k \<in> set (db_signing_keys d). \<not> (sk_Alg k = alg \<and> sk_Active k)"
      using sel1_Inl [THEN iffD1, OF Inl] by simp
    with Inl show ?thesis using f by (auto simp: GetActiveSigningKey_def query_def)
  next
    case (Inr k)
    then show ?thesis using f sel1_Inr [OF Inr] by (auto simp: GetActiveSigningKey_def query_def)
  qed
qed

lemma CreateSigningKey_effect:
  assumes "is_ok (fst (CreateSigningKey k d))"
  shows "db_signing_keys (snd (CreateSigningKey k d)) = db_signing_keys d @ [k]
     \<and> uniq_on sk_KID (db_signing_keys (snd (CreateSigningKey k d)))"
proof -
  have "\<not> fault d ''CreateSigningKey'' \<and> grants_ok (db_signing_keys_update (\<lambda>t. t @ [k]) d)"
    using assms by (simp add: CreateSigningKey_def is_ok_iff insert_row_Inr)
  then show ?thesis
    by (simp add: CreateSigningKey_def snd_insert_row grants_ok_def)
qed

lemma CreateSigningKey_faults: "db_faults (snd (CreateSigningKey k d)) = db_faults d"
  by (auto simp: CreateSigningKey_def insert_row_def checked_def exec_def)

lemma ensure_keys_True:
  assumes "ensure_keys gen now algs d = (True, d')" and "uniq_on sk_KID (db_signing_keys d)"
  shows "set (db_signing_keys d) \<subseteq> set (db_signing_keys d') \<and> uniq_on sk_KID (db_signing_keys d')
    \<and> db_faults d' = db_faults d \<and> (algs \<noteq> [] \<longrightarrow> \<not> fault d ''GetActiveSigningKey'')
    \<and> (\<forall>alg \<in> set algs. \<exists>k \<in> set (db_signing_keys d'). sk_Alg k = alg \<and> sk_Active k)"
  using assms
proof (induction algs arbitrary: d)
  case (Cons alg algs)
  have nf: "\<not> fault d ''GetActiveSigningKey''"
    using Cons.prems(1) by (auto simp: GetActiveSigningKey_def query_def split: if_splits)
  show ?case
  proof (cases "GetActiveSigningKey alg d")
    case (Inr k)
    then have "\<exists>k \<in> set (db_signing_keys d). sk_Alg k = alg \<and> sk_Active k"
      using GetActive_exists [OF nf, of alg] by simp
    then obtain k' where k': "k' \<in> set (db_signing_keys d)" "sk_Alg k' = alg" "sk_Active k'" by blast
    from Cons.IH [of d] Cons.prems Inr have IH: "set (db_signing_keys d) \<subseteq> set (db_signing_keys d')"
      "uniq_on sk_KID (db_signing_keys d')" "db_faults d' = db_faults d"
      "\<forall>alg \<in> set algs. \<exists>k \<in> set (db_signing_keys d'). sk_Alg k = alg \<and> sk_Active k"
      by simp_all
    from IH(1) k' have "\<exists>k \<in> set (db_signing_keys d'). sk_Alg k = alg \<and> sk_Active k" by blast
    with IH nf show ?thesis by simp
  next
    case (Inl e)
    with Cons.prems(1) obtain k where k: "generateKey gen alg now = Some k" "is_ok (fst (CreateSigningKey k d))"
      "ensure_keys gen now algs (snd (CreateSigningKey k d)) = (True, d')"
      by (auto simp: Let_def split_beta split: if_splits option.splits)
    have ka: "sk_Alg k = alg \<and> sk_Active k"
      using k(1) by (auto simp: generateKey_def generateRSAKey_def generateEd25519Key_def newSigningKeyModel_def split: if_splits option.splits)
    note c = CreateSigningKey_effect [OF k(2)]
    from Cons.IH [OF k(3)] c show ?thesis
      using ka nf by (auto simp: CreateSigningKey_faults)
  qed
qed simp

lemma ensure_keys_present:
  assumes "\<not> fault d ''GetActiveSigningKey''"
    and "\<forall>alg \<in> set algs. \<exists>k \<in> set (db_signing_keys d). sk_Alg k = alg \<and> sk_Active k"
  shows "ensure_keys gen now algs d = (True, d)"
  using assms(2)
proof (induction algs)
  case (Cons alg algs)
  then obtain k where "GetActiveSigningKey alg d = Inr k"
    using GetActive_exists [OF assms(1), of alg] by (auto simp: is_ok_iff)
  with Cons show ?case by simp
qed simp

text \<open>Starting the key manager leaves an active signer for RS256 and for EdDSA whose tokens its own
  verifier accepts under the same key id, keeps every key that was ever stored as a verifier, and is
  stable: a restart on the resulting database loads the same keys and creates none.\<close>

theorem NewKeyManager_correct:
  assumes "uniq_on sk_KID (db_signing_keys d)" and "NewKeyManager gen pem now d = (Some km, d')"
  shows "(\<forall>alg \<in> {AlgRS256, AlgEdDSA}. \<exists>s pub. km_signers km alg = Some s \<and> sg_Alg s = alg
        \<and> PublicKey km (sg_KID s) = Some pub
        \<and> (\<exists>k \<in> set (db_signing_keys d'). sk_KID k = sg_KID s \<and> sk_Active k \<and> pem (sk_PrivatePEM k) = Some (sg_Key s, pub)))
    \<and> (\<forall>k \<in> set (db_signing_keys d) \<union> set (db_signing_keys d'). \<exists>pub. PublicKey km (sk_KID k) = Some pub)
    \<and> NewKeyManager gen' pem now' d' = (Some km, d')"
proof -
  have en: "ensure_keys gen now [AlgRS256, AlgEdDSA] d = (True, d')" and l: "load pem d' = Some km"
    using assms(2) by (auto simp: NewKeyManager_def simp del: ensure_keys.simps split: prod.splits if_splits)
  note e = ensure_keys_True [OF en assms(1)]
  from l obtain ks km0 where ks: "ListSigningKeys d' = Inr ks"
    and ld: "load_keys pem ks \<lparr>km_signers = Map.empty, km_verifiers = Map.empty, km_jwks = ''''\<rparr> = Some km0"
    and km: "km_signers km = km_signers km0" "km_verifiers km = km_verifiers km0"
    by (auto simp: load_def split: sum.splits)
  have ks': "ks = newest_first sk_CreatedAt (db_signing_keys d')"
    using ks by (auto simp: ListSigningKeys_def query_def split: if_splits)
  have d: "distinct (map sk_KID ks)"
    using e unfolding ks' newest_first_def uniq_on_def
    by (metis distinct_map distinct_sort set_sort)
  note ver = load_keys_verifiers(1) [OF ld d]
  have sig: "\<exists>s pub. km_signers km alg = Some s \<and> sg_Alg s = alg \<and> PublicKey km (sg_KID s) = Some pub
        \<and> (\<exists>k \<in> set (db_signing_keys d'). sk_KID k = sg_KID s \<and> sk_Active k \<and> pem (sk_PrivatePEM k) = Some (sg_Key s, pub))"
    if alg: "alg \<in> {AlgRS256, AlgEdDSA}" for alg
  proof -
    have "\<exists>k \<in> set ks. sk_Alg k = alg \<and> sk_Active k" using e alg by (auto simp: ks')
    then obtain k where k: "find (\<lambda>k. sk_Alg k = alg \<and> sk_Active k) ks = Some k"
      by (metis (mono_tags, lifting) find_None_iff not_None_eq)
    then have km': "k \<in> set ks" "sk_Alg k = alg" "sk_Active k" by (auto simp: find_Some_iff)
    with ver obtain priv pub where "pem (sk_PrivatePEM k) = Some (priv, pub)" "km_verifiers km0 (sk_KID k) = Some pub"
      by blast
    with k km' load_keys_signers [OF ld, of alg] show ?thesis
      by (auto simp: km PublicKey_def ks')
  qed
  have "ensure_keys gen' now' [AlgRS256, AlgEdDSA] d' = (True, d')"
    using e by (intro ensure_keys_present) (auto simp: fault_def)
  then have "NewKeyManager gen' pem now' d' = (Some km, d')"
    using l by (simp add: NewKeyManager_def)
  moreover have "\<exists>pub. PublicKey km (sk_KID k) = Some pub"
    if "k \<in> set (db_signing_keys d) \<union> set (db_signing_keys d')" for k
    using that e ver by (auto simp: km PublicKey_def ks')
  ultimately show ?thesis using sig by blast
qed

theorem NewKeyManager_correct_witness:
  "\<exists>km d'. NewKeyManager \<lparr>kg_rsa = Some (''id1'', 15, 3, ''pem''), kg_ed25519 = Some (''id2'', ''key'', ''pem'')\<rparr> (\<lambda>p. Some (''priv'', (RSAKey 15 3))) 0 sample_db = (Some km, d')
     \<and> PublicKey km (newKID ''id2'') = Some (RSAKey 15 3)
     \<and> NewKeyManager \<lparr>kg_rsa = None, kg_ed25519 = None\<rparr> (\<lambda>p. Some (''priv'', (RSAKey 15 3))) 1 d' = (Some km, d')"
proof -
  let ?n = "NewKeyManager \<lparr>kg_rsa = Some (''id1'', 15, 3, ''pem''), kg_ed25519 = Some (''id2'', ''key'', ''pem'')\<rparr> (\<lambda>p. Some (''priv'', (RSAKey 15 3))) 0 sample_db"
  have "case fst ?n of None \<Rightarrow> False | Some km \<Rightarrow> PublicKey km (newKID ''id2'') = Some (RSAKey 15 3)"
    by code_simp
  then obtain km d' where k: "?n = (Some km, d')" "PublicKey km (newKID ''id2'') = Some (RSAKey 15 3)"
    by (cases ?n) (auto split: option.splits)
  have "uniq_on sk_KID (db_signing_keys sample_db)" by (simp add: sample_db_def uniq_on_def)
  from NewKeyManager_correct [OF this k(1)] k show ?thesis by blast
qed

subsection \<open>The published keys\<close>

lemma fold_name_jwks: "fold_name ''use'' = ''use''" "fold_name ''kid'' = ''kid''" "fold_name ''alg'' = ''alg''"
  by (simp_all add: fold_name_ascii ascii_def lower_char_def)

text \<open>The JWK published for a generated key parses back to the public key, the algorithm and the id.\<close>

lemma generateRSAKey_published:
  assumes "generateRSAKey gen now = Some k" and "kg_rsa gen = Some (rnd, n, e, pem)" and s: "strong_key (RSAKey n e)"
  shows "\<exists>j. ParseJWK (sk_PublicJWK k) = Inr j \<and> JWK_PublicKey j = Inr (RSAKey n e) \<and> JWK_Algorithm j = Inr AlgRS256
    \<and> jwk_Kid j = sk_KID k"
proof -
  let ?N = "RawURLEncode (min_bytes n)" and ?E = "RawURLEncode (min_bytes e)"
  let ?j = "empty_jwk\<lparr>jwk_Kty := ''RSA'', jwk_N := ?N, jwk_E := ?E, jwk_Alg := AlgRS256, jwk_Kid := newKID rnd, jwk_Use := ''sig''\<rparr>"
  obtain j where j: "FromPublicKey (RSAKey n e) = Inr j" "JWK_PublicKey j = Inr (RSAKey n e)"
    using FromPublicKey_strong [OF s] by blast
  have js: "jwk_Kty j = ''RSA''" "jwk_N j = ?N" "jwk_E j = ?E"
    using j(1) by (auto simp: FromPublicKey_def empty_jwk_def split: if_splits)
  have "JWK_PublicKey ?j = JWK_PublicKey j"
    unfolding JWK_PublicKey_def by (simp add: js empty_jwk_def cong: option.case_cong if_cong)
  then have pk: "JWK_PublicKey ?j = Inr (RSAKey n e)" "JWK_Algorithm ?j = Inr AlgRS256"
    using j(2) by (simp_all add: JWK_Algorithm_def kty_alg_def empty_jwk_def AlgRS256_def)
  have ne: "?N \<noteq> ''''" "?E \<noteq> ''''"
    using s by (auto simp: strong_key_def key_texts_not_Nil)
  let ?ms = "[(''kty'', ''RSA''), (''use'', ''sig''), (''alg'', AlgRS256), (''kid'', newKID rnd), (''n'', ?N), (''e'', ?E)]"
  have k: "sk_PublicJWK k = CHR ''{'' # members_text ?ms @ ''}''" "sk_KID k = newKID rnd"
    using assms(1,2) ne by (auto simp: generateRSAKey_def signing_jwk_def newSigningKeyModel_def)
  have "json_decode (sk_PublicJWK k) = Some (JObj (map (\<lambda>(k, v). (k, JStr v)) ?ms))"
    unfolding k by (rule json_decode_members) (auto simp: newKID_def AlgRS256_def ascii_def RawURLEncode_ascii [unfolded ascii_def])
  then have "ParseJWK (sk_PublicJWK k) = Inr ?j"
    using pk by (simp add: ParseJWK_def ParseJWK_value_def privateMembers_def set_field_def empty_jwk_def fold_name_jwks)
  with pk k show ?thesis by (auto simp: empty_jwk_def)
qed

end
