(* ===== verification/Pop.thy ===== *)
theory Pop
  imports Jwt Oidc
begin

text \<open>
  Proof of possession (\<open>internal/pop\<close>): DPoP proofs (\<open>dpop.go\<close>) and the JWT assertions of devices
  (\<open>assertion.go\<close>), each with its checker and with the maker the clients use. The JWT library is the
  argument of \<open>Jwt\<close>; a private key is the pair of its opaque handle and its public half. An object the
  library decodes lists its members once each in the order \<open>json.Marshal\<close> writes a map.
\<close>

subsection \<open>Common parts\<close>

definition DefaultSkew :: duration where "DefaultSkew = 5 * Minute"
definition MaxAssertionLifetime :: duration where "MaxAssertionLifetime = 5 * Minute"
definition ProofType :: string where "ProofType = ''dpop+jwt''"

type_synonym signer = "string \<times> pubkey"

text \<open>\<open>int64(n)\<close> drops the fraction of a float towards zero.\<close>

definition trunc :: "rat \<Rightarrow> int" where
  "trunc q = (if 0 \<le> q then \<lfloor>q\<rfloor> else \<lceil>q\<rceil>)"

definition numericDate :: "json option \<Rightarrow> time option" where
  "numericDate v = (case v of Some (JNum n) \<Rightarrow> Some (time_of_Unix (trunc n)) | _ \<Rightarrow> None)"

lemma trunc_of_int [simp]: "trunc (of_int i) = i"
  by (simp add: trunc_def)

lemma numericDate_jint [simp]: "numericDate (Some (jint i)) = Some (time_of_Unix i)"
  by (simp add: numericDate_def jint_def)

definition AccessTokenHash :: "string \<Rightarrow> string" where
  "AccessTokenHash tok = RawURLEncode (Sum256 tok)"

definition JTIHash :: "string \<Rightarrow> string \<Rightarrow> string" where
  "JTIHash jkt jti = hex_encode (Sum256 (jkt @ [CHR 0x00] @ jti))"

text \<open>\<open>strings.EqualFold\<close>; \<open>uf\<close> is the case folding of runes above ASCII.\<close>

definition fold_rune :: "(nat \<Rightarrow> nat) \<Rightarrow> nat \<Rightarrow> nat" where
  "fold_rune uf r = (if 65 \<le> r \<and> r \<le> 90 then r + 32 else if r = 8490 then 107 else if r = 383 then 115
     else if r < 128 then r else uf r)"

definition EqualFold :: "(nat \<Rightarrow> nat) \<Rightarrow> string \<Rightarrow> string \<Rightarrow> bool" where
  "EqualFold uf a b \<longleftrightarrow> map (fold_rune uf \<circ> fst) (runes a) = map (fold_rune uf \<circ> fst) (runes b)"

definition sameHTU :: "(nat \<Rightarrow> nat) \<Rightarrow> string \<Rightarrow> string \<Rightarrow> bool" where
  "sameHTU uf got want = (case (url_Parse got, url_Parse want) of
     (Some g, Some w) \<Rightarrow> EqualFold uf (u_Scheme g) (u_Scheme w) \<and> EqualFold uf (u_Host g) (u_Host w) \<and> u_Path g = u_Path w
   | _ \<Rightarrow> False)"

subsection \<open>Signing\<close>

text \<open>The JSON of a \<open>JWK\<close>: the fields in order, all but \<open>kty\<close> left out when empty.\<close>

definition jwk_json :: "JWK \<Rightarrow> json" where
  "jwk_json j = JObj ((''kty'', JStr (jwk_Kty j)) # filter (\<lambda>(k, v). v \<noteq> JStr '''')
     [(''crv'', JStr (jwk_Crv j)), (''x'', JStr (jwk_X j)), (''y'', JStr (jwk_Y j)), (''n'', JStr (jwk_N j)),
      (''e'', JStr (jwk_E j)), (''alg'', JStr (jwk_Alg j)), (''kid'', JStr (jwk_Kid j)), (''use'', JStr (jwk_Use j))])"

definition Sign :: "jwtlib \<Rightarrow> signer \<Rightarrow> claims \<Rightarrow> claims \<Rightarrow> string option" where
  "Sign lib key hdr c = (case SigningAlgorithm (snd key) of
     Inl _ \<Rightarrow> None
   | Inr alg \<Rightarrow> jl_Sign lib alg (fst key) ([''typ'' \<mapsto> JStr ''JWT'', ''alg'' \<mapsto> JStr alg] ++ hdr) c)"

subsection \<open>dpop.go\<close>

record Proof =
  pr_JWK :: JWK
  pr_JKT :: string
  pr_Alg :: string
  pr_JTI :: string
  pr_HTM :: string
  pr_HTU :: string
  pr_ATH :: string
  pr_IssuedAt :: time

record ProofOptions =
  po_Skew :: duration
  po_HTM :: string
  po_HTU :: string
  po_AccessToken :: string

datatype pop_err = PMissing | PTooLarge | PToken | PKey | PIss | PSub | PJti | PHtm | PHtu | PIat | PExp | PWindow
  | PHtmMismatch | PHtuMismatch | PAth | PLifetime | PMisconfigured

text \<open>The key function: the type of the token, its embedded key, and the algorithm against the key.\<close>

definition proof_jwk :: "claims \<Rightarrow> JWK option" where
  "proof_jwk h = (if str_of (h ''typ'') \<noteq> ProofType then None
     else (case h ''jwk'' of None \<Rightarrow> None
       | Some v \<Rightarrow> (case ParseJWK_value v of Inl _ \<Rightarrow> None
          | Inr j \<Rightarrow> if JWK_Algorithm j \<noteq> Inr (str_of (h ''alg'')) then None else Some j)))"

definition proof_key :: "claims \<Rightarrow> pubkey option" where
  "proof_key h = (case proof_jwk h of None \<Rightarrow> None
     | Some j \<Rightarrow> (case JWK_PublicKey j of Inl _ \<Rightarrow> None | Inr k \<Rightarrow> Some k))"

definition VerifyProof :: "jwtlib \<Rightarrow> (nat \<Rightarrow> nat) \<Rightarrow> time \<Rightarrow> ProofOptions \<Rightarrow> string \<Rightarrow> pop_err + Proof" where
  "VerifyProof lib uf now opt raw =
    (let skew = (if po_Skew opt \<le> 0 then DefaultSkew else po_Skew opt) in
     if raw = [] then Inl PMissing
     else if 8192 < length raw then Inl PTooLarge
     else (case jl_Parse lib \<lparr>jo_methods = AllowedAlgs, jo_validate = False, jo_issuer = None, jo_audience = None,
             jo_exp_required = False, jo_iat = False, jo_leeway = 0, jo_now = now\<rparr> proof_key raw of
       None \<Rightarrow> Inl PToken
     | Some (h, c) \<Rightarrow> (case proof_jwk h of None \<Rightarrow> Inl PToken
       | Some j \<Rightarrow> (case Thumbprint j of Inl _ \<Rightarrow> Inl PKey
         | Inr jkt \<Rightarrow>
           let jti = str_of (c ''jti''); htm = str_of (c ''htm''); htu = str_of (c ''htu''); ath = str_of (c ''ath'') in
           if jti = [] \<or> 256 < length jti then Inl PJti
           else if htm = [] then Inl PHtm
           else if htu = [] then Inl PHtu
           else (case numericDate (c ''iat'') of None \<Rightarrow> Inl PIat
             | Some iat \<Rightarrow>
               if iat < now - skew \<or> now + skew < iat then Inl PWindow
               else if po_HTM opt \<noteq> [] \<and> htm \<noteq> po_HTM opt then Inl PHtmMismatch
               else if po_HTU opt \<noteq> [] \<and> \<not> sameHTU uf htu (po_HTU opt) then Inl PHtuMismatch
               else if po_AccessToken opt \<noteq> [] \<and> (ath = [] \<or> ath \<noteq> AccessTokenHash (po_AccessToken opt)) then Inl PAth
               else Inr \<lparr>pr_JWK = j, pr_JKT = jkt, pr_Alg = str_of (h ''alg''), pr_JTI = jti, pr_HTM = htm, pr_HTU = htu,
                  pr_ATH = ath, pr_IssuedAt = iat\<rparr>)))))"

text \<open>\<open>NewProof\<close>; \<open>jti\<close> is the random identifier (\<open>randomID\<close> of 16 bytes).\<close>

definition randomID :: "string \<Rightarrow> string" where
  "randomID rnd = RawURLEncode rnd"

definition proof_claims :: "string \<Rightarrow> string \<Rightarrow> string \<Rightarrow> string \<Rightarrow> time \<Rightarrow> claims" where
  "proof_claims rnd htm htu accessToken now =
     (let c = [''jti'' \<mapsto> JStr (randomID rnd), ''htm'' \<mapsto> JStr htm, ''htu'' \<mapsto> JStr htu, ''iat'' \<mapsto> jint (Unix now)]
      in if accessToken \<noteq> [] then c(''ath'' \<mapsto> JStr (AccessTokenHash accessToken)) else c)"

definition NewProof :: "jwtlib \<Rightarrow> signer \<Rightarrow> string \<Rightarrow> string \<Rightarrow> string \<Rightarrow> string \<Rightarrow> time \<Rightarrow> string option" where
  "NewProof lib key rnd htm htu accessToken now = (case FromPublicKey (snd key) of
     Inl _ \<Rightarrow> None
   | Inr j \<Rightarrow> Sign lib key [''typ'' \<mapsto> JStr ProofType, ''jwk'' \<mapsto> jwk_json j] (proof_claims rnd htm htu accessToken now))"

subsection \<open>assertion.go\<close>

record Assertion =
  as_Issuer :: string
  as_Subject :: string
  as_JTI :: string
  as_KID :: string
  as_IssuedAt :: time
  as_ExpiresAt :: time
  as_Claims :: claims

record AssertionOptions =
  ao_Key :: "pubkey option"
  ao_Alg :: string
  ao_Audience :: string
  ao_Skew :: duration
  ao_MaxLifetime :: duration

definition UnverifiedIssuer :: "jwtlib \<Rightarrow> string \<Rightarrow> string option" where
  "UnverifiedIssuer lib raw = (if raw = [] \<or> 8192 < length raw then None
     else (case jl_ParseUnverified lib raw of None \<Rightarrow> None
       | Some (h, c) \<Rightarrow> if str_of (c ''iss'') = [] then None else Some (str_of (c ''iss''))))"

definition VerifyAssertion :: "jwtlib \<Rightarrow> time \<Rightarrow> AssertionOptions \<Rightarrow> string \<Rightarrow> pop_err + Assertion" where
  "VerifyAssertion lib now opt raw =
    (let skew = (if ao_Skew opt \<le> 0 then DefaultSkew else ao_Skew opt);
         maxLife = (if ao_MaxLifetime opt \<le> 0 then MaxAssertionLifetime else ao_MaxLifetime opt) in
     if ao_Key opt = None \<or> ao_Alg opt = [] \<or> ao_Audience opt = [] then Inl PMisconfigured
     else (case jl_Parse lib \<lparr>jo_methods = [ao_Alg opt], jo_validate = True, jo_issuer = None, jo_audience = Some (ao_Audience opt),
             jo_exp_required = True, jo_iat = True, jo_leeway = skew, jo_now = now\<rparr> (\<lambda>_. ao_Key opt) raw of
       None \<Rightarrow> Inl PToken
     | Some (h, c) \<Rightarrow>
       if str_of (c ''iss'') = [] then Inl PIss
       else if str_of (c ''sub'') = [] then Inl PSub
       else if str_of (c ''jti'') = [] \<or> 256 < length (str_of (c ''jti'')) then Inl PJti
       else (case numericDate (c ''iat'') of None \<Rightarrow> Inl PIat
         | Some iat \<Rightarrow> (case numericDate (c ''exp'') of None \<Rightarrow> Inl PExp
           | Some exp_at \<Rightarrow> if maxLife < time_Sub exp_at iat then Inl PLifetime
             else Inr \<lparr>as_Issuer = str_of (c ''iss''), as_Subject = str_of (c ''sub''), as_JTI = str_of (c ''jti''),
               as_KID = str_of (h ''kid''), as_IssuedAt = iat, as_ExpiresAt = exp_at, as_Claims = c\<rparr>))))"

definition assertion_claims :: "string \<Rightarrow> string \<Rightarrow> string \<Rightarrow> time \<Rightarrow> duration \<Rightarrow> claims \<Rightarrow> claims" where
  "assertion_claims rnd deviceID audience now ttl0 extra =
     (let ttl = (if ttl0 \<le> 0 \<or> MaxAssertionLifetime < ttl0 then MaxAssertionLifetime else ttl0)
      in [''iss'' \<mapsto> JStr deviceID, ''sub'' \<mapsto> JStr deviceID, ''aud'' \<mapsto> JStr audience, ''iat'' \<mapsto> jint (Unix now),
          ''exp'' \<mapsto> jint (Unix (now + ttl)), ''jti'' \<mapsto> JStr (randomID rnd)] ++ extra)"

definition NewAssertion ::
  "jwtlib \<Rightarrow> signer \<Rightarrow> string \<Rightarrow> string \<Rightarrow> string \<Rightarrow> string \<Rightarrow> time \<Rightarrow> duration \<Rightarrow> claims \<Rightarrow> string option" where
  "NewAssertion lib key rnd kid deviceID audience now ttl extra =
     Sign lib key (if kid \<noteq> [] then [''kid'' \<mapsto> JStr kid] else Map.empty) (assertion_claims rnd deviceID audience now ttl extra)"

subsection \<open>Accepted proofs\<close>

text \<open>C33: A DPoP proof is accepted only if it is signed, with the algorithm of the key, by the strong public
  key it carries; the thumbprint reported is that key's; its identifier is present and bounded; it was
  issued within the skew of the clock; and method, target and access token are the ones asked for.\<close>

theorem VerifyProof_sound:
  assumes lib: "jwt_contract lib" and ok: "VerifyProof lib uf now opt raw = Inr p"
  shows "\<exists>h c k. jl_ParseUnverified lib raw = Some (h, c) \<and> str_of (h ''typ'') = ProofType
    \<and> JWK_PublicKey (pr_JWK p) = Inr k \<and> strong_key k \<and> jl_Signed lib raw (key_alg k) k
    \<and> pr_Alg p = key_alg k \<and> Thumbprint (pr_JWK p) = Inr (pr_JKT p)
    \<and> pr_JTI p = str_of (c ''jti'') \<and> pr_JTI p \<noteq> [] \<and> length (pr_JTI p) \<le> 256
    \<and> \<bar>pr_IssuedAt p - now\<bar> \<le> (if po_Skew opt \<le> 0 then DefaultSkew else po_Skew opt)
    \<and> (po_HTM opt \<noteq> [] \<longrightarrow> str_of (c ''htm'') = po_HTM opt)
    \<and> (po_HTU opt \<noteq> [] \<longrightarrow> sameHTU uf (str_of (c ''htu'')) (po_HTU opt))
    \<and> (po_AccessToken opt \<noteq> [] \<longrightarrow> pr_ATH p = AccessTokenHash (po_AccessToken opt))"
proof -
  let ?o = "\<lparr>jo_methods = AllowedAlgs, jo_validate = False, jo_issuer = None, jo_audience = None,
             jo_exp_required = False, jo_iat = False, jo_leeway = 0, jo_now = now\<rparr>"
  have "\<exists>h c j jkt. jl_Parse lib ?o proof_key raw = Some (h, c) \<and> proof_jwk h = Some j \<and> Thumbprint j = Inr jkt
    \<and> str_of (c ''jti'') \<noteq> [] \<and> length (str_of (c ''jti'')) \<le> 256
    \<and> (\<exists>iat. numericDate (c ''iat'') = Some iat
        \<and> \<bar>iat - now\<bar> \<le> (if po_Skew opt \<le> 0 then DefaultSkew else po_Skew opt)
        \<and> p = \<lparr>pr_JWK = j, pr_JKT = jkt, pr_Alg = str_of (h ''alg''), pr_JTI = str_of (c ''jti''),
            pr_HTM = str_of (c ''htm''), pr_HTU = str_of (c ''htu''), pr_ATH = str_of (c ''ath''), pr_IssuedAt = iat\<rparr>)
    \<and> (po_HTM opt \<noteq> [] \<longrightarrow> str_of (c ''htm'') = po_HTM opt)
    \<and> (po_HTU opt \<noteq> [] \<longrightarrow> sameHTU uf (str_of (c ''htu'')) (po_HTU opt))
    \<and> (po_AccessToken opt \<noteq> [] \<longrightarrow> str_of (c ''ath'') = AccessTokenHash (po_AccessToken opt))"
    using ok unfolding VerifyProof_def Let_def
    by (auto split: if_split_asm option.split_asm prod.split_asm sum.split_asm)
  then obtain h c j jkt iat where p: "jl_Parse lib ?o proof_key raw = Some (h, c)" "proof_jwk h = Some j" "Thumbprint j = Inr jkt"
    "p = \<lparr>pr_JWK = j, pr_JKT = jkt, pr_Alg = str_of (h ''alg''), pr_JTI = str_of (c ''jti''),
            pr_HTM = str_of (c ''htm''), pr_HTU = str_of (c ''htu''), pr_ATH = str_of (c ''ath''), pr_IssuedAt = iat\<rparr>"
    and rest: "str_of (c ''jti'') \<noteq> []" "length (str_of (c ''jti'')) \<le> 256"
      "\<bar>iat - now\<bar> \<le> (if po_Skew opt \<le> 0 then DefaultSkew else po_Skew opt)"
      "po_HTM opt \<noteq> [] \<longrightarrow> str_of (c ''htm'') = po_HTM opt" "po_HTU opt \<noteq> [] \<longrightarrow> sameHTU uf (str_of (c ''htu'')) (po_HTU opt)"
      "po_AccessToken opt \<noteq> [] \<longrightarrow> str_of (c ''ath'') = AccessTokenHash (po_AccessToken opt)"
    by blast
  from lib[unfolded jwt_contract_def, rule_format, OF p(1)]
  obtain k where k: "jl_ParseUnverified lib raw = Some (h, c)" "proof_key h = Some k" "jl_Signed lib raw (str_of (h ''alg'')) k"
    by auto
  have j: "JWK_PublicKey j = Inr k" "JWK_Algorithm j = Inr (str_of (h ''alg''))" "str_of (h ''typ'') = ProofType"
    using k(2) p(2) by (auto simp: proof_key_def proof_jwk_def split: sum.splits option.splits if_splits)
  have "str_of (h ''alg'') = key_alg k" "strong_key k"
    using strong_of_JWK [OF j(1)] j(2) by (auto simp: JWK_Algorithm_def split: if_splits)
  with k j p rest show ?thesis by auto
qed

text \<open>An assertion is accepted only if it is signed by the registered key with the registered
  algorithm, is addressed to the audience, names issuer and subject, carries a bounded identifier, has
  not expired beyond the skew, was not issued in the future beyond it, and lives no longer than the bound.\<close>

theorem VerifyAssertion_sound:
  assumes lib: "jwt_contract lib" and ok: "VerifyAssertion lib now opt raw = Inr a"
    and skew: "skew = (if ao_Skew opt \<le> 0 then DefaultSkew else ao_Skew opt)"
    and life: "maxLife = (if ao_MaxLifetime opt \<le> 0 then MaxAssertionLifetime else ao_MaxLifetime opt)"
    and bound: "maxLife < 2 ^ 63 - 1"
  shows "\<exists>h k. jl_ParseUnverified lib raw = Some (h, as_Claims a) \<and> ao_Key opt = Some k \<and> jl_Signed lib raw (ao_Alg opt) k
    \<and> ao_Audience opt \<in> set (audience_of (as_Claims a ''aud''))
    \<and> as_Issuer a \<noteq> [] \<and> as_Subject a \<noteq> [] \<and> as_JTI a \<noteq> [] \<and> length (as_JTI a) \<le> 256
    \<and> as_Issuer a = str_of (as_Claims a ''iss'') \<and> as_Subject a = str_of (as_Claims a ''sub'')
    \<and> now < as_ExpiresAt a + skew + Second \<and> as_IssuedAt a - skew \<le> now + Second \<and> as_ExpiresAt a - as_IssuedAt a \<le> maxLife"
proof -
  let ?o = "\<lparr>jo_methods = [ao_Alg opt], jo_validate = True, jo_issuer = None, jo_audience = Some (ao_Audience opt),
             jo_exp_required = True, jo_iat = True, jo_leeway = skew, jo_now = now\<rparr>"
  have "\<exists>h c. jl_Parse lib ?o (\<lambda>_. ao_Key opt) raw = Some (h, c) \<and> str_of (c ''iss'') \<noteq> [] \<and> str_of (c ''sub'') \<noteq> []
    \<and> str_of (c ''jti'') \<noteq> [] \<and> length (str_of (c ''jti'')) \<le> 256
    \<and> (\<exists>iat ex. numericDate (c ''iat'') = Some iat \<and> numericDate (c ''exp'') = Some ex \<and> \<not> maxLife < time_Sub ex iat
       \<and> a = \<lparr>as_Issuer = str_of (c ''iss''), as_Subject = str_of (c ''sub''), as_JTI = str_of (c ''jti''),
               as_KID = str_of (h ''kid''), as_IssuedAt = iat, as_ExpiresAt = ex, as_Claims = c\<rparr>)"
    using ok unfolding VerifyAssertion_def Let_def skew life
    by (auto split: if_split_asm option.split_asm prod.split_asm)
  then obtain h c iat ex where p: "jl_Parse lib ?o (\<lambda>_. ao_Key opt) raw = Some (h, c)"
    and n: "numericDate (c ''iat'') = Some iat" "numericDate (c ''exp'') = Some ex" "\<not> maxLife < time_Sub ex iat"
    and a: "a = \<lparr>as_Issuer = str_of (c ''iss''), as_Subject = str_of (c ''sub''), as_JTI = str_of (c ''jti''),
               as_KID = str_of (h ''kid''), as_IssuedAt = iat, as_ExpiresAt = ex, as_Claims = c\<rparr>"
      "str_of (c ''iss'') \<noteq> []" "str_of (c ''sub'') \<noteq> []" "str_of (c ''jti'') \<noteq> []" "length (str_of (c ''jti'')) \<le> 256"
    by blast
  from lib[unfolded jwt_contract_def, rule_format, OF p]
  obtain k where k: "jl_ParseUnverified lib raw = Some (h, c)" "ao_Key opt = Some k" "jl_Signed lib raw (ao_Alg opt) k"
    and v: "claims_valid ?o c" by auto
  obtain qi qe where q: "c ''iat'' = Some (JNum qi)" "iat = time_of_Unix (trunc qi)" "c ''exp'' = Some (JNum qe)" "ex = time_of_Unix (trunc qe)"
    using n(1,2) by (auto simp: numericDate_def split: option.splits json.splits)
  have "now < time_of_Unix \<lceil>qe\<rceil> + skew" "time_of_Unix \<lfloor>qi\<rfloor> - skew \<le> now" "ao_Audience opt \<in> set (audience_of (c ''aud''))"
    using v q by (auto simp: claims_valid_def)
  moreover have "\<lceil>qe\<rceil> \<le> trunc qe + 1" "trunc qi \<le> \<lfloor>qi\<rfloor> + 1"
    unfolding trunc_def by (auto; linarith)+
  then have "time_of_Unix \<lceil>qe\<rceil> \<le> ex + Second" "iat \<le> time_of_Unix \<lfloor>qi\<rfloor> + Second"
    unfolding q time_of_Unix_def by (simp_all add: algebra_simps)
  moreover have "ex - iat \<le> maxLife"
    using n(3) bound by (auto simp: time_Sub_def split: if_splits)
  ultimately show ?thesis using k a by auto
qed

subsection \<open>Made proofs are accepted\<close>

lemma EqualFold_refl [simp]: "EqualFold uf a a"
  by (simp add: EqualFold_def)

lemma sameHTU_refl: "url_Parse u = Some p \<Longrightarrow> sameHTU uf u u"
  by (simp add: sameHTU_def)

lemma fold_name_alg [simp]: "fold_name ''alg'' = ''alg''"
  by (simp add: fold_name_ascii ascii_def lower_char_def)

text \<open>The JSON of the JWK of a strong key parses to that JWK.\<close>

lemma ParseJWK_of_key:
  assumes "strong_key k"
  shows "\<exists>j. FromPublicKey k = Inr j \<and> ParseJWK_value (jwk_json j) = Inr j \<and> JWK_PublicKey j = Inr k
    \<and> JWK_Algorithm j = Inr (key_alg k)"
proof -
  obtain j where j: "FromPublicKey k = Inr j" "JWK_PublicKey j = Inr k" "JWK_Algorithm j = Inr (key_alg k)"
    using FromPublicKey_strong [OF assms] by blast
  have "\<exists>ms. jwk_json j = JObj ms \<and> \<not> list_ex (\<lambda>m. m \<in> fst ` set ms) privateMembers \<and> unmarshal_jwk ms empty_jwk = Some j"
  proof (cases k)
    case (Ed25519Key x)
    then have x: "RawURLEncode x \<noteq> ''''" using assms by (auto simp: strong_key_def RawURLEncode_Nil)
    have je: "j = empty_jwk\<lparr>jwk_Kty := ''OKP'', jwk_Crv := ''Ed25519'', jwk_X := RawURLEncode x, jwk_Alg := AlgEdDSA\<rparr>"
      using j(1) Ed25519Key by (simp add: FromPublicKey_def)
    have "jwk_json j = JObj [(''kty'', JStr ''OKP''), (''crv'', JStr ''Ed25519''), (''x'', JStr (RawURLEncode x)), (''alg'', JStr AlgEdDSA)]"
      using x by (simp add: je jwk_json_def empty_jwk_def AlgEdDSA_def)
    then show ?thesis by (simp add: privateMembers_def set_field_def je empty_jwk_def)
  next
    case (P256Key x y)
    have n: "RawURLEncode (be_bytes 32 v) \<noteq> ''''" for v
      using length_be_bytes [of 32 v] by (metis RawURLEncode_Nil list.size(3) zero_neq_numeral)
    have je: "j = empty_jwk\<lparr>jwk_Kty := ''EC'', jwk_Crv := ''P-256'', jwk_Alg := AlgES256,
          jwk_X := RawURLEncode (be_bytes 32 x), jwk_Y := RawURLEncode (be_bytes 32 y)\<rparr>"
      using j(1) P256Key by (simp add: FromPublicKey_def)
    have "jwk_json j = JObj [(''kty'', JStr ''EC''), (''crv'', JStr ''P-256''), (''x'', JStr (RawURLEncode (be_bytes 32 x))),
        (''y'', JStr (RawURLEncode (be_bytes 32 y))), (''alg'', JStr AlgES256)]"
      using n by (simp add: je jwk_json_def empty_jwk_def AlgES256_def)
    then show ?thesis by (simp add: privateMembers_def set_field_def je empty_jwk_def)
  next
    case (RSAKey n e)
    then have n: "2 ^ (minRSABits - 1) \<le> n" "e \<noteq> 0" using assms by (auto simp: strong_key_def)
    then have "n \<noteq> 0" by (metis gr0I le_zero_eq power_not_zero zero_neq_numeral)
    then have ne: "RawURLEncode (min_bytes n) \<noteq> ''''" "RawURLEncode (min_bytes e) \<noteq> ''''"
      using n(2) by (simp_all add: RawURLEncode_Nil min_bytes_Nil)
    have je: "j = empty_jwk\<lparr>jwk_Kty := ''RSA'', jwk_Alg := AlgRS256, jwk_N := RawURLEncode (min_bytes n),
            jwk_E := RawURLEncode (min_bytes e)\<rparr>"
      using j(1) RSAKey by (simp add: FromPublicKey_def split: if_splits)
    have "jwk_json j = JObj [(''kty'', JStr ''RSA''), (''n'', JStr (RawURLEncode (min_bytes n))),
        (''e'', JStr (RawURLEncode (min_bytes e))), (''alg'', JStr AlgRS256)]"
      using ne by (simp add: je jwk_json_def empty_jwk_def AlgRS256_def)
    then show ?thesis by (simp add: privateMembers_def set_field_def je empty_jwk_def)
  qed (use assms in \<open>simp add: strong_key_def\<close>)
  then have "ParseJWK_value (jwk_json j) = Inr j"
    using j(2,3) by (auto simp: ParseJWK_value_def)
  with j show ?thesis by blast
qed

lemma key_alg_allowed: "strong_key k \<Longrightarrow> key_alg k \<in> set AllowedAlgs"
  by (cases k) (auto simp: strong_key_def key_alg_def AllowedAlgs_def)

lemma SigningAlgorithm_strong: "strong_key k \<Longrightarrow> SigningAlgorithm k = Inr (key_alg k)"
  using FromPublicKey_strong [of k] by (auto simp: SigningAlgorithm_def)

text \<open>The proofs the client helper makes are accepted: for the method, target and access token they were
  made for, as long as the server's clock is within the default skew, with the thumbprint of the
  signing key.\<close>

theorem NewProof_accepted:
  assumes lib: "jwt_signs lib pair rep" "pair (fst key) (snd key)" and k: "strong_key (snd key)"
    and new: "NewProof lib key rnd htm htu tok now = Some raw" and rep: "rep (proof_claims rnd htm htu tok now)"
    and len: "raw \<noteq> []" "length raw \<le> 8192" and rnd: "length rnd = 16"
    and req: "htm \<noteq> []" "htu \<noteq> []" "url_Parse htu \<noteq> None"
    and clock: "\<bar>time_of_Unix (Unix now) - now'\<bar> \<le> DefaultSkew"
  shows "\<exists>p j. VerifyProof lib uf now' \<lparr>po_Skew = 0, po_HTM = htm, po_HTU = htu, po_AccessToken = tok\<rparr> raw = Inr p
    \<and> FromPublicKey (snd key) = Inr j \<and> Thumbprint j = Inr (pr_JKT p) \<and> pr_JTI p = randomID rnd"
proof -
  let ?o = "\<lparr>jo_methods = AllowedAlgs, jo_validate = False, jo_issuer = None, jo_audience = None,
             jo_exp_required = False, jo_iat = False, jo_leeway = 0, jo_now = now'\<rparr>"
  let ?c = "proof_claims rnd htm htu tok now"
  obtain j where j: "FromPublicKey (snd key) = Inr j" "ParseJWK_value (jwk_json j) = Inr j" "JWK_PublicKey j = Inr (snd key)"
    "JWK_Algorithm j = Inr (key_alg (snd key))"
    using ParseJWK_of_key [OF k] by blast
  obtain jkt where jkt: "Thumbprint j = Inr jkt"
    using canonical_defined [OF j(3)] by (auto simp: Thumbprint_def)
  let ?h = "[''typ'' \<mapsto> JStr ''JWT'', ''alg'' \<mapsto> JStr (key_alg (snd key))] ++ [''typ'' \<mapsto> JStr ProofType, ''jwk'' \<mapsto> jwk_json j]"
  have s: "jl_Sign lib (key_alg (snd key)) (fst key) ?h ?c = Some raw"
    using new j(1) SigningAlgorithm_strong [OF k] by (simp add: NewProof_def Sign_def)
  have pj: "proof_jwk ?h = Some j" using j by (simp add: proof_jwk_def)
  then have pk: "proof_key ?h = Some (snd key)" using j by (simp add: proof_key_def)
  have "jl_Parse lib ?o proof_key raw = Some (?h, ?c)"
    using lib(1)[unfolded jwt_signs_def, rule_format, of "key_alg (snd key)" "fst key" ?h ?c raw "snd key" proof_key ?o]
      s lib(2) rep pk key_alg_allowed [OF k] by simp
  moreover have "randomID rnd \<noteq> []" "length (randomID rnd) \<le> 256"
    using rnd by (auto simp: randomID_def RawURLEncode_Nil) (simp add: RawURLEncode_def length_b64_encode)
  moreover obtain u where u: "url_Parse htu = Some u" using req(3) by auto
  moreover have window: "\<not> time_of_Unix (Unix now) < now' - DefaultSkew" "\<not> now' + DefaultSkew < time_of_Unix (Unix now)"
    using clock by linarith+
  moreover have "AccessTokenHash tok \<noteq> []"
    by (simp add: AccessTokenHash_def RawURLEncode_Nil) (metis length_Sum256 list.size(3) zero_neq_numeral)
  ultimately have "VerifyProof lib uf now' \<lparr>po_Skew = 0, po_HTM = htm, po_HTU = htu, po_AccessToken = tok\<rparr> raw
      = Inr \<lparr>pr_JWK = j, pr_JKT = jkt, pr_Alg = key_alg (snd key), pr_JTI = randomID rnd, pr_HTM = htm, pr_HTU = htu,
          pr_ATH = str_of (?c ''ath''), pr_IssuedAt = time_of_Unix (Unix now)\<rparr>"
    using len req(1,2) window pj jkt sameHTU_refl [OF u]
    by (simp add: VerifyProof_def proof_claims_def Let_def)
  with j(1) jkt show ?thesis by auto
qed

text \<open>The assertions the client helper makes are accepted by a server that holds the device's key, until
  they expire, and identify the device.\<close>

theorem NewAssertion_accepted:
  assumes lib: "jwt_signs lib pair rep" "pair (fst key) (snd key)" and k: "strong_key (snd key)"
    and new: "NewAssertion lib key rnd kid dev aud now ttl Map.empty = Some raw"
    and rep: "rep (assertion_claims rnd dev aud now ttl Map.empty)"
    and req: "dev \<noteq> []" "aud \<noteq> []" "length rnd = 16" and ttl: "0 < ttl" "ttl \<le> MaxAssertionLifetime"
    and clock: "time_of_Unix (Unix now) - DefaultSkew \<le> now'" "now' < time_of_Unix (Unix (now + ttl)) + DefaultSkew"
  shows "\<exists>a. VerifyAssertion lib now' \<lparr>ao_Key = Some (snd key), ao_Alg = key_alg (snd key), ao_Audience = aud,
      ao_Skew = 0, ao_MaxLifetime = 0\<rparr> raw = Inr a \<and> as_Issuer a = dev \<and> as_Subject a = dev \<and> as_JTI a = randomID rnd
      \<and> as_ExpiresAt a = time_of_Unix (Unix (now + ttl))"
proof -
  let ?o = "\<lparr>jo_methods = [key_alg (snd key)], jo_validate = True, jo_issuer = None, jo_audience = Some aud,
             jo_exp_required = True, jo_iat = True, jo_leeway = DefaultSkew, jo_now = now'\<rparr>"
  let ?c = "assertion_claims rnd dev aud now ttl Map.empty"
  have c: "?c ''iss'' = Some (JStr dev)" "?c ''sub'' = Some (JStr dev)" "?c ''jti'' = Some (JStr (randomID rnd))"
    "?c ''iat'' = Some (jint (Unix now))" "?c ''exp'' = Some (jint (Unix (now + ttl)))" "?c ''aud'' = Some (JStr aud)"
    "?c ''nbf'' = None"
    using ttl by (simp_all add: assertion_claims_def Let_def)
  let ?h = "[''typ'' \<mapsto> JStr ''JWT'', ''alg'' \<mapsto> JStr (key_alg (snd key))] ++ (if kid \<noteq> [] then [''kid'' \<mapsto> JStr kid] else Map.empty)"
  have s: "jl_Sign lib (key_alg (snd key)) (fst key) ?h ?c = Some raw"
    using new SigningAlgorithm_strong [OF k] by (simp add: NewAssertion_def Sign_def)
  have "claims_valid ?o ?c"
    using clock by (simp add: claims_valid_def c jint_def audience_of_def)
  then have p: "jl_Parse lib ?o (\<lambda>_. Some (snd key)) raw = Some (?h, ?c)"
    using lib(1)[unfolded jwt_signs_def, rule_format, of "key_alg (snd key)" "fst key" ?h ?c raw "snd key" "\<lambda>_. Some (snd key)" ?o]
      s lib(2) rep by simp
  have r: "randomID rnd \<noteq> []" "length (randomID rnd) \<le> 256"
    using req(3) by (auto simp: randomID_def RawURLEncode_Nil) (simp add: RawURLEncode_def length_b64_encode)
  have "Unix (now + ttl) - Unix now \<le> 300"
    using ttl unfolding Unix_def MaxAssertionLifetime_def by linarith
  then have "\<not> MaxAssertionLifetime < time_Sub (time_of_Unix (Unix (now + ttl))) (time_of_Unix (Unix now))"
    by (simp add: time_Sub_def time_of_Unix_def MaxAssertionLifetime_def)
  moreover have "key_alg (snd key) \<noteq> []"
    using k by (cases "snd key") (auto simp: strong_key_def key_alg_def alg_defs)
  ultimately show ?thesis
    using p r req(1,2) by (simp add: VerifyAssertion_def c Let_def)
qed

subsection \<open>Witnesses\<close>

definition sample_signer :: signer where
  "sample_signer = (''priv'', Ed25519Key (replicate 32 CHR ''k''))"

definition sample_jwk :: JWK where
  "sample_jwk = empty_jwk\<lparr>jwk_Kty := ''OKP'', jwk_Crv := ''Ed25519'', jwk_X := RawURLEncode (replicate 32 CHR ''k''),
     jwk_Alg := AlgEdDSA\<rparr>"

definition sample_proof_header :: claims where
  "sample_proof_header = [''alg'' \<mapsto> JStr AlgEdDSA, ''typ'' \<mapsto> JStr ProofType, ''jwk'' \<mapsto> jwk_json sample_jwk]"

definition sample_proof_claims :: claims where
  "sample_proof_claims = proof_claims (replicate 16 CHR ''r'') ''POST'' ''https://id/token'' '''' 0"

definition sample_proof_lib :: jwtlib where
  "sample_proof_lib = sample_lib sample_proof_header sample_proof_claims (snd sample_signer)"

lemma sample_signer_strong: "strong_key (snd sample_signer)"
  by (simp add: sample_signer_def strong_key_def)

lemma sample_signer_jwk: "FromPublicKey (snd sample_signer) = Inr sample_jwk"
  by (simp add: sample_signer_def FromPublicKey_def sample_jwk_def)

lemma sample_header_key: "proof_jwk sample_proof_header = Some sample_jwk" "proof_key sample_proof_header = Some (snd sample_signer)"
proof -
  have j: "ParseJWK_value (jwk_json sample_jwk) = Inr sample_jwk" "JWK_PublicKey sample_jwk = Inr (snd sample_signer)"
    "JWK_Algorithm sample_jwk = Inr AlgEdDSA"
    using ParseJWK_of_key [OF sample_signer_strong] sample_signer_jwk by (auto simp: sample_signer_def key_alg_def)
  show p: "proof_jwk sample_proof_header = Some sample_jwk"
    using j by (simp add: proof_jwk_def sample_proof_header_def)
  show "proof_key sample_proof_header = Some (snd sample_signer)"
    using p j by (simp add: proof_key_def)
qed

lemma sample_randomID: "randomID (replicate 16 CHR ''r'') \<noteq> []" "length (randomID (replicate 16 CHR ''r'')) \<le> 256"
  by (simp add: randomID_def RawURLEncode_Nil) (simp add: randomID_def RawURLEncode_def length_b64_encode)

theorem VerifyProof_sound_witness:
  "\<exists>p k. VerifyProof sample_proof_lib id 0 \<lparr>po_Skew = 0, po_HTM = ''POST'', po_HTU = '''', po_AccessToken = ''''\<rparr> ''tok'' = Inr p
     \<and> JWK_PublicKey (pr_JWK p) = Inr k \<and> jl_Signed sample_proof_lib ''tok'' (key_alg k) k"
proof -
  obtain jkt where "Thumbprint sample_jwk = Inr jkt"
    using canonical_defined [of sample_jwk "snd sample_signer"] ParseJWK_of_key [OF sample_signer_strong] sample_signer_jwk
    by (auto simp: Thumbprint_def)
  then have "\<exists>p. VerifyProof sample_proof_lib id 0 \<lparr>po_Skew = 0, po_HTM = ''POST'', po_HTU = '''', po_AccessToken = ''''\<rparr> ''tok'' = Inr p"
    using sample_header_key sample_randomID
    by (simp add: VerifyProof_def sample_proof_lib_def sample_lib_def sample_proof_claims_def proof_claims_def Let_def
        AllowedAlgs_def DefaultSkew_def time_of_Unix_def Unix_def sample_proof_header_def [THEN fun_cong, of "''alg''"])
  then obtain p where p: "VerifyProof sample_proof_lib id 0 \<lparr>po_Skew = 0, po_HTM = ''POST'', po_HTU = '''', po_AccessToken = ''''\<rparr> ''tok'' = Inr p"
    by blast
  have "jwt_contract sample_proof_lib" by (simp add: sample_proof_lib_def sample_lib_contract)
  from VerifyProof_sound [OF this p] p show ?thesis by blast
qed

theorem NewProof_accepted_witness:
  "\<exists>p. VerifyProof sample_proof_lib id 0 \<lparr>po_Skew = 0, po_HTM = ''POST'', po_HTU = ''https://id/token'', po_AccessToken = ''''\<rparr> ''tok'' = Inr p
     \<and> pr_JTI p = randomID (replicate 16 CHR ''r'')"
proof -
  have s: "jwt_signs sample_proof_lib (\<lambda>priv pub. pub = snd sample_signer) (\<lambda>c. True)"
    by (simp add: sample_proof_lib_def sample_lib_signs)
  have "key_alg (snd sample_signer) = AlgEdDSA" by (simp add: sample_signer_def key_alg_def)
  then have n: "NewProof sample_proof_lib sample_signer (replicate 16 CHR ''r'') ''POST'' ''https://id/token'' '''' 0 = Some ''tok''"
    by (simp add: NewProof_def sample_signer_jwk Sign_def SigningAlgorithm_strong [OF sample_signer_strong])
       (simp add: sample_proof_lib_def sample_lib_def sample_proof_claims_def sample_proof_header_def)
  have u: "url_Parse ''https://id/token'' \<noteq> None" by code_simp
  show ?thesis
    using NewProof_accepted [OF s refl sample_signer_strong n, of 0 id] u
    by (simp add: DefaultSkew_def time_of_Unix_def Unix_def) blast
qed

definition sample_assertion_claims :: claims where
  "sample_assertion_claims = assertion_claims (replicate 16 CHR ''r'') ''d1'' ''https://id'' 0 Minute Map.empty"

definition sample_assertion_lib :: jwtlib where
  "sample_assertion_lib = sample_lib [''typ'' \<mapsto> JStr ''JWT'', ''alg'' \<mapsto> JStr AlgEdDSA] sample_assertion_claims (snd sample_signer)"

definition sample_assertion_opts :: AssertionOptions where
  "sample_assertion_opts = \<lparr>ao_Key = Some (snd sample_signer), ao_Alg = AlgEdDSA, ao_Audience = ''https://id'', ao_Skew = 0, ao_MaxLifetime = 0\<rparr>"

theorem VerifyAssertion_sound_witness:
  "\<exists>a. VerifyAssertion sample_assertion_lib 0 sample_assertion_opts ''tok'' = Inr a \<and> as_Issuer a = ''d1''
     \<and> jl_Signed sample_assertion_lib ''tok'' AlgEdDSA (snd sample_signer) \<and> as_ExpiresAt a - as_IssuedAt a \<le> 5 * Minute"
proof -
  have c: "sample_assertion_claims ''iss'' = Some (JStr ''d1'')" "sample_assertion_claims ''sub'' = Some (JStr ''d1'')"
    "sample_assertion_claims ''jti'' = Some (JStr (randomID (replicate 16 CHR ''r'')))"
    "sample_assertion_claims ''iat'' = Some (jint (Unix 0))" "sample_assertion_claims ''exp'' = Some (jint (Unix Minute))"
    "sample_assertion_claims ''aud'' = Some (JStr ''https://id'')" "sample_assertion_claims ''nbf'' = None"
    by (simp_all add: sample_assertion_claims_def assertion_claims_def MaxAssertionLifetime_def)
  have "AlgEdDSA \<noteq> []" by (simp add: AlgEdDSA_def)
  then have "\<exists>a. VerifyAssertion sample_assertion_lib 0 sample_assertion_opts ''tok'' = Inr a \<and> as_Issuer a = ''d1''"
    using sample_randomID
    by (simp add: VerifyAssertion_def sample_assertion_lib_def sample_lib_def c sample_assertion_opts_def claims_valid_def jint_def
        audience_of_def DefaultSkew_def MaxAssertionLifetime_def numericDate_def time_Sub_def time_of_Unix_def Unix_def trunc_def)
  then obtain a where a: "VerifyAssertion sample_assertion_lib 0 sample_assertion_opts ''tok'' = Inr a" "as_Issuer a = ''d1''" by blast
  have l: "jwt_contract sample_assertion_lib" by (simp add: sample_assertion_lib_def sample_lib_contract)
  from VerifyAssertion_sound [OF l a(1) refl refl] a show ?thesis
    by (auto simp: sample_assertion_opts_def MaxAssertionLifetime_def)
qed

theorem NewAssertion_accepted_witness:
  "\<exists>a. VerifyAssertion sample_assertion_lib 0 sample_assertion_opts ''tok'' = Inr a \<and> as_Subject a = ''d1''"
proof -
  have s: "jwt_signs sample_assertion_lib (\<lambda>priv pub. pub = snd sample_signer) (\<lambda>c. True)"
    by (simp add: sample_assertion_lib_def sample_lib_signs)
  have k: "key_alg (snd sample_signer) = AlgEdDSA" by (simp add: sample_signer_def key_alg_def)
  have n: "NewAssertion sample_assertion_lib sample_signer (replicate 16 CHR ''r'') '''' ''d1'' ''https://id'' 0 Minute Map.empty = Some ''tok''"
    by (simp add: NewAssertion_def Sign_def SigningAlgorithm_strong [OF sample_signer_strong] k)
       (simp add: sample_assertion_lib_def sample_lib_def sample_assertion_claims_def)
  show ?thesis
    using NewAssertion_accepted [OF s refl sample_signer_strong n, of 0]
    by (simp add: DefaultSkew_def MaxAssertionLifetime_def time_of_Unix_def Unix_def k sample_assertion_opts_def) blast
qed

end
