(* ===== verification/WebBase.thy ===== *)
theory WebBase
  imports Settings Sessions Pop "HOL-Library.State_Monad"
begin

text \<open>
  What the handlers of \<open>internal/web\<close> share: the server and its state, a request as \<open>net/http\<close> presents
  it, the responses, and the small operations of \<open>server.go\<close>, \<open>errors.go\<close>, \<open>audit.go\<close>, \<open>middleware.go\<close>
  and \<open>revocation.go\<close>.

  A handler is a program of the state monad over the state of the server: the database, the live
  settings, the rate limiters and the counters. A call of the repository is \<open>stmt\<close> when it writes and
  \<open>ask\<close> when it only reads. Response headers are not part of a response. Every place of the code that
  draws a random identifier has a name, under which the request carries the value drawn.
\<close>

subsection \<open>Requests\<close>

record request =
  rq_Method :: string
  rq_Path :: string
  rq_FormOK :: bool
  rq_PostForm :: "(string \<times> string) list"
  rq_Query :: "(string \<times> string) list"
  rq_PathValue :: "(string \<times> string) list"
  rq_Authorization :: string
  rq_DPoP :: string
  rq_UserAgent :: string
  rq_Cookies :: "(string \<times> string) list"
  rq_RemoteAddr :: string
  rq_Body :: string
  rq_now :: time
  rq_uuid :: "string \<Rightarrow> string"
  rq_rand :: "string \<Rightarrow> string"

text \<open>The first value of a key, or the empty string.\<close>

definition first_value :: "(string \<times> string) list \<Rightarrow> string \<Rightarrow> string" where
  "first_value ps k = (case map_of ps k of None \<Rightarrow> '''' | Some v \<Rightarrow> v)"

definition PostFormValue :: "request \<Rightarrow> string \<Rightarrow> string" where
  "PostFormValue r k = first_value (rq_PostForm r) k"

definition QueryGet :: "request \<Rightarrow> string \<Rightarrow> string" where
  "QueryGet r k = first_value (rq_Query r) k"

definition Cookie :: "request \<Rightarrow> string \<Rightarrow> string option" where
  "Cookie r k = map_of (rq_Cookies r) k"

text \<open>\<open>Request.BasicAuth\<close>: base64 with padding, and a colon.\<close>

definition StdDecode :: "string \<Rightarrow> string option" where
  "StdDecode s0 = (let s = strip_newlines s0; body = TrimRight CHR ''='' s; pad = length s - length body
     in if length s mod 4 \<noteq> 0 \<or> 2 < pad then None else RawStdDecode body)"

definition BasicAuth :: "request \<Rightarrow> (string \<times> string) option" where
  "BasicAuth r = (let h = rq_Authorization r in
     if length h < 6 \<or> map lower_char (take 6 h) \<noteq> ''basic '' then None
     else (case StdDecode (drop 6 h) of
       None \<Rightarrow> None
     | Some c \<Rightarrow> if CHR '':'' \<in> set c then Some (before CHR '':'' c, after CHR '':'' c) else None))"

text \<open>\<open>net.SplitHostPort\<close>, and the address a request is counted under.\<close>

definition net_SplitHostPort :: "string \<Rightarrow> (string \<times> string) option" where
  "net_SplitHostPort s =
    (if CHR '':'' \<notin> set s then None
     else if hd s = CHR ''['' then
       (let host = before CHR '']'' (tl s); rest = after CHR '']'' s in
        if CHR '']'' \<notin> set s \<or> rest = [] \<or> hd rest \<noteq> CHR '':'' \<or> CHR '':'' \<in> set (tl rest)
           \<or> CHR ''['' \<in> set (tl s) \<or> CHR '']'' \<in> set rest then None
        else Some (host, tl rest))
     else (let host = before_last CHR '':'' s in
        if CHR '':'' \<in> set host \<or> CHR ''['' \<in> set s \<or> CHR '']'' \<in> set s then None
        else Some (host, after_last CHR '':'' s)))"

definition clientIP :: "request \<Rightarrow> string" where
  "clientIP r = (case net_SplitHostPort (rq_RemoteAddr r) of None \<Rightarrow> rq_RemoteAddr r | Some (host, _) \<Rightarrow> host)"

definition bearerToken :: "request \<Rightarrow> string" where
  "bearerToken r = (case CutPrefix (rq_Authorization r) ''Bearer '' of None \<Rightarrow> '''' | Some x \<Rightarrow> TrimSpace x)"

definition authorizationToken :: "request \<Rightarrow> string \<times> string" where
  "authorizationToken r = (let h = TrimSpace (rq_Authorization r) in
     if CHR '' '' \<notin> set h then ('''', '''') else (before CHR '' '' h, TrimSpace (after CHR '' '' h)))"

subsection \<open>Responses\<close>

record tokenResponse =
  tr_AccessToken :: string
  tr_TokenType :: string
  tr_ExpiresIn :: int
  tr_RefreshToken :: string
  tr_IDToken :: string
  tr_Scope :: string

record tokenExchangeResponse =
  xr_AccessToken :: string
  xr_IssuedTokenType :: string
  xr_TokenType :: string
  xr_ExpiresIn :: int
  xr_Scope :: string

text \<open>A JSON body is its members; \<open>Page\<close> is a rendered template with the values a caller relies on;
  \<open>Plain\<close> the text of \<open>http.Error\<close>.\<close>

datatype response =
    OAuthError int string string
  | Tokens tokenResponse
  | Exchanged tokenExchangeResponse
  | Json int "(string \<times> json) list"
  | Status int
  | Redirect string
  | Plain int string
  | Page int string "(string \<times> string) list"

definition oauthError :: "int \<Rightarrow> string \<Rightarrow> string \<Rightarrow> response" where
  "oauthError status code desc = OAuthError status code desc"

definition oauthClientAuthError :: response where
  "oauthClientAuthError = oauthError 401 ''invalid_client'' ''client authentication failed''"

definition apiError :: "int \<Rightarrow> string \<Rightarrow> string \<Rightarrow> response" where
  "apiError status code desc = OAuthError status code desc"

definition renderError :: "int \<Rightarrow> string \<Rightarrow> response" where
  "renderError status message = Page status ''error'' [(''Message'', message)]"

text \<open>A string member of a map.\<close>

abbreviation member :: "string \<Rightarrow> string \<Rightarrow> string \<times> json" where
  "member k v \<equiv> (k, JStr v)"

subsection \<open>The server and its state\<close>

text \<open>An external source of passwords (\<open>authn.PasswordConnector\<close>): \<open>None\<close> is an operational error,
  \<open>Some None\<close> a refusal.\<close>

record Identity =
  id_Connector :: string
  id_ExternalID :: string
  id_Username :: string
  id_Email :: string
  id_DisplayName :: string
  id_IsAdmin :: bool

type_synonym connector = "request \<Rightarrow> string \<Rightarrow> string \<Rightarrow> Identity option option"

text \<open>What does not change while the server runs: the JWT library and the signing keys, case folding
  above ASCII, the configured aliases, webhooks and setup token, the texts of the library's errors, the
  key derivation of Argon2, the encryption at rest, the connectors, and whether mail is configured.\<close>

record server =
  srv_lib :: jwtlib
  srv_keys :: KeyManager
  srv_fold :: "nat \<Rightarrow> nat"
  srv_unicode :: unicode_tables
  srv_errtext :: "pop_err \<Rightarrow> string"
  srv_dbtext :: "db_err \<Rightarrow> string"
  srv_IssuerAliases :: "string list"
  srv_Webhooks :: "string list"
  srv_SetupToken :: string
  srv_idkey :: idkey
  srv_Encrypt :: "string \<Rightarrow> string \<Rightarrow> string option"
  srv_Decrypt :: "string \<Rightarrow> string option"
  srv_connectors :: "connector list"
  srv_mailEnabled :: bool

record counters =
  mt_logins :: "string \<Rightarrow> string \<Rightarrow> nat"
  mt_mfa :: "string \<Rightarrow> nat"
  mt_tokens :: "string \<Rightarrow> nat"
  mt_deviceEnroll :: "string \<Rightarrow> nat"
  mt_deviceAuth :: "string \<Rightarrow> nat"
  mt_deviceGrant :: "string \<Rightarrow> nat"

text \<open>\<open>st_verifyActive\<close> counts the password checks under way. The last three fields record what has gone
  out beside the responses: the revocation messages handed to the webhooks, each with its address, the
  cookies set, each with its value (empty for a cookie that is cleared), and the links mailed.\<close>

record srvstate =
  st_db :: db
  st_settings :: SettingsView
  st_loginRate :: rateLimiter
  st_loginIPRate :: rateLimiter
  st_mfaRate :: rateLimiter
  st_forgotRate :: rateLimiter
  st_deviceCodeRate :: rateLimiter
  st_deviceGrantRate :: rateLimiter
  st_metrics :: counters
  st_verifyActive :: int
  st_pushed :: "(string \<times> string) list"
  st_cookies :: "(string \<times> string) list"
  st_mails :: "(string \<times> string) list"

type_synonym 'a prog = "(srvstate, 'a) state"

abbreviation done_with :: "'a \<Rightarrow> 'a prog" where
  "done_with x \<equiv> State_Monad.return x"

definition ask :: "(db \<Rightarrow> 'a) \<Rightarrow> 'a prog" where
  "ask f = State (\<lambda>st. (f (st_db st), st))"

definition stmt :: "(db \<Rightarrow> 'a \<times> db) \<Rightarrow> 'a prog" where
  "stmt f = State (\<lambda>st. let (x, d) = f (st_db st) in (x, st\<lparr>st_db := d\<rparr>))"

definition settings_Current :: "SettingsView prog" where
  "settings_Current = State (\<lambda>st. (st_settings st, st))"

definition modify :: "(srvstate \<Rightarrow> srvstate) \<Rightarrow> unit prog" where
  "modify f = State (\<lambda>st. ((), f st))"

lemma run_ask [simp]: "run_state (ask f) st = (f (st_db st), st)"
  by (simp add: ask_def)

lemma run_stmt [simp]: "run_state (stmt f) st = (fst (f (st_db st)), st\<lparr>st_db := snd (f (st_db st))\<rparr>)"
  by (simp add: stmt_def split_beta)

lemma run_settings [simp]: "run_state settings_Current st = (st_settings st, st)"
  by (simp add: settings_Current_def)

lemma run_modify [simp]: "run_state (modify f) st = ((), f st)"
  by (simp add: modify_def)

text \<open>\<open>int(d.Seconds())\<close>, and the issuer's live configuration.\<close>

definition whole_seconds :: "duration \<Rightarrow> int" where
  "whole_seconds d = (if 0 \<le> d then d div Second else - ((- d) div Second))"

definition issuerConfig :: "SettingsView \<Rightarrow> issuer_cfg" where
  "issuerConfig cur = \<lparr>ic_Issuer = sv_Issuer cur, ic_AccessTTL = sv_TokenTTL cur, ic_IDTTL = sv_TokenTTL cur\<rparr>"

definition sessionConfig :: "SettingsView \<Rightarrow> session_cfg" where
  "sessionConfig cur = \<lparr>sc_Secure = sv_CookieSecure cur, sc_Lifetime = sv_SessionLifetime cur, sc_Idle = sv_SessionIdleTimeout cur\<rparr>"

subsection \<open>Cookies, sessions and pages\<close>

definition sessionCookieName :: string where "sessionCookieName = ''omni_session''"
definition csrfCookieName :: string where "csrfCookieName = ''omni_csrf''"

definition set_cookie :: "string \<Rightarrow> string \<Rightarrow> unit prog" where
  "set_cookie name val = modify (\<lambda>st. st\<lparr>st_cookies := st_cookies st @ [(name, val)]\<rparr>)"

definition sessions_Current :: "request \<Rightarrow> (session_err + Session) prog" where
  "sessions_Current r = do {
     cur \<leftarrow> settings_Current;
     stmt (Current (sessionConfig cur) (Cookie r sessionCookieName) (rq_now r)) }"

definition sessions_Issue :: "request \<Rightarrow> string \<Rightarrow> string \<Rightarrow> Session res prog" where
  "sessions_Issue r userID amr = do {
     cur \<leftarrow> settings_Current;
     (res, ck) \<leftarrow> stmt (Issue (sessionConfig cur) (Cookie r sessionCookieName) userID amr (rq_UserAgent r)
        (rq_uuid r ''session'') (rq_rand r ''session'') (rq_now r));
     (case ck of None \<Rightarrow> done_with () | Some c \<Rightarrow> set_cookie sessionCookieName (ck_Value c));
     done_with res }"

definition sessions_Destroy :: "request \<Rightarrow> unit res prog" where
  "sessions_Destroy r = do {
     res \<leftarrow> stmt (Destroy (Cookie r sessionCookieName));
     (case res of Inl _ \<Rightarrow> done_with () | Inr _ \<Rightarrow> set_cookie sessionCookieName []);
     done_with res }"

text \<open>The token of a form: the browser's CSRF cookie, or a new one that is set.\<close>

definition csrf_token :: "request \<Rightarrow> string prog" where
  "csrf_token r = (let (tok, issued) = CSRFToken (Cookie r csrfCookieName) (rq_rand r ''csrf'') in do {
     (case issued of None \<Rightarrow> done_with () | Some c \<Rightarrow> set_cookie csrfCookieName c);
     done_with tok })"

definition csrf_valid :: "request \<Rightarrow> bool" where
  "csrf_valid r = ValidateCSRFToken (Cookie r csrfCookieName) (PostFormValue r ''csrf_token'')"

text \<open>A rendered page with a form.\<close>

definition form_page :: "request \<Rightarrow> int \<Rightarrow> string \<Rightarrow> (string \<times> string) list \<Rightarrow> response prog" where
  "form_page r status name values = do {
     tok \<leftarrow> csrf_token r;
     done_with (Page status name ((''CSRFToken'', tok) # values)) }"

text \<open>The form of a state-changing request: parsed, and with the token of the cookie.\<close>

definition csrfOK :: "request \<Rightarrow> response option" where
  "csrfOK r = (if \<not> rq_FormOK r then Some (Plain 400 ''bad request'')
     else if \<not> csrf_valid r then Some (Plain 403 ''invalid CSRF token'') else None)"

subsection \<open>Counters and limiters\<close>

definition bump :: "(string \<Rightarrow> nat) \<Rightarrow> string \<Rightarrow> string \<Rightarrow> nat" where
  "bump m k = m(k := Suc (m k))"

definition count :: "(counters \<Rightarrow> counters) \<Rightarrow> unit prog" where
  "count f = modify (\<lambda>st. st\<lparr>st_metrics := f (st_metrics st)\<rparr>)"

definition recordToken :: "string \<Rightarrow> unit prog" where
  "recordToken typ = count (\<lambda>m. m\<lparr>mt_tokens := bump (mt_tokens m) typ\<rparr>)"

definition recordDeviceEnrollment :: "string \<Rightarrow> unit prog" where
  "recordDeviceEnrollment result = count (\<lambda>m. m\<lparr>mt_deviceEnroll := bump (mt_deviceEnroll m) result\<rparr>)"

definition recordDeviceAuth :: "string \<Rightarrow> unit prog" where
  "recordDeviceAuth result = count (\<lambda>m. m\<lparr>mt_deviceAuth := bump (mt_deviceAuth m) result\<rparr>)"

definition recordDeviceGrant :: "string \<Rightarrow> unit prog" where
  "recordDeviceGrant result = count (\<lambda>m. m\<lparr>mt_deviceGrant := bump (mt_deviceGrant m) result\<rparr>)"

definition recordMFA :: "string \<Rightarrow> unit prog" where
  "recordMFA result = count (\<lambda>m. m\<lparr>mt_mfa := bump (mt_mfa m) result\<rparr>)"

definition recordLogin :: "string \<Rightarrow> string \<Rightarrow> unit prog" where
  "recordLogin source result = count (\<lambda>m. m\<lparr>mt_logins := (mt_logins m)(source := bump (mt_logins m source) result)\<rparr>)"

text \<open>A limiter of the server, given by its field.\<close>

type_synonym limiter_field = "(srvstate \<Rightarrow> rateLimiter) \<times> ((rateLimiter \<Rightarrow> rateLimiter) \<Rightarrow> srvstate \<Rightarrow> srvstate)"

definition loginRate :: limiter_field where "loginRate = (st_loginRate, st_loginRate_update)"
definition loginIPRate :: limiter_field where "loginIPRate = (st_loginIPRate, st_loginIPRate_update)"
definition mfaRate :: limiter_field where "mfaRate = (st_mfaRate, st_mfaRate_update)"
definition forgotRate :: limiter_field where "forgotRate = (st_forgotRate, st_forgotRate_update)"
definition deviceCodeRate :: limiter_field where "deviceCodeRate = (st_deviceCodeRate, st_deviceCodeRate_update)"
definition deviceGrantRate :: limiter_field where "deviceGrantRate = (st_deviceGrantRate, st_deviceGrantRate_update)"

lemmas limiter_fields = loginRate_def loginIPRate_def mfaRate_def forgotRate_def deviceCodeRate_def deviceGrantRate_def

definition rate_Allowed :: "limiter_field \<Rightarrow> request \<Rightarrow> string \<Rightarrow> int \<Rightarrow> duration \<Rightarrow> bool prog" where
  "rate_Allowed lf r key mx ttl =
     State (\<lambda>st. let (ok, rl) = Allowed key mx ttl (rq_now r) (fst lf st) in (ok, snd lf (\<lambda>_. rl) st))"

definition rate_Fail :: "limiter_field \<Rightarrow> request \<Rightarrow> string \<Rightarrow> duration \<Rightarrow> unit prog" where
  "rate_Fail lf r key ttl = modify (snd lf (Fail key ttl (rq_now r)))"

definition rate_Reset :: "limiter_field \<Rightarrow> string \<Rightarrow> unit prog" where
  "rate_Reset lf key = modify (snd lf (Reset key))"

lemma run_count [simp]: "run_state (count f) st = ((), st\<lparr>st_metrics := f (st_metrics st)\<rparr>)"
  by (simp add: count_def)

lemmas record_defs = recordToken_def recordDeviceEnrollment_def recordDeviceAuth_def recordDeviceGrant_def recordMFA_def
  recordLogin_def

subsection \<open>audit.go\<close>

record auditEntry =
  ae_actorUserID :: string
  ae_username :: string
  ae_clientID :: string
  ae_success :: bool
  ae_detail :: string

definition entry0 :: auditEntry where
  "entry0 = \<lparr>ae_actorUserID = '''', ae_username = '''', ae_clientID = '''', ae_success = False, ae_detail = ''''\<rparr>"

definition audit_event :: "request \<Rightarrow> string \<Rightarrow> auditEntry \<Rightarrow> AuditEvent" where
  "audit_event r event e = \<lparr>aud_ID = rq_uuid r (''audit/'' @ event), aud_CreatedAt = rq_now r, aud_Event = event,
     aud_ActorUserID = ae_actorUserID e, aud_Username = ae_username e, aud_ClientID = ae_clientID e,
     aud_IP = clientIP r, aud_UserAgent = rq_UserAgent r, aud_Success = ae_success e, aud_Detail = ae_detail e\<rparr>"

text \<open>A failed insertion is only logged.\<close>

definition audit :: "request \<Rightarrow> string \<Rightarrow> auditEntry \<Rightarrow> unit prog" where
  "audit r event e = do { _ \<leftarrow> stmt (AppendAuditEvent (audit_event r event e)); done_with () }"

lemma run_audit [simp]:
  "run_state (audit r e x) st = ((), st\<lparr>st_db := snd (AppendAuditEvent (audit_event r e x) (st_db st))\<rparr>)"
  by (simp add: audit_def)

subsection \<open>What a program does to the database\<close>

text \<open>\<open>performs A m\<close>: whatever \<open>m\<close> does to the database is a run of the store machine made of operations
  that satisfy \<open>A\<close>, and the live settings stay. It is closed under every construct of a program, so what holds of all runs of
  the store holds of every handler.\<close>

definition runs :: "(store_op \<Rightarrow> bool) \<Rightarrow> db \<Rightarrow> db \<Rightarrow> bool" where
  "runs A d d' \<longleftrightarrow> (\<exists>ops. list_all A ops \<and> d' = fold store_step ops d)"

definition performs :: "(store_op \<Rightarrow> bool) \<Rightarrow> 'a prog \<Rightarrow> bool" where
  "performs A = state_io_rel (\<lambda>s s'. runs A (st_db s) (st_db s') \<and> st_settings s' = st_settings s)"

named_theorems performs_rules \<open>what a construct of a program performs\<close>

lemma runs_refl [simp]: "runs A d d"
  by (auto simp: runs_def intro!: exI [of _ "[]"])

lemma runs_trans: "runs A d d' \<Longrightarrow> runs A d' d'' \<Longrightarrow> runs A d d''"
  unfolding runs_def by (metis fold_append comp_apply list_all_append)

lemma performs_run:
  assumes "performs A m" and "run_state m st = (x, st')"
  shows "runs A (st_db st) (st_db st') \<and> st_settings st' = st_settings st"
  using spec [OF assms(1) [unfolded performs_def state_io_rel_def], of st] assms(2) by simp

lemma performsD: "performs A m \<Longrightarrow> run_state m st = (x, st') \<Longrightarrow> runs A (st_db st) (st_db st')"
  by (simp add: performs_run)

lemma performs_settingsD: "performs A m \<Longrightarrow> run_state m st = (x, st') \<Longrightarrow> st_settings st' = st_settings st"
  by (simp add: performs_run)

lemma performs_return [performs_rules]: "performs A (done_with x)"
  by (simp add: performs_def state_io_rel_def)

lemma performs_bind [performs_rules]:
  assumes "performs A m" and "\<And>x. performs A (f x)"
  shows "performs A (State_Monad.bind m f)"
  unfolding performs_def
proof (rule state_io_relI)
  fix y s s'
  assume run: "run_state (State_Monad.bind m f) s = (y, s')"
  obtain x s1 where m: "run_state m s = (x, s1)" by fastforce
  then have "run_state (f x) s1 = (y, s')" using run by simp
  then show "runs A (st_db s) (st_db s') \<and> st_settings s' = st_settings s"
    using performs_run [OF assms(1) m] performs_run [OF assms(2)] by (metis runs_trans)
qed

lemma performs_ask [performs_rules]: "performs A (ask f)"
  by (simp add: performs_def state_io_rel_def)

lemma performs_settings [performs_rules]: "performs A settings_Current"
  by (simp add: performs_def state_io_rel_def)

lemma performs_modify:
  "(\<And>st. st_db (f st) = st_db st) \<Longrightarrow> (\<And>st. st_settings (f st) = st_settings st) \<Longrightarrow> performs A (modify f)"
  by (simp add: performs_def state_io_rel_def)

lemma performs_count [performs_rules]: "performs A (count f)"
  unfolding count_def by (rule performs_modify) simp_all

lemma performs_if [performs_rules]: "(b \<Longrightarrow> performs A m) \<Longrightarrow> (\<not> b \<Longrightarrow> performs A n) \<Longrightarrow> performs A (if b then m else n)"
  by simp

lemma performs_option [performs_rules]:
  "(x = None \<Longrightarrow> performs A m) \<Longrightarrow> (\<And>y. x = Some y \<Longrightarrow> performs A (f y)) \<Longrightarrow> performs A (case x of None \<Rightarrow> m | Some y \<Rightarrow> f y)"
  by (cases x) simp_all

lemma performs_sum [performs_rules]:
  "(\<And>e. x = Inl e \<Longrightarrow> performs A (f e)) \<Longrightarrow> (\<And>y. x = Inr y \<Longrightarrow> performs A (g y)) \<Longrightarrow> performs A (case x of Inl e \<Rightarrow> f e | Inr y \<Rightarrow> g y)"
  by (cases x) simp_all

lemma performs_prod [performs_rules]:
  "(\<And>a b. x = (a, b) \<Longrightarrow> performs A (f a b)) \<Longrightarrow> performs A (case x of (a, b) \<Rightarrow> f a b)"
  by (cases x) simp

lemma performs_let [performs_rules]: "(\<And>y. y = x \<Longrightarrow> performs A (f y)) \<Longrightarrow> performs A (let y = x in f y)"
  by simp

lemma performs_stmt:
  assumes "\<And>d. snd (f d) = store_step op d" and "A op"
  shows "performs A (stmt f)"
proof -
  have "runs A d (snd (f d))" for d
    unfolding runs_def using assms by (intro exI [of _ "[op]"]) simp
  then show ?thesis by (simp add: performs_def state_io_rel_def)
qed

lemma performs_ops [performs_rules]:
  "A (Grant (OpAppendAuditEvent e)) \<Longrightarrow> performs A (stmt (AppendAuditEvent e))"
  "A (Grant (OpConsumeAuthCode h n)) \<Longrightarrow> performs A (stmt (ConsumeAuthCode h n))"
  "A (Grant (OpCreateRefreshToken rt)) \<Longrightarrow> performs A (stmt (CreateRefreshToken rt))"
  "A (Grant (OpRotateRefreshToken i new)) \<Longrightarrow> performs A (stmt (RotateRefreshToken i new))"
  "A (Grant (OpRevokeRefreshToken i)) \<Longrightarrow> performs A (stmt (RevokeRefreshToken i))"
  "A (Grant (OpRevokeRefreshTokensForUserClient u c)) \<Longrightarrow> performs A (stmt (RevokeRefreshTokensForUserClient u c))"
  "A (Enrolment (OpConsumeJTI h i x n)) \<Longrightarrow> performs A (stmt (ConsumeJTI h i x n))"
  "A (Enrolment (OpMarkDeviceCodePolled i n)) \<Longrightarrow> performs A (stmt (MarkDeviceCodePolled i n))"
  "A (Enrolment (OpConsumeDeviceCode i)) \<Longrightarrow> performs A (stmt (ConsumeDeviceCode i))"
  "A (Enrolment (OpCreateDeviceCode dc)) \<Longrightarrow> performs A (stmt (CreateDeviceCode dc))"
  "A (Enrolment (OpDenyDeviceCode i)) \<Longrightarrow> performs A (stmt (DenyDeviceCode i))"
  "A (Enrolment (OpApproveDeviceCode i u amr n)) \<Longrightarrow> performs A (stmt (ApproveDeviceCode i u amr n))"
  "A (Enrolment (OpTouchDevice i n)) \<Longrightarrow> performs A (stmt (TouchDevice i n))"
  "A (Enrolment (OpCreateDevice v)) \<Longrightarrow> performs A (stmt (CreateDevice v))"
  "A (Enrolment (OpRotateDeviceKey i k alg fp kb lev)) \<Longrightarrow> performs A (stmt (RotateDeviceKey i k alg fp kb lev))"
  "A (Enrolment (OpRevokeDevice i n)) \<Longrightarrow> performs A (stmt (RevokeDevice i n))"
  "A (Enrolment (OpSetDevicePosture i p n kb lev)) \<Longrightarrow> performs A (stmt (SetDevicePosture i p n kb lev))"
  "A (Enrolment (OpCreatePAT pat)) \<Longrightarrow> performs A (stmt (CreatePAT pat))"
  "A (Enrolment (OpRevokePATForDevice i j n)) \<Longrightarrow> performs A (stmt (RevokePATForDevice i j n))"
  "A (Enrolment (OpSetDeviceOwnerOnly i u b)) \<Longrightarrow> performs A (stmt (SetDeviceOwnerOnly i u b))"
  "A (Grant (OpCreateAuthRequest q)) \<Longrightarrow> performs A (stmt (CreateAuthRequest q))"
  "A (Grant (OpDeleteAuthRequest i)) \<Longrightarrow> performs A (stmt (DeleteAuthRequest i))"
  "A (Grant (OpCreateAuthCode ac)) \<Longrightarrow> performs A (stmt (CreateAuthCode ac))"
  "A (Account (OpCreateUser nu)) \<Longrightarrow> performs A (stmt (CreateUser nu))"
  "A (Account (OpUpsertExternalUser cn ext un em adm i' t)) \<Longrightarrow> performs A (stmt (UpsertExternalUser cn ext un em adm i' t))"
  "A (Account (OpSetUserPassword i h n')) \<Longrightarrow> performs A (stmt (SetUserPassword i h n'))"
  "A (Account (OpRecordFailedLogin i mx n' n)) \<Longrightarrow> performs A (stmt (RecordFailedLogin i mx n' n))"
  "A (Account (OpResetFailedLogins i n)) \<Longrightarrow> performs A (stmt (ResetFailedLogins i n))"
  "A (Account (OpSetUserMFA i b sec n)) \<Longrightarrow> performs A (stmt (SetUserMFA i b sec n))"
  "A (Account (OpDeleteSessionsForUser i keep)) \<Longrightarrow> performs A (stmt (DeleteSessionsForUser i keep))"
  "A (Account (OpCreatePasswordToken pt)) \<Longrightarrow> performs A (stmt (CreatePasswordToken pt))"
  "A (Account (OpConsumePasswordToken h n)) \<Longrightarrow> performs A (stmt (ConsumePasswordToken h n))"
  "A (Account (OpDeletePasswordTokensForUser i)) \<Longrightarrow> performs A (stmt (DeletePasswordTokensForUser i))"
  "A (Account (OpReplaceRecoveryCodes i rcs)) \<Longrightarrow> performs A (stmt (ReplaceRecoveryCodes i rcs))"
  "A (Account (OpConsumeRecoveryCode i h)) \<Longrightarrow> performs A (stmt (ConsumeRecoveryCode i h))"
  "A (Account (OpDeleteRecoveryCodes i)) \<Longrightarrow> performs A (stmt (DeleteRecoveryCodes i))"
  "A (Account (OpCreateLoginChallenge lc)) \<Longrightarrow> performs A (stmt (CreateLoginChallenge lc))"
  "A (Account (OpDeleteLoginChallenge i)) \<Longrightarrow> performs A (stmt (DeleteLoginChallenge i))"
  by (erule performs_stmt [rotated], simp)+

lemma performs_audit [performs_rules]:
  "A (Grant (OpAppendAuditEvent (audit_event r ev e))) \<Longrightarrow> performs A (audit r ev e)"
  unfolding audit_def by (intro performs_rules)

lemma performs_record [performs_rules]:
  "performs A (recordToken t)" "performs A (recordDeviceEnrollment t)" "performs A (recordDeviceAuth t)"
  "performs A (recordDeviceGrant t)" "performs A (recordMFA t)" "performs A (recordLogin t u)"
  unfolding record_defs
  by (rule performs_count)+

lemma performs_set_cookie [performs_rules]: "performs A (set_cookie n v)"
  unfolding set_cookie_def by (rule performs_modify) simp_all

lemma performs_rates [performs_rules]:
  assumes "lf \<in> {loginRate, loginIPRate, mfaRate, forgotRate, deviceCodeRate, deviceGrantRate}"
  shows "performs A (rate_Allowed lf r k mx ttl)" "performs A (rate_Fail lf r k ttl)" "performs A (rate_Reset lf k)"
  using assms
  by (auto simp: rate_Fail_def rate_Reset_def limiter_fields intro!: performs_modify)
     (auto simp: rate_Allowed_def performs_def state_io_rel_def limiter_fields split: prod.split)

lemma performs_csrf_token [performs_rules]: "performs A (csrf_token r)" "performs A (form_page r s n vs)"
proof -
  show t: "performs A (csrf_token r)" unfolding csrf_token_def by (intro performs_rules)
  show "performs A (form_page r s n vs)" unfolding form_page_def by (intro performs_rules t)
qed

text \<open>The session statements are several operations each.\<close>

lemma performs_runs: "(\<And>d. runs A d (snd (f d))) \<Longrightarrow> performs A (stmt f)"
  by (simp add: performs_def state_io_rel_def)

lemma runs_op: "A op \<Longrightarrow> runs A d (store_step op d)"
  unfolding runs_def by (intro exI [of _ "[op]"]) simp

lemma runs_DeleteSession: "A (Account (OpDeleteSession i)) \<Longrightarrow> runs A d (snd (DeleteSession i d))"
  using runs_op [of A "Account (OpDeleteSession i)" d] by simp

lemma runs_TouchSession: "A (Account (OpTouchSession i n)) \<Longrightarrow> runs A d (snd (TouchSession i n d))"
  using runs_op [of A "Account (OpTouchSession i n)" d] by simp

lemma runs_CreateSession: "CreateSession s d = (x, d') \<Longrightarrow> A (Account (OpCreateSession s)) \<Longrightarrow> runs A d d'"
  using runs_op [of A "Account (OpCreateSession s)" d] by simp

lemma performs_Current [performs_rules]:
  assumes "\<And>i. A (Account (OpDeleteSession i))" "\<And>i n. A (Account (OpTouchSession i n))"
  shows "performs A (sessions_Current r)"
proof -
  have "runs A d (snd (Current cfg ck n d))" for cfg ck n d
    by (auto simp: Current_def Let_def intro: runs_DeleteSession runs_TouchSession assms split: sum.split)
  then show ?thesis unfolding sessions_Current_def by (intro performs_rules performs_runs)
qed

lemma performs_Destroy [performs_rules]:
  assumes "\<And>i. A (Account (OpDeleteSession i))"
  shows "performs A (sessions_Destroy r)"
proof -
  have "runs A d (snd (Destroy ck d))" for ck d
    by (auto simp: Destroy_def intro: runs_DeleteSession assms)
  then show ?thesis unfolding sessions_Destroy_def by (intro performs_rules performs_runs)
qed

lemma performs_Issue [performs_rules]:
  assumes "\<And>i. A (Account (OpDeleteSession i))" "\<And>s. ses_UserID s = u \<Longrightarrow> ses_AMR s = amr \<Longrightarrow> A (Account (OpCreateSession s))"
  shows "performs A (sessions_Issue r u amr)"
proof -
  have "A (Account (OpCreateSession \<lparr>ses_ID = i, ses_UserID = u, ses_CSRFSecret = rnd, ses_UserAgent = ua, ses_CreatedAt = n,
      ses_ExpiresAt = x, ses_LastSeenAt = n, ses_AMR = amr\<rparr>))" for i rnd ua n x
    by (rule assms(2)) simp_all
  then have "runs A d (snd (Issue cfg ck u amr ua i rnd n d))" for cfg ck ua i rnd n d
    by (cases "with_cookie ck")
       (auto simp: Issue_def Let_def intro: runs_trans [OF runs_DeleteSession [where A = A, OF assms(1)] runs_CreateSession]
         runs_CreateSession split: prod.split sum.split)
  then show ?thesis unfolding sessions_Issue_def by (intro performs_rules performs_runs)
qed

subsection \<open>revocation.go\<close>

definition revocationTokenTTL :: duration where "revocationTokenTTL = 2 * Minute"

text \<open>The message to each webhook is sent in the background; what the program does is to hand it over.\<close>

definition pushRevocation :: "server \<Rightarrow> request \<Rightarrow> string \<Rightarrow> string \<Rightarrow> string \<Rightarrow> unit prog" where
  "pushRevocation srv r subject deviceID reason = do {
     cur \<leftarrow> settings_Current;
     if srv_Webhooks srv = [] \<or> subject = [] \<and> deviceID = [] then done_with ()
     else (case IssueRevocationToken (srv_lib srv) (srv_keys srv) (issuerConfig cur) (rq_now r) (rq_uuid r ''revocation'')
              subject deviceID reason revocationTokenTTL of
        None \<Rightarrow> done_with ()
      | Some tok \<Rightarrow> modify (\<lambda>st. st\<lparr>st_pushed := st_pushed st @ map (\<lambda>url. (url, tok)) (srv_Webhooks srv)\<rparr>)) }"

lemma performs_pushRevocation [performs_rules]: "performs A (pushRevocation srv r s i m)"
  unfolding pushRevocation_def by (intro performs_rules performs_modify) simp_all

text \<open>Every program keeps the constraints of the database.\<close>

lemma runs_db_ok: "runs A d d' \<Longrightarrow> db_ok d \<Longrightarrow> db_ok d'"
  by (auto simp: runs_def run_store_ok)

end
