(* ===== verification/TokenEndpoint.thy ===== *)
theory TokenEndpoint
  imports WebBase
begin

text \<open>
  The token endpoint (\<open>internal/web\<close>: \<open>token_handler.go\<close>, \<open>token_exchange_handler.go\<close>, the grants of
  \<open>introspect_handler.go\<close>, \<open>device_grant_handler.go\<close> and \<open>device_api.go\<close>), with introspection, revocation
  and user information. The DPoP proof \<open>handleToken\<close> has verified is passed to the grants as an argument,
  where the code carries it in the request's context.
\<close>

subsection \<open>Clients\<close>

definition authenticateClient :: "request \<Rightarrow> Client option prog" where
  "authenticateClient r =
    (let (clientID, secret) = (case BasicAuth r of Some cs \<Rightarrow> cs
         | None \<Rightarrow> (PostFormValue r ''client_id'', PostFormValue r ''client_secret''))
     in if clientID = [] then done_with None
     else do {
       c \<leftarrow> ask (GetClient clientID);
       done_with (case c of Inl _ \<Rightarrow> None
         | Inr client \<Rightarrow>
             if cl_Disabled client then None
             else if cl_Type client = ClientTypeConfidential \<and> (secret = [] \<or> \<not> SecretMatches secret (cl_ClientSecretHash client))
             then None else Some client) })"

text \<open>What a client that the endpoint accepts has shown: an enabled registration, and its secret if it
  has one.\<close>

definition authentic :: "request \<Rightarrow> db \<Rightarrow> Client \<Rightarrow> bool" where
  "authentic r d client \<longleftrightarrow> client \<in> set (db_clients d) \<and> \<not> cl_Disabled client
     \<and> (cl_Type client = ClientTypeConfidential \<longrightarrow>
          cl_ClientSecretHash client = HashToken (case BasicAuth r of Some (_, s) \<Rightarrow> s | None \<Rightarrow> PostFormValue r ''client_secret''))
     \<and> cl_ClientID client = (case BasicAuth r of Some (i, _) \<Rightarrow> i | None \<Rightarrow> PostFormValue r ''client_id'')"

lemma GetClient_Inr: "GetClient i d = Inr c \<Longrightarrow> c \<in> set (db_clients d) \<and> cl_ClientID c = i"
  by (auto simp: GetClient_def query_Inr dest!: sel1_Inr)

definition client_of :: "request \<Rightarrow> srvstate \<Rightarrow> Client option" where
  "client_of r st = fst (run_state (authenticateClient r) st)"

lemma run_authenticateClient [simp]: "run_state (authenticateClient r) st = (client_of r st, st)"
  unfolding client_of_def by (auto simp: authenticateClient_def split: option.splits prod.splits if_splits)

lemma client_of_Some: "client_of r st = Some client \<Longrightarrow> authentic r (st_db st) client"
  by (auto simp: client_of_def authenticateClient_def authentic_def SecretMatches_iff dest!: GetClient_Inr
      split: option.splits prod.splits if_splits sum.splits)

lemma performs_authenticateClient [performs_rules]: "performs A (authenticateClient r)"
  unfolding authenticateClient_def by (intro performs_rules)

subsection \<open>DPoP\<close>

datatype dpop_err = ProofErr pop_err | ErrReplay | StoreErr db_err

definition dpop_text :: "server \<Rightarrow> dpop_err \<Rightarrow> string" where
  "dpop_text srv e = (case e of ProofErr p \<Rightarrow> srv_errtext srv p
     | ErrReplay \<Rightarrow> ''dpop: proof jti already used''
     | StoreErr x \<Rightarrow> srv_dbtext srv x)"

definition publicURLFor :: "SettingsView \<Rightarrow> request \<Rightarrow> string" where
  "publicURLFor cur r = TrimRight CHR ''/'' (sv_PublicURL cur) @ rq_Path r"

definition serverURLsFor :: "server \<Rightarrow> SettingsView \<Rightarrow> request \<Rightarrow> string list" where
  "serverURLsFor srv cur r =
    (let pub = TrimRight CHR ''/'' (sv_PublicURL cur); iss = TrimRight CHR ''/'' (sv_Issuer cur)
     in [pub @ rq_Path r] @ (if iss \<noteq> [] \<and> iss \<noteq> pub then [iss @ rq_Path r] else [])
        @ map (\<lambda>a. a @ rq_Path r) (srv_IssuerAliases srv))"

definition issuerAudiences :: "server \<Rightarrow> SettingsView \<Rightarrow> string list" where
  "issuerAudiences srv cur = sv_Issuer cur # srv_IssuerAliases srv"

text \<open>The proof is tried against each address of the server as long as only the address is wrong.\<close>

fun try_urls :: "(string \<Rightarrow> pop_err + Proof) \<Rightarrow> string list \<Rightarrow> pop_err + Proof" where
  "try_urls f [] = Inl PMissing"
| "try_urls f (u # us) = (case f u of
     Inr p \<Rightarrow> Inr p
   | Inl e \<Rightarrow> if e = PHtuMismatch \<and> us \<noteq> [] then try_urls f us else Inl e)"

definition proof_opts :: "request \<Rightarrow> string \<Rightarrow> string \<Rightarrow> ProofOptions" where
  "proof_opts r accessToken htu = \<lparr>po_Skew = 0, po_HTM = rq_Method r, po_HTU = htu, po_AccessToken = accessToken\<rparr>"

definition verifyDPoP :: "server \<Rightarrow> request \<Rightarrow> string \<Rightarrow> string \<Rightarrow> (dpop_err + Proof) prog" where
  "verifyDPoP srv r raw accessToken = do {
     cur \<leftarrow> settings_Current;
     case try_urls (\<lambda>htu. VerifyProof (srv_lib srv) (srv_fold srv) (rq_now r) (proof_opts r accessToken htu) raw)
            (serverURLsFor srv cur r) of
       Inl e \<Rightarrow> done_with (Inl (ProofErr e))
     | Inr p \<Rightarrow> do {
         fresh \<leftarrow> stmt (ConsumeJTI (JTIHash (pr_JKT p) (pr_JTI p)) [] (pr_IssuedAt p + 2 * DefaultSkew) (rq_now r));
         done_with (case fresh of Inl e \<Rightarrow> Inl (StoreErr e) | Inr b \<Rightarrow> if b then Inr p else Inl ErrReplay) } }"

lemma try_urls_Inr: "try_urls f us = Inr p \<Longrightarrow> \<exists>u \<in> set us. f u = Inr p"
  by (induction us) (auto split: sum.splits if_splits)

text \<open>An accepted proof was verified against an address of the server, and its identifier was fresh.\<close>

lemma verifyDPoP_Inr:
  assumes "run_state (verifyDPoP srv r raw tok) st = (Inr p, st')"
  shows "\<exists>htu \<in> set (serverURLsFor srv (st_settings st) r).
      VerifyProof (srv_lib srv) (srv_fold srv) (rq_now r) (proof_opts r tok htu) raw = Inr p"
    and "ConsumeJTI (JTIHash (pr_JKT p) (pr_JTI p)) [] (pr_IssuedAt p + 2 * DefaultSkew) (rq_now r) (st_db st) = (Inr True, st_db st')"
    and "st' = st\<lparr>st_db := st_db st'\<rparr>"
  using assms
  by (auto simp: verifyDPoP_def split: sum.splits if_splits dest: try_urls_Inr)
     (metis prod.collapse)

lemma performs_verifyDPoP [performs_rules]:
  assumes "\<And>h i x n. A (Enrolment (OpConsumeJTI h i x n))"
  shows "performs A (verifyDPoP srv r raw tok)"
  unfolding verifyDPoP_def by (intro performs_rules assms)

definition dpopJKT :: "Proof option \<Rightarrow> string" where
  "dpopJKT pr = (case pr of None \<Rightarrow> [] | Some p \<Rightarrow> pr_JKT p)"

subsection \<open>Token responses\<close>

record tokenContext =
  tc_amr :: string
  tc_device :: "Device option"
  tc_jkt :: string

definition amr_json :: "string \<Rightarrow> json" where
  "amr_json amr = JArr (map JStr (AMRList amr))"

definition extra :: "tokenContext \<Rightarrow> claims" where
  "extra tc =
    (let e0 = (if tc_amr tc \<noteq> [] then [''amr'' \<mapsto> amr_json (tc_amr tc)] else Map.empty);
         e1 = (case tc_device tc of None \<Rightarrow> e0
           | Some dev \<Rightarrow> e0(''device_id'' \<mapsto> JStr (dev_ID dev), ''device_trust'' \<mapsto> JStr (dev_TrustLevel dev)))
     in if tc_jkt tc \<noteq> [] then e1(''cnf'' \<mapsto> JObj [member ''jkt'' (tc_jkt tc)]) else e1)"

definition deviceID :: "tokenContext \<Rightarrow> string" where
  "deviceID tc = (case tc_device tc of None \<Rightarrow> [] | Some dev \<Rightarrow> dev_ID dev)"

definition tokenType :: "tokenContext \<Rightarrow> string" where
  "tokenType tc = (if tc_jkt tc \<noteq> [] then ''DPoP'' else ''Bearer'')"

definition userGroups :: "User \<Rightarrow> string list" where
  "userGroups u = (if usr_IsAdmin u then [''admins''] else [])"

definition withGroups :: "claims \<Rightarrow> User \<Rightarrow> claims" where
  "withGroups e u = (if userGroups u = [] then e else e(''groups'' \<mapsto> JArr (map JStr (userGroups u))))"

definition profileFromUser :: "User \<Rightarrow> Profile" where
  "profileFromUser u = \<lparr>pf_Email = usr_Email u, pf_EmailVerified = True, pf_PreferredUsername = usr_Username u,
     pf_Name = usr_Username u\<rparr>"

definition buildAccessAndID :: "server \<Rightarrow> SettingsView \<Rightarrow> time \<Rightarrow> Client \<Rightarrow> User \<Rightarrow> string \<Rightarrow> string \<Rightarrow> time
    \<Rightarrow> tokenContext \<Rightarrow> tokenResponse option" where
  "buildAccessAndID srv cur now client user scope nonce authTime tc =
    (let ex = withGroups (extra tc) user in
     case IssueAccessTokenWithClaims (srv_lib srv) (srv_keys srv) (issuerConfig cur) now (usr_ID user) (cl_ClientID client) scope ex of
       None \<Rightarrow> None
     | Some access \<Rightarrow>
        (let resp = \<lparr>tr_AccessToken = access, tr_TokenType = tokenType tc, tr_ExpiresIn = whole_seconds (sv_TokenTTL cur),
               tr_RefreshToken = [], tr_IDToken = [], tr_Scope = scope\<rparr>
         in if HasScope scope ScopeOpenID then
              (case IssueIDTokenWithClaims (srv_lib srv) (srv_keys srv) (issuerConfig cur) now (usr_ID user) (cl_ClientID client)
                      (profileFromUser user) nonce authTime (ex(''cnf'' := None)) of
                 None \<Rightarrow> None
               | Some idTok \<Rightarrow> Some (resp\<lparr>tr_IDToken := idTok\<rparr>))
            else Some resp))"

definition newRefreshToken :: "SettingsView \<Rightarrow> request \<Rightarrow> Client \<Rightarrow> User \<Rightarrow> string \<Rightarrow> time \<Rightarrow> string \<Rightarrow> tokenContext
    \<Rightarrow> string \<times> RefreshToken" where
  "newRefreshToken cur r client user scope authTime rotatedFrom tc =
    (let raw = RandomToken (rq_rand r ''refresh'') in
     (raw, \<lparr>rt_ID = rq_uuid r ''refresh'', rt_TokenHash = HashToken raw, rt_ClientID = cl_ClientID client,
        rt_UserID = usr_ID user, rt_Scope = scope, rt_RotatedFrom = rotatedFrom, rt_Revoked = False,
        rt_ExpiresAt = rq_now r + sv_RefreshTokenTTL cur, rt_CreatedAt = rq_now r, rt_AuthTime = authTime,
        rt_AMR = tc_amr tc, rt_DeviceID = deviceID tc, rt_DPoPJKT = tc_jkt tc\<rparr>))"

definition recordTokenMetrics :: "tokenResponse \<Rightarrow> unit prog" where
  "recordTokenMetrics resp = do {
     (if tr_AccessToken resp \<noteq> [] then recordToken ''access'' else done_with ());
     (if tr_IDToken resp \<noteq> [] then recordToken ''id'' else done_with ());
     (if tr_RefreshToken resp \<noteq> [] then recordToken ''refresh'' else done_with ()) }"

lemma performs_recordTokenMetrics [performs_rules]: "performs A (recordTokenMetrics resp)"
  unfolding recordTokenMetrics_def by (intro performs_rules)

definition evtTokenIssued :: string where "evtTokenIssued = ''token.issued''"
definition evtTokenRevoked :: string where "evtTokenRevoked = ''token.revoked''"

definition issued_entry :: "User \<Rightarrow> string \<Rightarrow> string \<Rightarrow> auditEntry" where
  "issued_entry user clientID detail = \<lparr>ae_actorUserID = usr_ID user, ae_username = usr_Username user,
     ae_clientID = clientID, ae_success = True, ae_detail = detail\<rparr>"

subsection \<open>authorization\_code\<close>

definition grantAuthorizationCode :: "server \<Rightarrow> request \<Rightarrow> Proof option \<Rightarrow> response prog" where
  "grantAuthorizationCode srv r pr = do {
     auth \<leftarrow> authenticateClient r;
     case auth of None \<Rightarrow> done_with oauthClientAuthError
     | Some client \<Rightarrow>
     let rawCode = PostFormValue r ''code'' in
     if rawCode = [] then done_with (oauthError 400 ''invalid_request'' ''missing code'')
     else do {
     consumed \<leftarrow> stmt (ConsumeAuthCode (HashToken rawCode) (rq_now r));
     case consumed of Inl _ \<Rightarrow> done_with (oauthError 400 ''invalid_grant'' ''invalid or expired authorization code'')
     | Inr code \<Rightarrow>
     if ac_ClientID code \<noteq> cl_ClientID client
     then done_with (oauthError 400 ''invalid_grant'' ''code was issued to a different client'')
     else if ac_RedirectURI code \<noteq> PostFormValue r ''redirect_uri''
     then done_with (oauthError 400 ''invalid_grant'' ''redirect_uri mismatch'')
     else
     let verifier = PostFormValue r ''code_verifier'' in
     if ac_CodeChallenge code \<noteq> [] \<and> (verifier = [] \<or> \<not> VerifyPKCE verifier (ac_CodeChallenge code) (ac_CodeChallengeMethod code))
     then done_with (oauthError 400 ''invalid_grant'' ''PKCE verification failed'')
     else if ac_CodeChallenge code = [] \<and> IsPublic client
     then done_with (oauthError 400 ''invalid_grant'' ''PKCE is required'')
     else do {
     found \<leftarrow> ask (GetUserByID (ac_UserID code));
     case found of Inl _ \<Rightarrow> done_with (oauthError 400 ''invalid_grant'' ''user is not available'')
     | Inr user \<Rightarrow>
     if usr_Disabled user then done_with (oauthError 400 ''invalid_grant'' ''user is not available'')
     else do {
     cur \<leftarrow> settings_Current;
     let tc = \<lparr>tc_amr = ac_AMR code, tc_device = None, tc_jkt = dpopJKT pr\<rparr> in
     case buildAccessAndID srv cur (rq_now r) client user (ac_Scope code) (ac_Nonce code) (ac_AuthTime code) tc of
       None \<Rightarrow> done_with (oauthError 500 ''server_error'' ''could not issue tokens'')
     | Some resp \<Rightarrow>
     let (raw, newRT) = newRefreshToken cur r client user (ac_Scope code) (ac_AuthTime code) [] tc;
         offline = HasScope (ac_Scope code) ScopeOfflineAccess;
         resp' = (if offline then resp\<lparr>tr_RefreshToken := raw\<rparr> else resp) in do {
     saved \<leftarrow> (if offline then stmt (CreateRefreshToken newRT) else done_with (Inr ()));
     case saved of Inl _ \<Rightarrow> done_with (oauthError 500 ''server_error'' ''could not issue refresh token'')
     | Inr _ \<Rightarrow> do {
     recordTokenMetrics resp';
     audit r evtTokenIssued (issued_entry user (cl_ClientID client) ''authorization_code'');
     done_with (Tokens resp') } } } } } }"

subsection \<open>refresh\_token\<close>

definition reuse_detected :: "RefreshToken \<Rightarrow> response prog" where
  "reuse_detected rt = do {
     _ \<leftarrow> stmt (RevokeRefreshTokensForUserClient (rt_UserID rt) (rt_ClientID rt));
     done_with (oauthError 400 ''invalid_grant'' ''refresh token reuse detected'') }"

text \<open>The second half of the grant, from the device binding on: the device, the scope, the tokens, the
  rotation.\<close>

definition rotate_and_issue :: "server \<Rightarrow> request \<Rightarrow> Client \<Rightarrow> User \<Rightarrow> RefreshToken \<Rightarrow> tokenContext \<Rightarrow> response prog" where
  "rotate_and_issue srv r client user rt tc =
    (let requested = PostFormValue r ''scope''; scope = (if requested \<noteq> [] then requested else rt_Scope rt) in
     if requested \<noteq> [] \<and> \<not> ScopesSubset (SplitScope requested) (SplitScope (rt_Scope rt))
     then done_with (oauthError 400 ''invalid_scope'' ''scope exceeds the original grant'')
     else do {
     cur \<leftarrow> settings_Current;
     case buildAccessAndID srv cur (rq_now r) client user scope [] (rt_AuthTime rt) tc of
       None \<Rightarrow> done_with (oauthError 500 ''server_error'' ''could not issue tokens'')
     | Some resp \<Rightarrow>
     let (rawRefresh, tok) = newRefreshToken cur r client user scope (rt_AuthTime rt) (rt_ID rt) tc;
         newRT = (if HasScope scope ScopeOfflineAccess then Some tok else None);
         resp' = (if newRT \<noteq> None then resp\<lparr>tr_RefreshToken := rawRefresh\<rparr> else resp) in do {
     rotated \<leftarrow> stmt (RotateRefreshToken (rt_ID rt) newRT);
     case rotated of Inl _ \<Rightarrow> done_with (oauthError 500 ''server_error'' ''could not rotate refresh token'')
     | Inr ok \<Rightarrow>
     if \<not> ok then reuse_detected rt
     else do {
     recordTokenMetrics resp';
     audit r evtTokenIssued (issued_entry user (cl_ClientID client) ''refresh_token'');
     done_with (Tokens resp') } } })"

definition grantRefreshToken :: "server \<Rightarrow> request \<Rightarrow> Proof option \<Rightarrow> response prog" where
  "grantRefreshToken srv r pr = do {
     auth \<leftarrow> authenticateClient r;
     case auth of None \<Rightarrow> done_with oauthClientAuthError
     | Some client \<Rightarrow>
     let raw = PostFormValue r ''refresh_token'' in
     if raw = [] then done_with (oauthError 400 ''invalid_request'' ''missing refresh_token'')
     else do {
     stored \<leftarrow> ask (GetRefreshTokenByHash (HashToken raw));
     case stored of Inl _ \<Rightarrow> done_with (oauthError 400 ''invalid_grant'' ''invalid refresh token'')
     | Inr rt \<Rightarrow>
     if rt_ClientID rt \<noteq> cl_ClientID client
     then done_with (oauthError 400 ''invalid_grant'' ''refresh token client mismatch'')
     else if rt_Revoked rt then reuse_detected rt
     else if After (rq_now r) (rt_ExpiresAt rt)
     then done_with (oauthError 400 ''invalid_grant'' ''refresh token expired'')
     else if rt_DPoPJKT rt \<noteq> [] \<and> dpopJKT pr \<noteq> rt_DPoPJKT rt
     then done_with (oauthError 400 ''invalid_dpop_proof'' ''refresh token is bound to a different DPoP key'')
     else do {
     found \<leftarrow> ask (GetUserByID (rt_UserID rt));
     case found of Inl _ \<Rightarrow> done_with (oauthError 400 ''invalid_grant'' ''user is not available'')
     | Inr user \<Rightarrow>
     if usr_Disabled user then done_with (oauthError 400 ''invalid_grant'' ''user is not available'')
     else
     let tc = \<lparr>tc_amr = rt_AMR rt, tc_device = None, tc_jkt = dpopJKT pr\<rparr> in
     if rt_DeviceID rt = [] then rotate_and_issue srv r client user rt tc
     else do {
     device \<leftarrow> ask (GetDevice (rt_DeviceID rt));
     case device of Inl _ \<Rightarrow> done_with (oauthError 400 ''invalid_grant'' ''device is not active'')
     | Inr dev \<Rightarrow>
     if \<not> IsActive dev then done_with (oauthError 400 ''invalid_grant'' ''device is not active'')
     else rotate_and_issue srv r client user rt (tc\<lparr>tc_device := Some dev\<rparr>) } } } }"

subsection \<open>client\_credentials\<close>

definition nonOpenIDScopes :: "string list \<Rightarrow> string list" where
  "nonOpenIDScopes scopes = filter (\<lambda>s. s \<noteq> ScopeOpenID) scopes"

definition grantClientCredentials :: "server \<Rightarrow> request \<Rightarrow> response prog" where
  "grantClientCredentials srv r = do {
     auth \<leftarrow> authenticateClient r;
     case auth of None \<Rightarrow> done_with oauthClientAuthError
     | Some client \<Rightarrow>
     if IsPublic client then done_with oauthClientAuthError
     else
     let requested = PostFormValue r ''scope''; allowed = nonOpenIDScopes (cl_AllowedScopes client);
         scope = (if requested = [] then intercalate '' '' allowed else requested) in
     if requested \<noteq> [] \<and> \<not> ScopesSubset (SplitScope requested) allowed
     then done_with (oauthError 400 ''invalid_scope'' ''requested scope is not allowed for this client'')
     else do {
     cur \<leftarrow> settings_Current;
     case IssueAccessToken (srv_lib srv) (srv_keys srv) (issuerConfig cur) (rq_now r) (cl_ClientID client) (cl_ClientID client) scope of
       None \<Rightarrow> done_with (oauthError 500 ''server_error'' ''could not issue access token'')
     | Some access \<Rightarrow> do {
     audit r evtTokenIssued (entry0\<lparr>ae_clientID := cl_ClientID client, ae_success := True, ae_detail := ''client_credentials''\<rparr>);
     done_with (Tokens \<lparr>tr_AccessToken = access, tr_TokenType = ''Bearer'', tr_ExpiresIn = whole_seconds (sv_TokenTTL cur),
        tr_RefreshToken = [], tr_IDToken = [], tr_Scope = scope\<rparr>) } } }"

subsection \<open>Device authentication\<close>

datatype resource_err = ErrMissingBearer | ErrBadToken | ErrProofUnbound | ErrDPoP dpop_err | ErrKeyMismatch
  | ErrNotDeviceToken | ErrDeviceInactive

definition resource_text :: "server \<Rightarrow> resource_err \<Rightarrow> string" where
  "resource_text srv e = (case e of
     ErrMissingBearer \<Rightarrow> ''missing bearer token''
   | ErrBadToken \<Rightarrow> ''invalid or expired token''
   | ErrProofUnbound \<Rightarrow> ''dpop: proof is not bound to the presented token''
   | ErrDPoP d \<Rightarrow> dpop_text srv d
   | ErrKeyMismatch \<Rightarrow> ''dpop: proof key does not match the token binding''
   | ErrNotDeviceToken \<Rightarrow> ''not a device token''
   | ErrDeviceInactive \<Rightarrow> ''device is not active'')"

definition token_scheme :: "server \<Rightarrow> string \<Rightarrow> bool" where
  "token_scheme srv scheme \<longleftrightarrow> EqualFold (srv_fold srv) scheme ''DPoP'' \<or> EqualFold (srv_fold srv) scheme ''Bearer''"

text \<open>\<open>pr\<close> is the proof the token endpoint has already verified for this request, if any.\<close>

definition resourceToken :: "server \<Rightarrow> request \<Rightarrow> Proof option \<Rightarrow> (resource_err + VerifiedToken \<times> string) prog" where
  "resourceToken srv r pr =
    (let (scheme, raw) = authorizationToken r in
     if raw = [] \<or> \<not> token_scheme srv scheme then done_with (Inl ErrMissingBearer)
     else do {
     cur \<leftarrow> settings_Current;
     case Verify (srv_lib srv) (srv_keys srv) (issuerConfig cur) (rq_now r) raw of
       None \<Rightarrow> done_with (Inl ErrBadToken)
     | Some vt \<Rightarrow>
     if vt_JKT vt = [] then done_with (Inr (vt, raw))
     else (case pr of
       Some proof \<Rightarrow>
         if pr_ATH proof \<noteq> AccessTokenHash raw then done_with (Inl ErrProofUnbound)
         else done_with (if pr_JKT proof \<noteq> vt_JKT vt then Inl ErrKeyMismatch else Inr (vt, raw))
     | None \<Rightarrow> do {
         checked \<leftarrow> verifyDPoP srv r (rq_DPoP r) raw;
         done_with (case checked of Inl e \<Rightarrow> Inl (ErrDPoP e)
           | Inr proof \<Rightarrow> if pr_JKT proof \<noteq> vt_JKT vt then Inl ErrKeyMismatch else Inr (vt, raw)) }) })"

definition authenticateDeviceRequest :: "server \<Rightarrow> request \<Rightarrow> Proof option \<Rightarrow> (resource_err + Device) prog" where
  "authenticateDeviceRequest srv r pr = do {
     tok \<leftarrow> resourceToken srv r pr;
     case tok of Inl e \<Rightarrow> done_with (Inl e)
     | Inr (vt, raw) \<Rightarrow>
     if \<not> IsDeviceToken vt then done_with (Inl ErrNotDeviceToken)
     else do {
     found \<leftarrow> ask (GetDevice (vt_Subject vt));
     done_with (case found of Inl _ \<Rightarrow> Inl ErrDeviceInactive
       | Inr dev \<Rightarrow> if \<not> IsActive dev then Inl ErrDeviceInactive else Inr dev) } }"

text \<open>A request is taken to come from a device only when it carries a device token this server signed
  for that device, the device is active, and, if the token is bound to a key, a DPoP proof of that
  key for this request.\<close>

definition device_request :: "server \<Rightarrow> request \<Rightarrow> Proof option \<Rightarrow> srvstate \<Rightarrow> Device \<Rightarrow> bool" where
  "device_request srv r pr st dev \<longleftrightarrow> dev \<in> set (db_devices (st_db st)) \<and> IsActive dev
     \<and> (\<exists>vt. Verify (srv_lib srv) (srv_keys srv) (issuerConfig (st_settings st)) (rq_now r) (snd (authorizationToken r)) = Some vt
        \<and> IsDeviceToken vt \<and> vt_Subject vt = dev_ID dev
        \<and> (vt_JKT vt \<noteq> [] \<longrightarrow> (\<exists>proof. pr_JKT proof = vt_JKT vt
             \<and> (case pr of Some p \<Rightarrow> p = proof \<and> pr_ATH proof = AccessTokenHash (snd (authorizationToken r))
                | None \<Rightarrow> \<exists>htu \<in> set (serverURLsFor srv (st_settings st) r).
                    VerifyProof (srv_lib srv) (srv_fold srv) (rq_now r)
                      (proof_opts r (snd (authorizationToken r)) htu) (rq_DPoP r) = Inr proof))))"

lemma GetDevice_Inr: "GetDevice i d = Inr v \<Longrightarrow> v \<in> set (db_devices d) \<and> dev_ID v = i"
  by (auto simp: GetDevice_def query_Inr dest!: sel1_Inr)

lemma ConsumeJTI_frame [frame_simps]:
  "db_devices (snd (ConsumeJTI h i x n d)) = db_devices d"
  "db_users (snd (ConsumeJTI h i x n d)) = db_users d"
  "db_clients (snd (ConsumeJTI h i x n d)) = db_clients d"
  "db_refresh_tokens (snd (ConsumeJTI h i x n d)) = db_refresh_tokens d"
  "db_device_codes (snd (ConsumeJTI h i x n d)) = db_device_codes d"
  "db_auth_codes (snd (ConsumeJTI h i x n d)) = db_auth_codes d"
  "db_faults (snd (ConsumeJTI h i x n d)) = db_faults d"
  by (auto simp: ConsumeJTI_def exec_def Let_def split: sum.split)

lemma resourceToken_Inr:
  assumes "run_state (resourceToken srv r pr) st = (Inr (vt, raw), st')"
  shows "raw = snd (authorizationToken r)
    \<and> Verify (srv_lib srv) (srv_keys srv) (issuerConfig (st_settings st)) (rq_now r) raw = Some vt
    \<and> (vt_JKT vt \<noteq> [] \<longrightarrow> (\<exists>proof. pr_JKT proof = vt_JKT vt
         \<and> (case pr of Some p \<Rightarrow> p = proof \<and> pr_ATH proof = AccessTokenHash raw
            | None \<Rightarrow> \<exists>htu \<in> set (serverURLsFor srv (st_settings st) r).
                VerifyProof (srv_lib srv) (srv_fold srv) (rq_now r) (proof_opts r raw htu) (rq_DPoP r) = Inr proof)))
    \<and> db_devices (st_db st') = db_devices (st_db st)"
proof -
  obtain scheme raw' where a: "authorizationToken r = (scheme, raw')" by (cases "authorizationToken r")
  let ?v = "Verify (srv_lib srv) (srv_keys srv) (issuerConfig (st_settings st)) (rq_now r) raw'"
  obtain vt' where v: "?v = Some vt'" and ok: "token_scheme srv scheme" "raw' \<noteq> []"
    using assms a by (auto simp: resourceToken_def split: if_splits option.splits)
  show ?thesis
  proof (cases "vt_JKT vt' = []")
    case True
    then show ?thesis using assms a v ok by (auto simp: resourceToken_def)
  next
    case False
    show ?thesis
    proof (cases pr)
      case (Some p)
      then show ?thesis using assms a v ok False
        by (auto simp: resourceToken_def split: if_splits)
    next
      case None
      obtain x s where run: "run_state (verifyDPoP srv r (rq_DPoP r) raw') st = (x, s)"
        by (cases "run_state (verifyDPoP srv r (rq_DPoP r) raw') st")
      obtain p where p: "x = Inr p" "pr_JKT p = vt_JKT vt'" "vt = vt'" "raw = raw'" "st' = s"
        using assms a v ok False None run
        by (auto simp: resourceToken_def split: sum.splits if_splits)
      note d = verifyDPoP_Inr [OF run [unfolded p(1)]]
      have "db_devices (st_db s) = db_devices (st_db st)"
        using ConsumeJTI_frame(1) d(2) by (metis snd_conv)
      then show ?thesis using p d(1) v a False None by auto
    qed
  qed
qed

lemma authenticateDeviceRequest_Inr:
  assumes "run_state (authenticateDeviceRequest srv r pr) st = (Inr dev, st')"
  shows "device_request srv r pr st dev"
proof -
  obtain x s where run: "run_state (resourceToken srv r pr) st = (x, s)"
    by (cases "run_state (resourceToken srv r pr) st")
  obtain vt raw where x: "x = Inr (vt, raw)" "IsDeviceToken vt" "GetDevice (vt_Subject vt) (st_db s) = Inr dev" "IsActive dev"
    using assms run by (auto simp: authenticateDeviceRequest_def split: sum.splits if_splits)
  from resourceToken_Inr [OF run [unfolded x(1)]] GetDevice_Inr [OF x(3)] x(2,4)
  show ?thesis by (auto simp: device_request_def)
qed

lemma performs_device_request [performs_rules]:
  assumes "\<And>h i x n. A (Enrolment (OpConsumeJTI h i x n))"
  shows "performs A (resourceToken srv r pr)" and "performs A (authenticateDeviceRequest srv r pr)"
proof -
  show t: "performs A (resourceToken srv r pr)"
    unfolding resourceToken_def by (intro performs_rules assms)
  show "performs A (authenticateDeviceRequest srv r pr)"
    unfolding authenticateDeviceRequest_def by (intro performs_rules t)
qed

subsection \<open>Posture\<close>

definition empty_posture :: DevicePosture where
  "empty_posture = \<lparr>po_OSName = [], po_OSVersion = [], po_DiskEncrypted = None, po_ScreenLock = None, po_KeyBackend = []\<rparr>"

text \<open>How \<open>json.Unmarshal\<close> fills the struct; a pointer is set by a value and cleared by \<open>null\<close>.\<close>

definition posture_text :: "string \<Rightarrow> (string \<Rightarrow> DevicePosture \<Rightarrow> DevicePosture) option" where
  "posture_text n = (if n = ''os_name'' then Some (\<lambda>v p. p\<lparr>po_OSName := v\<rparr>)
     else if n = ''os_version'' then Some (\<lambda>v p. p\<lparr>po_OSVersion := v\<rparr>)
     else if n = ''key_backend'' then Some (\<lambda>v p. p\<lparr>po_KeyBackend := v\<rparr>) else None)"

definition posture_flag :: "string \<Rightarrow> (bool option \<Rightarrow> DevicePosture \<Rightarrow> DevicePosture) option" where
  "posture_flag n = (if n = ''disk_encrypted'' then Some (\<lambda>v p. p\<lparr>po_DiskEncrypted := v\<rparr>)
     else if n = ''screen_lock'' then Some (\<lambda>v p. p\<lparr>po_ScreenLock := v\<rparr>) else None)"

fun unmarshal_posture :: "(string \<times> json) list \<Rightarrow> DevicePosture \<Rightarrow> DevicePosture option" where
  "unmarshal_posture [] p = Some p"
| "unmarshal_posture ((k, v) # ms) p =
    (case posture_text (fold_name k) of
       Some set_text \<Rightarrow> (case v of JStr s \<Rightarrow> unmarshal_posture ms (set_text s p)
         | JNull \<Rightarrow> unmarshal_posture ms p | _ \<Rightarrow> None)
     | None \<Rightarrow> (case posture_flag (fold_name k) of
         Some set_flag \<Rightarrow> (case v of JBool b \<Rightarrow> unmarshal_posture ms (set_flag (Some b) p)
           | JNull \<Rightarrow> unmarshal_posture ms (set_flag None p) | _ \<Rightarrow> None)
       | None \<Rightarrow> unmarshal_posture ms p))"

definition posture_of_json :: "json \<Rightarrow> DevicePosture option" where
  "posture_of_json v = (case v of JObj ms \<Rightarrow> unmarshal_posture ms empty_posture
     | JNull \<Rightarrow> Some empty_posture | _ \<Rightarrow> None)"

definition parsePosture :: "string \<Rightarrow> DevicePosture option" where
  "parsePosture raw = (if raw = [] then None
     else (case json_decode raw of None \<Rightarrow> None | Some v \<Rightarrow> posture_of_json v))"

definition posture_json :: "DevicePosture \<Rightarrow> json" where
  "posture_json p = JObj (
     (if po_OSName p \<noteq> [] then [member ''os_name'' (po_OSName p)] else [])
     @ (if po_OSVersion p \<noteq> [] then [member ''os_version'' (po_OSVersion p)] else [])
     @ (case po_DiskEncrypted p of None \<Rightarrow> [] | Some b \<Rightarrow> [(''disk_encrypted'', JBool b)])
     @ (case po_ScreenLock p of None \<Rightarrow> [] | Some b \<Rightarrow> [(''screen_lock'', JBool b)])
     @ (if po_KeyBackend p \<noteq> [] then [member ''key_backend'' (po_KeyBackend p)] else []))"

subsection \<open>device\_code\<close>

definition deviceCodeTTL :: duration where "deviceCodeTTL = 10 * Minute"
definition deviceCodeInterval :: int where "deviceCodeInterval = 5"

definition grant_entry_detail :: "string \<Rightarrow> tokenContext \<Rightarrow> string" where
  "grant_entry_detail base tc = (case tc_device tc of None \<Rightarrow> base | Some dev \<Rightarrow> base @ '' device='' @ dev_ID dev)"

text \<open>The second half of the grant: the user, the single use of the code, the tokens.\<close>

definition redeem_device_code :: "server \<Rightarrow> request \<Rightarrow> Client \<Rightarrow> DeviceCode \<Rightarrow> tokenContext \<Rightarrow> response prog" where
  "redeem_device_code srv r client dc tc = do {
     found \<leftarrow> ask (GetUserByID (dc_UserID dc));
     case found of Inl _ \<Rightarrow> done_with (oauthError 400 ''invalid_grant'' ''user is not available'')
     | Inr user \<Rightarrow>
     if usr_Disabled user then done_with (oauthError 400 ''invalid_grant'' ''user is not available'')
     else do {
     consumed \<leftarrow> stmt (ConsumeDeviceCode (dc_ID dc));
     if consumed \<noteq> Inr True then done_with (oauthError 400 ''invalid_grant'' ''device code already used'')
     else do {
     cur \<leftarrow> settings_Current;
     case buildAccessAndID srv cur (rq_now r) client user (dc_Scope dc) [] (dc_AuthTime dc) tc of
       None \<Rightarrow> done_with (oauthError 500 ''server_error'' ''could not issue tokens'')
     | Some resp \<Rightarrow>
     let (raw, newRT) = newRefreshToken cur r client user (dc_Scope dc) (dc_AuthTime dc) [] tc;
         offline = HasScope (dc_Scope dc) ScopeOfflineAccess;
         resp' = (if offline then resp\<lparr>tr_RefreshToken := raw\<rparr> else resp) in do {
     saved \<leftarrow> (if offline then stmt (CreateRefreshToken newRT) else done_with (Inr ()));
     case saved of Inl _ \<Rightarrow> done_with (oauthError 500 ''server_error'' ''could not issue refresh token'')
     | Inr _ \<Rightarrow> do {
     recordTokenMetrics resp';
     recordDeviceGrant ''issued'';
     audit r evtTokenIssued (issued_entry user (cl_ClientID client) (grant_entry_detail ''device_code'' tc));
     done_with (Tokens resp') } } } } }"

definition grantDeviceCode :: "server \<Rightarrow> request \<Rightarrow> Proof option \<Rightarrow> response prog" where
  "grantDeviceCode srv r pr = do {
     auth \<leftarrow> authenticateClient r;
     case auth of None \<Rightarrow> done_with oauthClientAuthError
     | Some client \<Rightarrow>
     let raw = PostFormValue r ''device_code'' in
     if raw = [] then done_with (oauthError 400 ''invalid_request'' ''missing device_code'')
     else do {
     stored \<leftarrow> ask (GetDeviceCodeByHash (HashToken raw));
     case stored of Inl _ \<Rightarrow> done_with (oauthError 400 ''invalid_grant'' ''invalid device_code'')
     | Inr dc \<Rightarrow>
     if dc_ClientID dc \<noteq> cl_ClientID client then done_with (oauthError 400 ''invalid_grant'' ''invalid device_code'')
     else if After (rq_now r) (dc_ExpiresAt dc) then do {
       recordDeviceGrant ''expired'';
       done_with (oauthError 400 ''expired_token'' ''the device code has expired'') }
     else if \<not> IsZero (dc_LastPolledAt dc) \<and> time_Sub (rq_now r) (dc_LastPolledAt dc) < deviceCodeInterval * Second then do {
       _ \<leftarrow> stmt (MarkDeviceCodePolled (dc_ID dc) (rq_now r));
       done_with (oauthError 400 ''slow_down'' ''polling too frequently'') }
     else do {
     _ \<leftarrow> stmt (MarkDeviceCodePolled (dc_ID dc) (rq_now r));
     if dc_Status dc = DeviceCodePending
     then done_with (oauthError 400 ''authorization_pending'' ''the user has not yet approved the request'')
     else if dc_Status dc = DeviceCodeDenied
     then done_with (oauthError 400 ''access_denied'' ''the user denied the request'')
     else if dc_Status dc \<noteq> DeviceCodeApproved
     then done_with (oauthError 400 ''invalid_grant'' ''device code already used'')
     else
     let tc = \<lparr>tc_amr = dc_AMR dc, tc_device = None, tc_jkt = dpopJKT pr\<rparr> in
     if dc_DeviceID dc = [] then redeem_device_code srv r client dc tc
     else do {
     device \<leftarrow> authenticateDeviceRequest srv r pr;
     case device of Inl _ \<Rightarrow> done_with (oauthError 400 ''invalid_grant'' ''device authentication required for this grant'')
     | Inr dev \<Rightarrow>
     if dev_ID dev \<noteq> dc_DeviceID dc
     then done_with (oauthError 400 ''invalid_grant'' ''device authentication required for this grant'')
     else if dev_OwnerOnly dev \<and> dev_OwnerUserID dev \<noteq> dc_UserID dc
     then done_with (oauthError 400 ''access_denied'' ''this device only allows its owner to sign in'')
     else redeem_device_code srv r client dc (tc\<lparr>tc_device := Some dev\<rparr>) } } } }"

subsection \<open>token exchange\<close>

definition tokenTypeAccess :: string where
  "tokenTypeAccess = ''urn:ietf:params:oauth:token-type:access_token''"
definition tokenTypeRefresh :: string where
  "tokenTypeRefresh = ''urn:ietf:params:oauth:token-type:refresh_token''"

definition intersectScopes :: "string list \<Rightarrow> string list \<Rightarrow> string list" where
  "intersectScopes a b = filter (\<lambda>x. x \<in> set b) a"

text \<open>The scope of a token for another audience: what was asked for, or all that is common; refused
  when empty or beyond the user's grant or the audience's allowed scopes.\<close>

definition delegated_scope :: "string \<Rightarrow> string \<Rightarrow> string list \<Rightarrow> string option" where
  "delegated_scope asked granted allowed =
    (let scope0 = TrimSpace asked;
         scope = (if scope0 = [] then intercalate '' '' (intersectScopes (SplitScope granted) allowed) else scope0);
         requested = SplitScope scope
     in if requested = [] \<or> \<not> ScopesSubset requested (SplitScope granted) \<or> \<not> ScopesSubset requested allowed
        then None else Some scope)"

text \<open>The claims of a token a device obtains for its user.\<close>

definition delegation_claims :: "Device \<Rightarrow> RefreshToken \<Rightarrow> User \<Rightarrow> string \<Rightarrow> claims" where
  "delegation_claims dev rt user scope =
    (let e0 = [''device_id'' \<mapsto> JStr (dev_ID dev), ''device_trust'' \<mapsto> JStr (dev_TrustLevel dev),
               ''act'' \<mapsto> JObj [member ''sub'' (dev_ID dev)]];
         e1 = (if rt_AMR rt \<noteq> [] then e0(''amr'' \<mapsto> amr_json (rt_AMR rt)) else e0);
         e2 = (if \<not> IsZero (rt_AuthTime rt) then e1(''auth_time'' \<mapsto> jint (Unix (rt_AuthTime rt))) else e1);
         e3 = withGroups e2 user;
         e4 = (case parsePosture (dev_Posture dev) of None \<Rightarrow> e3 | Some p \<Rightarrow> e3(''device_posture'' \<mapsto> posture_json p));
         e5 = (if HasScope scope ScopeProfile then e4(''preferred_username'' \<mapsto> JStr (usr_Username user)) else e4)
     in if HasScope scope ScopeEmail \<and> usr_Email user \<noteq> [] then e5(''email'' \<mapsto> JStr (usr_Email user)) else e5)"

definition exchange_for :: "server \<Rightarrow> request \<Rightarrow> Device \<Rightarrow> RefreshToken \<Rightarrow> User \<Rightarrow> string \<Rightarrow> response prog" where
  "exchange_for srv r dev rt user audience = do {
     target \<leftarrow> ask (GetClient audience);
     case target of Inl _ \<Rightarrow> done_with (oauthError 400 ''invalid_target'' ''unknown audience'')
     | Inr aud \<Rightarrow>
     if cl_Disabled aud then done_with (oauthError 400 ''invalid_target'' ''unknown audience'')
     else (case delegated_scope (PostFormValue r ''scope'') (rt_Scope rt) (cl_AllowedScopes aud) of
       None \<Rightarrow> done_with (oauthError 400 ''invalid_scope'' ''scope must be within the user's grant and the audience's allowed scopes'')
     | Some scope \<Rightarrow> do {
     cur \<leftarrow> settings_Current;
     case IssueAccessTokenWithClaims (srv_lib srv) (srv_keys srv) (issuerConfig cur) (rq_now r) (usr_ID user) (cl_ClientID aud)
            scope (delegation_claims dev rt user scope) of
       None \<Rightarrow> done_with (oauthError 500 ''server_error'' ''could not issue token'')
     | Some access \<Rightarrow> do {
     recordToken ''access'';
     audit r evtTokenIssued (issued_entry user (cl_ClientID aud) (''token_exchange device='' @ dev_ID dev));
     done_with (Exchanged \<lparr>xr_AccessToken = access, xr_IssuedTokenType = tokenTypeAccess, xr_TokenType = ''Bearer'',
        xr_ExpiresIn = whole_seconds (sv_TokenTTL cur), xr_Scope = scope\<rparr>) } }) }"

definition grantTokenExchange :: "server \<Rightarrow> request \<Rightarrow> Proof option \<Rightarrow> response prog" where
  "grantTokenExchange srv r pr = do {
     auth \<leftarrow> authenticateClient r;
     case auth of None \<Rightarrow> done_with oauthClientAuthError
     | Some client \<Rightarrow>
     let rtt = PostFormValue r ''requested_token_type''; audience = TrimSpace (PostFormValue r ''audience''); jkt = dpopJKT pr in
     if \<not> BuiltIn client then done_with oauthClientAuthError
     else if PostFormValue r ''subject_token_type'' \<noteq> tokenTypeRefresh
     then done_with (oauthError 400 ''invalid_request'' (''subject_token_type must be '' @ tokenTypeRefresh))
     else if PostFormValue r ''actor_token_type'' \<noteq> tokenTypeAccess \<or> PostFormValue r ''actor_token'' = []
     then done_with (oauthError 400 ''invalid_request'' (''an actor_token of type '' @ tokenTypeAccess @ '' (device token) is required''))
     else if rtt \<noteq> [] \<and> rtt \<noteq> tokenTypeAccess
     then done_with (oauthError 400 ''invalid_request'' ''only access tokens can be requested'')
     else if audience = [] then done_with (oauthError 400 ''invalid_request'' ''audience is required'')
     else if jkt = []
     then done_with (oauthError 400 ''invalid_dpop_proof'' ''token exchange requires a DPoP proof from the device key'')
     else do {
     cur \<leftarrow> settings_Current;
     case Verify (srv_lib srv) (srv_keys srv) (issuerConfig cur) (rq_now r) (PostFormValue r ''actor_token'') of
       None \<Rightarrow> done_with (oauthError 400 ''invalid_grant'' ''actor_token must be a DPoP-bound device token for the presented key'')
     | Some actor \<Rightarrow>
     if \<not> IsDeviceToken actor \<or> vt_JKT actor = [] \<or> vt_JKT actor \<noteq> jkt
     then done_with (oauthError 400 ''invalid_grant'' ''actor_token must be a DPoP-bound device token for the presented key'')
     else do {
     device \<leftarrow> ask (GetDevice (vt_Subject actor));
     case device of Inl _ \<Rightarrow> done_with (oauthError 400 ''invalid_grant'' ''device is not active'')
     | Inr dev \<Rightarrow>
     if \<not> IsActive dev then done_with (oauthError 400 ''invalid_grant'' ''device is not active'')
     else do {
     stored \<leftarrow> ask (GetRefreshTokenByHash (HashToken (PostFormValue r ''subject_token'')));
     case stored of Inl _ \<Rightarrow> done_with (oauthError 400 ''invalid_grant'' ''subject_token is not a valid refresh token'')
     | Inr rt \<Rightarrow>
     if rt_Revoked rt \<or> After (rq_now r) (rt_ExpiresAt rt) \<or> rt_ClientID rt \<noteq> cl_ClientID client
     then done_with (oauthError 400 ''invalid_grant'' ''subject_token is not a valid refresh token'')
     else if rt_DeviceID rt \<noteq> dev_ID dev \<or> rt_DPoPJKT rt \<noteq> jkt
     then done_with (oauthError 400 ''invalid_grant'' ''subject_token is not bound to the acting device'')
     else do {
     found \<leftarrow> ask (GetUserByID (rt_UserID rt));
     case found of Inl _ \<Rightarrow> done_with (oauthError 400 ''invalid_grant'' ''user is not available'')
     | Inr user \<Rightarrow>
     if usr_Disabled user then done_with (oauthError 400 ''invalid_grant'' ''user is not available'')
     else exchange_for srv r dev rt user audience } } } } }"

subsection \<open>jwt-bearer\<close>

definition evtDeviceAuthSuccess :: string where "evtDeviceAuthSuccess = ''device.authentication.success''"
definition evtDeviceAuthFailed :: string where "evtDeviceAuthFailed = ''device.authentication.failed''"

text \<open>The assertion is tried against each audience until one is accepted; the last error is reported.\<close>

fun try_audiences :: "(string \<Rightarrow> pop_err + Assertion) \<Rightarrow> string list \<Rightarrow> pop_err + Assertion" where
  "try_audiences f [] = Inl PMissing"
| "try_audiences f (a # as) = (case f a of Inr x \<Rightarrow> Inr x
     | Inl e \<Rightarrow> if as = [] then Inl e else try_audiences f as)"

definition assertion_opts :: "pubkey option \<Rightarrow> string \<Rightarrow> string \<Rightarrow> AssertionOptions" where
  "assertion_opts key alg aud = \<lparr>ao_Key = key, ao_Alg = alg, ao_Audience = aud, ao_Skew = 0, ao_MaxLifetime = 0\<rparr>"

definition ok_or_none :: "'e + 'a \<Rightarrow> 'a option" where
  "ok_or_none x = (case x of Inl _ \<Rightarrow> None | Inr y \<Rightarrow> Some y)"

definition bearer_failed :: "request \<Rightarrow> Client \<Rightarrow> string \<Rightarrow> response prog" where
  "bearer_failed r client detail = do {
     recordDeviceAuth ''failure'';
     audit r evtDeviceAuthFailed (entry0\<lparr>ae_clientID := cl_ClientID client, ae_detail := detail\<rparr>);
     done_with (oauthError 400 ''invalid_grant'' ''device assertion rejected'') }"

definition bearer_target_failed :: "request \<Rightarrow> Client \<Rightarrow> string \<Rightarrow> string \<Rightarrow> string \<Rightarrow> response prog" where
  "bearer_target_failed r client detail code desc = do {
     recordDeviceAuth ''failure'';
     audit r evtDeviceAuthFailed (entry0\<lparr>ae_clientID := cl_ClientID client, ae_detail := detail\<rparr>);
     done_with (oauthError 400 code desc) }"

definition issue_device_token :: "server \<Rightarrow> request \<Rightarrow> Client \<Rightarrow> Device \<Rightarrow> User \<Rightarrow> string \<Rightarrow> string \<Rightarrow> response prog" where
  "issue_device_token srv r client dev owner jkt audience = do {
     cur \<leftarrow> settings_Current;
     case IssueDeviceToken (srv_lib srv) (srv_keys srv) (issuerConfig cur) (rq_now r) (dev_ID dev) (usr_ID owner)
            (dev_TrustLevel dev) audience jkt (sv_DeviceTokenTTL cur) of
       None \<Rightarrow> done_with (oauthError 500 ''server_error'' ''could not issue device token'')
     | Some tok \<Rightarrow> do {
     _ \<leftarrow> stmt (TouchDevice (dev_ID dev) (rq_now r));
     recordDeviceAuth ''success'';
     audit r evtDeviceAuthSuccess (issued_entry owner (cl_ClientID client) (''device='' @ dev_ID dev));
     done_with (Json 200 [member ''access_token'' tok, member ''token_type'' (if jkt \<noteq> [] then ''DPoP'' else ''Bearer''),
        (''expires_in'', jint (whole_seconds (sv_DeviceTokenTTL cur))), member ''token_use'' TokenUseDevice,
        member ''device_id'' (dev_ID dev), member ''device_trust'' (dev_TrustLevel dev)]) } }"

definition grantJWTBearer :: "server \<Rightarrow> request \<Rightarrow> Proof option \<Rightarrow> response prog" where
  "grantJWTBearer srv r pr = do {
     auth \<leftarrow> authenticateClient r;
     case auth of None \<Rightarrow> done_with oauthClientAuthError
     | Some client \<Rightarrow>
     if \<not> BuiltIn client then done_with oauthClientAuthError
     else
     let raw = PostFormValue r ''assertion'' in
     case UnverifiedIssuer (srv_lib srv) raw of None \<Rightarrow> bearer_failed r client ''malformed assertion''
     | Some i \<Rightarrow> do {
     device \<leftarrow> ask (GetDevice i);
     case device of Inl _ \<Rightarrow> bearer_failed r client ''unknown device''
     | Inr dev \<Rightarrow>
     let named = ''device='' @ dev_ID dev in
     if IsPending dev then do {
       audit r evtDeviceAuthFailed (entry0\<lparr>ae_clientID := cl_ClientID client, ae_detail := named @ '' pending approval''\<rparr>);
       done_with (oauthError 400 ''authorization_pending'' ''device is pending administrator approval'') }
     else if \<not> IsActive dev then bearer_failed r client (named @ '' status='' @ dev_Status dev)
     else (case ParseJWK (dev_PublicKey dev) of Inl _ \<Rightarrow> bearer_failed r client (named @ '' stored key unreadable'')
     | Inr jwk \<Rightarrow> do {
     cur \<leftarrow> settings_Current;
     case try_audiences (\<lambda>aud. VerifyAssertion (srv_lib srv) (rq_now r)
              (assertion_opts (ok_or_none (JWK_PublicKey jwk)) (dev_PublicKeyAlgorithm dev) aud) raw) (issuerAudiences srv cur) of
       Inl e \<Rightarrow> bearer_failed r client (named @ '' '' @ srv_errtext srv e)
     | Inr a \<Rightarrow>
     if as_Subject a \<noteq> dev_ID dev then bearer_failed r client (named @ '' sub mismatch'')
     else do {
     fresh \<leftarrow> stmt (ConsumeJTI (JTIHash (dev_Fingerprint dev) (as_JTI a)) (dev_ID dev) (as_ExpiresAt a + DefaultSkew) (rq_now r));
     if fresh \<noteq> Inr True then bearer_failed r client (named @ '' replayed jti'')
     else do {
     found \<leftarrow> ask (GetUserByID (dev_OwnerUserID dev));
     case found of Inl _ \<Rightarrow> bearer_failed r client (named @ '' owner unavailable'')
     | Inr owner \<Rightarrow>
     if usr_Disabled owner then bearer_failed r client (named @ '' owner unavailable'')
     else
     let jkt = dpopJKT pr; requested = TrimSpace (PostFormValue r ''audience'') in
     if requested = [] \<or> requested = cl_ClientID client then issue_device_token srv r client dev owner jkt (cl_ClientID client)
     else do {
     target \<leftarrow> ask (GetClient requested);
     case target of Inl _ \<Rightarrow> bearer_target_failed r client (named @ '' unknown audience'') ''invalid_target'' ''unknown audience''
     | Inr aud \<Rightarrow>
     if cl_Disabled aud then bearer_target_failed r client (named @ '' unknown audience'') ''invalid_target'' ''unknown audience''
     else if jkt = [] then bearer_target_failed r client (named @ '' audience without DPoP'') ''invalid_dpop_proof''
            ''a device token for another audience requires a DPoP proof''
     else issue_device_token srv r client dev owner jkt (cl_ClientID aud) } } } }) } }"

subsection \<open>The endpoint\<close>

definition grant_for :: "server \<Rightarrow> request \<Rightarrow> Proof option \<Rightarrow> response prog" where
  "grant_for srv r pr =
    (let g = PostFormValue r ''grant_type'' in
     if g = ''authorization_code'' then grantAuthorizationCode srv r pr
     else if g = ''refresh_token'' then grantRefreshToken srv r pr
     else if g = ''client_credentials'' then grantClientCredentials srv r
     else if g = GrantTypeDeviceCode then grantDeviceCode srv r pr
     else if g = GrantTypeJWTBearer then grantJWTBearer srv r pr
     else if g = GrantTypeTokenExchange then grantTokenExchange srv r pr
     else done_with (oauthError 400 ''unsupported_grant_type'' ''unsupported grant_type''))"

definition handleToken :: "server \<Rightarrow> request \<Rightarrow> response prog" where
  "handleToken srv r =
    (if \<not> rq_FormOK r then done_with (oauthError 400 ''invalid_request'' ''malformed request body'')
     else if rq_DPoP r = [] then grant_for srv r None
     else do {
       checked \<leftarrow> verifyDPoP srv r (rq_DPoP r) [];
       case checked of Inl e \<Rightarrow> done_with (oauthError 400 ''invalid_dpop_proof'' (dpop_text srv e))
       | Inr proof \<Rightarrow> grant_for srv r (Some proof) })"

subsection \<open>Introspection, revocation, user information\<close>

definition handleIntrospect :: "server \<Rightarrow> request \<Rightarrow> response prog" where
  "handleIntrospect srv r =
    (if \<not> rq_FormOK r then done_with (oauthError 400 ''invalid_request'' ''malformed request body'')
     else do {
     auth \<leftarrow> authenticateClient r;
     case auth of None \<Rightarrow> done_with oauthClientAuthError
     | Some client \<Rightarrow>
     let token = PostFormValue r ''token''; inactive = Json 200 [(''active'', JBool False)] in
     if IsPublic client then done_with oauthClientAuthError
     else if token = [] then done_with inactive
     else do {
     cur \<leftarrow> settings_Current;
     let refresh = do {
       stored \<leftarrow> ask (GetRefreshTokenByHash (HashToken token));
       case stored of Inl _ \<Rightarrow> done_with inactive
       | Inr rt \<Rightarrow>
           if rt_ClientID rt \<noteq> cl_ClientID client then done_with inactive
           else if \<not> rt_Revoked rt \<and> Before (rq_now r) (rt_ExpiresAt rt) then
             done_with (Json 200 [(''active'', JBool True), member ''token_type'' ''refresh_token'', member ''sub'' (rt_UserID rt),
                member ''client_id'' (rt_ClientID rt), member ''scope'' (rt_Scope rt), (''exp'', jint (Unix (rt_ExpiresAt rt)))])
           else done_with inactive } in
     case Verify (srv_lib srv) (srv_keys srv) (issuerConfig cur) (rq_now r) token of
       None \<Rightarrow> refresh
     | Some vt \<Rightarrow>
         if IsAccessToken vt \<and> vt_Audience vt = cl_ClientID client then
           done_with (Json 200 [(''active'', JBool True), member ''token_type'' ''access_token'', member ''sub'' (vt_Subject vt),
              member ''aud'' (vt_Audience vt), member ''scope'' (vt_Scope vt), member ''client_id'' (vt_Audience vt),
              member ''token_use'' ''access''])
         else refresh } })"

definition handleRevoke :: "request \<Rightarrow> response prog" where
  "handleRevoke r =
    (if \<not> rq_FormOK r then done_with (oauthError 400 ''invalid_request'' ''malformed request body'')
     else do {
     auth \<leftarrow> authenticateClient r;
     case auth of None \<Rightarrow> done_with oauthClientAuthError
     | Some client \<Rightarrow>
     let raw = PostFormValue r ''token'' in
     if raw = [] then done_with (Status 200)
     else do {
     stored \<leftarrow> ask (GetRefreshTokenByHash (HashToken raw));
     case stored of Inl _ \<Rightarrow> done_with (Status 200)
     | Inr rt \<Rightarrow>
     if rt_ClientID rt \<noteq> cl_ClientID client then done_with (Status 200)
     else do {
     _ \<leftarrow> stmt (RevokeRefreshToken (rt_ID rt));
     audit r evtTokenRevoked (entry0\<lparr>ae_actorUserID := rt_UserID rt, ae_clientID := cl_ClientID client, ae_success := True\<rparr>);
     done_with (Status 200) } } })"

definition userinfo_claims :: "VerifiedToken \<Rightarrow> User \<Rightarrow> (string \<times> json) list" where
  "userinfo_claims vt user =
    member ''sub'' (usr_ID user)
    # (if HasScope (vt_Scope vt) ScopeEmail then [member ''email'' (usr_Email user), (''email_verified'', JBool True)] else [])
    @ (if HasScope (vt_Scope vt) ScopeProfile
       then [member ''preferred_username'' (usr_Username user), member ''name'' (usr_Username user)] else [])
    @ (if userGroups user \<noteq> [] then [(''groups'', JArr (map JStr (userGroups user)))] else [])"

definition handleUserinfo :: "server \<Rightarrow> request \<Rightarrow> response prog" where
  "handleUserinfo srv r =
    (let raw = bearerToken r in
     if raw = [] then done_with (oauthError 401 ''invalid_token'' ''missing bearer token'')
     else do {
     cur \<leftarrow> settings_Current;
     case Verify (srv_lib srv) (srv_keys srv) (issuerConfig cur) (rq_now r) raw of
       None \<Rightarrow> done_with (oauthError 401 ''invalid_token'' ''invalid or expired access token'')
     | Some vt \<Rightarrow>
     if \<not> IsAccessToken vt then done_with (oauthError 401 ''invalid_token'' ''invalid or expired access token'')
     else do {
     found \<leftarrow> ask (GetUserByID (vt_Subject vt));
     case found of Inl _ \<Rightarrow> done_with (oauthError 401 ''invalid_token'' ''user is not available'')
     | Inr user \<Rightarrow>
     if usr_Disabled user then done_with (oauthError 401 ''invalid_token'' ''user is not available'')
     else done_with (Json 200 (userinfo_claims vt user)) } })"

end
