(* ===== verification/StoreFacts.thy ===== *)
theory StoreFacts
  imports StoreMachine
begin

text \<open>
  What the repositories promise to the server: single use of each credential, the replay
  guard, the life cycles of device codes and devices, revocation, the mirror of directory
  users, deletion of accounts, and what the periodic sweep can change for a reader.
\<close>

subsection \<open>Single use\<close>

text \<open>In any run of store operations that does not create the code \<open>h\<close> anew, \<open>ConsumeAuthCode\<close>
  succeeds for \<open>h\<close> at most once.\<close>

theorem auth_code_consumed_once:
  "db_ok d \<Longrightarrow> \<forall>x \<in> set xs. \<not> mints_code h x \<Longrightarrow> auth_code.redemptions h xs d \<le> 1"
  by (rule auth_code.at_most_one)

text \<open>In any run of store operations that does not insert a token with the id \<open>i\<close>, that token is
  rotated at most once, however often it is presented.\<close>

theorem refresh_token_rotated_once:
  "db_ok d \<Longrightarrow> \<forall>x \<in> set xs. \<not> mints_refresh i x \<Longrightarrow> refresh.redemptions i xs d \<le> 1"
  by (rule refresh.at_most_one)

text \<open>A device code is exchanged at most once in any run of store operations.\<close>

theorem device_code_consumed_once:
  "db_ok d \<Longrightarrow> \<forall>x \<in> set xs. \<not> mints_device_code i x \<Longrightarrow> device_code.redemptions i xs d \<le> 1"
  by (rule device_code.at_most_one)

text \<open>An activation or reset token is consumed at most once in any run of store operations.\<close>

theorem password_token_consumed_once:
  "db_ok d \<Longrightarrow> \<forall>x \<in> set xs. \<not> mints_password_token h x \<Longrightarrow> password_token.redemptions h xs d \<le> 1"
  by (rule password_token.at_most_one)

text \<open>A recovery code of a user is accepted at most once between two replacements of the set that
  contain it.\<close>

theorem recovery_code_consumed_once:
  "db_ok d \<Longrightarrow> \<forall>x \<in> set xs. \<not> mints_recovery (u, h) x \<Longrightarrow> recovery_code.redemptions (u, h) xs d \<le> 1"
  by (rule recovery_code.at_most_one)

text \<open>A WebAuthn ceremony is answered at most once in any run of store operations.\<close>

theorem ceremony_consumed_once:
  "db_ok d \<Longrightarrow> \<forall>x \<in> set xs. \<not> mints_ceremony i x \<Longrightarrow> ceremony.redemptions i xs d \<le> 1"
  by (rule ceremony.at_most_one)

text \<open>
  The single use of an authorization code rests on the two statements of its transaction not
  being interleaved with another's. SQLite, with its single connection, interleaves none;
  Postgres, at its default isolation level and with a pool of connections, may run both
  SELECTs first. A schedule of two transactions says whose statement runs next.
\<close>

datatype tx_step = Read bool | Mark bool

fun run_schedule :: "string \<Rightarrow> time \<Rightarrow> tx_step list \<Rightarrow> (bool \<Rightarrow> AuthorizationCode res) \<Rightarrow> db \<Rightarrow> bool \<Rightarrow> AuthorizationCode res" where
  "run_schedule h now [] r d = r"
| "run_schedule h now (Read i # s) r d = run_schedule h now s (r(i := ConsumeAuthCode_select h now d)) d"
| "run_schedule h now (Mark i # s) r d =
     run_schedule h now s r (if is_ok (r i) then ConsumeAuthCode_mark h d else d)"

lemma marked_not_selected:
  "ConsumeAuthCode_select h now (ConsumeAuthCode_mark h d) = Inl ErrNotFound"
proof -
  let ?t = "upd (\<lambda>c. ac_CodeHash c = h) (\<lambda>c. c\<lparr>ac_Used := True\<rparr>) (db_auth_codes d)"
  have used: "ac_Used c" if "sel1 (\<lambda>c. ac_CodeHash c = h) ?t = Inr c" for c
  proof -
    from sel1_Inr [OF that] obtain q where "c = (if ac_CodeHash q = h then q\<lparr>ac_Used := True\<rparr> else q)"
      and "ac_CodeHash c = h" by (auto simp: set_upd)
    then show ?thesis by (cases "ac_CodeHash q = h") simp_all
  qed
  show ?thesis
  proof (cases "sel1 (\<lambda>c. ac_CodeHash c = h) ?t")
    case (Inl e)
    then have "e = ErrNotFound" using sel1_Inl by blast
    with Inl show ?thesis by (simp add: ConsumeAuthCode_select_def ConsumeAuthCode_mark_def)
  next
    case (Inr c)
    with used [OF Inr] show ?thesis by (simp add: ConsumeAuthCode_select_def ConsumeAuthCode_mark_def)
  qed
qed

text \<open>The transaction of \<open>ConsumeAuthCode\<close> is atomic only when transactions are serialized: run one
  after the other, of two redemptions of a valid code the second gets \<open>ErrNotFound\<close>; with both
  reads before both writes, which its UPDATE without \<open>used = FALSE\<close> permits, both get the code.\<close>

theorem auth_code_schedules:
  assumes "ConsumeAuthCode_select h now d = Inr c"
  shows "run_schedule h now [Read True, Mark True, Read False, Mark False] r d True = Inr c
       \<and> run_schedule h now [Read True, Mark True, Read False, Mark False] r d False = Inl ErrNotFound
       \<and> run_schedule h now [Read True, Read False, Mark True, Mark False] r d True = Inr c
       \<and> run_schedule h now [Read True, Read False, Mark True, Mark False] r d False = Inr c"
  using assms by (simp add: marked_not_selected)

subsection \<open>The replay guard\<close>

text \<open>The clock reading with which an operation prunes the guard.\<close>

fun prune_clock :: "store_op \<Rightarrow> time option" where
  "prune_clock (Enrolment (OpConsumeJTI h v e now)) = Some now"
| "prune_clock (Enrolment (OpDeleteExpiredRows tb now)) = Some now"
| "prune_clock _ = None"

definition guards :: "string \<Rightarrow> time \<Rightarrow> jti_row list \<Rightarrow> bool" where
  "guards h e t \<longleftrightarrow> (\<exists>j \<in> set t. jti_Hash j = h \<and> e \<le> jti_ExpiresAt j)"

definition guarded :: "string \<Rightarrow> time \<Rightarrow> db \<Rightarrow> bool" where
  "guarded h e d \<longleftrightarrow> guards h e (db_jtis d)"

lemma guards_del: "guards h e t \<Longrightarrow> now \<le> e \<Longrightarrow> guards h e (del (\<lambda>j. Before (jti_ExpiresAt j) now) t)"
  by (auto simp: guards_def set_del)

lemma guards_append: "guards h e t \<Longrightarrow> guards h e (t @ s)"
  by (auto simp: guards_def)

lemma guarded_device:
  "guarded h e d \<Longrightarrow> (\<And>now. prune_clock (Enrolment x) = Some now \<Longrightarrow> now \<le> e) \<Longrightarrow> guarded h e (device_step x d)"
  by (cases x) (auto simp: guarded_def stmt_defs raw_stmts guards_del guards_append split: sum.split)

lemma guarded_step:
  assumes "guarded h e d" and "\<And>now. prune_clock x = Some now \<Longrightarrow> now \<le> e"
  shows "guarded h e (store_step x d)"
proof (cases x)
  case (Enrolment y)
  with assms show ?thesis by (simp add: guarded_device)
qed (use assms in \<open>simp_all add: guarded_def frame_simps\<close>)

lemma guarded_run:
  assumes "guarded h e d" and "\<forall>x \<in> set xs. \<forall>now. prune_clock x = Some now \<longrightarrow> now \<le> e"
  shows "guarded h e (fold store_step xs d)"
  using assms by (induction xs arbitrary: d) (auto simp: guarded_step)

lemma ConsumeJTI_guards: "fst (ConsumeJTI h v e now d) = Inr True \<Longrightarrow> guarded h e (snd (ConsumeJTI h v e now d))"
  by (auto simp: ConsumeJTI_def raw_stmts guarded_def guards_def split: if_splits)

lemma guarded_refuses: "guarded h e d \<Longrightarrow> now \<le> e \<Longrightarrow> fst (ConsumeJTI h v e' now d) \<noteq> Inr True"
  by (auto simp: ConsumeJTI_def raw_stmts guarded_def guards_def affected_pos_iff set_del)

text \<open>Once an identifier has been accepted with the expiry \<open>e\<close>, no later acceptance of it succeeds
  while the clock has not passed \<open>e\<close>, whatever the store does in between (pruning included).\<close>

theorem jti_accepted_once:
  assumes "fst (ConsumeJTI h v e now d) = Inr True"
    and "\<forall>x \<in> set xs. \<forall>t. prune_clock x = Some t \<longrightarrow> t \<le> e" and "now' \<le> e"
  shows "fst (ConsumeJTI h v' e' now' (fold store_step xs (snd (ConsumeJTI h v e now d)))) \<noteq> Inr True"
  by (rule guarded_refuses [OF guarded_run [OF ConsumeJTI_guards [OF assms(1)] assms(2)] assms(3)])


subsection \<open>The life of a device code\<close>

text \<open>What may happen to the row of an RFC 8628 grant: it is polled, approved or denied while pending,
  and consumed once approved.\<close>

inductive dc_step :: "DeviceCode \<Rightarrow> DeviceCode \<Rightarrow> bool" where
  poll: "dc_step c (c\<lparr>dc_LastPolledAt := t\<rparr>)"
| approve: "dc_Status c = DeviceCodePending \<Longrightarrow>
    dc_step c (c\<lparr>dc_Status := DeviceCodeApproved, dc_UserID := u, dc_AMR := a, dc_AuthTime := t\<rparr>)"
| deny: "dc_Status c = DeviceCodePending \<Longrightarrow> dc_step c (c\<lparr>dc_Status := DeviceCodeDenied\<rparr>)"
| consume: "dc_Status c = DeviceCodeApproved \<Longrightarrow> dc_step c (c\<lparr>dc_Status := DeviceCodeConsumed\<rparr>)"

inductive_cases dc_stepE: "dc_step c c'"

lemma row_upd:
  assumes "uniq_on key t" "c \<in> set t" "c' \<in> set (upd p f t)" "key c' = key c" "\<And>r. key (f r) = key r"
  shows "c' = (if p c then f c else c)"
proof -
  from assms(3) obtain q where q: "q \<in> set t" "c' = (if p q then f q else q)" by (auto simp: set_upd)
  then have "key q = key c" using assms(4,5) by (auto split: if_splits)
  then have "q = c" using uniq_on_eq [OF assms(1) q(1) assms(2)] by simp
  with q show ?thesis by simp
qed

lemma row_same: "uniq_on key t \<Longrightarrow> c \<in> set t \<Longrightarrow> c' \<in> set t \<Longrightarrow> key c' = key c \<Longrightarrow> c' = c"
  by (rule uniq_on_eq)

lemma dc_other:
  assumes "db_device_codes (device_step x d) = db_device_codes d \<or> (\<exists>p. db_device_codes (device_step x d) = del p (db_device_codes d))"
    and "uniq_on dc_ID (db_device_codes d)" "c \<in> set (db_device_codes d)"
    "c' \<in> set (db_device_codes (device_step x d))" "dc_ID c' = dc_ID c"
  shows "c' = c"
  using assms uniq_on_eq [of dc_ID "db_device_codes d" c' c] by (auto simp: set_del)

lemma dc_upd:
  assumes "uniq_on dc_ID t" "c \<in> set t" "dc_ID c' = dc_ID c" "c' \<in> set (upd p f t) \<or> c' \<in> set t"
    and "\<And>r. p r \<Longrightarrow> dc_step r (f r)" and "\<And>r. dc_ID (f r) = dc_ID r"
  shows "c' = c \<or> dc_step c c'"
  using assms(4)
proof
  assume "c' \<in> set (upd p f t)"
  then have "c' = (if p c then f c else c)"
    using assms by (intro row_upd [of dc_ID t]) auto
  then show ?thesis using assms(5) by auto
next
  assume "c' \<in> set t"
  then show ?thesis using row_same [OF assms(1,2)] assms(3) by blast
qed

lemma device_step_device_code:
  assumes u: "uniq_on dc_ID (db_device_codes d)" and c: "c \<in> set (db_device_codes d)"
    and c': "c' \<in> set (db_device_codes (device_step x d))" and i: "dc_ID c' = dc_ID c"
    and m: "\<not> mints_device_code (dc_ID c) (Enrolment x)"
  shows "c' = c \<or> dc_step c c'"
proof (cases x)
  case (OpApproveDeviceCode j ui a t)
  have "c' \<in> set (upd (\<lambda>c. dc_ID c = j \<and> dc_Status c = DeviceCodePending)
      (\<lambda>c. c\<lparr>dc_Status := DeviceCodeApproved, dc_UserID := ui, dc_AMR := a, dc_AuthTime := t\<rparr>) (db_device_codes d))
      \<or> c' \<in> set (db_device_codes d)"
    using c' OpApproveDeviceCode by (auto simp: ApproveDeviceCode_def raw_stmts split: if_splits)
  then show ?thesis by (rule dc_upd [OF u c i]) (auto intro: dc_step.intros)
next
  case (OpDenyDeviceCode j)
  have "c' \<in> set (upd (\<lambda>c. dc_ID c = j \<and> dc_Status c = DeviceCodePending)
      (\<lambda>c. c\<lparr>dc_Status := DeviceCodeDenied\<rparr>) (db_device_codes d)) \<or> c' \<in> set (db_device_codes d)"
    using c' OpDenyDeviceCode by (auto simp: DenyDeviceCode_def raw_stmts split: if_splits)
  then show ?thesis by (rule dc_upd [OF u c i]) (auto intro: dc_step.intros)
next
  case (OpConsumeDeviceCode j)
  have "c' \<in> set (upd (\<lambda>c. dc_ID c = j \<and> dc_Status c = DeviceCodeApproved)
      (\<lambda>c. c\<lparr>dc_Status := DeviceCodeConsumed\<rparr>) (db_device_codes d)) \<or> c' \<in> set (db_device_codes d)"
    using c' OpConsumeDeviceCode by (auto simp: ConsumeDeviceCode_def raw_stmts split: if_splits)
  then show ?thesis by (rule dc_upd [OF u c i]) (auto intro: dc_step.intros)
next
  case (OpMarkDeviceCodePolled j t)
  have "c' \<in> set (upd (\<lambda>c. dc_ID c = j) (\<lambda>c. c\<lparr>dc_LastPolledAt := t\<rparr>) (db_device_codes d))
      \<or> c' \<in> set (db_device_codes d)"
    using c' OpMarkDeviceCodePolled by (auto simp: MarkDeviceCodePolled_def raw_stmts split: if_splits)
  then show ?thesis by (rule dc_upd [OF u c i]) (auto intro: dc_step.intros)
next
  case (OpCreateDeviceCode r)
  with m c' have "c' \<in> set (db_device_codes d)"
    using i by (auto simp: CreateDeviceCode_def raw_stmts split: if_splits)
  with row_same [OF u c _ i] show ?thesis by simp
qed (rule disjI1, rule dc_other [OF _ u c c' i], force simp: stmt_defs raw_stmts split: sum.splits)+

lemma store_step_device_code:
  assumes "db_ok d" "c \<in> set (db_device_codes d)" "c' \<in> set (db_device_codes (store_step x d))"
    "dc_ID c' = dc_ID c" "\<not> mints_device_code (dc_ID c) x"
  shows "c' = c \<or> dc_step c c'"
proof (cases x)
  case (Enrolment y)
  with assms show ?thesis
    by (intro device_step_device_code [of d c c' y]) (auto simp: db_ok_def device_codes_ok_def)
next
  case (Account y)
  with assms row_same [of dc_ID "db_device_codes d" c c'] show ?thesis
    by (auto simp: frame_simps db_ok_def device_codes_ok_def)
next
  case (Grant y)
  with assms row_same [of dc_ID "db_device_codes d" c c'] show ?thesis
    by (auto simp: frame_simps db_ok_def device_codes_ok_def)
qed

text \<open>What every step keeps: the request the grant was made for, and a final status.\<close>

lemma dc_step_request:
  "dc_step c c' \<Longrightarrow> dc_ClientID c' = dc_ClientID c \<and> dc_Scope c' = dc_Scope c \<and> dc_DeviceID c' = dc_DeviceID c
     \<and> dc_ExpiresAt c' = dc_ExpiresAt c \<and> dc_ID c' = dc_ID c"
  by (auto elim: dc_stepE)

lemma dc_step_final: "dc_step c c' \<Longrightarrow> dc_final c \<Longrightarrow> dc_Status c' = dc_Status c"
  by (auto elim!: dc_stepE simp: dc_final_def)

lemma dc_step_approval:
  "dc_step c c' \<Longrightarrow> dc_Status c = DeviceCodeApproved \<Longrightarrow>
     dc_UserID c' = dc_UserID c \<and> dc_Status c' \<in> {DeviceCodeApproved, DeviceCodeConsumed}"
  by (auto elim!: dc_stepE simp: device_code_status_defs)

text \<open>C35: A grant row only ever moves along the machine of RFC 8628: an operation of the store either
  leaves it as it is or polls it, approves or denies it while it is pending, or consumes it once
  approved; it never changes the client, scope, device or expiry the grant was made for.\<close>

theorem device_code_life:
  assumes "db_ok d" "c \<in> set (db_device_codes d)" "c' \<in> set (db_device_codes (store_step x d))"
    "dc_ID c' = dc_ID c" "\<not> mints_device_code (dc_ID c) x"
  shows "(c' = c \<or> dc_step c c') \<and> dc_ClientID c' = dc_ClientID c \<and> dc_Scope c' = dc_Scope c
    \<and> dc_DeviceID c' = dc_DeviceID c \<and> dc_ExpiresAt c' = dc_ExpiresAt c"
  using store_step_device_code [OF assms] dc_step_request by blast

text \<open>Along any path of the machine, a grant that ends up consumed was approved before by the user
  it names, and a denied grant stays denied.\<close>

theorem device_code_path:
  assumes "dc_step\<^sup>*\<^sup>* c c'" and "dc_Status c = DeviceCodePending"
  shows "(dc_Status c' = DeviceCodeConsumed \<longrightarrow>
      (\<exists>b. dc_step\<^sup>*\<^sup>* c b \<and> dc_step\<^sup>*\<^sup>* b c' \<and> dc_Status b = DeviceCodeApproved \<and> dc_UserID b = dc_UserID c'))
    \<and> (dc_step\<^sup>*\<^sup>* c' c'' \<and> dc_Status c' = DeviceCodeDenied \<longrightarrow> dc_Status c'' = DeviceCodeDenied)"
proof
  show "dc_Status c' = DeviceCodeConsumed \<longrightarrow>
      (\<exists>b. dc_step\<^sup>*\<^sup>* c b \<and> dc_step\<^sup>*\<^sup>* b c' \<and> dc_Status b = DeviceCodeApproved \<and> dc_UserID b = dc_UserID c')"
    using assms
  proof (induction rule: rtranclp_induct)
    case base
    then show ?case by (simp add: device_code_status_defs)
  next
    case (step b e)
    from step.hyps(2) show ?case
    proof (cases rule: dc_step.cases)
      case (poll t)
      with step show ?thesis by (auto intro: rtranclp.rtrancl_into_rtrancl)
    next
      case consume
      with step show ?thesis by (auto intro!: exI [of _ b] intro: r_into_rtranclp)
    qed (auto simp: device_code_status_defs)
  qed
  show "dc_step\<^sup>*\<^sup>* c' c'' \<and> dc_Status c' = DeviceCodeDenied \<longrightarrow> dc_Status c'' = DeviceCodeDenied"
  proof safe
    assume "dc_step\<^sup>*\<^sup>* c' c''" "dc_Status c' = DeviceCodeDenied"
    then show "dc_Status c'' = DeviceCodeDenied"
      by (induction rule: rtranclp_induct) (auto dest: dc_step_final simp: dc_final_def device_code_status_defs)
  qed
qed


subsection \<open>Devices: revocation, approval, keys\<close>

lemma revoke_pats_none: "p \<in> set (revoke_pats q t ps) \<Longrightarrow> q p \<Longrightarrow> pat_RevokedAt p \<noteq> None"
  if "\<And>x r. q (x\<lparr>pat_RevokedAt := r\<rparr>) = q x"
  unfolding revoke_pats_def by (erule in_updE) (auto simp: that)

text \<open>Revoking a device succeeds exactly when it exists, is not yet revoked and the database
  executes the transaction; then the device is revoked, every refresh token and personal access
  token bound to it is revoked, and the tokens of other devices are untouched. Otherwise nothing
  at all changes.\<close>

theorem RevokeDevice_effect:
  assumes "RevokeDevice i at d = (r, d')"
  shows "(r = Inr () \<longleftrightarrow> \<not> fault d ''RevokeDevice'' \<and>
            (\<exists>v \<in> set (db_devices d). dev_ID v = i \<and> dev_Status v \<noteq> DeviceStatusRevoked))
    \<and> (r \<noteq> Inr () \<longrightarrow> d' = d)
    \<and> (r = Inr () \<longrightarrow>
        (\<forall>v \<in> set (db_devices d'). dev_ID v = i \<longrightarrow> \<not> IsActive v \<and> \<not> IsPending v)
      \<and> (\<forall>t \<in> set (db_refresh_tokens d'). rt_DeviceID t = i \<longrightarrow> rt_Revoked t)
      \<and> (\<forall>p \<in> set (db_pats d'). pat_DeviceID p = i \<longrightarrow> \<not> pat_Active p now)
      \<and> filter (\<lambda>t. rt_DeviceID t \<noteq> i) (db_refresh_tokens d') = filter (\<lambda>t. rt_DeviceID t \<noteq> i) (db_refresh_tokens d)
      \<and> filter (\<lambda>p. pat_DeviceID p \<noteq> i) (db_pats d') = filter (\<lambda>p. pat_DeviceID p \<noteq> i) (db_pats d))"
proof -
  let ?p = "\<lambda>v. dev_ID v = i \<and> dev_Status v \<noteq> DeviceStatusRevoked"
  have dev: "\<not> IsActive v \<and> \<not> IsPending v" if "v \<in> set (upd ?p (\<lambda>v. v\<lparr>dev_Status := DeviceStatusRevoked, dev_RevokedAt := at\<rparr>) t)"
    "dev_ID v = i" for v t
    using that(1) by (rule in_updE) (use that(2) in \<open>auto simp: IsActive_def IsPending_def device_status_defs\<close>)
  have rt: "rt_Revoked x" if "x \<in> set (upd (\<lambda>t. rt_DeviceID t = i) (\<lambda>t. t\<lparr>rt_Revoked := True\<rparr>) t)" "rt_DeviceID x = i" for x t
    using that(1) by (rule in_updE) (use that(2) in auto)
  have rest: "filter (\<lambda>t. rt_DeviceID t \<noteq> i) (upd (\<lambda>t. rt_DeviceID t = i) (\<lambda>t. t\<lparr>rt_Revoked := True\<rparr>) t)
      = filter (\<lambda>t. rt_DeviceID t \<noteq> i) t" for t
    by (induction t) auto
  have pat: "\<not> pat_Active p now" if "p \<in> set (revoke_pats (\<lambda>x. pat_DeviceID x = i) at t)" "pat_DeviceID p = i" for p t
    using revoke_pats_none [of "\<lambda>x. pat_DeviceID x = i" p at t] that by (simp add: pat_Active_def)
  have pats: "filter (\<lambda>p. pat_DeviceID p \<noteq> i) (revoke_pats (\<lambda>x. pat_DeviceID x = i) at t)
      = filter (\<lambda>p. pat_DeviceID p \<noteq> i) t" for t
    unfolding revoke_pats_def by (induction t) auto
  show ?thesis
  proof (cases "fault d ''RevokeDevice'' \<or> affected ?p (db_devices d) = 0")
    case True
    then have "r \<noteq> Inr () \<and> d' = d" using assms by (auto simp: RevokeDevice_def Let_def split: if_splits)
    moreover have "\<not> (\<not> fault d ''RevokeDevice'' \<and> (\<exists>v \<in> set (db_devices d). ?p v))"
      using True by (auto simp: affected_0_iff)
    ultimately show ?thesis by blast
  next
    case False
    then have ex: "\<not> fault d ''RevokeDevice'' \<and> (\<exists>v \<in> set (db_devices d). ?p v)"
      by (auto simp: affected_0_iff)
    have r: "r = Inr ()" and d': "d' = d\<lparr>
           db_devices := upd ?p (\<lambda>v. v\<lparr>dev_Status := DeviceStatusRevoked, dev_RevokedAt := at\<rparr>) (db_devices d),
           db_refresh_tokens := upd (\<lambda>t. rt_DeviceID t = i) (\<lambda>t. t\<lparr>rt_Revoked := True\<rparr>) (db_refresh_tokens d),
           db_pats := revoke_pats (\<lambda>x. pat_DeviceID x = i) at (db_pats d)\<rparr>"
      using False assms by (auto simp: RevokeDevice_def Let_def)
    show ?thesis
      using ex dev [of _ "db_devices d"] rt [of _ "db_refresh_tokens d"] pat [of _ "db_pats d"]
      by (simp add: r d' rest pats)
  qed
qed

text \<open>A device is pending, then active, then revoked; an update never goes back.\<close>

definition dev_rank :: "Device \<Rightarrow> nat" where
  "dev_rank v = (if IsPending v then 0 else if IsActive v then 1 else 2)"

fun mints_device :: "string \<Rightarrow> store_op \<Rightarrow> bool" where
  "mints_device i (Enrolment (OpCreateDevice v)) = (dev_ID v = i)"
| "mints_device i _ = False"

lemma device_update_rank:
  assumes "uniq_on dev_ID t" "v \<in> set t" "v' \<in> set (upd p f t) \<or> v' \<in> set t" "dev_ID v' = dev_ID v"
    and "\<And>r. dev_ID (f r) = dev_ID r" "\<And>r. p r \<Longrightarrow> dev_rank r \<le> dev_rank (f r)"
  shows "dev_rank v \<le> dev_rank v'"
  using assms(3)
proof
  assume "v' \<in> set (upd p f t)"
  then have "v' = (if p v then f v else v)"
    using assms by (intro row_upd [of dev_ID t]) auto
  then show ?thesis using assms(6) by auto
next
  assume "v' \<in> set t"
  then have "v' = v" using row_same [OF assms(1,2)] assms(4) by blast
  then show ?thesis by simp
qed

lemma device_same_rank:
  assumes "uniq_on dev_ID t" "v \<in> set t" "v' \<in> set t" "dev_ID v' = dev_ID v"
  shows "dev_rank v \<le> dev_rank v'"
  using row_same [OF assms] by simp

lemma device_step_rank:
  assumes u: "uniq_on dev_ID (db_devices d)" and v: "v \<in> set (db_devices d)"
    and v': "v' \<in> set (db_devices (device_step x d))" and i: "dev_ID v' = dev_ID v"
    and m: "\<not> mints_device (dev_ID v) (Enrolment x)"
  shows "dev_rank v \<le> dev_rank v'"
proof -
  have upds: "dev_rank v \<le> dev_rank v'"
    if "\<exists>p f. (v' \<in> set (upd p f (db_devices d)) \<or> v' \<in> set (db_devices d)) \<and> (\<forall>r. dev_ID (f r) = dev_ID r)
        \<and> (\<forall>r. p r \<longrightarrow> dev_rank r \<le> dev_rank (f r))"
    using that device_update_rank [OF u v _ i] by blast
  have same: "dev_rank v \<le> dev_rank v'" if "v' \<in> set (db_devices d)"
    using device_same_rank [OF u v that i] .
  note ranks = dev_rank_def IsPending_def IsActive_def device_status_defs
  show ?thesis
  proof (cases x)
    case (OpCreateDevice r)
    with m v' i have "v' \<in> set (db_devices d)" by (auto simp: CreateDevice_def raw_stmts split: if_splits)
    then show ?thesis by (rule same)
  next
    case (OpSetDevicePosture j po t kb tr)
    with v' show ?thesis
      by (intro upds exI [of _ "\<lambda>v. dev_ID v = j"] exI [of _ "\<lambda>v. if kb \<noteq> '''' then
            v\<lparr>dev_Posture := po, dev_PostureAt := t, dev_KeyBackend := kb, dev_TrustLevel := tr\<rparr>
            else v\<lparr>dev_Posture := po, dev_PostureAt := t\<rparr>"])
         (auto simp: SetDevicePosture_def raw_stmts ranks split: if_splits)
  next
    case (OpTouchDevice j t)
    with v' show ?thesis
      by (intro upds exI [of _ "\<lambda>v. dev_ID v = j"] exI [of _ "\<lambda>v. v\<lparr>dev_LastSeenAt := t\<rparr>"])
         (auto simp: TouchDevice_def raw_stmts ranks split: if_splits)
  next
    case (OpRevokeDevice j t)
    with v' show ?thesis
      by (intro upds exI [of _ "\<lambda>v. dev_ID v = j \<and> dev_Status v \<noteq> DeviceStatusRevoked"]
            exI [of _ "\<lambda>v. v\<lparr>dev_Status := DeviceStatusRevoked, dev_RevokedAt := t\<rparr>"])
         (auto simp: RevokeDevice_def raw_stmts ranks split: if_splits)
  next
    case (OpRotateDeviceKey j pk alg fp kb tr)
    with v' show ?thesis
      by (intro upds exI [of _ "\<lambda>v. dev_ID v = j \<and> dev_Status v = DeviceStatusActive"]
            exI [of _ "rotate_key pk alg fp kb tr"])
         (auto simp: RotateDeviceKey_def raw_stmts rotate_key_def ranks split: if_splits)
  next
    case (OpApproveDevice j t)
    with v' show ?thesis
      by (intro upds exI [of _ "\<lambda>v. dev_ID v = j \<and> dev_Status v = DeviceStatusPending"]
            exI [of _ "\<lambda>v. v\<lparr>dev_Status := DeviceStatusActive, dev_EnrolledAt := t\<rparr>"])
         (auto simp: ApproveDevice_def raw_stmts ranks split: if_splits)
  next
    case (OpSetDeviceOwnerOnly j ow b)
    with v' show ?thesis
      by (intro upds exI [of _ "\<lambda>v. dev_ID v = j \<and> dev_OwnerUserID v = ow"]
            exI [of _ "\<lambda>v. v\<lparr>dev_OwnerOnly := b\<rparr>"])
         (auto simp: SetDeviceOwnerOnly_def raw_stmts ranks split: if_splits)
  qed (use v' in \<open>auto intro!: same simp: stmt_defs raw_stmts set_del split: if_splits sum.splits\<close>)
qed

lemma account_step_devices: "set (db_devices (account_step x d)) \<subseteq> set (db_devices d)"
  by (cases x) (auto simp: stmt_defs raw_stmts set_del split: sum.splits)

text \<open>Whatever the store does, a device moves only from pending to active and from either to
  revoked: under its id, a revoked device is never active again.\<close>

theorem device_life:
  assumes "db_ok d" "v \<in> set (db_devices d)" "v' \<in> set (db_devices (store_step x d))"
    "dev_ID v' = dev_ID v" "\<not> mints_device (dev_ID v) x"
  shows "dev_rank v \<le> dev_rank v' \<and> (\<not> IsPending v \<and> \<not> IsActive v \<longrightarrow> \<not> IsPending v' \<and> \<not> IsActive v')"
proof -
  have u: "uniq_on dev_ID (db_devices d)" using assms(1) by (simp add: db_ok_def devices_ok_def)
  have "dev_rank v \<le> dev_rank v'"
  proof (cases x)
    case (Account y)
    with assms account_step_devices [of y d] show ?thesis by (intro device_same_rank [OF u]) auto
  next
    case (Grant y)
    with assms show ?thesis by (intro device_same_rank [OF u]) (auto simp: frame_simps)
  next
    case (Enrolment y)
    with assms show ?thesis by (intro device_step_rank [OF u]) auto
  qed
  then show ?thesis by (auto simp: dev_rank_def split: if_splits)
qed

text \<open>A successful rotation applies to an active device only, makes the old key the previous one,
  and leaves both the new and the old fingerprint in use.\<close>

theorem RotateDeviceKey_effect:
  assumes "db_ok d" and "RotateDeviceKey i pk alg fp kb tr d = (Inr (), d')"
  shows "\<exists>v \<in> set (db_devices d). dev_ID v = i \<and> IsActive v
    \<and> sel1 (\<lambda>x. dev_ID x = i) (db_devices d') = Inr (rotate_key pk alg fp kb tr v)
    \<and> (\<not> fault d' ''FingerprintInUse'' \<longrightarrow> FingerprintInUse fp d' = Inr True
         \<and> FingerprintInUse (dev_Fingerprint v) d' = Inr True)"
proof -
  let ?p = "\<lambda>v. dev_ID v = i \<and> dev_Status v = DeviceStatusActive"
  have u: "uniq_on dev_ID (db_devices d)" using assms(1) by (simp add: db_ok_def devices_ok_def)
  have d': "d' = db_devices_update (upd ?p (rotate_key pk alg fp kb tr)) d" and "0 < affected ?p (db_devices d)"
    using assms(2) by (auto simp: RotateDeviceKey_def raw_stmts requireRow_def split: if_splits)
  then obtain v where v: "v \<in> set (db_devices d)" "?p v" by (auto simp: affected_pos_iff)
  let ?v = "rotate_key pk alg fp kb tr v"
  have key: "dev_ID (rotate_key pk alg fp kb tr r) = dev_ID r" for r
    by (simp add: rotate_key_def Let_def)
  have new: "?v \<in> set (db_devices d')" using v by (auto simp: d' set_upd)
  moreover have "uniq_on dev_ID (db_devices d')" using u by (simp add: d' uniq_on_upd key)
  ultimately have s: "sel1 (\<lambda>x. dev_ID x = dev_ID ?v) (db_devices d') = Inr ?v"
    by (intro sel1_key) auto
  have f: "dev_Fingerprint ?v = fp" "dev_PreviousFingerprint ?v = dev_Fingerprint v" "dev_ID ?v = i"
    using v by (auto simp: rotate_key_def Let_def)
  have "FingerprintInUse fp d' = Inr True \<and> FingerprintInUse (dev_Fingerprint v) d' = Inr True"
    if "\<not> fault d' ''FingerprintInUse''"
    using that new f by (auto simp: FingerprintInUse_def query_def affected_pos_iff)
  with s f v show ?thesis by (intro bexI [of _ v]) (simp_all add: IsActive_def)
qed

text \<open>
  The comment on \<open>FingerprintInUse\<close> promises more: that a fingerprint was ever registered. The
  row remembers one previous key, so the second rotation forgets the first key.
\<close>

lemma FingerprintInUse_forgets:
  assumes "uniq_on dev_ID [v]" and "IsActive v" and "db_devices d = [v]"
    and "dev_Fingerprint v \<notin> {b, c}" and "db_faults d = []"
    and "devices_ok d"
  shows "FingerprintInUse (dev_Fingerprint v) d = Inr True
    \<and> FingerprintInUse (dev_Fingerprint v)
        (snd (RotateDeviceKey (dev_ID v) k2 a2 c kb2 t2 (snd (RotateDeviceKey (dev_ID v) k1 a1 b kb1 t1 d)))) = Inr False"
  using assms
  by (auto simp: FingerprintInUse_def RotateDeviceKey_def raw_stmts rotate_key_def fault_def affected_def IsActive_def
      ok_defs)

subsection \<open>Directory users never touch local accounts\<close>

lemma update_user_keys_other:
  assumes "uniq_on usr_ID (db_users d)" "w \<in> set (db_users d)" "usr_ID w \<noteq> i"
  shows "w \<in> set (db_users (snd (update_user_keys op i f d)))"
  using assms by (auto simp: update_user_keys_def raw_stmts set_upd)

text \<open>Mirroring a directory user never changes, removes or adds a local account: every local account
  is found unchanged afterwards, on every branch and whatever statements fail; and a success returns
  an account of that directory entry.\<close>

theorem UpsertExternalUser_spares_local:
  assumes "db_ok d" and "source \<noteq> ''''" and "source \<noteq> ''local''"
    and "UpsertExternalUser source ext n e a uuid now d = (r, d')"
  shows "filter IsLocal (db_users d') = filter IsLocal (db_users d)
    \<and> (\<forall>u. r = Inr u \<longrightarrow> usr_AuthSource u = source \<and> usr_ExternalID u = ext \<and> usr_IsAdmin u = a)"
proof -
  have u: "uniq_on usr_ID (db_users d)" using assms(1) by (simp add: db_ok_def users_ok_def)
  have keep: "filter IsLocal (upd (\<lambda>u. usr_ID u = usr_ID x) (\<lambda>u. u\<lparr>usr_Email := e, usr_IsAdmin := a, usr_UpdatedAt := now\<rparr>) t)
      = filter IsLocal t" if "\<forall>w \<in> set t. usr_ID w = usr_ID x \<longrightarrow> \<not> IsLocal w" for x t
    using that by (induction t) (auto simp: IsLocal_def)
  show ?thesis
  proof (cases "GetUserByExternalID source ext d")
    case (Inr x)
    then have x: "x \<in> set (db_users d)" "usr_AuthSource x = source" "usr_ExternalID x = ext"
      by (auto simp: GetUserByExternalID_def query_Inr dest!: sel1_Inr)
    then have "\<forall>w \<in> set (db_users d). usr_ID w = usr_ID x \<longrightarrow> \<not> IsLocal w"
      using uniq_on_eq [OF u _ x(1)] assms(2,3) by (auto simp: IsLocal_def)
    note k = keep [OF this]
    show ?thesis
      using assms(4) Inr x
      by (auto simp: UpsertExternalUser_def update_user_keys_def raw_stmts requireRow_def k split: if_splits)
  next
    case (Inl err)
    then show ?thesis
      using assms(2-4)
      by (auto simp: UpsertExternalUser_def CreateUser_def raw_stmts norm_user_def IsLocal_def split: if_splits sum.splits)
  qed
qed

subsection \<open>Deleting and disabling accounts\<close>

text \<open>Deleting a user leaves nothing that refers to the account: its sessions, tokens, recovery
  codes, challenges, passkeys, devices and personal access tokens go with the row, and every other
  account keeps its own.\<close>

theorem DeleteUser_effect:
  assumes "DeleteUser i d = (Inr (), d')"
  shows "\<not> fk_user d' i \<and> fk_user d i
    \<and> (\<forall>s \<in> set (db_sessions d'). ses_UserID s \<noteq> i) \<and> (\<forall>t \<in> set (db_password_tokens d'). pt_UserID t \<noteq> i)
    \<and> (\<forall>c \<in> set (db_recovery_codes d'). rc_UserID c \<noteq> i) \<and> (\<forall>c \<in> set (db_login_challenges d'). lc_UserID c \<noteq> i)
    \<and> (\<forall>c \<in> set (db_webauthn_credentials d'). wc_UserID c \<noteq> i) \<and> (\<forall>v \<in> set (db_devices d'). dev_OwnerUserID v \<noteq> i)
    \<and> (\<forall>p \<in> set (db_pats d'). pat_UserID p \<noteq> i)
    \<and> filter (\<lambda>u. usr_ID u \<noteq> i) (db_users d) = db_users d'
    \<and> filter (\<lambda>s. ses_UserID s \<noteq> i) (db_sessions d) = db_sessions d'
    \<and> filter (\<lambda>v. dev_OwnerUserID v \<noteq> i) (db_devices d) = db_devices d'"
proof -
  have d': "d' = cascade_user i (db_pats_update (del (\<lambda>p. pat_UserID p = i)) d)"
    and pos: "0 < affected (\<lambda>u. usr_ID u = i) (db_users d)"
    using assms by (auto simp: DeleteUser_def exec_def execRow_def requireRow_def split: if_splits)
  then show ?thesis
    by (auto simp: cascade_user_def fk_user_def set_del affected_pos_iff) (auto simp: del_def)
qed

text \<open>Disabling a user revokes every personal access token of the account in the same call, and
  leaves every other account's tokens alone.\<close>

theorem SetUserDisabled_effect:
  assumes "SetUserDisabled i True now d = (Inr (), d')"
  shows "(\<forall>u \<in> set (db_users d'). usr_ID u = i \<longrightarrow> usr_Disabled u)
    \<and> (\<forall>p \<in> set (db_pats d'). pat_UserID p = i \<longrightarrow> \<not> pat_Active p t)
    \<and> filter (\<lambda>p. pat_UserID p \<noteq> i) (db_pats d') = filter (\<lambda>p. pat_UserID p \<noteq> i) (db_pats d)"
proof -
  let ?f = "\<lambda>r. r\<lparr>usr_Disabled := True, usr_UpdatedAt := now\<rparr>"
  have d': "db_users d' = upd (\<lambda>u. usr_ID u = i) ?f (db_users d)"
    "db_pats d' = revoke_pats (\<lambda>p. pat_UserID p = i) now (db_pats d)"
    using assms by (auto simp: SetUserDisabled_def raw_stmts requireRow_def split: if_splits)
  have "usr_Disabled u" if "u \<in> set (db_users d')" "usr_ID u = i" for u
    using that(1) unfolding d' by (rule in_updE) (use that(2) in auto)
  moreover have "\<not> pat_Active p t" if "p \<in> set (db_pats d')" "pat_UserID p = i" for p
    using revoke_pats_none [of "\<lambda>p. pat_UserID p = i" p now "db_pats d"] that by (auto simp: d' pat_Active_def)
  moreover have "filter (\<lambda>p. pat_UserID p \<noteq> i) (revoke_pats (\<lambda>p. pat_UserID p = i) now ps)
      = filter (\<lambda>p. pat_UserID p \<noteq> i) ps" for ps
    unfolding revoke_pats_def by (induction ps) auto
  ultimately show ?thesis by (simp add: d')
qed

subsection \<open>What the sweep can change for a reader\<close>

text \<open>A getter that treats an expired row as missing, on a table with a unique key: deleting rows that
  have already expired changes none of its answers.\<close>

definition live :: "('r \<Rightarrow> 'k) \<Rightarrow> ('r \<Rightarrow> bool) \<Rightarrow> 'k \<Rightarrow> 'r list \<Rightarrow> 'r res" where
  "live key bad k t = (case sel1 (\<lambda>r. key r = k) t of Inl e \<Rightarrow> Inl e
     | Inr r \<Rightarrow> if bad r then Inl ErrNotFound else Inr r)"

lemma live_del:
  assumes "uniq_on key t" and "\<And>r. p r \<Longrightarrow> bad r"
  shows "live key bad k (del p t) = live key bad k t"
  using assms(1)
proof (induction t)
  case (Cons r t)
  have "live key bad (key r) (del p t) = Inl ErrNotFound"
  proof -
    have "\<forall>s \<in> set (del p t). key s \<noteq> key r" using Cons.prems by (simp add: set_del) (metis imageI)
    then show ?thesis by (simp add: live_def sel1_Inl [of _ _ ErrNotFound, THEN iffD2])
  qed
  with Cons assms(2) [of r] show ?case by (auto simp: live_def)
qed (simp add: live_def)

lemma getters_live:
  "GetSession i t d = query ''GetSession'' (live ses_ID (\<lambda>s. After t (ses_ExpiresAt s)) i (db_sessions d)) d"
  "GetAuthRequest i t d = query ''GetAuthRequest'' (live ar_ID (\<lambda>s. After t (ar_ExpiresAt s)) i (db_auth_requests d)) d"
  "GetLoginChallenge i t d = query ''GetLoginChallenge'' (live lc_ID (\<lambda>s. After t (lc_ExpiresAt s)) i (db_login_challenges d)) d"
  "ConsumeAuthCode_select h t d = live ac_CodeHash (\<lambda>c. ac_Used c \<or> After t (ac_ExpiresAt c)) h (db_auth_codes d)"
  "GetPendingDeviceCodeByUserCode uc t d = query ''GetPendingDeviceCodeByUserCode''
     (live dc_UserCode (\<lambda>c. dc_Status c \<noteq> DeviceCodePending \<or> After t (dc_ExpiresAt c)) uc (db_device_codes d)) d"
  by (auto simp: GetSession_def GetAuthRequest_def GetLoginChallenge_def ConsumeAuthCode_select_def
      GetPendingDeviceCodeByUserCode_def live_def query_def split: sum.split)

text \<open>What a reader at time \<open>t\<close> sees of the database: every statement of the repositories that reads a table the sweep deletes
  from and depends on the time. A device code is also looked up by its hash, whatever its time; there the sweep may only
  turn a code that has expired into one that is unknown.\<close>

definition visible :: "time \<Rightarrow> db \<Rightarrow> db \<Rightarrow> bool" where
  "visible t d d' \<longleftrightarrow> (\<forall>k. GetSession k t d' = GetSession k t d \<and> ListSessionsForUser k t d' = ListSessionsForUser k t d
     \<and> CountActiveSessions t d' = CountActiveSessions t d
     \<and> GetAuthRequest k t d' = GetAuthRequest k t d \<and> GetLoginChallenge k t d' = GetLoginChallenge k t d
     \<and> fst (ConsumeAuthCode k t d') = fst (ConsumeAuthCode k t d)
     \<and> GetValidPasswordToken k t d' = GetValidPasswordToken k t d \<and> fst (ConsumePasswordToken k t d') = fst (ConsumePasswordToken k t d)
     \<and> GetPendingDeviceCodeByUserCode k t d' = GetPendingDeviceCodeByUserCode k t d
     \<and> fst (ConsumeWebAuthnCeremony k t d') = fst (ConsumeWebAuthnCeremony k t d)
     \<and> (\<forall>i x. fst (ConsumeJTI k i x t d') = fst (ConsumeJTI k i x t d))
     \<and> (GetDeviceCodeByHash k d' = GetDeviceCodeByHash k d
        \<or> GetDeviceCodeByHash k d' = Inl ErrNotFound \<and> (\<exists>c. GetDeviceCodeByHash k d = Inr c \<and> After t (dc_ExpiresAt c))))"

text \<open>A table from which nothing but expired rows has been deleted.\<close>

definition pruned :: "('r \<Rightarrow> time) \<Rightarrow> time \<Rightarrow> 'r list \<Rightarrow> 'r list \<Rightarrow> bool" where
  "pruned expires now t t' \<longleftrightarrow> (\<exists>p. (\<forall>r. p r \<longrightarrow> Before (expires r) now) \<and> t' = del p t)"

lemma pruned_refl: "pruned e now t t"
  unfolding pruned_def by (rule exI [of _ "\<lambda>_. False"]) (simp add: del_def)

lemma pruned_step: "pruned e now t t' \<Longrightarrow> pruned e now t (del (\<lambda>r. Before (e r) now) t')"
proof -
  assume "pruned e now t t'"
  then obtain p where p: "\<forall>r. p r \<longrightarrow> Before (e r) now" "t' = del p t" by (auto simp: pruned_def)
  have "del (\<lambda>r. Before (e r) now) t' = del (\<lambda>r. p r \<or> Before (e r) now) t" unfolding p(2) by (simp add: del_def conj_commute)
  with p(1) show ?thesis unfolding pruned_def by (intro exI [of _ "\<lambda>r. p r \<or> Before (e r) now"]) simp
qed

lemma pruned_live:
  assumes "pruned e now t t'" and "uniq_on key t" and "\<And>r. Before (e r) now \<Longrightarrow> bad r"
  shows "live key bad k t' = live key bad k t"
  using assms live_del [OF assms(2)] by (auto simp: pruned_def)

lemma pruned_filter:
  assumes "pruned e now t t'" and "\<And>r. q r \<Longrightarrow> \<not> Before (e r) now"
  shows "filter q t' = filter q t"
proof -
  obtain p where p: "\<forall>r. p r \<longrightarrow> Before (e r) now" "t' = del p t" using assms(1) by (auto simp: pruned_def)
  have "\<not> p r" if "q r" for r using p(1) assms(2) [OF that] by blast
  then show ?thesis unfolding p(2) by (induction t) (auto simp: del_def)
qed

text \<open>The database a sweep leaves, complete or not.\<close>

definition swept :: "time \<Rightarrow> db \<Rightarrow> db \<Rightarrow> bool" where
  "swept now d d' \<longleftrightarrow> db_faults d' = db_faults d
     \<and> pruned ses_ExpiresAt now (db_sessions d) (db_sessions d') \<and> pruned ac_ExpiresAt now (db_auth_codes d) (db_auth_codes d')
     \<and> pruned ar_ExpiresAt now (db_auth_requests d) (db_auth_requests d')
     \<and> pruned lc_ExpiresAt now (db_login_challenges d) (db_login_challenges d')
     \<and> pruned pt_ExpiresAt now (db_password_tokens d) (db_password_tokens d')
     \<and> pruned dc_ExpiresAt now (db_device_codes d) (db_device_codes d')
     \<and> pruned wy_ExpiresAt now (db_webauthn_ceremonies d) (db_webauthn_ceremonies d')
     \<and> pruned jti_ExpiresAt now (db_jtis d) (db_jtis d')"

lemma swept_refl: "swept now d d"
  by (simp add: swept_def pruned_refl)

lemma swept_del:
  assumes "swept now d d'"
  shows "swept now d (db_sessions_update (del (\<lambda>r. Before (ses_ExpiresAt r) now)) d')"
    "swept now d (db_auth_codes_update (del (\<lambda>r. Before (ac_ExpiresAt r) now)) d')"
    "swept now d (db_auth_requests_update (del (\<lambda>r. Before (ar_ExpiresAt r) now)) d')"
    "swept now d (db_login_challenges_update (del (\<lambda>r. Before (lc_ExpiresAt r) now)) d')"
    "swept now d (db_password_tokens_update (del (\<lambda>r. Before (pt_ExpiresAt r) now)) d')"
    "swept now d (db_device_codes_update (del (\<lambda>r. Before (dc_ExpiresAt r) now)) d')"
    "swept now d (db_webauthn_ceremonies_update (del (\<lambda>r. Before (wy_ExpiresAt r) now)) d')"
    "swept now d (db_jtis_update (del (\<lambda>r. Before (jti_ExpiresAt r) now)) d')"
  using assms by (simp_all add: swept_def pruned_step)

lemma swept_step:
  assumes "swept now d d'"
  shows "list_all (\<lambda>(n, f). swept now d (snd (f d'))) (sweep_steps now)"
  by (simp add: sweep_steps_def DeleteExpiredSessions_def DeleteExpiredAuthCodes_def DeleteExpiredAuthRequests_def
      deleteExpiredRows_def DeleteExpiredDeviceCodes_def DeleteExpiredWebAuthnCeremonies_def execCount_def Let_def
      swept_del [OF assms] assms)

lemma swept_sessions:
  assumes "swept now d d'" and "now \<le> t"
  shows "ListSessionsForUser k t d' = ListSessionsForUser k t d" and "CountActiveSessions t d' = CountActiveSessions t d"
proof -
  have p: "pruned ses_ExpiresAt now (db_sessions d) (db_sessions d')" and f: "db_faults d' = db_faults d"
    using assms(1) by (simp_all add: swept_def)
  show "ListSessionsForUser k t d' = ListSessionsForUser k t d" "CountActiveSessions t d' = CountActiveSessions t d"
    using pruned_filter [OF p, of "\<lambda>s. ses_UserID s = k \<and> After (ses_ExpiresAt s) t"] pruned_filter [OF p, of "\<lambda>s. After (ses_ExpiresAt s) t"]
      assms(2) f
    by (simp_all add: ListSessionsForUser_def CountActiveSessions_def affected_def query_def fault_def)
qed

lemma swept_keyed:
  assumes "db_ok d" and "swept now d d'" and "now \<le> t"
  shows "GetSession k t d' = GetSession k t d" "GetAuthRequest k t d' = GetAuthRequest k t d"
    "GetLoginChallenge k t d' = GetLoginChallenge k t d" "fst (ConsumeAuthCode k t d') = fst (ConsumeAuthCode k t d)"
    "GetPendingDeviceCodeByUserCode k t d' = GetPendingDeviceCodeByUserCode k t d"
    "fst (ConsumeWebAuthnCeremony k t d') = fst (ConsumeWebAuthnCeremony k t d)"
proof -
  have u: "uniq_on ses_ID (db_sessions d)" "uniq_on ar_ID (db_auth_requests d)" "uniq_on lc_ID (db_login_challenges d)"
    "uniq_on ac_CodeHash (db_auth_codes d)" "uniq_on dc_UserCode (db_device_codes d)" "uniq_on wy_ID (db_webauthn_ceremonies d)"
    using assms(1) by (simp_all add: db_ok_def ok_defs)
  have p: "pruned ses_ExpiresAt now (db_sessions d) (db_sessions d')" "pruned ar_ExpiresAt now (db_auth_requests d) (db_auth_requests d')"
    "pruned lc_ExpiresAt now (db_login_challenges d) (db_login_challenges d')" "pruned ac_ExpiresAt now (db_auth_codes d) (db_auth_codes d')"
    "pruned dc_ExpiresAt now (db_device_codes d) (db_device_codes d')"
    "pruned wy_ExpiresAt now (db_webauthn_ceremonies d) (db_webauthn_ceremonies d')" and f: "fault d' = fault d"
    using assms(2) by (simp_all add: swept_def fault_def [abs_def])
  have c: "fst (ConsumeWebAuthnCeremony k t e) = (if fault e ''ConsumeWebAuthnCeremony'' then Inl ErrFault
      else live wy_ID (\<lambda>c. After t (wy_ExpiresAt c)) k (db_webauthn_ceremonies e))" for e
    by (simp add: ConsumeWebAuthnCeremony_def live_def Let_def split: sum.split)
  have a: "fst (ConsumeAuthCode k t e) = (if fault e ''ConsumeAuthCode'' then Inl ErrFault
      else case ConsumeAuthCode_select k t e of Inl x \<Rightarrow> Inl x
        | Inr x \<Rightarrow> if fault e ''ConsumeAuthCode/commit'' then Inl ErrFault else Inr (x\<lparr>ac_Used := True\<rparr>))" for e
    by (simp add: ConsumeAuthCode_def split: sum.split)
  note l = pruned_live [OF p(1) u(1), of "\<lambda>s. After t (ses_ExpiresAt s)"] pruned_live [OF p(2) u(2), of "\<lambda>s. After t (ar_ExpiresAt s)"]
    pruned_live [OF p(3) u(3), of "\<lambda>s. After t (lc_ExpiresAt s)"] pruned_live [OF p(4) u(4), of "\<lambda>c. ac_Used c \<or> After t (ac_ExpiresAt c)"]
    pruned_live [OF p(5) u(5), of "\<lambda>c. dc_Status c \<noteq> DeviceCodePending \<or> After t (dc_ExpiresAt c)"]
    pruned_live [OF p(6) u(6), of "\<lambda>c. After t (wy_ExpiresAt c)"]
  show "GetSession k t d' = GetSession k t d" "GetAuthRequest k t d' = GetAuthRequest k t d"
    "GetLoginChallenge k t d' = GetLoginChallenge k t d" "fst (ConsumeAuthCode k t d') = fst (ConsumeAuthCode k t d)"
    "GetPendingDeviceCodeByUserCode k t d' = GetPendingDeviceCodeByUserCode k t d"
    "fst (ConsumeWebAuthnCeremony k t d') = fst (ConsumeWebAuthnCeremony k t d)"
    using l assms(3) by (simp_all add: getters_live query_def f c a split: sum.split)
qed

lemma sel1_filter: "sel1 p t = (case filter p t of [] \<Rightarrow> Inl ErrNotFound | r # _ \<Rightarrow> Inr r)"
  by (induction t) (auto simp: sel1_def)

lemma consumed_token:
  assumes "uniq_on pt_TokenHash (db_password_tokens d)"
  shows "fst (ConsumePasswordToken k t d) = (if fault d ''ConsumePasswordToken'' then Inl ErrFault
    else case filter (pt_usable k t) (db_password_tokens d) of [] \<Rightarrow> Inr None
      | r # _ \<Rightarrow> if fault d ''ConsumePasswordToken/row'' then Inl ErrFault else Inr (Some (r\<lparr>pt_Used := True\<rparr>)))"
proof (cases "filter (pt_usable k t) (db_password_tokens d)")
  case Nil
  then show ?thesis by (simp add: ConsumePasswordToken_def execCount_def affected_def)
next
  case (Cons r rs)
  let ?t = "upd (pt_usable k t) (\<lambda>t. t\<lparr>pt_Used := True\<rparr>) (db_password_tokens d)"
  have r: "r \<in> set (db_password_tokens d)" "pt_usable k t r" using Cons by (auto dest: filter_eq_ConsD)
  then have "r\<lparr>pt_Used := True\<rparr> \<in> set ?t" by (auto simp: set_upd)
  moreover have "uniq_on pt_TokenHash ?t" using assms by (simp add: uniq_on_upd)
  ultimately have "sel1 (\<lambda>x. pt_TokenHash x = k) ?t = Inr (r\<lparr>pt_Used := True\<rparr>)"
    using sel1_key [of pt_TokenHash ?t "r\<lparr>pt_Used := True\<rparr>"] r(2) by (simp add: pt_usable_def)
  then show ?thesis using Cons by (simp add: ConsumePasswordToken_def execCount_def affected_def query_def fault_def)
qed

lemma swept_password_tokens:
  assumes "db_ok d" and "swept now d d'" and "now \<le> t"
  shows "GetValidPasswordToken k t d' = GetValidPasswordToken k t d" "fst (ConsumePasswordToken k t d') = fst (ConsumePasswordToken k t d)"
proof -
  have p: "pruned pt_ExpiresAt now (db_password_tokens d) (db_password_tokens d')" and f: "fault d' = fault d"
    using assms(2) by (simp_all add: swept_def fault_def [abs_def])
  have u: "uniq_on pt_TokenHash (db_password_tokens d)" using assms(1) by (simp add: db_ok_def ok_defs)
  have s: "filter (pt_usable k t) (db_password_tokens d') = filter (pt_usable k t) (db_password_tokens d)"
    using pruned_filter [OF p, of "pt_usable k t"] assms(3) by (auto simp: pt_usable_def)
  then show "GetValidPasswordToken k t d' = GetValidPasswordToken k t d"
    by (simp add: GetValidPasswordToken_def query_def f sel1_filter)
  have "uniq_on pt_TokenHash (db_password_tokens d')" using p u by (auto simp: pruned_def uniq_on_del)
  then show "fst (ConsumePasswordToken k t d') = fst (ConsumePasswordToken k t d)"
    using s u by (simp add: consumed_token f split: list.split)
qed

lemma swept_jtis:
  assumes "swept now d d'" and "now \<le> t"
  shows "fst (ConsumeJTI k i x t d') = fst (ConsumeJTI k i x t d)"
proof -
  have p: "pruned jti_ExpiresAt now (db_jtis d) (db_jtis d')" and f: "fault d' = fault d"
    using assms(1) by (simp_all add: swept_def fault_def [abs_def])
  have "del (\<lambda>j. Before (jti_ExpiresAt j) t) (db_jtis d') = del (\<lambda>j. Before (jti_ExpiresAt j) t) (db_jtis d)"
    using pruned_filter [OF p, of "\<lambda>j. \<not> Before (jti_ExpiresAt j) t"] assms(2) by (simp add: del_def)
  then show ?thesis using assms(1) by (simp add: ConsumeJTI_def exec_def fault_def swept_def)
qed

lemma sel1_pruned:
  assumes "uniq_on key t"
  shows "sel1 (\<lambda>r. key r = k) (del p t) = sel1 (\<lambda>r. key r = k) t
    \<or> sel1 (\<lambda>r. key r = k) (del p t) = Inl ErrNotFound \<and> (\<exists>r. sel1 (\<lambda>r. key r = k) t = Inr r \<and> p r)"
proof (cases "\<exists>r. sel1 (\<lambda>r. key r = k) t = Inr r \<and> p r")
  case True
  then obtain r where r: "sel1 (\<lambda>r. key r = k) t = Inr r" "p r" by blast
  then have "live key p k (del p t) = Inl ErrNotFound" using live_del [OF assms, of p p k] by (simp add: live_def)
  then have "sel1 (\<lambda>r. key r = k) (del p t) = Inl ErrNotFound"
    by (auto simp: live_def set_del sel1_Inl dest!: sel1_Inr split: sum.splits if_splits)
  with r show ?thesis by blast
next
  case False
  have "sel1 (\<lambda>r. key r = k) (del p t) = sel1 (\<lambda>r. key r = k) t"
  proof (rule sel1_del_irrelevant)
    fix r assume "r \<in> set t" "key r = k"
    then have "sel1 (\<lambda>r. key r = k) t = Inr r" using sel1_key [OF assms, of r] by auto
    with False show "\<not> p r" by blast
  qed
  then show ?thesis ..
qed

lemma swept_by_hash:
  assumes "db_ok d" and "swept now d d'" and "now \<le> t"
  shows "GetDeviceCodeByHash k d' = GetDeviceCodeByHash k d
    \<or> GetDeviceCodeByHash k d' = Inl ErrNotFound \<and> (\<exists>c. GetDeviceCodeByHash k d = Inr c \<and> After t (dc_ExpiresAt c))"
proof -
  obtain p where p: "\<forall>r. p r \<longrightarrow> Before (dc_ExpiresAt r) now" "db_device_codes d' = del p (db_device_codes d)" and f: "fault d' = fault d"
    using assms(2) by (auto simp: swept_def fault_def [abs_def] pruned_def)
  have u: "uniq_on dc_DeviceCodeHash (db_device_codes d)" using assms(1) by (simp add: db_ok_def ok_defs)
  show ?thesis
    using sel1_pruned [OF u, of k p] p(1) assms(3)
    by (cases "fault d ''GetDeviceCodeByHash''") (force simp: GetDeviceCodeByHash_def query_def f p(2))+
qed


subsection \<open>Instances\<close>

text \<open>Each property at a concrete database, where its hypotheses hold.\<close>

theorem auth_code_consumed_once_witness:
  "auth_code.redemptions ''h1''
     [Grant (OpConsumeAuthCode ''h1'' 30), Grant (OpConsumeAuthCode ''h1'' 31)] sample_db = 1"
proof (rule antisym)
  show "auth_code.redemptions ''h1''
     [Grant (OpConsumeAuthCode ''h1'' 30), Grant (OpConsumeAuthCode ''h1'' 31)] sample_db \<le> 1"
    by (rule auth_code_consumed_once [OF sample_db_ok]) simp
qed (simp add: ConsumeAuthCode_def ConsumeAuthCode_select_def fault_def sample_defs)

theorem refresh_token_rotated_once_witness:
  "refresh.redemptions ''r1''
     [Grant (OpRotateRefreshToken ''r1'' None), Grant (OpRotateRefreshToken ''r1'' None)] sample_db = 1"
proof (rule antisym)
  show "refresh.redemptions ''r1''
     [Grant (OpRotateRefreshToken ''r1'' None), Grant (OpRotateRefreshToken ''r1'' None)] sample_db \<le> 1"
    by (rule refresh_token_rotated_once [OF sample_db_ok]) simp
qed (simp add: RotateRefreshToken_def rotate_rows_def active_token_def affected_def fault_def grants_ok_def sample_defs)

theorem device_code_consumed_once_witness:
  "device_code.redemptions ''dc1'' [Enrolment (OpApproveDeviceCode ''dc1'' ''u1'' ''pwd'' 10),
     Enrolment (OpConsumeDeviceCode ''dc1''), Enrolment (OpConsumeDeviceCode ''dc1'')] sample_db = 1"
proof (rule antisym)
  show "device_code.redemptions ''dc1'' [Enrolment (OpApproveDeviceCode ''dc1'' ''u1'' ''pwd'' 10),
     Enrolment (OpConsumeDeviceCode ''dc1''), Enrolment (OpConsumeDeviceCode ''dc1'')] sample_db \<le> 1"
    by (rule device_code_consumed_once [OF sample_db_ok]) simp
qed (simp add: ApproveDeviceCode_def ConsumeDeviceCode_def raw_stmts affected_def fault_def
    device_code_status_defs sample_defs)

theorem password_token_consumed_once_witness:
  "password_token.redemptions ''th1''
     [Account (OpConsumePasswordToken ''th1'' 30), Account (OpConsumePasswordToken ''th1'' 30)] sample_db = 1"
proof (rule antisym)
  show "password_token.redemptions ''th1''
     [Account (OpConsumePasswordToken ''th1'' 30), Account (OpConsumePasswordToken ''th1'' 30)] sample_db \<le> 1"
    by (rule password_token_consumed_once [OF sample_db_ok]) simp
qed (simp add: ConsumePasswordToken_def raw_stmts affected_def fault_def pt_usable_def sample_defs)

theorem recovery_code_consumed_once_witness:
  "recovery_code.redemptions (''u1'', ''ch1'')
     [Account (OpConsumeRecoveryCode ''u1'' ''ch1''), Account (OpConsumeRecoveryCode ''u1'' ''ch1'')] sample_db = 1"
proof (rule antisym)
  show "recovery_code.redemptions (''u1'', ''ch1'')
     [Account (OpConsumeRecoveryCode ''u1'' ''ch1''), Account (OpConsumeRecoveryCode ''u1'' ''ch1'')] sample_db \<le> 1"
    by (rule recovery_code_consumed_once [OF sample_db_ok]) simp
qed (simp add: ConsumeRecoveryCode_def raw_stmts affected_def fault_def rc_usable_def sample_defs)

theorem ceremony_consumed_once_witness:
  "ceremony.redemptions ''y1''
     [Account (OpConsumeWebAuthnCeremony ''y1'' 30), Account (OpConsumeWebAuthnCeremony ''y1'' 30)] sample_db = 1"
proof (rule antisym)
  show "ceremony.redemptions ''y1''
     [Account (OpConsumeWebAuthnCeremony ''y1'' 30), Account (OpConsumeWebAuthnCeremony ''y1'' 30)] sample_db \<le> 1"
    by (rule ceremony_consumed_once [OF sample_db_ok]) simp
qed (simp add: ConsumeWebAuthnCeremony_def raw_stmts fault_def sample_defs)

theorem auth_code_schedules_witness:
  "run_schedule ''h1'' 30 [Read True, Read False, Mark True, Mark False] (\<lambda>_. Inl ErrNotFound) sample_db False = Inr alice_code"
  using auth_code_schedules [of "''h1''" 30 sample_db alice_code]
  by (simp add: ConsumeAuthCode_select_def sample_defs)

theorem jti_accepted_once_witness:
  "fst (ConsumeJTI ''j'' '''' 99 50 (fold store_step [Enrolment (OpDeleteExpiredRows ''device_assertion_jtis'' 40)]
     (snd (ConsumeJTI ''j'' '''' 60 20 sample_db)))) \<noteq> Inr True"
  by (rule jti_accepted_once) (simp_all add: ConsumeJTI_def raw_stmts affected_def fault_def sample_defs)

theorem device_code_life_witness:
  "sample_device_code\<lparr>dc_Status := DeviceCodeDenied\<rparr> = sample_device_code
     \<or> dc_step sample_device_code (sample_device_code\<lparr>dc_Status := DeviceCodeDenied\<rparr>)"
  using device_code_life [OF sample_db_ok, of sample_device_code "sample_device_code\<lparr>dc_Status := DeviceCodeDenied\<rparr>"
      "Enrolment (OpDenyDeviceCode ''dc1'')"]
  by (simp add: DenyDeviceCode_def raw_stmts affected_def fault_def device_code_status_defs sample_defs)

theorem device_code_path_witness:
  "\<exists>b. dc_step\<^sup>*\<^sup>* sample_device_code b \<and> dc_Status b = DeviceCodeApproved \<and> dc_UserID b = ''u1''"
proof -
  let ?b = "sample_device_code\<lparr>dc_Status := DeviceCodeApproved, dc_UserID := ''u1'', dc_AMR := ''pwd'', dc_AuthTime := 10\<rparr>"
  let ?c = "?b\<lparr>dc_Status := DeviceCodeConsumed\<rparr>"
  have "dc_step sample_device_code ?b"
    by (rule dc_step.approve) (simp add: sample_defs device_code_status_defs)
  moreover have "dc_step ?b ?c" by (rule dc_step.consume) simp
  ultimately have "dc_step\<^sup>*\<^sup>* sample_device_code ?c"
    by (meson converse_rtranclp_into_rtranclp r_into_rtranclp)
  from device_code_path [OF this] show ?thesis
    by (auto simp: sample_defs device_code_status_defs)
qed

theorem RevokeDevice_effect_witness:
  "fst (RevokeDevice ''d1'' 30 sample_db) = Inr ()
     \<and> list_all (\<lambda>t. rt_DeviceID t = ''d1'' \<longrightarrow> rt_Revoked t) (db_refresh_tokens (snd (RevokeDevice ''d1'' 30 sample_db)))"
  using RevokeDevice_effect [of "''d1''" 30 sample_db "fst (RevokeDevice ''d1'' 30 sample_db)" "snd (RevokeDevice ''d1'' 30 sample_db)"]
  by (simp add: fault_def device_status_defs sample_defs list_all_iff)

theorem device_life_witness:
  "dev_rank alice_device \<le> dev_rank (alice_device\<lparr>dev_Status := ''revoked'', dev_RevokedAt := 30\<rparr>)"
  using device_life [OF sample_db_ok, of alice_device "alice_device\<lparr>dev_Status := ''revoked'', dev_RevokedAt := 30\<rparr>"
      "Enrolment (OpRevokeDevice ''d1'' 30)"]
  by (simp add: RevokeDevice_def raw_stmts affected_def fault_def device_status_defs sample_defs)

theorem RotateDeviceKey_effect_witness:
  "\<exists>v \<in> set (db_devices sample_db). dev_ID v = ''d1'' \<and> IsActive v"
proof -
  have "fst (RotateDeviceKey ''d1'' ''{}'' ''EdDSA'' ''fp2'' '''' '''' sample_db) = Inr ()"
    by (simp add: RotateDeviceKey_def raw_stmts requireRow_def affected_def fault_def device_status_defs devices_ok_def
        fk_user_def rotate_key_def sample_defs)
  then have "RotateDeviceKey ''d1'' ''{}'' ''EdDSA'' ''fp2'' '''' '''' sample_db
      = (Inr (), snd (RotateDeviceKey ''d1'' ''{}'' ''EdDSA'' ''fp2'' '''' '''' sample_db))"
    by (metis prod.collapse)
  from RotateDeviceKey_effect [OF sample_db_ok this] show ?thesis by blast
qed

theorem UpsertExternalUser_spares_local_witness:
  "filter IsLocal (db_users (snd (UpsertExternalUser ''ldap'' ''cn=bob'' ''bob'' ''b@example.org'' True ''u9'' 30 sample_db)))
     = filter IsLocal (db_users sample_db)"
  by (rule UpsertExternalUser_spares_local [THEN conjunct1, OF sample_db_ok _ _ prod.collapse [symmetric]]) simp_all

theorem DeleteUser_effect_witness:
  "\<not> fk_user (snd (DeleteUser ''u1'' sample_db)) ''u1''"
proof -
  have "fst (DeleteUser ''u1'' sample_db) = Inr ()"
    by (simp add: DeleteUser_def raw_stmts requireRow_def affected_def fault_def sample_defs)
  then have "DeleteUser ''u1'' sample_db = (Inr (), snd (DeleteUser ''u1'' sample_db))"
    by (metis prod.collapse)
  from DeleteUser_effect [OF this] show ?thesis by blast
qed

theorem SetUserDisabled_effect_witness:
  "list_all (\<lambda>p. pat_UserID p = ''u1'' \<longrightarrow> \<not> pat_Active p 31) (db_pats (snd (SetUserDisabled ''u1'' True 30 sample_db)))"
proof -
  have "fst (SetUserDisabled ''u1'' True 30 sample_db) = Inr ()"
    by (simp add: SetUserDisabled_def raw_stmts requireRow_def affected_def fault_def sample_defs)
  then have "SetUserDisabled ''u1'' True 30 sample_db = (Inr (), snd (SetUserDisabled ''u1'' True 30 sample_db))"
    by (metis prod.collapse)
  from SetUserDisabled_effect [OF this] show ?thesis by (simp add: list_all_iff)
qed


end
