(* ===== verification/TokenOps.thy ===== *)
theory TokenOps
  imports StoreFacts
begin

text \<open>
  The statements the token and revocation endpoints run, and what they leave alone: accounts, sessions,
  clients, keys, settings, and the identity of every device, authorization code and device code.
\<close>

fun token_op :: "store_op \<Rightarrow> bool" where
  "token_op (Account x) = False"
| "token_op (Grant x) = (case x of OpAppendAuditEvent _ \<Rightarrow> True | OpConsumeAuthCode _ _ \<Rightarrow> True
     | OpCreateRefreshToken _ \<Rightarrow> True | OpRotateRefreshToken _ _ \<Rightarrow> True | OpRevokeRefreshToken _ \<Rightarrow> True
     | OpRevokeRefreshTokensForUserClient _ _ \<Rightarrow> True | _ \<Rightarrow> False)"
| "token_op (Enrolment x) = (case x of OpConsumeJTI _ _ _ _ \<Rightarrow> True | OpMarkDeviceCodePolled _ _ \<Rightarrow> True
     | OpConsumeDeviceCode _ \<Rightarrow> True | OpTouchDevice _ _ \<Rightarrow> True | _ \<Rightarrow> False)"

definition device_identity :: "Device \<Rightarrow> Device" where
  "device_identity v = v\<lparr>dev_LastSeenAt := 0\<rparr>"

lemma map_upd: "(\<And>r. g (f r) = g r) \<Longrightarrow> map g (upd p f t) = map g t"
  by (induction t) auto

lemma token_op_clients: assumes "token_op (Grant y)" shows "db_clients (grant_step y d) = db_clients d"
  using assms by (cases y; simp add: stmt_defs raw_stmts ConsumeAuthCode_mark_def split: sum.split)

lemma token_op_keys: assumes "token_op (Grant y)" shows "db_signing_keys (grant_step y d) = db_signing_keys d"
  using assms by (cases y; simp add: stmt_defs raw_stmts ConsumeAuthCode_mark_def split: sum.split)

lemma token_op_settings: assumes "token_op (Grant y)" shows "db_settings (grant_step y d) = db_settings d"
  using assms by (cases y; simp add: stmt_defs raw_stmts ConsumeAuthCode_mark_def split: sum.split)

lemma token_op_codes: assumes "token_op (Grant y)" shows "map ac_CodeHash (db_auth_codes (grant_step y d)) = map ac_CodeHash (db_auth_codes d)"
  using assms by (cases y; simp add: stmt_defs raw_stmts ConsumeAuthCode_mark_def map_upd split: sum.split)

lemma token_op_pats: assumes "token_op (Enrolment y)" shows "db_pats (device_step y d) = db_pats d"
  using assms by (cases y; simp add: stmt_defs raw_stmts split: sum.split)

lemma token_op_settings': assumes "token_op (Enrolment y)" shows "db_settings (device_step y d) = db_settings d"
  using assms by (cases y; simp add: stmt_defs raw_stmts split: sum.split)

lemma token_op_devices: assumes "token_op (Enrolment y)" shows "map device_identity (db_devices (device_step y d)) = map device_identity (db_devices d)"
  using assms by (cases y; simp add: stmt_defs raw_stmts map_upd device_identity_def split: sum.split)

lemma token_op_device_codes: assumes "token_op (Enrolment y)" shows "map dc_ID (db_device_codes (device_step y d)) = map dc_ID (db_device_codes d)"
  using assms by (cases y; simp add: stmt_defs raw_stmts map_upd split: sum.split)

lemmas token_op_grant = token_op_clients token_op_keys token_op_settings token_op_codes
lemmas token_op_device = token_op_pats token_op_settings' token_op_devices token_op_device_codes

lemma token_op_step:
  assumes "token_op x"
  shows "db_users (store_step x d) = db_users d \<and> db_sessions (store_step x d) = db_sessions d
    \<and> db_clients (store_step x d) = db_clients d \<and> db_signing_keys (store_step x d) = db_signing_keys d
    \<and> db_pats (store_step x d) = db_pats d \<and> db_settings (store_step x d) = db_settings d
    \<and> map device_identity (db_devices (store_step x d)) = map device_identity (db_devices d)
    \<and> map ac_CodeHash (db_auth_codes (store_step x d)) = map ac_CodeHash (db_auth_codes d)
    \<and> map dc_ID (db_device_codes (store_step x d)) = map dc_ID (db_device_codes d)"
proof (cases x)
  case (Grant y)
  then show ?thesis using token_op_grant [of y d] assms by (simp add: frame_simps del: token_op.simps)
next
  case (Enrolment y)
  then show ?thesis using token_op_device [of y d] assms by (simp add: frame_simps del: token_op.simps)
qed (use assms in simp)

end
