(* ===== verification/TokenFacts.thy ===== *)
theory TokenFacts
  imports TokenEndpoint TokenOps
begin

text \<open>
  What the token endpoint guarantees: what must hold of a request for tokens to come out of each grant,
  what introspection reveals, and what the endpoint does to the database.
\<close>

subsection \<open>Footprint\<close>

lemma performs_grants [performs_rules]:
  "performs token_op (grantAuthorizationCode srv r pr)"
  "performs token_op (rotate_and_issue srv r client user rt tc)"
  "performs token_op (grantClientCredentials srv r)"
  "performs token_op (redeem_device_code srv r client dc tc)"
  "performs token_op (exchange_for srv r dev rt user aud)"
  "performs token_op (bearer_failed r client detail)"
  "performs token_op (bearer_target_failed r client detail code desc)"
  "performs token_op (issue_device_token srv r client dev owner jkt aud)"
  "performs token_op (reuse_detected rt)"
  unfolding grantAuthorizationCode_def rotate_and_issue_def grantClientCredentials_def redeem_device_code_def
    exchange_for_def bearer_failed_def bearer_target_failed_def issue_device_token_def reuse_detected_def
  by ((intro performs_rules; simp)+)

lemma performs_more_grants [performs_rules]:
  "performs token_op (grantRefreshToken srv r pr)"
  "performs token_op (grantDeviceCode srv r pr)"
  "performs token_op (grantTokenExchange srv r pr)"
  "performs token_op (grantJWTBearer srv r pr)"
  unfolding grantRefreshToken_def grantDeviceCode_def grantTokenExchange_def grantJWTBearer_def
  by ((intro performs_rules; simp)+)

lemma performs_grant_for [performs_rules]: "performs token_op (grant_for srv r pr)"
  unfolding grant_for_def by (intro performs_rules)

lemma performs_handleToken [performs_rules]: "performs token_op (handleToken srv r)"
  unfolding handleToken_def by (intro performs_rules; simp)

lemma performs_handleRevoke [performs_rules]: "performs token_op (handleRevoke r)"
  unfolding handleRevoke_def by (intro performs_rules; simp)

text \<open>Recording tokens changes only the counters.\<close>

definition token_counts :: "tokenResponse \<Rightarrow> counters \<Rightarrow> counters" where
  "token_counts resp m = m\<lparr>mt_tokens := fold (\<lambda>k t. bump t k)
     ((if tr_AccessToken resp \<noteq> [] then [''access''] else []) @ (if tr_IDToken resp \<noteq> [] then [''id''] else [])
      @ (if tr_RefreshToken resp \<noteq> [] then [''refresh''] else [])) (mt_tokens m)\<rparr>"

lemma run_recordTokenMetrics [simp]:
  "run_state (recordTokenMetrics resp) st = ((), st\<lparr>st_metrics := token_counts resp (st_metrics st)\<rparr>)"
  by (simp add: recordTokenMetrics_def record_defs token_counts_def)

lemma GetUserByID_Inr: "GetUserByID i d = Inr u \<Longrightarrow> u \<in> set (db_users d) \<and> usr_ID u = i"
  by (auto simp: GetUserByID_def query_Inr dest!: sel1_Inr)

lemma GetRefreshTokenByHash_Inr:
  "GetRefreshTokenByHash h d = Inr t \<Longrightarrow> t \<in> set (db_refresh_tokens d) \<and> rt_TokenHash t = h"
  by (auto simp: GetRefreshTokenByHash_def query_Inr dest!: sel1_Inr)

lemma GetDeviceCodeByHash_Inr:
  "GetDeviceCodeByHash h d = Inr c \<Longrightarrow> c \<in> set (db_device_codes d) \<and> dc_DeviceCodeHash c = h"
  by (auto simp: GetDeviceCodeByHash_def query_Inr dest!: sel1_Inr)

text \<open>Tables the statements of the endpoint leave alone.\<close>

lemma endpoint_frames [simp]:
  "db_auth_codes (snd (AppendAuditEvent e d)) = db_auth_codes d"
  "db_refresh_tokens (snd (AppendAuditEvent e d)) = db_refresh_tokens d"
  "db_device_codes (snd (AppendAuditEvent e d)) = db_device_codes d"
  "db_auth_codes (snd (CreateRefreshToken rt d)) = db_auth_codes d"
  "db_device_codes (snd (CreateRefreshToken rt d)) = db_device_codes d"
  "db_users (snd (ConsumeAuthCode h n d)) = db_users d"
  "db_users (snd (MarkDeviceCodePolled i n d)) = db_users d"
  "db_devices (snd (MarkDeviceCodePolled i n d)) = db_devices d"
  by (auto simp: AppendAuditEvent_def CreateRefreshToken_def ConsumeAuthCode_def ConsumeAuthCode_mark_def
      MarkDeviceCodePolled_def stmt_snd split: sum.split)

text \<open>The tokens of a response: an access token over the claims of the grant, and its scope.\<close>

definition access_token_for :: "server \<Rightarrow> SettingsView \<Rightarrow> time \<Rightarrow> Client \<Rightarrow> User \<Rightarrow> string \<Rightarrow> tokenContext \<Rightarrow> string option" where
  "access_token_for srv cur now client user scope tc =
     IssueAccessTokenWithClaims (srv_lib srv) (srv_keys srv) (issuerConfig cur) now (usr_ID user) (cl_ClientID client) scope
       (withGroups (extra tc) user)"

lemma buildAccessAndID_Some:
  "buildAccessAndID srv cur now client user scope nonce authTime tc = Some resp \<Longrightarrow>
     access_token_for srv cur now client user scope tc = Some (tr_AccessToken resp) \<and> tr_Scope resp = scope
     \<and> tr_RefreshToken resp = [] \<and> tr_TokenType resp = tokenType tc \<and> (tr_IDToken resp \<noteq> [] \<longrightarrow> HasScope scope ScopeOpenID)"
  by (auto simp: buildAccessAndID_def access_token_for_def Let_def split: option.splits if_splits)

subsection \<open>authorization\_code\<close>

text \<open>What a request must show for tokens to be issued against a stored code.\<close>

definition code_redeemable :: "request \<Rightarrow> db \<Rightarrow> AuthorizationCode \<Rightarrow> Client \<Rightarrow> User \<Rightarrow> bool" where
  "code_redeemable r d code client user \<longleftrightarrow>
     code \<in> set (db_auth_codes d) \<and> ac_CodeHash code = HashToken (PostFormValue r ''code'') \<and> \<not> ac_Used code
   \<and> rq_now r \<le> ac_ExpiresAt code \<and> authentic r d client \<and> ac_ClientID code = cl_ClientID client
   \<and> ac_RedirectURI code = PostFormValue r ''redirect_uri''
   \<and> (ac_CodeChallenge code \<noteq> [] \<longrightarrow>
        VerifyPKCE (PostFormValue r ''code_verifier'') (ac_CodeChallenge code) (ac_CodeChallengeMethod code))
   \<and> (ac_CodeChallenge code = [] \<longrightarrow> \<not> IsPublic client)
   \<and> user \<in> set (db_users d) \<and> usr_ID user = ac_UserID code \<and> \<not> usr_Disabled user"

lemma grantAuthorizationCode_Tokens:
  assumes "run_state (grantAuthorizationCode srv r pr) st = (Tokens resp, st')"
  shows "\<exists>code client user. code_redeemable r (st_db st) code client user \<and> tr_Scope resp = ac_Scope code
    \<and> access_token_for srv (st_settings st) (rq_now r) client user (ac_Scope code)
        \<lparr>tc_amr = ac_AMR code, tc_device = None, tc_jkt = dpopJKT pr\<rparr> = Some (tr_AccessToken resp)
    \<and> is_ok (fst (ConsumeAuthCode (HashToken (PostFormValue r ''code'')) (rq_now r) (st_db st)))
    \<and> db_auth_codes (st_db st') = db_auth_codes (snd (ConsumeAuthCode (HashToken (PostFormValue r ''code'')) (rq_now r) (st_db st)))"
proof -
  let ?h = "HashToken (PostFormValue r ''code'')"
  let ?d1 = "snd (ConsumeAuthCode ?h (rq_now r) (st_db st))"
  have "\<exists>client code user. client_of r st = Some client \<and> fst (ConsumeAuthCode ?h (rq_now r) (st_db st)) = Inr code
    \<and> ac_ClientID code = cl_ClientID client \<and> ac_RedirectURI code = PostFormValue r ''redirect_uri''
    \<and> (ac_CodeChallenge code \<noteq> [] \<longrightarrow>
        VerifyPKCE (PostFormValue r ''code_verifier'') (ac_CodeChallenge code) (ac_CodeChallengeMethod code))
    \<and> (ac_CodeChallenge code = [] \<longrightarrow> \<not> IsPublic client)
    \<and> GetUserByID (ac_UserID code) ?d1 = Inr user \<and> \<not> usr_Disabled user
    \<and> tr_Scope resp = ac_Scope code
    \<and> access_token_for srv (st_settings st) (rq_now r) client user (ac_Scope code)
        \<lparr>tc_amr = ac_AMR code, tc_device = None, tc_jkt = dpopJKT pr\<rparr> = Some (tr_AccessToken resp)
    \<and> db_auth_codes (st_db st') = db_auth_codes ?d1"
    using assms
    by (auto simp: grantAuthorizationCode_def Let_def oauthClientAuthError_def oauthError_def
        split: option.splits sum.splits if_splits prod.splits dest!: buildAccessAndID_Some)
  then obtain client code user where f: "client_of r st = Some client"
    "fst (ConsumeAuthCode ?h (rq_now r) (st_db st)) = Inr code"
    "ac_ClientID code = cl_ClientID client" "ac_RedirectURI code = PostFormValue r ''redirect_uri''"
    "ac_CodeChallenge code \<noteq> [] \<longrightarrow>
        VerifyPKCE (PostFormValue r ''code_verifier'') (ac_CodeChallenge code) (ac_CodeChallengeMethod code)"
    "ac_CodeChallenge code = [] \<longrightarrow> \<not> IsPublic client"
    "GetUserByID (ac_UserID code) ?d1 = Inr user" "\<not> usr_Disabled user"
    "tr_Scope resp = ac_Scope code"
    "access_token_for srv (st_settings st) (rq_now r) client user (ac_Scope code)
        \<lparr>tc_amr = ac_AMR code, tc_device = None, tc_jkt = dpopJKT pr\<rparr> = Some (tr_AccessToken resp)"
    "db_auth_codes (st_db st') = db_auth_codes ?d1" by blast
  from ConsumeAuthCode_result [of ?h "rq_now r" "st_db st"] f(2) obtain c where
    c: "c \<in> set (db_auth_codes (st_db st))" "ac_CodeHash c = ?h" "\<not> ac_Used c" "rq_now r \<le> ac_ExpiresAt c" "code = c\<lparr>ac_Used := True\<rparr>"
    by auto
  have "code_redeemable r (st_db st) c client user"
    using c f(3-8) client_of_Some [OF f(1)] GetUserByID_Inr [OF f(7)] by (auto simp: code_redeemable_def)
  then show ?thesis using f c(5) by (auto simp: is_ok_iff)
qed

subsection \<open>refresh\_token\<close>

definition refresh_usable :: "request \<Rightarrow> Proof option \<Rightarrow> db \<Rightarrow> RefreshToken \<Rightarrow> Client \<Rightarrow> User \<Rightarrow> bool" where
  "refresh_usable r pr d rt client user \<longleftrightarrow>
     rt \<in> set (db_refresh_tokens d) \<and> rt_TokenHash rt = HashToken (PostFormValue r ''refresh_token'') \<and> \<not> rt_Revoked rt
   \<and> rq_now r \<le> rt_ExpiresAt rt \<and> authentic r d client \<and> rt_ClientID rt = cl_ClientID client
   \<and> (rt_DPoPJKT rt \<noteq> [] \<longrightarrow> dpopJKT pr = rt_DPoPJKT rt)
   \<and> user \<in> set (db_users d) \<and> usr_ID user = rt_UserID rt \<and> \<not> usr_Disabled user
   \<and> (rt_DeviceID rt \<noteq> [] \<longrightarrow> (\<exists>dev \<in> set (db_devices d). dev_ID dev = rt_DeviceID rt \<and> IsActive dev))"

text \<open>The replacement inherits client, user, authentication and device of the token it replaces.\<close>

definition successor :: "RefreshToken \<Rightarrow> string \<Rightarrow> RefreshToken \<Rightarrow> bool" where
  "successor rt scope t \<longleftrightarrow> rt_ClientID t = rt_ClientID rt \<and> rt_UserID t = rt_UserID rt \<and> rt_Scope t = scope
     \<and> rt_AuthTime t = rt_AuthTime rt \<and> rt_AMR t = rt_AMR rt \<and> rt_DeviceID t = rt_DeviceID rt
     \<and> rt_RotatedFrom t = rt_ID rt \<and> \<not> rt_Revoked t \<and> (rt_DPoPJKT rt \<noteq> [] \<longrightarrow> rt_DPoPJKT t = rt_DPoPJKT rt)"

lemma reuse_not_Tokens: "run_state (reuse_detected rt) st \<noteq> (Tokens resp, st')"
  by (simp add: reuse_detected_def oauthError_def)

lemma rotate_and_issue_Tokens:
  assumes "run_state (rotate_and_issue srv r client user rt tc) st = (Tokens resp, st')"
    and "rt_ClientID rt = cl_ClientID client" "rt_UserID rt = usr_ID user" "tc_amr tc = rt_AMR rt"
    and "deviceID tc = rt_DeviceID rt" "rt_DPoPJKT rt \<noteq> [] \<longrightarrow> tc_jkt tc = rt_DPoPJKT rt"
  shows "set (SplitScope (tr_Scope resp)) \<subseteq> set (SplitScope (rt_Scope rt))
    \<and> access_token_for srv (st_settings st) (rq_now r) client user (tr_Scope resp) tc = Some (tr_AccessToken resp)
    \<and> (\<exists>new. fst (RotateRefreshToken (rt_ID rt) new (st_db st)) = Inr True
        \<and> db_refresh_tokens (st_db st') = rotate_rows (rt_ID rt) new (db_refresh_tokens (st_db st))
        \<and> (tr_RefreshToken resp \<noteq> [] \<longrightarrow> new \<noteq> None)
        \<and> (\<forall>t. new = Some t \<longrightarrow> successor rt (tr_Scope resp) t))"
proof -
  let ?scope = "if PostFormValue r ''scope'' \<noteq> [] then PostFormValue r ''scope'' else rt_Scope rt"
  let ?new = "if HasScope ?scope ScopeOfflineAccess
    then Some (snd (newRefreshToken (st_settings st) r client user ?scope (rt_AuthTime rt) (rt_ID rt) tc)) else None"
  let ?rot = "RotateRefreshToken (rt_ID rt) ?new (st_db st)"
  have "set (SplitScope ?scope) \<subseteq> set (SplitScope (rt_Scope rt)) \<and> fst ?rot = Inr True \<and> tr_Scope resp = ?scope
    \<and> access_token_for srv (st_settings st) (rq_now r) client user ?scope tc = Some (tr_AccessToken resp)
    \<and> (tr_RefreshToken resp \<noteq> [] \<longrightarrow> ?new \<noteq> None)
    \<and> db_refresh_tokens (st_db st') = db_refresh_tokens (snd ?rot)"
    using assms(1) reuse_not_Tokens
    by (auto simp: rotate_and_issue_def Let_def oauthError_def ScopesSubset_iff
        split: option.splits sum.splits if_splits prod.splits dest!: buildAccessAndID_Some)
  moreover have "successor rt ?scope t" if "?new = Some t" for t
    using that assms(2-) by (auto simp: successor_def newRefreshToken_def Let_def split: if_splits)
  ultimately show ?thesis
    using RotateRefreshToken_True(2) [of "rt_ID rt" ?new "st_db st"] by (auto intro!: exI [of _ ?new])
qed

definition rotated_into :: "RefreshToken \<Rightarrow> tokenResponse \<Rightarrow> db \<Rightarrow> db \<Rightarrow> bool" where
  "rotated_into rt resp d d' \<longleftrightarrow> (\<exists>new. db_refresh_tokens d' = rotate_rows (rt_ID rt) new (db_refresh_tokens d)
     \<and> (tr_RefreshToken resp \<noteq> [] \<longrightarrow> new \<noteq> None) \<and> (\<forall>t. new = Some t \<longrightarrow> successor rt (tr_Scope resp) t))"

lemma grantRefreshToken_Tokens:
  assumes "run_state (grantRefreshToken srv r pr) st = (Tokens resp, st')"
  shows "\<exists>rt client user. refresh_usable r pr (st_db st) rt client user
    \<and> set (SplitScope (tr_Scope resp)) \<subseteq> set (SplitScope (rt_Scope rt)) \<and> rotated_into rt resp (st_db st) (st_db st')
    \<and> (\<exists>tc. tc_amr tc = rt_AMR rt \<and> tc_jkt tc = dpopJKT pr \<and> deviceID tc = rt_DeviceID rt
        \<and> access_token_for srv (st_settings st) (rq_now r) client user (tr_Scope resp) tc = Some (tr_AccessToken resp))"
proof -
  let ?h = "HashToken (PostFormValue r ''refresh_token'')" and ?d = "st_db st"
  let ?tc = "\<lambda>rt. \<lparr>tc_amr = rt_AMR rt, tc_device = None, tc_jkt = dpopJKT pr\<rparr>"
  have "\<exists>client rt user. client_of r st = Some client \<and> GetRefreshTokenByHash ?h ?d = Inr rt \<and> rt_ClientID rt = cl_ClientID client
    \<and> \<not> rt_Revoked rt \<and> rq_now r \<le> rt_ExpiresAt rt \<and> (rt_DPoPJKT rt \<noteq> [] \<longrightarrow> dpopJKT pr = rt_DPoPJKT rt)
    \<and> GetUserByID (rt_UserID rt) ?d = Inr user \<and> \<not> usr_Disabled user
    \<and> (\<exists>tc. tc_amr tc = rt_AMR rt \<and> tc_jkt tc = dpopJKT pr \<and> deviceID tc = rt_DeviceID rt
        \<and> (rt_DeviceID rt \<noteq> [] \<longrightarrow> (\<exists>dev. GetDevice (rt_DeviceID rt) ?d = Inr dev \<and> IsActive dev))
        \<and> run_state (rotate_and_issue srv r client user rt tc) st = (Tokens resp, st'))"
    using assms reuse_not_Tokens
    by (auto simp: grantRefreshToken_def Let_def oauthClientAuthError_def oauthError_def deviceID_def
        split: option.splits sum.splits if_splits dest!: GetDevice_Inr intro!: exI [of _ "?tc _"] exI [of _ "?tc _\<lparr>tc_device := _\<rparr>"])
  then obtain client rt user tc where f: "client_of r st = Some client" "GetRefreshTokenByHash ?h ?d = Inr rt"
    "rt_ClientID rt = cl_ClientID client" "\<not> rt_Revoked rt" "rq_now r \<le> rt_ExpiresAt rt"
    "rt_DPoPJKT rt \<noteq> [] \<longrightarrow> dpopJKT pr = rt_DPoPJKT rt" "GetUserByID (rt_UserID rt) ?d = Inr user" "\<not> usr_Disabled user"
    and tc: "tc_amr tc = rt_AMR rt" "tc_jkt tc = dpopJKT pr" "deviceID tc = rt_DeviceID rt"
      "rt_DeviceID rt \<noteq> [] \<longrightarrow> (\<exists>dev. GetDevice (rt_DeviceID rt) ?d = Inr dev \<and> IsActive dev)"
      "run_state (rotate_and_issue srv r client user rt tc) st = (Tokens resp, st')" by blast
  have u: "usr_ID user = rt_UserID rt" using GetUserByID_Inr [OF f(7)] by simp
  have "refresh_usable r pr ?d rt client user"
    using f tc(4) client_of_Some [OF f(1)] GetUserByID_Inr [OF f(7)] GetRefreshTokenByHash_Inr [OF f(2)]
    by (auto simp: refresh_usable_def dest: GetDevice_Inr)
  with rotate_and_issue_Tokens [OF tc(5) f(3) u [symmetric] tc(1,3)] f(6) tc(1-3) show ?thesis
    unfolding rotated_into_def by metis
qed

text \<open>Presenting a token that was rotated away (or revoked) revokes every token of that user and client.\<close>

lemma grantRefreshToken_reuse:
  assumes "client_of r st = Some client" and "GetRefreshTokenByHash (HashToken (PostFormValue r ''refresh_token'')) (st_db st) = Inr rt"
    and "PostFormValue r ''refresh_token'' \<noteq> []" and "rt_Revoked rt" and "rt_ClientID rt = cl_ClientID client"
  shows "fst (run_state (grantRefreshToken srv r pr) st) = OAuthError 400 ''invalid_grant'' ''refresh token reuse detected''"
    and "\<not> fault (st_db st) ''RevokeRefreshTokensForUserClient'' \<Longrightarrow>
      \<forall>t \<in> set (db_refresh_tokens (st_db (snd (run_state (grantRefreshToken srv r pr) st)))).
        rt_UserID t = rt_UserID rt \<and> rt_ClientID t = rt_ClientID rt \<longrightarrow> rt_Revoked t"
proof -
  have "run_state (grantRefreshToken srv r pr) st = run_state (reuse_detected rt) st"
    using assms by (simp add: grantRefreshToken_def Let_def)
  then show "fst (run_state (grantRefreshToken srv r pr) st) = OAuthError 400 ''invalid_grant'' ''refresh token reuse detected''"
    and "\<not> fault (st_db st) ''RevokeRefreshTokensForUserClient'' \<Longrightarrow>
      \<forall>t \<in> set (db_refresh_tokens (st_db (snd (run_state (grantRefreshToken srv r pr) st)))).
        rt_UserID t = rt_UserID rt \<and> rt_ClientID t = rt_ClientID rt \<longrightarrow> rt_Revoked t"
    by (auto simp: reuse_detected_def oauthError_def RevokeRefreshTokensForUserClient_def exec_def set_upd)
qed

subsection \<open>The endpoint\<close>

text \<open>The proof of possession the grants see: none was sent, or it verified for one of the server's
  addresses of this request, and its identifier had not been used.\<close>

definition proof_of :: "server \<Rightarrow> request \<Rightarrow> srvstate \<Rightarrow> Proof option \<Rightarrow> bool" where
  "proof_of srv r st pr \<longleftrightarrow> (case pr of None \<Rightarrow> rq_DPoP r = []
     | Some p \<Rightarrow> (\<exists>htu \<in> set (serverURLsFor srv (st_settings st) r).
           VerifyProof (srv_lib srv) (srv_fold srv) (rq_now r) (proof_opts r [] htu) (rq_DPoP r) = Inr p)
         \<and> fst (ConsumeJTI (JTIHash (pr_JKT p) (pr_JTI p)) [] (pr_IssuedAt p + 2 * DefaultSkew) (rq_now r) (st_db st)) = Inr True)"

text \<open>Up to the replay identifiers, the grants run on the state the request finds.\<close>

definition same_tables :: "srvstate \<Rightarrow> srvstate \<Rightarrow> bool" where
  "same_tables st st1 \<longleftrightarrow> st_settings st1 = st_settings st \<and> db_users (st_db st1) = db_users (st_db st)
     \<and> db_clients (st_db st1) = db_clients (st_db st) \<and> db_devices (st_db st1) = db_devices (st_db st)
     \<and> db_auth_codes (st_db st1) = db_auth_codes (st_db st) \<and> db_refresh_tokens (st_db st1) = db_refresh_tokens (st_db st)
     \<and> db_device_codes (st_db st1) = db_device_codes (st_db st) \<and> db_faults (st_db st1) = db_faults (st_db st)"

lemma handleToken_grant:
  assumes "run_state (handleToken srv r) st = (resp, st')" and "\<And>c e m. resp \<noteq> OAuthError c e m"
  shows "\<exists>pr st1. run_state (grant_for srv r pr) st1 = (resp, st') \<and> proof_of srv r st pr \<and> same_tables st st1"
proof (cases "rq_DPoP r = []")
  case True
  then show ?thesis using assms
    by (auto simp: handleToken_def proof_of_def same_tables_def oauthError_def split: if_splits intro!: exI [of _ None] exI [of _ st])
next
  case False
  obtain x s where run: "run_state (verifyDPoP srv r (rq_DPoP r) []) st = (x, s)"
    by (cases "run_state (verifyDPoP srv r (rq_DPoP r) []) st")
  obtain p where p: "x = Inr p" "run_state (grant_for srv r (Some p)) s = (resp, st')"
    using assms False run by (auto simp: handleToken_def oauthError_def split: if_splits sum.splits)
  note d = verifyDPoP_Inr [OF run [unfolded p(1)]]
  have db: "st_db s = snd (ConsumeJTI (JTIHash (pr_JKT p) (pr_JTI p)) [] (pr_IssuedAt p + 2 * DefaultSkew) (rq_now r) (st_db st))"
    using d(2) by simp
  have "same_tables st s"
    unfolding same_tables_def db by (subst d(3)) (simp add: frame_simps)
  moreover have "proof_of srv r st (Some p)" using d(1,2) by (simp add: proof_of_def)
  ultimately show ?thesis using p(2) by blast
qed

lemma authentic_same: "same_tables st st1 \<Longrightarrow> authentic r (st_db st1) c = authentic r (st_db st) c"
  by (simp add: same_tables_def authentic_def)

text \<open>C3: Tokens come out of the authorization-code grant only for a stored, unused, unexpired code
  presented by the client it was issued to (an enabled one that has authenticated, if it has a secret),
  with the same redirect URI and with the PKCE verifier of its challenge, which a public client must
  have; for an enabled user; with the scope of the code and the code's user as subject; bound to the
  key of the DPoP proof, if one was sent; and the code is then spent.\<close>

theorem code_grant_sound:
  assumes "run_state (handleToken srv r) st = (Tokens resp, st')" and "PostFormValue r ''grant_type'' = ''authorization_code''"
  shows "\<exists>pr code client user. proof_of srv r st pr \<and> code_redeemable r (st_db st) code client user
    \<and> tr_Scope resp = ac_Scope code \<and> dead_code (ac_CodeHash code) (st_db st')
    \<and> access_token_for srv (st_settings st) (rq_now r) client user (ac_Scope code)
        \<lparr>tc_amr = ac_AMR code, tc_device = None, tc_jkt = dpopJKT pr\<rparr> = Some (tr_AccessToken resp)"
proof -
  let ?h = "HashToken (PostFormValue r ''code'')"
  obtain pr st1 where g: "run_state (grant_for srv r pr) st1 = (Tokens resp, st')" "proof_of srv r st pr" "same_tables st st1"
    using handleToken_grant [OF assms(1)] by auto
  have "run_state (grantAuthorizationCode srv r pr) st1 = (Tokens resp, st')"
    using g(1) assms(2) by (simp add: grant_for_def)
  from grantAuthorizationCode_Tokens [OF this] obtain code client user where
    f: "code_redeemable r (st_db st1) code client user" "tr_Scope resp = ac_Scope code"
    "access_token_for srv (st_settings st1) (rq_now r) client user (ac_Scope code)
        \<lparr>tc_amr = ac_AMR code, tc_device = None, tc_jkt = dpopJKT pr\<rparr> = Some (tr_AccessToken resp)"
    "is_ok (fst (ConsumeAuthCode ?h (rq_now r) (st_db st1)))"
    "db_auth_codes (st_db st') = db_auth_codes (snd (ConsumeAuthCode ?h (rq_now r) (st_db st1)))" by blast
  have "dead_code ?h (st_db st')"
    using ConsumeAuthCode_result [OF f(4)] f(5) by (auto simp: dead_code_def ConsumeAuthCode_mark_def list_all_iff set_upd)
  moreover have "code_redeemable r (st_db st) code client user"
    using f(1) g(3) authentic_same [OF g(3)] by (simp add: code_redeemable_def same_tables_def)
  moreover have "?h = ac_CodeHash code" "st_settings st1 = st_settings st"
    using f(1) g(3) by (simp_all add: code_redeemable_def same_tables_def)
  ultimately show ?thesis using f(2,3) g(2) by metis
qed

text \<open>C4: A code that has given tokens never gives tokens again: whatever the server does to its database in
  between, short of storing a new code with the same hash, no later request presenting the code is
  answered with tokens.\<close>

theorem code_never_twice:
  assumes "run_state (handleToken srv r) st = (Tokens resp, st')" and "PostFormValue r ''grant_type'' = ''authorization_code''"
    and "list_all (\<lambda>x. \<not> mints_code (HashToken (PostFormValue r ''code'')) x) ops" and "st_db st2 = fold store_step ops (st_db st')"
    and "PostFormValue r2 ''grant_type'' = ''authorization_code''" and "PostFormValue r2 ''code'' = PostFormValue r ''code''"
  shows "fst (run_state (handleToken srv2 r2) st2) \<noteq> Tokens resp2"
proof
  assume "fst (run_state (handleToken srv2 r2) st2) = Tokens resp2"
  then have again: "run_state (handleToken srv2 r2) st2 = (Tokens resp2, snd (run_state (handleToken srv2 r2) st2))"
    by (metis prod.collapse)
  have grant: "\<exists>pr s s1. run_state (grantAuthorizationCode sv q pr) s1 = (Tokens t, s) \<and> same_tables s0 s1 \<and> s = s'"
    if "run_state (handleToken sv q) s0 = (Tokens t, s')" "PostFormValue q ''grant_type'' = ''authorization_code''" for sv q s0 t s'
    using handleToken_grant [OF that(1)] that(2) by (auto simp: grant_for_def)
  let ?h = "HashToken (PostFormValue r ''code'')"
  obtain pr s1 where "run_state (grantAuthorizationCode srv r pr) s1 = (Tokens resp, st')"
    using grant [OF assms(1,2)] by auto
  from grantAuthorizationCode_Tokens [OF this]
  have "is_ok (fst (ConsumeAuthCode ?h (rq_now r) (st_db s1)))"
    "db_auth_codes (st_db st') = db_auth_codes (snd (ConsumeAuthCode ?h (rq_now r) (st_db s1)))" by auto
  with ConsumeAuthCode_result have "dead_code ?h (st_db st')"
    by (fastforce simp: dead_code_def ConsumeAuthCode_mark_def list_all_iff set_upd)
  then have dead: "dead_code ?h (st_db st2)"
    using auth_code.dead_run [of ?h "st_db st'" ops] assms(3,4) by (simp add: list_all_iff)
  obtain pr2 s2 where "run_state (grantAuthorizationCode srv2 r2 pr2) s2 = (Tokens resp2, snd (run_state (handleToken srv2 r2) st2))"
    and same: "same_tables st2 s2"
    using grant [OF again assms(5)] by auto
  from grantAuthorizationCode_Tokens [OF this(1)] assms(6)
  have "is_ok (fst (ConsumeAuthCode ?h (rq_now r2) (st_db s2)))" by auto
  moreover have "dead_code ?h (st_db s2)" using dead same by (simp add: dead_code_def same_tables_def)
  ultimately show False using ConsumeAuthCode_result by (fastforce simp: dead_code_def list_all_iff)
qed

text \<open>C8: Tokens come out of the refresh grant only for a stored, unrevoked, unexpired refresh token
  presented by its own authenticated client, with a proof of the key it is bound to, for an enabled
  user and, if bound to a device, while that device is active; the scope never exceeds the original
  grant; the old token is revoked in the same transaction that stores its successor, which inherits
  client, user, authentication time, device and key.\<close>

theorem refresh_grant_sound:
  assumes "run_state (handleToken srv r) st = (Tokens resp, st')" and "PostFormValue r ''grant_type'' = ''refresh_token''"
  shows "\<exists>pr rt client user tc. proof_of srv r st pr \<and> refresh_usable r pr (st_db st) rt client user
    \<and> set (SplitScope (tr_Scope resp)) \<subseteq> set (SplitScope (rt_Scope rt)) \<and> rotated_into rt resp (st_db st) (st_db st')
    \<and> tc_amr tc = rt_AMR rt \<and> tc_jkt tc = dpopJKT pr \<and> deviceID tc = rt_DeviceID rt
    \<and> access_token_for srv (st_settings st) (rq_now r) client user (tr_Scope resp) tc = Some (tr_AccessToken resp)"
proof -
  obtain pr st1 where g: "run_state (grant_for srv r pr) st1 = (Tokens resp, st')" "proof_of srv r st pr" "same_tables st st1"
    using handleToken_grant [OF assms(1)] by auto
  have "run_state (grantRefreshToken srv r pr) st1 = (Tokens resp, st')"
    using g(1) assms(2) by (simp add: grant_for_def)
  from grantRefreshToken_Tokens [OF this] obtain rt client user tc where
    f: "refresh_usable r pr (st_db st1) rt client user" "set (SplitScope (tr_Scope resp)) \<subseteq> set (SplitScope (rt_Scope rt))"
    "rotated_into rt resp (st_db st1) (st_db st')" "tc_amr tc = rt_AMR rt" "tc_jkt tc = dpopJKT pr" "deviceID tc = rt_DeviceID rt"
    "access_token_for srv (st_settings st1) (rq_now r) client user (tr_Scope resp) tc = Some (tr_AccessToken resp)" by blast
  have "refresh_usable r pr (st_db st) rt client user"
    using f(1) g(3) authentic_same [OF g(3)] by (simp add: refresh_usable_def same_tables_def)
  moreover have "rotated_into rt resp (st_db st) (st_db st')"
    using f(3) g(3) by (simp add: rotated_into_def same_tables_def)
  ultimately show ?thesis using f g(2,3) unfolding same_tables_def by metis
qed

lemma same_tables_refl [simp]: "same_tables st st"
  by (simp add: same_tables_def)

lemma verifyDPoP_frame: "run_state (verifyDPoP srv r raw tok) st = (x, s) \<Longrightarrow> same_tables st s"
  by (auto simp: verifyDPoP_def same_tables_def frame_simps split: sum.splits)

lemma client_of_same: "same_tables st st1 \<Longrightarrow> client_of r st1 = client_of r st"
  by (simp add: client_of_def authenticateClient_def same_tables_def GetClient_def query_def fault_def split: prod.split option.split sum.split)

lemma GetRefreshTokenByHash_same: "same_tables st st1 \<Longrightarrow> GetRefreshTokenByHash h (st_db st1) = GetRefreshTokenByHash h (st_db st)"
  by (simp add: same_tables_def GetRefreshTokenByHash_def query_def fault_def)

text \<open>The token endpoint checks the proof of a request that carries one, and then hands over to the grant.\<close>

lemma handleToken_cases:
  assumes "run_state (handleToken srv r) st = (resp, st')" and "rq_FormOK r"
  obtains e where "rq_DPoP r \<noteq> []" "run_state (verifyDPoP srv r (rq_DPoP r) []) st = (Inl e, st')"
      "resp = OAuthError 400 ''invalid_dpop_proof'' (dpop_text srv e)"
    | pr st1 where "same_tables st st1" "run_state (grant_for srv r pr) st1 = (resp, st')"
proof (cases "rq_DPoP r = []")
  case True
  then show ?thesis using assms that(2) [of st None] by (simp add: handleToken_def)
next
  case False
  obtain x st1 where v: "run_state (verifyDPoP srv r (rq_DPoP r) []) st = (x, st1)" by fastforce
  show ?thesis
  proof (cases x)
    case (Inl e)
    then show ?thesis using assms False v that(1) [of e] by (simp add: handleToken_def oauthError_def)
  next
    case (Inr pf)
    then show ?thesis using assms False v that(2) [OF verifyDPoP_frame [OF v], of "Some pf"] by (simp add: handleToken_def)
  qed
qed

text \<open>C9: Presenting a refresh token that is already revoked, as its own authenticated client, never gives tokens, and it revokes
  every refresh token that client holds for that user, the successors of the stolen one included; the answer says that the token
  was reused. There are two ways past that: a request whose DPoP header is refused is answered so before the token is looked at,
  and a database failure of the revocation itself leaves the tokens as they are.\<close>

theorem refresh_reuse_revokes:
  assumes "run_state (handleToken srv r) st = (resp, st')"
    and "rq_FormOK r" "PostFormValue r ''grant_type'' = ''refresh_token''" "PostFormValue r ''refresh_token'' \<noteq> []"
    and "client_of r st = Some client"
    and "GetRefreshTokenByHash (HashToken (PostFormValue r ''refresh_token'')) (st_db st) = Inr rt"
    and "rt_Revoked rt" "rt_ClientID rt = cl_ClientID client"
  shows "resp = OAuthError 400 ''invalid_grant'' ''refresh token reuse detected''
      \<and> (fault (st_db st) ''RevokeRefreshTokensForUserClient''
         \<or> list_all (\<lambda>t. rt_UserID t = rt_UserID rt \<and> rt_ClientID t = rt_ClientID rt \<longrightarrow> rt_Revoked t) (db_refresh_tokens (st_db st')))
    \<or> rq_DPoP r \<noteq> [] \<and> (\<exists>e. run_state (verifyDPoP srv r (rq_DPoP r) []) st = (Inl e, st')
         \<and> resp = OAuthError 400 ''invalid_dpop_proof'' (dpop_text srv e))"
  using assms(1,2)
proof (cases rule: handleToken_cases)
  case (2 pr st1)
  then have "run_state (grantRefreshToken srv r pr) st1 = (resp, st')" using assms(3) by (simp add: grant_for_def)
  moreover have "fault (st_db st1) = fault (st_db st)" using 2(1) by (simp add: same_tables_def fault_def [abs_def])
  moreover note grantRefreshToken_reuse [of r st1 client rt srv pr]
  ultimately show ?thesis
    using assms(4-8) client_of_same [OF 2(1)] GetRefreshTokenByHash_same [OF 2(1)] by (simp add: list_all_iff) (metis fst_conv snd_conv)
qed blast

subsection \<open>device\_code\<close>

text \<open>What a poll must show for tokens to be issued against a device code.\<close>

definition device_code_redeemable :: "server \<Rightarrow> request \<Rightarrow> Proof option \<Rightarrow> srvstate \<Rightarrow> DeviceCode \<Rightarrow> Client \<Rightarrow> User \<Rightarrow> Device option \<Rightarrow> bool" where
  "device_code_redeemable srv r pr st dc client user dev \<longleftrightarrow>
     dc \<in> set (db_device_codes (st_db st)) \<and> dc_DeviceCodeHash dc = HashToken (PostFormValue r ''device_code'')
   \<and> dc_Status dc = DeviceCodeApproved \<and> rq_now r \<le> dc_ExpiresAt dc
   \<and> (dc_LastPolledAt dc = 0 \<or> deviceCodeInterval * Second \<le> time_Sub (rq_now r) (dc_LastPolledAt dc))
   \<and> authentic r (st_db st) client \<and> dc_ClientID dc = cl_ClientID client
   \<and> user \<in> set (db_users (st_db st)) \<and> usr_ID user = dc_UserID dc \<and> \<not> usr_Disabled user
   \<and> (case dev of None \<Rightarrow> dc_DeviceID dc = []
      | Some v \<Rightarrow> dc_DeviceID dc = dev_ID v \<and> device_request srv r pr st v \<and> (dev_OwnerOnly v \<longrightarrow> dev_OwnerUserID v = dc_UserID dc))"

lemma redeem_device_code_Tokens:
  assumes "run_state (redeem_device_code srv r client dc tc) st = (Tokens resp, st')"
  shows "\<exists>user. user \<in> set (db_users (st_db st)) \<and> usr_ID user = dc_UserID dc \<and> \<not> usr_Disabled user
    \<and> fst (ConsumeDeviceCode (dc_ID dc) (st_db st)) = Inr True
    \<and> db_device_codes (st_db st') = db_device_codes (snd (ConsumeDeviceCode (dc_ID dc) (st_db st)))
    \<and> tr_Scope resp = dc_Scope dc
    \<and> access_token_for srv (st_settings st) (rq_now r) client user (dc_Scope dc) tc = Some (tr_AccessToken resp)"
  using assms
  by (auto simp: redeem_device_code_def record_defs Let_def oauthError_def split: option.splits sum.splits if_splits prod.splits
      dest!: buildAccessAndID_Some GetUserByID_Inr)

lemma device_request_same:
  assumes "device_request srv r pr s dev" and "db_devices (st_db s) = db_devices (st_db st)" and "st_settings s = st_settings st"
  shows "device_request srv r pr st dev"
  using assms by (simp add: device_request_def cong: option.case_cong)

lemma resourceToken_frame: "run_state (resourceToken srv r pr) st = (x, s) \<Longrightarrow> same_tables st s"
  by (auto simp: resourceToken_def split: option.splits prod.splits if_splits dest: verifyDPoP_frame)

lemma authenticateDeviceRequest_frame: "run_state (authenticateDeviceRequest srv r pr) st = (x, s) \<Longrightarrow> same_tables st s"
  by (auto simp: authenticateDeviceRequest_def split: prod.splits sum.splits if_splits dest: resourceToken_frame)

lemma ConsumeDeviceCode_kills:
  "fst (ConsumeDeviceCode i d) = Inr True \<Longrightarrow> \<forall>c \<in> set (db_device_codes (snd (ConsumeDeviceCode i d))). dc_ID c = i \<longrightarrow> dc_Status c \<noteq> DeviceCodeApproved"
proof -
  have n: "DeviceCodeConsumed \<noteq> DeviceCodeApproved" by (simp add: device_code_status_defs)
  assume "fst (ConsumeDeviceCode i d) = Inr True"
  then have "db_device_codes (snd (ConsumeDeviceCode i d)) = upd (\<lambda>c. dc_ID c = i \<and> dc_Status c = DeviceCodeApproved)
      (\<lambda>c. c\<lparr>dc_Status := DeviceCodeConsumed\<rparr>) (db_device_codes d)"
    by (simp add: ConsumeDeviceCode_def execCount_def Let_def split: if_splits)
  then show ?thesis using n by (simp only: ball_upd) simp
qed

lemma grantDeviceCode_Tokens:
  assumes "run_state (grantDeviceCode srv r pr) st = (Tokens resp, st')"
  shows "\<exists>dc client user dev. device_code_redeemable srv r pr st dc client user dev \<and> tr_Scope resp = dc_Scope dc
    \<and> access_token_for srv (st_settings st) (rq_now r) client user (dc_Scope dc)
        \<lparr>tc_amr = dc_AMR dc, tc_device = dev, tc_jkt = dpopJKT pr\<rparr> = Some (tr_AccessToken resp)
    \<and> (\<forall>c \<in> set (db_device_codes (st_db st')). dc_ID c = dc_ID dc \<longrightarrow> dc_Status c \<noteq> DeviceCodeApproved)"
proof -
  let ?h = "HashToken (PostFormValue r ''device_code'')"
  let ?tc = "\<lambda>dc dev. \<lparr>tc_amr = dc_AMR dc, tc_device = dev, tc_jkt = dpopJKT pr\<rparr>"
  let ?s1 = "\<lambda>dc. st\<lparr>st_db := snd (MarkDeviceCodePolled (dc_ID dc) (rq_now r) (st_db st))\<rparr>"
  have "\<exists>client dc. client_of r st = Some client \<and> GetDeviceCodeByHash ?h (st_db st) = Inr dc \<and> dc_ClientID dc = cl_ClientID client
    \<and> rq_now r \<le> dc_ExpiresAt dc \<and> dc_Status dc = DeviceCodeApproved
    \<and> (dc_LastPolledAt dc = 0 \<or> deviceCodeInterval * Second \<le> time_Sub (rq_now r) (dc_LastPolledAt dc))
    \<and> (dc_DeviceID dc = [] \<and> run_state (redeem_device_code srv r client dc (?tc dc None)) (?s1 dc) = (Tokens resp, st')
      \<or> (\<exists>v s. run_state (authenticateDeviceRequest srv r pr) (?s1 dc) = (Inr v, s) \<and> dc_DeviceID dc = dev_ID v
          \<and> (dev_OwnerOnly v \<longrightarrow> dev_OwnerUserID v = dc_UserID dc)
          \<and> run_state (redeem_device_code srv r client dc (?tc dc (Some v))) s = (Tokens resp, st')))"
    using assms
    by (auto simp: grantDeviceCode_def Let_def oauthClientAuthError_def oauthError_def record_defs
        split: option.splits sum.splits if_splits prod.splits)
  then obtain client dc where f: "client_of r st = Some client" "GetDeviceCodeByHash ?h (st_db st) = Inr dc"
    "dc_ClientID dc = cl_ClientID client" "rq_now r \<le> dc_ExpiresAt dc" "dc_Status dc = DeviceCodeApproved"
    "dc_LastPolledAt dc = 0 \<or> deviceCodeInterval * Second \<le> time_Sub (rq_now r) (dc_LastPolledAt dc)"
    and c: "dc_DeviceID dc = [] \<and> run_state (redeem_device_code srv r client dc (?tc dc None)) (?s1 dc) = (Tokens resp, st')
      \<or> (\<exists>v s. run_state (authenticateDeviceRequest srv r pr) (?s1 dc) = (Inr v, s) \<and> dc_DeviceID dc = dev_ID v
          \<and> (dev_OwnerOnly v \<longrightarrow> dev_OwnerUserID v = dc_UserID dc)
          \<and> run_state (redeem_device_code srv r client dc (?tc dc (Some v))) s = (Tokens resp, st'))" by blast
  have "\<exists>dev s. same_tables (?s1 dc) s \<and> run_state (redeem_device_code srv r client dc (?tc dc dev)) s = (Tokens resp, st')
      \<and> (case dev of None \<Rightarrow> dc_DeviceID dc = []
         | Some v \<Rightarrow> dc_DeviceID dc = dev_ID v \<and> (dev_OwnerOnly v \<longrightarrow> dev_OwnerUserID v = dc_UserID dc) \<and> device_request srv r pr (?s1 dc) v)"
    using c
  proof
    assume "dc_DeviceID dc = [] \<and> run_state (redeem_device_code srv r client dc (?tc dc None)) (?s1 dc) = (Tokens resp, st')"
    then show ?thesis by (intro exI [of _ None] exI [of _ "?s1 dc"]) simp
  next
    assume "\<exists>v s. run_state (authenticateDeviceRequest srv r pr) (?s1 dc) = (Inr v, s) \<and> dc_DeviceID dc = dev_ID v
          \<and> (dev_OwnerOnly v \<longrightarrow> dev_OwnerUserID v = dc_UserID dc)
          \<and> run_state (redeem_device_code srv r client dc (?tc dc (Some v))) s = (Tokens resp, st')"
    then obtain v s where "run_state (authenticateDeviceRequest srv r pr) (?s1 dc) = (Inr v, s)" "dc_DeviceID dc = dev_ID v"
      "dev_OwnerOnly v \<longrightarrow> dev_OwnerUserID v = dc_UserID dc"
      "run_state (redeem_device_code srv r client dc (?tc dc (Some v))) s = (Tokens resp, st')" by blast
    with authenticateDeviceRequest_frame authenticateDeviceRequest_Inr show ?thesis
      by (intro exI [of _ "Some v"] exI [of _ s]) auto
  qed
  then obtain dev s where same: "same_tables (?s1 dc) s"
    and red: "run_state (redeem_device_code srv r client dc (?tc dc dev)) s = (Tokens resp, st')"
    and dev: "case dev of None \<Rightarrow> dc_DeviceID dc = []
       | Some v \<Rightarrow> dc_DeviceID dc = dev_ID v \<and> (dev_OwnerOnly v \<longrightarrow> dev_OwnerUserID v = dc_UserID dc) \<and> device_request srv r pr (?s1 dc) v"
    by blast
  from redeem_device_code_Tokens [OF red] obtain user where
    u: "user \<in> set (db_users (st_db s))" "usr_ID user = dc_UserID dc" "\<not> usr_Disabled user"
    "fst (ConsumeDeviceCode (dc_ID dc) (st_db s)) = Inr True"
    "db_device_codes (st_db st') = db_device_codes (snd (ConsumeDeviceCode (dc_ID dc) (st_db s)))"
    "tr_Scope resp = dc_Scope dc"
    "access_token_for srv (st_settings s) (rq_now r) client user (dc_Scope dc) (?tc dc dev) = Some (tr_AccessToken resp)" by blast
  have s: "st_settings s = st_settings st" "db_users (st_db s) = db_users (st_db st)"
    using same by (simp_all add: same_tables_def)
  have "case dev of None \<Rightarrow> dc_DeviceID dc = []
      | Some v \<Rightarrow> dc_DeviceID dc = dev_ID v \<and> device_request srv r pr st v \<and> (dev_OwnerOnly v \<longrightarrow> dev_OwnerUserID v = dc_UserID dc)"
    using dev by (auto split: option.splits elim!: device_request_same)
  then have "device_code_redeemable srv r pr st dc client user dev"
    using f u(1-3) s client_of_Some [OF f(1)] GetDeviceCodeByHash_Inr [OF f(2)] by (simp add: device_code_redeemable_def)
  with u(6,7) s(1) ConsumeDeviceCode_kills [OF u(4)] u(5) show ?thesis by metis
qed

text \<open>C24: Tokens come out of the device-code grant only for a stored device code that its own authenticated
  client polls no faster than the interval, unexpired and approved, and for the enabled user who
  approved it; if the code was requested by an enrolled device, that device must authenticate the poll,
  be active, and, if it admits only its owner, belong to that user; and the code is then spent.\<close>

theorem device_grant_sound:
  assumes "run_state (handleToken srv r) st = (Tokens resp, st')" and "PostFormValue r ''grant_type'' = GrantTypeDeviceCode"
  shows "\<exists>pr st1 dc client user dev. proof_of srv r st pr \<and> same_tables st st1
    \<and> device_code_redeemable srv r pr st1 dc client user dev \<and> tr_Scope resp = dc_Scope dc
    \<and> list_all (\<lambda>c. dc_ID c = dc_ID dc \<longrightarrow> dc_Status c \<noteq> DeviceCodeApproved) (db_device_codes (st_db st'))
    \<and> access_token_for srv (st_settings st) (rq_now r) client user (dc_Scope dc)
        \<lparr>tc_amr = dc_AMR dc, tc_device = dev, tc_jkt = dpopJKT pr\<rparr> = Some (tr_AccessToken resp)"
proof -
  obtain pr st1 where g: "run_state (grant_for srv r pr) st1 = (Tokens resp, st')" "proof_of srv r st pr" "same_tables st st1"
    using handleToken_grant [OF assms(1)] by auto
  have "run_state (grantDeviceCode srv r pr) st1 = (Tokens resp, st')"
    using g(1) assms(2) by (simp add: grant_for_def GrantTypeDeviceCode_def)
  from grantDeviceCode_Tokens [OF this] g(2,3) show ?thesis
    unfolding list_all_iff same_tables_def by metis
qed

subsection \<open>token exchange\<close>

definition exchangeable :: "server \<Rightarrow> request \<Rightarrow> string \<Rightarrow> srvstate \<Rightarrow> Device \<Rightarrow> RefreshToken \<Rightarrow> User \<Rightarrow> Client \<Rightarrow> bool" where
  "exchangeable srv r jkt st dev rt user aud \<longleftrightarrow> jkt \<noteq> []
   \<and> (\<exists>actor. Verify (srv_lib srv) (srv_keys srv) (issuerConfig (st_settings st)) (rq_now r) (PostFormValue r ''actor_token'') = Some actor
        \<and> IsDeviceToken actor \<and> vt_JKT actor = jkt \<and> vt_Subject actor = dev_ID dev)
   \<and> dev \<in> set (db_devices (st_db st)) \<and> IsActive dev
   \<and> rt \<in> set (db_refresh_tokens (st_db st)) \<and> rt_TokenHash rt = HashToken (PostFormValue r ''subject_token'')
   \<and> \<not> rt_Revoked rt \<and> rq_now r \<le> rt_ExpiresAt rt \<and> rt_ClientID rt = EnrollmentClientID
   \<and> rt_DeviceID rt = dev_ID dev \<and> rt_DPoPJKT rt = jkt
   \<and> user \<in> set (db_users (st_db st)) \<and> usr_ID user = rt_UserID rt \<and> \<not> usr_Disabled user
   \<and> aud \<in> set (db_clients (st_db st)) \<and> cl_ClientID aud = TrimSpace (PostFormValue r ''audience'') \<and> \<not> cl_Disabled aud"

lemma delegated_scope_Some:
  "delegated_scope asked granted allowed = Some scope \<Longrightarrow> SplitScope scope \<noteq> []
     \<and> set (SplitScope scope) \<subseteq> set (SplitScope granted) \<inter> set allowed"
  by (auto simp: delegated_scope_def Let_def ScopesSubset_iff split: if_splits)

lemma exchange_for_Exchanged:
  assumes "run_state (exchange_for srv r dev rt user audience) st = (Exchanged x, st')"
  shows "\<exists>aud. aud \<in> set (db_clients (st_db st)) \<and> cl_ClientID aud = audience \<and> \<not> cl_Disabled aud
    \<and> SplitScope (xr_Scope x) \<noteq> [] \<and> set (SplitScope (xr_Scope x)) \<subseteq> set (SplitScope (rt_Scope rt)) \<inter> set (cl_AllowedScopes aud)
    \<and> xr_TokenType x = ''Bearer''
    \<and> IssueAccessTokenWithClaims (srv_lib srv) (srv_keys srv) (issuerConfig (st_settings st)) (rq_now r) (usr_ID user)
        (cl_ClientID aud) (xr_Scope x) (delegation_claims dev rt user (xr_Scope x)) = Some (xr_AccessToken x)"
  using assms
  by (auto simp: exchange_for_def oauthError_def record_defs split: option.splits sum.splits if_splits
      dest!: GetClient_Inr delegated_scope_Some)

lemma grantTokenExchange_Exchanged:
  assumes "run_state (grantTokenExchange srv r pr) st = (Exchanged x, st')"
  shows "\<exists>dev rt user aud. exchangeable srv r (dpopJKT pr) st dev rt user aud
    \<and> SplitScope (xr_Scope x) \<noteq> [] \<and> set (SplitScope (xr_Scope x)) \<subseteq> set (SplitScope (rt_Scope rt)) \<inter> set (cl_AllowedScopes aud)
    \<and> IssueAccessTokenWithClaims (srv_lib srv) (srv_keys srv) (issuerConfig (st_settings st)) (rq_now r) (usr_ID user)
        (cl_ClientID aud) (xr_Scope x) (delegation_claims dev rt user (xr_Scope x)) = Some (xr_AccessToken x)"
proof -
  let ?actor = "Verify (srv_lib srv) (srv_keys srv) (issuerConfig (st_settings st)) (rq_now r) (PostFormValue r ''actor_token'')"
  have "\<exists>client actor dev rt user. client_of r st = Some client \<and> BuiltIn client \<and> dpopJKT pr \<noteq> []
    \<and> ?actor = Some actor \<and> IsDeviceToken actor \<and> vt_JKT actor = dpopJKT pr
    \<and> GetDevice (vt_Subject actor) (st_db st) = Inr dev \<and> IsActive dev
    \<and> GetRefreshTokenByHash (HashToken (PostFormValue r ''subject_token'')) (st_db st) = Inr rt
    \<and> \<not> rt_Revoked rt \<and> rq_now r \<le> rt_ExpiresAt rt \<and> rt_ClientID rt = cl_ClientID client
    \<and> rt_DeviceID rt = dev_ID dev \<and> rt_DPoPJKT rt = dpopJKT pr
    \<and> GetUserByID (rt_UserID rt) (st_db st) = Inr user \<and> \<not> usr_Disabled user
    \<and> run_state (exchange_for srv r dev rt user (TrimSpace (PostFormValue r ''audience''))) st = (Exchanged x, st')"
    using assms
    by (auto simp: grantTokenExchange_def Let_def oauthClientAuthError_def oauthError_def split: option.splits sum.splits if_splits)
  then obtain client actor dev rt user where f: "BuiltIn client" "dpopJKT pr \<noteq> []" "?actor = Some actor" "IsDeviceToken actor"
    "vt_JKT actor = dpopJKT pr" "GetDevice (vt_Subject actor) (st_db st) = Inr dev" "IsActive dev"
    "GetRefreshTokenByHash (HashToken (PostFormValue r ''subject_token'')) (st_db st) = Inr rt"
    "\<not> rt_Revoked rt" "rq_now r \<le> rt_ExpiresAt rt" "rt_ClientID rt = cl_ClientID client"
    "rt_DeviceID rt = dev_ID dev" "rt_DPoPJKT rt = dpopJKT pr"
    "GetUserByID (rt_UserID rt) (st_db st) = Inr user" "\<not> usr_Disabled user"
    and ex: "run_state (exchange_for srv r dev rt user (TrimSpace (PostFormValue r ''audience''))) st = (Exchanged x, st')" by blast
  from exchange_for_Exchanged [OF ex] obtain aud where
    a: "aud \<in> set (db_clients (st_db st))" "cl_ClientID aud = TrimSpace (PostFormValue r ''audience'')" "\<not> cl_Disabled aud"
    "SplitScope (xr_Scope x) \<noteq> []" "set (SplitScope (xr_Scope x)) \<subseteq> set (SplitScope (rt_Scope rt)) \<inter> set (cl_AllowedScopes aud)"
    "IssueAccessTokenWithClaims (srv_lib srv) (srv_keys srv) (issuerConfig (st_settings st)) (rq_now r) (usr_ID user)
        (cl_ClientID aud) (xr_Scope x) (delegation_claims dev rt user (xr_Scope x)) = Some (xr_AccessToken x)" by blast
  have "exchangeable srv r (dpopJKT pr) st dev rt user aud"
    using f a(1-3) GetDevice_Inr [OF f(6)] GetRefreshTokenByHash_Inr [OF f(8)] GetUserByID_Inr [OF f(14)]
    by (auto simp: exchangeable_def BuiltIn_def)
  then show ?thesis using a(4-6) by blast
qed

text \<open>C25: A token for another audience comes out of the exchange only to an enrolled, active device that
  proves, with DPoP, possession of the key both its own device token and the user's live refresh
  token are bound to; it names the user of that refresh token, an enabled one, as subject, the device
  as actor and a registered, enabled client as audience, and its scope, never empty, lies within both
  the user's grant and what the audience may have.\<close>

theorem token_exchange_sound:
  assumes "run_state (handleToken srv r) st = (Exchanged x, st')" and "PostFormValue r ''grant_type'' = GrantTypeTokenExchange"
  shows "\<exists>pr st1 dev rt user aud. proof_of srv r st pr \<and> same_tables st st1 \<and> exchangeable srv r (dpopJKT pr) st1 dev rt user aud
    \<and> SplitScope (xr_Scope x) \<noteq> [] \<and> set (SplitScope (xr_Scope x)) \<subseteq> set (SplitScope (rt_Scope rt)) \<inter> set (cl_AllowedScopes aud)
    \<and> IssueAccessTokenWithClaims (srv_lib srv) (srv_keys srv) (issuerConfig (st_settings st)) (rq_now r) (usr_ID user)
        (cl_ClientID aud) (xr_Scope x) (delegation_claims dev rt user (xr_Scope x)) = Some (xr_AccessToken x)
    \<and> delegation_claims dev rt user (xr_Scope x) ''act'' = Some (JObj [member ''sub'' (dev_ID dev)])"
proof -
  obtain pr st1 where g: "run_state (grant_for srv r pr) st1 = (Exchanged x, st')" "proof_of srv r st pr" "same_tables st st1"
    using handleToken_grant [OF assms(1)] by auto
  have "run_state (grantTokenExchange srv r pr) st1 = (Exchanged x, st')"
    using g(1) assms(2) by (simp add: grant_for_def GrantTypeDeviceCode_def GrantTypeJWTBearer_def GrantTypeTokenExchange_def)
  from grantTokenExchange_Exchanged [OF this] obtain dev rt user aud where
    e: "exchangeable srv r (dpopJKT pr) st1 dev rt user aud"
    "SplitScope (xr_Scope x) \<noteq> []" "set (SplitScope (xr_Scope x)) \<subseteq> set (SplitScope (rt_Scope rt)) \<inter> set (cl_AllowedScopes aud)"
    "IssueAccessTokenWithClaims (srv_lib srv) (srv_keys srv) (issuerConfig (st_settings st1)) (rq_now r) (usr_ID user)
        (cl_ClientID aud) (xr_Scope x) (delegation_claims dev rt user (xr_Scope x)) = Some (xr_AccessToken x)" by blast
  moreover have "delegation_claims dev rt user (xr_Scope x) ''act'' = Some (JObj [member ''sub'' (dev_ID dev)])"
    by (simp add: delegation_claims_def Let_def withGroups_def split: option.split)
  moreover have "st_settings st1 = st_settings st" using g(3) by (simp add: same_tables_def)
  ultimately show ?thesis using g(2,3) by metis
qed

subsection \<open>jwt-bearer\<close>

lemma try_audiences_Inr: "try_audiences f as = Inr a \<Longrightarrow> \<exists>x \<in> set as. f x = Inr a"
  by (induction "as") (auto split: sum.splits if_splits)

definition assertion_accepted :: "server \<Rightarrow> request \<Rightarrow> srvstate \<Rightarrow> Device \<Rightarrow> Assertion \<Rightarrow> bool" where
  "assertion_accepted srv r st dev a \<longleftrightarrow> dev \<in> set (db_devices (st_db st)) \<and> IsActive dev \<and> as_Subject a = dev_ID dev
     \<and> (\<exists>jwk key. ParseJWK (dev_PublicKey dev) = Inr jwk \<and> JWK_PublicKey jwk = Inr key
         \<and> (\<exists>aud \<in> set (issuerAudiences srv (st_settings st)).
              VerifyAssertion (srv_lib srv) (rq_now r) (assertion_opts (Some key) (dev_PublicKeyAlgorithm dev) aud)
                (PostFormValue r ''assertion'') = Inr a))
     \<and> fst (ConsumeJTI (JTIHash (dev_Fingerprint dev) (as_JTI a)) (dev_ID dev) (as_ExpiresAt a + DefaultSkew) (rq_now r) (st_db st)) = Inr True"

lemma ParseJWK_PublicKey: "ParseJWK raw = Inr j \<Longrightarrow> \<exists>k. JWK_PublicKey j = Inr k"
  by (auto simp: ParseJWK_def ParseJWK_value_def split: option.splits sum.splits if_splits)

lemma issue_device_token_Json:
  assumes "run_state (issue_device_token srv r client dev owner jkt aud) st = (Json c ms, st')"
  shows "\<exists>tok. IssueDeviceToken (srv_lib srv) (srv_keys srv) (issuerConfig (st_settings st)) (rq_now r) (dev_ID dev) (usr_ID owner)
      (dev_TrustLevel dev) aud jkt (sv_DeviceTokenTTL (st_settings st)) = Some tok \<and> map_of ms ''access_token'' = Some (JStr tok)"
  using assms by (auto simp: issue_device_token_def oauthError_def record_defs split: option.splits)

lemma bearer_failed_not_Json [simp]:
  "run_state (bearer_failed r client detail) st = (Json c ms, st') \<longleftrightarrow> False"
  "run_state (bearer_target_failed r client detail code desc) st = (Json c ms, st') \<longleftrightarrow> False"
  by (simp_all add: bearer_failed_def bearer_target_failed_def record_defs oauthError_def)

lemma grantJWTBearer_Json:
  assumes "run_state (grantJWTBearer srv r pr) st = (Json c ms, st')"
  shows "\<exists>client dev a owner aud tok. authentic r (st_db st) client \<and> BuiltIn client \<and> assertion_accepted srv r st dev a
    \<and> owner \<in> set (db_users (st_db st)) \<and> usr_ID owner = dev_OwnerUserID dev \<and> \<not> usr_Disabled owner
    \<and> (aud = cl_ClientID client \<or> dpopJKT pr \<noteq> [] \<and> (\<exists>t \<in> set (db_clients (st_db st)). cl_ClientID t = aud \<and> \<not> cl_Disabled t))
    \<and> IssueDeviceToken (srv_lib srv) (srv_keys srv) (issuerConfig (st_settings st)) (rq_now r) (dev_ID dev) (usr_ID owner)
        (dev_TrustLevel dev) aud (dpopJKT pr) (sv_DeviceTokenTTL (st_settings st)) = Some tok
    \<and> map_of ms ''access_token'' = Some (JStr tok)"
proof -
  let ?raw = "PostFormValue r ''assertion''"
  let ?va = "\<lambda>jwk dev aud. VerifyAssertion (srv_lib srv) (rq_now r) (assertion_opts (ok_or_none (JWK_PublicKey jwk)) (dev_PublicKeyAlgorithm dev) aud) ?raw"
  let ?cj = "\<lambda>dev a. ConsumeJTI (JTIHash (dev_Fingerprint dev) (as_JTI a)) (dev_ID dev) (as_ExpiresAt a + DefaultSkew) (rq_now r) (st_db st)"
  have "\<exists>client i dev jwk a owner aud. client_of r st = Some client \<and> BuiltIn client \<and> GetDevice i (st_db st) = Inr dev \<and> IsActive dev
    \<and> ParseJWK (dev_PublicKey dev) = Inr jwk \<and> try_audiences (?va jwk dev) (issuerAudiences srv (st_settings st)) = Inr a
    \<and> as_Subject a = dev_ID dev \<and> fst (?cj dev a) = Inr True
    \<and> GetUserByID (dev_OwnerUserID dev) (snd (?cj dev a)) = Inr owner \<and> \<not> usr_Disabled owner
    \<and> (aud = cl_ClientID client \<or> dpopJKT pr \<noteq> [] \<and> (\<exists>n t. GetClient n (snd (?cj dev a)) = Inr t \<and> cl_ClientID t = aud \<and> \<not> cl_Disabled t))
    \<and> run_state (issue_device_token srv r client dev owner (dpopJKT pr) aud) (st\<lparr>st_db := snd (?cj dev a)\<rparr>) = (Json c ms, st')"
    using assms
    by (auto simp: grantJWTBearer_def Let_def oauthClientAuthError_def oauthError_def split: option.splits sum.splits if_splits) blast+
  then obtain client i dev jwk a owner aud where f: "client_of r st = Some client" "BuiltIn client" "GetDevice i (st_db st) = Inr dev" "IsActive dev"
    "ParseJWK (dev_PublicKey dev) = Inr jwk" "try_audiences (?va jwk dev) (issuerAudiences srv (st_settings st)) = Inr a"
    "as_Subject a = dev_ID dev" "fst (?cj dev a) = Inr True"
    "GetUserByID (dev_OwnerUserID dev) (snd (?cj dev a)) = Inr owner" "\<not> usr_Disabled owner"
    and aud: "aud = cl_ClientID client \<or> dpopJKT pr \<noteq> [] \<and> (\<exists>n t. GetClient n (snd (?cj dev a)) = Inr t \<and> cl_ClientID t = aud \<and> \<not> cl_Disabled t)"
    and tok: "run_state (issue_device_token srv r client dev owner (dpopJKT pr) aud) (st\<lparr>st_db := snd (?cj dev a)\<rparr>) = (Json c ms, st')"
    by blast
  obtain key where key: "JWK_PublicKey jwk = Inr key" using ParseJWK_PublicKey [OF f(5)] by blast
  have "assertion_accepted srv r st dev a"
    using f(4,5,7,8) GetDevice_Inr [OF f(3)] try_audiences_Inr [OF f(6)] key by (auto simp: assertion_accepted_def ok_or_none_def)
  moreover have "owner \<in> set (db_users (st_db st)) \<and> usr_ID owner = dev_OwnerUserID dev"
    using GetUserByID_Inr [OF f(9)] by (simp add: frame_simps)
  moreover have "aud = cl_ClientID client \<or> dpopJKT pr \<noteq> [] \<and> (\<exists>t \<in> set (db_clients (st_db st)). cl_ClientID t = aud \<and> \<not> cl_Disabled t)"
    using aud GetClient_Inr by (fastforce simp: frame_simps)
  moreover obtain t where "IssueDeviceToken (srv_lib srv) (srv_keys srv) (issuerConfig (st_settings st)) (rq_now r) (dev_ID dev) (usr_ID owner)
      (dev_TrustLevel dev) aud (dpopJKT pr) (sv_DeviceTokenTTL (st_settings st)) = Some t" "map_of ms ''access_token'' = Some (JStr t)"
    using issue_device_token_Json [OF tok] by auto
  moreover note client_of_Some [OF f(1)] f(2,10)
  ultimately show ?thesis by metis
qed


subsection \<open>Introspection, revocation, user information\<close>


text \<open>Revocation answers every authenticated client alike, whether or not the token exists, and changes
  no refresh token but the presented one, and that only when it belongs to the client, in which case
  it is revoked.\<close>

theorem revocation_own_token:
  assumes "run_state (handleRevoke r) st = (resp, st')" and "rq_FormOK r" and "client_of r st = Some client"
    and "db_ok (st_db st)"
  shows "resp = Status 200
    \<and> list_all (\<lambda>t. rt_ClientID t = cl_ClientID client \<and> rt_TokenHash t = HashToken (PostFormValue r ''token'')
          \<or> t \<in> set (db_refresh_tokens (st_db st'))) (db_refresh_tokens (st_db st))
    \<and> (db_faults (st_db st) = [] \<and> PostFormValue r ''token'' \<noteq> [] \<longrightarrow>
        list_all (\<lambda>t. rt_ClientID t = cl_ClientID client \<and> rt_TokenHash t = HashToken (PostFormValue r ''token'')
          \<longrightarrow> rt_Revoked t) (db_refresh_tokens (st_db st')))"
proof -
  let ?h = "HashToken (PostFormValue r ''token'')" and ?t = "db_refresh_tokens (st_db st)"
  have u: "uniq_on rt_ID ?t" "uniq_on rt_TokenHash ?t" using assms(4) by (simp_all add: db_ok_def grants_ok_def)
  have run: "run_state (handleRevoke r) st = (resp, st')" by (rule assms)
  show ?thesis
  proof (cases "PostFormValue r ''token'' = []")
    case True
    then show ?thesis using run assms(2,3) by (auto simp: handleRevoke_def list_all_iff)
  next
    case False
    show ?thesis
    proof (cases "GetRefreshTokenByHash ?h (st_db st)")
      case (Inl e)
      then have "resp = Status 200" "st' = st" using run assms(2,3) False by (auto simp: handleRevoke_def)
      moreover have "t \<in> set ?t \<Longrightarrow> rt_TokenHash t \<noteq> ?h" if "db_faults (st_db st) = []" for t
        using Inl that sel1_key [OF u(2), of t] by (auto simp: GetRefreshTokenByHash_def query_def fault_def)
      ultimately show ?thesis by (auto simp: list_all_iff)
    next
      case (Inr rt)
      note m = GetRefreshTokenByHash_Inr [OF Inr]
      have same: "t = rt" if "t \<in> set ?t" "rt_TokenHash t = ?h \<or> rt_ID t = rt_ID rt" for t
        using that row_same [OF u(1)] row_same [OF u(2)] m by metis
      show ?thesis
      proof (cases "rt_ClientID rt = cl_ClientID client")
        case False
        then have "resp = Status 200" "st' = st"
          using run assms(2,3) \<open>PostFormValue r ''token'' \<noteq> []\<close> Inr by (auto simp: handleRevoke_def)
        then show ?thesis using False same by (auto simp: list_all_iff)
      next
        case True
        then have r: "resp = Status 200" "db_refresh_tokens (st_db st') = (if fault (st_db st) ''RevokeRefreshToken'' then ?t
            else upd (\<lambda>t. rt_ID t = rt_ID rt) (\<lambda>t. t\<lparr>rt_Revoked := True\<rparr>) ?t)"
          using run assms(2,3) False Inr by (auto simp: handleRevoke_def RevokeRefreshToken_def exec_def)
        have "t \<in> set (db_refresh_tokens (st_db st'))" if "t \<in> set ?t" "\<not> (rt_ClientID t = cl_ClientID client \<and> rt_TokenHash t = ?h)" for t
        proof -
          have "rt_ID t \<noteq> rt_ID rt" using that same [OF that(1)] m True by auto
          then show ?thesis using that(1) unfolding r(2) by (auto simp: set_upd)
        qed
        moreover have "rt_Revoked t" if "t \<in> set (db_refresh_tokens (st_db st'))" "rt_TokenHash t = ?h" "db_faults (st_db st) = []" for t
        proof -
          from that(1,3) obtain q where q: "q \<in> set ?t" "t = (if rt_ID q = rt_ID rt then q\<lparr>rt_Revoked := True\<rparr> else q)"
            unfolding r(2) by (auto simp: fault_def set_upd)
          then have "q = rt" using same [of q] that(2) by (auto split: if_splits)
          then show ?thesis using q(2) by simp
        qed
        ultimately show ?thesis using r(1) by (auto simp: list_all_iff)
      qed
    qed
  qed
qed

lemma userinfo_claims_members:
  "map_of (userinfo_claims vt user) ''sub'' = Some (JStr (usr_ID user))"
  "map_of (userinfo_claims vt user) ''email'' = (if HasScope (vt_Scope vt) ScopeEmail then Some (JStr (usr_Email user)) else None)"
  "map_of (userinfo_claims vt user) ''preferred_username'' =
    (if HasScope (vt_Scope vt) ScopeProfile then Some (JStr (usr_Username user)) else None)"
  "map_of (userinfo_claims vt user) ''groups'' = (if usr_IsAdmin user then Some (JArr [JStr ''admins'']) else None)"
  by (simp_all add: userinfo_claims_def userGroups_def)

text \<open>User information goes out only for an access token of this server whose user exists and is
  enabled, always names that user, and carries the email address and the profile only under the
  scopes that grant them.\<close>

theorem userinfo_scoped:
  assumes "run_state (handleUserinfo srv r) st = (Json c ms, st')"
  shows "\<exists>vt user. Verify (srv_lib srv) (srv_keys srv) (issuerConfig (st_settings st)) (rq_now r) (bearerToken r) = Some vt
    \<and> IsAccessToken vt \<and> user \<in> set (db_users (st_db st)) \<and> usr_ID user = vt_Subject vt \<and> \<not> usr_Disabled user
    \<and> map_of ms ''sub'' = Some (JStr (usr_ID user)) \<and> st' = st
    \<and> map_of ms ''email'' = (if HasScope (vt_Scope vt) ScopeEmail then Some (JStr (usr_Email user)) else None)
    \<and> map_of ms ''preferred_username'' = (if HasScope (vt_Scope vt) ScopeProfile then Some (JStr (usr_Username user)) else None)
    \<and> map_of ms ''groups'' = (if usr_IsAdmin user then Some (JArr [JStr ''admins'']) else None)"
proof -
  let ?v = "Verify (srv_lib srv) (srv_keys srv) (issuerConfig (st_settings st)) (rq_now r) (bearerToken r)"
  have b: "bearerToken r \<noteq> []"
    using assms by (cases "bearerToken r"; simp add: handleUserinfo_def Let_def oauthError_def)
  have "?v \<noteq> None" using assms b by (cases ?v; simp add: handleUserinfo_def Let_def oauthError_def)
  then obtain vt where v: "?v = Some vt" by blast
  have a: "IsAccessToken vt"
    using assms b v by (cases "IsAccessToken vt"; simp add: handleUserinfo_def Let_def oauthError_def)
  have "\<exists>user. GetUserByID (vt_Subject vt) (st_db st) = Inr user \<and> \<not> usr_Disabled user \<and> ms = userinfo_claims vt user \<and> st' = st"
    using assms a b v by (cases "GetUserByID (vt_Subject vt) (st_db st)";
      simp add: handleUserinfo_def Let_def oauthError_def split: if_split_asm)
  then obtain user where f: "GetUserByID (vt_Subject vt) (st_db st) = Inr user" "\<not> usr_Disabled user"
      "ms = userinfo_claims vt user" "st' = st" by blast
  show ?thesis
    by (intro exI [of _ vt] exI [of _ user]) (use a v GetUserByID_Inr [OF f(1)] f in \<open>simp add: userinfo_claims_members\<close>)
qed

subsection \<open>Footprint of the endpoint\<close>

lemma token_runs:
  assumes "runs token_op d d'"
  shows "db_users d' = db_users d \<and> db_sessions d' = db_sessions d \<and> db_clients d' = db_clients d
    \<and> db_signing_keys d' = db_signing_keys d \<and> db_pats d' = db_pats d \<and> db_settings d' = db_settings d
    \<and> map device_identity (db_devices d') = map device_identity (db_devices d)
    \<and> map ac_CodeHash (db_auth_codes d') = map ac_CodeHash (db_auth_codes d)
    \<and> map dc_ID (db_device_codes d') = map dc_ID (db_device_codes d)"
proof -
  obtain ops where ops: "list_all token_op ops" "d' = fold store_step ops d"
    using assms by (auto simp: runs_def)
  from ops(1) show ?thesis unfolding ops(2)
    by (induction ops arbitrary: d) (simp_all add: token_op_step)
qed

text \<open>Whatever a request to the token endpoint contains and however it ends, the constraints of the
  database hold afterwards; no account, session, client, signing key, personal access token or setting
  has changed, no device in anything but the time it was last seen, and no authorization code or device
  code has been added.\<close>

theorem token_endpoint_footprint:
  assumes "run_state (handleToken srv r) st = (resp, st')"
  shows "(db_ok (st_db st) \<longrightarrow> db_ok (st_db st'))
    \<and> db_users (st_db st') = db_users (st_db st) \<and> db_sessions (st_db st') = db_sessions (st_db st)
    \<and> db_clients (st_db st') = db_clients (st_db st) \<and> db_signing_keys (st_db st') = db_signing_keys (st_db st)
    \<and> db_pats (st_db st') = db_pats (st_db st) \<and> db_settings (st_db st') = db_settings (st_db st)
    \<and> map device_identity (db_devices (st_db st')) = map device_identity (db_devices (st_db st))
    \<and> map ac_CodeHash (db_auth_codes (st_db st')) = map ac_CodeHash (db_auth_codes (st_db st))
    \<and> map dc_ID (db_device_codes (st_db st')) = map dc_ID (db_device_codes (st_db st))"
proof -
  have "runs token_op (st_db st) (st_db st')"
    using performsD [OF performs_handleToken assms] .
  from token_runs [OF this] runs_db_ok [OF this] show ?thesis by blast
qed

end
