(* ===== verification/TokenSamples.thy ===== *)
theory TokenSamples
  imports TokenFacts Samples
begin

text \<open>
  A server, a state and requests in which the hypotheses of the properties of the token endpoint hold:
  a code of Alice's at the public client \<open>web\<close>, a refresh token, an approved device code, and the
  built-in client with a device. The library of this server accepts the tokens of a table.
\<close>

definition table_lib :: "(string \<Rightarrow> (claims \<times> claims) option) \<Rightarrow> jwtlib" where
  "table_lib tab = \<lparr>jl_Sign = \<lambda>alg key h c. Some ''signed'', jl_Parse = \<lambda>opts kf raw. tab raw, jl_ParseUnverified = tab,
     jl_Signed = \<lambda>raw alg key. True\<rparr>"

definition table_server :: "(string \<Rightarrow> (claims \<times> claims) option) \<Rightarrow> server" where
  "table_server tab = \<lparr>srv_lib = table_lib tab, srv_keys = sample_km, srv_fold = id,
     srv_unicode = \<lparr>uc_upper = \<lambda>_. False, uc_lower = \<lambda>_. False, uc_number = \<lambda>_. False, uc_punct_symbol = \<lambda>_. False,
       uc_to_lower = \<lambda>_ s. s\<rparr>,
     srv_errtext = \<lambda>_. ''dpop: rejected'', srv_dbtext = \<lambda>_. ''database error'', srv_IssuerAliases = [], srv_Webhooks = [],
     srv_SetupToken = ''setup'', srv_idkey = (\<lambda>pw salt t m p n. Some (take n (pw @ replicate n CHR ''k''))), 
     srv_Encrypt = (\<lambda>_ _. None), srv_Decrypt = (\<lambda>_. None),
     srv_connectors = [], srv_mailEnabled = True\<rparr>"

definition sample_view :: SettingsView where
  "sample_view = \<lparr>sv_Issuer = ''https://id'', sv_PublicURL = ''https://id'', sv_TokenTTL = 15 * Minute,
     sv_RefreshTokenTTL = 720 * Hour, sv_MaxFailedLogins = 5, sv_LockoutDuration = 15 * Minute, sv_RateLimitWindow = 15 * Minute,
     sv_LoginIPMaxAttempts = 20, sv_PasswordVerifyConcurrency = 4, sv_MaxLoginUsernameBytes = 320,
     sv_MaxLoginPasswordBytes = 1024, sv_AllowLoopbackHTTPRedirect = True, sv_AllowPrivateNetworkHTTPRedirect = False,
     sv_AllowPrivateSchemeRedirect = False, sv_PasswordMinLength = 12, sv_RequireUpper = True, sv_RequireLower = True,
     sv_RequireNumber = True, sv_RequireSymbol = False, sv_SessionIdleTimeout = 30 * Minute, sv_SessionLifetime = 12 * Hour,
     sv_CookieSecure = True, sv_MaxLogoBytes = 1000, sv_LDAPManageEnabled = False, sv_LogLevel = ''info'',
     sv_LogHTTPRequests = ''all'', sv_DeviceTokenTTL = Hour, sv_RequireDeviceApproval = False\<rparr>"

definition sample_state :: "db \<Rightarrow> srvstate" where
  "sample_state d = \<lparr>st_db = d, st_settings = sample_view, st_loginRate = newRateLimiter, st_loginIPRate = newRateLimiter,
     st_mfaRate = newRateLimiter, st_forgotRate = newRateLimiter, st_deviceCodeRate = newRateLimiter,
     st_deviceGrantRate = newRateLimiter,
     st_metrics = \<lparr>mt_logins = \<lambda>_ _. 0, mt_mfa = \<lambda>_. 0, mt_tokens = \<lambda>_. 0, mt_deviceEnroll = \<lambda>_. 0, mt_deviceAuth = \<lambda>_. 0,
       mt_deviceGrant = \<lambda>_. 0\<rparr>, st_verifyActive = 0, st_pushed = [], st_cookies = [], st_mails = []\<rparr>"

definition form_request :: "(string \<times> string) list \<Rightarrow> request" where
  "form_request ps = \<lparr>rq_Method = ''POST'', rq_Path = ''/token'', rq_FormOK = True, rq_PostForm = ps, rq_Query = [],
     rq_PathValue = [], rq_Authorization = '''', rq_DPoP = '''', rq_UserAgent = ''ua'', rq_Cookies = [],
     rq_RemoteAddr = ''10.0.0.1:4711'', rq_Body = '''', rq_now = 100, rq_uuid = (\<lambda>n. ''id/'' @ n), rq_rand = (\<lambda>n. replicate 16 CHR ''r'')\<rparr>"

lemmas token_samples = table_lib_def table_server_def sample_view_def sample_state_def form_request_def

lemma form_request_simps [simp]:
  "rq_now (form_request ps) = 100" "rq_FormOK (form_request ps)" "rq_DPoP (form_request ps) = []"
  "rq_Method (form_request ps) = ''POST''" "rq_Path (form_request ps) = ''/token''"
  "BasicAuth (form_request ps) = None" "PostFormValue (form_request ps) k = first_value ps k"
  by (simp_all add: form_request_def BasicAuth_def PostFormValue_def)

lemma sample_state_simps [simp]: "st_db (sample_state d) = d" "st_settings (sample_state d) = sample_view"
  by (simp_all add: sample_state_def)

lemma sample_issue [simp]:
  "IssueAccessTokenWithClaims (srv_lib (table_server tab)) (srv_keys (table_server tab)) cfg now sub aud scope ex = Some ''signed''"
  "IssueIDTokenWithClaims (srv_lib (table_server tab)) (srv_keys (table_server tab)) cfg now sub aud p nonce authTime ex = Some ''signed''"
  "IssueDeviceToken (srv_lib (table_server tab)) (srv_keys (table_server tab)) cfg now dev owner trust aud jkt ttl = Some ''signed''"
  by (simp_all add: IssueAccessTokenWithClaims_def IssueIDTokenWithClaims_def IssueDeviceToken_def sign_claims_def table_server_def
      table_lib_def sample_km_def DefaultSigner_def signingMethod_def AlgRS256_def)

text \<open>The database: what is looked up by a hash is stored under the hash of a known text.\<close>

definition sample_code :: AuthorizationCode where
  "sample_code = alice_code\<lparr>ac_CodeHash := HashToken ''code'', ac_Scope := ''openid'',
     ac_CodeChallenge := ComputeS256Challenge ''verifier''\<rparr>"

definition sample_refresh :: RefreshToken where
  "sample_refresh = alice_refresh\<lparr>rt_TokenHash := HashToken ''refresh'', rt_Scope := ''openid'', rt_DeviceID := []\<rparr>"

definition approved_code :: DeviceCode where
  "approved_code = sample_device_code\<lparr>dc_DeviceCodeHash := HashToken ''device'', dc_DeviceID := [],
     dc_Status := DeviceCodeApproved, dc_UserID := ''u1'', dc_AMR := ''pwd''\<rparr>"

definition token_db :: db where
  "token_db = sample_db\<lparr>db_auth_codes := [sample_code], db_refresh_tokens := [sample_refresh], db_device_codes := [approved_code]\<rparr>"

lemma token_db_simps [simp]:
  "db_users token_db = [alice, bob]" "db_faults token_db = []" "\<not> fault token_db s" "db_auth_codes token_db = [sample_code]"
  "db_refresh_tokens token_db = [sample_refresh]" "db_device_codes token_db = [approved_code]" "db_clients token_db = [web_client]"
  by (simp_all add: token_db_def sample_db_def fault_def)

lemma sample_code_simps [simp]:
  "ac_CodeHash sample_code = HashToken ''code''" "ac_Scope sample_code = ''openid''" "ac_ClientID sample_code = ''web''"
  "ac_RedirectURI sample_code = ''https://web/cb''" "ac_CodeChallenge sample_code = ComputeS256Challenge ''verifier''"
  "ac_CodeChallengeMethod sample_code = PKCEMethodS256" "ac_UserID sample_code = ''u1''" "ac_Used sample_code = False"
  "ac_ExpiresAt sample_code = 500" "ac_AMR sample_code = ''pwd''"
  by (simp_all add: sample_code_def alice_code_def PKCEMethodS256_def)

lemma sample_token_simps [simp]:
  "rt_TokenHash sample_refresh = HashToken ''refresh''" "rt_Scope sample_refresh = ''openid''" "rt_ClientID sample_refresh = ''web''"
  "rt_UserID sample_refresh = ''u1''" "rt_Revoked sample_refresh = False" "rt_ExpiresAt sample_refresh = 900"
  "rt_DeviceID sample_refresh = []" "rt_DPoPJKT sample_refresh = []" "rt_AMR sample_refresh = ''pwd''" "rt_ID sample_refresh = ''r1''"
  by (simp_all add: sample_refresh_def alice_refresh_def)

lemma approved_code_simps [simp]:
  "dc_DeviceCodeHash approved_code = HashToken ''device''" "dc_Scope approved_code = ''openid''" "dc_ClientID approved_code = ''web''"
  "dc_UserID approved_code = ''u1''" "dc_Status approved_code = DeviceCodeApproved" "dc_ExpiresAt approved_code = 620"
  "dc_DeviceID approved_code = []" "dc_LastPolledAt approved_code = 0" "dc_AMR approved_code = ''pwd''" "dc_ID approved_code = ''dc1''"
  by (simp_all add: approved_code_def sample_device_code_def)

lemma web_client_simps [simp]:
  "cl_ClientID web_client = ''web''" "cl_Disabled web_client = False" "cl_Type web_client = ''public''" "IsPublic web_client"
  by (simp_all add: web_client_def IsPublic_def ClientTypePublic_def)

lemma alice_simps [simp]: "usr_ID alice = ''u1''" "usr_Disabled alice = False"
  by (simp_all add: alice_def)

lemma challenge_not_Nil [simp]: "ComputeS256Challenge v \<noteq> []"
  by (metis ComputeS256Challenge_length list.size(3) zero_neq_numeral)

lemma challenge_ok [simp]: "VerifyPKCE v (ComputeS256Challenge v) PKCEMethodS256"
  by (simp add: VerifyPKCE_S256 ComputeS256Challenge_def RawURL_roundtrip)

lemma sample_scopes [simp]:
  "SplitScope ''openid'' = [''openid'']"
  by code_simp

definition code_request :: request where
  "code_request = form_request [(''grant_type'', ''authorization_code''), (''client_id'', ''web''), (''code'', ''code''),
     (''redirect_uri'', ''https://web/cb''), (''code_verifier'', ''verifier'')]"

definition code_response :: tokenResponse where
  "code_response = \<lparr>tr_AccessToken = ''signed'', tr_TokenType = ''Bearer'', tr_ExpiresIn = 900, tr_RefreshToken = [],
     tr_IDToken = ''signed'', tr_Scope = ''openid''\<rparr>"

lemma sample_client [simp]:
  "first_value ps ''client_id'' = ''web'' \<Longrightarrow> db_clients d = [web_client] \<Longrightarrow> db_faults d = []
    \<Longrightarrow> client_of (form_request ps) (sample_state d) = Some web_client"
  by (simp add: client_of_def authenticateClient_def GetClient_def query_def fault_def sel1_def ClientTypeConfidential_def)

lemma sample_user [simp]: "db_users d = [alice, bob] \<Longrightarrow> db_faults d = [] \<Longrightarrow> GetUserByID ''u1'' d = Inr alice"
  by (simp add: GetUserByID_def query_def fault_def sel1_def)

lemma sample_build [simp]:
  "buildAccessAndID (table_server tab) sample_view now client user ''openid'' nonce authTime tc = Some \<lparr>tr_AccessToken = ''signed'',
     tr_TokenType = tokenType tc, tr_ExpiresIn = 900, tr_RefreshToken = [], tr_IDToken = ''signed'', tr_Scope = ''openid''\<rparr>"
  by (simp add: buildAccessAndID_def Let_def HasScope_def ScopeOpenID_def sample_view_def whole_seconds_def)

lemma sample_offline [simp]: "\<not> HasScope ''openid'' ScopeOfflineAccess"
  by (simp add: HasScope_def ScopeOfflineAccess_def)

lemmas run_samples = handleToken_def first_value_def grant_for_def Let_def split_beta tokenType_def dpopJKT_def

lemma code_request_run: "fst (run_state (handleToken (table_server tab) code_request) (sample_state token_db)) = Tokens code_response"
  by (simp add: run_samples code_request_def grantAuthorizationCode_def ConsumeAuthCode_def ConsumeAuthCode_select_def
      ConsumeAuthCode_mark_def sel1_def code_response_def)

definition refresh_request :: request where
  "refresh_request = form_request [(''grant_type'', ''refresh_token''), (''client_id'', ''web''), (''refresh_token'', ''refresh'')]"

definition poll_request :: request where
  "poll_request = form_request [(''grant_type'', GrantTypeDeviceCode), (''client_id'', ''web''), (''device_code'', ''device'')]"

lemma sample_rotation: "grants_ok (db_refresh_tokens_update (rotate_rows ''r1'' None) token_db)"
  by (simp add: grants_ok_def rotate_rows_def active_token_def token_db_def sample_db_def web_client_def uniq_on_def)

lemma refresh_request_run: "fst (run_state (handleToken (table_server tab) refresh_request) (sample_state token_db)) = Tokens code_response"
  by (simp add: run_samples refresh_request_def grantRefreshToken_def GetRefreshTokenByHash_def query_def sel1_def rotate_and_issue_def
      RotateRefreshToken_def exec_def code_response_def newRefreshToken_def sample_rotation affected_def active_token_def fault_def)

lemma poll_request_run: "fst (run_state (handleToken (table_server tab) poll_request) (sample_state token_db)) = Tokens code_response"
  by (simp add: run_samples poll_request_def GrantTypeDeviceCode_def grantDeviceCode_def GetDeviceCodeByHash_def query_def sel1_def
      redeem_device_code_def ConsumeDeviceCode_def MarkDeviceCodePolled_def exec_def code_response_def newRefreshToken_def
      record_defs DeviceCodeApproved_def DeviceCodePending_def DeviceCodeDenied_def
      update_device_code_def execCount_def affected_def fault_def)

subsection \<open>A device\<close>

text \<open>The built-in client, and the device \<open>d1\<close> of Alice's whose key is the one of the sample proof.\<close>

definition enrollment_client :: Client where
  "enrollment_client = web_client\<lparr>cl_ClientID := EnrollmentClientID\<rparr>"

definition sample_jkt :: string where
  "sample_jkt = (case Thumbprint sample_jwk of Inl _ \<Rightarrow> [] | Inr t \<Rightarrow> t)"

definition sample_key_text :: string where
  "sample_key_text = (case canonical sample_jwk of Inl _ \<Rightarrow> [] | Inr c \<Rightarrow> c)"

lemma sample_jwk_key: "JWK_PublicKey sample_jwk = Inr (snd sample_signer)"
  using ParseJWK_of_key [OF sample_signer_strong] sample_signer_jwk by auto

lemma sample_canonical: "canonical sample_jwk = Inr sample_key_text"
  using canonical_defined [OF sample_jwk_key] by (auto simp: sample_key_text_def)

lemma sample_thumbprint: "Thumbprint sample_jwk = Inr sample_jkt" "sample_jkt \<noteq> []"
  by (auto simp: sample_jkt_def Thumbprint_def sample_canonical RawURLEncode_Nil dest: arg_cong [where f = length])

definition device_proof_claims :: claims where
  "device_proof_claims = proof_claims (replicate 16 CHR ''r'') ''POST'' ''https://id/token'' [] 0"

definition device_token_claims :: claims where
  "device_token_claims = [''sub'' \<mapsto> JStr ''d1'', ''token_use'' \<mapsto> JStr TokenUseDevice, ''cnf'' \<mapsto> JObj [member ''jkt'' sample_jkt]]"

definition device_assertion_claims :: claims where
  "device_assertion_claims = assertion_claims (replicate 16 CHR ''r'') ''d1'' ''https://id'' 0 Minute Map.empty"

definition device_table :: "string \<Rightarrow> (claims \<times> claims) option" where
  "device_table = [''proof'' \<mapsto> (sample_proof_header, device_proof_claims), ''actor'' \<mapsto> (Map.empty, device_token_claims),
     ''assertion'' \<mapsto> ([''alg'' \<mapsto> JStr AlgEdDSA], device_assertion_claims)]"

definition device_proof :: Proof where
  "device_proof = \<lparr>pr_JWK = sample_jwk, pr_JKT = sample_jkt, pr_Alg = AlgEdDSA, pr_JTI = randomID (replicate 16 CHR ''r''),
     pr_HTM = ''POST'', pr_HTU = ''https://id/token'', pr_ATH = [], pr_IssuedAt = 0\<rparr>"

lemma device_proof_verified:
  "VerifyProof (table_lib device_table) id 100 \<lparr>po_Skew = 0, po_HTM = ''POST'', po_HTU = ''https://id/token'', po_AccessToken = []\<rparr>
     ''proof'' = Inr device_proof"
proof -
  have "url_Parse ''https://id/token'' \<noteq> None" by code_simp
  then have "sameHTU id ''https://id/token'' ''https://id/token''" using sameHTU_refl by blast
  then show ?thesis
    using sample_header_key sample_randomID sample_thumbprint
    by (simp add: VerifyProof_def table_lib_def device_table_def device_proof_claims_def proof_claims_def Let_def DefaultSkew_def
        time_of_Unix_def Unix_def device_proof_def sample_proof_header_def [THEN fun_cong, of "''alg''"])
qed

definition sample_device :: Device where
  "sample_device = alice_device\<lparr>dev_PublicKey := sample_key_text, dev_PublicKeyAlgorithm := AlgEdDSA, dev_Fingerprint := sample_jkt\<rparr>"

definition bound_refresh :: RefreshToken where
  "bound_refresh = sample_refresh\<lparr>rt_ClientID := EnrollmentClientID, rt_DeviceID := ''d1'', rt_DPoPJKT := sample_jkt\<rparr>"

definition device_db :: db where
  "device_db = token_db\<lparr>db_clients := [web_client, enrollment_client], db_refresh_tokens := [bound_refresh],
     db_devices := [sample_device]\<rparr>"

lemma bound_refresh_simps [simp]:
  "rt_TokenHash bound_refresh = HashToken ''refresh''" "rt_Scope bound_refresh = ''openid''" "rt_ClientID bound_refresh = EnrollmentClientID"
  "rt_UserID bound_refresh = ''u1''" "rt_Revoked bound_refresh = False" "rt_ExpiresAt bound_refresh = 900"
  "rt_DeviceID bound_refresh = ''d1''" "rt_DPoPJKT bound_refresh = sample_jkt"
  by (simp_all add: bound_refresh_def)

lemma sample_device_simps [simp]:
  "dev_ID sample_device = ''d1''" "dev_OwnerUserID sample_device = ''u1''" "IsActive sample_device" "\<not> IsPending sample_device"
  "dev_PublicKey sample_device = sample_key_text" "dev_PublicKeyAlgorithm sample_device = AlgEdDSA"
  "dev_Fingerprint sample_device = sample_jkt"
  by (simp_all add: sample_device_def alice_device_def IsActive_def IsPending_def DeviceStatusActive_def DeviceStatusPending_def)

lemma device_db_simps [simp]:
  "db_users device_db = [alice, bob]" "db_faults device_db = []" "db_clients device_db = [web_client, enrollment_client]"
  "db_jtis device_db = []" "db_devices device_db = [sample_device]" "db_refresh_tokens device_db = [bound_refresh]"
  by (simp_all add: device_db_def token_db_def sample_db_def)

definition dpop_request :: "(string \<times> string) list \<Rightarrow> request" where
  "dpop_request ps = (form_request ps)\<lparr>rq_DPoP := ''proof''\<rparr>"

lemma dpop_request_simps [simp]:
  "rq_now (dpop_request ps) = 100" "rq_FormOK (dpop_request ps)" "rq_DPoP (dpop_request ps) = ''proof''"
  "rq_Method (dpop_request ps) = ''POST''" "rq_Path (dpop_request ps) = ''/token''"
  "BasicAuth (dpop_request ps) = None" "PostFormValue (dpop_request ps) k = first_value ps k"
  by (simp_all add: dpop_request_def form_request_def BasicAuth_def PostFormValue_def)

definition proved_db :: db where
  "proved_db = snd (ConsumeJTI (JTIHash sample_jkt (randomID (replicate 16 CHR ''r''))) [] (2 * DefaultSkew) 100 device_db)"

lemma dpop_verified [simp]:
  "run_state (verifyDPoP (table_server device_table) (dpop_request ps) ''proof'' []) (sample_state device_db) =
    (Inr device_proof, sample_state proved_db)"
proof -
  have "serverURLsFor (table_server device_table) sample_view (dpop_request ps) = [''https://id/token'']"
    by (simp add: serverURLsFor_def sample_view_def table_server_def TrimRight_def Let_def)
  moreover have "fst (ConsumeJTI (JTIHash sample_jkt (randomID (replicate 16 CHR ''r''))) [] (2 * DefaultSkew) 100 device_db) = Inr True"
    by (simp add: ConsumeJTI_def exec_def fault_def Let_def affected_def)
  ultimately show ?thesis
    using device_proof_verified
    by (simp add: verifyDPoP_def proof_opts_def table_server_def)
      (simp add: device_proof_def proved_db_def sample_state_def)
qed

lemma enrollment_client_simps [simp]:
  "cl_ClientID enrollment_client = EnrollmentClientID" "BuiltIn enrollment_client" "cl_Disabled enrollment_client = False"
  "cl_Type enrollment_client = ''public''"
  by (simp_all add: enrollment_client_def BuiltIn_def)

lemma proved_db_simps [simp]:
  "db_users proved_db = [alice, bob]" "db_faults proved_db = []" "db_clients proved_db = [web_client, enrollment_client]"
  "db_devices proved_db = [sample_device]" "db_refresh_tokens proved_db = [bound_refresh]"
  by (simp_all add: proved_db_def frame_simps)

lemma sample_enrollment_client [simp]:
  "first_value ps ''client_id'' = EnrollmentClientID \<Longrightarrow> db_clients d = [web_client, enrollment_client] \<Longrightarrow> db_faults d = []
    \<Longrightarrow> client_of (dpop_request ps) (sample_state d) = Some enrollment_client"
  by (simp add: client_of_def authenticateClient_def GetClient_def query_def fault_def sel1_def ClientTypeConfidential_def
      EnrollmentClientID_def)

definition exchange_request :: request where
  "exchange_request = dpop_request [(''grant_type'', GrantTypeTokenExchange), (''client_id'', EnrollmentClientID),
     (''subject_token_type'', tokenTypeRefresh), (''subject_token'', ''refresh''), (''actor_token_type'', tokenTypeAccess),
     (''actor_token'', ''actor''), (''audience'', ''web'')]"

definition exchange_response :: tokenExchangeResponse where
  "exchange_response = \<lparr>xr_AccessToken = ''signed'', xr_IssuedTokenType = tokenTypeAccess, xr_TokenType = ''Bearer'',
     xr_ExpiresIn = 900, xr_Scope = ''openid''\<rparr>"

lemma trims [simp]: "TrimSpace ''web'' = ''web''" "TrimSpace [] = []"
  by code_simp+

lemma grant_type_names [simp]:
  "GrantTypeTokenExchange \<noteq> ''authorization_code''" "GrantTypeTokenExchange \<noteq> ''refresh_token''"
  "GrantTypeTokenExchange \<noteq> ''client_credentials''" "GrantTypeTokenExchange \<noteq> GrantTypeDeviceCode"
  "GrantTypeTokenExchange \<noteq> GrantTypeJWTBearer" "GrantTypeJWTBearer \<noteq> ''authorization_code''"
  "GrantTypeJWTBearer \<noteq> ''refresh_token''" "GrantTypeJWTBearer \<noteq> ''client_credentials''" "GrantTypeJWTBearer \<noteq> GrantTypeDeviceCode"
  by (simp_all add: GrantTypeTokenExchange_def GrantTypeDeviceCode_def GrantTypeJWTBearer_def)

lemma delegated_openid: "delegated_scope [] ''openid'' (cl_AllowedScopes web_client) = Some ''openid''"
  by (simp add: delegated_scope_def intersectScopes_def web_client_def Let_def)

lemma actor_verified [simp]:
  "Verify (srv_lib (table_server device_table)) (srv_keys (table_server device_table)) cfg now ''actor'' =
    Some \<lparr>vt_Subject = ''d1'', vt_Audience = [], vt_Scope = [], vt_Email = [], vt_PreferredUsername = [], vt_DeviceID = [],
      vt_DeviceTrust = [], vt_JKT = sample_jkt, vt_Claims = device_token_claims\<rparr>"
  by (simp add: Verify_def table_server_def table_lib_def device_table_def device_token_claims_def cnf_jkt_def audienceString_def)

lemma sample_GetDevice [simp]:
  "db_devices d = [sample_device] \<Longrightarrow> db_faults d = [] \<Longrightarrow> GetDevice ''d1'' d = Inr sample_device"
  by (simp add: GetDevice_def query_def fault_def sel1_def)

lemma sample_GetClient [simp]:
  "db_clients d = [web_client, enrollment_client] \<Longrightarrow> db_faults d = [] \<Longrightarrow> GetClient ''web'' d = Inr web_client"
  by (simp add: GetClient_def query_def fault_def sel1_def)

lemma device_token_use: "device_token_claims ''token_use'' = Some (JStr TokenUseDevice)"
  by (simp add: device_token_claims_def)

lemma sample_jkt_not_Nil [simp]: "sample_jkt \<noteq> []" by (rule sample_thumbprint)

lemma exchange_request_run:
  "fst (run_state (handleToken (table_server device_table) exchange_request) (sample_state device_db)) = Exchanged exchange_response"
  by (simp add: run_samples exchange_request_def grantTokenExchange_def device_proof_def IsDeviceToken_def device_token_use
      GetRefreshTokenByHash_def query_def fault_def sel1_def exchange_for_def delegated_openid record_defs exchange_response_def
      sample_view_def whole_seconds_def)

definition bearer_request :: request where
  "bearer_request = (form_request [(''grant_type'', GrantTypeJWTBearer), (''client_id'', EnrollmentClientID),
     (''assertion'', ''assertion'')])"

definition device_assertion :: Assertion where
  "device_assertion = \<lparr>as_Issuer = ''d1'', as_Subject = ''d1'', as_JTI = randomID (replicate 16 CHR ''r''), as_KID = [],
     as_IssuedAt = 0, as_ExpiresAt = Minute, as_Claims = device_assertion_claims\<rparr>"

lemma device_assertion_claims_simps [simp]:
  "device_assertion_claims ''iss'' = Some (JStr ''d1'')" "device_assertion_claims ''sub'' = Some (JStr ''d1'')"
  "device_assertion_claims ''jti'' = Some (JStr (randomID (replicate 16 CHR ''r'')))"
  "device_assertion_claims ''iat'' = Some (jint (Unix 0))" "device_assertion_claims ''exp'' = Some (jint (Unix Minute))"
  by (simp_all add: device_assertion_claims_def assertion_claims_def MaxAssertionLifetime_def)

lemma device_assertion_verified [simp]:
  "VerifyAssertion (srv_lib (table_server device_table)) 100 (assertion_opts (Some (snd sample_signer)) AlgEdDSA ''https://id'')
     ''assertion'' = Inr device_assertion"
  using sample_randomID
  by (simp add: VerifyAssertion_def assertion_opts_def table_server_def table_lib_def device_table_def AlgEdDSA_def
      MaxAssertionLifetime_def numericDate_def jint_def time_Sub_def time_of_Unix_def Unix_def trunc_def device_assertion_def)

lemma sample_stored_key: "ParseJWK sample_key_text = Inr (required sample_jwk)" "JWK_PublicKey (required sample_jwk) = Inr (snd sample_signer)"
  using ParseJWK_canonical [OF sample_jwk_key sample_canonical] PublicKey_required [OF sample_jwk_key] by auto

lemma sample_enrollment_form [simp]:
  "first_value ps ''client_id'' = EnrollmentClientID \<Longrightarrow> db_clients d = [web_client, enrollment_client] \<Longrightarrow> db_faults d = []
    \<Longrightarrow> client_of (form_request ps) (sample_state d) = Some enrollment_client"
  by (simp add: client_of_def authenticateClient_def GetClient_def query_def fault_def sel1_def ClientTypeConfidential_def
      EnrollmentClientID_def)

lemma sample_audience: "issuerAudiences (table_server tab) sample_view = [''https://id'']"
  by (simp add: issuerAudiences_def table_server_def sample_view_def)

lemma sample_unverified: "UnverifiedIssuer (srv_lib (table_server device_table)) ''assertion'' = Some ''d1''"
  by (simp add: UnverifiedIssuer_def table_server_def table_lib_def device_table_def)

lemma sample_fresh: "fst (ConsumeJTI h i x n device_db) = Inr True"
  by (simp add: ConsumeJTI_def exec_def fault_def Let_def affected_def)

lemma bearer_request_run:
  "\<exists>ms. fst (run_state (handleToken (table_server device_table) bearer_request) (sample_state device_db)) = Json 200 ms"
  by (simp add: run_samples bearer_request_def grantJWTBearer_def sample_unverified sample_stored_key sample_audience sample_fresh
      ok_or_none_def device_assertion_def issue_device_token_def record_defs frame_simps)

subsection \<open>Witnesses\<close>

lemma run_of_fst: "fst (run_state m st) = x \<Longrightarrow> run_state m st = (x, snd (run_state m st))"
  by (simp add: prod_eq_iff)

definition plain_server :: server where
  "plain_server = table_server (\<lambda>_. None)"

lemma plain_runs:
  "run_state (handleToken plain_server code_request) (sample_state token_db) =
    (Tokens code_response, snd (run_state (handleToken plain_server code_request) (sample_state token_db)))"
  "run_state (handleToken plain_server refresh_request) (sample_state token_db) =
    (Tokens code_response, snd (run_state (handleToken plain_server refresh_request) (sample_state token_db)))"
  "run_state (handleToken plain_server poll_request) (sample_state token_db) =
    (Tokens code_response, snd (run_state (handleToken plain_server poll_request) (sample_state token_db)))"
  unfolding plain_server_def
  by (rule run_of_fst, rule code_request_run refresh_request_run poll_request_run)+

lemma sample_grants [simp]:
  "PostFormValue code_request ''grant_type'' = ''authorization_code''" "PostFormValue refresh_request ''grant_type'' = ''refresh_token''"
  "PostFormValue poll_request ''grant_type'' = GrantTypeDeviceCode" "PostFormValue bearer_request ''grant_type'' = GrantTypeJWTBearer"
  "PostFormValue exchange_request ''grant_type'' = GrantTypeTokenExchange"
  by (simp_all add: code_request_def refresh_request_def poll_request_def bearer_request_def exchange_request_def first_value_def)

theorem code_grant_sound_witness:
  "\<exists>code client user. code_redeemable code_request token_db code client user \<and> ac_Scope code = ''openid''"
  using code_grant_sound [OF plain_runs(1) sample_grants(1)]
  by (auto simp: code_redeemable_def authentic_def code_response_def)

theorem code_never_twice_witness:
  "fst (run_state (handleToken plain_server code_request) (snd (run_state (handleToken plain_server code_request) (sample_state token_db))))
     \<noteq> Tokens code_response"
  by (rule code_never_twice [OF plain_runs(1) sample_grants(1), where ops = "[]", OF _ _ sample_grants(1)]) simp_all

theorem refresh_grant_sound_witness:
  "\<exists>rt pr client user. refresh_usable refresh_request pr token_db rt client user \<and> rt_TokenHash rt = HashToken ''refresh''"
  using refresh_grant_sound [OF plain_runs(2) sample_grants(2)]
  by (auto simp: refresh_usable_def)

theorem device_grant_sound_witness:
  "\<exists>pr st1 dc client user dev. device_code_redeemable plain_server poll_request pr st1 dc client user dev \<and> dc_Scope dc = ''openid''"
  using device_grant_sound [OF plain_runs(3) sample_grants(3)]
  by (simp add: code_response_def) metis

theorem token_exchange_sound_witness:
  "\<exists>pr st1 dev rt user aud. exchangeable (table_server device_table) exchange_request (dpopJKT pr) st1 dev rt user aud"
  using token_exchange_sound [OF run_of_fst [OF exchange_request_run] sample_grants(5)] by blast


theorem token_endpoint_footprint_witness:
  "db_users (st_db (snd (run_state (handleToken plain_server code_request) (sample_state token_db)))) = [alice, bob]"
  using token_endpoint_footprint [OF plain_runs(1)] by simp

text \<open>A confidential client that asks about, and revokes, its own token.\<close>

definition api_client :: Client where
  "api_client = web_client\<lparr>cl_Type := ClientTypeConfidential, cl_ClientSecretHash := HashToken ''secret''\<rparr>"

definition api_db :: db where
  "api_db = token_db\<lparr>db_clients := [api_client]\<rparr>"

definition api_request :: request where
  "api_request = form_request [(''client_id'', ''web''), (''client_secret'', ''secret''), (''token'', ''refresh'')]"

lemma api_client_simps [simp]:
  "cl_ClientID api_client = ''web''" "cl_Disabled api_client = False" "cl_Type api_client = ClientTypeConfidential"
  "cl_ClientSecretHash api_client = HashToken ''secret''" "\<not> IsPublic api_client"
  by (simp_all add: api_client_def IsPublic_def ClientTypePublic_def ClientTypeConfidential_def)

lemma api_db_simps [simp]:
  "db_users api_db = [alice, bob]" "db_faults api_db = []" "db_clients api_db = [api_client]" "db_refresh_tokens api_db = [sample_refresh]"
  by (simp_all add: api_db_def)

lemma api_client_of [simp]: "client_of api_request (sample_state api_db) = Some api_client"
  by (simp add: client_of_def authenticateClient_def api_request_def first_value_def GetClient_def query_def fault_def sel1_def
      SecretMatches_iff)

lemma api_db_ok: "db_ok api_db"
  by (simp add: db_ok_def ok_defs users_ok_def sample_defs api_db_def token_db_def api_client_def sample_code_def sample_refresh_def
      approved_code_def)

theorem refresh_reuse_revokes_witness:
  "\<exists>st'. run_state (handleToken plain_server refresh_request) (sample_state (token_db\<lparr>db_refresh_tokens := [sample_refresh\<lparr>rt_Revoked := True\<rparr>]\<rparr>))
      = (OAuthError 400 ''invalid_grant'' ''refresh token reuse detected'', st')"
proof -
  let ?d = "token_db\<lparr>db_refresh_tokens := [sample_refresh\<lparr>rt_Revoked := True\<rparr>]\<rparr>"
  obtain resp st' where run: "run_state (handleToken plain_server refresh_request) (sample_state ?d) = (resp, st')" by fastforce
  have "client_of refresh_request (sample_state ?d) = Some web_client"
    by (simp add: refresh_request_def first_value_def)
  moreover have "GetRefreshTokenByHash (HashToken (PostFormValue refresh_request ''refresh_token'')) (st_db (sample_state ?d))
      = Inr (sample_refresh\<lparr>rt_Revoked := True\<rparr>)"
    by (simp add: GetRefreshTokenByHash_def query_def fault_def sel1_def refresh_request_def first_value_def)
  ultimately have "resp = OAuthError 400 ''invalid_grant'' ''refresh token reuse detected''"
    using refresh_reuse_revokes [OF run, of web_client "sample_refresh\<lparr>rt_Revoked := True\<rparr>"]
    by (simp add: refresh_request_def first_value_def fault_def)
  with run show ?thesis by blast
qed


theorem revocation_own_token_witness:
  "list_all rt_Revoked (filter (\<lambda>t. rt_ClientID t = ''web'' \<and> rt_TokenHash t = HashToken ''refresh'')
     (db_refresh_tokens (st_db (snd (run_state (handleRevoke api_request) (sample_state api_db))))))"
  using revocation_own_token [of api_request "sample_state api_db" "fst (run_state (handleRevoke api_request) (sample_state api_db))"
      "snd (run_state (handleRevoke api_request) (sample_state api_db))" api_client] api_db_ok
  by (simp add: list_all_iff) (simp add: api_request_def first_value_def)

definition access_table :: "string \<Rightarrow> (claims \<times> claims) option" where
  "access_table = [''at'' \<mapsto> (Map.empty, [''sub'' \<mapsto> JStr ''u1'', ''token_use'' \<mapsto> JStr TokenUseAccess, ''scope'' \<mapsto> JStr ''openid''])]"

definition userinfo_request :: request where
  "userinfo_request = (form_request [])\<lparr>rq_Authorization := ''Bearer at''\<rparr>"

theorem userinfo_scoped_witness:
  "\<exists>ms. fst (run_state (handleUserinfo (table_server access_table) userinfo_request) (sample_state token_db)) = Json 200 ms
     \<and> map_of ms ''email'' = None"
proof -
  let ?m = "run_state (handleUserinfo (table_server access_table) userinfo_request) (sample_state token_db)"
  have b: "bearerToken userinfo_request = ''at''"
    by (simp add: userinfo_request_def form_request_def bearerToken_def) code_simp
  have "\<exists>ms. fst ?m = Json 200 ms"
    by (simp add: handleUserinfo_def b Let_def Verify_def table_server_def table_lib_def access_table_def IsAccessToken_def)
  then obtain ms where "fst ?m = Json 200 ms" by blast
  note ms = run_of_fst [OF this]
  have scope: "vt_Scope vt = ''openid''"
    if "Verify (srv_lib (table_server access_table)) keys cfg now ''at'' = Some vt" for vt keys cfg now
    using that by (auto simp: Verify_def table_server_def table_lib_def access_table_def)
  have "\<not> HasScope ''openid'' ScopeEmail" by (simp add: HasScope_def ScopeEmail_def)
  with userinfo_scoped [OF ms] scope have "map_of ms ''email'' = None" unfolding b by force
  with ms show ?thesis by (metis fst_conv)
qed

end
