(* ===== verification/Authorize.thy ===== *)
theory Authorize
  imports TokenFacts
begin

text \<open>
  The authorization endpoint, the consent screen, the logout endpoint and the discovery documents
  (\<open>authorize_handler.go\<close>, \<open>consent_handler.go\<close>, \<open>logout_handler.go\<close>, \<open>discovery_handlers.go\<close>), and
  \<open>continueAfterAuth\<close> of \<open>auth_handlers.go\<close>, which the sign-in pages share. \<open>Redirect\<close> holds the target
  that is handed to \<open>http.Redirect\<close>.
\<close>

subsection \<open>Where a browser may be sent\<close>

definition loopbackRedirectMatches :: "string \<Rightarrow> string \<Rightarrow> bool" where
  "loopbackRedirectMatches registered presented =
    (case url_Parse registered of None \<Rightarrow> False
     | Some ru \<Rightarrow>
        if u_Scheme ru \<noteq> ''http'' \<or> url_Port ru \<noteq> [] then False
        else if url_Hostname ru \<noteq> ''127.0.0.1'' \<and> url_Hostname ru \<noteq> ''::1'' then False
        else (case url_Parse presented of None \<Rightarrow> False
          | Some pu \<Rightarrow> if u_Scheme pu \<noteq> ''http'' \<or> url_Hostname pu \<noteq> url_Hostname ru then False
              else u_Path pu = u_Path ru \<and> u_RawQuery pu = u_RawQuery ru \<and> u_Fragment pu = [] \<and> u_User pu = None))"

definition redirectURIAllowed :: "Client \<Rightarrow> string \<Rightarrow> bool" where
  "redirectURIAllowed c uri \<longleftrightarrow> uri \<noteq> []
     \<and> list_ex (\<lambda>allowed. allowed = uri \<or> loopbackRedirectMatches allowed uri) (cl_RedirectURIs c)"

definition postLogoutRedirectAllowed :: "Client \<Rightarrow> string \<Rightarrow> bool" where
  "postLogoutRedirectAllowed c uri \<longleftrightarrow> uri \<noteq> [] \<and> list_ex (\<lambda>allowed. allowed = uri) (cl_PostLogoutRedirectURIs c)"

definition add_state :: "string \<Rightarrow> query_values \<Rightarrow> query_values" where
  "add_state st q = (if st \<noteq> [] then values_Set ''state'' st q else q)"

definition redirectErr :: "string \<Rightarrow> string \<Rightarrow> string \<Rightarrow> string \<Rightarrow> response" where
  "redirectErr redirectURI code desc st = (case url_Parse redirectURI of
     None \<Rightarrow> Plain 400 ''invalid redirect_uri''
   | Some u \<Rightarrow> Redirect (with_query u (\<lambda>q. add_state st
        (values_Set ''error_description'' desc (values_Set ''error'' code q)))))"

definition appDomain :: "string \<Rightarrow> string" where
  "appDomain redirectURI = (case url_Parse redirectURI of None \<Rightarrow> [] | Some u \<Rightarrow> u_Host u)"

definition parseWithParam :: "string \<Rightarrow> string \<Rightarrow> string \<Rightarrow> string option" where
  "parseWithParam rawURL key v = map_option (\<lambda>u. with_query u (values_Set key v)) (url_Parse rawURL)"

text \<open>What the recovering middleware answers when a handler panics.\<close>

definition panicked :: response where
  "panicked = Plain 500 ''internal server error''"

subsection \<open>The parameters of a request\<close>

definition authCodeTTL :: duration where "authCodeTTL = 5 * Minute"
definition authRequestTTL :: duration where "authRequestTTL = 10 * Minute"

record authzParams =
  az_client :: Client
  az_responseType :: string
  az_redirectURI :: string
  az_scope :: string
  az_state :: string
  az_nonce :: string
  az_challenge :: string
  az_method :: string

text \<open>\<open>strconv.Atoi\<close>: a 64-bit integer with an optional sign.\<close>

definition Atoi :: "string \<Rightarrow> int option" where
  "Atoi s = (let signed = s \<noteq> [] \<and> (hd s = CHR ''-'' \<or> hd s = CHR ''+''); ds = (if signed then tl s else s);
       n = int (dec_val ds); v = (if signed \<and> hd s = CHR ''-'' then - n else n)
     in if ds = [] \<or> \<not> list_all is_digit ds \<or> v < - (2 ^ 63) \<or> 2 ^ 63 \<le> v then None else Some v)"

text \<open>The product of seconds and the unit of a duration is taken in 64 bits.\<close>

definition mul_int64 :: "int \<Rightarrow> int \<Rightarrow> int" where
  "mul_int64 a b = sint (word_of_int (a * b) :: 64 word)"

definition maxAgeExceeded :: "string \<Rightarrow> time \<Rightarrow> time \<Rightarrow> bool" where
  "maxAgeExceeded maxAge authTime now =
    (if maxAge = [] then False
     else case Atoi maxAge of None \<Rightarrow> False
       | Some secs \<Rightarrow> if secs < 0 then False else time_Sub now authTime > mul_int64 secs Second)"

text \<open>The errors before the target of a redirect is trusted are pages; the later ones go back to the client.\<close>

definition validateAuthorize :: "request \<Rightarrow> db \<Rightarrow> response + authzParams" where
  "validateAuthorize r d =
    (case GetClient (QueryGet r ''client_id'') d of
       Inl _ \<Rightarrow> Inl (renderError 400 ''We don't recognize the application that sent you here.'')
     | Inr client \<Rightarrow>
        let p = \<lparr>az_client = client, az_responseType = QueryGet r ''response_type'', az_redirectURI = QueryGet r ''redirect_uri'',
              az_scope = QueryGet r ''scope'', az_state = QueryGet r ''state'', az_nonce = QueryGet r ''nonce'',
              az_challenge = QueryGet r ''code_challenge'', az_method = QueryGet r ''code_challenge_method''\<rparr>;
            back = (\<lambda>code desc. Inl (redirectErr (az_redirectURI p) code desc (az_state p)))
        in if cl_Disabled client then Inl (renderError 400 ''We don't recognize the application that sent you here.'')
           else if \<not> redirectURIAllowed client (az_redirectURI p) then
             Inl (renderError 400 ''The application's return address is not registered with Omni Identity.'')
           else if az_responseType p \<noteq> ''code'' then back ''unsupported_response_type'' ''only response_type=code is supported''
           else if \<not> HasScope (az_scope p) ScopeOpenID then back ''invalid_scope'' ''the openid scope is required''
           else if \<not> ScopesSubset (SplitScope (az_scope p)) (cl_AllowedScopes client) then
             back ''invalid_scope'' ''requested scope is not allowed for this client''
           else if IsPublic client \<and> az_challenge p = [] then
             back ''invalid_request'' ''PKCE code_challenge is required for public clients''
           else if az_challenge p \<noteq> [] \<and> az_method p \<noteq> PKCEMethodS256 then
             back ''invalid_request'' ''only the S256 code_challenge_method is supported''
           else Inr p)"

subsection \<open>Parking a request and issuing a code\<close>

definition parked_request :: "request \<Rightarrow> authzParams \<Rightarrow> AuthRequest" where
  "parked_request r p = \<lparr>ar_ID = RandomToken (rq_rand r ''authreq''), ar_ClientID = cl_ClientID (az_client p),
     ar_RedirectURI = az_redirectURI p, ar_ResponseType = az_responseType p, ar_Scope = az_scope p, ar_State = az_state p,
     ar_Nonce = az_nonce p, ar_CodeChallenge = az_challenge p, ar_CodeChallengeMethod = az_method p,
     ar_CreatedAt = rq_now r, ar_ExpiresAt = rq_now r + authRequestTTL\<rparr>"

definition parkAndRedirect :: "request \<Rightarrow> authzParams \<Rightarrow> string \<Rightarrow> response prog" where
  "parkAndRedirect r p dest = do {
     let req = parked_request r p;
     res \<leftarrow> stmt (CreateAuthRequest req);
     (case res of
        Inl _ \<Rightarrow> done_with (renderError 500 ''We couldn't start the sign-in. Please try again.'')
      | Inr _ \<Rightarrow> done_with (Redirect (dest @ ''?req='' @ QueryEscape (ar_ID req)))) }"

definition issued_code :: "request \<Rightarrow> authzParams \<Rightarrow> string \<Rightarrow> time \<Rightarrow> string \<Rightarrow> AuthorizationCode" where
  "issued_code r p userID authTime amr = \<lparr>ac_CodeHash = HashToken (RandomToken (rq_rand r ''authcode'')),
     ac_ClientID = cl_ClientID (az_client p), ac_UserID = userID, ac_RedirectURI = az_redirectURI p, ac_Scope = az_scope p,
     ac_Nonce = az_nonce p, ac_CodeChallenge = az_challenge p, ac_CodeChallengeMethod = az_method p,
     ac_ExpiresAt = rq_now r + authCodeTTL, ac_Used = False, ac_CreatedAt = rq_now r, ac_AuthTime = authTime, ac_AMR = amr\<rparr>"

definition issueCode :: "request \<Rightarrow> authzParams \<Rightarrow> string \<Rightarrow> time \<Rightarrow> string \<Rightarrow> response prog" where
  "issueCode r p userID authTime amr = do {
     res \<leftarrow> stmt (CreateAuthCode (issued_code r p userID authTime amr));
     (case res of
        Inl _ \<Rightarrow> done_with (redirectErr (az_redirectURI p) ''server_error'' ''could not issue authorization code'' (az_state p))
      | Inr _ \<Rightarrow> (case url_Parse (az_redirectURI p) of
          None \<Rightarrow> done_with panicked
        | Some u \<Rightarrow> done_with (Redirect (with_query u (\<lambda>q. add_state (az_state p)
            (values_Set ''code'' (RandomToken (rq_rand r ''authcode'')) q)))))) }"

definition handleAuthorize :: "request \<Rightarrow> response prog" where
  "handleAuthorize r = do {
     v \<leftarrow> ask (validateAuthorize r);
     (case v of
        Inl resp \<Rightarrow> done_with resp
      | Inr p \<Rightarrow> do {
          let prompt = QueryGet r ''prompt'';
          cs \<leftarrow> sessions_Current r;
          (case (case cs of Inl _ \<Rightarrow> None
                 | Inr sess \<Rightarrow> if prompt = ''login'' \<or> maxAgeExceeded (QueryGet r ''max_age'') (ses_CreatedAt sess) (rq_now r)
                     then None else Some sess) of
             None \<Rightarrow>
               if prompt = ''none'' then
                 done_with (redirectErr (az_redirectURI p) ''login_required'' ''authentication is required but prompt=none was set'' (az_state p))
               else parkAndRedirect r p ''/login''
           | Some sess \<Rightarrow>
               if cl_SkipConsent (az_client p) then issueCode r p (ses_UserID sess) (ses_CreatedAt sess) (ses_AMR sess)
               else if prompt = ''none'' then
                 done_with (redirectErr (az_redirectURI p) ''consent_required'' ''consent is required but prompt=none was set'' (az_state p))
               else parkAndRedirect r p ''/consent'') }) }"

subsection \<open>Parked requests\<close>

definition params_of :: "AuthRequest \<Rightarrow> Client \<Rightarrow> authzParams" where
  "params_of req client = \<lparr>az_client = client, az_responseType = ar_ResponseType req, az_redirectURI = ar_RedirectURI req,
     az_scope = ar_Scope req, az_state = ar_State req, az_nonce = ar_Nonce req, az_challenge = ar_CodeChallenge req,
     az_method = ar_CodeChallengeMethod req\<rparr>"

definition peekAuthRequest :: "string \<Rightarrow> time \<Rightarrow> db \<Rightarrow> authzParams option" where
  "peekAuthRequest i now d =
    (case GetAuthRequest i now d of Inl _ \<Rightarrow> None
     | Inr req \<Rightarrow> (case GetClient (ar_ClientID req) d of Inl _ \<Rightarrow> None
         | Inr client \<Rightarrow> if cl_Disabled client then None
             else if \<not> redirectURIAllowed client (ar_RedirectURI req) then None
             else Some (params_of req client)))"

definition loadAuthRequest :: "string \<Rightarrow> time \<Rightarrow> db \<Rightarrow> response + authzParams" where
  "loadAuthRequest i now d =
    (case GetAuthRequest i now d of
       Inl _ \<Rightarrow> Inl (renderError 400 ''This sign-in link has expired. Please return to the application and try again.'')
     | Inr req \<Rightarrow> (case GetClient (ar_ClientID req) d of
         Inl _ \<Rightarrow> Inl (renderError 400 ''We don't recognize the application that sent you here.'')
       | Inr client \<Rightarrow> if cl_Disabled client then Inl (renderError 400 ''We don't recognize the application that sent you here.'')
           else if \<not> redirectURIAllowed client (ar_RedirectURI req) then
             Inl (renderError 400 ''The application's return address is no longer registered.'')
           else Inr (params_of req client)))"

definition continueAfterAuth :: "request \<Rightarrow> authzParams \<Rightarrow> string \<Rightarrow> string \<Rightarrow> time \<Rightarrow> string \<Rightarrow> response prog" where
  "continueAfterAuth r p reqID userID authTime amr =
    (if cl_SkipConsent (az_client p) then do {
       _ \<leftarrow> stmt (DeleteAuthRequest reqID);
       issueCode r p userID authTime amr }
     else done_with (Redirect (''/consent?req='' @ QueryEscape reqID)))"

subsection \<open>consent_handler.go\<close>

definition evtConsentGranted :: string where "evtConsentGranted = ''consent.granted''"
definition evtConsentDenied :: string where "evtConsentDenied = ''consent.denied''"

definition scopeDescriptions :: "(string \<times> string) list" where
  "scopeDescriptions = [(ScopeOpenID, ''Confirm your identity''),
     (''profile'', ''Your profile information (name, username)''),
     (''email'', ''Your email address''),
     (''offline_access'', ''Stay signed in (refresh access without re-entering your password)'')]"

definition describeScopes :: "string \<Rightarrow> (string \<times> string) list" where
  "describeScopes scope = map (\<lambda>s. (s, let desc = first_value scopeDescriptions s in if desc = [] then s else desc)) (SplitScope scope)"

text \<open>The name, logo, domain and home page of the application, as they stand on a page.\<close>

definition appViewFor :: "Client \<Rightarrow> string \<Rightarrow> (string \<times> string) list" where
  "appViewFor c redirectURI = [(''App.Name'', Label c), (''App.LogoURL'', cl_LogoURL c), (''App.Domain'', appDomain redirectURI),
     (''App.Homepage'', cl_HomepageURL c)]"

definition handleConsentForm :: "request \<Rightarrow> response prog" where
  "handleConsentForm r = (let reqID = QueryGet r ''req''; login = Redirect (''/login?req='' @ reqID) in do {
     v \<leftarrow> ask (loadAuthRequest reqID (rq_now r));
     (case v of
        Inl resp \<Rightarrow> done_with resp
      | Inr p \<Rightarrow> do {
          cs \<leftarrow> sessions_Current r;
          (case cs of
             Inl _ \<Rightarrow> done_with login
           | Inr sess \<Rightarrow> do {
               u \<leftarrow> ask (GetUserByID (ses_UserID sess));
               (case u of
                  Inl _ \<Rightarrow> done_with login
                | Inr user \<Rightarrow> form_page r 200 ''consent'' ((''Req'', reqID) # appViewFor (az_client p) (az_redirectURI p)
                    @ map (\<lambda>(s, desc). (''Scope '' @ s, desc)) (describeScopes (az_scope p))
                    @ [(''User.Username'', usr_Username user), (''User.Email'', usr_Email user)])) }) }) })"

definition handleConsentSubmit :: "request \<Rightarrow> response prog" where
  "handleConsentSubmit r = (case csrfOK r of Some resp \<Rightarrow> done_with resp
     | None \<Rightarrow> (let reqID = PostFormValue r ''req'' in do {
     v \<leftarrow> ask (loadAuthRequest reqID (rq_now r));
     (case v of
        Inl resp \<Rightarrow> done_with resp
      | Inr p \<Rightarrow> do {
          cs \<leftarrow> sessions_Current r;
          (case cs of
             Inl _ \<Rightarrow> done_with (Redirect (''/login?req='' @ reqID))
           | Inr sess \<Rightarrow>
               if PostFormValue r ''action'' \<noteq> ''allow'' then do {
                 _ \<leftarrow> stmt (DeleteAuthRequest reqID);
                 _ \<leftarrow> audit r evtConsentDenied (entry0\<lparr>ae_actorUserID := ses_UserID sess, ae_clientID := cl_ClientID (az_client p)\<rparr>);
                 done_with (redirectErr (az_redirectURI p) ''access_denied'' ''the user denied the request'' (az_state p)) }
               else do {
                 _ \<leftarrow> stmt (DeleteAuthRequest reqID);
                 _ \<leftarrow> audit r evtConsentGranted (entry0\<lparr>ae_actorUserID := ses_UserID sess, ae_clientID := cl_ClientID (az_client p),
                   ae_success := True\<rparr>);
                 issueCode r p (ses_UserID sess) (if IsZero (ses_CreatedAt sess) then rq_now r else ses_CreatedAt sess) (ses_AMR sess) }) }) }))"

subsection \<open>logout_handler.go\<close>

definition renderSignedOut :: "string \<Rightarrow> string \<Rightarrow> response" where
  "renderSignedOut continueURL notice = Page 200 ''logout'' ((''ContinueURL'', continueURL)
     # (if notice \<noteq> [] then [(''Notice'', notice)] else []))"

text \<open>The user and the client a logout request identifies: by its hint, which must agree with the client it
  names, or by the client alone.\<close>

definition logout_party :: "server \<Rightarrow> request \<Rightarrow> SettingsView \<Rightarrow> db \<Rightarrow> string \<times> Client option" where
  "logout_party srv r cur d = (let hint = QueryGet r ''id_token_hint''; clientID = QueryGet r ''client_id'';
       named = (\<lambda>i. case GetClient i d of Inl _ \<Rightarrow> None | Inr c \<Rightarrow> Some c)
     in if hint \<noteq> [] then
          (case ParseIDTokenHint (srv_lib srv) (srv_keys srv) (issuerConfig cur) (rq_now r) hint of
             None \<Rightarrow> ([], None)
           | Some vt \<Rightarrow> if clientID \<noteq> [] \<and> clientID \<noteq> vt_Audience vt then ([], None)
               else (vt_Subject vt, named (vt_Audience vt)))
        else if clientID \<noteq> [] then ([], named clientID) else ([], None))"

definition logout_reason :: "request \<Rightarrow> Client option \<Rightarrow> string" where
  "logout_reason r client =
    (if QueryGet r ''post_logout_redirect_uri'' = [] then []
     else if client = None \<and> QueryGet r ''id_token_hint'' = [] \<and> QueryGet r ''client_id'' = [] then
       ''The application asked to be returned to, but did not identify itself (no id_token_hint or client_id), so the request was ignored.''
     else if client = None then
       ''The application asked to be returned to, but could not be identified, so the request was ignored.''
     else ''The application asked to be returned to an address that is not on its post-logout redirect list, so the request was ignored.'')"

definition handleLogoutPage :: "server \<Rightarrow> request \<Rightarrow> response prog" where
  "handleLogoutPage srv r = (let postLogout = QueryGet r ''post_logout_redirect_uri''; st = QueryGet r ''state'' in do {
     cur \<leftarrow> settings_Current;
     (userID, client) \<leftarrow> ask (logout_party srv r cur);
     _ \<leftarrow> sessions_Destroy r;
     _ \<leftarrow> (case client of
            None \<Rightarrow> done_with ()
          | Some c \<Rightarrow> if userID = [] then done_with ()
              else do { _ \<leftarrow> stmt (RevokeRefreshTokensForUserClient userID (cl_ClientID c)); done_with () });
     (if (case client of None \<Rightarrow> False | Some c \<Rightarrow> postLogoutRedirectAllowed c postLogout) then
        done_with (Redirect (if st = [] then postLogout
          else (case parseWithParam postLogout ''state'' st of None \<Rightarrow> postLogout | Some u \<Rightarrow> u)))
      else done_with (renderSignedOut [] (logout_reason r client))) })"

subsection \<open>discovery_handlers.go\<close>

definition strings_json :: "string list \<Rightarrow> json" where
  "strings_json ss = JArr (map JStr ss)"

definition discovery_json :: "DiscoveryDocument \<Rightarrow> (string \<times> json) list" where
  "discovery_json doc =
    [member ''issuer'' (dd_Issuer doc), member ''authorization_endpoint'' (dd_AuthorizationEndpoint doc),
     member ''token_endpoint'' (dd_TokenEndpoint doc), member ''userinfo_endpoint'' (dd_UserinfoEndpoint doc),
     member ''device_authorization_endpoint'' (dd_DeviceAuthorizationEndpoint doc), member ''jwks_uri'' (dd_JWKSURI doc),
     member ''revocation_endpoint'' (dd_RevocationEndpoint doc), member ''introspection_endpoint'' (dd_IntrospectionEndpoint doc),
     member ''end_session_endpoint'' (dd_EndSessionEndpoint doc),
     (''response_types_supported'', strings_json (dd_ResponseTypesSupported doc)),
     (''grant_types_supported'', strings_json (dd_GrantTypesSupported doc)),
     (''subject_types_supported'', strings_json (dd_SubjectTypesSupported doc)),
     (''id_token_signing_alg_values_supported'', strings_json (dd_IDTokenSigningAlgValuesSupported doc)),
     (''scopes_supported'', strings_json (dd_ScopesSupported doc)),
     (''token_endpoint_auth_methods_supported'', strings_json (dd_TokenEndpointAuthMethodsSupported doc)),
     (''code_challenge_methods_supported'', strings_json (dd_CodeChallengeMethodsSupported doc)),
     (''prompt_values_supported'', strings_json (dd_PromptValuesSupported doc)),
     (''claims_supported'', strings_json (dd_ClaimsSupported doc)),
     (''dpop_signing_alg_values_supported'', strings_json (dd_DPoPSigningAlgValuesSupported doc))]"

definition handleDiscovery :: "response prog" where
  "handleDiscovery = do {
     cur \<leftarrow> settings_Current;
     done_with (Json 200 (discovery_json (BuildDiscovery (sv_Issuer cur) (sv_PublicURL cur)))) }"

definition handleJWKS :: "server \<Rightarrow> response prog" where
  "handleJWKS srv = done_with (Plain 200 (JWKS (srv_keys srv)))"

end
