(* ===== verification/Login.thy ===== *)
theory Login
  imports Authorize
begin

text \<open>
  Signing in: the login form, the second factor, the first-run setup, setting a password with a link, and
  asking for such a link (\<open>auth_handlers.go\<close>, \<open>mfa_handler.go\<close>, \<open>password_reset_handler.go\<close>,
  \<open>forgot_handler.go\<close>). The check of an unknown user's password against a fixed hash has no effect but the
  time it takes and is left out; the mail with a reset link is sent within the request, not beside it.
\<close>

definition evtLoginSuccess :: string where "evtLoginSuccess = ''login.success''"
definition evtLoginFailed :: string where "evtLoginFailed = ''login.failed''"
definition evtLoginLocked :: string where "evtLoginLocked = ''login.locked''"
definition evtLogout :: string where "evtLogout = ''logout''"
definition evtMFAChallenge :: string where "evtMFAChallenge = ''mfa.challenge''"
definition evtMFASuccess :: string where "evtMFASuccess = ''mfa.success''"
definition evtMFAFailed :: string where "evtMFAFailed = ''mfa.failed''"
definition evtPasswordSetTok :: string where "evtPasswordSetTok = ''password.set_via_token''"
definition evtResetRequested :: string where "evtResetRequested = ''password.reset_requested''"

subsection \<open>Small parts\<close>

definition needsSetup :: "db \<Rightarrow> bool" where
  "needsSetup d \<longleftrightarrow> CountAdmins d = Inr 0"

definition redirectAfterLogin :: "User \<Rightarrow> string" where
  "redirectAfterLogin u = (if usr_IsAdmin u then ''/admin'' else ''/account'')"

definition signedInLanding :: "string \<Rightarrow> db \<Rightarrow> string" where
  "signedInLanding userID d = (case GetUserByID userID d of Inl _ \<Rightarrow> ''/account'' | Inr u \<Rightarrow> redirectAfterLogin u)"

text \<open>The characters that are refused are single bytes, so the loop over the code points is one over bytes.\<close>

definition safeNext :: "string \<Rightarrow> string" where
  "safeNext next = (if next = [] then []
     else if list_ex (\<lambda>c. c = CHR 0x5C \<or> byte c < 32 \<or> byte c = 127) next then []
     else case url_Parse next of None \<Rightarrow> []
       | Some u \<Rightarrow> if u_Scheme u \<noteq> [] \<or> u_Host u \<noteq> [] \<or> \<not> HasPrefix next ''/'' \<or> HasPrefix next ''//'' then [] else next)"

definition loginNotices :: "(string \<times> string) list" where
  "loginNotices = [(''password-set'', ''Your password has been set. Please sign in.'')]"

definition renderLogin :: "server \<Rightarrow> request \<Rightarrow> int \<Rightarrow> string \<Rightarrow> string \<Rightarrow> string \<Rightarrow> (string \<times> string) list \<Rightarrow> response prog" where
  "renderLogin srv r status errMsg reqID next app = form_page r status ''login''
     ([(''Error'', errMsg), (''Notice'', first_value loginNotices (QueryGet r ''notice'')), (''Next'', next), (''Req'', reqID)]
      @ app @ (if srv_mailEnabled srv then [(''ForgotEnabled'', ''true'')] else []))"

text \<open>How many passwords are being checked at once is bounded. A check that panics does not give its slot back.\<close>

definition acquirePasswordVerify :: "bool prog" where
  "acquirePasswordVerify = do {
     cur \<leftarrow> settings_Current;
     let limit = (if sv_PasswordVerifyConcurrency cur < 1 then defaultPasswordVerifyConcurrency else sv_PasswordVerifyConcurrency cur);
     State (\<lambda>st. if limit \<le> st_verifyActive st then (False, st) else (True, st\<lparr>st_verifyActive := st_verifyActive st + 1\<rparr>)) }"

definition releasePasswordVerify :: "unit prog" where
  "releasePasswordVerify = modify (\<lambda>st. st\<lparr>st_verifyActive := st_verifyActive st - 1\<rparr>)"

subsection \<open>The second factor\<close>

definition mfaCookieName :: string where "mfaCookieName = ''omni_mfa''"
definition mfaChallengeTTL :: duration where "mfaChallengeTTL = 5 * Minute"

definition new_challenge :: "request \<Rightarrow> User \<Rightarrow> string \<Rightarrow> string \<Rightarrow> string \<Rightarrow> LoginChallenge" where
  "new_challenge r user next reqID amr = \<lparr>lc_ID = RandomToken (rq_rand r ''challenge''), lc_UserID = usr_ID user, lc_Next = next,
     lc_Req = reqID, lc_AMR = amr, lc_CreatedAt = rq_now r, lc_ExpiresAt = rq_now r + mfaChallengeTTL\<rparr>"

definition createMFAChallenge :: "request \<Rightarrow> User \<Rightarrow> string \<Rightarrow> string \<Rightarrow> string \<Rightarrow> unit res prog" where
  "createMFAChallenge r user next reqID amr = do {
     let ch = new_challenge r user next reqID amr;
     res \<leftarrow> stmt (CreateLoginChallenge ch);
     (case res of
        Inl e \<Rightarrow> done_with (Inl e)
      | Inr _ \<Rightarrow> do {
          _ \<leftarrow> set_cookie mfaCookieName (lc_ID ch);
          _ \<leftarrow> recordMFA ''challenge'';
          _ \<leftarrow> audit r evtMFAChallenge (entry0\<lparr>ae_actorUserID := usr_ID user, ae_username := usr_Username user\<rparr>);
          done_with (Inr ()) }) }"

definition startMFAChallenge :: "request \<Rightarrow> User \<Rightarrow> string \<Rightarrow> string \<Rightarrow> response prog" where
  "startMFAChallenge r user next reqID = do {
     res \<leftarrow> createMFAChallenge r user next reqID ''pwd'';
     (case res of
        Inl _ \<Rightarrow> done_with (Plain 500 ''could not start MFA'')
      | Inr _ \<Rightarrow> done_with (Redirect ''/login/mfa'')) }"

definition currentChallenge :: "request \<Rightarrow> db \<Rightarrow> LoginChallenge option" where
  "currentChallenge r d = (case Cookie r mfaCookieName of None \<Rightarrow> None
     | Some v \<Rightarrow> if v = [] then None else ok_or_none (GetLoginChallenge v (rq_now r) d))"

definition clearMFACookie :: "unit prog" where
  "clearMFACookie = set_cookie mfaCookieName []"

definition renderMFA :: "request \<Rightarrow> int \<Rightarrow> string \<Rightarrow> response prog" where
  "renderMFA r status errMsg = form_page r status ''mfa'' [(''Error'', errMsg)]"

definition handleMFAForm :: "request \<Rightarrow> response prog" where
  "handleMFAForm r = do {
     ch \<leftarrow> ask (currentChallenge r);
     (case ch of None \<Rightarrow> done_with (Redirect ''/login'') | Some _ \<Rightarrow> renderMFA r 200 []) }"

definition normalizeRecovery :: "server \<Rightarrow> string \<Rightarrow> string" where
  "normalizeRecovery srv code = toLower (srv_unicode srv) (RemoveAll CHR ''-'' (TrimSpace code))"

definition totp_accepts :: "server \<Rightarrow> request \<Rightarrow> User \<Rightarrow> string \<Rightarrow> bool" where
  "totp_accepts srv r user code = (case srv_Decrypt srv (usr_TOTPSecret user) of None \<Rightarrow> False
     | Some secret \<Rightarrow> VerifyTOTP secret code (rq_now r))"

definition verifySecondFactor :: "server \<Rightarrow> request \<Rightarrow> User \<Rightarrow> string \<Rightarrow> bool prog" where
  "verifySecondFactor srv r user code =
    (if code = [] then done_with False
     else if totp_accepts srv r user code then done_with True
     else do {
       res \<leftarrow> stmt (ConsumeRecoveryCode (usr_ID user) (HashToken (normalizeRecovery srv code)));
       done_with (res = Inr True) })"

text \<open>What follows a second factor that was accepted: the challenge is spent, a session is issued, and a parked
  request goes on.\<close>

definition mfa_continue :: "request \<Rightarrow> LoginChallenge \<Rightarrow> User \<Rightarrow> Session res \<Rightarrow> response prog" where
  "mfa_continue r ch user res = (case res of Inl _ \<Rightarrow> done_with (Plain 500 ''could not create session'') | Inr sess \<Rightarrow> do {
     _ \<leftarrow> recordMFA ''success'';
     _ \<leftarrow> audit r evtMFASuccess (entry0\<lparr>ae_actorUserID := usr_ID user, ae_username := usr_Username user, ae_success := True\<rparr>);
     (if lc_Req ch \<noteq> [] then do {
        v \<leftarrow> ask (loadAuthRequest (lc_Req ch) (rq_now r));
        (case v of Inl resp \<Rightarrow> done_with resp
         | Inr p \<Rightarrow> continueAfterAuth r p (lc_Req ch) (usr_ID user) (rq_now r) (ses_AMR sess)) }
      else done_with (Redirect (let dest = safeNext (lc_Next ch) in if dest = [] then redirectAfterLogin user else dest))) })"

definition mfa_accepted :: "request \<Rightarrow> LoginChallenge \<Rightarrow> User \<Rightarrow> response prog" where
  "mfa_accepted r ch user = do {
     _ \<leftarrow> rate_Reset mfaRate (''mfa|'' @ usr_ID user);
     _ \<leftarrow> stmt (DeleteLoginChallenge (lc_ID ch));
     _ \<leftarrow> clearMFACookie;
     res \<leftarrow> sessions_Issue r (usr_ID user) ((if lc_AMR ch = [] then ''pwd'' else lc_AMR ch) @ '' otp mfa'');
     mfa_continue r ch user res }"

definition mfa_refused :: "request \<Rightarrow> User \<Rightarrow> SettingsView \<Rightarrow> response prog" where
  "mfa_refused r user policy = do {
     _ \<leftarrow> rate_Fail mfaRate r (''mfa|'' @ usr_ID user) (sv_RateLimitWindow policy);
     _ \<leftarrow> recordMFA ''failure'';
     _ \<leftarrow> audit r evtMFAFailed (entry0\<lparr>ae_actorUserID := usr_ID user, ae_username := usr_Username user\<rparr>);
     renderMFA r 401 ''Invalid verification code.'' }"

definition handleMFASubmit :: "server \<Rightarrow> request \<Rightarrow> response prog" where
  "handleMFASubmit srv r = (case csrfOK r of Some resp \<Rightarrow> done_with resp | None \<Rightarrow> do {
     found \<leftarrow> ask (currentChallenge r);
     (case found of None \<Rightarrow> done_with (Redirect ''/login'') | Some ch \<Rightarrow> do {
     who \<leftarrow> ask (GetUserByID (lc_UserID ch));
     (case (case who of Inl _ \<Rightarrow> None | Inr u \<Rightarrow> if usr_Disabled u \<or> \<not> usr_MFAEnabled u then None else Some u) of
        None \<Rightarrow> do { _ \<leftarrow> clearMFACookie; done_with (Redirect ''/login'') }
      | Some user \<Rightarrow> do {
     policy \<leftarrow> settings_Current;
     allowed \<leftarrow> rate_Allowed mfaRate r (''mfa|'' @ usr_ID user) (sv_MaxFailedLogins policy) (sv_RateLimitWindow policy);
     (if \<not> allowed then renderMFA r 429 ''Too many attempts. Please wait and try again.'' else do {
     ok \<leftarrow> verifySecondFactor srv r user (TrimSpace (PostFormValue r ''code''));
     (if ok then mfa_accepted r ch user else mfa_refused r user policy) }) }) }) })"

subsection \<open>The login form\<close>

definition handleLoginForm :: "server \<Rightarrow> request \<Rightarrow> response prog" where
  "handleLoginForm srv r = do {
     setup \<leftarrow> ask needsSetup;
     (if setup then done_with (Redirect ''/setup'') else do {
     let reqID = QueryGet r ''req'';
     cs \<leftarrow> sessions_Current r;
     (case cs of
        Inr sess \<Rightarrow> do {
          parked \<leftarrow> (if reqID = [] then done_with None else ask (peekAuthRequest reqID (rq_now r)));
          (case parked of
             Some p \<Rightarrow> continueAfterAuth r p reqID (ses_UserID sess) (ses_CreatedAt sess) (ses_AMR sess)
           | None \<Rightarrow> do { dest \<leftarrow> ask (signedInLanding (ses_UserID sess)); done_with (Redirect dest) }) }
      | Inl _ \<Rightarrow>
          if reqID = [] then renderLogin srv r 200 [] reqID (safeNext (QueryGet r ''next'')) []
          else do {
            v \<leftarrow> ask (loadAuthRequest reqID (rq_now r));
            (case v of Inl resp \<Rightarrow> done_with resp
             | Inr p \<Rightarrow> renderLogin srv r 200 [] reqID (safeNext (QueryGet r ''next''))
                 (appViewFor (az_client p) (az_redirectURI p))) }) }) }"

text \<open>The connectors are asked in order; the first that accepts decides, and its user is provisioned.\<close>

fun authViaConnectors :: "connector list \<Rightarrow> request \<Rightarrow> string \<Rightarrow> string \<Rightarrow> User option prog" where
  "authViaConnectors [] r username password = done_with None"
| "authViaConnectors (c # cs) r username password = (case c r username password of
     None \<Rightarrow> authViaConnectors cs r username password
   | Some None \<Rightarrow> authViaConnectors cs r username password
   | Some (Some i) \<Rightarrow> do {
       res \<leftarrow> stmt (UpsertExternalUser (id_Connector i) (id_ExternalID i) (id_Username i) (id_Email i) (id_IsAdmin i)
         (rq_uuid r ''externaluser'') (rq_now r));
       done_with (ok_or_none res) })"

text \<open>What a login page is rendered with again: the parked request, the next path and the application.\<close>

record login_ctx =
  lx_req :: string
  lx_next :: string
  lx_app :: "(string \<times> string) list"

definition too_many :: "server \<Rightarrow> request \<Rightarrow> login_ctx \<Rightarrow> response prog" where
  "too_many srv r lx = renderLogin srv r 429 ''Too many sign-in attempts. Please wait a few minutes and try again.''
     (lx_req lx) (lx_next lx) (lx_app lx)"

definition ip_key :: "request \<Rightarrow> string" where "ip_key r = clientIP r"
definition rl_key :: "request \<Rightarrow> string \<Rightarrow> string" where "rl_key r username = clientIP r @ ''|'' @ username"

definition invalid_login :: "server \<Rightarrow> request \<Rightarrow> login_ctx \<Rightarrow> SettingsView \<Rightarrow> string \<Rightarrow> response prog" where
  "invalid_login srv r lx policy username = do {
     _ \<leftarrow> rate_Fail loginIPRate r (ip_key r) (sv_RateLimitWindow policy);
     _ \<leftarrow> rate_Fail loginRate r (rl_key r username) (sv_RateLimitWindow policy);
     renderLogin srv r 401 ''Invalid username or password.'' (lx_req lx) (lx_next lx) (lx_app lx) }"

text \<open>The local password: locked accounts are refused before it is checked, failures are counted.\<close>

definition login_local :: "server \<Rightarrow> request \<Rightarrow> login_ctx \<Rightarrow> SettingsView \<Rightarrow> string \<Rightarrow> string \<Rightarrow> User \<Rightarrow> (response + User) prog" where
  "login_local srv r lx policy username password user =
    (let answer = (\<lambda>p. do { resp \<leftarrow> p; done_with (Inl resp) });
         entry = (\<lambda>detail. entry0\<lparr>ae_actorUserID := usr_ID user, ae_username := username, ae_detail := detail\<rparr>)
     in if IsLocked user (rq_now r) then do {
          _ \<leftarrow> recordLogin ''local'' ''failure'';
          _ \<leftarrow> audit r evtLoginLocked (entry ''attempt while locked'');
          answer (renderLogin srv r 429
            ''Your account is temporarily locked due to too many failed sign-in attempts. Please try again later.''
            (lx_req lx) (lx_next lx) (lx_app lx)) }
        else do {
          acquired \<leftarrow> acquirePasswordVerify;
          (if \<not> acquired then answer (too_many srv r lx)
           else case VerifyPassword (srv_idkey srv) password (usr_PasswordHash user) of
             Panics \<Rightarrow> done_with (Inl panicked)
           | v \<Rightarrow> do {
               _ \<leftarrow> releasePasswordVerify;
               (if v \<noteq> Verdict True \<or> usr_Disabled user then do {
                  _ \<leftarrow> (if usr_Disabled user then audit r evtLoginFailed (entry ''disabled account'')
                        else do {
                          sv \<leftarrow> settings_Current;
                          res \<leftarrow> stmt (RecordFailedLogin (usr_ID user) (sv_MaxFailedLogins sv) (rq_now r + sv_LockoutDuration sv) (rq_now r));
                          (let cnt = (case res of Inl _ \<Rightarrow> 0 | Inr n \<Rightarrow> n) in
                           if sv_MaxFailedLogins sv \<le> cnt then audit r evtLoginLocked (entry ''locked after failed attempts'')
                           else audit r evtLoginFailed (entry ''bad password'')) });
                  _ \<leftarrow> recordLogin ''local'' ''failure'';
                  answer (invalid_login srv r lx policy username) }
                else do {
                  _ \<leftarrow> stmt (ResetFailedLogins (usr_ID user) (rq_now r));
                  _ \<leftarrow> recordLogin ''local'' ''success'';
                  done_with (Inr user) }) }) })"

definition login_external :: "server \<Rightarrow> request \<Rightarrow> login_ctx \<Rightarrow> SettingsView \<Rightarrow> string \<Rightarrow> string \<Rightarrow> (response + User) prog" where
  "login_external srv r lx policy username password = do {
     found \<leftarrow> authViaConnectors (srv_connectors srv) r username password;
     (case found of
        None \<Rightarrow> do {
          _ \<leftarrow> recordLogin ''ldap'' ''failure'';
          _ \<leftarrow> audit r evtLoginFailed (entry0\<lparr>ae_username := username, ae_detail := ''external: invalid''\<rparr>);
          resp \<leftarrow> invalid_login srv r lx policy username;
          done_with (Inl resp) }
      | Some authed \<Rightarrow>
          if usr_Disabled authed then do {
            _ \<leftarrow> recordLogin (usr_AuthSource authed) ''failure'';
            _ \<leftarrow> audit r evtLoginFailed (entry0\<lparr>ae_actorUserID := usr_ID authed, ae_username := username, ae_detail := ''disabled account''\<rparr>);
            resp \<leftarrow> invalid_login srv r lx policy username;
            done_with (Inl resp) }
          else do {
            _ \<leftarrow> recordLogin (usr_AuthSource authed) ''success'';
            done_with (Inr authed) }) }"

definition login_unknown :: "server \<Rightarrow> request \<Rightarrow> login_ctx \<Rightarrow> SettingsView \<Rightarrow> string \<Rightarrow> (response + User) prog" where
  "login_unknown srv r lx policy username = do {
     ok \<leftarrow> acquirePasswordVerify;
     (if \<not> ok then do { resp \<leftarrow> too_many srv r lx; done_with (Inl resp) }
      else do {
        _ \<leftarrow> releasePasswordVerify;
        _ \<leftarrow> audit r evtLoginFailed (entry0\<lparr>ae_username := username, ae_detail := ''unknown user''\<rparr>);
        _ \<leftarrow> recordLogin ''unknown'' ''failure'';
        resp \<leftarrow> invalid_login srv r lx policy username;
        done_with (Inl resp) }) }"

definition login_credentials :: "server \<Rightarrow> request \<Rightarrow> login_ctx \<Rightarrow> SettingsView \<Rightarrow> string \<Rightarrow> string \<Rightarrow> (response + User) prog" where
  "login_credentials srv r lx policy username password = do {
     found \<leftarrow> ask (GetUserByUsername username);
     (case (case found of Inl _ \<Rightarrow> None | Inr u \<Rightarrow> if IsLocal u then Some u else None) of
        Some user \<Rightarrow> login_local srv r lx policy username password user
      | None \<Rightarrow> if srv_connectors srv \<noteq> [] then login_external srv r lx policy username password
          else login_unknown srv r lx policy username) }"

text \<open>What follows verified credentials: a second factor, or a session.\<close>

definition login_done :: "request \<Rightarrow> login_ctx \<Rightarrow> authzParams option \<Rightarrow> string \<Rightarrow> User \<Rightarrow> response prog" where
  "login_done r lx parked username user = do {
     _ \<leftarrow> rate_Reset loginRate (rl_key r username);
     _ \<leftarrow> rate_Reset loginIPRate (ip_key r);
     (if usr_MFAEnabled user then startMFAChallenge r user (lx_next lx) (lx_req lx)
      else do {
        res \<leftarrow> sessions_Issue r (usr_ID user) ''pwd'';
        (case res of
           Inl _ \<Rightarrow> done_with (Plain 500 ''could not create session'')
         | Inr sess \<Rightarrow> do {
             _ \<leftarrow> audit r evtLoginSuccess (entry0\<lparr>ae_actorUserID := usr_ID user, ae_username := username, ae_success := True\<rparr>);
             (case parked of
                Some p \<Rightarrow> continueAfterAuth r p (lx_req lx) (usr_ID user) (rq_now r) (ses_AMR sess)
              | None \<Rightarrow> done_with (Redirect (if lx_next lx = [] then redirectAfterLogin user else lx_next lx))) }) }) }"

definition login_attempt :: "server \<Rightarrow> request \<Rightarrow> login_ctx \<Rightarrow> authzParams option \<Rightarrow> SettingsView \<Rightarrow> string \<Rightarrow> response prog" where
  "login_attempt srv r lx parked policy username = (let password = PostFormValue r ''password'' in do {
     allowed \<leftarrow> rate_Allowed loginRate r (rl_key r username) (sv_MaxFailedLogins policy) (sv_RateLimitWindow policy);
     (if \<not> allowed then too_many srv r lx
      else if sv_MaxLoginUsernameBytes policy < int (length username) \<or> sv_MaxLoginPasswordBytes policy < int (length password)
      then invalid_login srv r lx policy username
      else do {
        v \<leftarrow> login_credentials srv r lx policy username password;
        (case v of Inl resp \<Rightarrow> done_with resp | Inr user \<Rightarrow> login_done r lx parked username user) }) })"

definition handleLoginSubmit :: "server \<Rightarrow> request \<Rightarrow> response prog" where
  "handleLoginSubmit srv r = (case csrfOK r of Some resp \<Rightarrow> done_with resp | None \<Rightarrow> do {
     let reqID = PostFormValue r ''req'';
     let next = safeNext (PostFormValue r ''next'');
     let username = TrimSpace (PostFormValue r ''username'');
     policy \<leftarrow> settings_Current;
     allowed \<leftarrow> rate_Allowed loginIPRate r (ip_key r) (sv_LoginIPMaxAttempts policy) (sv_RateLimitWindow policy);
     (if \<not> allowed then too_many srv r \<lparr>lx_req = reqID, lx_next = next, lx_app = []\<rparr>
      else if reqID = [] then login_attempt srv r \<lparr>lx_req = reqID, lx_next = next, lx_app = []\<rparr> None policy username
      else do {
        parked \<leftarrow> ask (peekAuthRequest reqID (rq_now r));
        (case parked of
           Some p \<Rightarrow> login_attempt srv r \<lparr>lx_req = reqID, lx_next = next, lx_app = appViewFor (az_client p) (az_redirectURI p)\<rparr>
             (Some p) policy username
         | None \<Rightarrow> do {
             cs \<leftarrow> sessions_Current r;
             (case cs of
                Inr sess \<Rightarrow> do { dest \<leftarrow> ask (signedInLanding (ses_UserID sess)); done_with (Redirect dest) }
              | Inl _ \<Rightarrow> do {
                  v \<leftarrow> ask (loadAuthRequest reqID (rq_now r));
                  done_with (case v of Inl resp \<Rightarrow> resp | Inr _ \<Rightarrow> Status 200) }) }) }) })"

text \<open>\<open>POST /logout\<close>: a body that does not parse only leaves the token out.\<close>

definition handleLogout :: "request \<Rightarrow> response prog" where
  "handleLogout r = (if \<not> csrf_valid r then done_with (Plain 403 ''invalid CSRF token'') else do {
     cs \<leftarrow> sessions_Current r;
     res \<leftarrow> sessions_Destroy r;
     (case res of
        Inl _ \<Rightarrow> done_with (Plain 500 ''logout failed'')
      | Inr _ \<Rightarrow> do {
          _ \<leftarrow> audit r evtLogout (entry0\<lparr>ae_actorUserID := (case cs of Inl _ \<Rightarrow> [] | Inr sess \<Rightarrow> ses_UserID sess), ae_success := True\<rparr>);
          done_with (renderSignedOut [] []) }) })"

subsection \<open>First-run setup\<close>

definition setupTokenRequired :: "server \<Rightarrow> SettingsView \<Rightarrow> bool" where
  "setupTokenRequired srv cur = (if TrimSpace (srv_SetupToken srv) \<noteq> [] then True
     else case url_Parse (sv_PublicURL cur) of None \<Rightarrow> True | Some u \<Rightarrow> \<not> isLoopbackHost (url_Hostname u))"

definition validSetupToken :: "server \<Rightarrow> SettingsView \<Rightarrow> string \<Rightarrow> bool" where
  "validSetupToken srv cur got = (let want = TrimSpace (srv_SetupToken srv); g = TrimSpace got
     in if want = [] then \<not> setupTokenRequired srv cur
        else if length g \<noteq> length want then False
        else ConstantTimeCompare g want)"

definition renderSetup :: "server \<Rightarrow> request \<Rightarrow> SettingsView \<Rightarrow> int \<Rightarrow> string \<Rightarrow> string \<Rightarrow> string \<Rightarrow> response prog" where
  "renderSetup srv r cur status msg username email = form_page r status ''setup''
     ([(''Error'', msg), (''Username'', username), (''Email'', email)]
      @ (if setupTokenRequired srv cur then [(''TokenRequired'', ''true'')] else []))"

definition handleSetupForm :: "server \<Rightarrow> request \<Rightarrow> response prog" where
  "handleSetupForm srv r = do {
     setup \<leftarrow> ask needsSetup;
     (if \<not> setup then done_with (Redirect ''/login'') else do {
        cur \<leftarrow> settings_Current;
        renderSetup srv r cur 200 [] [] [] }) }"

definition first_admin :: "request \<Rightarrow> string \<Rightarrow> string \<Rightarrow> string \<Rightarrow> User" where
  "first_admin r username email hash = \<lparr>usr_ID = rq_uuid r ''user'', usr_Username = username, usr_Email = email,
     usr_PasswordHash = hash, usr_IsAdmin = True, usr_Disabled = False, usr_AuthSource = [], usr_ExternalID = [],
     usr_FailedLoginCount = 0, usr_LockedUntil = 0, usr_MFAEnabled = False, usr_TOTPSecret = [], usr_WebAuthnHandle = [],
     usr_CreatedAt = rq_now r, usr_UpdatedAt = rq_now r\<rparr>"

definition setup_account :: "server \<Rightarrow> request \<Rightarrow> SettingsView \<Rightarrow> response prog" where
  "setup_account srv r cur = (let username = TrimSpace (PostFormValue r ''username''); email = TrimSpace (PostFormValue r ''email'');
       password = PostFormValue r ''password''; again = (\<lambda>msg. renderSetup srv r cur 400 msg username email);
       msg = ValidatePassword (srv_unicode srv) password username email (view_PasswordPolicy cur)
     in if username = [] \<or> email = [] then again ''Username and email are required.''
        else if msg \<noteq> [] then again msg
        else case HashPassword (srv_idkey srv) (Some (rq_rand r ''salt'')) password of
          None \<Rightarrow> done_with (Plain 500 ''internal error'')
        | Some hash \<Rightarrow> do {
            let user = first_admin r username email hash;
            made \<leftarrow> stmt (CreateUser user);
            (case made of
               Inl _ \<Rightarrow> again ''Could not create the account (username or email may be taken).''
             | Inr _ \<Rightarrow> do {
                 res \<leftarrow> sessions_Issue r (usr_ID user) ''pwd'';
                 (case res of
                    Inl _ \<Rightarrow> done_with (Plain 500 ''could not create session'')
                  | Inr _ \<Rightarrow> do {
                      _ \<leftarrow> audit r evtLoginSuccess (entry0\<lparr>ae_actorUserID := usr_ID user, ae_username := username,
                        ae_success := True, ae_detail := ''first-run admin''\<rparr>);
                      done_with (Redirect ''/admin'') }) }) })"

definition handleSetupSubmit :: "server \<Rightarrow> request \<Rightarrow> response prog" where
  "handleSetupSubmit srv r = do {
     setup \<leftarrow> ask needsSetup;
     (if \<not> setup then done_with (Redirect ''/login'') else case csrfOK r of
        Some resp \<Rightarrow> done_with resp
      | None \<Rightarrow> do {
          cur \<leftarrow> settings_Current;
          (if \<not> validSetupToken srv cur (PostFormValue r ''setup_token'') then done_with (Plain 403 ''invalid setup token'')
           else setup_account srv r cur) }) }"

subsection \<open>password_reset_handler.go\<close>

definition activationTokenTTL :: duration where "activationTokenTTL = 72 * Hour"
definition resetTokenTTL :: duration where "resetTokenTTL = Hour"

definition new_password_token :: "request \<Rightarrow> string \<Rightarrow> string \<Rightarrow> duration \<Rightarrow> PasswordToken" where
  "new_password_token r userID purpose ttl = \<lparr>pt_ID = rq_uuid r ''passwordtoken'', pt_UserID = userID,
     pt_TokenHash = HashToken (RandomToken (rq_rand r ''passwordtoken'')), pt_Purpose = purpose, pt_Used = False,
     pt_ExpiresAt = rq_now r + ttl, pt_CreatedAt = rq_now r\<rparr>"

definition issuePasswordToken :: "request \<Rightarrow> string \<Rightarrow> string \<Rightarrow> duration \<Rightarrow> string option prog" where
  "issuePasswordToken r userID purpose ttl = do {
     res \<leftarrow> stmt (CreatePasswordToken (new_password_token r userID purpose ttl));
     (case res of
        Inl _ \<Rightarrow> done_with None
      | Inr _ \<Rightarrow> do {
          cur \<leftarrow> settings_Current;
          done_with (Some (TrimRight CHR ''/'' (sv_PublicURL cur) @ ''/set-password?token=''
            @ RandomToken (rq_rand r ''passwordtoken''))) }) }"

definition renderSetPassword :: "request \<Rightarrow> int \<Rightarrow> string \<Rightarrow> string \<Rightarrow> response prog" where
  "renderSetPassword r status token errMsg = do {
     cur \<leftarrow> settings_Current;
     form_page r status ''set_password'' [(''Token'', token), (''Policy'', Describe (view_PasswordPolicy cur)), (''Error'', errMsg)] }"

definition bad_link :: response where
  "bad_link = renderError 400 ''This password link is invalid or has expired. Ask an administrator for a new one.''"

definition handleSetPasswordForm :: "request \<Rightarrow> response prog" where
  "handleSetPasswordForm r = (let raw = QueryGet r ''token'' in
     if raw = [] then done_with (renderError 400 ''This password link is missing its token.'')
     else do {
       tok \<leftarrow> ask (GetValidPasswordToken (HashToken raw) (rq_now r));
       (case tok of Inl _ \<Rightarrow> done_with bad_link | Inr _ \<Rightarrow> renderSetPassword r 200 raw []) })"

definition store_password :: "server \<Rightarrow> request \<Rightarrow> User \<Rightarrow> PasswordToken \<Rightarrow> string \<Rightarrow> response prog" where
  "store_password srv r user tok password =
    (case HashPassword (srv_idkey srv) (Some (rq_rand r ''salt'')) password of
       None \<Rightarrow> done_with (Plain 500 ''internal error'')
     | Some hash \<Rightarrow> do {
         res \<leftarrow> stmt (SetUserPassword (usr_ID user) hash (rq_now r));
         (case res of
            Inl _ \<Rightarrow> done_with (Plain 500 ''could not set password'')
          | Inr _ \<Rightarrow> do {
              _ \<leftarrow> stmt (DeletePasswordTokensForUser (usr_ID user));
              _ \<leftarrow> stmt (DeleteSessionsForUser (usr_ID user) []);
              _ \<leftarrow> audit r evtPasswordSetTok (entry0\<lparr>ae_actorUserID := usr_ID user, ae_username := usr_Username user,
                ae_success := True, ae_detail := pt_Purpose tok\<rparr>);
              done_with (Redirect ''/login?notice=password-set'') }) })"

definition handleSetPasswordSubmit :: "server \<Rightarrow> request \<Rightarrow> response prog" where
  "handleSetPasswordSubmit srv r = (case csrfOK r of Some resp \<Rightarrow> done_with resp | None \<Rightarrow>
    (let raw = PostFormValue r ''token''; password = PostFormValue r ''password''; confirm = PostFormValue r ''confirm'' in do {
     found \<leftarrow> ask (GetValidPasswordToken (HashToken raw) (rq_now r));
     (case found of Inl _ \<Rightarrow> done_with bad_link | Inr tok \<Rightarrow> do {
     who \<leftarrow> ask (GetUserByID (pt_UserID tok));
     (case who of Inl _ \<Rightarrow> done_with (renderError 400 ''This account is no longer available.'') | Inr user \<Rightarrow>
     if \<not> IsLocal user then done_with (renderError 400 ''This account is managed by an external directory.'')
     else if password \<noteq> confirm then renderSetPassword r 400 raw ''The two passwords don't match.''
     else do {
     cur \<leftarrow> settings_Current;
     let msg = ValidatePassword (srv_unicode srv) password (usr_Username user) (usr_Email user) (view_PasswordPolicy cur);
     (if msg \<noteq> [] then renderSetPassword r 400 raw msg
      else do {
     used \<leftarrow> stmt (ConsumePasswordToken (HashToken raw) (rq_now r));
     (case used of
        Inr (Some _) \<Rightarrow> store_password srv r user tok password
      | _ \<Rightarrow> done_with (renderError 400 ''This password link is invalid or has expired.'')) }) }) }) }))"

subsection \<open>forgot_handler.go\<close>

definition lookupUser :: "string \<Rightarrow> db \<Rightarrow> User option" where
  "lookupUser identifier d = (if identifier = [] then None
     else case GetUserByUsername identifier d of Inr u \<Rightarrow> Some u
       | Inl _ \<Rightarrow> ok_or_none (GetUserByEmail identifier d))"

definition nl :: string where "nl = [CHR 0x0A]"

definition reset_mail :: "string \<Rightarrow> string" where
  "reset_mail link = ''Hello,'' @ nl @ nl @ ''A password reset was requested for your account. ''
     @ ''Use the link below to choose a new password. It is valid for 1 hour and can be used once.'' @ nl @ nl
     @ link @ nl @ nl @ ''If you did not request this, you can ignore this message.'' @ nl"

definition dispatchReset :: "request \<Rightarrow> string \<Rightarrow> unit prog" where
  "dispatchReset r identifier = do {
     found \<leftarrow> ask (lookupUser identifier);
     (case (case found of None \<Rightarrow> None | Some u \<Rightarrow> if usr_Disabled u \<or> \<not> IsLocal u then None else Some u) of
        None \<Rightarrow> done_with ()
      | Some user \<Rightarrow> do {
          link \<leftarrow> issuePasswordToken r (usr_ID user) PasswordTokenReset resetTokenTTL;
          (case link of
             None \<Rightarrow> done_with ()
           | Some l \<Rightarrow> modify (\<lambda>st. st\<lparr>st_mails := st_mails st @ [(usr_Email user, reset_mail l)]\<rparr>)) }) }"

definition handleForgotForm :: "server \<Rightarrow> request \<Rightarrow> response prog" where
  "handleForgotForm srv r = (if \<not> srv_mailEnabled srv then
       done_with (renderError 404 ''Password reset by email isn't enabled. Please contact an administrator.'')
     else form_page r 200 ''forgot'' [])"

definition handleForgotSubmit :: "server \<Rightarrow> request \<Rightarrow> response prog" where
  "handleForgotSubmit srv r = (if \<not> srv_mailEnabled srv then
       done_with (renderError 404 ''Password reset by email isn't enabled.'')
     else case csrfOK r of Some resp \<Rightarrow> done_with resp | None \<Rightarrow> do {
       policy \<leftarrow> settings_Current;
       allowed \<leftarrow> rate_Allowed forgotRate r (clientIP r) (sv_MaxFailedLogins policy) (sv_RateLimitWindow policy);
       _ \<leftarrow> (if allowed then do {
              _ \<leftarrow> rate_Fail forgotRate r (clientIP r) (sv_RateLimitWindow policy);
              dispatchReset r (TrimSpace (PostFormValue r ''identifier'')) }
            else done_with ());
       _ \<leftarrow> audit r evtResetRequested (entry0\<lparr>ae_detail := ''self-service forgot-password''\<rparr>);
       form_page r 200 ''forgot'' [(''Sent'', ''true'')] })"

end
