(* ===== verification/HandlerLogic.thy ===== *)
theory HandlerLogic
  imports TokenFacts
begin

text \<open>
  A Hoare logic for the handlers. \<open>triple I A m Q\<close>: run in a state whose settings and database satisfy
  \<open>I\<close>, the program \<open>m\<close> keeps \<open>I\<close>, does to the database only what operations in \<open>A\<close> do, and answers
  something that satisfies \<open>Q\<close>. The invariant is what the handler knows of the database it started
  from, and lets what one call has read be used when a later one writes. The rules follow the constructs
  of a program, with a rule for each primitive whose result matters.
\<close>

definition triple :: "(SettingsView \<Rightarrow> db \<Rightarrow> bool) \<Rightarrow> (store_op \<Rightarrow> bool) \<Rightarrow> 'a prog \<Rightarrow> ('a \<Rightarrow> bool) \<Rightarrow> bool" where
  "triple I A m Q \<longleftrightarrow> (\<forall>st x st'. run_state m st = (x, st') \<longrightarrow> I (st_settings st) (st_db st) \<longrightarrow>
     I (st_settings st) (st_db st') \<and> st_settings st' = st_settings st \<and> runs A (st_db st) (st_db st') \<and> Q x)"

definition stable_inv :: "(SettingsView \<Rightarrow> db \<Rightarrow> bool) \<Rightarrow> (store_op \<Rightarrow> bool) \<Rightarrow> bool" where
  "stable_inv I A \<longleftrightarrow> (\<forall>cur d op. A op \<longrightarrow> I cur d \<longrightarrow> I cur (store_step op d))"

named_theorems triple_rules \<open>rules of the logic\<close>

lemma tripleD:
  assumes "triple I A m Q" and "run_state m st = (x, st')" and "I (st_settings st) (st_db st)"
  shows "Q x" and "runs A (st_db st) (st_db st')" and "I (st_settings st) (st_db st')" and "st_settings st' = st_settings st"
  using assms by (auto simp: triple_def)

lemma stable_runs: "stable_inv I A \<Longrightarrow> I cur d \<Longrightarrow> runs A d d' \<Longrightarrow> I cur d'"
proof -
  assume s: "stable_inv I A" and i: "I cur d" and r: "runs A d d'"
  obtain ops where ops: "list_all A ops" "d' = fold store_step ops d" using r by (auto simp: runs_def)
  show "I cur d'"
    using ops(1) i unfolding ops(2)
  proof (induction ops arbitrary: d)
    case (Cons op ops)
    then have "I cur (store_step op d)" using s by (simp add: stable_inv_def)
    then show ?case using Cons by simp
  qed simp
qed

lemma triple_performs:
  assumes "performs A m" and "stable_inv I A" and "\<And>cur d st. I cur d \<Longrightarrow> st_settings st = cur \<Longrightarrow> st_db st = d \<Longrightarrow> Q (fst (run_state m st))"
  shows "triple I A m Q"
  using assms performsD [OF assms(1)] performs_settingsD [OF assms(1)]
  unfolding triple_def by (metis fst_conv stable_runs)

lemma triple_conseq: "triple I A m Q \<Longrightarrow> (\<And>x. Q x \<Longrightarrow> R x) \<Longrightarrow> triple I A m R"
  by (auto simp: triple_def)

lemma triple_top: "performs A m \<Longrightarrow> stable_inv I A \<Longrightarrow> triple I A m (\<lambda>_. True)"
  by (rule triple_performs) simp_all

lemma triple_return [triple_rules]: "Q x \<Longrightarrow> triple I A (done_with x) Q"
  by (auto simp: triple_def)

text \<open>The rule of composition, with what is known of the first part's answer.\<close>

lemma triple_bind:
  assumes "triple I A m P" and "\<And>x. P x \<Longrightarrow> triple I A (g x) Q"
  shows "triple I A (State_Monad.bind m g) Q"
  unfolding triple_def
proof (intro allI impI)
  fix st y st2
  assume run: "run_state (State_Monad.bind m g) st = (y, st2)" and i: "I (st_settings st) (st_db st)"
  obtain x st1 where m: "run_state m st = (x, st1)" by fastforce
  have g: "run_state (g x) st1 = (y, st2)" using run m by simp
  note f = tripleD [OF assms(1) m i]
  have i1: "I (st_settings st1) (st_db st1)" using f by simp
  note h = tripleD [OF assms(2) [OF f(1)] g i1]
  show "I (st_settings st) (st_db st2) \<and> st_settings st2 = st_settings st \<and> runs A (st_db st) (st_db st2) \<and> Q y"
    using f h by (auto intro: runs_trans)
qed

lemma triple_bind_any:
  assumes "performs A m" and "stable_inv I A" and "\<And>x. triple I A (g x) Q"
  shows "triple I A (State_Monad.bind m g) Q"
  by (rule triple_bind [OF triple_top [OF assms(1,2)] assms(3)])

lemma triple_ask:
  assumes "\<And>cur d. I cur d \<Longrightarrow> triple I A (g (f d)) Q"
  shows "triple I A (State_Monad.bind (ask f) g) Q"
  by (rule triple_bind [where P = "\<lambda>x. triple I A (g x) Q"])
     (auto simp: triple_def dest: assms [unfolded triple_def])

lemma triple_settings:
  assumes "\<And>cur d. I cur d \<Longrightarrow> triple I A (g cur) Q"
  shows "triple I A (State_Monad.bind settings_Current g) Q"
  by (rule triple_bind [where P = "\<lambda>x. triple I A (g x) Q"])
     (auto simp: triple_def dest: assms [unfolded triple_def])

lemma triple_stmt:
  assumes "performs A (stmt f)" and "stable_inv I A" and "\<And>cur d. I cur d \<Longrightarrow> triple I A (g (fst (f d))) Q"
  shows "triple I A (State_Monad.bind (stmt f) g) Q"
  by (rule triple_bind [where P = "\<lambda>x. triple I A (g x) Q"], rule triple_performs [OF assms(1,2)])
     (simp_all add: assms(3))

text \<open>A program that depends on what it is given.\<close>

lemma triple_if [triple_rules]:
  "(b \<Longrightarrow> triple I A m Q) \<Longrightarrow> (\<not> b \<Longrightarrow> triple I A n Q) \<Longrightarrow> triple I A (if b then m else n) Q"
  by simp

lemma triple_option [triple_rules]:
  "(x = None \<Longrightarrow> triple I A m Q) \<Longrightarrow> (\<And>y. x = Some y \<Longrightarrow> triple I A (f y) Q) \<Longrightarrow> triple I A (case x of None \<Rightarrow> m | Some y \<Rightarrow> f y) Q"
  by (cases x) simp_all

lemma triple_sum [triple_rules]:
  "(\<And>e. x = Inl e \<Longrightarrow> triple I A (f e) Q) \<Longrightarrow> (\<And>y. x = Inr y \<Longrightarrow> triple I A (g y) Q)
    \<Longrightarrow> triple I A (case x of Inl e \<Rightarrow> f e | Inr y \<Rightarrow> g y) Q"
  by (cases x) simp_all

lemma triple_prod [triple_rules]:
  "(\<And>a b. x = (a, b) \<Longrightarrow> triple I A (f a b) Q) \<Longrightarrow> triple I A (case x of (a, b) \<Rightarrow> f a b) Q"
  by (cases x) simp

lemma triple_let [triple_rules]: "(\<And>y. y = x \<Longrightarrow> triple I A (f y) Q) \<Longrightarrow> triple I A (let y = x in f y) Q"
  by simp

subsection \<open>Sessions and pages\<close>

text \<open>A request has a session when its cookie names a row that has neither expired nor been idle too long.\<close>

definition session_live :: "SettingsView \<Rightarrow> request \<Rightarrow> Session \<Rightarrow> bool" where
  "session_live cur r s \<longleftrightarrow> Cookie r sessionCookieName = Some (ses_ID s) \<and> rq_now r \<le> ses_ExpiresAt s
     \<and> (0 < sv_SessionIdleTimeout cur \<longrightarrow>
         time_Sub (rq_now r) (if IsZero (ses_LastSeenAt s) then ses_CreatedAt s else ses_LastSeenAt s) \<le> sv_SessionIdleTimeout cur)"

definition signed_in :: "SettingsView \<Rightarrow> db \<Rightarrow> request \<Rightarrow> Session \<Rightarrow> bool" where
  "signed_in cur d r sess \<longleftrightarrow> (\<exists>s \<in> set (db_sessions d). session_live cur r s
     \<and> sess\<lparr>ses_LastSeenAt := 0\<rparr> = s\<lparr>ses_LastSeenAt := 0\<rparr>)"

lemma Current_signed_in:
  assumes "fst (Current (sessionConfig cur) (Cookie r sessionCookieName) (rq_now r) d) = Inr sess"
  shows "signed_in cur d r sess"
proof -
  obtain i where c: "Cookie r sessionCookieName = Some i" "i \<noteq> []"
    using assms by (auto simp: Current_def with_cookie_def split: if_splits option.splits)
  obtain s where s: "GetSession i (rq_now r) d = Inr s"
    using assms c by (auto simp: Current_def with_cookie_def split: if_splits sum.splits)
  show ?thesis
    unfolding signed_in_def session_live_def using assms c s GetSession_Inr [OF s]
    by (intro bexI [of _ s]) (auto simp: Current_def with_cookie_def Let_def sessionConfig_def split: if_splits)
qed

lemma signed_in_fields:
  "signed_in cur d r sess \<Longrightarrow> \<exists>s \<in> set (db_sessions d). session_live cur r s \<and> ses_UserID s = ses_UserID sess
     \<and> ses_AMR s = ses_AMR sess \<and> ses_CreatedAt s = ses_CreatedAt sess \<and> ses_ID s = ses_ID sess"
  unfolding signed_in_def
  by (metis Session.ext_inject Session.surjective Session.update_convs(7))

text \<open>The session of a request is read under an invariant that does not depend on when sessions were last seen.\<close>

lemma triple_Current:
  assumes "performs A (sessions_Current r)" and "stable_inv I A"
    and "\<And>e. triple I A (g (Inl e)) Q"
    and "\<And>cur d sess. I cur d \<Longrightarrow> signed_in cur d r sess \<Longrightarrow> triple I A (g (Inr sess)) Q"
  shows "triple I A (State_Monad.bind (sessions_Current r) g) Q"
proof (rule triple_bind [where P = "\<lambda>x. \<forall>sess. x = Inr sess \<longrightarrow> (\<exists>cur d. I cur d \<and> signed_in cur d r sess)"])
  show "triple I A (sessions_Current r) (\<lambda>x. \<forall>sess. x = Inr sess \<longrightarrow> (\<exists>cur d. I cur d \<and> signed_in cur d r sess))"
    by (rule triple_performs [OF assms(1,2)]) (auto simp: sessions_Current_def dest!: Current_signed_in)
next
  fix x :: "session_err + Session" assume "\<forall>sess. x = Inr sess \<longrightarrow> (\<exists>cur d. I cur d \<and> signed_in cur d r sess)"
  then show "triple I A (g x) Q" using assms(3,4) by (cases x) auto
qed

lemma triple_form_page [triple_rules]:
  assumes "stable_inv I A" and "\<And>vs'. Q (Page s n vs')"
  shows "triple I A (form_page r s n vs) Q"
  unfolding form_page_def by (intro triple_bind_any triple_rules performs_rules assms)

end
