(* ===== verification/AuthorizeFacts.thy ===== *)
theory AuthorizeFacts
  imports Authorize HandlerLogic
begin

text \<open>
  What the authorization and consent endpoints promise: to whom a code is issued and for what, where the
  browser is sent, that a code in a redirect can be redeemed at the token endpoint, and what becomes of the
  re-authentication a client asked for.
\<close>

subsection \<open>The session of a request\<close>

lemma Current_db:
  "db_users (snd (Current cfg ck n d)) = db_users d"
  "db_clients (snd (Current cfg ck n d)) = db_clients d"
  "db_auth_codes (snd (Current cfg ck n d)) = db_auth_codes d"
  "db_auth_requests (snd (Current cfg ck n d)) = db_auth_requests d"
  "db_refresh_tokens (snd (Current cfg ck n d)) = db_refresh_tokens d"
  "db_devices (snd (Current cfg ck n d)) = db_devices d"
  "db_device_codes (snd (Current cfg ck n d)) = db_device_codes d"
  "db_faults (snd (Current cfg ck n d)) = db_faults d"
  by (auto simp: Current_def Let_def DeleteSession_def TouchSession_def raw_stmts split: sum.split)

lemma run_Current:
  "run_state (sessions_Current r) st =
     (let (x, d) = Current (sessionConfig (st_settings st)) (Cookie r sessionCookieName) (rq_now r) (st_db st)
      in (x, st\<lparr>st_db := d\<rparr>))"
  by (simp add: sessions_Current_def split_beta)

lemma run_Current_signed_in:
  assumes "run_state (sessions_Current r) st = (Inr sess, st')"
  shows "signed_in (st_settings st) (st_db st) r sess"
  using assms by (intro Current_signed_in) (simp add: run_Current split_beta)

text \<open>What no statement of these handlers changes.\<close>

definition grants_frame :: "srvstate \<Rightarrow> srvstate \<Rightarrow> bool" where
  "grants_frame st st' \<longleftrightarrow> st_settings st' = st_settings st \<and> db_users (st_db st') = db_users (st_db st)
     \<and> db_clients (st_db st') = db_clients (st_db st) \<and> db_refresh_tokens (st_db st') = db_refresh_tokens (st_db st)
     \<and> db_devices (st_db st') = db_devices (st_db st) \<and> db_device_codes (st_db st') = db_device_codes (st_db st)
     \<and> db_faults (st_db st') = db_faults (st_db st)"

lemma grants_frame_refl [simp]: "grants_frame st st"
  by (simp add: grants_frame_def)

lemma grants_frame_trans: "grants_frame st st1 \<Longrightarrow> grants_frame st1 st2 \<Longrightarrow> grants_frame st st2"
  by (simp add: grants_frame_def)

lemma Current_frame:
  assumes "run_state (sessions_Current r) st = (x, st')"
  shows "grants_frame st st' \<and> db_auth_codes (st_db st') = db_auth_codes (st_db st)
    \<and> db_auth_requests (st_db st') = db_auth_requests (st_db st)"
  using assms by (auto simp: run_Current split_beta grants_frame_def Current_db)

subsection \<open>Issuing a code\<close>

lemma issueCode_cases:
  assumes "run_state (issueCode r p userID authTime amr) st = (resp, st')"
  shows "grants_frame st st' \<and> db_auth_requests (st_db st') = db_auth_requests (st_db st)
    \<and> (db_auth_codes (st_db st') = db_auth_codes (st_db st)
         \<and> resp = redirectErr (az_redirectURI p) ''server_error'' ''could not issue authorization code'' (az_state p)
       \<or> db_auth_codes (st_db st') = db_auth_codes (st_db st) @ [issued_code r p userID authTime amr]
         \<and> uniq_on ac_CodeHash (db_auth_codes (st_db st'))
         \<and> resp = (case url_Parse (az_redirectURI p) of None \<Rightarrow> panicked
            | Some u \<Rightarrow> Redirect (with_query u (\<lambda>q. add_state (az_state p)
                (values_Set ''code'' (RandomToken (rq_rand r ''authcode'')) q)))))"
  using assms
  by (auto simp: issueCode_def CreateAuthCode_def raw_stmts grants_frame_def grants_ok_def split: if_splits option.splits)

lemma parkAndRedirect_cases:
  assumes "run_state (parkAndRedirect r p dest) st = (resp, st')"
  shows "grants_frame st st' \<and> db_auth_codes (st_db st') = db_auth_codes (st_db st)
    \<and> (resp = renderError 500 ''We couldn't start the sign-in. Please try again.'' \<and> st_db st' = st_db st
       \<or> resp = Redirect (dest @ ''?req='' @ QueryEscape (RandomToken (rq_rand r ''authreq'')))
         \<and> db_auth_requests (st_db st') = db_auth_requests (st_db st) @ [parked_request r p]
         \<and> uniq_on ar_ID (db_auth_requests (st_db st')))"
  using assms
  by (auto simp: parkAndRedirect_def Let_def CreateAuthRequest_def raw_stmts grants_frame_def grants_ok_def parked_request_def
      split: if_splits)

text \<open>The parameters a request may be answered for: an enabled client, one of its addresses, its scopes and PKCE.\<close>

definition params_ok :: "db \<Rightarrow> authzParams \<Rightarrow> bool" where
  "params_ok d p \<longleftrightarrow> az_client p \<in> set (db_clients d) \<and> \<not> cl_Disabled (az_client p)
     \<and> redirectURIAllowed (az_client p) (az_redirectURI p)"

definition params_full :: "request \<Rightarrow> db \<Rightarrow> authzParams \<Rightarrow> bool" where
  "params_full r d p \<longleftrightarrow> params_ok d p \<and> cl_ClientID (az_client p) = QueryGet r ''client_id''
     \<and> az_redirectURI p = QueryGet r ''redirect_uri'' \<and> az_scope p = QueryGet r ''scope''
     \<and> az_nonce p = QueryGet r ''nonce'' \<and> az_state p = QueryGet r ''state''
     \<and> az_challenge p = QueryGet r ''code_challenge'' \<and> az_method p = QueryGet r ''code_challenge_method''
     \<and> HasScope (az_scope p) ScopeOpenID \<and> set (SplitScope (az_scope p)) \<subseteq> set (cl_AllowedScopes (az_client p))
     \<and> (IsPublic (az_client p) \<longrightarrow> az_challenge p \<noteq> []) \<and> (az_challenge p \<noteq> [] \<longrightarrow> az_method p = PKCEMethodS256)"

lemma validateAuthorize_Inr:
  assumes "validateAuthorize r d = Inr p"
  shows "params_full r d p"
proof -
  obtain c where c: "GetClient (QueryGet r ''client_id'') d = Inr c"
    using assms by (auto simp: validateAuthorize_def split: sum.splits)
  show ?thesis
    using assms GetClient_Inr [OF c]
    by (auto simp: validateAuthorize_def c params_full_def params_ok_def Let_def ScopesSubset_iff split: if_splits)
qed

lemma params_of_ok:
  assumes "peekAuthRequest i now d = Some p \<or> loadAuthRequest i now d = Inr p"
  shows "params_ok d p \<and> (\<exists>req \<in> set (db_auth_requests d). ar_ID req = i \<and> now \<le> ar_ExpiresAt req
    \<and> ar_ClientID req = cl_ClientID (az_client p) \<and> p = params_of req (az_client p))"
proof -
  obtain req where req: "GetAuthRequest i now d = Inr req"
    using assms by (auto simp: peekAuthRequest_def loadAuthRequest_def split: sum.splits)
  obtain c where c: "GetClient (ar_ClientID req) d = Inr c"
    using assms req by (auto simp: peekAuthRequest_def loadAuthRequest_def split: sum.splits)
  have "req \<in> set (db_auth_requests d)" "ar_ID req = i" "now \<le> ar_ExpiresAt req"
    using req by (auto simp: GetAuthRequest_def query_def dest!: sel1_Inr split: if_splits sum.splits)
  then show ?thesis
    using assms GetClient_Inr [OF c]
    by (auto simp: peekAuthRequest_def loadAuthRequest_def req c params_ok_def params_of_def split: if_splits)
qed

subsection \<open>The authorization endpoint\<close>

text \<open>The session a request is authenticated by: live, and not set aside by a demand to sign in again.\<close>

definition fresh_enough :: "request \<Rightarrow> Session \<Rightarrow> bool" where
  "fresh_enough r sess \<longleftrightarrow> QueryGet r ''prompt'' \<noteq> ''login''
     \<and> \<not> maxAgeExceeded (QueryGet r ''max_age'') (ses_CreatedAt sess) (rq_now r)"

lemma handleAuthorize_cases:
  assumes "run_state (handleAuthorize r) st = (resp, st')"
  obtains "validateAuthorize r (st_db st) = Inl resp" "st' = st"
    | p sess st1 where "validateAuthorize r (st_db st) = Inr p" "run_state (sessions_Current r) st = (Inr sess, st1)"
        "fresh_enough r sess" "cl_SkipConsent (az_client p)"
        "run_state (issueCode r p (ses_UserID sess) (ses_CreatedAt sess) (ses_AMR sess)) st1 = (resp, st')"
    | p x st1 dest where "validateAuthorize r (st_db st) = Inr p" "run_state (sessions_Current r) st = (x, st1)"
        "dest \<in> {''/login'', ''/consent''}" "run_state (parkAndRedirect r p dest) st1 = (resp, st')"
        "(\<exists>sess. x = Inr sess \<and> fresh_enough r sess) \<Longrightarrow> dest = ''/consent''"
        "dest = ''/consent'' \<Longrightarrow> \<not> cl_SkipConsent (az_client p)"
    | p code desc x where "validateAuthorize r (st_db st) = Inr p" "run_state (sessions_Current r) st = (x, st')"
        "resp = redirectErr (az_redirectURI p) code desc (az_state p)"
proof (cases "validateAuthorize r (st_db st)")
  case (Inl e)
  then have "resp = e" "st' = st" using assms by (simp_all add: handleAuthorize_def)
  then show ?thesis using that(1) Inl by blast
next
  case (Inr p)
  obtain x st1 where cur: "run_state (sessions_Current r) st = (x, st1)" by fastforce
  define kept where "kept = (case x of Inl _ \<Rightarrow> None | Inr sess \<Rightarrow> if fresh_enough r sess then Some sess else None)"
  have run: "run_state (handleAuthorize r) st = run_state (case kept of
      None \<Rightarrow> if QueryGet r ''prompt'' = ''none'' then
          done_with (redirectErr (az_redirectURI p) ''login_required'' ''authentication is required but prompt=none was set'' (az_state p))
        else parkAndRedirect r p ''/login''
    | Some sess \<Rightarrow> if cl_SkipConsent (az_client p) then issueCode r p (ses_UserID sess) (ses_CreatedAt sess) (ses_AMR sess)
        else if QueryGet r ''prompt'' = ''none'' then
          done_with (redirectErr (az_redirectURI p) ''consent_required'' ''consent is required but prompt=none was set'' (az_state p))
        else parkAndRedirect r p ''/consent'') st1"
    by (cases x) (simp_all add: handleAuthorize_def Let_def Inr cur kept_def fresh_enough_def del: de_Morgan_disj)
  show ?thesis
  proof (cases kept)
    case None
    then have f: "\<not> (\<exists>sess. x = Inr sess \<and> fresh_enough r sess)" by (auto simp: kept_def)
    show ?thesis
    proof (cases "QueryGet r ''prompt'' = ''none''")
      case True
      then have "resp = redirectErr (az_redirectURI p) ''login_required'' ''authentication is required but prompt=none was set'' (az_state p)"
        "st' = st1" using assms run None by simp_all
      then show ?thesis using that(4) [OF Inr] cur by blast
    next
      case False
      then have h: "run_state (parkAndRedirect r p ''/login'') st1 = (resp, st')" using assms run None by simp
      show ?thesis by (rule that(3) [OF Inr cur _ h]) (use f in auto)
    qed
  next
    case (Some sess)
    then have x: "x = Inr sess" "fresh_enough r sess" by (auto simp: kept_def split: sum.splits if_splits)
    consider (skip) "cl_SkipConsent (az_client p)" | (none) "\<not> cl_SkipConsent (az_client p)" "QueryGet r ''prompt'' = ''none''"
      | (ask) "\<not> cl_SkipConsent (az_client p)" "QueryGet r ''prompt'' \<noteq> ''none''" by blast
    then show ?thesis
    proof cases
      case skip
      then have "run_state (issueCode r p (ses_UserID sess) (ses_CreatedAt sess) (ses_AMR sess)) st1 = (resp, st')"
        using assms run Some by simp
      then show ?thesis using that(2) [OF Inr] cur x skip by blast
    next
      case none
      then have "resp = redirectErr (az_redirectURI p) ''consent_required'' ''consent is required but prompt=none was set'' (az_state p)"
        "st' = st1" using assms run Some by simp_all
      then show ?thesis using that(4) [OF Inr] cur by blast
    next
      case ask
      then have h: "run_state (parkAndRedirect r p ''/consent'') st1 = (resp, st')" using assms run Some by simp
      show ?thesis by (rule that(3) [OF Inr cur _ h]) (use ask(1) in auto)
    qed
  qed
qed

text \<open>C2: Who gets a code at the authorization endpoint. A code that was not there before is for the user of the
  live session the request's cookie names, with the time and the methods of that sign-in; it is issued to the
  enabled client of the request, which skips consent, bound to one of that client's redirect addresses, to
  scopes it is allowed, \<open>openid\<close> among them, and, for a public client, to an S256 challenge; it lives five
  minutes; and the request did not ask for a new sign-in.\<close>

theorem authorize_code_sound:
  assumes "run_state (handleAuthorize r) st = (resp, st')"
    and "c \<in> set (db_auth_codes (st_db st'))" and "c \<notin> set (db_auth_codes (st_db st))"
  shows "\<exists>p sess. params_full r (st_db st) p \<and> cl_SkipConsent (az_client p)
    \<and> signed_in (st_settings st) (st_db st) r sess \<and> fresh_enough r sess
    \<and> c = issued_code r p (ses_UserID sess) (ses_CreatedAt sess) (ses_AMR sess)"
  using assms(1)
proof (cases rule: handleAuthorize_cases)
  case (2 p sess st1)
  have "c = issued_code r p (ses_UserID sess) (ses_CreatedAt sess) (ses_AMR sess)"
    using issueCode_cases [OF 2(5)] Current_frame [OF 2(2)] assms(2,3) by auto
  then show ?thesis
    using 2(3,4) validateAuthorize_Inr [OF 2(1)] run_Current_signed_in [OF 2(2)] by blast
next
  case (3 p x st1 dest)
  then show ?thesis using parkAndRedirect_cases [OF 3(4)] Current_frame [OF 3(2)] assms(2,3) by simp
qed (use assms(2,3) Current_frame in auto)

subsection \<open>Where the browser is sent\<close>

text \<open>A page of this server, or an address an enabled client has registered, with other query parameters. A browser drops
  tabs and line ends from an address and reads a backslash as a slash, so a path with any of these can leave the server.\<close>

definition path_char :: "char \<Rightarrow> bool" where
  "path_char c \<longleftrightarrow> c \<noteq> CHR 0x5C \<and> 32 \<le> byte c \<and> byte c \<noteq> 127"

definition local_path :: "string \<Rightarrow> bool" where
  "local_path s \<longleftrightarrow> HasPrefix s ''/'' \<and> \<not> HasPrefix s ''//'' \<and> list_all path_char s"

lemma path_char_upper_hex: "n < 16 \<Longrightarrow> path_char (upper_char (hex_alphabet ! n))"
proof -
  assume "n < 16"
  moreover have "list_all (\<lambda>n. path_char (upper_char (hex_alphabet ! n))) [0..<16]" by code_simp
  ultimately show ?thesis by (simp add: list_all_iff)
qed

lemma path_chars_percent: "list_all path_char (percent c)"
proof -
  have "byte c div 16 < 16" using byte_less [of c] by (simp add: less_mult_imp_div_less)
  moreover have "path_char CHR ''%''" by code_simp
  ultimately show ?thesis by (simp add: percent_def hex_encode_def path_char_upper_hex)
qed

lemma path_char_unreserved: "unreserved c \<Longrightarrow> path_char c"
proof -
  have "list_all path_char ''-_.~''" by code_simp
  then show "unreserved c \<Longrightarrow> path_char c"
    by (auto simp: unreserved_def is_digit_def path_char_def)
qed

lemma path_chars_QueryEscape [simp]: "list_all path_char (QueryEscape s)"
proof -
  have "path_char CHR ''+''" by code_simp
  then show ?thesis
    by (induction s) (auto simp: QueryEscape_def path_chars_percent path_char_unreserved)
qed

text \<open>The pages the server names itself.\<close>

lemma local_pages:
  shows "local_path (''/login?req='' @ QueryEscape s)" "local_path (''/consent?req='' @ QueryEscape s)" "local_path ''/account''"
    "local_path ''/admin''" "local_path ''/login''" "local_path ''/login/mfa''" "local_path ''/setup''" "local_path ''/login?notice=password-set''"
proof -
  have "list_all path_char ''/login?req=''" "list_all path_char ''/consent?req=''" "list_all path_char ''/account''"
    "list_all path_char ''/admin''" "list_all path_char ''/login''" "list_all path_char ''/login/mfa''" "list_all path_char ''/setup''" "list_all path_char ''/login?notice=password-set''" by code_simp+
  then show "local_path (''/login?req='' @ QueryEscape s)" "local_path (''/consent?req='' @ QueryEscape s)" "local_path ''/account''"
    "local_path ''/admin''" "local_path ''/login''" "local_path ''/login/mfa''" "local_path ''/setup''" "local_path ''/login?notice=password-set''"
    by (simp_all add: local_path_def HasPrefix_def)
qed

lemmas local_page_simps [simp] = local_pages [simplified]

text \<open>The sign-in page for a request that is parked.\<close>

definition resume_page :: "db \<Rightarrow> string \<Rightarrow> bool" where
  "resume_page d s \<longleftrightarrow> (\<exists>x \<in> set (db_auth_requests d). s = ''/login?req='' @ ar_ID x)"

definition client_url :: "db \<Rightarrow> string \<Rightarrow> bool" where
  "client_url d target \<longleftrightarrow> (\<exists>c uri u q. c \<in> set (db_clients d) \<and> \<not> cl_Disabled c \<and> redirectURIAllowed c uri
     \<and> url_Parse uri = Some u \<and> target = url_String (u\<lparr>u_RawQuery := q\<rparr>))"

definition safe_response :: "db \<Rightarrow> response \<Rightarrow> bool" where
  "safe_response d resp \<longleftrightarrow> (\<forall>t. resp = Redirect t \<longrightarrow> local_path t \<or> resume_page d t \<or> client_url d t)"

lemma safe_response_simps [simp]:
  "safe_response d (Page s n vs)" "safe_response d (Plain s t)" "safe_response d (renderError s t)" "safe_response d panicked"
  "safe_response d (Json s ms)" "safe_response d (Status s)" "safe_response d (renderSignedOut u n)" "safe_response d (OAuthError s e m)"
  by (simp_all add: safe_response_def renderError_def panicked_def renderSignedOut_def)

lemma safe_local: "local_path t \<Longrightarrow> safe_response d (Redirect t)"
  by (simp add: safe_response_def)

lemma safe_resume:
  assumes "loadAuthRequest i now d = Inr p"
  shows "safe_response d (Redirect (''/login?req='' @ i))"
proof -
  obtain x where "GetAuthRequest i now d = Inr x" using assms by (auto simp: loadAuthRequest_def split: sum.splits)
  then have "x \<in> set (db_auth_requests d)" "ar_ID x = i"
    by (auto simp: GetAuthRequest_def query_def dest!: sel1_Inr split: if_splits sum.splits)
  then show ?thesis by (auto simp: safe_response_def resume_page_def)
qed

lemma safe_client_url:
  assumes "params_ok d p" and "url_Parse (az_redirectURI p) = Some u"
  shows "safe_response d (Redirect (with_query u f))"
  using assms unfolding safe_response_def client_url_def params_ok_def with_query_def by blast

lemma safe_redirectErr: "params_ok d p \<Longrightarrow> safe_response d (redirectErr (az_redirectURI p) code desc s)"
  by (auto simp: redirectErr_def safe_client_url split: option.split)

lemma params_ok_frame: "db_clients d' = db_clients d \<Longrightarrow> params_ok d' p = params_ok d p"
  by (simp add: params_ok_def)

lemma safe_issueCode:
  assumes "run_state (issueCode r p u t amr) st = (resp, st')" and "params_ok d p"
  shows "safe_response d resp"
  using issueCode_cases [OF assms(1)] assms(2)
  by (auto simp: safe_redirectErr safe_client_url split: option.splits)

lemma HasPrefix_simps [simp]:
  "HasPrefix s []" "HasPrefix (c # s) (e # t) \<longleftrightarrow> c = e \<and> HasPrefix s t" "HasPrefix [] (e # t) \<longleftrightarrow> False"
  by (auto simp: HasPrefix_def)

lemma safe_park:
  assumes "run_state (parkAndRedirect r p dest) st = (resp, st')" and "dest \<in> {''/login'', ''/consent''}"
  shows "safe_response d resp"
  using parkAndRedirect_cases [OF assms(1)] assms(2)
  by (auto intro!: safe_local)

lemma validateAuthorize_Inl:
  assumes "validateAuthorize r d = Inl resp"
  shows "safe_response d resp"
proof (cases "GetClient (QueryGet r ''client_id'') d")
  case (Inl e)
  then show ?thesis using assms by (auto simp: validateAuthorize_def)
next
  case (Inr c)
  define p where "p = \<lparr>az_client = c, az_responseType = QueryGet r ''response_type'', az_redirectURI = QueryGet r ''redirect_uri'',
              az_scope = QueryGet r ''scope'', az_state = QueryGet r ''state'', az_nonce = QueryGet r ''nonce'',
              az_challenge = QueryGet r ''code_challenge'', az_method = QueryGet r ''code_challenge_method''\<rparr>"
  have "\<not> cl_Disabled c \<Longrightarrow> redirectURIAllowed c (QueryGet r ''redirect_uri'') \<Longrightarrow> params_ok d p"
    using GetClient_Inr [OF Inr] by (simp add: params_ok_def p_def)
  then have "\<not> cl_Disabled c \<Longrightarrow> redirectURIAllowed c (QueryGet r ''redirect_uri'') \<Longrightarrow>
      safe_response d (redirectErr (QueryGet r ''redirect_uri'') code desc s)" for code desc s
    using safe_redirectErr [of d p] by (simp add: p_def)
  then show ?thesis
    using assms by (auto simp: validateAuthorize_def Inr Let_def split: if_splits)
qed

lemma safe_handleAuthorize:
  assumes "run_state (handleAuthorize r) st = (resp, st')"
  shows "safe_response (st_db st) resp"
  using assms
proof (cases rule: handleAuthorize_cases)
  case 1
  then show ?thesis by (simp add: validateAuthorize_Inl)
next
  case (2 p sess st1)
  then show ?thesis using validateAuthorize_Inr by (metis params_full_def safe_issueCode)
next
  case (3 p x st1 dest)
  then show ?thesis by (metis safe_park)
next
  case (4 p code desc x)
  then show ?thesis using validateAuthorize_Inr by (metis params_full_def safe_redirectErr)
qed

subsection \<open>Consent\<close>

lemma Delete_frame:
  "grants_frame st (st\<lparr>st_db := snd (DeleteAuthRequest i (st_db st))\<rparr>)"
  "db_auth_codes (snd (DeleteAuthRequest i d)) = db_auth_codes d"
  "\<not> fault d ''DeleteAuthRequest'' \<Longrightarrow> i \<notin> ar_ID ` set (db_auth_requests (snd (DeleteAuthRequest i d)))"
  by (auto simp: grants_frame_def DeleteAuthRequest_def raw_stmts set_del)

lemma Audit_frame:
  "grants_frame st (st\<lparr>st_db := snd (AppendAuditEvent e (st_db st))\<rparr>)"
  "db_auth_codes (snd (AppendAuditEvent e d)) = db_auth_codes d"
  "db_auth_requests (snd (AppendAuditEvent e d)) = db_auth_requests d"
  by (auto simp: grants_frame_def AppendAuditEvent_def raw_stmts)

definition consent_time :: "request \<Rightarrow> Session \<Rightarrow> time" where
  "consent_time r sess = (if IsZero (ses_CreatedAt sess) then rq_now r else ses_CreatedAt sess)"

lemma handleConsentSubmit_cases:
  assumes "run_state (handleConsentSubmit r) st = (resp, st')"
  obtains "csrfOK r = Some resp" "st' = st"
    | "csrfOK r = None" "loadAuthRequest (PostFormValue r ''req'') (rq_now r) (st_db st) = Inl resp" "st' = st"
    | p e where "csrfOK r = None" "loadAuthRequest (PostFormValue r ''req'') (rq_now r) (st_db st) = Inr p"
        "run_state (sessions_Current r) st = (Inl e, st')" "resp = Redirect (''/login?req='' @ PostFormValue r ''req'')"
    | p sess st1 st2 where "csrfOK r = None" "loadAuthRequest (PostFormValue r ''req'') (rq_now r) (st_db st) = Inr p"
        "run_state (sessions_Current r) st = (Inr sess, st1)" "PostFormValue r ''action'' \<noteq> ''allow''"
        "resp = redirectErr (az_redirectURI p) ''access_denied'' ''the user denied the request'' (az_state p)"
        "st2 = st1\<lparr>st_db := snd (DeleteAuthRequest (PostFormValue r ''req'') (st_db st1))\<rparr>"
        "\<exists>e. st' = st2\<lparr>st_db := snd (AppendAuditEvent e (st_db st2))\<rparr>"
    | p sess st1 st2 e where "csrfOK r = None" "loadAuthRequest (PostFormValue r ''req'') (rq_now r) (st_db st) = Inr p"
        "run_state (sessions_Current r) st = (Inr sess, st1)" "PostFormValue r ''action'' = ''allow''"
        "st2 = st1\<lparr>st_db := snd (DeleteAuthRequest (PostFormValue r ''req'') (st_db st1))\<rparr>"
        "run_state (issueCode r p (ses_UserID sess) (consent_time r sess) (ses_AMR sess))
           (st2\<lparr>st_db := snd (AppendAuditEvent e (st_db st2))\<rparr>) = (resp, st')"
proof (cases "csrfOK r")
  case (Some x)
  then have "resp = x" "st' = st" using assms by (simp_all add: handleConsentSubmit_def Let_def)
  then show ?thesis using that(1) Some by blast
next
  case None
  show ?thesis
  proof (cases "loadAuthRequest (PostFormValue r ''req'') (rq_now r) (st_db st)")
    case (Inl x)
    then have "resp = x" "st' = st" using assms by (simp_all add: handleConsentSubmit_def Let_def None)
    then show ?thesis using that(2) None Inl by blast
  next
    case (Inr p)
    obtain x st1 where cur: "run_state (sessions_Current r) st = (x, st1)" by fastforce
    show ?thesis
    proof (cases x)
      case (Inl e)
      then have "resp = Redirect (''/login?req='' @ PostFormValue r ''req'')" "st' = st1"
        using assms cur Inr None by (simp_all add: handleConsentSubmit_def Let_def)
      then show ?thesis using that(3) [OF None Inr] cur Inl by blast
    next
      case x: (Inr sess)
      show ?thesis
      proof (cases "PostFormValue r ''action'' = ''allow''")
        case True
        show ?thesis
          by (rule that(5) [OF None Inr cur [unfolded x] True refl])
             (use assms cur Inr None x True in \<open>simp add: handleConsentSubmit_def Let_def consent_time_def\<close>)
      next
        case False
        show ?thesis
          by (rule that(4) [OF None Inr cur [unfolded x] False _ refl])
             (use assms cur Inr None x False in \<open>auto simp: handleConsentSubmit_def Let_def\<close>)
      qed
    qed
  qed
qed

text \<open>C10: Consent. A code that was not there before the consent form was sent is for the user of the live session
  the form's cookie names, who chose to allow it in a form with the browser's CSRF token; it says what the
  parked request says, to the client that request names, which is still enabled and has still registered
  the address; and the parked request is spent, unless the statement that deletes it fails.\<close>

theorem consent_code_sound:
  assumes "run_state (handleConsentSubmit r) st = (resp, st')"
    and "c \<in> set (db_auth_codes (st_db st'))" and "c \<notin> set (db_auth_codes (st_db st))"
  shows "csrf_valid r \<and> PostFormValue r ''action'' = ''allow''
    \<and> (\<exists>req client sess. req \<in> set (db_auth_requests (st_db st)) \<and> ar_ID req = PostFormValue r ''req''
        \<and> rq_now r \<le> ar_ExpiresAt req \<and> ar_ClientID req = cl_ClientID client
        \<and> params_ok (st_db st) (params_of req client) \<and> signed_in (st_settings st) (st_db st) r sess
        \<and> c = issued_code r (params_of req client) (ses_UserID sess) (consent_time r sess) (ses_AMR sess))
    \<and> (\<not> fault (st_db st) ''DeleteAuthRequest'' \<longrightarrow> PostFormValue r ''req'' \<notin> ar_ID ` set (db_auth_requests (st_db st')))"
  using assms(1)
proof (cases rule: handleConsentSubmit_cases)
  case (5 p sess st1 st2 e)
  note cur = Current_frame [OF 5(3)] and iss = issueCode_cases [OF 5(6)]
  have new: "c = issued_code r p (ses_UserID sess) (consent_time r sess) (ses_AMR sess)"
    using iss cur assms(2,3) by (auto simp: 5(5) Delete_frame Audit_frame)
  have "fault (st_db st1) ''DeleteAuthRequest'' = fault (st_db st) ''DeleteAuthRequest''"
    using cur by (simp add: grants_frame_def fault_def)
  then have gone: "\<not> fault (st_db st) ''DeleteAuthRequest'' \<longrightarrow> PostFormValue r ''req'' \<notin> ar_ID ` set (db_auth_requests (st_db st'))"
    using iss Delete_frame(3) [of "st_db st1" "PostFormValue r ''req''"] by (auto simp: 5(5) Audit_frame)
  have "csrf_valid r" using 5(1) by (auto simp: csrfOK_def split: if_splits)
  then show ?thesis
    using new gone 5(4) run_Current_signed_in [OF 5(3)] params_of_ok [OF disjI2, OF 5(2)] by metis
next
  case (4 p sess st1 st2)
  then show ?thesis using Current_frame [OF 4(3)] assms(2,3) by (auto simp: Delete_frame Audit_frame)
qed (use assms(2,3) Current_frame in auto)

lemma loadAuthRequest_Inl: "loadAuthRequest i now d' = Inl resp \<Longrightarrow> safe_response d resp"
  by (auto simp: loadAuthRequest_def split: sum.splits if_splits)

lemma safe_issue_at:
  assumes "run_state (issueCode r p u t amr) st = (resp, st')" and "params_ok d p"
  shows "safe_response d resp"
  using issueCode_cases [OF assms(1)] assms(2)
  by (auto simp: safe_redirectErr safe_client_url split: option.splits)

lemma safe_consent:
  assumes "run_state (handleConsentSubmit r) st = (resp, st') \<or> run_state (handleConsentForm r) st = (resp, st')"
  shows "safe_response (st_db st) resp"
  using assms
proof
  assume "run_state (handleConsentSubmit r) st = (resp, st')"
  then show ?thesis
  proof (cases rule: handleConsentSubmit_cases)
    case 1
    then show ?thesis by (auto simp: csrfOK_def split: if_splits)
  next
    case (3 p e)
    then show ?thesis using safe_resume by blast
  next
    case (4 p sess st1 st2)
    then show ?thesis using params_of_ok [OF disjI2, OF 4(2)] by (simp add: safe_redirectErr)
  next
    case (5 p sess st1 st2 e)
    then show ?thesis using params_of_ok [OF disjI2, OF 5(2)] safe_issue_at by blast
  qed (simp add: loadAuthRequest_Inl)
next
  assume "run_state (handleConsentForm r) st = (resp, st')"
  then show ?thesis
    by (auto simp: handleConsentForm_def Let_def form_page_def loadAuthRequest_Inl safe_resume simp del: append.simps
        split: sum.splits prod.splits)
qed

subsection \<open>From the authorization endpoint to the token endpoint\<close>

text \<open>The signing of claims does not fail: there is a default signer with a method of its own, and the library signs.\<close>

definition signs :: "server \<Rightarrow> bool" where
  "signs srv \<longleftrightarrow> (\<forall>c. sign_claims (srv_lib srv) (srv_keys srv) c \<noteq> None)"

lemma buildAccessAndID_total:
  assumes "signs srv"
  shows "\<exists>resp. buildAccessAndID srv cur now client user scope nonce t tc = Some resp"
proof -
  have "\<forall>c. \<exists>y. sign_claims (srv_lib srv) (srv_keys srv) c = Some y" using assms by (auto simp: signs_def)
  from choice [OF this] obtain f where "\<forall>c. sign_claims (srv_lib srv) (srv_keys srv) c = Some (f c)" by blast
  then show ?thesis
    by (simp add: buildAccessAndID_def IssueAccessTokenWithClaims_def IssueIDTokenWithClaims_def Let_def)
qed

lemma CreateRefreshToken_ok:
  assumes "grants_ok d" and "db_faults d = []"
    and "rt_ID t \<notin> rt_ID ` set (db_refresh_tokens d)" and "rt_TokenHash t \<notin> rt_TokenHash ` set (db_refresh_tokens d)"
  shows "fst (CreateRefreshToken t d) = Inr ()"
  using assms by (simp add: CreateRefreshToken_def raw_stmts fault_def grants_ok_def uniq_on_def)

text \<open>A request of the token endpoint that presents a code with what it is bound to.\<close>

definition presents :: "request \<Rightarrow> string \<Rightarrow> AuthorizationCode \<Rightarrow> bool" where
  "presents r raw c \<longleftrightarrow> rq_FormOK r \<and> rq_DPoP r = [] \<and> PostFormValue r ''grant_type'' = ''authorization_code''
     \<and> PostFormValue r ''code'' = raw \<and> PostFormValue r ''redirect_uri'' = ac_RedirectURI c
     \<and> (ac_CodeChallenge c \<noteq> [] \<longrightarrow> PostFormValue r ''code_verifier'' \<noteq> []
          \<and> VerifyPKCE (PostFormValue r ''code_verifier'') (ac_CodeChallenge c) (ac_CodeChallengeMethod c))"

lemma ConsumeAuthCode_fresh:
  assumes "uniq_on ac_CodeHash (db_auth_codes d)" and "c \<in> set (db_auth_codes d)" and "\<not> ac_Used c"
    and "now \<le> ac_ExpiresAt c" and "db_faults d = []"
  shows "ConsumeAuthCode (ac_CodeHash c) now d = (Inr (c\<lparr>ac_Used := True\<rparr>), ConsumeAuthCode_mark (ac_CodeHash c) d)"
  using sel1_key [OF assms(1,2)] assms(3-5)
  by (simp add: ConsumeAuthCode_def ConsumeAuthCode_select_def fault_def)

lemma grantAuthorizationCode_completes:
  assumes "presents r raw c" and "raw \<noteq> []" and "ac_CodeHash c = HashToken raw"
    and "client_of r st = Some client" and "cl_ClientID client = ac_ClientID c" and "ac_CodeChallenge c = [] \<Longrightarrow> \<not> IsPublic client"
    and "c \<in> set (db_auth_codes (st_db st))" and "\<not> ac_Used c" and "rq_now r \<le> ac_ExpiresAt c"
    and "GetUserByID (ac_UserID c) (st_db st) = Inr user" and "\<not> usr_Disabled user"
    and "db_ok (st_db st)" and "db_faults (st_db st) = []" and "signs srv"
    and "rq_uuid r ''refresh'' \<notin> rt_ID ` set (db_refresh_tokens (st_db st))"
    and "HashToken (RandomToken (rq_rand r ''refresh'')) \<notin> rt_TokenHash ` set (db_refresh_tokens (st_db st))"
  shows "\<exists>resp st'. run_state (handleToken srv r) st = (Tokens resp, st') \<and> tr_Scope resp = ac_Scope c"
proof -
  let ?d = "st_db st" and ?m = "ConsumeAuthCode_mark (ac_CodeHash c) (st_db st)"
  have u: "uniq_on ac_CodeHash (db_auth_codes ?d)" using assms(12) by (simp add: db_ok_def grants_ok_def)
  note cons = ConsumeAuthCode_fresh [OF u assms(7-9) assms(13)]
  have ok: "db_ok ?m"
    using runs_db_ok [OF runs_op [of "\<lambda>_. True" "Grant (OpConsumeAuthCode (ac_CodeHash c) (rq_now r))" ?d] assms(12)] cons by simp
  have usr: "GetUserByID (ac_UserID c) ?m = Inr user"
    using assms(10) by (simp add: GetUserByID_def query_def fault_def ConsumeAuthCode_mark_def)
  define tc where "tc = \<lparr>tc_amr = ac_AMR c, tc_device = None, tc_jkt = []\<rparr>"
  obtain resp where b: "buildAccessAndID srv (st_settings st) (rq_now r) client user (ac_Scope c) (ac_Nonce c) (ac_AuthTime c) tc = Some resp"
    using buildAccessAndID_total [OF assms(14)] by blast
  obtain raw2 t where nt: "newRefreshToken (st_settings st) r client user (ac_Scope c) (ac_AuthTime c) [] tc = (raw2, t)"
    and t: "rt_ID t = rq_uuid r ''refresh''" "rt_TokenHash t = HashToken (RandomToken (rq_rand r ''refresh''))"
    by (simp add: newRefreshToken_def Let_def)
  have "fst (CreateRefreshToken t ?m) = Inr ()"
    using ok assms(13,15,16) t by (intro CreateRefreshToken_ok) (simp_all add: db_ok_def ConsumeAuthCode_mark_def)
  then have "\<exists>st'. run_state (grantAuthorizationCode srv r None) st
      = (Tokens (if HasScope (ac_Scope c) ScopeOfflineAccess then resp\<lparr>tr_RefreshToken := raw2\<rparr> else resp), st')"
    using assms(1-6,11) cons usr b nt
    by (auto simp: grantAuthorizationCode_def presents_def Let_def dpopJKT_def tc_def)
  then show ?thesis
    using assms(1) buildAccessAndID_Some [OF b]
    by (auto simp: handleToken_def grant_for_def Let_def presents_def)
qed

lemma RandomToken_nonempty: "rnd \<noteq> [] \<Longrightarrow> RandomToken rnd \<noteq> []"
proof
  assume "rnd \<noteq> []" "RandomToken rnd = []"
  moreover have "RawURLEncode [] = []" by code_simp
  ultimately show False using RawURL_roundtrip [of rnd] RawURL_roundtrip [of "[]"] by (simp add: RandomToken_def)
qed

lemma performs_issueCode [performs_rules]:
  "(\<And>c. A (Grant (OpCreateAuthCode c))) \<Longrightarrow> performs A (issueCode r p u t amr)"
  unfolding issueCode_def by (intro performs_rules)

lemma performs_park [performs_rules]:
  "(\<And>q. A (Grant (OpCreateAuthRequest q))) \<Longrightarrow> performs A (parkAndRedirect r p dest)"
  unfolding parkAndRedirect_def by (intro performs_rules)

lemma performs_handleAuthorize: "performs (\<lambda>_. True) (handleAuthorize r)"
  unfolding handleAuthorize_def by (intro performs_rules; simp)

text \<open>A query that is written back keeps the parameter that was set last.\<close>

lemma map_of_single: "(k, v) \<in> set ps \<Longrightarrow> (\<And>v'. (k, v') \<in> set ps \<Longrightarrow> v' = v) \<Longrightarrow> map_of ps k = Some v"
  by (metis map_of_SomeD not_Some_eq weak_map_of_SomeI)

lemma add_state_code: "map_of (sort_key fst (add_state s (values_Set ''code'' raw q))) ''code'' = Some raw"
  by (rule map_of_single) (auto simp: add_state_def values_Set_def split: if_splits)

text \<open>C1: The code flow ends in tokens. When the authorization endpoint redirects after it has issued a code, the
  target is the client's address, and its query, when it is read, names the code; and a token request
  with that code, its address and its verifier, by the client it was issued to, while it lives and the user is
  enabled, is answered with tokens for the code's scopes, while no statement fails: for a token request without a DPoP
  header, and a server that can sign.\<close>

theorem code_flow_completes:
  assumes "run_state (handleAuthorize r) st = (Redirect target, st')"
    and "c \<in> set (db_auth_codes (st_db st'))" and "c \<notin> set (db_auth_codes (st_db st))"
    and "db_ok (st_db st)" and "db_faults (st_db st) = []"
    and "presents r2 (RandomToken (rq_rand r ''authcode'')) c" and "rq_rand r ''authcode'' \<noteq> []"
    and "client_of r2 st' = Some client" and "cl_ClientID client = ac_ClientID c" and "rq_now r2 \<le> rq_now r + authCodeTTL"
    and "GetUserByID (ac_UserID c) (st_db st') = Inr user" and "\<not> usr_Disabled user" and "signs srv"
    and "rq_uuid r2 ''refresh'' \<notin> rt_ID ` set (db_refresh_tokens (st_db st))"
    and "HashToken (RandomToken (rq_rand r2 ''refresh'')) \<notin> rt_TokenHash ` set (db_refresh_tokens (st_db st))"
  shows "(\<exists>u q. url_Parse (ac_RedirectURI c) = Some u \<and> target = url_String (u\<lparr>u_RawQuery := q\<rparr>)
        \<and> map_of (ParseQuery q) ''code'' = Some (RandomToken (rq_rand r ''authcode'')))
    \<and> (\<exists>resp st2. run_state (handleToken srv r2) st' = (Tokens resp, st2) \<and> tr_Scope resp = ac_Scope c)"
  using assms(1)
proof (cases rule: handleAuthorize_cases)
  case (2 p sess st1)
  let ?raw = "RandomToken (rq_rand r ''authcode'')"
  note cur = Current_frame [OF 2(2)] and iss = issueCode_cases [OF 2(5)]
  have c: "c = issued_code r p (ses_UserID sess) (ses_CreatedAt sess) (ses_AMR sess)"
    using iss cur assms(2,3) by auto
  have new: "Redirect target = (case url_Parse (az_redirectURI p) of None \<Rightarrow> panicked
            | Some u \<Rightarrow> Redirect (with_query u (\<lambda>q. add_state (az_state p) (values_Set ''code'' ?raw q))))"
    using iss cur assms(2,3) by auto
  have "\<exists>u q. url_Parse (ac_RedirectURI c) = Some u \<and> target = url_String (u\<lparr>u_RawQuery := q\<rparr>)
      \<and> map_of (ParseQuery q) ''code'' = Some ?raw"
    using new add_state_code
    by (auto simp: c issued_code_def with_query_def ParseQuery_Encode panicked_def split: option.splits)
  moreover have "\<exists>resp st2. run_state (handleToken srv r2) st' = (Tokens resp, st2) \<and> tr_Scope resp = ac_Scope c"
  proof (rule grantAuthorizationCode_completes [OF assms(6) _ _ assms(8,9)])
    show "?raw \<noteq> []" using assms(7) by (rule RandomToken_nonempty)
    show "ac_CodeHash c = HashToken ?raw" by (simp add: c issued_code_def)
    show ok: "db_ok (st_db st')"
      using runs_db_ok [OF performsD [OF performs_handleAuthorize assms(1)] assms(4)] .
    have fr: "grants_frame st st'" using iss cur by (blast intro: grants_frame_trans)
    then show "db_faults (st_db st') = []" "rq_uuid r2 ''refresh'' \<notin> rt_ID ` set (db_refresh_tokens (st_db st'))"
      "HashToken (RandomToken (rq_rand r2 ''refresh'')) \<notin> rt_TokenHash ` set (db_refresh_tokens (st_db st'))"
      using assms(5,14,15) by (simp_all add: grants_frame_def)
    have cl: "client \<in> set (db_clients (st_db st'))" using client_of_Some [OF assms(8)] by (simp add: authentic_def)
    have p: "params_full r (st_db st) p" using 2(1) by (rule validateAuthorize_Inr)
    have "az_client p \<in> set (db_clients (st_db st'))" "cl_ClientID (az_client p) = cl_ClientID client"
      using p fr assms(9) by (simp_all add: params_full_def params_ok_def grants_frame_def c issued_code_def)
    then have "client = az_client p"
      using cl ok by (auto simp: db_ok_def grants_ok_def uniq_on_def distinct_map inj_on_def)
    then show "ac_CodeChallenge c = [] \<Longrightarrow> \<not> IsPublic client"
      using p by (auto simp: params_full_def c issued_code_def)
    show "\<not> ac_Used c" "rq_now r2 \<le> ac_ExpiresAt c" using assms(10) by (simp_all add: c issued_code_def)
  qed (use assms in simp_all)
  ultimately show ?thesis by blast
next
  case (3 p x st1 dest)
  then show ?thesis using parkAndRedirect_cases [OF 3(4)] Current_frame [OF 3(2)] assms(2,3) by simp
qed (use assms(2,3) Current_frame in auto)

end
