(* ===== verification/LoginOps.thy ===== *)
theory LoginOps
  imports StoreFacts
begin

text \<open>
  Which statements create a session row, and which change what an account signs in with: the footprints the
  sign-in pages are judged by.
\<close>

fun no_session :: "store_op \<Rightarrow> bool" where
  "no_session (Account x) = (case x of OpCreateSession _ \<Rightarrow> False | _ \<Rightarrow> True)"
| "no_session (Grant x) = True"
| "no_session (Enrolment x) = True"

text \<open>A session row without the time it was last seen.\<close>

definition session_row :: "Session \<Rightarrow> Session" where
  "session_row s = s\<lparr>ses_LastSeenAt := 0\<rparr>"

definition session_rows :: "db \<Rightarrow> Session set" where
  "session_rows d = session_row ` set (db_sessions d)"

lemma upd_image: "(\<And>r. g (f r) = g r) \<Longrightarrow> g ` set (upd p f t) = g ` set t"
  by (induction t) auto

lemma del_image: "g ` set (del p t) \<subseteq> g ` set t"
  by (auto simp: set_del)

lemma cascade_sessions: "db_sessions (cascade_user i d) = del (\<lambda>s. ses_UserID s = i) (db_sessions d)"
  by (simp add: cascade_user_def)

lemma no_session_account:
  assumes "no_session (Account x)"
  shows "session_rows (account_step x d) \<subseteq> session_rows d"
  using assms
  by (cases x; simp add: session_rows_def stmt_defs raw_stmts update_users_def update_user_keys_def cascade_sessions del_image
      upd_image session_row_def split: sum.split)

lemma no_session_step:
  assumes "no_session op"
  shows "session_rows (store_step op d) \<subseteq> session_rows d"
  using assms no_session_account
  by (cases op) (simp_all add: frame_simps session_rows_def)

lemma no_session_run:
  "list_all no_session ops \<Longrightarrow> session_rows (fold store_step ops d) \<subseteq> session_rows d"
proof (induction ops arbitrary: d)
  case (Cons op ops)
  then show ?case using no_session_step [of op d] Cons.IH [of "store_step op d"] by auto
qed simp

text \<open>The same of the pending second factors.\<close>

fun no_challenge :: "store_op \<Rightarrow> bool" where
  "no_challenge (Account x) = (case x of OpCreateLoginChallenge _ \<Rightarrow> False | _ \<Rightarrow> True)"
| "no_challenge (Grant x) = True"
| "no_challenge (Enrolment x) = True"

lemma cascade_challenges: "db_login_challenges (cascade_user i d) = del (\<lambda>c. lc_UserID c = i) (db_login_challenges d)"
  by (simp add: cascade_user_def)

lemma no_challenge_account:
  assumes "no_challenge (Account x)"
  shows "set (db_login_challenges (account_step x d)) \<subseteq> set (db_login_challenges d)"
  using assms
  by (cases x; simp add: stmt_defs raw_stmts update_users_def update_user_keys_def cascade_challenges set_del split: sum.split; blast?)

lemma device_step_challenges: "set (db_login_challenges (device_step x d)) \<subseteq> set (db_login_challenges d)"
  by (cases x; auto simp: stmt_defs raw_stmts set_del split: sum.split)

lemma no_challenge_run:
  "list_all no_challenge ops \<Longrightarrow> set (db_login_challenges (fold store_step ops d)) \<subseteq> set (db_login_challenges d)"
proof (induction ops arbitrary: d)
  case (Cons op ops)
  have "set (db_login_challenges (store_step op d)) \<subseteq> set (db_login_challenges d)"
    using Cons.prems no_challenge_account by (cases op) (simp_all add: frame_simps device_step_challenges)
  then show ?case using Cons.IH [of "store_step op d"] Cons.prems by auto
qed simp

text \<open>The statements that leave the clients alone.\<close>

fun no_client :: "store_op \<Rightarrow> bool" where
  "no_client (Grant x) = (case x of OpCreateClient _ \<Rightarrow> False | OpUpdateClient _ _ \<Rightarrow> False | OpSetClientSecretHash _ _ _ \<Rightarrow> False
     | OpSetClientDisabled _ _ _ \<Rightarrow> False | _ \<Rightarrow> True)"
| "no_client (Account x) = True"
| "no_client (Enrolment x) = True"

lemma no_client_grant: assumes "no_client (Grant x)" shows "db_clients (grant_step x d) = db_clients d"
  using assms by (cases x; simp add: stmt_defs raw_stmts ConsumeAuthCode_mark_def split: sum.split option.split)

lemma no_client_step: "no_client op \<Longrightarrow> db_clients (store_step op d) = db_clients d"
  using no_client_grant by (cases op) (simp_all add: frame_simps)

end
