(* ===== verification/LoginFacts.thy ===== *)
theory LoginFacts
  imports Login AuthorizeFacts LoginOps
begin

text \<open>
  What the sign-in pages promise: who gets a session, what the answers give away, what a password link does,
  who may run the first-run setup, and where a browser is sent.
\<close>

subsection \<open>What the parts do to the database\<close>

definition any_op :: "store_op \<Rightarrow> bool" where "any_op op \<longleftrightarrow> True"

lemma any_op [simp]: "any_op op"
  by (simp add: any_op_def)

lemma performs_State:
  "(\<And>st. st_db (snd (f st)) = st_db st) \<Longrightarrow> (\<And>st. st_settings (snd (f st)) = st_settings st) \<Longrightarrow> performs A (State f)"
  by (simp add: performs_def state_io_rel_def)

lemma performs_slots [performs_rules]: "performs A acquirePasswordVerify" "performs A releasePasswordVerify"
  unfolding acquirePasswordVerify_def releasePasswordVerify_def
  by (intro performs_rules performs_State performs_modify; simp)+

lemma performs_pages [performs_rules]:
  "performs A (renderLogin srv r s m q n app)" "performs A (renderMFA r s m)" "performs A (too_many srv r lx)"
  "performs A (clearMFACookie)" "performs A (renderSetup srv r cur s m u e)" "performs A (renderSetPassword r s t m)"
  unfolding renderLogin_def renderMFA_def too_many_def clearMFACookie_def renderSetup_def renderSetPassword_def
  by (intro performs_rules)+

lemma performs_invalid [performs_rules]: "performs A (invalid_login srv r lx policy username)"
  unfolding invalid_login_def by (intro performs_rules; simp)

lemma performs_connectors [performs_rules]:
  "(\<And>c x u m b i n. A (Account (OpUpsertExternalUser c x u m b i n))) \<Longrightarrow> performs A (authViaConnectors cs r username password)"
proof (induction cs)
  case (Cons c cs)
  then show ?case
    by (cases "c r username password") (auto split: option.split intro!: performs_rules)
qed (simp add: performs_return)

lemma performs_verdict [performs_rules]:
  "(v = Panics \<Longrightarrow> performs A m) \<Longrightarrow> (v = Malformed \<Longrightarrow> performs A n) \<Longrightarrow> (\<And>b. v = Verdict b \<Longrightarrow> performs A (f b)) \<Longrightarrow>
    performs A (case v of Panics \<Rightarrow> m | Malformed \<Rightarrow> n | Verdict b \<Rightarrow> f b)"
  by (cases v) simp_all

lemma performs_login_local [performs_rules]:
  "performs no_session (login_local srv r lx policy username password user)"
  unfolding login_local_def Let_def by (intro performs_rules; simp)

lemma performs_login_credentials [performs_rules]:
  "performs no_session (login_credentials srv r lx policy username password)"
  unfolding login_credentials_def login_external_def login_unknown_def
  by (intro performs_rules; simp)

lemma performs_second_factor [performs_rules]: "performs no_session (verifySecondFactor srv r user code)"
  unfolding verifySecondFactor_def by (intro performs_rules; simp)

lemma performs_challenge [performs_rules]: "performs no_session (startMFAChallenge r user next reqID)"
  unfolding startMFAChallenge_def createMFAChallenge_def by (intro performs_rules; simp)

lemma performs_continue [performs_rules]: "performs no_session (continueAfterAuth r p reqID userID t amr)"
  unfolding continueAfterAuth_def by (intro performs_rules; simp)

lemma no_new_session:
  assumes "performs no_session m" and "run_state m st = (x, st')"
  shows "session_rows (st_db st') \<subseteq> session_rows (st_db st)"
proof -
  have "runs no_session (st_db st) (st_db st')" using performsD [OF assms] .
  then obtain ops where "list_all no_session ops" "st_db st' = fold store_step ops (st_db st)" by (auto simp: runs_def)
  then show ?thesis using no_session_run [of ops "st_db st"] by simp
qed

text \<open>A session that was not there before, of which all but the time it was last seen is given.\<close>

definition opened :: "request \<Rightarrow> srvstate \<Rightarrow> string \<Rightarrow> string \<Rightarrow> Session \<Rightarrow> bool" where
  "opened r st userID amr row \<longleftrightarrow> (\<exists>s. row = session_row s \<and> ses_ID s = rq_uuid r ''session'' \<and> ses_UserID s = userID \<and> ses_AMR s = amr
    \<and> ses_ExpiresAt s = rq_now r + sv_SessionLifetime (st_settings st))"

text \<open>The one statement that creates a session.\<close>

lemma session_rows_Issue:
  assumes "run_state (sessions_Issue r u amr) st = (x, st')" and "row \<in> session_rows (st_db st')" and "row \<notin> session_rows (st_db st)"
  shows "\<exists>s. x = Inr s \<and> row = session_row s \<and> ses_ID s = rq_uuid r ''session'' \<and> ses_UserID s = u \<and> ses_AMR s = amr
    \<and> ses_ExpiresAt s = rq_now r + sv_SessionLifetime (st_settings st) \<and> fk_user (st_db st) u"
proof -
  obtain res ck d where i: "Issue (sessionConfig (st_settings st)) (Cookie r sessionCookieName) u amr (rq_UserAgent r)
      (rq_uuid r ''session'') (rq_rand r ''session'') (rq_now r) (st_db st) = ((res, ck), d)"
    by (metis surj_pair)
  then have x: "x = res" "st_db st' = d"
    using assms(1) by (auto simp: sessions_Issue_def set_cookie_def split: option.splits)
  show ?thesis
  proof (cases res)
    case (Inl e)
    then have "session_rows d \<subseteq> session_rows (st_db st)"
      using i by (auto simp: Issue_def Let_def CreateSession_def DeleteSession_def raw_stmts session_rows_def set_del split: if_splits sum.splits prod.splits)
    then show ?thesis using assms(2,3) x by auto
  next
    case (Inr s)
    note f = sessions_after_Issue [OF i [unfolded Inr]]
    have "row = session_row s"
      using assms(2,3) f(1) by (auto simp: x session_rows_def set_del split: if_splits)
    then show ?thesis using x Inr f by (simp add: sessionConfig_def)
  qed
qed

lemma opened_Issue:
  assumes "run_state (sessions_Issue r u amr) st = (x, st')" and "row \<in> session_rows (st_db st')" and "row \<notin> session_rows (st_db st)"
  shows "opened r st u amr row"
proof -
  obtain s where "row = session_row s" "ses_ID s = rq_uuid r ''session''" "ses_UserID s = u" "ses_AMR s = amr"
    "ses_ExpiresAt s = rq_now r + sv_SessionLifetime (st_settings st)"
    using session_rows_Issue [OF assms] by blast
  then show ?thesis unfolding opened_def by (intro exI [of _ s] conjI)
qed

subsection \<open>Who gets a session from the login form\<close>

text \<open>The row of a local account, not locked, whose hash matches the password; or an account a connector vouches for.\<close>

definition locally_verified :: "server \<Rightarrow> request \<Rightarrow> db \<Rightarrow> string \<Rightarrow> string \<Rightarrow> User \<Rightarrow> bool" where
  "locally_verified srv r d username password user \<longleftrightarrow> user \<in> set (db_users d) \<and> usr_Username user = username \<and> IsLocal user
     \<and> \<not> IsLocked user (rq_now r) \<and> VerifyPassword (srv_idkey srv) password (usr_PasswordHash user) = Verdict True
     \<and> \<not> usr_Disabled user"

definition externally_verified :: "server \<Rightarrow> request \<Rightarrow> db \<Rightarrow> string \<Rightarrow> string \<Rightarrow> User \<Rightarrow> bool" where
  "externally_verified srv r d username password user \<longleftrightarrow> \<not> usr_Disabled user
     \<and> \<not> (\<exists>u. GetUserByUsername username d = Inr u \<and> IsLocal u)
     \<and> (\<exists>c i. c \<in> set (srv_connectors srv) \<and> c r username password = Some (Some i)
         \<and> fst (UpsertExternalUser (id_Connector i) (id_ExternalID i) (id_Username i) (id_Email i) (id_IsAdmin i)
             (rq_uuid r ''externaluser'') (rq_now r) d) = Inr user)"

lemma authViaConnectors_Some:
  "run_state (authViaConnectors cs r username password) st = (Some user, st') \<Longrightarrow>
    \<exists>c i. c \<in> set cs \<and> c r username password = Some (Some i)
      \<and> fst (UpsertExternalUser (id_Connector i) (id_ExternalID i) (id_Username i) (id_Email i) (id_IsAdmin i)
             (rq_uuid r ''externaluser'') (rq_now r) (st_db st)) = Inr user"
proof (induction cs)
  case (Cons c cs)
  consider "c r username password = None \<or> c r username password = Some None"
    | i where "c r username password = Some (Some i)" by (metis option.exhaust)
  then show ?case
  proof cases
    case 1
    then show ?thesis using Cons by (auto split: option.splits)
  next
    case (2 i)
    then have "fst (UpsertExternalUser (id_Connector i) (id_ExternalID i) (id_Username i) (id_Email i) (id_IsAdmin i)
             (rq_uuid r ''externaluser'') (rq_now r) (st_db st)) = Inr user"
      using Cons.prems by (auto simp: ok_or_none_def split: sum.splits)
    then show ?thesis using 2 by (intro exI [of _ c] exI [of _ i]) simp
  qed
qed simp

lemma GetUserByUsername_Inr: "GetUserByUsername n d = Inr u \<Longrightarrow> u \<in> set (db_users d) \<and> usr_Username u = n"
  by (auto simp: GetUserByUsername_def query_def dest!: sel1_Inr split: if_splits)

lemma run_slots:
  "st_db (snd (run_state acquirePasswordVerify st)) = st_db st" "st_db (snd (run_state releasePasswordVerify st)) = st_db st"
  by (simp_all add: acquirePasswordVerify_def releasePasswordVerify_def)

lemma login_local_Inr:
  assumes "run_state (login_local srv r lx policy username password user) st = (Inr u, st')"
  shows "u = user \<and> \<not> IsLocked user (rq_now r) \<and> VerifyPassword (srv_idkey srv) password (usr_PasswordHash user) = Verdict True
    \<and> \<not> usr_Disabled user"
proof -
  have l: "\<not> IsLocked user (rq_now r)" using assms by (auto simp: login_local_def Let_def split: prod.splits)
  obtain a st1 where a: "run_state acquirePasswordVerify st = (a, st1)" by fastforce
  have a': "a" using assms l a by (auto simp: login_local_def Let_def split: prod.splits if_splits)
  show ?thesis
    using assms l a a'
    by (cases "VerifyPassword (srv_idkey srv) password (usr_PasswordHash user)")
       (auto simp: login_local_def Let_def split: prod.splits if_splits)
qed

lemma login_credentials_Inr:
  assumes "run_state (login_credentials srv r lx policy username password) st = (Inr user, st')"
  shows "locally_verified srv r (st_db st) username password user \<or> externally_verified srv r (st_db st) username password user"
proof (cases "\<exists>u. GetUserByUsername username (st_db st) = Inr u \<and> IsLocal u")
  case True
  then obtain u where u: "GetUserByUsername username (st_db st) = Inr u" "IsLocal u" by blast
  then have "run_state (login_local srv r lx policy username password u) st = (Inr user, st')"
    using assms by (simp add: login_credentials_def)
  from login_local_Inr [OF this] GetUserByUsername_Inr [OF u(1)] u(2) show ?thesis
    by (simp add: locally_verified_def)
next
  case False
  then have n: "(case GetUserByUsername username (st_db st) of Inl _ \<Rightarrow> None | Inr u \<Rightarrow> if IsLocal u then Some u else None) = None"
    by (auto split: sum.split)
  have c: "srv_connectors srv \<noteq> []"
    using assms n by (auto simp: login_credentials_def login_unknown_def split: prod.splits if_splits)
  obtain x st1 where x: "run_state (authViaConnectors (srv_connectors srv) r username password) st = (x, st1)" by fastforce
  have "x = Some user \<and> \<not> usr_Disabled user"
    using assms n c x by (auto simp: login_credentials_def login_external_def split: option.splits prod.splits if_splits)
  then show ?thesis
    using authViaConnectors_Some [of "srv_connectors srv" r username password st user st1] x False
    by (auto simp: externally_verified_def)
qed

lemma run_rate_Allowed:
  "run_state (rate_Allowed lf r k mx ttl) st =
    (fst (Allowed k mx ttl (rq_now r) (fst lf st)), snd lf (\<lambda>_. snd (Allowed k mx ttl (rq_now r) (fst lf st))) st)"
  by (simp add: rate_Allowed_def split_beta)

lemma limiter_frames [simp]:
  "st_db (snd loginRate f st) = st_db st" "st_db (snd loginIPRate f st) = st_db st" "st_db (snd mfaRate f st) = st_db st"
  "st_settings (snd loginRate f st) = st_settings st" "st_settings (snd loginIPRate f st) = st_settings st"
  "st_settings (snd mfaRate f st) = st_settings st" "st_loginRate (snd loginIPRate f st) = st_loginRate st"
  "fst loginRate st = st_loginRate st" "fst loginIPRate st = st_loginIPRate st" "fst mfaRate st = st_mfaRate st"
  "st_verifyActive (snd loginRate f st) = st_verifyActive st" "st_verifyActive (snd loginIPRate f st) = st_verifyActive st"
  "st_verifyActive (snd mfaRate f st) = st_verifyActive st"
  by (simp_all add: limiter_fields)

lemma login_done_session:
  assumes "run_state (login_done r lx parked username user) st = (resp, st')"
    and "row \<in> session_rows (st_db st')" and "row \<notin> session_rows (st_db st)"
  shows "\<not> usr_MFAEnabled user \<and> opened r st (usr_ID user) ''pwd'' row"
proof -
  let ?st1 = "snd loginIPRate (Reset (ip_key r)) (snd loginRate (Reset (rl_key r username)) st)"
  have rows: "session_rows (st_db ?st1) = session_rows (st_db st)" by simp
  have m: "\<not> usr_MFAEnabled user"
  proof
    assume "usr_MFAEnabled user"
    then have "run_state (startMFAChallenge r user (lx_next lx) (lx_req lx)) ?st1 = (resp, st')"
      using assms(1) by (simp add: login_done_def rate_Reset_def)
    from no_new_session [OF performs_challenge this] show False using assms(2,3) by auto
  qed
  obtain x st2 where i: "run_state (sessions_Issue r (usr_ID user) ''pwd'') ?st1 = (x, st2)" by fastforce
  have "session_rows (st_db st') \<subseteq> session_rows (st_db st2)"
  proof (cases x)
    case (Inl e)
    then show ?thesis using assms(1) m i by (simp add: login_done_def rate_Reset_def)
  next
    case (Inr sess)
    let ?rest = "do { _ \<leftarrow> audit r evtLoginSuccess (entry0\<lparr>ae_actorUserID := usr_ID user, ae_username := username, ae_success := True\<rparr>);
      (case parked of Some p \<Rightarrow> continueAfterAuth r p (lx_req lx) (usr_ID user) (rq_now r) (ses_AMR sess)
        | None \<Rightarrow> done_with (Redirect (if lx_next lx = [] then redirectAfterLogin user else lx_next lx))) }"
    have "run_state ?rest st2 = (resp, st')"
      using assms(1) m i Inr by (simp add: login_done_def rate_Reset_def)
    moreover have "performs no_session ?rest" by (intro performs_rules; simp)
    ultimately show ?thesis by (rule no_new_session [rotated])
  qed
  then have "row \<in> session_rows (st_db st2)" using assms(2) by blast
  moreover have "row \<notin> session_rows (st_db ?st1)" using assms(3) rows by simp
  ultimately show ?thesis
    using opened_Issue [OF i, of row] m by (simp add: opened_def)
qed

lemma login_attempt_session:
  assumes "run_state (login_attempt srv r lx parked policy username) st = (resp, st')"
    and "row \<in> session_rows (st_db st')" and "row \<notin> session_rows (st_db st)"
  shows "fst (Allowed (rl_key r username) (sv_MaxFailedLogins policy) (sv_RateLimitWindow policy) (rq_now r) (st_loginRate st))
    \<and> int (length (PostFormValue r ''password'')) \<le> sv_MaxLoginPasswordBytes policy \<and> int (length username) \<le> sv_MaxLoginUsernameBytes policy
    \<and> (\<exists>user. (locally_verified srv r (st_db st) username (PostFormValue r ''password'') user
          \<or> externally_verified srv r (st_db st) username (PostFormValue r ''password'') user)
        \<and> \<not> usr_MFAEnabled user \<and> opened r st (usr_ID user) ''pwd'' row)"
proof -
  let ?pw = "PostFormValue r ''password''"
  obtain a st1 where a: "run_state (rate_Allowed loginRate r (rl_key r username) (sv_MaxFailedLogins policy) (sv_RateLimitWindow policy)) st = (a, st1)"
    by fastforce
  then have st1: "st_db st1 = st_db st" "st_settings st1 = st_settings st"
    and al: "a = fst (Allowed (rl_key r username) (sv_MaxFailedLogins policy) (sv_RateLimitWindow policy) (rq_now r) (st_loginRate st))"
    by (auto simp: run_rate_Allowed)
  have quiet: False if "performs no_session m" "run_state m st1 = (resp, st')" for m :: "response prog"
    using no_new_session [OF that] assms(2,3) st1 by auto
  have "a"
  proof (rule ccontr)
    assume "\<not> a"
    then have "run_state (too_many srv r lx) st1 = (resp, st')" using assms(1) a by (simp add: login_attempt_def Let_def)
    then show False using quiet [OF performs_pages(3)] by blast
  qed
  have len: "\<not> (sv_MaxLoginUsernameBytes policy < int (length username) \<or> sv_MaxLoginPasswordBytes policy < int (length ?pw))"
  proof
    assume "sv_MaxLoginUsernameBytes policy < int (length username) \<or> sv_MaxLoginPasswordBytes policy < int (length ?pw)"
    then have "run_state (invalid_login srv r lx policy username) st1 = (resp, st')"
      using assms(1) a \<open>a\<close> by (simp add: login_attempt_def Let_def)
    then show False using quiet [OF performs_invalid] by blast
  qed
  obtain v st2 where v: "run_state (login_credentials srv r lx policy username ?pw) st1 = (v, st2)" by fastforce
  have rows2: "session_rows (st_db st2) \<subseteq> session_rows (st_db st)"
    using no_new_session [OF performs_login_credentials v] st1 by simp
  obtain user where user: "v = Inr user"
    using assms a \<open>a\<close> len v rows2 by (cases v) (auto simp: login_attempt_def Let_def)
  have "run_state (login_done r lx parked username user) st2 = (resp, st')"
    using assms(1) a \<open>a\<close> len v user by (simp add: login_attempt_def Let_def)
  moreover have "row \<notin> session_rows (st_db st2)" using assms(3) rows2 by blast
  ultimately have "\<not> usr_MFAEnabled user \<and> opened r st2 (usr_ID user) ''pwd'' row"
    using login_done_session assms(2) by blast
  moreover have "st_settings st2 = st_settings st"
    using performs_settingsD [OF performs_login_credentials v] st1 by simp
  ultimately show ?thesis
    using login_credentials_Inr [OF v [unfolded user]] st1 al \<open>a\<close> len by (auto simp: opened_def)
qed

text \<open>C5: Who gets a session from the login form. A session that was not there before belongs to an enabled account
  without a second factor, of the name in the form, whose password hash the password of the form matches and which
  is not locked; or to one an external source of passwords has vouched for, when no local account has that
  name. The form carried the browser's CSRF token, neither the address nor the pair of address and name
  had used up its attempts, and name and password were within their limits; the session
  says \<open>pwd\<close> and ends with the configured lifetime.\<close>

theorem login_session_sound:
  assumes "run_state (handleLoginSubmit srv r) st = (resp, st')"
    and "row \<in> session_rows (st_db st')" and "row \<notin> session_rows (st_db st)"
  shows "let cur = st_settings st; username = TrimSpace (PostFormValue r ''username''); password = PostFormValue r ''password'' in
    csrf_valid r
    \<and> fst (Allowed (ip_key r) (sv_LoginIPMaxAttempts cur) (sv_RateLimitWindow cur) (rq_now r) (st_loginIPRate st))
    \<and> fst (Allowed (rl_key r username) (sv_MaxFailedLogins cur) (sv_RateLimitWindow cur) (rq_now r) (st_loginRate st))
    \<and> int (length password) \<le> sv_MaxLoginPasswordBytes cur \<and> int (length username) \<le> sv_MaxLoginUsernameBytes cur
    \<and> (\<exists>user. (locally_verified srv r (st_db st) username password user \<or> externally_verified srv r (st_db st) username password user)
        \<and> \<not> usr_MFAEnabled user \<and> opened r st (usr_ID user) ''pwd'' row)"
proof -
  let ?cur = "st_settings st" and ?u = "TrimSpace (PostFormValue r ''username'')"
  have csrf: "csrfOK r = None" using assms by (cases "csrfOK r") (auto simp: handleLoginSubmit_def)
  obtain a st1 where a: "run_state (rate_Allowed loginIPRate r (ip_key r) (sv_LoginIPMaxAttempts ?cur) (sv_RateLimitWindow ?cur)) st = (a, st1)"
    by fastforce
  then have st1: "st_db st1 = st_db st" "st_settings st1 = ?cur" "st_loginRate st1 = st_loginRate st"
    and al: "a = fst (Allowed (ip_key r) (sv_LoginIPMaxAttempts ?cur) (sv_RateLimitWindow ?cur) (rq_now r) (st_loginIPRate st))"
    by (auto simp: run_rate_Allowed)
  have quiet: False if "performs no_session m" "run_state m st1 = (resp, st')" for m :: "response prog"
    using no_new_session [OF that] assms(2,3) st1 by auto
  have "a"
  proof (rule ccontr)
    assume "\<not> a"
    then have "\<exists>lx. run_state (too_many srv r lx) st1 = (resp, st')"
      using assms(1) a csrf by (auto simp: handleLoginSubmit_def Let_def)
    then show False using quiet [OF performs_pages(3)] by blast
  qed
  have attempt: "\<exists>lx parked. run_state (login_attempt srv r lx parked ?cur ?u) st1 = (resp, st')"
  proof (cases "PostFormValue r ''req'' = []")
    case True
    then show ?thesis using assms(1) a csrf \<open>a\<close> by (auto simp: handleLoginSubmit_def Let_def)
  next
    case False
    show ?thesis
    proof (cases "peekAuthRequest (PostFormValue r ''req'') (rq_now r) (st_db st)")
      case (Some p)
      then show ?thesis using assms(1) a csrf \<open>a\<close> False st1 by (auto simp: handleLoginSubmit_def Let_def)
    next
      case None
      let ?rest = "do {
             cs \<leftarrow> sessions_Current r;
             (case cs of
                Inr sess \<Rightarrow> do { dest \<leftarrow> ask (signedInLanding (ses_UserID sess)); done_with (Redirect dest) }
              | Inl _ \<Rightarrow> do {
                  v \<leftarrow> ask (loadAuthRequest (PostFormValue r ''req'') (rq_now r));
                  done_with (case v of Inl resp \<Rightarrow> resp | Inr _ \<Rightarrow> Status 200) }) }"
      have "run_state ?rest st1 = (resp, st')"
        using assms(1) a csrf \<open>a\<close> False st1 None by (simp add: handleLoginSubmit_def Let_def)
      moreover have "performs no_session ?rest" by (intro performs_rules; simp)
      ultimately show ?thesis using quiet by blast
    qed
  qed
  then obtain lx parked where att: "run_state (login_attempt srv r lx parked ?cur ?u) st1 = (resp, st')" by blast
  have "row \<notin> session_rows (st_db st1)" using assms(3) st1 by simp
  note sess = login_attempt_session [OF att assms(2) this]
  have "opened r st1 u amr row = opened r st u amr row" for u amr using st1 by (simp add: opened_def)
  then show ?thesis
    using sess st1 al \<open>a\<close> csrf unfolding Let_def
    by (simp add: csrfOK_def split: if_split_asm)
qed

subsection \<open>Who gets a session from the second factor\<close>

text \<open>The code of the authenticator, or a recovery code that has not been used.\<close>

definition second_factor :: "server \<Rightarrow> request \<Rightarrow> db \<Rightarrow> User \<Rightarrow> string \<Rightarrow> bool" where
  "second_factor srv r d user code \<longleftrightarrow> code \<noteq> [] \<and> (totp_accepts srv r user code
     \<or> (\<exists>c \<in> set (db_recovery_codes d). rc_usable (usr_ID user) (HashToken (normalizeRecovery srv code)) c))"

lemma affected_pos: "0 < affected p t \<longleftrightarrow> (\<exists>r \<in> set t. p r)"
  by (induction t) (auto simp: affected_def)

lemma verifySecondFactor_True:
  assumes "run_state (verifySecondFactor srv r user code) st = (True, st')"
  shows "second_factor srv r (st_db st) user code"
  using assms
  by (auto simp: verifySecondFactor_def second_factor_def ConsumeRecoveryCode_def raw_stmts affected_pos
      split: if_splits sum.splits)

lemma currentChallenge_Some:
  assumes "currentChallenge r d = Some ch"
  shows "ch \<in> set (db_login_challenges d) \<and> Cookie r mfaCookieName = Some (lc_ID ch) \<and> rq_now r \<le> lc_ExpiresAt ch"
  using assms
  by (auto simp: currentChallenge_def ok_or_none_def GetLoginChallenge_def query_def dest!: sel1_Inr split: option.splits if_splits sum.splits)

lemma no_new_challenge:
  assumes "performs no_challenge m" and "run_state m st = (x, st')"
  shows "set (db_login_challenges (st_db st')) \<subseteq> set (db_login_challenges (st_db st))"
proof -
  have "runs no_challenge (st_db st) (st_db st')" using performsD [OF assms] .
  then obtain ops where "list_all no_challenge ops" "st_db st' = fold store_step ops (st_db st)" by (auto simp: runs_def)
  then show ?thesis using no_challenge_run [of ops "st_db st"] by simp
qed

lemma performs_continue_challenge [performs_rules]: "performs no_challenge (continueAfterAuth r p reqID userID t amr)"
  unfolding continueAfterAuth_def by (intro performs_rules; simp)

lemma performs_mfa_continue: "performs no_session (mfa_continue r ch user x)" "performs no_challenge (mfa_continue r ch user x)"
  unfolding mfa_continue_def by (intro performs_rules; simp)+

lemma mfa_accepted_session:
  assumes "run_state (mfa_accepted r ch user) st = (resp, st')"
    and "row \<in> session_rows (st_db st')" and "row \<notin> session_rows (st_db st)"
  shows "opened r st (usr_ID user) ((if lc_AMR ch = [] then ''pwd'' else lc_AMR ch) @ '' otp mfa'') row"
    and "\<not> fault (st_db st) ''DeleteLoginChallenge'' \<Longrightarrow> lc_ID ch \<notin> lc_ID ` set (db_login_challenges (st_db st'))"
proof -
  let ?amr = "(if lc_AMR ch = [] then ''pwd'' else lc_AMR ch) @ '' otp mfa''"
  define st0 where "st0 = snd mfaRate (Reset (''mfa|'' @ usr_ID user)) st"
  define st1 where "st1 = st0\<lparr>st_db := snd (DeleteLoginChallenge (lc_ID ch) (st_db st0)), st_cookies := st_cookies st0 @ [(mfaCookieName, [])]\<rparr>"
  have st1: "st_db st1 = snd (DeleteLoginChallenge (lc_ID ch) (st_db st))" "st_settings st1 = st_settings st"
    by (simp_all add: st1_def st0_def)
  obtain x st2 where i: "run_state (sessions_Issue r (usr_ID user) ?amr) st1 = (x, st2)" by fastforce
  have rest: "run_state (mfa_continue r ch user x) st2 = (resp, st')"
    using assms(1) i by (simp add: mfa_accepted_def rate_Reset_def clearMFACookie_def set_cookie_def st1_def st0_def)
  have "row \<in> session_rows (st_db st2)" using no_new_session [OF performs_mfa_continue(1) rest] assms(2) by blast
  moreover have "session_rows (st_db st1) = session_rows (st_db st)"
    by (simp add: st1 session_rows_def DeleteLoginChallenge_def raw_stmts)
  ultimately have "opened r st1 (usr_ID user) ?amr row"
    using assms(3) by (intro opened_Issue [OF i]) simp_all
  then show "opened r st (usr_ID user) ?amr row" by (simp only: opened_def st1)
  have "performs no_challenge (sessions_Issue r (usr_ID user) ?amr)" by (intro performs_rules; simp)
  from no_new_challenge [OF this i] no_new_challenge [OF performs_mfa_continue(2) rest]
  have "set (db_login_challenges (st_db st')) \<subseteq> set (db_login_challenges (st_db st1))" by (rule subset_trans [rotated])
  then show "\<not> fault (st_db st) ''DeleteLoginChallenge'' \<Longrightarrow> lc_ID ch \<notin> lc_ID ` set (db_login_challenges (st_db st'))"
    by (auto simp: st1 DeleteLoginChallenge_def raw_stmts set_del)
qed

lemma performs_mfa_refused [performs_rules]: "performs no_session (mfa_refused r user policy)"
  unfolding mfa_refused_def by (intro performs_rules; simp)

text \<open>C6: Who gets a session from the second factor. A session that was not there before is for the account of
  the pending challenge the request's cookie names, which has not expired; the account is enabled and has a second
  factor; the form carried the browser's CSRF token and a code of its authenticator or a recovery code of
  its that was unused; its attempts were not used up; the session says which first factor there was
  and that there was a second; and the challenge is spent, unless the statement that deletes it fails.\<close>

theorem mfa_session_sound:
  assumes "run_state (handleMFASubmit srv r) st = (resp, st')"
    and "row \<in> session_rows (st_db st')" and "row \<notin> session_rows (st_db st)"
  shows "csrf_valid r \<and> (\<exists>ch user. ch \<in> set (db_login_challenges (st_db st)) \<and> Cookie r mfaCookieName = Some (lc_ID ch)
    \<and> rq_now r \<le> lc_ExpiresAt ch \<and> user \<in> set (db_users (st_db st)) \<and> usr_ID user = lc_UserID ch
    \<and> \<not> usr_Disabled user \<and> usr_MFAEnabled user
    \<and> fst (Allowed (''mfa|'' @ usr_ID user) (sv_MaxFailedLogins (st_settings st)) (sv_RateLimitWindow (st_settings st)) (rq_now r) (st_mfaRate st))
    \<and> second_factor srv r (st_db st) user (TrimSpace (PostFormValue r ''code''))
    \<and> opened r st (usr_ID user) ((if lc_AMR ch = [] then ''pwd'' else lc_AMR ch) @ '' otp mfa'') row
    \<and> (\<not> fault (st_db st) ''DeleteLoginChallenge'' \<longrightarrow> lc_ID ch \<notin> lc_ID ` set (db_login_challenges (st_db st'))))"
proof -
  have csrf: "csrfOK r = None" using assms by (cases "csrfOK r") (auto simp: handleMFASubmit_def)
  obtain ch where ch: "currentChallenge r (st_db st) = Some ch"
    using assms csrf by (cases "currentChallenge r (st_db st)") (auto simp: handleMFASubmit_def)
  obtain user where u: "GetUserByID (lc_UserID ch) (st_db st) = Inr user" "\<not> usr_Disabled user" "usr_MFAEnabled user"
    using assms csrf ch
    by (auto simp: handleMFASubmit_def clearMFACookie_def set_cookie_def split: sum.splits if_splits)
  let ?cur = "st_settings st" and ?code = "TrimSpace (PostFormValue r ''code'')" and ?key = "''mfa|'' @ usr_ID user"
  obtain a st1 where a: "run_state (rate_Allowed mfaRate r ?key (sv_MaxFailedLogins ?cur) (sv_RateLimitWindow ?cur)) st = (a, st1)"
    by fastforce
  then have st1: "st_db st1 = st_db st" "st_settings st1 = ?cur"
    and al: "a = fst (Allowed ?key (sv_MaxFailedLogins ?cur) (sv_RateLimitWindow ?cur) (rq_now r) (st_mfaRate st))"
    by (auto simp: run_rate_Allowed)
  note unfolds = handleMFASubmit_def csrf ch u Let_def a
  have "a"
  proof (rule ccontr)
    assume "\<not> a"
    then have "\<exists>s m. run_state (renderMFA r s m) st1 = (resp, st')" using assms(1) a by (auto simp: unfolds)
    then show False using no_new_session [OF performs_pages(2)] assms(2,3) st1 by fastforce
  qed
  obtain ok st2 where f: "run_state (verifySecondFactor srv r user ?code) st1 = (ok, st2)" by fastforce
  have rows2: "session_rows (st_db st2) \<subseteq> session_rows (st_db st)" "st_settings st2 = ?cur"
    using no_new_session [OF performs_second_factor f] performs_settingsD [OF performs_second_factor f] st1 by simp_all
  have chs2: "fault (st_db st2) op = fault (st_db st) op" for op
    using f st1 by (auto simp: verifySecondFactor_def ConsumeRecoveryCode_def raw_stmts fault_def split: if_splits)
  have "ok"
  proof (rule ccontr)
    assume "\<not> ok"
    then have "run_state (mfa_refused r user ?cur) st2 = (resp, st')" using assms(1) a f \<open>a\<close> by (simp add: unfolds)
    then show False using no_new_session [OF performs_mfa_refused] assms(2,3) rows2 by blast
  qed
  then have run: "run_state (mfa_accepted r ch user) st2 = (resp, st')"
    using assms(1) a f \<open>a\<close> by (simp add: unfolds)
  have new: "row \<notin> session_rows (st_db st2)" using assms(3) rows2 by blast
  note fin = mfa_accepted_session [OF run assms(2) new]
  have "opened r st2 i amr row = opened r st i amr row" for i amr using rows2 by (simp add: opened_def)
  then show ?thesis
    using fin chs2 al \<open>a\<close> csrf u currentChallenge_Some [OF ch] GetUserByID_Inr [OF u(1)]
      verifySecondFactor_True [OF f [unfolded \<open>ok\<close> [THEN eqTrueI]]] st1
    by (intro conjI exI [of _ ch] exI [of _ user]) (simp_all add: csrfOK_def split: if_split_asm)
qed

end
