(* ===== verification/SignInFacts.thy ===== *)
theory SignInFacts
  imports LoginFacts
begin

text \<open>
  What the answers of the sign-in pages give away, where they send the browser, what a password link and
  the first-run setup do, and what becomes of a demand to sign in again.
\<close>

subsection \<open>One answer for every refusal\<close>

text \<open>The login page a form is answered with again: what it shows depends on the request, the message and the application that
  asks, and on nothing else.\<close>

definition login_page :: "server \<Rightarrow> request \<Rightarrow> int \<Rightarrow> string \<Rightarrow> (string \<times> string) list \<Rightarrow> response" where
  "login_page srv r status msg app = Page status ''login'' ((''CSRFToken'', fst (CSRFToken (Cookie r csrfCookieName) (rq_rand r ''csrf'')))
     # [(''Error'', msg), (''Notice'', first_value loginNotices (QueryGet r ''notice'')),
        (''Next'', safeNext (PostFormValue r ''next'')), (''Req'', PostFormValue r ''req'')]
      @ app @ (if srv_mailEnabled srv then [(''ForgotEnabled'', ''true'')] else []))"

abbreviation too_many_text :: string where
  "too_many_text \<equiv> ''Too many sign-in attempts. Please wait a few minutes and try again.''"

abbreviation locked_text :: string where
  "locked_text \<equiv> ''Your account is temporarily locked due to too many failed sign-in attempts. Please try again later.''"

definition asking_app :: "request \<Rightarrow> db \<Rightarrow> (string \<times> string) list" where
  "asking_app r d = (case peekAuthRequest (PostFormValue r ''req'') (rq_now r) d of
     Some p \<Rightarrow> if PostFormValue r ''req'' = [] then [] else appViewFor (az_client p) (az_redirectURI p) | None \<Rightarrow> [])"

definition login_lx :: "request \<Rightarrow> (string \<times> string) list \<Rightarrow> login_ctx" where
  "login_lx r app = \<lparr>lx_req = PostFormValue r ''req'', lx_next = safeNext (PostFormValue r ''next''), lx_app = app\<rparr>"

lemma run_form_page: "fst (run_state (form_page r s n vs) st) =
    Page s n ((''CSRFToken'', fst (CSRFToken (Cookie r csrfCookieName) (rq_rand r ''csrf''))) # vs)"
  by (simp add: form_page_def csrf_token_def set_cookie_def split_beta split: option.split)

lemma login_page_runs:
  "fst (run_state (invalid_login srv r (login_lx r app) policy username) st) = login_page srv r 401 ''Invalid username or password.'' app"
  "fst (run_state (too_many srv r (login_lx r app)) st) = login_page srv r 429 too_many_text app"
  "fst (run_state (renderLogin srv r s m (lx_req (login_lx r app)) (lx_next (login_lx r app)) (lx_app (login_lx r app))) st)
     = login_page srv r s m app"
  by (simp_all add: invalid_login_def too_many_def rate_Fail_def renderLogin_def run_form_page login_page_def login_lx_def split_beta)

text \<open>The user the connectors sign in, and the attempts that are accepted: the password of a local account that is neither
  locked nor disabled, or a directory user whose account is not disabled.\<close>

fun connector_user :: "connector list \<Rightarrow> request \<Rightarrow> string \<Rightarrow> string \<Rightarrow> db \<Rightarrow> User option" where
  "connector_user [] r username password d = None"
| "connector_user (c # cs) r username password d = (case c r username password of
     Some (Some i) \<Rightarrow> ok_or_none (fst (UpsertExternalUser (id_Connector i) (id_ExternalID i) (id_Username i) (id_Email i) (id_IsAdmin i)
         (rq_uuid r ''externaluser'') (rq_now r) d))
   | _ \<Rightarrow> connector_user cs r username password d)"

lemma run_connectors: "fst (run_state (authViaConnectors cs r username password) st) = connector_user cs r username password (st_db st)"
  by (induction cs) (auto simp: split_beta split: option.splits)

definition local_account :: "string \<Rightarrow> db \<Rightarrow> User option" where
  "local_account username d = (case GetUserByUsername username d of Inl _ \<Rightarrow> None | Inr u \<Rightarrow> if IsLocal u then Some u else None)"

definition accepted :: "server \<Rightarrow> request \<Rightarrow> db \<Rightarrow> string \<Rightarrow> string \<Rightarrow> bool" where
  "accepted srv r d username password \<longleftrightarrow> (case local_account username d of
       Some u \<Rightarrow> \<not> IsLocked u (rq_now r) \<and> \<not> usr_Disabled u \<and> VerifyPassword (srv_idkey srv) password (usr_PasswordHash u) = Verdict True
     | None \<Rightarrow> (case connector_user (srv_connectors srv) r username password d of Some u \<Rightarrow> \<not> usr_Disabled u | None \<Rightarrow> False))"

definition slot_free :: "srvstate \<Rightarrow> bool" where
  "slot_free st \<longleftrightarrow> st_verifyActive st < (if sv_PasswordVerifyConcurrency (st_settings st) < 1 then defaultPasswordVerifyConcurrency
     else sv_PasswordVerifyConcurrency (st_settings st))"

lemma run_acquire:
  "run_state acquirePasswordVerify st = (if slot_free st then (True, st\<lparr>st_verifyActive := st_verifyActive st + 1\<rparr>) else (False, st))"
  by (simp add: acquirePasswordVerify_def slot_free_def Let_def)

text \<open>What the check of a name and a password answers when it does not accept them.\<close>

definition refusal :: "server \<Rightarrow> request \<Rightarrow> srvstate \<Rightarrow> string \<Rightarrow> string \<Rightarrow> (string \<times> string) list \<Rightarrow> response \<Rightarrow> bool" where
  "refusal srv r st username password app resp \<longleftrightarrow> resp = login_page srv r 401 ''Invalid username or password.'' app
     \<or> resp = login_page srv r 429 too_many_text app \<and> \<not> slot_free st
     \<or> resp = login_page srv r 429 locked_text app \<and> (\<exists>u. local_account username (st_db st) = Some u \<and> IsLocked u (rq_now r))
     \<or> resp = panicked \<and> (\<exists>u. local_account username (st_db st) = Some u
           \<and> VerifyPassword (srv_idkey srv) password (usr_PasswordHash u) = Panics)"

lemma refused_local:
  assumes "local_account username (st_db st) = Some u" and "\<not> accepted srv r (st_db st) username password"
  shows "\<exists>resp. fst (run_state (login_local srv r (login_lx r app) policy username password u) st) = Inl resp
    \<and> refusal srv r st username password app resp"
proof (cases "IsLocked u (rq_now r)")
  case True
  then show ?thesis using assms(1)
    by (simp add: login_local_def Let_def split_beta login_page_runs refusal_def)
next
  case False
  obtain v where v: "VerifyPassword (srv_idkey srv) password (usr_PasswordHash u) = v" by blast
  have "v \<noteq> Verdict True \<or> usr_Disabled u" using assms False v by (auto simp: accepted_def)
  then show ?thesis
    using False v assms(1)
    by (cases v; cases "slot_free st")
       (auto simp: login_local_def Let_def split_beta run_acquire releasePasswordVerify_def login_page_runs refusal_def)
qed

lemma refused_answer:
  assumes "\<not> accepted srv r (st_db st) username password"
  shows "\<exists>resp. fst (run_state (login_credentials srv r (login_lx r app) policy username password) st) = Inl resp
    \<and> refusal srv r st username password app resp"
proof (cases "local_account username (st_db st)")
  case (Some u)
  then have "(case GetUserByUsername username (st_db st) of Inl _ \<Rightarrow> None | Inr u \<Rightarrow> if IsLocal u then Some u else None) = Some u"
    by (simp add: local_account_def)
  with refused_local [OF Some assms] show ?thesis by (simp add: login_credentials_def)
next
  case None
  then have n: "(case GetUserByUsername username (st_db st) of Inl _ \<Rightarrow> None | Inr u \<Rightarrow> if IsLocal u then Some u else None) = None"
    by (simp add: local_account_def)
  obtain found st1 where c: "run_state (authViaConnectors (srv_connectors srv) r username password) st = (found, st1)" by fastforce
  then have "found = connector_user (srv_connectors srv) r username password (st_db st)" using run_connectors by (metis fst_conv)
  with assms None have "found = None \<or> (\<exists>u. found = Some u \<and> usr_Disabled u)"
    by (cases found) (auto simp: accepted_def)
  with n c show ?thesis
    by (cases "slot_free st")
       (auto simp: login_credentials_def login_external_def login_unknown_def split_beta run_acquire releasePasswordVerify_def
        login_page_runs refusal_def)
qed


subsection \<open>Where the sign-in pages send the browser\<close>

text \<open>The clients stay as they were, and the answer is safe for them.\<close>

abbreviation clients_kept :: "db \<Rightarrow> SettingsView \<Rightarrow> db \<Rightarrow> bool" where
  "clients_kept d0 \<equiv> (\<lambda>cur d. db_clients d = db_clients d0)"

abbreviation safely :: "db \<Rightarrow> response prog \<Rightarrow> bool" where
  "safely d0 m \<equiv> triple (clients_kept d0) no_client m (safe_response d0)"

lemma stable_clients [triple_rules]: "stable_inv (clients_kept d0) no_client"
  unfolding stable_inv_def using no_client_step by simp

lemma safely_plain [triple_rules]:
  "safe_response d0 resp \<Longrightarrow> triple (clients_kept d0) no_client (done_with resp) (safe_response d0)"
  by (rule triple_return)

declare safe_local [simp]

lemma safe_landings [simp]:
  "safe_response d (Redirect (redirectAfterLogin u))" "safe_response d (Redirect (signedInLanding i d'))"
  by (auto simp: redirectAfterLogin_def signedInLanding_def split: sum.split)

lemma safe_next: "safeNext n \<noteq> [] \<Longrightarrow> local_path (safeNext n)"
  by (auto simp: safeNext_def local_path_def path_char_def list_all_iff list_ex_iff not_less split: if_splits option.splits)

lemma safely_pages [triple_rules]:
  "safely d0 (renderLogin srv r s m q n app)" "safely d0 (renderMFA r s m)" "safely d0 (too_many srv r lx)"
  "safely d0 (renderSetup srv r cur s m u e)" "safely d0 (form_page r s n vs)"
  unfolding renderLogin_def renderMFA_def too_many_def renderSetup_def by (intro triple_rules; simp)+

lemma safely_setpw [triple_rules]: "safely d0 (renderSetPassword r s t m)"
  unfolding renderSetPassword_def by (intro triple_settings triple_rules)

lemma safely_invalid [triple_rules]: "safely d0 (invalid_login srv r lx policy username)"
  unfolding invalid_login_def by (intro triple_bind_any performs_rules triple_rules; simp)

lemma safely_issue [triple_rules]:
  assumes "params_ok d0 p"
  shows "safely d0 (issueCode r p u t amr)"
proof (rule triple_performs)
  show "performs no_client (issueCode r p u t amr)" by (intro performs_rules; simp)
  show "safe_response d0 (fst (run_state (issueCode r p u t amr) st))" for st
    using safe_issueCode [OF _ assms] by (metis prod.collapse)
qed (rule stable_clients)

lemma safely_continue [triple_rules]:
  "params_ok d0 p \<Longrightarrow> safely d0 (continueAfterAuth r p reqID userID t amr)"
  unfolding continueAfterAuth_def by (intro triple_rules triple_bind_any performs_rules; simp)

lemma safely_challenge [triple_rules]: "safely d0 (startMFAChallenge r user next reqID)"
  unfolding startMFAChallenge_def createMFAChallenge_def
  by (intro triple_bind_any performs_rules triple_rules; simp)

lemma params_kept:
  "clients_kept d0 cur d \<Longrightarrow> peekAuthRequest i now d = Some p \<or> loadAuthRequest i now d = Inr p \<Longrightarrow> params_ok d0 p"
  using params_of_ok params_ok_frame by metis

lemma kept_peek: "peekAuthRequest i now d = Some p \<Longrightarrow> db_clients d = db_clients d0 \<Longrightarrow> params_ok d0 p"
  using params_kept [of d d0 i now p] by blast

lemma kept_load: "loadAuthRequest i now d = Inr p \<Longrightarrow> db_clients d = db_clients d0 \<Longrightarrow> params_ok d0 p"
  using params_kept [of d d0 i now p] by blast

lemma safely_done [triple_rules]:
  assumes "\<And>p. parked = Some p \<Longrightarrow> params_ok d0 p" and "lx_next lx \<noteq> [] \<Longrightarrow> local_path (lx_next lx)"
  shows "safely d0 (login_done r lx parked username user)"
  unfolding login_done_def using assms
  by (intro triple_bind_any performs_rules triple_rules; simp add: safe_local)

lemma triple_bind_case:
  assumes "triple I A m (\<lambda>v. case v of Inl e \<Rightarrow> P e | Inr y \<Rightarrow> True)" and "\<And>e. P e \<Longrightarrow> triple I A (f e) Q" and "\<And>y. triple I A (g y) Q"
  shows "triple I A (State_Monad.bind m (\<lambda>v. case v of Inl e \<Rightarrow> f e | Inr y \<Rightarrow> g y)) Q"
  by (rule triple_bind [OF assms(1)]) (use assms(2,3) in \<open>auto split: sum.splits\<close>)

text \<open>An answer that is wrapped, as the parts of the login form return it.\<close>

lemma safely_wrapped:
  assumes "safely d0 m"
  shows "triple (clients_kept d0) no_client (State_Monad.bind m (\<lambda>resp. done_with (Inl resp)))
    (\<lambda>v. case v of Inl e \<Rightarrow> safe_response d0 e | Inr y \<Rightarrow> True)"
  by (rule triple_bind [OF assms]) (simp add: triple_return)

lemma triple_verdict:
  "(v = Panics \<Longrightarrow> triple I A m Q) \<Longrightarrow> (v = Malformed \<Longrightarrow> triple I A n Q) \<Longrightarrow> (\<And>b. v = Verdict b \<Longrightarrow> triple I A (f b) Q) \<Longrightarrow>
    triple I A (case v of Panics \<Rightarrow> m | Malformed \<Rightarrow> n | Verdict b \<Rightarrow> f b) Q"
  by (cases v) simp_all

lemma safely_credentials:
  "triple (clients_kept d0) no_client (login_credentials srv r lx policy username password)
    (\<lambda>v. case v of Inl e \<Rightarrow> safe_response d0 e | Inr y \<Rightarrow> True)"
  unfolding login_credentials_def login_local_def login_external_def login_unknown_def Let_def
  by (intro triple_ask triple_verdict safely_wrapped triple_bind_any performs_rules triple_rules; simp)

lemma safely_attempt:
  assumes "\<And>p. parked = Some p \<Longrightarrow> params_ok d0 p" and "lx_next lx \<noteq> [] \<Longrightarrow> local_path (lx_next lx)"
  shows "safely d0 (login_attempt srv r lx parked policy username)"
  unfolding login_attempt_def Let_def using assms
  by (intro triple_bind_case [OF safely_credentials] triple_bind_any performs_rules triple_rules; simp)

lemma safely_LoginSubmit: "safely d0 (handleLoginSubmit srv r)"
  unfolding handleLoginSubmit_def Let_def
proof (intro triple_rules)
  fix resp assume "csrfOK r = Some resp"
  then show "safe_response d0 resp" by (auto simp: csrfOK_def split: if_splits)
next
  assume "csrfOK r = None"
  show "safely d0 (settings_Current \<bind> (\<lambda>policy.
      rate_Allowed loginIPRate r (ip_key r) (sv_LoginIPMaxAttempts policy) (sv_RateLimitWindow policy) \<bind> (\<lambda>allowed.
        if \<not> allowed then too_many srv r \<lparr>lx_req = PostFormValue r ''req'', lx_next = safeNext (PostFormValue r ''next''), lx_app = []\<rparr>
        else if PostFormValue r ''req'' = [] then
          login_attempt srv r \<lparr>lx_req = PostFormValue r ''req'', lx_next = safeNext (PostFormValue r ''next''), lx_app = []\<rparr> None
            policy (TrimSpace (PostFormValue r ''username''))
        else ask (peekAuthRequest (PostFormValue r ''req'') (rq_now r)) \<bind> (\<lambda>parked. case parked of
             None \<Rightarrow> sessions_Current r \<bind> (\<lambda>cs. case cs of
                 Inl _ \<Rightarrow> ask (loadAuthRequest (PostFormValue r ''req'') (rq_now r)) \<bind>
                   (\<lambda>v. done_with (case v of Inl resp \<Rightarrow> resp | Inr _ \<Rightarrow> Status 200))
               | Inr sess \<Rightarrow> ask (signedInLanding (ses_UserID sess)) \<bind> (\<lambda>dest. done_with (Redirect dest)))
           | Some p \<Rightarrow> login_attempt srv r \<lparr>lx_req = PostFormValue r ''req'', lx_next = safeNext (PostFormValue r ''next''),
               lx_app = appViewFor (az_client p) (az_redirectURI p)\<rparr> (Some p) policy (TrimSpace (PostFormValue r ''username''))))))"
    by (intro triple_settings triple_ask triple_bind_any performs_rules triple_rules safely_attempt;
        (simp add: loadAuthRequest_Inl safe_next split: sum.split)?; (erule kept_peek kept_load, simp)?)
qed

lemma safe_csrf [simp]: "csrfOK r = Some resp \<Longrightarrow> safe_response d0 resp"
  by (auto simp: csrfOK_def split: if_splits)

lemma safely_csrf: "csrfOK r = Some resp \<Longrightarrow> safely d0 (done_with resp)"
  by (auto intro!: safely_plain)

lemma safely_second_factor [performs_rules]: "performs no_client (verifySecondFactor srv r user code)"
  unfolding verifySecondFactor_def by (intro performs_rules; simp)

lemma safely_parked:
  assumes "triple (clients_kept d0) no_client (g None) Q"
    and "\<And>p. params_ok d0 p \<Longrightarrow> triple (clients_kept d0) no_client (g (Some p)) Q"
  shows "triple (clients_kept d0) no_client
    (State_Monad.bind (if i = [] then done_with None else ask (peekAuthRequest i now)) g) Q"
proof (cases "i = []")
  case False
  have "triple (clients_kept d0) no_client (g (peekAuthRequest i now d)) Q" if "db_clients d = db_clients d0" for d
    using assms kept_peek [OF _ that] by (cases "peekAuthRequest i now d") auto
  then show ?thesis using False by (simp add: triple_ask)
qed (simp add: assms)

lemma safely_LoginForm: "safely d0 (handleLoginForm srv r)"
  unfolding handleLoginForm_def Let_def
  by (intro safely_parked triple_settings triple_ask triple_bind_any performs_rules triple_rules;
      (simp add: loadAuthRequest_Inl split: sum.split)?; (erule kept_peek kept_load, simp)?)

lemma safely_mfa_continue [triple_rules]: "safely d0 (mfa_continue r ch user res)"
  unfolding mfa_continue_def Let_def
  by (intro triple_settings triple_ask triple_bind_any performs_rules triple_rules;
      (simp add: loadAuthRequest_Inl safe_next safe_local split: sum.split)?; (erule kept_peek kept_load, simp)?)

lemma safely_MFAForm: "safely d0 (handleMFAForm r)"
  unfolding handleMFAForm_def by (intro triple_ask triple_rules; simp)

lemma safely_setup_account [triple_rules]: "safely d0 (setup_account srv r cur)"
  unfolding setup_account_def Let_def
  by (intro triple_bind_any performs_rules triple_rules; simp)

lemma safely_SetupSubmit: "safely d0 (handleSetupSubmit srv r)"
  unfolding handleSetupSubmit_def
  by (intro triple_ask triple_settings triple_if triple_option safely_setup_account; (erule safely_csrf)?; (rule safely_plain; simp)?)

lemma safely_SetupForm: "safely d0 (handleSetupForm srv r)"
  unfolding handleSetupForm_def by (intro triple_ask triple_settings triple_rules; simp)

lemma safely_store_password [triple_rules]: "safely d0 (store_password srv r user tok password)"
  unfolding store_password_def Let_def
  by (intro triple_bind_any performs_rules triple_rules; simp)
lemma safely_MFASubmit: "safely d0 (handleMFASubmit srv r)"
  unfolding handleMFASubmit_def mfa_accepted_def mfa_refused_def
  by (intro triple_settings triple_ask triple_if triple_option triple_bind_any performs_rules safely_mfa_continue
        safely_plain safely_pages stable_clients; (erule safely_csrf)?; simp?)

lemma safely_SetPassword: "safely d0 (handleSetPasswordSubmit srv r)"
  unfolding handleSetPasswordSubmit_def Let_def bad_link_def
  by (intro triple_settings triple_ask triple_if triple_option triple_sum triple_bind_any performs_rules safely_store_password
        safely_plain safely_setpw stable_clients; simp?)

lemma safely_SetPasswordForm: "safely d0 (handleSetPasswordForm r)"
  unfolding handleSetPasswordForm_def Let_def bad_link_def
  by (intro triple_ask triple_if triple_sum safely_plain safely_setpw; simp?)

text \<open>The pages of a sign-in, from the application's request to the answer that goes back to it.\<close>

definition sign_in_pages :: "server \<Rightarrow> request \<Rightarrow> response prog set" where
  "sign_in_pages srv r = {handleAuthorize r, handleConsentForm r, handleConsentSubmit r, handleLoginForm srv r, handleLoginSubmit srv r,
     handleMFAForm r, handleMFASubmit srv r, handleSetupForm srv r, handleSetupSubmit srv r,
     handleSetPasswordForm r, handleSetPasswordSubmit srv r}"

lemma safely_sign_in:
  "m \<in> sign_in_pages srv r \<Longrightarrow> m \<notin> {handleAuthorize r, handleConsentForm r, handleConsentSubmit r} \<Longrightarrow> safely d0 m"
  unfolding sign_in_pages_def insert_iff empty_iff
  by (elim disjE FalseE; simp add: safely_LoginForm safely_LoginSubmit safely_MFAForm safely_MFASubmit safely_SetupForm
      safely_SetupSubmit safely_SetPassword safely_SetPasswordForm)

lemma logout_redirect:
  assumes "run_state (handleLogoutPage srv r) st = (Redirect t, st')"
  shows "\<exists>c \<in> set (db_clients (st_db st)). \<exists>uri \<in> set (cl_PostLogoutRedirectURIs c).
    t = uri \<or> (\<exists>s. parseWithParam uri ''state'' s = Some t)"
proof -
  obtain u x where lp: "logout_party srv r (st_settings st) (st_db st) = (u, x)" by fastforce
  obtain c where p: "x = Some c" and a: "postLogoutRedirectAllowed c (QueryGet r ''post_logout_redirect_uri'')"
    and t: "t = QueryGet r ''post_logout_redirect_uri'' \<or> parseWithParam (QueryGet r ''post_logout_redirect_uri'') ''state'' (QueryGet r ''state'') = Some t"
    using assms lp by (auto simp: handleLogoutPage_def Let_def split_beta renderSignedOut_def split: if_splits option.splits)
  have "c \<in> set (db_clients (st_db st))"
    using lp p GetClient_Inr by (auto simp: logout_party_def Let_def split: if_splits option.splits sum.splits)
  then show ?thesis using a t by (auto simp: postLogoutRedirectAllowed_def list_ex_iff)
qed

text \<open>C7: No page of the sign-in is an open redirector. Whatever the request's parameters, cookies and form hold, and whatever
  has been parked under the ids it names, the browser is sent only to a path of this server - one slash, not followed by another,
  and not a backslash, tab, line end or other control character anywhere -, to the sign-in page for a parked request, or to a
  registered redirect URI of an enabled client, with nothing of the URI but its query changed. Sign-out sends it only to a URI the
  client has registered for that, with at most a state added.\<close>

theorem no_open_redirect:
  "(m \<in> sign_in_pages srv r \<longrightarrow> run_state m st = (Redirect t, st') \<longrightarrow>
      local_path t \<or> resume_page (st_db st) t \<or> client_url (st_db st) t) \<and>
   (run_state (handleLogoutPage srv r) st = (Redirect t, st') \<longrightarrow>
      (\<exists>c \<in> set (db_clients (st_db st)). \<exists>uri \<in> set (cl_PostLogoutRedirectURIs c).
         t = uri \<or> (\<exists>s. parseWithParam uri ''state'' s = Some t)))"
proof -
  have "safe_response (st_db st) (Redirect t)" if m: "m \<in> sign_in_pages srv r" and run: "run_state m st = (Redirect t, st')"
  proof (cases "m \<in> {handleAuthorize r, handleConsentForm r, handleConsentSubmit r}")
    case True
    then show ?thesis using safe_handleAuthorize safe_consent run by blast
  next
    case False
    show ?thesis using tripleD(1) [OF safely_sign_in [OF m False] run] by blast
  qed
  then show ?thesis using logout_redirect unfolding safe_response_def by blast
qed

end
