(* ===== verification/PasswordFacts.thy ===== *)
theory PasswordFacts
  imports SignInFacts
begin

text \<open>
  What changes a password from outside: the link of a reset or an activation, the first-run setup, and the
  form that asks for such a link.
\<close>

subsection \<open>Setting a password with a link\<close>

lemma form_page_db [simp]:
  "st_db (snd (run_state (form_page r s n vs) st)) = st_db st"
  "st_settings (snd (run_state (form_page r s n vs) st)) = st_settings st"
  by (simp_all add: form_page_def csrf_token_def set_cookie_def split_beta split: option.split)

lemma renderSetPassword_db [simp]: "st_db (snd (run_state (renderSetPassword r s t m) st)) = st_db st"
  by (simp add: renderSetPassword_def)

lemma renderSetPassword_run: "run_state (renderSetPassword r s t m) st = (resp, st') \<Longrightarrow> st_db st' = st_db st"
  using renderSetPassword_db [of r s t m st] by simp

text \<open>A link that works: the row of an unused, unexpired token with the hash of what the form carries.\<close>

definition link_of :: "request \<Rightarrow> db \<Rightarrow> PasswordToken \<Rightarrow> bool" where
  "link_of r d tok \<longleftrightarrow> tok \<in> set (db_password_tokens d) \<and> pt_TokenHash tok = HashToken (PostFormValue r ''token'')
     \<and> \<not> pt_Used tok \<and> rq_now r \<le> pt_ExpiresAt tok"

lemma link_found: "GetValidPasswordToken (HashToken (PostFormValue r ''token'')) (rq_now r) d = Inr tok \<Longrightarrow> link_of r d tok"
  by (auto simp: GetValidPasswordToken_def query_def link_of_def pt_usable_def split: sum.splits if_splits dest!: sel1_Inr)

lemma Consume_frame:
  "db_users (snd (ConsumePasswordToken h now d)) = db_users d" "db_sessions (snd (ConsumePasswordToken h now d)) = db_sessions d"
  "db_faults (snd (ConsumePasswordToken h now d)) = db_faults d"
  by (simp_all add: ConsumePasswordToken_def raw_stmts Let_def split: sum.split)

lemma store_password_cases:
  assumes "run_state (store_password srv r user tok password) st = (resp, st')"
  obtains (failed) "db_users (st_db st') = db_users (st_db st)"
    | (stored) hash where "HashPassword (srv_idkey srv) (Some (rq_rand r ''salt'')) password = Some hash"
        "db_users (st_db st') = upd (\<lambda>u. usr_ID u = usr_ID user) (\<lambda>u. u\<lparr>usr_PasswordHash := hash, usr_UpdatedAt := rq_now r\<rparr>) (db_users (st_db st))"
        "\<not> fault (st_db st) ''DeletePasswordTokensForUser'' \<longrightarrow> usr_ID user \<notin> pt_UserID ` set (db_password_tokens (st_db st'))"
        "\<not> fault (st_db st) ''DeleteSessionsForUser'' \<longrightarrow> (\<forall>s \<in> set (db_sessions (st_db st')). ses_UserID s = usr_ID user \<longrightarrow> ses_ID s = [])"
proof (cases "HashPassword (srv_idkey srv) (Some (rq_rand r ''salt'')) password")
  case None
  then show ?thesis using assms failed by (simp add: store_password_def)
next
  case (Some hash)
  show ?thesis
  proof (cases "fst (SetUserPassword (usr_ID user) hash (rq_now r) (st_db st))")
    case (Inl e)
    then have "db_users (st_db st') = db_users (st_db st)"
      using assms Some by (auto simp: store_password_def SetUserPassword_def raw_stmts split_beta requireRow_def affected_0_iff
          intro!: upd_none split: if_splits)
    then show ?thesis by (rule failed)
  next
    case (Inr u)
    define d1 where "d1 = snd (SetUserPassword (usr_ID user) hash (rq_now r) (st_db st))"
    define d2 where "d2 = snd (DeletePasswordTokensForUser (usr_ID user) d1)"
    define d3 where "d3 = snd (DeleteSessionsForUser (usr_ID user) [] d2)"
    obtain e where st': "st' = st\<lparr>st_db := snd (AppendAuditEvent e d3)\<rparr>"
      using assms Some Inr by (auto simp: store_password_def split_beta d1_def d2_def d3_def)
    have d1: "db_users d1 = upd (\<lambda>u. usr_ID u = usr_ID user) (\<lambda>u. u\<lparr>usr_PasswordHash := hash, usr_UpdatedAt := rq_now r\<rparr>) (db_users (st_db st))"
      "db_faults d1 = db_faults (st_db st)"
      using Inr by (auto simp: d1_def SetUserPassword_def raw_stmts)
    have d2: "db_users d2 = db_users d1" "db_faults d2 = db_faults d1"
      "\<not> fault d1 ''DeletePasswordTokensForUser'' \<Longrightarrow> usr_ID user \<notin> pt_UserID ` set (db_password_tokens d2)"
      by (auto simp: d2_def DeletePasswordTokensForUser_def raw_stmts set_del)
    have d3: "db_users d3 = db_users d2" "db_password_tokens d3 = db_password_tokens d2"
      "\<not> fault d2 ''DeleteSessionsForUser'' \<Longrightarrow> (\<forall>s \<in> set (db_sessions d3). ses_UserID s = usr_ID user \<longrightarrow> ses_ID s = [])"
      by (auto simp: d3_def DeleteSessionsForUser_def raw_stmts set_del)
    have e: "db_users (st_db st') = db_users d3" "db_password_tokens (st_db st') = db_password_tokens d3" "db_sessions (st_db st') = db_sessions d3"
      by (simp_all add: st' AppendAuditEvent_def raw_stmts)
    show ?thesis
      by (rule stored [OF Some]) (use d1 d2 d3 e in \<open>simp_all add: fault_def\<close>)
  qed
qed

text \<open>C13: The form behind a password link sets a password only by a working link: the token was on file, unused and unexpired,
  of a local account, the form carried a CSRF token and the password twice, and the password passed the policy. What is
  stored is its hash, for that account alone. From then on no token with the link's hash is usable, whatever the store is asked to
  do, unless one with that hash is created again; unless their statements fail, all of the account's links are gone and all its
  sessions are ended (but one with an empty id, which is never issued).\<close>

theorem set_password_sound:
  assumes "run_state (handleSetPasswordSubmit srv r) st = (resp, st')"
    and "db_users (st_db st') \<noteq> db_users (st_db st)" and "db_ok (st_db st)"
  shows "csrf_valid r \<and> (\<exists>tok user hash. link_of r (st_db st) tok \<and> user \<in> set (db_users (st_db st)) \<and> usr_ID user = pt_UserID tok
    \<and> IsLocal user \<and> PostFormValue r ''password'' = PostFormValue r ''confirm''
    \<and> ValidatePassword (srv_unicode srv) (PostFormValue r ''password'') (usr_Username user) (usr_Email user)
        (view_PasswordPolicy (st_settings st)) = []
    \<and> HashPassword (srv_idkey srv) (Some (rq_rand r ''salt'')) (PostFormValue r ''password'') = Some hash
    \<and> db_users (st_db st') = upd (\<lambda>u. usr_ID u = usr_ID user) (\<lambda>u. u\<lparr>usr_PasswordHash := hash, usr_UpdatedAt := rq_now r\<rparr>)
        (db_users (st_db st))
    \<and> (\<forall>ops. list_all (\<lambda>op. \<not> mints_password_token (HashToken (PostFormValue r ''token'')) op) ops
          \<longrightarrow> dead_password_token (HashToken (PostFormValue r ''token'')) (fold store_step ops (st_db st')))
    \<and> (\<not> fault (st_db st) ''DeletePasswordTokensForUser'' \<longrightarrow> usr_ID user \<notin> pt_UserID ` set (db_password_tokens (st_db st')))
    \<and> (\<not> fault (st_db st) ''DeleteSessionsForUser'' \<longrightarrow> (\<forall>s \<in> set (db_sessions (st_db st')). ses_UserID s = usr_ID user \<longrightarrow> ses_ID s = [])))"
proof -
  let ?d = "st_db st" and ?h = "HashToken (PostFormValue r ''token'')" and ?p = "PostFormValue r ''password''"
  have csrf: "csrfOK r = None" using assms by (cases "csrfOK r") (auto simp: handleSetPasswordSubmit_def)
  obtain tok where tok: "GetValidPasswordToken ?h (rq_now r) ?d = Inr tok"
    using assms csrf by (cases "GetValidPasswordToken ?h (rq_now r) ?d") (auto simp: handleSetPasswordSubmit_def Let_def)
  obtain user where user: "GetUserByID (pt_UserID tok) ?d = Inr user"
    using assms csrf tok by (cases "GetUserByID (pt_UserID tok) ?d") (auto simp: handleSetPasswordSubmit_def Let_def)
  have loc: "IsLocal user" and same: "?p = PostFormValue r ''confirm''"
    and pol: "ValidatePassword (srv_unicode srv) ?p (usr_Username user) (usr_Email user) (view_PasswordPolicy (st_settings st)) = []"
    using assms csrf tok user by (auto simp: handleSetPasswordSubmit_def Let_def dest: renderSetPassword_run split: if_splits)
  define st1 where "st1 = st\<lparr>st_db := snd (ConsumePasswordToken ?h (rq_now r) ?d)\<rparr>"
  obtain t where used: "fst (ConsumePasswordToken ?h (rq_now r) ?d) = Inr (Some t)"
    and rest: "run_state (store_password srv r user tok ?p) st1 = (resp, st')"
    using assms csrf tok user loc same pol
    by (auto simp: handleSetPasswordSubmit_def Let_def split_beta st1_def Consume_frame split: sum.splits option.splits)
  have "dead_password_token ?h (store_step (Account (OpConsumePasswordToken ?h (rq_now r))) ?d)"
    using used assms(3) by (intro password_token.spend_kills) auto
  then have dead: "dead_password_token ?h (st_db st1)" by (simp add: st1_def)
  have "performs (\<lambda>op. \<not> mints_password_token ?h op) (store_password srv r user tok ?p)"
    unfolding store_password_def by (intro performs_rules; simp)
  from performsD [OF this rest] obtain ops where
    ops: "list_all (\<lambda>op. \<not> mints_password_token ?h op) ops" "st_db st' = fold store_step ops (st_db st1)"
    by (auto simp: runs_def)
  have "dead_password_token ?h (st_db st')"
    unfolding ops(2) using ops(1) by (intro password_token.dead_run [OF dead]) (simp add: list_all_iff)
  then have dead': "\<forall>ops. list_all (\<lambda>op. \<not> mints_password_token ?h op) ops \<longrightarrow> dead_password_token ?h (fold store_step ops (st_db st'))"
    using password_token.dead_run by (simp add: list_all_iff)
  have u: "user \<in> set (db_users ?d)" "usr_ID user = pt_UserID tok"
    using user by (auto simp: GetUserByID_def query_def split: if_splits dest!: sel1_Inr)
  show ?thesis
    using rest
  proof (cases rule: store_password_cases)
    case failed
    then show ?thesis using assms(2) by (simp add: st1_def Consume_frame)
  next
    case (stored hash)
    then show ?thesis
      using csrf u loc same pol dead' link_found [OF tok]
      by (intro conjI exI [of _ tok] exI [of _ user] exI [of _ hash])
         (simp_all add: csrfOK_def st1_def Consume_frame fault_def split: if_splits)
  qed
qed

subsection \<open>First-run setup\<close>

text \<open>The statements that leave the accounts alone.\<close>

fun no_user :: "store_op \<Rightarrow> bool" where
  "no_user (Account x) = (case x of OpCreateSession _ \<Rightarrow> True | OpDeleteSession _ \<Rightarrow> True | OpTouchSession _ _ \<Rightarrow> True | _ \<Rightarrow> False)"
| "no_user (Grant x) = True"
| "no_user (Enrolment x) = True"

lemma no_user_account: assumes "no_user (Account x)" shows "db_users (account_step x d) = db_users d"
  using assms by (cases x; simp add: stmt_defs raw_stmts)

lemma device_step_users: "db_users (device_step x d) = db_users d"
  by (cases x; simp add: stmt_defs raw_stmts split: sum.split)

lemma no_user_step: "no_user op \<Longrightarrow> db_users (store_step op d) = db_users d"
  by (cases op) (simp_all add: frame_simps no_user_account device_step_users)

lemma runs_users: "runs no_user d d' \<Longrightarrow> db_users d' = db_users d"
proof -
  have "list_all no_user ops \<Longrightarrow> db_users (fold store_step ops d) = db_users d" for ops
    by (induction ops arbitrary: d) (simp_all add: no_user_step)
  then show "runs no_user d d' \<Longrightarrow> db_users d' = db_users d" by (auto simp: runs_def)
qed

lemma performs_users: "performs no_user m \<Longrightarrow> run_state m st = (x, st') \<Longrightarrow> db_users (st_db st') = db_users (st_db st)"
  by (drule (1) performsD) (rule runs_users)

lemma renderSetup_users: "run_state (renderSetup srv r cur s m u e) st = (resp, st') \<Longrightarrow> db_users (st_db st') = db_users (st_db st)"
  using form_page_db(1) by (metis renderSetup_def snd_conv)


text \<open>An issued session is on file and in the browser's cookie.\<close>

lemma Issue_answer:
  assumes "run_state (sessions_Issue r u amr) st = (Inr s, st')"
  shows "s \<in> set (db_sessions (st_db st'))" "ses_ID s = rq_uuid r ''session''" "ses_UserID s = u"
    "(sessionCookieName, rq_uuid r ''session'') \<in> set (st_cookies st')"
proof -
  obtain res ck d where i: "Issue (sessionConfig (st_settings st)) (Cookie r sessionCookieName) u amr (rq_UserAgent r)
      (rq_uuid r ''session'') (rq_rand r ''session'') (rq_now r) (st_db st) = ((res, ck), d)"
    by (metis surj_pair)
  have x: "res = Inr s" "st_db st' = d" using assms i by (auto simp: sessions_Issue_def set_cookie_def split: option.splits)
  note f = sessions_after_Issue [OF i [unfolded x(1)]]
  show "s \<in> set (db_sessions (st_db st'))" "ses_ID s = rq_uuid r ''session''" "ses_UserID s = u" using f by (simp_all add: x)
  show "(sessionCookieName, rq_uuid r ''session'') \<in> set (st_cookies st')"
    using assms i f by (auto simp: sessions_Issue_def set_cookie_def split: option.splits)
qed

text \<open>C14: The open door of a new installation closes behind the first administrator. The setup form writes to the accounts
  only while no enabled administrator exists, for a form with a CSRF token and the setup token, and what it adds is one
  enabled administrator whose name and address are not blank and whose password passes the policy; it then either signs the
  browser in as that account, with a session on file and its cookie, or answers that no session could be created.\<close>

theorem setup_sound:
  assumes "run_state (handleSetupSubmit srv r) st = (resp, st')" and "db_users (st_db st') \<noteq> db_users (st_db st)"
  shows "csrf_valid r \<and> validSetupToken srv (st_settings st) (PostFormValue r ''setup_token'')
    \<and> (\<forall>u \<in> set (db_users (st_db st)). usr_IsAdmin u \<longrightarrow> usr_Disabled u)
    \<and> (\<exists>hash. let username = TrimSpace (PostFormValue r ''username''); email = TrimSpace (PostFormValue r ''email'');
            password = PostFormValue r ''password'' in
        username \<noteq> [] \<and> email \<noteq> []
        \<and> ValidatePassword (srv_unicode srv) password username email (view_PasswordPolicy (st_settings st)) = []
        \<and> HashPassword (srv_idkey srv) (Some (rq_rand r ''salt'')) password = Some hash
        \<and> db_users (st_db st') = db_users (st_db st) @ [norm_user (first_admin r username email hash)])
    \<and> (resp = Redirect ''/admin'' \<and> (sessionCookieName, rq_uuid r ''session'') \<in> set (st_cookies st')
           \<and> (\<exists>s \<in> set (db_sessions (st_db st')). ses_ID s = rq_uuid r ''session'' \<and> ses_UserID s = rq_uuid r ''user'')
       \<or> resp = Plain 500 ''could not create session'')"
proof -
  let ?n = "TrimSpace (PostFormValue r ''username'')" and ?e = "TrimSpace (PostFormValue r ''email'')" and ?p = "PostFormValue r ''password''"
  have fresh: "needsSetup (st_db st)" using assms by (cases "needsSetup (st_db st)") (auto simp: handleSetupSubmit_def)
  then have csrf: "csrfOK r = None" using assms by (cases "csrfOK r") (auto simp: handleSetupSubmit_def)
  have tok: "validSetupToken srv (st_settings st) (PostFormValue r ''setup_token'')"
    and acct: "run_state (setup_account srv r (st_settings st)) st = (resp, st')"
    using assms fresh csrf by (auto simp: handleSetupSubmit_def split: if_splits)
  have n: "?n \<noteq> []" "?e \<noteq> []" and pol: "ValidatePassword (srv_unicode srv) ?p ?n ?e (view_PasswordPolicy (st_settings st)) = []"
    using acct assms(2) by (auto simp: setup_account_def Let_def dest!: renderSetup_users split: if_splits)
  obtain hash where h: "HashPassword (srv_idkey srv) (Some (rq_rand r ''salt'')) ?p = Some hash"
    using acct assms(2) n pol by (cases "HashPassword (srv_idkey srv) (Some (rq_rand r ''salt'')) ?p") (auto simp: setup_account_def Let_def)
  let ?u = "first_admin r ?n ?e hash"
  have made: "fst (CreateUser ?u (st_db st)) = Inr ()"
  proof (rule ccontr)
    assume "fst (CreateUser ?u (st_db st)) \<noteq> Inr ()"
    then obtain e where e: "fst (CreateUser ?u (st_db st)) = Inl e" by (cases "fst (CreateUser ?u (st_db st))") auto
    then have "db_users (snd (CreateUser ?u (st_db st))) = db_users (st_db st)" by (auto simp: CreateUser_def raw_stmts split: if_splits)
    then show False
      using acct n pol h e assms(2) by (auto simp: setup_account_def Let_def split_beta dest!: renderSetup_users)
  qed
  have created: "db_users (snd (CreateUser ?u (st_db st))) = db_users (st_db st) @ [norm_user ?u]"
    using made by (auto simp: CreateUser_def raw_stmts split: if_splits)
  define st1 where "st1 = st\<lparr>st_db := snd (CreateUser ?u (st_db st))\<rparr>"
  obtain x st2 where i: "run_state (sessions_Issue r (usr_ID ?u) ''pwd'') st1 = (x, st2)" by fastforce
  have "performs no_user (sessions_Issue r (usr_ID ?u) ''pwd'')" by (intro performs_rules; simp)
  from performs_users [OF this i] have "db_users (st_db st2) = db_users (st_db st) @ [norm_user ?u]"
    by (simp add: st1_def created)
  moreover have "db_users (st_db st') = db_users (st_db st2)"
    using acct n pol h made i
    by (auto simp: setup_account_def Let_def split_beta st1_def AppendAuditEvent_def raw_stmts split: sum.splits)
  moreover have "\<forall>u \<in> set (db_users (st_db st)). usr_IsAdmin u \<longrightarrow> usr_Disabled u"
    using fresh by (auto simp: needsSetup_def CountAdmins_def query_def affected_0_iff split: if_splits)
  moreover have "resp = Redirect ''/admin'' \<and> (sessionCookieName, rq_uuid r ''session'') \<in> set (st_cookies st')
           \<and> (\<exists>s \<in> set (db_sessions (st_db st')). ses_ID s = rq_uuid r ''session'' \<and> ses_UserID s = rq_uuid r ''user'')
       \<or> resp = Plain 500 ''could not create session''"
  proof (cases x)
    case (Inl e)
    then show ?thesis
      using acct n pol h made i by (auto simp: setup_account_def Let_def split_beta st1_def)
  next
    case (Inr s)
    have "usr_ID ?u = rq_uuid r ''user''" by (simp add: first_admin_def)
    with Inr show ?thesis
      using Issue_answer [OF i [unfolded Inr]] acct n pol h made i
      by (auto simp: setup_account_def Let_def split_beta st1_def AppendAuditEvent_def raw_stmts)
  qed
  ultimately show ?thesis
    using csrf tok n pol h by (auto simp: csrfOK_def Let_def split: if_splits)
qed

subsection \<open>Asking for a link\<close>

text \<open>The page the form answers with.\<close>

definition forgot_answer :: "server \<Rightarrow> request \<Rightarrow> response" where
  "forgot_answer srv r = (if \<not> srv_mailEnabled srv then renderError 404 ''Password reset by email isn't enabled.''
     else case csrfOK r of Some resp \<Rightarrow> resp
       | None \<Rightarrow> Page 200 ''forgot'' [(''CSRFToken'', fst (CSRFToken (Cookie r csrfCookieName) (rq_rand r ''csrf''))), (''Sent'', ''true'')])"

definition reset_link :: "request \<Rightarrow> SettingsView \<Rightarrow> string" where
  "reset_link r cur = TrimRight CHR ''/'' (sv_PublicURL cur) @ ''/set-password?token='' @ RandomToken (rq_rand r ''passwordtoken'')"

lemma dispatchReset_cases:
  assumes "run_state (dispatchReset r ident) st = (x, st')"
  obtains (silent) "st' = st"
    | (refused) "st_mails st' = st_mails st" "db_password_tokens (st_db st') = db_password_tokens (st_db st)"
    | (sent) u where "lookupUser ident (st_db st) = Some u" "\<not> usr_Disabled u" "IsLocal u"
        "db_password_tokens (st_db st') = db_password_tokens (st_db st) @ [new_password_token r (usr_ID u) PasswordTokenReset resetTokenTTL]"
        "st_mails st' = st_mails st @ [(usr_Email u, reset_mail (reset_link r (st_settings st)))]"
proof (cases "lookupUser ident (st_db st)")
  case None
  then show ?thesis using assms by (intro silent) (simp add: dispatchReset_def)
next
  case (Some u)
  show ?thesis
  proof (cases "usr_Disabled u \<or> \<not> IsLocal u")
    case True
    then show ?thesis using assms Some by (intro silent) (auto simp: dispatchReset_def)
  next
    case False
    let ?t = "new_password_token r (usr_ID u) PasswordTokenReset resetTokenTTL"
    show ?thesis
    proof (cases "fst (CreatePasswordToken ?t (st_db st))")
      case (Inl e)
      then show ?thesis
        using assms Some False
        by (intro refused) (auto simp: dispatchReset_def issuePasswordToken_def CreatePasswordToken_def raw_stmts split: if_splits)
    next
      case (Inr v)
      have "?t\<lparr>pt_Used := False\<rparr> = ?t" by (simp add: new_password_token_def)
      then show ?thesis
        using assms Some False Inr
        by (intro sent [OF Some])
           (auto simp: dispatchReset_def issuePasswordToken_def CreatePasswordToken_def raw_stmts reset_link_def split: if_splits)
    qed
  qed
qed

lemma forgotRate_frame [simp]:
  "st_db (snd forgotRate f st) = st_db st" "st_settings (snd forgotRate f st) = st_settings st"
  "st_mails (snd forgotRate f st) = st_mails st" "fst forgotRate st = st_forgotRate st"
  by (simp_all add: limiter_fields)

lemma form_page_mails [simp]: "st_mails (snd (run_state (form_page r s n vs) st)) = st_mails st"
  by (simp add: form_page_def csrf_token_def set_cookie_def split_beta split: option.split)

text \<open>C28: Asking for a reset link tells nothing about who has an account. The answer to the form is the same whatever the
  database holds and whatever is found there. A token is made only for an enabled local account with the given name or
  address, at most one by a request the rate limit admits, and its link is sent to that account's address alone.\<close>

theorem forgot_no_enumeration:
  assumes "run_state (handleForgotSubmit srv r) st = (resp, st')"
  shows "resp = forgot_answer srv r
    \<and> (db_password_tokens (st_db st') = db_password_tokens (st_db st) \<and> st_mails st' = st_mails st
       \<or> (\<exists>u. csrf_valid r
           \<and> fst (Allowed (clientIP r) (sv_MaxFailedLogins (st_settings st)) (sv_RateLimitWindow (st_settings st)) (rq_now r) (st_forgotRate st))
           \<and> lookupUser (TrimSpace (PostFormValue r ''identifier'')) (st_db st) = Some u \<and> \<not> usr_Disabled u \<and> IsLocal u
           \<and> db_password_tokens (st_db st') = db_password_tokens (st_db st) @ [new_password_token r (usr_ID u) PasswordTokenReset resetTokenTTL]
           \<and> st_mails st' = st_mails st @ [(usr_Email u, reset_mail (reset_link r (st_settings st)))]))"
proof (cases "srv_mailEnabled srv \<and> csrfOK r = None")
  case False
  then show ?thesis using assms by (auto simp: handleForgotSubmit_def forgot_answer_def split: option.splits)
next
  case True
  let ?cur = "st_settings st"
  obtain a st1 where al: "run_state (rate_Allowed forgotRate r (clientIP r) (sv_MaxFailedLogins ?cur) (sv_RateLimitWindow ?cur)) st = (a, st1)"
    by fastforce
  then have st1: "st_db st1 = st_db st" "st_settings st1 = ?cur" "st_mails st1 = st_mails st"
    and a: "a = fst (Allowed (clientIP r) (sv_MaxFailedLogins ?cur) (sv_RateLimitWindow ?cur) (rq_now r) (st_forgotRate st))"
    by (auto simp: run_rate_Allowed)
  define st2 where "st2 = snd (run_state (if a then rate_Fail forgotRate r (clientIP r) (sv_RateLimitWindow ?cur) else done_with ()) st1)"
  have st2: "st_db st2 = st_db st" "st_settings st2 = ?cur" "st_mails st2 = st_mails st"
    using st1 by (simp_all add: st2_def rate_Fail_def)
  define st3 where "st3 = snd (run_state (if a then dispatchReset r (TrimSpace (PostFormValue r ''identifier'')) else done_with ()) st2)"
  obtain y st3 where d: "run_state (if a then dispatchReset r (TrimSpace (PostFormValue r ''identifier'')) else done_with ()) st2 = (y, st3)"
    by (meson surj_pair)
  have run: "run_state (form_page r 200 ''forgot'' [(''Sent'', ''true'')])
      (st3\<lparr>st_db := snd (AppendAuditEvent (audit_event r evtResetRequested (entry0\<lparr>ae_detail := ''self-service forgot-password''\<rparr>)) (st_db st3))\<rparr>)
      = (resp, st')"
    using assms True al d
    by (cases a) (simp_all add: handleForgotSubmit_def rate_Fail_def st2_def)
  have ans: "resp = forgot_answer srv r"
    using arg_cong [OF run, of fst] True by (simp add: run_form_page forgot_answer_def)
  have st': "st_mails st' = st_mails st3" "db_password_tokens (st_db st') = db_password_tokens (st_db st3)"
    using arg_cong [OF run, of snd] by (auto simp: AppendAuditEvent_def raw_stmts)
  show ?thesis
  proof (cases a)
    case False
    then show ?thesis using ans st' d st2 by simp
  next
    case at: True
    with d have "run_state (dispatchReset r (TrimSpace (PostFormValue r ''identifier''))) st2 = (y, st3)" by simp
    then show ?thesis
    proof (cases rule: dispatchReset_cases)
      case (sent u)
      have "csrf_valid r" using True by (auto simp: csrfOK_def split: if_splits)
      then show ?thesis using ans st' sent st2 at a by (intro conjI disjI2 exI [of _ u]) simp_all
    qed (use ans st' st2 in simp_all)
  qed
qed
subsection \<open>A demand to sign in again\<close>

lemma handleAuthorize_prompt_login:
  assumes "validateAuthorize r (st_db st) = Inr p" and "QueryGet r ''prompt'' = ''login''"
    and "run_state (sessions_Current r) st = (x, stc)"
  shows "run_state (handleAuthorize r) st = run_state (parkAndRedirect r p ''/login'') stc"
  using assms by (cases x) (simp_all add: handleAuthorize_def Let_def)

text \<open>A parked request is found again under its id.\<close>

lemma peek_parked:
  assumes "validateAuthorize r d0 = Inr p" and "db_clients d = db_clients d0" and "db_faults d = []" and "db_faults d0 = []"
    and "parked_request r p \<in> set (db_auth_requests d)" and "uniq_on ar_ID (db_auth_requests d)" and "now \<le> rq_now r + authRequestTTL"
  shows "peekAuthRequest (RandomToken (rq_rand r ''authreq'')) now d = Some p"
proof -
  obtain c where c: "GetClient (QueryGet r ''client_id'') d0 = Inr c"
    using assms(1) by (cases "GetClient (QueryGet r ''client_id'') d0") (auto simp: validateAuthorize_def)
  have i: "cl_ClientID c = QueryGet r ''client_id''" using GetClient_Inr [OF c] by simp
  have p: "az_client p = c" "\<not> cl_Disabled c" "redirectURIAllowed c (az_redirectURI p)" and same: "params_of (parked_request r p) c = p"
    using assms(1) c by (auto simp: validateAuthorize_def Let_def params_of_def parked_request_def split: if_splits)
  have "sel1 (\<lambda>a. ar_ID a = RandomToken (rq_rand r ''authreq'')) (db_auth_requests d) = Inr (parked_request r p)"
    using sel1_key [OF assms(6,5)] by (simp add: parked_request_def)
  moreover have "GetClient (cl_ClientID c) d = Inr c"
    using c assms(2-4) by (simp add: GetClient_def query_def fault_def i)
  ultimately show ?thesis
    using p same assms(3,7)
    by (simp add: peekAuthRequest_def GetAuthRequest_def query_def fault_def parked_request_def params_of_def)
qed

lemma performs_ok: "performs A m \<Longrightarrow> run_state m st = (x, st') \<Longrightarrow> db_ok (st_db st) \<Longrightarrow> db_ok (st_db st')"
  by (drule (1) performsD) (rule runs_db_ok)

text \<open>C29: What the code does with \<open>prompt=login\<close>, against what the parameter asks for. The request is parked and the browser is
  sent to the login page; but nothing of the demand is parked, and the login page, finding a session that is still live, goes
  on as if the user had just signed in: a client that skips consent gets its code at once, in the redirect that answers, and for
  any other client the browser is sent on to the consent page. Nobody has signed in again: that code's time of authentication is
  the creation of the session, however long ago. This is so while no statement fails, on a server that is set up, within the
  life of the parked request and for an address of the client that can be parsed.\<close>

theorem reauthentication_not_enforced:
  assumes "validateAuthorize r (st_db st) = Inr p" and "QueryGet r ''prompt'' = ''login''" and "url_Parse (az_redirectURI p) = Some u"
    and "run_state (handleAuthorize r) st = (Redirect target, st1)"
    and "QueryGet r2 ''req'' = RandomToken (rq_rand r ''authreq'')" and "RandomToken (rq_rand r ''authreq'') \<noteq> []"
    and "run_state (sessions_Current r2) st1 = (Inr sess, st2)" and "rq_now r2 \<le> rq_now r + authRequestTTL"
    and "\<not> needsSetup (st_db st)" and "db_ok (st_db st)" and "db_faults (st_db st) = []"
    and "HashToken (RandomToken (rq_rand r2 ''authcode'')) \<notin> ac_CodeHash ` set (db_auth_codes (st_db st))"
  shows "target = ''/login?req='' @ QueryEscape (RandomToken (rq_rand r ''authreq''))
    \<and> (\<exists>resp st'. run_state (handleLoginForm srv r2) st1 = (resp, st')
        \<and> (if cl_SkipConsent (az_client p)
           then resp = Redirect (with_query u (\<lambda>q. add_state (az_state p) (values_Set ''code'' (RandomToken (rq_rand r2 ''authcode'')) q)))
             \<and> db_auth_codes (st_db st') = db_auth_codes (st_db st) @ [issued_code r2 p (ses_UserID sess) (ses_CreatedAt sess) (ses_AMR sess)]
           else resp = Redirect (''/consent?req='' @ QueryEscape (RandomToken (rq_rand r ''authreq''))) \<and> st' = st2))"
proof -
  let ?i = "RandomToken (rq_rand r ''authreq'')"
  obtain x stc where c: "run_state (sessions_Current r) st = (x, stc)" by fastforce
  note fc = Current_frame [OF c] and f2 = Current_frame [OF assms(7)]
  have "run_state (parkAndRedirect r p ''/login'') stc = (Redirect target, st1)"
    using handleAuthorize_prompt_login [OF assms(1,2) c] assms(4) by simp
  from parkAndRedirect_cases [OF this] have target: "target = ''/login?req='' @ QueryEscape ?i" and f1: "grants_frame stc st1"
    "db_auth_codes (st_db st1) = db_auth_codes (st_db stc)" "db_auth_requests (st_db st1) = db_auth_requests (st_db stc) @ [parked_request r p]"
    "uniq_on ar_ID (db_auth_requests (st_db st1))"
    by (auto simp: renderError_def)
  have fr: "grants_frame st st1" using fc f1 grants_frame_trans by blast
  have fr2: "grants_frame st st2" using fr f2 grants_frame_trans by blast
  have peek: "peekAuthRequest ?i (rq_now r2) (st_db st2) = Some p"
    using peek_parked [OF assms(1), of "st_db st2" "rq_now r2"] fr2 f2 f1 assms(8,11) by (simp add: grants_frame_def)
  have ns: "\<not> needsSetup (st_db st1)"
    using assms(9) fr by (simp add: needsSetup_def CountAdmins_def query_def fault_def grants_frame_def)
  define st3 where "st3 = st2\<lparr>st_db := snd (DeleteAuthRequest ?i (st_db st2))\<rparr>"
  have f3: "db_faults (st_db st3) = []" "db_auth_codes (st_db st3) = db_auth_codes (st_db st)"
    using fr2 f2 f1 fc assms(11) by (simp_all add: st3_def DeleteAuthRequest_def raw_stmts grants_frame_def)
  have "performs (\<lambda>_. True) (sessions_Current r2)" by (intro performs_rules) simp_all
  from performs_ok [OF this assms(7)] have "db_ok (st_db st2)"
    using performs_ok [OF performs_handleAuthorize assms(4,10)] by blast
  then have "db_ok (st_db st3)"
    using store_step_ok [of "st_db st2" "Grant (OpDeleteAuthRequest ?i)"] by (simp add: st3_def)
  then have g3: "grants_ok (db_auth_codes_update (\<lambda>t. t @ [issued_code r2 p (ses_UserID sess) (ses_CreatedAt sess) (ses_AMR sess)]) (st_db st3))"
    using assms(12) f3 by (simp add: db_ok_def grants_ok_def uniq_on_append1 issued_code_def)
  have "run_state (handleLoginForm srv r2) st1
      = (if cl_SkipConsent (az_client p) then run_state (issueCode r2 p (ses_UserID sess) (ses_CreatedAt sess) (ses_AMR sess)) st3
         else (Redirect (''/consent?req='' @ QueryEscape ?i), st2))"
    using ns assms(5,6,7) peek
    by (simp add: handleLoginForm_def Let_def continueAfterAuth_def st3_def split_beta)
  moreover have "fst (run_state (issueCode r2 p (ses_UserID sess) (ses_CreatedAt sess) (ses_AMR sess)) st3)
      = Redirect (with_query u (\<lambda>q. add_state (az_state p) (values_Set ''code'' (RandomToken (rq_rand r2 ''authcode'')) q)))"
    "db_auth_codes (st_db (snd (run_state (issueCode r2 p (ses_UserID sess) (ses_CreatedAt sess) (ses_AMR sess)) st3)))
      = db_auth_codes (st_db st) @ [issued_code r2 p (ses_UserID sess) (ses_CreatedAt sess) (ses_AMR sess)]"
    using f3 g3 assms(3) by (simp_all add: issueCode_def CreateAuthCode_def raw_stmts fault_def)
  ultimately show ?thesis using target by (cases "cl_SkipConsent (az_client p)") (simp_all add: prod_eq_iff)
qed

end
