(* ===== verification/SignInSamples.thy ===== *)
theory SignInSamples
  imports TokenSamples PasswordFacts
begin

text \<open>
  Requests and databases in which the hypotheses of the properties of the sign-in hold: the public client
  \<open>web\<close>, trusted to skip the consent page or not, Alice with a session, with a password, with a second
  factor, with a reset link, and an empty installation.
\<close>

definition page_request :: "(string \<times> string) list \<Rightarrow> (string \<times> string) list \<Rightarrow> request" where
  "page_request qs ps = (form_request ((''csrf_token'', ''x'') # ps))\<lparr>rq_Query := qs,
     rq_Cookies := [(''omni_csrf'', ''x''), (''omni_session'', ''s1''), (''omni_mfa'', ''ch'')]\<rparr>"

lemma page_request_simps [simp]:
  "rq_now (page_request qs ps) = 100" "rq_FormOK (page_request qs ps)" "rq_UserAgent (page_request qs ps) = ''ua''"
  "QueryGet (page_request qs ps) k = first_value qs k" "PostFormValue (page_request qs ps) k = first_value ((''csrf_token'', ''x'') # ps) k"
  "rq_uuid (page_request qs ps) n = ''id/'' @ n" "rq_rand (page_request qs ps) n = replicate 16 CHR ''r''"
  "Cookie (page_request qs ps) sessionCookieName = Some ''s1''" "Cookie (page_request qs ps) csrfCookieName = Some ''x''"
  "Cookie (page_request qs ps) mfaCookieName = Some ''ch''"
  by (simp_all add: page_request_def form_request_def QueryGet_def PostFormValue_def Cookie_def sessionCookieName_def
      csrfCookieName_def mfaCookieName_def)

lemma page_csrf [simp]: "csrfOK (page_request qs ps) = None" "csrf_valid (page_request qs ps)"
  by (simp_all add: csrfOK_def csrf_valid_def ValidateCSRFToken_def ConstantTimeCompare_eq first_value_def)

lemma first_value_simps [simp]:
  "first_value [] k = []" "first_value ((j, v) # ps) k = (if j = k then v else first_value ps k)"
  by (simp_all add: first_value_def)

lemma sample_url: "url_Parse ''https://web/cb'' \<noteq> None"
  by code_simp

definition web_url :: url where "web_url = the (url_Parse ''https://web/cb'')"

lemma sample_parse [simp]: "url_Parse ''https://web/cb'' = Some web_url"
  using sample_url by (simp add: web_url_def)

subsection \<open>The authorization endpoint\<close>

definition trusted_client :: Client where "trusted_client = web_client\<lparr>cl_SkipConsent := True\<rparr>"

lemma trusted_client_simps [simp]:
  "cl_ClientID trusted_client = ''web''" "\<not> cl_Disabled trusted_client" "cl_SkipConsent trusted_client" "IsPublic trusted_client"
  "cl_RedirectURIs trusted_client = [''https://web/cb'']" "cl_AllowedScopes trusted_client = [''openid'', ''offline_access'']"
  "cl_Type trusted_client = ''public''"
  by (simp_all add: trusted_client_def web_client_def IsPublic_def ClientTypePublic_def)

definition trusted_db :: db where
  "trusted_db = sample_db\<lparr>db_clients := [trusted_client], db_auth_codes := [], db_refresh_tokens := []\<rparr>"

lemma trusted_db_simps [simp]:
  "db_clients trusted_db = [trusted_client]" "db_sessions trusted_db = [alice_session]" "db_users trusted_db = [alice, bob]"
  "db_faults trusted_db = []" "db_auth_codes trusted_db = []" "db_auth_requests trusted_db = []" "db_refresh_tokens trusted_db = []"
  "db_signing_keys trusted_db = []"
  by (simp_all add: trusted_db_def sample_db_def)

definition authorize_params :: "(string \<times> string) list" where
  "authorize_params = [(''client_id'', ''web''), (''response_type'', ''code''), (''redirect_uri'', ''https://web/cb''), (''scope'', ''openid''),
     (''state'', ''xyz''), (''code_challenge'', ComputeS256Challenge ''verifier''), (''code_challenge_method'', ''S256'')]"

definition authorize_request :: request where
  "authorize_request = page_request authorize_params []"

definition sample_params :: "Client \<Rightarrow> authzParams" where
  "sample_params c = \<lparr>az_client = c, az_responseType = ''code'', az_redirectURI = ''https://web/cb'', az_scope = ''openid'',
     az_state = ''xyz'', az_nonce = [], az_challenge = ComputeS256Challenge ''verifier'', az_method = ''S256''\<rparr>"

lemma sample_params_simps [simp]: "az_client (sample_params c) = c" "az_redirectURI (sample_params c) = ''https://web/cb''"
  "az_state (sample_params c) = ''xyz''" "az_scope (sample_params c) = ''openid''"
  by (simp_all add: sample_params_def)

lemma sample_validate:
  "validateAuthorize authorize_request trusted_db = Inr (sample_params trusted_client)"
  by (simp add: validateAuthorize_def authorize_request_def authorize_params_def sample_params_def GetClient_def query_def fault_def
      sel1_def Let_def redirectURIAllowed_def HasScope_def ScopeOpenID_def PKCEMethodS256_def)

lemma sample_Current:
  assumes "db_sessions (st_db st) = [alice_session]" and "db_faults (st_db st) = []" and "st_settings st = sample_view"
  shows "run_state (sessions_Current (page_request qs ps)) st =
    (Inr (alice_session\<lparr>ses_LastSeenAt := 100\<rparr>), st\<lparr>st_db := snd (TouchSession ''s1'' 100 (st_db st))\<rparr>)"
  using assms
  by (simp add: run_Current Current_def with_cookie_def GetSession_def query_def fault_def sel1_def alice_session_def
      sessionConfig_def sample_view_def time_Sub_def split_beta Let_def)


lemma sample_touched [simp]:
  "db_users (snd (TouchSession i t d)) = db_users d" "db_clients (snd (TouchSession i t d)) = db_clients d"
  "db_faults (snd (TouchSession i t d)) = db_faults d" "db_auth_codes (snd (TouchSession i t d)) = db_auth_codes d"
  "db_auth_requests (snd (TouchSession i t d)) = db_auth_requests d" "db_refresh_tokens (snd (TouchSession i t d)) = db_refresh_tokens d"
  "db_signing_keys (snd (TouchSession i t d)) = db_signing_keys d" "fault (snd (TouchSession i t d)) op = fault d op"
  by (simp_all add: TouchSession_def raw_stmts fault_def)

lemma no_faults [simp]: "\<not> fault trusted_db op"
  by (simp add: fault_def)

lemma authorize_request_simps [simp]:
  "QueryGet authorize_request ''prompt'' = []" "QueryGet authorize_request ''max_age'' = []"
  by (simp_all add: authorize_request_def authorize_params_def)

definition sample_issued :: AuthorizationCode where
  "sample_issued = issued_code authorize_request (sample_params trusted_client) ''u1'' 10 ''pwd''"

definition sample_target :: string where
  "sample_target = with_query web_url (\<lambda>q. add_state ''xyz'' (values_Set ''code'' (RandomToken (replicate 16 CHR ''r'')) q))"

lemma authorize_run: "\<exists>st'. run_state (handleAuthorize authorize_request) (sample_state trusted_db) = (Redirect sample_target, st')
    \<and> st_settings st' = sample_view \<and> db_auth_codes (st_db st') = [sample_issued] \<and> db_users (st_db st') = [alice, bob]
    \<and> db_clients (st_db st') = [trusted_client] \<and> db_faults (st_db st') = []"
proof -
  have c: "run_state (sessions_Current authorize_request) (sample_state trusted_db) =
    (Inr (alice_session\<lparr>ses_LastSeenAt := 100\<rparr>), (sample_state trusted_db)\<lparr>st_db := snd (TouchSession ''s1'' 100 trusted_db)\<rparr>)"
    unfolding authorize_request_def by (simp add: sample_Current)
  show ?thesis
    by (simp add: handleAuthorize_def sample_validate c maxAgeExceeded_def issueCode_def CreateAuthCode_def raw_stmts fault_def
        grants_ok_def sample_issued_def sample_target_def alice_session_def split_beta)
      (simp add: authorize_request_def)
qed

theorem authorize_code_sound_witness:
  "\<exists>p sess. params_full authorize_request trusted_db p \<and> signed_in sample_view trusted_db authorize_request sess
     \<and> fresh_enough authorize_request sess"
proof -
  obtain st' where "run_state (handleAuthorize authorize_request) (sample_state trusted_db) = (Redirect sample_target, st')"
    "db_auth_codes (st_db st') = [sample_issued]" using authorize_run by blast
  from authorize_code_sound [OF this(1), of sample_issued] this(2) show ?thesis by (simp, blast)
qed

definition redeem_request :: request where
  "redeem_request = form_request [(''grant_type'', ''authorization_code''), (''client_id'', ''web''),
     (''code'', RandomToken (replicate 16 CHR ''r'')), (''redirect_uri'', ''https://web/cb''), (''code_verifier'', ''verifier'')]"

lemma trusted_db_ok: "db_ok trusted_db"
  using sample_db_ok by (simp add: trusted_db_def trusted_client_def db_ok_def ok_defs sample_defs)

theorem code_flow_completes_witness:
  "\<exists>st' resp st2. run_state (handleAuthorize authorize_request) (sample_state trusted_db) = (Redirect sample_target, st')
     \<and> run_state (handleToken plain_server redeem_request) st' = (Tokens resp, st2) \<and> tr_Scope resp = ''openid''"
proof -
  obtain st' where run: "run_state (handleAuthorize authorize_request) (sample_state trusted_db) = (Redirect sample_target, st')"
    and st': "db_auth_codes (st_db st') = [sample_issued]" "db_users (st_db st') = [alice, bob]"
      "db_clients (st_db st') = [trusted_client]" "db_faults (st_db st') = []" using authorize_run by blast
  have "presents redeem_request (RandomToken (rq_rand authorize_request ''authcode'')) sample_issued"
    by (simp add: presents_def redeem_request_def sample_issued_def issued_code_def sample_params_def authorize_request_def
        challenge_ok [unfolded PKCEMethodS256_def])
  moreover have "client_of redeem_request st' = Some trusted_client"
    using st' by (simp add: client_of_def authenticateClient_def redeem_request_def GetClient_def query_def fault_def sel1_def
        ClientTypeConfidential_def)
  moreover have "signs plain_server"
    by (simp add: signs_def sign_claims_def plain_server_def table_server_def table_lib_def sample_km_def DefaultSigner_def
        signingMethod_def AlgRS256_def)
  moreover have "GetUserByID (ac_UserID sample_issued) (st_db st') = Inr alice"
    using st' by (simp add: sample_issued_def issued_code_def)
  ultimately have "\<exists>resp st2. run_state (handleToken plain_server redeem_request) st' = (Tokens resp, st2) \<and> tr_Scope resp = ac_Scope sample_issued"
    using code_flow_completes [OF run, of sample_issued redeem_request trusted_client alice plain_server] st' trusted_db_ok
    by (simp add: redeem_request_def authorize_request_def sample_issued_def issued_code_def authCodeTTL_def)
  then show ?thesis using run by (auto simp: sample_issued_def issued_code_def)
qed


subsection \<open>Consent\<close>

definition parked_db :: db where
  "parked_db = trusted_db\<lparr>db_clients := [web_client], db_auth_requests := [parked_request authorize_request (sample_params web_client)]\<rparr>"

lemma parked_db_simps [simp]:
  "db_clients parked_db = [web_client]" "db_sessions parked_db = [alice_session]" "db_users parked_db = [alice, bob]"
  "db_faults parked_db = []" "db_auth_codes parked_db = []" "db_refresh_tokens parked_db = []" "db_signing_keys parked_db = []"
  "db_auth_requests parked_db = [parked_request authorize_request (sample_params web_client)]" "\<not> fault parked_db op"
  by (simp_all add: parked_db_def fault_def)

definition consent_request :: request where
  "consent_request = page_request [] [(''req'', RandomToken (replicate 16 CHR ''r'')), (''action'', ''allow'')]"

lemma web_redirect [simp]: "redirectURIAllowed web_client ''https://web/cb''"
  by (simp add: redirectURIAllowed_def web_client_def)

lemma sample_params_of: "params_of (parked_request authorize_request (sample_params c)) c = sample_params c"
  by (simp add: params_of_def parked_request_def sample_params_def)

lemma consent_run: "\<exists>st'. run_state (handleConsentSubmit consent_request) (sample_state parked_db) = (Redirect sample_target, st')
    \<and> db_auth_codes (st_db st') = [issued_code consent_request (sample_params web_client) ''u1'' 10 ''pwd'']"
proof -
  have load: "loadAuthRequest (RandomToken (replicate 16 CHR ''r'')) 100 parked_db = Inr (sample_params web_client)"
    by (simp add: loadAuthRequest_def GetAuthRequest_def query_def sel1_def GetClient_def sample_params_of)
       (simp add: parked_request_def authorize_request_def authRequestTTL_def)
  have c: "run_state (sessions_Current consent_request) (sample_state parked_db) =
    (Inr (alice_session\<lparr>ses_LastSeenAt := 100\<rparr>), (sample_state parked_db)\<lparr>st_db := snd (TouchSession ''s1'' 100 parked_db)\<rparr>)"
    unfolding consent_request_def by (simp add: sample_Current)
  have r: "csrfOK consent_request = None" "PostFormValue consent_request ''action'' = ''allow''" "rq_now consent_request = 100"
    "PostFormValue consent_request ''req'' = RandomToken (replicate 16 CHR ''r'')" "rq_rand consent_request n = replicate 16 CHR ''r''" for n
    by (simp_all add: consent_request_def)
  show ?thesis
    by (simp add: handleConsentSubmit_def r load c issueCode_def CreateAuthCode_def DeleteAuthRequest_def AppendAuditEvent_def raw_stmts
        fault_def grants_ok_def sample_target_def alice_session_def split_beta Let_def audit_ok_def)
qed

theorem consent_code_sound_witness:
  "\<exists>req client sess. req \<in> set (db_auth_requests parked_db) \<and> params_ok parked_db (params_of req client)
     \<and> signed_in sample_view parked_db consent_request sess"
proof -
  obtain st' where "run_state (handleConsentSubmit consent_request) (sample_state parked_db) = (Redirect sample_target, st')"
    "db_auth_codes (st_db st') = [issued_code consent_request (sample_params web_client) ''u1'' 10 ''pwd'']" using consent_run by blast
  from consent_code_sound [OF this(1), of "issued_code consent_request (sample_params web_client) ''u1'' 10 ''pwd''"] this(2)
  show ?thesis by (simp, blast)
qed

subsection \<open>The login form\<close>

definition sample_password :: string where "sample_password = ''Correct-Horse-1''"

definition sample_hash :: string where
  "sample_hash = phc defaultParams (replicate 16 CHR ''s'') (sample_password @ replicate 17 CHR ''k'')"

lemma sample_verify: "VerifyPassword (srv_idkey plain_server) sample_password sample_hash = Verdict True"
proof -
  have k: "length (sample_password @ replicate 17 CHR ''k'') = 32" by (simp add: sample_password_def)
  show ?thesis
    using decodeHash_phc [of "replicate 16 CHR ''s''" "sample_password @ replicate 17 CHR ''k''"] k
    by (simp add: VerifyPassword_def sample_hash_def plain_server_def table_server_def defaultParams_def ConstantTimeCompare_eq sample_password_def)
qed

definition login_db :: db where
  "login_db = sample_db\<lparr>db_users := [alice\<lparr>usr_PasswordHash := sample_hash\<rparr>, bob]\<rparr>"

definition login_request :: "(string \<times> string) list \<Rightarrow> request" where
  "login_request ps = (page_request [] ps)\<lparr>rq_Cookies := [(''omni_csrf'', ''x'')]\<rparr>"

definition alice_login :: request where
  "alice_login = login_request [(''username'', ''alice''), (''password'', sample_password)]"

lemma sample_limits [simp]: "Allowed k n 900000000000 100 newRateLimiter = (True, newRateLimiter)"
  by (simp add: Allowed_def newRateLimiter_def reap_def Let_def split_beta normalizeLimit_def time_Sub_def)

lemma sample_allowed:
  "rq_now r = 100 \<Longrightarrow> run_state (rate_Allowed loginRate r k n (sv_RateLimitWindow sample_view)) (sample_state d) = (True, sample_state d)"
  "rq_now r = 100 \<Longrightarrow> run_state (rate_Allowed loginIPRate r k n (sv_RateLimitWindow sample_view)) (sample_state d) = (True, sample_state d)"
  "rq_now r = 100 \<Longrightarrow> run_state (rate_Allowed mfaRate r k n (sv_RateLimitWindow sample_view)) (sample_state d) = (True, sample_state d)"
  "rq_now r = 100 \<Longrightarrow> run_state (rate_Allowed forgotRate r k n (sv_RateLimitWindow sample_view)) (sample_state d) = (True, sample_state d)"
  by (simp_all add: run_rate_Allowed sample_view_def) (simp_all add: limiter_fields sample_state_def)

lemma alice_login_simps [simp]:
  "csrfOK alice_login = None" "PostFormValue alice_login ''req'' = []" "PostFormValue alice_login ''username'' = ''alice''"
  "PostFormValue alice_login ''next'' = []" "PostFormValue alice_login ''password'' = sample_password"
  "Cookie alice_login sessionCookieName = None" "rq_uuid alice_login n = ''id/'' @ n" "rq_now alice_login = 100"
  "clientIP alice_login = ''10.0.0.1''"
  by (simp_all add: alice_login_def login_request_def page_request_def form_request_def PostFormValue_def Cookie_def sessionCookieName_def
      csrfOK_def csrf_valid_def csrfCookieName_def ValidateCSRFToken_def ConstantTimeCompare_eq) code_simp

lemma trim_alice [simp]: "TrimSpace ''alice'' = ''alice''"
  by code_simp

lemma login_db_simps [simp]:
  "db_users login_db = [alice\<lparr>usr_PasswordHash := sample_hash\<rparr>, bob]" "db_faults login_db = []" "db_sessions login_db = [alice_session]"
  "\<not> fault login_db op"
  by (simp_all add: login_db_def sample_db_def fault_def)

lemma login_user: "GetUserByUsername ''alice'' login_db = Inr (alice\<lparr>usr_PasswordHash := sample_hash\<rparr>)"
  by (simp add: GetUserByUsername_def query_def sel1_def alice_def)

lemma alice_plain [simp]:
  "IsLocal (alice\<lparr>usr_PasswordHash := h\<rparr>)" "\<not> IsLocked (alice\<lparr>usr_PasswordHash := h\<rparr>) now" "\<not> usr_MFAEnabled alice"
  "usr_IsAdmin alice" "usr_Username alice = ''alice''"
  by (simp_all add: IsLocal_def IsLocked_def alice_def)

lemma sample_slot [simp]: "slot_free (sample_state d)"
  by (simp add: slot_free_def sample_state_def sample_view_def)

lemma login_credentials_run:
  "\<exists>st'. run_state (login_credentials plain_server alice_login lx sample_view ''alice'' sample_password) (sample_state login_db)
      = (Inr (alice\<lparr>usr_PasswordHash := sample_hash\<rparr>), st')
     \<and> st_db st' = snd (ResetFailedLogins ''u1'' 100 login_db) \<and> st_settings st' = sample_view"
proof -
  have "run_state (login_credentials plain_server alice_login lx sample_view ''alice'' sample_password) (sample_state login_db)
    = run_state (login_local plain_server alice_login lx sample_view ''alice'' sample_password (alice\<lparr>usr_PasswordHash := sample_hash\<rparr>))
        (sample_state login_db)"
    by (simp add: login_credentials_def login_user)
  then show ?thesis
    by (simp add: login_local_def run_acquire sample_verify releasePasswordVerify_def split_beta record_defs)
qed

lemma sample_Issue:
  assumes "Cookie r sessionCookieName = None" and "db_sessions (st_db st) = [alice_session]" and "db_faults (st_db st) = []"
    and "fk_user (st_db st) ''u1''" and "st_settings st = sample_view" and "rq_uuid r ''session'' = ''id/session''"
  shows "\<exists>s st'. run_state (sessions_Issue r ''u1'' amr) st = (Inr s, st') \<and> ses_ID s = ''id/session''
    \<and> db_sessions (st_db st') = [alice_session, s] \<and> st_settings st' = sample_view"
proof -
  have "ses_ID alice_session = ''s1''" "ses_UserID alice_session = ''u1''" by (simp_all add: alice_session_def)
  then show ?thesis
    using assms
    by (simp add: sessions_Issue_def Issue_def with_cookie_def CreateSession_def raw_stmts split_beta Let_def fault_def sessions_ok_def
        fk_user_def set_cookie_def)
qed

lemma new_row:
  assumes "ses_ID s = ''id/session''" and "db_sessions d = [alice_session, s]" and "db_sessions d0 = [alice_session]"
  shows "session_row s \<in> session_rows d \<and> session_row s \<notin> session_rows d0"
proof -
  have "ses_ID (session_row s) \<noteq> ses_ID (session_row alice_session)"
    using assms(1) by (simp add: session_row_def alice_session_def)
  then show ?thesis using assms(2,3) by (auto simp: session_rows_def)
qed

lemma login_run: "\<exists>st' row. run_state (handleLoginSubmit plain_server alice_login) (sample_state login_db) = (Redirect ''/admin'', st')
    \<and> row \<in> session_rows (st_db st') \<and> row \<notin> session_rows login_db"
proof -
  obtain st1 where c: "run_state (login_credentials plain_server alice_login \<lparr>lx_req = [], lx_next = [], lx_app = []\<rparr> sample_view ''alice''
      sample_password) (sample_state login_db) = (Inr (alice\<lparr>usr_PasswordHash := sample_hash\<rparr>), st1)"
    and st1: "st_db st1 = snd (ResetFailedLogins ''u1'' 100 login_db)" "st_settings st1 = sample_view"
    using login_credentials_run by blast
  have n: "safeNext [] = []" by (simp add: safeNext_def)
  have l: "int (length sample_password) \<le> sv_MaxLoginPasswordBytes sample_view" "5 \<le> sv_MaxLoginUsernameBytes sample_view"
    by (simp_all add: sample_password_def sample_view_def)
  have run: "run_state (handleLoginSubmit plain_server alice_login) (sample_state login_db) =
    run_state (login_done alice_login \<lparr>lx_req = [], lx_next = [], lx_app = []\<rparr> None ''alice'' (alice\<lparr>usr_PasswordHash := sample_hash\<rparr>)) st1"
    using l by (simp add: handleLoginSubmit_def Let_def sample_allowed login_attempt_def n c)
  define st2 where "st2 = snd loginIPRate (Reset (ip_key alice_login)) (snd loginRate (Reset (rl_key alice_login ''alice'')) st1)"
  have st2: "st_db st2 = st_db st1" "st_settings st2 = sample_view" by (simp_all add: st2_def st1)
  obtain s st3 where i: "run_state (sessions_Issue alice_login ''u1'' ''pwd'') st2 = (Inr s, st3)" "ses_ID s = ''id/session''"
    "db_sessions (st_db st3) = [alice_session, s]"
    using sample_Issue [of alice_login st2 "''pwd''"] st1 st2
    by (auto simp: ResetFailedLogins_def update_users_def raw_stmts fk_user_def alice_def)
  have "\<exists>st'. run_state (handleLoginSubmit plain_server alice_login) (sample_state login_db) = (Redirect ''/admin'', st')
      \<and> db_sessions (st_db st') = db_sessions (st_db st3)"
    unfolding run using i(1)
    by (simp add: login_done_def rate_Reset_def redirectAfterLogin_def st2_def AppendAuditEvent_def raw_stmts)
  then show ?thesis using new_row [OF i(2)] i(3) login_db_simps(3) by metis
qed

theorem login_session_sound_witness:
  "\<exists>user. locally_verified plain_server alice_login login_db ''alice'' sample_password user
     \<or> externally_verified plain_server alice_login login_db ''alice'' sample_password user"
proof -
  obtain st' row where "run_state (handleLoginSubmit plain_server alice_login) (sample_state login_db) = (Redirect ''/admin'', st')"
    "row \<in> session_rows (st_db st')" "row \<notin> session_rows (st_db (sample_state login_db))" using login_run by auto
  from login_session_sound [OF this] show ?thesis by (simp add: Let_def) blast
qed
definition stranger_login :: request where
  "stranger_login = login_request [(''username'', ''nobody''), (''password'', sample_password)]"

lemma stranger_simps [simp]:
  "csrfOK stranger_login = None" "PostFormValue stranger_login ''req'' = []" "PostFormValue stranger_login ''username'' = ''nobody''"
  "PostFormValue stranger_login ''password'' = sample_password" "rq_now stranger_login = 100" "TrimSpace ''nobody'' = ''nobody''"
  by (simp_all add: stranger_login_def login_request_def page_request_def form_request_def PostFormValue_def
      csrfOK_def csrf_valid_def csrfCookieName_def Cookie_def ValidateCSRFToken_def ConstantTimeCompare_eq) code_simp


subsection \<open>The second factor\<close>

definition alice_challenge :: LoginChallenge where
  "alice_challenge = \<lparr>lc_ID = ''ch'', lc_UserID = ''u1'', lc_Next = [], lc_Req = [], lc_AMR = ''pwd'', lc_CreatedAt = 50, lc_ExpiresAt = 400\<rparr>"

definition mfa_db :: db where
  "mfa_db = sample_db\<lparr>db_users := [alice\<lparr>usr_MFAEnabled := True\<rparr>, bob], db_login_challenges := [alice_challenge],
     db_recovery_codes := [alice_recovery\<lparr>rc_CodeHash := HashToken ''abcd1234''\<rparr>]\<rparr>"

definition mfa_request :: request where
  "mfa_request = (login_request [(''code'', ''abcd-1234'')])\<lparr>rq_Cookies := [(''omni_csrf'', ''x''), (''omni_mfa'', ''ch'')]\<rparr>"

lemma mfa_request_simps [simp]:
  "csrfOK mfa_request = None" "PostFormValue mfa_request ''code'' = ''abcd-1234''" "rq_now mfa_request = 100"
  "Cookie mfa_request mfaCookieName = Some ''ch''" "Cookie mfa_request sessionCookieName = None" "rq_uuid mfa_request n = ''id/'' @ n"
  by (simp_all add: mfa_request_def login_request_def page_request_def form_request_def PostFormValue_def
      csrfOK_def csrf_valid_def csrfCookieName_def mfaCookieName_def sessionCookieName_def Cookie_def ValidateCSRFToken_def ConstantTimeCompare_eq)

lemma mfa_db_simps [simp]:
  "db_users mfa_db = [alice\<lparr>usr_MFAEnabled := True\<rparr>, bob]" "db_login_challenges mfa_db = [alice_challenge]" "db_faults mfa_db = []"
  "db_sessions mfa_db = [alice_session]" "db_recovery_codes mfa_db = [alice_recovery\<lparr>rc_CodeHash := HashToken ''abcd1234''\<rparr>]"
  "\<not> fault mfa_db op"
  by (simp_all add: mfa_db_def sample_db_def fault_def)

lemma mfa_challenge: "currentChallenge mfa_request mfa_db = Some alice_challenge"
  by (simp add: currentChallenge_def GetLoginChallenge_def query_def sel1_def alice_challenge_def ok_or_none_def)

lemma mfa_second: "run_state (verifySecondFactor plain_server mfa_request (alice\<lparr>usr_MFAEnabled := True\<rparr>) (TrimSpace ''abcd-1234'')) (sample_state mfa_db)
    = (True, (sample_state mfa_db)\<lparr>st_db := snd (ConsumeRecoveryCode ''u1'' (HashToken ''abcd1234'') mfa_db)\<rparr>)"
proof -
  have t: "TrimSpace ''abcd-1234'' = ''abcd-1234''" by code_simp
  have n: "normalizeRecovery plain_server ''abcd-1234'' = ''abcd1234''"
    unfolding plain_server_def table_server_def normalizeRecovery_def by code_simp
  have "fst (ConsumeRecoveryCode ''u1'' (HashToken ''abcd1234'') mfa_db) = Inr True"
    by (simp add: ConsumeRecoveryCode_def raw_stmts affected_def rc_usable_def alice_recovery_def)
  then show ?thesis
    by (simp add: verifySecondFactor_def t n totp_accepts_def) (simp add: plain_server_def table_server_def)
qed
lemma mfa_run: "\<exists>st' row. run_state (handleMFASubmit plain_server mfa_request) (sample_state mfa_db) = (Redirect ''/admin'', st')
    \<and> row \<in> session_rows (st_db st') \<and> row \<notin> session_rows mfa_db"
proof -
  let ?u = "alice\<lparr>usr_MFAEnabled := True\<rparr>"
  define st1 where "st1 = (sample_state mfa_db)\<lparr>st_db := snd (ConsumeRecoveryCode ''u1'' (HashToken ''abcd1234'') mfa_db)\<rparr>"
  have u: "GetUserByID ''u1'' mfa_db = Inr ?u" by (simp add: GetUserByID_def query_def sel1_def)
  have c: "lc_UserID alice_challenge = ''u1''" "lc_AMR alice_challenge = ''pwd''" "lc_Req alice_challenge = []" "lc_Next alice_challenge = []"
    by (simp_all add: alice_challenge_def)
  have run: "run_state (handleMFASubmit plain_server mfa_request) (sample_state mfa_db) = run_state (mfa_accepted mfa_request alice_challenge ?u) st1"
    using mfa_second by (simp add: handleMFASubmit_def mfa_challenge c u sample_allowed st1_def)
  define st2 where "st2 = (snd mfaRate (Reset (''mfa|u1'')) st1)\<lparr>st_db := snd (DeleteLoginChallenge (lc_ID alice_challenge) (st_db st1)),
    st_cookies := st_cookies (snd mfaRate (Reset (''mfa|u1'')) st1) @ [(mfaCookieName, [])]\<rparr>"
  have st2: "db_sessions (st_db st2) = [alice_session]" "db_faults (st_db st2) = []" "fk_user (st_db st2) ''u1''" "st_settings st2 = sample_view"
    by (auto simp: st2_def st1_def DeleteLoginChallenge_def ConsumeRecoveryCode_def raw_stmts fk_user_def split: sum.splits)
  obtain s st3 where i: "run_state (sessions_Issue mfa_request ''u1'' ''pwd otp mfa'') st2 = (Inr s, st3)" "ses_ID s = ''id/session''"
    "db_sessions (st_db st3) = [alice_session, s]"
    using sample_Issue [of mfa_request st2 "''pwd otp mfa''"] st2 by auto
  have "\<exists>st'. run_state (mfa_accepted mfa_request alice_challenge ?u) st1 = (Redirect ''/admin'', st')
      \<and> db_sessions (st_db st') = db_sessions (st_db st3)"
    using i(1) c
    by (simp add: mfa_accepted_def mfa_continue_def rate_Reset_def clearMFACookie_def set_cookie_def redirectAfterLogin_def st2_def
        AppendAuditEvent_def raw_stmts record_defs safeNext_def)
  then show ?thesis unfolding run using new_row [OF i(2)] i(3) mfa_db_simps(4) by metis
qed

theorem mfa_session_sound_witness:
  "\<exists>ch user. ch \<in> set (db_login_challenges mfa_db) \<and> user \<in> set (db_users mfa_db)
     \<and> second_factor plain_server mfa_request mfa_db user (TrimSpace ''abcd-1234'')"
proof -
  obtain st' row where "run_state (handleMFASubmit plain_server mfa_request) (sample_state mfa_db) = (Redirect ''/admin'', st')"
    "row \<in> session_rows (st_db st')" "row \<notin> session_rows (st_db (sample_state mfa_db))" using mfa_run by auto
  from mfa_session_sound [OF this] show ?thesis by (simp only: sample_state_simps mfa_request_simps) blast
qed

subsection \<open>Redirects and the demand to sign in again\<close>

theorem no_open_redirect_witness:
  "local_path sample_target \<or> resume_page trusted_db sample_target \<or> client_url trusted_db sample_target"
proof -
  obtain st' where "run_state (handleAuthorize authorize_request) (sample_state trusted_db) = (Redirect sample_target, st')"
    using authorize_run by blast
  then show ?thesis
    using no_open_redirect [of "handleAuthorize authorize_request" plain_server authorize_request "sample_state trusted_db" sample_target st']
    by (simp add: sign_in_pages_def)
qed

definition prompt_request :: request where
  "prompt_request = page_request ((''prompt'', ''login'') # authorize_params) []"

definition return_request :: request where
  "return_request = page_request [(''req'', RandomToken (replicate 16 CHR ''r''))] []"

lemma prompt_validate: "validateAuthorize prompt_request trusted_db = Inr (sample_params trusted_client)"
  by (simp add: validateAuthorize_def prompt_request_def authorize_params_def sample_params_def GetClient_def query_def fault_def
      sel1_def Let_def redirectURIAllowed_def HasScope_def ScopeOpenID_def PKCEMethodS256_def)

lemma prompt_run: "\<exists>st'. run_state (handleAuthorize prompt_request) (sample_state trusted_db) =
      (Redirect (''/login?req='' @ QueryEscape (RandomToken (replicate 16 CHR ''r''))), st')
    \<and> st_settings st' = sample_view \<and> db_sessions (st_db st') = [alice_session\<lparr>ses_LastSeenAt := 100\<rparr>] \<and> db_faults (st_db st') = []"
proof -
  have c: "run_state (sessions_Current prompt_request) (sample_state trusted_db) =
    (Inr (alice_session\<lparr>ses_LastSeenAt := 100\<rparr>), (sample_state trusted_db)\<lparr>st_db := snd (TouchSession ''s1'' 100 trusted_db)\<rparr>)"
    unfolding prompt_request_def by (simp add: sample_Current)
  have q: "QueryGet prompt_request ''prompt'' = ''login''" "rq_rand prompt_request n = replicate 16 CHR ''r''" for n
    by (simp_all add: prompt_request_def)
  have t: "db_sessions (snd (TouchSession ''s1'' 100 trusted_db)) = [alice_session\<lparr>ses_LastSeenAt := 100\<rparr>]"
    by (simp add: TouchSession_def raw_stmts alice_session_def)
  show ?thesis
    using handleAuthorize_prompt_login [of prompt_request "sample_state trusted_db", OF _ q(1) c] prompt_validate t
    by (simp add: parkAndRedirect_def Let_def CreateAuthRequest_def raw_stmts grants_ok_def fault_def q parked_request_def split_beta)
qed

lemma touched_Current:
  assumes "db_sessions (st_db st) = [alice_session\<lparr>ses_LastSeenAt := 100\<rparr>]" and "db_faults (st_db st) = []" and "st_settings st = sample_view"
  shows "\<exists>st'. run_state (sessions_Current return_request) st = (Inr (alice_session\<lparr>ses_LastSeenAt := 100\<rparr>), st')"
  using assms
  by (simp add: run_Current Current_def with_cookie_def GetSession_def query_def fault_def sel1_def alice_session_def return_request_def
      sessionConfig_def sample_view_def time_Sub_def split_beta Let_def)

theorem reauthentication_not_enforced_witness:
  "\<exists>target st1 answer st'. run_state (handleAuthorize prompt_request) (sample_state trusted_db) = (Redirect target, st1)
     \<and> run_state (handleLoginForm plain_server return_request) st1 = (Redirect answer, st')
     \<and> (\<exists>c \<in> set (db_auth_codes (st_db st')). ac_AuthTime c = 10 \<and> ac_CreatedAt c = 100)"
proof -
  obtain st1 where a: "run_state (handleAuthorize prompt_request) (sample_state trusted_db) =
      (Redirect (''/login?req='' @ QueryEscape (RandomToken (replicate 16 CHR ''r''))), st1)"
    and st1: "db_sessions (st_db st1) = [alice_session\<lparr>ses_LastSeenAt := 100\<rparr>]" "db_faults (st_db st1) = []" "st_settings st1 = sample_view"
    using prompt_run by blast
  obtain st2 where c: "run_state (sessions_Current return_request) st1 = (Inr (alice_session\<lparr>ses_LastSeenAt := 100\<rparr>), st2)"
    using touched_Current [OF st1] by blast
  have "\<not> needsSetup trusted_db" by (simp add: needsSetup_def CountAdmins_def query_def affected_def)
  moreover have "RandomToken (rq_rand prompt_request ''authreq'') \<noteq> []" by (rule RandomToken_nonempty) (simp add: prompt_request_def)
  moreover have u: "url_Parse (az_redirectURI (sample_params trusted_client)) = Some web_url" by simp
  moreover have "cl_SkipConsent (az_client (sample_params trusted_client))" by (simp add: trusted_client_def)
  ultimately obtain answer st' where "run_state (handleLoginForm plain_server return_request) st1 = (Redirect answer, st')"
    "db_auth_codes (st_db st') = [issued_code return_request (sample_params trusted_client) ''u1'' 10 ''pwd'']"
    using reauthentication_not_enforced [OF _ _ u a _ _ c, of plain_server] prompt_validate trusted_db_ok
    by (auto simp: prompt_request_def return_request_def authRequestTTL_def alice_session_def)
  then show ?thesis
    using a by (intro exI [of _ st1] exI [of _ answer] exI [of _ st'] exI) (simp add: issued_code_def return_request_def)
qed
subsection \<open>Password links and the first-run setup\<close>

definition linked_db :: db where
  "linked_db = sample_db\<lparr>db_password_tokens := [alice_password_token\<lparr>pt_TokenHash := HashToken ''link''\<rparr>]\<rparr>"

lemma linked_db_simps [simp]:
  "db_users linked_db = [alice, bob]" "db_password_tokens linked_db = [alice_password_token\<lparr>pt_TokenHash := HashToken ''link''\<rparr>]"
  "db_faults linked_db = []" "\<not> fault linked_db op"
  by (simp_all add: linked_db_def sample_db_def fault_def)

lemma linked_db_ok: "db_ok linked_db"
  using sample_db_ok by (simp add: linked_db_def db_ok_def ok_defs sample_defs)

definition password_request :: request where
  "password_request = page_request [] [(''token'', ''link''), (''password'', sample_password), (''confirm'', sample_password)]"

lemma password_request_simps [simp]:
  "csrfOK password_request = None" "PostFormValue password_request ''token'' = ''link''" "PostFormValue password_request ''password'' = sample_password"
  "PostFormValue password_request ''confirm'' = sample_password" "rq_now password_request = 100" "rq_rand password_request n = replicate 16 CHR ''r''"
  by (simp_all add: password_request_def)

lemma sample_policy_ok:
  "ValidatePassword (srv_unicode plain_server) sample_password ''alice'' ''alice@example.org'' (view_PasswordPolicy sample_view) = []"
  unfolding plain_server_def table_server_def sample_password_def sample_view_def by code_simp

lemma sample_stored: "\<exists>h. HashPassword (srv_idkey plain_server) (Some (replicate 16 CHR ''r'')) sample_password = Some h \<and> h \<noteq> ''$x''"
proof -
  have "HashPassword (srv_idkey plain_server) (Some (replicate 16 CHR ''r'')) sample_password =
      Some (phc defaultParams (replicate 16 CHR ''r'') (sample_password @ replicate 17 CHR ''k''))"
    by (simp add: HashPassword_def plain_server_def table_server_def defaultParams_def sample_password_def)
  then show ?thesis by (simp add: phc_default)
qed

lemma set_password_run: "\<exists>st'. run_state (handleSetPasswordSubmit plain_server password_request) (sample_state linked_db) =
    (Redirect ''/login?notice=password-set'', st') \<and> db_users (st_db st') \<noteq> [alice, bob]"
proof -
  let ?h = "HashToken ''link''"
  obtain h where h: "HashPassword (srv_idkey plain_server) (Some (replicate 16 CHR ''r'')) sample_password = Some h" "h \<noteq> ''$x''"
    using sample_stored by blast
  have tok: "GetValidPasswordToken ?h 100 linked_db = Inr (alice_password_token\<lparr>pt_TokenHash := ?h\<rparr>)"
    by (simp add: GetValidPasswordToken_def query_def sel1_def pt_usable_def alice_password_token_def)
  have loc: "IsLocal alice" by (simp add: IsLocal_def alice_def)
  have e: "usr_Email alice = ''alice@example.org''" by (simp add: alice_def)
  have used: "\<exists>t. fst (ConsumePasswordToken ?h 100 linked_db) = Inr (Some t)"
    by (simp add: ConsumePasswordToken_def raw_stmts query_def sel1_def pt_usable_def alice_password_token_def affected_def fault_def)
  then obtain t where t: "fst (ConsumePasswordToken ?h 100 linked_db) = Inr (Some t)" by blast
  define st1 where "st1 = (sample_state linked_db)\<lparr>st_db := snd (ConsumePasswordToken ?h 100 linked_db)\<rparr>"
  have run: "run_state (handleSetPasswordSubmit plain_server password_request) (sample_state linked_db) =
      run_state (store_password plain_server password_request alice (alice_password_token\<lparr>pt_TokenHash := ?h\<rparr>) sample_password) st1"
    using t loc sample_policy_ok
    by (simp add: handleSetPasswordSubmit_def Let_def tok alice_password_token_def st1_def e split_beta)
  have st1: "db_users (st_db st1) = [alice, bob]" "\<not> fault (st_db st1) op" for op
    by (simp_all add: st1_def Consume_frame fault_def)
  have "fst (SetUserPassword ''u1'' h 100 (st_db st1)) = Inr ()"
    "db_users (snd (SetUserPassword ''u1'' h 100 (st_db st1))) = [alice\<lparr>usr_PasswordHash := h, usr_UpdatedAt := 100\<rparr>, bob]"
    using st1 by (simp_all add: SetUserPassword_def update_users_def raw_stmts affected_def requireRow_def) (simp_all add: bob_def)
  moreover have "alice\<lparr>usr_PasswordHash := h, usr_UpdatedAt := 100\<rparr> \<noteq> alice" by (simp add: alice_def)
  ultimately show ?thesis
    unfolding run
    by (simp add: store_password_def h split_beta AppendAuditEvent_def DeletePasswordTokensForUser_def DeleteSessionsForUser_def raw_stmts Let_def)
qed

theorem set_password_sound_witness:
  "\<exists>tok. link_of password_request linked_db tok"
proof -
  obtain st' where "run_state (handleSetPasswordSubmit plain_server password_request) (sample_state linked_db) =
      (Redirect ''/login?notice=password-set'', st')" "db_users (st_db st') \<noteq> db_users (st_db (sample_state linked_db))"
    using set_password_run by auto
  from set_password_sound [OF this] linked_db_ok show ?thesis by (simp only: sample_state_simps) blast
qed

definition empty_db :: db where
  "empty_db = sample_db\<lparr>db_users := [], db_sessions := [], db_password_tokens := [], db_recovery_codes := [], db_devices := [], db_pats := [],
     db_device_codes := [], db_refresh_tokens := [], db_auth_codes := []\<rparr>"

lemma empty_db_simps [simp]: "db_users empty_db = []" "db_sessions empty_db = []" "db_faults empty_db = []" "\<not> fault empty_db op"
  by (simp_all add: empty_db_def sample_db_def fault_def)

definition setup_request :: request where
  "setup_request = login_request [(''setup_token'', ''setup''), (''username'', ''alice''), (''email'', ''alice@example.org''), (''password'', sample_password)]"

lemma setup_request_simps [simp]:
  "csrfOK setup_request = None" "PostFormValue setup_request ''setup_token'' = ''setup''" "PostFormValue setup_request ''username'' = ''alice''"
  "PostFormValue setup_request ''email'' = ''alice@example.org''" "PostFormValue setup_request ''password'' = sample_password"
  "rq_now setup_request = 100" "rq_rand setup_request n = replicate 16 CHR ''r''" "rq_uuid setup_request n = ''id/'' @ n"
  by (simp_all add: setup_request_def login_request_def page_request_def form_request_def PostFormValue_def
      csrfOK_def csrf_valid_def csrfCookieName_def Cookie_def ValidateCSRFToken_def ConstantTimeCompare_eq)

theorem setup_sound_witness:
  "\<exists>hash. HashPassword (srv_idkey plain_server) (Some (replicate 16 CHR ''r'')) sample_password = Some hash
     \<and> db_users (st_db (snd (run_state (handleSetupSubmit plain_server setup_request) (sample_state empty_db))))
         = [norm_user (first_admin setup_request ''alice'' ''alice@example.org'' hash)]"
proof -
  obtain resp st' where run: "run_state (handleSetupSubmit plain_server setup_request) (sample_state empty_db) = (resp, st')" by fastforce
  obtain h where h: "HashPassword (srv_idkey plain_server) (Some (replicate 16 CHR ''r'')) sample_password = Some h"
    using sample_stored by blast
  have t: "TrimSpace ''alice@example.org'' = ''alice@example.org''" "TrimSpace ''setup'' = ''setup''" by code_simp+
  have v: "validSetupToken plain_server sample_view ''setup''"
    by (simp add: validSetupToken_def plain_server_def table_server_def t ConstantTimeCompare_eq)
  let ?u = "first_admin setup_request ''alice'' ''alice@example.org'' h"
  have made: "fst (CreateUser ?u empty_db) = Inr ()" "db_users (snd (CreateUser ?u empty_db)) = [norm_user ?u]"
    by (simp_all add: CreateUser_def raw_stmts users_ok_def)
  have p: "performs no_user (sessions_Issue setup_request (usr_ID ?u) ''pwd'')" by (intro performs_rules; simp)
  obtain x st2 where i: "run_state (sessions_Issue setup_request (usr_ID ?u) ''pwd'') ((sample_state empty_db)\<lparr>st_db := snd (CreateUser ?u empty_db)\<rparr>) = (x, st2)"
    by fastforce
  have "db_users (st_db st2) = [norm_user ?u]" using performs_users [OF p i] made by simp
  moreover have "db_users (st_db st') = db_users (st_db st2)"
    using run i made h t v sample_policy_ok
    by (auto simp: handleSetupSubmit_def needsSetup_def CountAdmins_def query_def affected_def setup_account_def Let_def split_beta
        AppendAuditEvent_def raw_stmts split: sum.splits)
  ultimately have "db_users (st_db st') \<noteq> db_users (st_db (sample_state empty_db))" by simp
  from setup_sound [OF run this] t show ?thesis by (simp add: run Let_def)
qed

definition forgot_request :: request where
  "forgot_request = page_request [] [(''identifier'', ''alice'')]"

theorem forgot_no_enumeration_witness:
  "fst (run_state (handleForgotSubmit plain_server forgot_request) (sample_state sample_db))
     = fst (run_state (handleForgotSubmit plain_server forgot_request) (sample_state empty_db))"
  using forgot_no_enumeration [of plain_server forgot_request "sample_state sample_db", OF prod.collapse [symmetric]]
    forgot_no_enumeration [of plain_server forgot_request "sample_state empty_db", OF prod.collapse [symmetric]]
  by simp

end
