(* ===== verification/Account.thy ===== *)
theory Account
  imports Login
begin

text \<open>
  The pages of a signed-in user (\<open>account_handler.go\<close>, \<open>account_mfa_handler.go\<close>): the guard that lets only
  enabled users with a session through, the change of a password, signing out other sessions, and setting up,
  confirming and turning off the second factor. The guard passes the user and the session it has read to the
  handler, as the request's context does; \<open>uri\<close> is the request's URI as it was sent. Of the pages the values
  that are times or a provisioning address are left out.
\<close>

definition evtMFAEnrolled :: string where "evtMFAEnrolled = ''mfa.enrolled''"
definition evtMFADisabled :: string where "evtMFADisabled = ''mfa.disabled''"
definition evtPasswordChange :: string where "evtPasswordChange = ''password.change''"
definition evtSessionsRevoked :: string where "evtSessionsRevoked = ''session.revoked_all''"

subsection \<open>account_handler.go\<close>

definition requireUser :: "string \<Rightarrow> (User \<Rightarrow> Session \<Rightarrow> response prog) \<Rightarrow> request \<Rightarrow> response prog" where
  "requireUser uri next r = do {
     cs \<leftarrow> sessions_Current r;
     (case cs of
        Inl _ \<Rightarrow> done_with (Redirect (''/login?next='' @ QueryEscape uri))
      | Inr sess \<Rightarrow> do {
          who \<leftarrow> ask (GetUserByID (ses_UserID sess));
          (case (case who of Inl _ \<Rightarrow> None | Inr u \<Rightarrow> if usr_Disabled u then None else Some u) of
             None \<Rightarrow> done_with (Redirect ''/login'')
           | Some user \<Rightarrow> next user sess) }) }"

definition session_view :: "Session \<Rightarrow> Session \<Rightarrow> (string \<times> string) list" where
  "session_view cur s = [(''Session.ID'', ses_ID s), (''Session.UserAgent'', ses_UserAgent s)]
     @ (if ses_ID s = ses_ID cur then [(''Session.Current'', ''true'')] else [])"

definition renderAccount :: "request \<Rightarrow> User \<Rightarrow> Session \<Rightarrow> int \<Rightarrow> string \<Rightarrow> string \<Rightarrow> response prog" where
  "renderAccount r user cur status errMsg saved = do {
     sessions \<leftarrow> ask (ListSessionsForUser (usr_ID user) (rq_now r));
     passkeys \<leftarrow> ask (CountWebAuthnCredentials (usr_ID user));
     form_page r status ''account''
       ([(''Me'', usr_ID user), (''MFAEnabled'', if usr_MFAEnabled user then ''true'' else ''false'')]
        @ concat (map (session_view cur) (case sessions of Inl _ \<Rightarrow> [] | Inr ss \<Rightarrow> ss))
        @ [(''PasskeyCount'', itoa (nat (case passkeys of Inl _ \<Rightarrow> 0 | Inr n \<Rightarrow> n))), (''CurrentSession'', ses_ID cur),
           (''Error'', errMsg), (''Saved'', saved)]) }"

definition handleAccount :: "request \<Rightarrow> User \<Rightarrow> Session \<Rightarrow> response prog" where
  "handleAccount r user cur = renderAccount r user cur 200 [] []"

definition change_password :: "server \<Rightarrow> request \<Rightarrow> User \<Rightarrow> Session \<Rightarrow> string \<Rightarrow> response prog" where
  "change_password srv r user cur password =
    (case HashPassword (srv_idkey srv) (Some (rq_rand r ''salt'')) password of
       None \<Rightarrow> done_with (Plain 500 ''internal error'')
     | Some hash \<Rightarrow> do {
         res \<leftarrow> stmt (SetUserPassword (usr_ID user) hash (rq_now r));
         (case res of
            Inl _ \<Rightarrow> renderAccount r user cur 500 ''Could not change password.'' []
          | Inr _ \<Rightarrow> do {
              _ \<leftarrow> stmt (DeleteSessionsForUser (usr_ID user) (ses_ID cur));
              _ \<leftarrow> audit r evtPasswordChange (entry0\<lparr>ae_actorUserID := usr_ID user, ae_username := usr_Username user, ae_success := True\<rparr>);
              renderAccount r user cur 200 [] ''Password changed. Other sessions were signed out.'' }) })"

definition handleAccountPassword :: "server \<Rightarrow> request \<Rightarrow> User \<Rightarrow> Session \<Rightarrow> response prog" where
  "handleAccountPassword srv r user cur = (case csrfOK r of Some resp \<Rightarrow> done_with resp | None \<Rightarrow>
     if \<not> IsLocal user then renderAccount r user cur 403 ''Your password is managed by your directory and can't be changed here.'' []
     else (let current = PostFormValue r ''current_password''; password = PostFormValue r ''new_password'' in
       case VerifyPassword (srv_idkey srv) current (usr_PasswordHash user) of
         Panics \<Rightarrow> done_with panicked
       | v \<Rightarrow>
         if v \<noteq> Verdict True then renderAccount r user cur 401 ''Your current password is incorrect.'' []
         else do {
           pol \<leftarrow> settings_Current;
           let msg = ValidatePassword (srv_unicode srv) password (usr_Username user) (usr_Email user) (view_PasswordPolicy pol);
           (if msg \<noteq> [] then renderAccount r user cur 400 msg [] else change_password srv r user cur password) }))"

definition handleRevokeOtherSessions :: "request \<Rightarrow> User \<Rightarrow> Session \<Rightarrow> response prog" where
  "handleRevokeOtherSessions r user cur = (case csrfOK r of Some resp \<Rightarrow> done_with resp | None \<Rightarrow> do {
     res \<leftarrow> stmt (DeleteSessionsForUser (usr_ID user) (ses_ID cur));
     (case res of
        Inl _ \<Rightarrow> renderAccount r user cur 500 ''Could not revoke sessions.'' []
      | Inr _ \<Rightarrow> do {
          _ \<leftarrow> audit r evtSessionsRevoked (entry0\<lparr>ae_actorUserID := usr_ID user, ae_username := usr_Username user,
            ae_success := True, ae_detail := ''revoked other sessions''\<rparr>);
          renderAccount r user cur 200 [] ''Signed out of all other sessions.'' }) })"

text \<open>Eight random bytes each, in four groups of hexadecimal digits; what is stored is the hash of the code as a user
  may type it.\<close>

definition grouped_code :: "string \<Rightarrow> string" where
  "grouped_code raw = take 4 raw @ ''-'' @ take 4 (drop 4 raw) @ ''-'' @ take 4 (drop 8 raw) @ ''-'' @ take 4 (drop 12 raw)"

definition recovery_name :: "nat \<Rightarrow> string" where "recovery_name i = ''recovery/'' @ itoa i"

definition recovery_record :: "server \<Rightarrow> request \<Rightarrow> nat \<Rightarrow> string \<Rightarrow> RecoveryCode" where
  "recovery_record srv r i code = \<lparr>rc_ID = rq_uuid r (recovery_name i), rc_UserID = [],
     rc_CodeHash = HashToken (normalizeRecovery srv code), rc_Used = False, rc_CreatedAt = rq_now r\<rparr>"

fun recovery_loop :: "server \<Rightarrow> request \<Rightarrow> nat \<Rightarrow> nat \<Rightarrow> string list \<times> RecoveryCode list \<Rightarrow> string list \<times> RecoveryCode list" where
  "recovery_loop srv r 0 i (plain, records) = (plain, records)"
| "recovery_loop srv r (Suc n) i (plain, records) =
     (let code = grouped_code (RandomHex (rq_rand r (recovery_name i)))
      in recovery_loop srv r n (Suc i) (plain @ [code], records @ [recovery_record srv r i code]))"

definition newRecoveryCodeSet :: "server \<Rightarrow> request \<Rightarrow> nat \<Rightarrow> string list \<times> RecoveryCode list" where
  "newRecoveryCodeSet srv r n = recovery_loop srv r n 0 ([], [])"

subsection \<open>account_mfa_handler.go\<close>

definition recoveryCodeCount :: nat where "recoveryCodeCount = 10"

definition renderMFASetup :: "request \<Rightarrow> User \<Rightarrow> int \<Rightarrow> string \<Rightarrow> string \<Rightarrow> response prog" where
  "renderMFASetup r user status secret errMsg =
     form_page r status ''mfa_setup'' [(''Me'', usr_ID user), (''Secret'', secret), (''Error'', errMsg)]"

definition handleMFASetup :: "server \<Rightarrow> request \<Rightarrow> User \<Rightarrow> Session \<Rightarrow> response prog" where
  "handleMFASetup srv r user cur =
    (if usr_MFAEnabled user then done_with (Redirect ''/account'')
     else case GenerateTOTPSecret (Some (rq_rand r ''totp'')) of
       None \<Rightarrow> done_with (Plain 500 ''internal error'')
     | Some secret \<Rightarrow> (case srv_Encrypt srv (rq_rand r ''nonce'') secret of
         None \<Rightarrow> done_with (Plain 500 ''internal error'')
       | Some enc \<Rightarrow> do {
           res \<leftarrow> stmt (SetUserMFA (usr_ID user) False enc (rq_now r));
           (case res of
              Inl _ \<Rightarrow> done_with (Plain 500 ''internal error'')
            | Inr _ \<Rightarrow> renderMFASetup r user 200 secret []) }))"

definition enable_mfa :: "server \<Rightarrow> request \<Rightarrow> User \<Rightarrow> response prog" where
  "enable_mfa srv r user = do {
     res \<leftarrow> stmt (SetUserMFA (usr_ID user) True (usr_TOTPSecret user) (rq_now r));
     (case res of
        Inl _ \<Rightarrow> done_with (Plain 500 ''internal error'')
      | Inr _ \<Rightarrow> do {
          let (plain, records) = newRecoveryCodeSet srv r recoveryCodeCount;
          res \<leftarrow> stmt (ReplaceRecoveryCodes (usr_ID user) records);
          (case res of
             Inl _ \<Rightarrow> done_with (Plain 500 ''internal error'')
           | Inr _ \<Rightarrow> do {
               _ \<leftarrow> audit r evtMFAEnrolled (entry0\<lparr>ae_actorUserID := usr_ID user, ae_username := usr_Username user, ae_success := True\<rparr>);
               form_page r 200 ''mfa_enabled'' ((''Me'', usr_ID user) # map (\<lambda>c. (''RecoveryCode'', c)) plain) }) }) }"

definition handleMFAEnable :: "server \<Rightarrow> request \<Rightarrow> User \<Rightarrow> Session \<Rightarrow> response prog" where
  "handleMFAEnable srv r user cur = (case csrfOK r of Some resp \<Rightarrow> done_with resp | None \<Rightarrow>
    (case srv_Decrypt srv (usr_TOTPSecret user) of
       None \<Rightarrow> done_with (Redirect ''/account/mfa/setup'')
     | Some secret \<Rightarrow>
       if secret = [] then done_with (Redirect ''/account/mfa/setup'')
       else if \<not> VerifyTOTP secret (PostFormValue r ''code'') (rq_now r) then
         renderMFASetup r user 401 secret ''That code didn't match. Try again.''
       else enable_mfa srv r user))"

definition handleMFADisable :: "server \<Rightarrow> request \<Rightarrow> User \<Rightarrow> Session \<Rightarrow> response prog" where
  "handleMFADisable srv r user cur = (case csrfOK r of Some resp \<Rightarrow> done_with resp | None \<Rightarrow>
    (case VerifyPassword (srv_idkey srv) (PostFormValue r ''password'') (usr_PasswordHash user) of
       Panics \<Rightarrow> done_with panicked
     | v \<Rightarrow>
       if v \<noteq> Verdict True then renderAccount r user cur 401 ''Your password is incorrect.'' []
       else do {
         res \<leftarrow> stmt (SetUserMFA (usr_ID user) False [] (rq_now r));
         (case res of
            Inl _ \<Rightarrow> done_with (Plain 500 ''internal error'')
          | Inr _ \<Rightarrow> do {
              _ \<leftarrow> stmt (DeleteRecoveryCodes (usr_ID user));
              _ \<leftarrow> audit r evtMFADisabled (entry0\<lparr>ae_actorUserID := usr_ID user, ae_username := usr_Username user, ae_success := True\<rparr>);
              renderAccount r user cur 200 [] ''Two-factor authentication disabled.'' }) }))"

end
