(* ===== verification/AccountFacts.thy ===== *)
theory AccountFacts
  imports Account PasswordFacts
begin

text \<open>
  What the pages of a signed-in user promise: whose rows they write and on what proof, that a password change ends
  the other sessions, and that each recovery code shown works, once.
\<close>

subsection \<open>The guard\<close>

lemma GetUserByID_found: "GetUserByID i d = Inr u \<Longrightarrow> u \<in> set (db_users d) \<and> usr_ID u = i"
  by (auto simp: GetUserByID_def query_def split: if_splits dest!: sel1_Inr)

text \<open>Whatever a guarded handler does to the accounts, it does for the enabled user of a live session, in a state that
  differs only in when that session was last seen.\<close>

definition as_user :: "srvstate \<Rightarrow> request \<Rightarrow> Session \<Rightarrow> User \<Rightarrow> bool" where
  "as_user st r sess user \<longleftrightarrow> signed_in (st_settings st) (st_db st) r sess \<and> user \<in> set (db_users (st_db st))
     \<and> usr_ID user = ses_UserID sess \<and> \<not> usr_Disabled user"

lemma Touch_rows: "session_rows (snd (TouchSession i t d)) = session_rows d"
proof -
  have "session_row ` set (upd p (\<lambda>s. s\<lparr>ses_LastSeenAt := t\<rparr>) ss) = session_row ` set ss" for p ss
    by (rule upd_image) (simp add: session_row_def)
  then show ?thesis by (simp add: TouchSession_def raw_stmts session_rows_def)
qed

lemma Current_rows: "run_state (sessions_Current r) st = (Inr sess, st1) \<Longrightarrow> session_rows (st_db st1) = session_rows (st_db st)"
  by (auto simp: run_Current Current_def Let_def split_beta Touch_rows split: if_splits sum.splits)

lemma requireUser_cases:
  assumes "run_state (requireUser uri h r) st = (resp, st')"
  obtains (away) t where "resp = Redirect t" "grants_frame st st'"
    | (user) sess user st1 where "as_user st r sess user" "grants_frame st st1" "run_state (h user sess) st1 = (resp, st')"
        "st1 = st\<lparr>st_db := st_db st1\<rparr>" "session_rows (st_db st1) = session_rows (st_db st)"
proof -
  obtain x st1 where c: "run_state (sessions_Current r) st = (x, st1)" by fastforce
  note f = conjunct1 [OF Current_frame [OF c]]
  have db: "st1 = st\<lparr>st_db := st_db st1\<rparr>" using c by (auto simp: run_Current split_beta)
  show ?thesis
  proof (cases x)
    case (Inl e)
    then show ?thesis using assms c f by (intro away) (auto simp: requireUser_def)
  next
    case (Inr sess)
    note s = run_Current_signed_in [OF c [unfolded Inr]]
    show ?thesis
    proof (cases "GetUserByID (ses_UserID sess) (st_db st1)")
      case (Inl e)
      then show ?thesis using assms c f Inr by (intro away) (auto simp: requireUser_def)
    next
      case (Inr u)
      show ?thesis
      proof (cases "usr_Disabled u")
        case True
        then show ?thesis using assms c f Inr \<open>x = Inr sess\<close> by (intro away) (auto simp: requireUser_def)
      next
        case False
        have "as_user st r sess u" using s GetUserByID_found [OF Inr] f False by (simp add: as_user_def grants_frame_def)
        then show ?thesis using assms c f Inr False \<open>x = Inr sess\<close> db Current_rows [of r st sess st1] by (intro user [of sess u st1]) (auto simp: requireUser_def)
      qed
    qed
  qed
qed

lemma renderAccount_db [simp]:
  "st_db (snd (run_state (renderAccount r user cur s e m) st)) = st_db st"
  by (simp add: renderAccount_def)

lemma renderAccount_run: "run_state (renderAccount r user cur s e m) st = (resp, st') \<Longrightarrow> st_db st' = st_db st"
  using renderAccount_db [of r user cur s e m st] by simp

lemma renderMFASetup_db [simp]: "st_db (snd (run_state (renderMFASetup r user s t e) st)) = st_db st"
  by (simp add: renderMFASetup_def)

lemma renderMFASetup_run: "run_state (renderMFASetup r user s t e) st = (resp, st') \<Longrightarrow> st_db st' = st_db st"
  using renderMFASetup_db [of r user s t e st] by simp

text \<open>A statement on one account that has failed has left the table as it was.\<close>

lemma update_users_failed: "fst (update_users n i f d) = Inl e \<Longrightarrow> db_users (snd (update_users n i f d)) = db_users d"
  by (auto simp: update_users_def raw_stmts split_beta requireRow_def affected_0_iff intro!: upd_none split: if_splits)

lemma update_users_done:
  "fst (update_users n i f d) = Inr u \<Longrightarrow> db_users (snd (update_users n i f d)) = upd (\<lambda>r. usr_ID r = i) f (db_users d)
    \<and> db_faults (snd (update_users n i f d)) = db_faults d"
  by (auto simp: update_users_def raw_stmts split_beta requireRow_def split: if_splits)
subsection \<open>Changing the password\<close>

lemma change_password_cases:
  assumes "run_state (change_password srv r user cur password) st = (resp, st')"
  obtains (failed) "db_users (st_db st') = db_users (st_db st)"
    | (stored) hash where "HashPassword (srv_idkey srv) (Some (rq_rand r ''salt'')) password = Some hash"
        "db_users (st_db st') = upd (\<lambda>u. usr_ID u = usr_ID user) (\<lambda>u. u\<lparr>usr_PasswordHash := hash, usr_UpdatedAt := rq_now r\<rparr>) (db_users (st_db st))"
        "db_sessions (st_db st') = (if fault (st_db st) ''DeleteSessionsForUser'' then db_sessions (st_db st)
           else del (\<lambda>s. ses_UserID s = usr_ID user \<and> ses_ID s \<noteq> ses_ID cur) (db_sessions (st_db st)))"
proof (cases "HashPassword (srv_idkey srv) (Some (rq_rand r ''salt'')) password")
  case None
  then show ?thesis using assms failed by (simp add: change_password_def)
next
  case (Some hash)
  let ?d1 = "snd (SetUserPassword (usr_ID user) hash (rq_now r) (st_db st))"
  show ?thesis
  proof (cases "fst (SetUserPassword (usr_ID user) hash (rq_now r) (st_db st))")
    case (Inl e)
    then have "st_db st' = ?d1"
      using assms Some by (auto simp: change_password_def dest!: renderAccount_run)
    then show ?thesis
      using Inl update_users_failed by (intro failed) (simp add: SetUserPassword_def)
  next
    case (Inr u)
    define d2 where "d2 = snd (DeleteSessionsForUser (usr_ID user) (ses_ID cur) ?d1)"
    obtain e where st': "st_db st' = snd (AppendAuditEvent e d2)"
      using assms Some Inr by (auto simp: change_password_def d2_def split_beta dest!: renderAccount_run)
    note d1 = update_users_done [OF Inr [unfolded SetUserPassword_def]]
    have "db_users d2 = db_users ?d1"
      and "db_sessions d2 = (if fault ?d1 ''DeleteSessionsForUser'' then db_sessions ?d1
         else del (\<lambda>s. ses_UserID s = usr_ID user \<and> ses_ID s \<noteq> ses_ID cur) (db_sessions ?d1))"
      by (auto simp: d2_def DeleteSessionsForUser_def raw_stmts)
    moreover have "db_sessions ?d1 = db_sessions (st_db st)" by (simp add: SetUserPassword_def update_users_def raw_stmts split_beta)
    ultimately show ?thesis
      using d1 by (intro stored [OF Some]) (simp_all add: st' AppendAuditEvent_def raw_stmts fault_def SetUserPassword_def)
  qed
qed

text \<open>C18: On the account page a signed-in user changes the password of one account, their own, and no other: the form carried a
  CSRF token and the present password, the account is local and enabled, and the new password passed the policy. What is stored is
  its hash. The present session stays; unless their statement fails, every other session of the account is ended, and no session of
  another account is.\<close>

theorem account_password_sound:
  assumes "run_state (requireUser uri (handleAccountPassword srv r) r) st = (resp, st')"
    and "db_users (st_db st') \<noteq> db_users (st_db st)"
  shows "csrf_valid r \<and> (\<exists>sess user hash. as_user st r sess user \<and> IsLocal user
    \<and> VerifyPassword (srv_idkey srv) (PostFormValue r ''current_password'') (usr_PasswordHash user) = Verdict True
    \<and> ValidatePassword (srv_unicode srv) (PostFormValue r ''new_password'') (usr_Username user) (usr_Email user)
        (view_PasswordPolicy (st_settings st)) = []
    \<and> HashPassword (srv_idkey srv) (Some (rq_rand r ''salt'')) (PostFormValue r ''new_password'') = Some hash
    \<and> db_users (st_db st') = upd (\<lambda>u. usr_ID u = usr_ID user) (\<lambda>u. u\<lparr>usr_PasswordHash := hash, usr_UpdatedAt := rq_now r\<rparr>)
        (db_users (st_db st))
    \<and> session_row sess \<in> session_rows (st_db st')
    \<and> (\<not> fault (st_db st) ''DeleteSessionsForUser'' \<longrightarrow> session_rows (st_db st')
        = {s \<in> session_rows (st_db st). ses_UserID s = usr_ID user \<longrightarrow> ses_ID s = ses_ID sess}))"
  using assms(1)
proof (cases rule: requireUser_cases)
  case away
  then show ?thesis using assms(2) by (simp add: grants_frame_def)
next
  case (user sess user st1)
  let ?cur = "PostFormValue r ''current_password''" and ?p = "PostFormValue r ''new_password''"
  have same: "db_users (st_db st1) = db_users (st_db st)" "st_settings st1 = st_settings st" "db_faults (st_db st1) = db_faults (st_db st)"
    using user(2) by (simp_all add: grants_frame_def)
  have changed: "db_users (st_db st') \<noteq> db_users (st_db st1)" using assms(2) same by simp
  have csrf: "csrfOK r = None" using user(3) changed by (cases "csrfOK r") (auto simp: handleAccountPassword_def)
  have loc: "IsLocal user" using user(3) changed csrf by (auto simp: handleAccountPassword_def dest!: renderAccount_run split: if_splits)
  have ver: "VerifyPassword (srv_idkey srv) ?cur (usr_PasswordHash user) = Verdict True"
    using user(3) changed csrf loc by (auto simp: handleAccountPassword_def Let_def dest!: renderAccount_run split: verdict.splits if_splits)
  have pol: "ValidatePassword (srv_unicode srv) ?p (usr_Username user) (usr_Email user) (view_PasswordPolicy (st_settings st)) = []"
    and run: "run_state (change_password srv r user sess ?p) st1 = (resp, st')"
    using user(3) changed csrf loc ver same(2)
    by (auto simp: handleAccountPassword_def Let_def dest!: renderAccount_run split: if_splits)
  show ?thesis
    using run
  proof (cases rule: change_password_cases)
    case failed
    then show ?thesis using changed by simp
  next
    case (stored hash)
    have "session_row sess \<in> session_rows (st_db st)"
      using user(1) by (auto simp: as_user_def signed_in_def session_rows_def session_row_def)
    moreover have "session_rows (st_db st') = (if fault (st_db st) ''DeleteSessionsForUser'' then session_rows (st_db st)
        else {s \<in> session_rows (st_db st). ses_UserID s = usr_ID user \<longrightarrow> ses_ID s = ses_ID sess})"
      unfolding user(5) [symmetric] using stored(3) same(3)
      by (auto simp: session_rows_def fault_def set_del) (auto simp: session_row_def)
    ultimately show ?thesis
      using csrf user(1) loc ver pol same stored(1,2)
      by (intro conjI exI [of _ sess] exI [of _ user] exI [of _ hash]) (simp_all add: csrfOK_def session_row_def split: if_splits)
  qed
qed

subsection \<open>The second factor\<close>

text \<open>What enrolling and turning off write: the two fields of the user's own row.\<close>

definition factor_set :: "request \<Rightarrow> User \<Rightarrow> bool \<Rightarrow> string \<Rightarrow> db \<Rightarrow> db \<Rightarrow> bool" where
  "factor_set r user on secret d d' \<longleftrightarrow> db_users d' = upd (\<lambda>u. usr_ID u = usr_ID user)
     (\<lambda>u. u\<lparr>usr_MFAEnabled := on, usr_TOTPSecret := secret, usr_UpdatedAt := rq_now r\<rparr>) (db_users d)"

lemma SetUserMFA_cases:
  obtains (failed) e where "fst (SetUserMFA (usr_ID user) on secret (rq_now r) d) = Inl e"
      "db_users (snd (SetUserMFA (usr_ID user) on secret (rq_now r) d)) = db_users d"
    | (stored) "fst (SetUserMFA (usr_ID user) on secret (rq_now r) d) = Inr ()"
      "factor_set r user on secret d (snd (SetUserMFA (usr_ID user) on secret (rq_now r) d))"
proof (cases "fst (SetUserMFA (usr_ID user) on secret (rq_now r) d)")
  case (Inl e)
  then show ?thesis using update_users_failed by (intro failed) (simp_all add: SetUserMFA_def)
next
  case (Inr x)
  then show ?thesis using update_users_done by (intro stored) (simp_all add: SetUserMFA_def factor_set_def)
qed

lemma factor_users:
  "db_users (snd (ReplaceRecoveryCodes u cs d)) = db_users d" "db_users (snd (DeleteRecoveryCodes u d)) = db_users d"
  "db_users (snd (AppendAuditEvent e d)) = db_users d"
  by (simp_all add: ReplaceRecoveryCodes_def DeleteRecoveryCodes_def AppendAuditEvent_def raw_stmts)

lemma enable_mfa_users:
  assumes "run_state (enable_mfa srv r user) st = (resp, st')"
  shows "db_users (st_db st') = db_users (st_db st) \<or> factor_set r user True (usr_TOTPSecret user) (st_db st) (st_db st')"
proof (cases user True "usr_TOTPSecret user" r "st_db st" rule: SetUserMFA_cases)
  case (failed e)
  then show ?thesis using assms by (auto simp: enable_mfa_def)
next
  case stored
  have "db_users (st_db st') = db_users (snd (SetUserMFA (usr_ID user) True (usr_TOTPSecret user) (rq_now r) (st_db st)))"
    using assms stored(1)
    by (auto simp: enable_mfa_def split_beta factor_users split: sum.splits dest!: arg_cong [where f = snd])
  then show ?thesis using stored(2) by (simp add: factor_set_def)
qed

text \<open>C19: On the account pages the second factor of an account is written only by its own enabled user in a live session.
  Setting it up there replaces the secret while the factor is off and leaves it off; it is turned on, with the secret it already
  has, only by a form with a CSRF token and a current code of that secret; it is turned off there, and its secret removed, only by
  a form with a CSRF token and the account's password. (An administrator's reset is another page, and outside this claim.)\<close>

theorem second_factor_sound:
  assumes "run_state (requireUser uri h r) st = (resp, st')" and "db_users (st_db st') \<noteq> db_users (st_db st)"
    and "h = handleMFASetup srv r \<or> h = handleMFAEnable srv r \<or> h = handleMFADisable srv r"
  shows "\<exists>sess user on secret. as_user st r sess user \<and> factor_set r user on secret (st_db st) (st_db st')
    \<and> (h = handleMFASetup srv r \<and> \<not> usr_MFAEnabled user \<and> \<not> on
         \<and> (\<exists>totp. GenerateTOTPSecret (Some (rq_rand r ''totp'')) = Some totp \<and> srv_Encrypt srv (rq_rand r ''nonce'') totp = Some secret)
       \<or> h = handleMFAEnable srv r \<and> csrf_valid r \<and> on \<and> secret = usr_TOTPSecret user
         \<and> totp_accepts srv r user (PostFormValue r ''code'')
       \<or> h = handleMFADisable srv r \<and> csrf_valid r \<and> \<not> on \<and> secret = []
         \<and> VerifyPassword (srv_idkey srv) (PostFormValue r ''password'') (usr_PasswordHash user) = Verdict True)"
  using assms(1)
proof (cases rule: requireUser_cases)
  case away
  then show ?thesis using assms(2) by (simp add: grants_frame_def)
next
  case (user sess user st1)
  have same: "db_users (st_db st1) = db_users (st_db st)" using user(2) by (simp add: grants_frame_def)
  have changed: "db_users (st_db st') \<noteq> db_users (st_db st1)" using assms(2) same by simp
  have csrf: "csrfOK r = None" if "h = handleMFAEnable srv r \<or> h = handleMFADisable srv r"
    using that user(3) changed by (cases "csrfOK r") (auto simp: handleMFAEnable_def handleMFADisable_def)
  have token: "csrf_valid r" if "csrfOK r = None" using that by (simp add: csrfOK_def split: if_splits)
  from assms(3) show ?thesis
  proof (elim disjE)
    assume h: "h = handleMFASetup srv r"
    have off: "\<not> usr_MFAEnabled user" using user(3) changed by (auto simp: h handleMFASetup_def)
    obtain totp enc where g: "GenerateTOTPSecret (Some (rq_rand r ''totp'')) = Some totp" "srv_Encrypt srv (rq_rand r ''nonce'') totp = Some enc"
      using user(3) changed off by (auto simp: h handleMFASetup_def split: option.splits)
    show ?thesis
    proof (cases user False enc r "st_db st1" rule: SetUserMFA_cases)
      case (failed e)
      then show ?thesis using user(3) changed off g by (auto simp: h handleMFASetup_def)
    next
      case stored
      then have "factor_set r user False enc (st_db st1) (st_db st')"
        using user(3) off g by (auto simp: h handleMFASetup_def dest!: renderMFASetup_run)
      then show ?thesis using user(1) off g same h by (auto simp: factor_set_def)
    qed
  next
    assume h: "h = handleMFAEnable srv r"
    obtain secret where s: "srv_Decrypt srv (usr_TOTPSecret user) = Some secret"
      using user(3) changed csrf h by (auto simp: handleMFAEnable_def split: option.splits)
    then have v: "VerifyTOTP secret (PostFormValue r ''code'') (rq_now r)" and run: "run_state (enable_mfa srv r user) st1 = (resp, st')"
      using user(3) changed csrf h by (auto simp: handleMFAEnable_def dest!: renderMFASetup_run split: if_splits)
    have F: "factor_set r user True (usr_TOTPSecret user) (st_db st) (st_db st')" "totp_accepts srv r user (PostFormValue r ''code'')"
      using enable_mfa_users [OF run] changed same s v by (auto simp: factor_set_def totp_accepts_def)
    show ?thesis
      using user(1) h token [OF csrf] F by blast
  next
    assume h: "h = handleMFADisable srv r"
    have v: "VerifyPassword (srv_idkey srv) (PostFormValue r ''password'') (usr_PasswordHash user) = Verdict True"
      using user(3) changed csrf h
      by (auto simp: handleMFADisable_def Let_def dest!: renderAccount_run split: verdict.splits if_splits)
    show ?thesis
    proof (cases user False "[] :: string" r "st_db st1" rule: SetUserMFA_cases)
      case (failed e)
      then show ?thesis using user(3) changed csrf h v by (auto simp: handleMFADisable_def)
    next
      case stored
      have "db_users (st_db st') = db_users (snd (SetUserMFA (usr_ID user) False [] (rq_now r) (st_db st1)))"
        using user(3) csrf h v stored(1)
        by (auto simp: handleMFADisable_def split_beta factor_users dest!: renderAccount_run)
      then show ?thesis using stored(2) user(1) same h token [OF csrf] v by (auto simp: factor_set_def)
    qed
  qed
qed

subsection \<open>Recovery codes\<close>

text \<open>The hashes kept are those of the codes shown, in order, and there are as many as were asked for.\<close>

lemma recovery_loop_hashes:
  "map rc_CodeHash (snd q) = map (\<lambda>c. HashToken (normalizeRecovery srv c)) (fst q) \<Longrightarrow>
   (let out = recovery_loop srv r n i q in
     map rc_CodeHash (snd out) = map (\<lambda>c. HashToken (normalizeRecovery srv c)) (fst out) \<and> length (fst out) = length (fst q) + n
     \<and> ([] \<notin> set (fst q) \<longrightarrow> [] \<notin> set (fst out)))"
proof (induction n arbitrary: i q)
  case 0
  then show ?case by (cases q) simp
next
  case (Suc n)
  obtain plain records where q: "q = (plain, records)" by (cases q)
  define code where "code = grouped_code (RandomHex (rq_rand r (recovery_name i)))"
  have c: "code \<noteq> []" by (simp add: code_def grouped_code_def)
  have "map rc_CodeHash (snd (plain @ [code], records @ [recovery_record srv r i code]))
      = map (\<lambda>c. HashToken (normalizeRecovery srv c)) (fst (plain @ [code], records @ [recovery_record srv r i code]))"
    using Suc.prems q by (simp add: recovery_record_def)
  from Suc.IH [OF this, of "Suc i"] show ?case using q c by (auto simp: Let_def code_def)
qed

lemma recovery_set:
  assumes "newRecoveryCodeSet srv r n = (plain, records)"
  shows "map rc_CodeHash records = map (\<lambda>c. HashToken (normalizeRecovery srv c)) plain" and "length plain = n" and "[] \<notin> set plain"
  using recovery_loop_hashes [of "([], [])" srv r n 0] assms by (simp_all add: newRecoveryCodeSet_def Let_def)

text \<open>A second factor is accepted when the code is a current one or a usable recovery code; using that one kills it.\<close>

lemma second_factor_accepts:
  assumes "\<not> totp_accepts srv r user code" and "code \<noteq> []"
  shows "fst (run_state (verifySecondFactor srv r user code) st) \<longleftrightarrow>
      \<not> fault (st_db st) ''ConsumeRecoveryCode'' \<and> \<not> dead_recovery (usr_ID user, HashToken (normalizeRecovery srv code)) (st_db st)"
    and "fst (run_state (verifySecondFactor srv r user code) st) \<Longrightarrow>
      dead_recovery (usr_ID user, HashToken (normalizeRecovery srv code)) (st_db (snd (run_state (verifySecondFactor srv r user code) st)))"
  using assms
  by (auto simp: verifySecondFactor_def ConsumeRecoveryCode_True dead_recovery_def affected_pos_iff list_all_iff)
     (auto simp: ConsumeRecoveryCode_def raw_stmts using_kills_recovery [unfolded list_all_iff])

text \<open>The codes on the page that answers a successful enrolment.\<close>

lemma enable_mfa_page:
  assumes "run_state (enable_mfa srv r user) st = (Page 200 n vs, st')"
  obtains plain records where "newRecoveryCodeSet srv r recoveryCodeCount = (plain, records)"
    and "filter (\<lambda>kv. fst kv = ''RecoveryCode'') vs = map (Pair ''RecoveryCode'') plain"
    and "\<forall>rc \<in> set records. rc\<lparr>rc_UserID := usr_ID user, rc_Used := False\<rparr> \<in> set (db_recovery_codes (st_db st'))"
proof -
  let ?d1 = "snd (SetUserMFA (usr_ID user) True (usr_TOTPSecret user) (rq_now r) (st_db st))"
  obtain plain records where g: "newRecoveryCodeSet srv r recoveryCodeCount = (plain, records)" by (cases "newRecoveryCodeSet srv r recoveryCodeCount")
  obtain u where m: "fst (SetUserMFA (usr_ID user) True (usr_TOTPSecret user) (rq_now r) (st_db st)) = Inr u"
    using assms by (cases "fst (SetUserMFA (usr_ID user) True (usr_TOTPSecret user) (rq_now r) (st_db st))") (auto simp: enable_mfa_def)
  obtain v where c: "fst (ReplaceRecoveryCodes (usr_ID user) records ?d1) = Inr v"
    using assms g m by (cases "fst (ReplaceRecoveryCodes (usr_ID user) records ?d1)") (auto simp: enable_mfa_def)
  define d2 where "d2 = snd (ReplaceRecoveryCodes (usr_ID user) records ?d1)"
  have d2: "db_recovery_codes d2 = del (\<lambda>c. rc_UserID c = usr_ID user) (db_recovery_codes ?d1)
      @ map (\<lambda>c. c\<lparr>rc_UserID := usr_ID user, rc_Used := False\<rparr>) records"
    using c by (auto simp: d2_def ReplaceRecoveryCodes_def raw_stmts split: if_splits)
  obtain e s where p: "run_state (form_page r 200 ''mfa_enabled'' ((''Me'', usr_ID user) # map (Pair ''RecoveryCode'') plain)) s = (Page 200 n vs, st')"
    and s: "st_db s = snd (AppendAuditEvent e d2)"
    using assms g m c by (auto simp: enable_mfa_def d2_def split_beta)
  have vs: "vs = (''CSRFToken'', fst (CSRFToken (Cookie r csrfCookieName) (rq_rand r ''csrf''))) # (''Me'', usr_ID user) # map (Pair ''RecoveryCode'') plain"
    using arg_cong [OF p, of fst] by (simp add: run_form_page)
  have "st_db st' = st_db s" using form_page_db(1) p by (metis snd_conv)
  then have "db_recovery_codes (st_db st') = db_recovery_codes d2" by (simp add: s AppendAuditEvent_def raw_stmts)
  then show ?thesis using that [OF g] d2 by (simp add: vs filter_map comp_def)
qed

text \<open>C20: The page that answers an enrolment shows ten recovery codes, and each of them works, once: the user of the session
  is let through with it, and after that, whatever statements run in between but another enrolment that draws the same
  code, it is refused. (A code that also passes as the second factor's current one is set apart, and so is a database failure of
  the statement that spends it.)\<close>

theorem recovery_codes_work_once:
  assumes "run_state (requireUser uri (handleMFAEnable srv r) r) st = (Page 200 ''mfa_enabled'' vs, st')"
    and "\<not> fault (st_db st') ''ConsumeRecoveryCode''"
  shows "\<exists>sess user. as_user st r sess user \<and> length (filter (\<lambda>kv. fst kv = ''RecoveryCode'') vs) = 10
    \<and> (\<forall>code r2. (''RecoveryCode'', code) \<in> set vs \<longrightarrow> \<not> totp_accepts srv r2 user code \<longrightarrow>
        (\<exists>st2. run_state (verifySecondFactor srv r2 user code) st' = (True, st2)
          \<and> (\<forall>ops st3 r3. list_all (\<lambda>op. \<not> mints_recovery (usr_ID user, HashToken (normalizeRecovery srv code)) op) ops \<longrightarrow>
               st_db st3 = fold store_step ops (st_db st2) \<longrightarrow> \<not> totp_accepts srv r3 user code \<longrightarrow>
               \<not> fst (run_state (verifySecondFactor srv r3 user code) st3))))"
  using assms(1)
proof (cases rule: requireUser_cases)
  case away
  then show ?thesis by simp
next
  case (user sess user st1)
  have "run_state (enable_mfa srv r user) st1 = (Page 200 ''mfa_enabled'' vs, st')"
    using user(3) run_form_page
    by (auto simp: handleMFAEnable_def csrfOK_def renderMFASetup_def split: if_splits option.splits dest!: arg_cong [where f = fst])
  then obtain plain records where g: "newRecoveryCodeSet srv r recoveryCodeCount = (plain, records)"
    and vs: "filter (\<lambda>kv. fst kv = ''RecoveryCode'') vs = map (Pair ''RecoveryCode'') plain"
    and kept: "\<forall>rc \<in> set records. rc\<lparr>rc_UserID := usr_ID user, rc_Used := False\<rparr> \<in> set (db_recovery_codes (st_db st'))"
    by (rule enable_mfa_page)
  note rs = recovery_set [OF g]
  have works: "\<exists>st2. run_state (verifySecondFactor srv r2 user code) st' = (True, st2)
      \<and> dead_recovery (usr_ID user, HashToken (normalizeRecovery srv code)) (st_db st2)"
    and nonempty: "code \<noteq> []"
    if code: "(''RecoveryCode'', code) \<in> set vs" and no: "\<not> totp_accepts srv r2 user code" for code r2
  proof -
    have "(''RecoveryCode'', code) \<in> set (filter (\<lambda>kv. fst kv = ''RecoveryCode'') vs)" using code by simp
    then have pl: "code \<in> set plain" unfolding vs by auto
    then show ne: "code \<noteq> []" using rs(3) by blast
    have "HashToken (normalizeRecovery srv code) \<in> rc_CodeHash ` set records" using pl rs(1) by (metis image_eqI image_set)
    then obtain rc where "rc \<in> set records" "rc_CodeHash rc = HashToken (normalizeRecovery srv code)" by auto
    then have "\<not> dead_recovery (usr_ID user, HashToken (normalizeRecovery srv code)) (st_db st')"
      using kept by (fastforce simp: dead_recovery_def list_all_iff rc_usable_def)
    then show "\<exists>st2. run_state (verifySecondFactor srv r2 user code) st' = (True, st2)
        \<and> dead_recovery (usr_ID user, HashToken (normalizeRecovery srv code)) (st_db st2)"
      using second_factor_accepts [OF no ne, of st'] assms(2) by (metis prod.collapse)
  qed
  have refused: "\<not> fst (run_state (verifySecondFactor srv r3 user code) st3)"
    if "dead_recovery (usr_ID user, HashToken (normalizeRecovery srv code)) (st_db st2)"
      "list_all (\<lambda>op. \<not> mints_recovery (usr_ID user, HashToken (normalizeRecovery srv code)) op) ops"
      "st_db st3 = fold store_step ops (st_db st2)" "\<not> totp_accepts srv r3 user code" "code \<noteq> []" for code ops st2 st3 r3
    using second_factor_accepts(1) [OF that(4,5)] recovery_code.dead_run [OF that(1), of ops] that(2,3) by (simp add: list_all_iff)
  have "length (filter (\<lambda>kv. fst kv = ''RecoveryCode'') vs) = 10" using rs(2) by (simp add: vs recoveryCodeCount_def)
  then show ?thesis
    using user(1) works nonempty refused by (intro exI [of _ sess] exI [of _ user]) blast
qed

text \<open>An account without a local password, as those of a directory, cannot turn the second factor off.\<close>

lemma directory_factor_sticks:
  assumes "usr_PasswordHash user = []" and "run_state (handleMFADisable srv r user sess) st = (resp, st')"
  shows "st_db st' = st_db st"
proof -
  have "VerifyPassword (srv_idkey srv) p [] = Malformed" for p
    by (simp add: VerifyPassword_def decodeHash_def split_on.simps)
  then show ?thesis using assms by (auto simp: handleMFADisable_def dest!: renderAccount_run split: option.splits)
qed

end
