(* ===== verification/AccountSamples.thy ===== *)
theory AccountSamples
  imports SignInSamples AccountFacts
begin

text \<open>
  Requests in which the hypotheses of the properties of the account pages hold: Alice, signed in, changes her
  password, sets up a second factor and confirms it.
\<close>

definition enc_server :: server where
  "enc_server = plain_server\<lparr>srv_Encrypt := \<lambda>_ s. Some s, srv_Decrypt := \<lambda>s. Some s\<rparr>"

text \<open>What the guard does of Alice's session.\<close>

lemma sample_guard:
  assumes "db_sessions (st_db st) = [alice_session]" and "db_faults (st_db st) = []" and "st_settings st = sample_view"
    and "db_users (st_db st) = [user, bob]" and "usr_ID user = ''u1''" and "\<not> usr_Disabled user"
  shows "run_state (requireUser uri h (page_request qs ps)) st =
    run_state (h user (alice_session\<lparr>ses_LastSeenAt := 100\<rparr>)) (st\<lparr>st_db := snd (TouchSession ''s1'' 100 (st_db st))\<rparr>)"
  using assms
  by (simp add: requireUser_def sample_Current alice_session_def GetUserByID_def query_def sel1_def fault_def)

lemma row_written:
  assumes "db_users d = [user, bob]" and "usr_ID user = ''u1''" and "db_faults d = []"
  shows "fst (update_users n ''u1'' f d) = Inr ()" and "db_users (snd (update_users n ''u1'' f d)) = [f user, bob]"
  using assms by (auto simp: update_users_def raw_stmts affected_def requireRow_def fault_def) (simp_all add: bob_def)

definition change_request :: request where
  "change_request = page_request [] [(''current_password'', sample_password), (''new_password'', sample_password)]"

theorem account_password_sound_witness:
  "\<exists>sess user hash. as_user (sample_state login_db) change_request sess user \<and> IsLocal user
     \<and> HashPassword (srv_idkey plain_server) (Some (replicate 16 CHR ''r'')) sample_password = Some hash"
proof -
  let ?u = "alice\<lparr>usr_PasswordHash := sample_hash\<rparr>" and ?s = "alice_session\<lparr>ses_LastSeenAt := 100\<rparr>"
  let ?st = "(sample_state login_db)\<lparr>st_db := snd (TouchSession ''s1'' 100 login_db)\<rparr>"
  obtain h where h: "HashPassword (srv_idkey plain_server) (Some (replicate 16 CHR ''r'')) sample_password = Some h" using sample_stored by blast
  obtain resp st' where run: "run_state (requireUser [] (handleAccountPassword plain_server change_request) change_request) (sample_state login_db) = (resp, st')"
    by fastforce
  have r: "csrfOK change_request = None" "PostFormValue change_request ''current_password'' = sample_password" "rq_now change_request = 100"
    "PostFormValue change_request ''new_password'' = sample_password" "rq_rand change_request n = replicate 16 CHR ''r''" for n
    by (simp_all add: change_request_def)
  have a: "IsLocal ?u" "usr_Username alice = ''alice''" "usr_Email alice = ''alice@example.org''" "usr_UpdatedAt alice = 1"
    by (simp_all add: alice_def IsLocal_def)
  have d: "db_users (snd (TouchSession ''s1'' 100 login_db)) = [?u, bob]" "db_faults (snd (TouchSession ''s1'' 100 login_db)) = []" by simp_all
  have g: "run_state (requireUser [] h change_request) (sample_state login_db) = run_state (h ?u ?s) ?st" for h
    unfolding change_request_def by (subst sample_guard [of _ ?u]) simp_all
  have p: "ValidatePassword (srv_unicode plain_server) sample_password (usr_Username ?u) (usr_Email ?u) (view_PasswordPolicy (st_settings ?st)) = []"
    using sample_policy_ok a by simp
  have v: "VerifyPassword (srv_idkey plain_server) sample_password (usr_PasswordHash ?u) = Verdict True"
    using sample_verify by simp
  have "run_state (handleAccountPassword plain_server change_request ?u ?s) ?st = run_state (change_password plain_server change_request ?u ?s sample_password) ?st"
    unfolding handleAccountPassword_def Let_def r v using p a(1) by simp
  then have "run_state (change_password plain_server change_request ?u ?s sample_password) ?st = (resp, st')"
    using run g by simp
  then have "db_users (st_db st') = [?u\<lparr>usr_PasswordHash := h, usr_UpdatedAt := 100\<rparr>, bob]"
    using row_written [OF d(1) _ d(2)]
    by (auto simp: change_password_def r h SetUserPassword_def AppendAuditEvent_def DeleteSessionsForUser_def raw_stmts Let_def split_beta
        dest!: renderAccount_run)
  then have "db_users (st_db st') \<noteq> db_users (st_db (sample_state login_db))" using a by (auto dest!: arg_cong [where f = usr_UpdatedAt])
  from account_password_sound [OF run this] h show ?thesis by (simp only: r) blast
qed

definition setup_factor_request :: request where
  "setup_factor_request = page_request [] []"

theorem second_factor_sound_witness:
  "\<exists>sess user on secret. as_user (sample_state sample_db) setup_factor_request sess user
     \<and> factor_set setup_factor_request user on secret sample_db
         (st_db (snd (run_state (requireUser [] (handleMFASetup enc_server setup_factor_request) setup_factor_request) (sample_state sample_db))))"
proof -
  let ?s = "alice_session\<lparr>ses_LastSeenAt := 100\<rparr>"
  let ?st = "(sample_state sample_db)\<lparr>st_db := snd (TouchSession ''s1'' 100 sample_db)\<rparr>"
  obtain resp st' where run: "run_state (requireUser [] (handleMFASetup enc_server setup_factor_request) setup_factor_request) (sample_state sample_db) = (resp, st')"
    by fastforce
  have d: "db_users (snd (TouchSession ''s1'' 100 sample_db)) = [alice, bob]" "db_faults (snd (TouchSession ''s1'' 100 sample_db)) = []"
    by (simp_all add: sample_db_def)
  have a: "usr_UpdatedAt alice = 1" by (simp add: alice_def)
  have r: "rq_rand setup_factor_request n = replicate 16 CHR ''r''" "rq_now setup_factor_request = 100" for n
    by (simp_all add: setup_factor_request_def)
  have g: "run_state (requireUser [] h setup_factor_request) (sample_state sample_db) = run_state (h alice ?s) ?st" for h
    unfolding setup_factor_request_def by (subst sample_guard [of _ alice]) (simp_all add: sample_db_def)
  have "db_users (st_db st') = [alice\<lparr>usr_MFAEnabled := False, usr_TOTPSecret := b32_encode (replicate 16 CHR ''r''), usr_UpdatedAt := 100\<rparr>, bob]"
    using run [unfolded g] row_written [OF d(1) _ d(2)]
    by (auto simp: handleMFASetup_def r GenerateTOTPSecret_def enc_server_def SetUserMFA_def split_beta dest!: renderMFASetup_run)
  then have "db_users (st_db st') \<noteq> db_users (st_db (sample_state sample_db))" using a
    by (auto simp: sample_db_def dest!: arg_cong [where f = usr_UpdatedAt])
  from second_factor_sound [OF run this, of enc_server] run show ?thesis by (simp only: sample_state_simps snd_conv) blast
qed

text \<open>Every key has a code at every time.\<close>

lemma code_exists:
  obtains c where "length c = 6" "VerifyTOTP (b32_encode rnd) c t"
proof -
  obtain c where c: "hotp rnd (uint64 (int (uint64 (Unix t) div 30) + 0)) = Some c" "length c = totpDigits" "list_all is_digit c"
    using hotp_total by blast
  have "TrimSpace c = c"
    using c(3) by (intro TrimSpace_no_space) (auto simp: ascii_def list_all_iff is_digit_def IsSpace_def)
  then have "VerifyTOTP (b32_encode rnd) c t"
    using c by (auto simp: VerifyTOTP_def Let_def normalizeSecret_generated b32_roundtrip try_steps_iff totpSkew_def intro!: bexI [of _ 0])
  then show ?thesis using that [of c] c(2) by (simp add: totpDigits_def)
qed

definition sample_secret :: string where "sample_secret = b32_encode ''12345678901234567890''"

definition enroll_db :: db where
  "enroll_db = sample_db\<lparr>db_users := [alice\<lparr>usr_TOTPSecret := sample_secret\<rparr>, bob]\<rparr>"

definition enable_request :: "string \<Rightarrow> request" where
  "enable_request c = page_request [] [(''code'', c)]"

lemma sample_secret_not_Nil: "sample_secret \<noteq> []"
  unfolding sample_secret_def by code_simp

lemma sample_records:
  "uniq_on rc_ID (map (\<lambda>rc. rc\<lparr>rc_UserID := u, rc_Used := False\<rparr>) (snd (newRecoveryCodeSet srv (enable_request c) 10)))"
  by (simp add: newRecoveryCodeSet_def eval_nat_numeral recovery_record_def enable_request_def recovery_name_def itoa.simps Let_def) code_simp

theorem recovery_codes_work_once_witness:
  "\<exists>c sess user vs st'. run_state (requireUser [] (handleMFAEnable enc_server (enable_request c)) (enable_request c)) (sample_state enroll_db)
       = (Page 200 ''mfa_enabled'' vs, st')
     \<and> as_user (sample_state enroll_db) (enable_request c) sess user \<and> length (filter (\<lambda>kv. fst kv = ''RecoveryCode'') vs) = 10"
proof -
  obtain c where c: "VerifyTOTP sample_secret c 100" unfolding sample_secret_def by (rule code_exists)
  let ?r = "enable_request c" and ?u = "alice\<lparr>usr_TOTPSecret := sample_secret\<rparr>" and ?s = "alice_session\<lparr>ses_LastSeenAt := 100\<rparr>"
  let ?st = "(sample_state enroll_db)\<lparr>st_db := snd (TouchSession ''s1'' 100 enroll_db)\<rparr>"
  have g: "run_state (requireUser [] h ?r) (sample_state enroll_db) = run_state (h ?u ?s) ?st" for h
    unfolding enable_request_def by (subst sample_guard [of _ ?u]) (simp_all add: enroll_db_def sample_db_def)
  have r: "csrfOK ?r = None" "PostFormValue ?r ''code'' = c" "rq_now ?r = 100" by (simp_all add: enable_request_def)
  have e: "run_state (handleMFAEnable enc_server ?r ?u ?s) ?st = run_state (enable_mfa enc_server ?r ?u) ?st"
    using c sample_secret_not_Nil by (simp add: handleMFAEnable_def r enc_server_def)
  have d: "db_users (st_db ?st) = [?u, bob]" "db_faults (st_db ?st) = []" by (simp_all add: enroll_db_def sample_db_def)
  obtain plain records where n: "newRecoveryCodeSet enc_server ?r recoveryCodeCount = (plain, records)"
    by (cases "newRecoveryCodeSet enc_server ?r recoveryCodeCount")
  let ?d1 = "snd (SetUserMFA ''u1'' True sample_secret 100 (st_db ?st))"
  have m: "fst (SetUserMFA ''u1'' True sample_secret 100 (st_db ?st)) = Inr ()" "fk_user ?d1 ''u1''"
    "db_recovery_codes ?d1 = [alice_recovery]" "db_faults ?d1 = []"
    using row_written [OF d(1) _ d(2)]
    by (simp_all add: SetUserMFA_def fk_user_def) (simp_all add: update_users_def raw_stmts enroll_db_def sample_db_def TouchSession_def)
  have "fst (ReplaceRecoveryCodes ''u1'' records ?d1) = Inr ()"
    using m sample_records [of "''u1''" enc_server c] n
    by (auto simp: ReplaceRecoveryCodes_def raw_stmts recovery_codes_ok_def fault_def recoveryCodeCount_def alice_recovery_def list_all_iff fk_user_def)
  then obtain vs st' where "run_state (enable_mfa enc_server ?r ?u) ?st = (Page 200 ''mfa_enabled'' vs, st')"
    and f: "db_faults (st_db st') = []"
    using m n run_form_page form_page_db
    by (auto simp: enable_mfa_def r split_beta prod_eq_iff AppendAuditEvent_def ReplaceRecoveryCodes_def raw_stmts fault_def)
  then have run: "run_state (requireUser [] (handleMFAEnable enc_server ?r) ?r) (sample_state enroll_db) = (Page 200 ''mfa_enabled'' vs, st')"
    using g e by simp
  have "\<not> fault (st_db st') ''ConsumeRecoveryCode''" using f by (simp add: fault_def)
  from recovery_codes_work_once [OF run this] run show ?thesis by blast
qed

end
