(* ===== verification/DeviceFlow.thy ===== *)
theory DeviceFlow
  imports Account
begin

text \<open>
  The device authorization grant but for its redemption (\<open>device_grant_handler.go\<close>): the request of a device for a
  pair of codes, and the pages on which a signed-in user types the short one, sees what it stands for, and
  approves or denies it. The poll of the device is in the token endpoint.
\<close>

definition deviceCodeMaxAttempts :: int where "deviceCodeMaxAttempts = 10"
definition deviceGrantMaxPerWindow :: int where "deviceGrantMaxPerWindow = 60"
definition userCodeAlphabet :: string where "userCodeAlphabet = ''BCDFGHJKLMNPQRSTVWXZ''"
definition userCodeLength :: nat where "userCodeLength = 8"
definition maxDeviceNameLength :: nat where "maxDeviceNameLength = 64"
definition maxDevicePlatformField :: nat where "maxDevicePlatformField = 32"

definition evtDeviceGrantRequested :: string where "evtDeviceGrantRequested = ''device.grant.requested''"
definition evtDeviceEnrollStarted :: string where "evtDeviceEnrollStarted = ''device.enrollment.started''"
definition evtDeviceEnrollDenied :: string where "evtDeviceEnrollDenied = ''device.enrollment.denied''"
definition evtDeviceLoginApproved :: string where "evtDeviceLoginApproved = ''device.login.approved''"
definition evtDeviceLoginDenied :: string where "evtDeviceLoginDenied = ''device.login.denied''"

subsection \<open>Codes\<close>

definition newUserCode :: "string \<Rightarrow> string" where
  "newUserCode rnd = map (\<lambda>b. userCodeAlphabet ! (byte b mod length userCodeAlphabet)) rnd"

text \<open>Upper case, letters only. The two code points above ASCII whose upper case is an ASCII letter are the dotless i
  and the long s; all others are dropped whatever their case.\<close>

definition upper_letter :: "nat \<Rightarrow> string" where
  "upper_letter c = (if 65 \<le> c \<and> c \<le> 90 then [char_of c]
     else if 97 \<le> c \<and> c \<le> 122 then [char_of (c - 32)]
     else if c = 0x131 then ''I'' else if c = 0x17F then ''S'' else [])"

definition normalizeUserCode :: "string \<Rightarrow> string" where
  "normalizeUserCode s = concat (map (\<lambda>x. upper_letter (fst x)) (runes s))"

definition formatUserCode :: "string \<Rightarrow> string" where
  "formatUserCode code = (if length code \<noteq> userCodeLength then code else take 4 code @ ''-'' @ drop 4 code)"

definition truncate_bytes :: "string \<Rightarrow> nat \<Rightarrow> string" where
  "truncate_bytes s n = (if length s \<le> n then s else take n s)"

subsection \<open>The request of the device\<close>

definition new_device_code :: "request \<Rightarrow> Client \<Rightarrow> string \<Rightarrow> Device option \<Rightarrow> DeviceCode" where
  "new_device_code r client scope dev = \<lparr>dc_ID = rq_uuid r ''devicecode'', dc_DeviceCodeHash = HashToken (RandomToken (rq_rand r ''devicecode'')),
     dc_UserCode = [], dc_ClientID = cl_ClientID client, dc_Scope = scope,
     dc_DeviceID = (case dev of None \<Rightarrow> [] | Some v \<Rightarrow> dev_ID v),
     dc_DeviceName = (case dev of None \<Rightarrow> truncate_bytes (TrimSpace (PostFormValue r ''device_name'')) maxDeviceNameLength | Some v \<Rightarrow> dev_Name v),
     dc_DevicePlatform = (case dev of None \<Rightarrow> truncate_bytes (TrimSpace (PostFormValue r ''device_platform'')) maxDevicePlatformField
        | Some v \<Rightarrow> dev_Platform v),
     dc_Status = DeviceCodePending, dc_UserID = [], dc_AMR = [], dc_AuthTime = 0, dc_LastPolledAt = 0,
     dc_CreatedAt = rq_now r, dc_ExpiresAt = rq_now r + deviceCodeTTL\<rparr>"

text \<open>The insertion is tried again with another user code, at most \<open>n\<close> times; the result is the code that was stored.\<close>

definition usercode_name :: "nat \<Rightarrow> string" where "usercode_name i = ''usercode/'' @ itoa i"

fun create_device_code :: "request \<Rightarrow> DeviceCode \<Rightarrow> nat \<Rightarrow> nat \<Rightarrow> DeviceCode option prog" where
  "create_device_code r dc 0 i = done_with None"
| "create_device_code r dc (Suc n) i = do {
     let c = dc\<lparr>dc_UserCode := newUserCode (rq_rand r (usercode_name i))\<rparr>;
     res \<leftarrow> stmt (CreateDeviceCode c);
     (case res of Inr _ \<Rightarrow> done_with (Some c) | Inl _ \<Rightarrow> create_device_code r dc n (Suc i)) }"

definition start_device_grant :: "request \<Rightarrow> Client \<Rightarrow> string \<Rightarrow> Device option \<Rightarrow> response prog" where
  "start_device_grant r client scope dev = do {
     made \<leftarrow> create_device_code r (new_device_code r client scope dev) 3 0;
     (case made of
        None \<Rightarrow> done_with (oauthError 500 ''server_error'' ''could not start device authorization'')
      | Some dc \<Rightarrow> do {
          _ \<leftarrow> audit r evtDeviceGrantRequested (entry0\<lparr>ae_clientID := cl_ClientID client, ae_success := True,
            ae_detail := ''scope='' @ scope @ (case dev of None \<Rightarrow> [] | Some v \<Rightarrow> '' device='' @ dev_ID v)\<rparr>);
          _ \<leftarrow> recordDeviceGrant ''requested'';
          cur \<leftarrow> settings_Current;
          let base = TrimRight CHR ''/'' (sv_PublicURL cur);
          done_with (Json 200 [member ''device_code'' (RandomToken (rq_rand r ''devicecode'')), member ''user_code'' (formatUserCode (dc_UserCode dc)),
            member ''verification_uri'' (base @ ''/device''),
            member ''verification_uri_complete'' (base @ ''/device?user_code='' @ formatUserCode (dc_UserCode dc)),
            (''expires_in'', jint (whole_seconds deviceCodeTTL)), (''interval'', jint deviceCodeInterval)]) }) }"

definition handleDeviceAuthorization :: "server \<Rightarrow> request \<Rightarrow> response prog" where
  "handleDeviceAuthorization srv r = (if \<not> rq_FormOK r then done_with (oauthError 400 ''invalid_request'' ''malformed request body'') else do {
     who \<leftarrow> authenticateClient r;
     (case who of None \<Rightarrow> done_with oauthClientAuthError | Some client \<Rightarrow> do {
     policy \<leftarrow> settings_Current;
     allowed \<leftarrow> rate_Allowed deviceGrantRate r (clientIP r) deviceGrantMaxPerWindow (sv_RateLimitWindow policy);
     (if \<not> allowed then done_with (oauthError 429 ''slow_down'' ''too many device authorization requests from this address'') else do {
     _ \<leftarrow> rate_Fail deviceGrantRate r (clientIP r) (sv_RateLimitWindow policy);
     let asked = TrimSpace (PostFormValue r ''scope'');
     let scope = (if asked = [] then ScopeOpenID else asked);
     (if \<not> ScopesSubset (SplitScope scope) (cl_AllowedScopes client) then
        done_with (oauthError 400 ''invalid_scope'' ''requested scope is not allowed for this client'')
      else if rq_Authorization r \<noteq> [] then do {
        v \<leftarrow> authenticateDeviceRequest srv r None;
        (case v of
           Inl _ \<Rightarrow> done_with (oauthError 401 ''invalid_token'' ''device authentication failed'')
         | Inr dev \<Rightarrow> start_device_grant r client scope (Some dev)) }
      else start_device_grant r client scope None) }) }) })"

subsection \<open>The pages\<close>

definition renderDevice :: "request \<Rightarrow> User \<Rightarrow> int \<Rightarrow> string \<Rightarrow> (string \<times> string) list \<Rightarrow> response prog" where
  "renderDevice r user status stage vs = form_page r status ''device'' ([(''Me'', usr_ID user), (''Stage'', stage)] @ vs)"

definition handleDeviceForm :: "request \<Rightarrow> User \<Rightarrow> Session \<Rightarrow> response prog" where
  "handleDeviceForm r user sess = renderDevice r user 200 ''enter''
     [(''UserCode'', formatUserCode (normalizeUserCode (QueryGet r ''user_code'')))]"

text \<open>The pending grant a typed code stands for, or the page that says it stands for none; only codes that are not
  recognized count against the address's budget.\<close>

definition lookupUserCode :: "request \<Rightarrow> User \<Rightarrow> (response + DeviceCode) prog" where
  "lookupUserCode r user = do {
     policy \<leftarrow> settings_Current;
     allowed \<leftarrow> rate_Allowed deviceCodeRate r (clientIP r) deviceCodeMaxAttempts (sv_RateLimitWindow policy);
     (if \<not> allowed then do {
        resp \<leftarrow> renderDevice r user 429 ''enter'' [(''Error'', ''Too many attempts. Please wait a few minutes and try again.'')];
        done_with (Inl resp) }
      else do {
        let code = normalizeUserCode (PostFormValue r ''user_code'');
        found \<leftarrow> ask (GetPendingDeviceCodeByUserCode code (rq_now r));
        (case found of
           Inl e \<Rightarrow> do {
             _ \<leftarrow> rate_Fail deviceCodeRate r (clientIP r) (sv_RateLimitWindow policy);
             resp \<leftarrow> renderDevice r user 400 ''enter''
               [(''Error'', if e = ErrNotFound \<and> code \<noteq> [] then ''That code is invalid, expired, or already used. Start again on the device.''
                  else ''That code was not recognized. Check it and try again.''), (''UserCode'', formatUserCode code)];
             done_with (Inl resp) }
         | Inr dc \<Rightarrow> done_with (Inr dc)) }) }"

definition pageForGrant :: "User \<Rightarrow> DeviceCode \<Rightarrow> db \<Rightarrow> (string \<times> string) list" where
  "pageForGrant user dc d =
     [(''UserCode'', formatUserCode (dc_UserCode dc)),
      (''AppName'', case GetClient (dc_ClientID dc) d of Inr c \<Rightarrow> Label c | Inl _ \<Rightarrow> dc_ClientID dc)]
     @ (if HasScope (dc_Scope dc) ScopeDeviceEnroll then [(''Enroll'', ''true'')] else [])
     @ (if dc_DeviceID dc = [] then [(''DeviceName'', dc_DeviceName dc), (''DevicePlatform'', dc_DevicePlatform dc)]
        else (''Enrolled'', ''true'') # (case GetDevice (dc_DeviceID dc) d of
            Inl _ \<Rightarrow> [(''DeviceName'', dc_DeviceName dc), (''DevicePlatform'', dc_DevicePlatform dc)]
          | Inr dev \<Rightarrow> [(''DeviceName'', dev_Name dev), (''DevicePlatform'', dev_Platform dev)]
              @ (if dev_OwnerOnly dev then [(''OwnerOnly'', ''true'')] else [])
              @ (case GetUserByID (dev_OwnerUserID dev) d of Inl _ \<Rightarrow> []
                 | Inr owner \<Rightarrow> (''OwnerName'', usr_Username owner) # (if usr_ID user = usr_ID owner then [(''OwnerIsMe'', ''true'')] else []))))"

definition handleDeviceLookup :: "request \<Rightarrow> User \<Rightarrow> Session \<Rightarrow> response prog" where
  "handleDeviceLookup r user sess = (case csrfOK r of Some resp \<Rightarrow> done_with resp | None \<Rightarrow> do {
     found \<leftarrow> lookupUserCode r user;
     (case found of
        Inl resp \<Rightarrow> done_with resp
      | Inr dc \<Rightarrow> do { vs \<leftarrow> ask (pageForGrant user dc); renderDevice r user 200 ''confirm'' vs }) })"

definition grant_entry :: "User \<Rightarrow> DeviceCode \<Rightarrow> string \<Rightarrow> bool \<Rightarrow> auditEntry" where
  "grant_entry user dc suffix ok = \<lparr>ae_actorUserID = usr_ID user, ae_username = usr_Username user, ae_clientID = dc_ClientID dc, ae_success = ok,
     ae_detail = ''device_code='' @ dc_ID dc @ (if dc_DeviceID dc = [] then [] else '' device='' @ dc_DeviceID dc) @ suffix\<rparr>"

definition deny_owner_only :: "request \<Rightarrow> User \<Rightarrow> DeviceCode \<Rightarrow> response prog" where
  "deny_owner_only r user dc = do {
     _ \<leftarrow> stmt (DenyDeviceCode (dc_ID dc));
     _ \<leftarrow> audit r evtDeviceLoginDenied (grant_entry user dc '' owner_only'' False);
     _ \<leftarrow> recordDeviceGrant ''denied'';
     renderDevice r user 403 ''done'' [(''Message'', ''This device only allows its owner to sign in. The request was denied.'')] }"

definition deny_grant :: "request \<Rightarrow> User \<Rightarrow> DeviceCode \<Rightarrow> response prog" where
  "deny_grant r user dc = do {
     _ \<leftarrow> stmt (DenyDeviceCode (dc_ID dc));
     _ \<leftarrow> (if HasScope (dc_Scope dc) ScopeDeviceEnroll then recordDeviceEnrollment ''denied'' else done_with ());
     _ \<leftarrow> recordDeviceGrant ''denied'';
     _ \<leftarrow> audit r (if HasScope (dc_Scope dc) ScopeDeviceEnroll then evtDeviceEnrollDenied else evtDeviceLoginDenied) (grant_entry user dc [] False);
     renderDevice r user 200 ''done'' [(''Message'', ''Request denied. You can close this page.'')] }"

text \<open>The message has a dash in UTF-8.\<close>

definition approved_message :: string where
  "approved_message = ''Approved. You can return to the device '' @ [CHR 0xE2, CHR 0x80, CHR 0x94] @ '' it will finish signing in on its own.''"

definition approve_grant :: "request \<Rightarrow> User \<Rightarrow> Session \<Rightarrow> DeviceCode \<Rightarrow> response prog" where
  "approve_grant r user sess dc = do {
     res \<leftarrow> stmt (ApproveDeviceCode (dc_ID dc) (usr_ID user) (ses_AMR sess)
       (if IsZero (ses_CreatedAt sess) then rq_now r else ses_CreatedAt sess));
     (case res of
        Inl _ \<Rightarrow> renderDevice r user 400 ''enter'' [(''Error'', ''That code is no longer pending. Start again on the device.'')]
      | Inr _ \<Rightarrow> do {
          _ \<leftarrow> recordDeviceGrant ''approved'';
          _ \<leftarrow> audit r (if HasScope (dc_Scope dc) ScopeDeviceEnroll then evtDeviceEnrollStarted else evtDeviceLoginApproved) (grant_entry user dc [] True);
          renderDevice r user 200 ''done'' [(''Message'', if HasScope (dc_Scope dc) ScopeDeviceEnroll then
              ''Approved. Return to the device to finish enrolling it. It will appear under My Devices once done.''
            else approved_message)] }) }"

definition handleDeviceConfirm :: "request \<Rightarrow> User \<Rightarrow> Session \<Rightarrow> response prog" where
  "handleDeviceConfirm r user sess = (case csrfOK r of Some resp \<Rightarrow> done_with resp | None \<Rightarrow> do {
     found \<leftarrow> lookupUserCode r user;
     (case found of Inl resp \<Rightarrow> done_with resp | Inr dc \<Rightarrow> do {
     dev \<leftarrow> ask (GetDevice (dc_DeviceID dc));
     (if dc_DeviceID dc \<noteq> [] \<and> (case dev of Inl _ \<Rightarrow> False | Inr v \<Rightarrow> dev_OwnerOnly v \<and> dev_OwnerUserID v \<noteq> usr_ID user)
      then deny_owner_only r user dc
      else if PostFormValue r ''action'' \<noteq> ''allow'' then deny_grant r user dc
      else approve_grant r user sess dc) }) })"

end
