(* ===== verification/DeviceFlowFacts.thy ===== *)
theory DeviceFlowFacts
  imports DeviceFlow AccountFacts
begin

text \<open>
  What the device authorization grant promises: that a user code survives being typed, that starting a grant takes
  a bounded number of attempts, who may approve one, and that the whole flow ends in tokens for the user who did.
\<close>

subsection \<open>User codes\<close>

definition letter :: "char \<Rightarrow> bool" where "letter c \<longleftrightarrow> 65 \<le> byte c \<and> byte c \<le> 90"

lemma alphabet_letter: "c \<in> set userCodeAlphabet \<Longrightarrow> letter c"
  by (auto simp: userCodeAlphabet_def letter_def)

lemma newUserCode_alphabet: "set (newUserCode rnd) \<subseteq> set userCodeAlphabet"
proof -
  have "0 < length userCodeAlphabet" by (simp add: userCodeAlphabet_def)
  then show ?thesis by (auto simp: newUserCode_def)
qed

text \<open>Of ASCII text the normal form is its letters in upper case.\<close>

lemma upper_letter_char: "byte c < 128 \<Longrightarrow> upper_letter (byte c) = (if letter (upper_char c) then [upper_char c] else [])"
  by (auto simp: upper_letter_def letter_def upper_char_def)

lemma normalize_ascii: "ascii s \<Longrightarrow> normalizeUserCode s = filter letter (map upper_char s)"
proof -
  have "list_all (\<lambda>c. byte c < 128) s \<Longrightarrow> concat (map (\<lambda>c. upper_letter (byte c)) s) = filter letter (map upper_char s)"
    by (induction s) (simp_all add: upper_letter_char)
  then show "ascii s \<Longrightarrow> normalizeUserCode s = filter letter (map upper_char s)"
    by (simp add: normalizeUserCode_def runes_ascii comp_def ascii_def)
qed

lemma letter_upper: "letter c \<Longrightarrow> upper_char c = c \<and> byte c < 128"
  by (auto simp: letter_def upper_char_def)

lemma normalize_letters: "list_all letter s \<Longrightarrow> ascii s \<and> filter letter (map upper_char s) = s"
  by (induction s) (auto simp: ascii_def letter_upper)

lemma newUserCode_letters: "list_all letter (newUserCode rnd)"
  using newUserCode_alphabet alphabet_letter by (auto simp: list_all_iff)

lemma shown_code: "length rnd = userCodeLength \<Longrightarrow> formatUserCode (newUserCode rnd) = take 4 (newUserCode rnd) @ ''-'' @ drop 4 (newUserCode rnd)"
  by (simp add: formatUserCode_def newUserCode_def)

lemma shown_code_read_back:
  assumes "length rnd = userCodeLength"
  shows "normalizeUserCode (formatUserCode (newUserCode rnd)) = newUserCode rnd"
proof -
  define a b where "a = take 4 (newUserCode rnd)" and "b = drop 4 (newUserCode rnd)"
  have ab: "a @ b = newUserCode rnd" "formatUserCode (newUserCode rnd) = a @ ''-'' @ b"
    using shown_code [OF assms] by (simp_all add: a_def b_def)
  have "list_all letter a" "list_all letter b"
    using newUserCode_letters by (auto simp: a_def b_def list_all_iff dest: in_set_takeD in_set_dropD)
  note parts = normalize_letters [OF this(1)] normalize_letters [OF this(2)]
  have dash: "\<not> letter (upper_char CHR ''-'')" "byte CHR ''-'' < 128" by (simp_all add: letter_def upper_char_def)
  have "ascii (a @ ''-'' @ b)" using parts dash(2) by (simp add: ascii_def)
  then have "normalizeUserCode (a @ ''-'' @ b) = a @ b" using parts dash(1) by (simp add: normalize_ascii)
  then show ?thesis using ab by simp
qed

text \<open>A user code is eight letters of an alphabet of twenty, shown in two groups of four; it is read back from what is
  shown, and from whatever a user types that has the same letters in the same order, in either case and with anything
  but letters between them.\<close>

theorem user_code_roundtrip:
  assumes "length rnd = userCodeLength" and "ascii typed" and "filter letter (map upper_char typed) = newUserCode rnd"
  shows "length (newUserCode rnd) = 8 \<and> set (newUserCode rnd) \<subseteq> set ''BCDFGHJKLMNPQRSTVWXZ''
    \<and> formatUserCode (newUserCode rnd) = take 4 (newUserCode rnd) @ ''-'' @ drop 4 (newUserCode rnd)
    \<and> normalizeUserCode (formatUserCode (newUserCode rnd)) = newUserCode rnd
    \<and> normalizeUserCode typed = newUserCode rnd"
  using assms shown_code [OF assms(1)] shown_code_read_back [OF assms(1)] newUserCode_alphabet [of rnd]
  by (simp add: normalize_ascii) (simp add: newUserCode_def userCodeLength_def userCodeAlphabet_def)

theorem user_code_roundtrip_witness:
  "normalizeUserCode ''bbbb cccc'' = newUserCode (replicate 4 (CHR 0x00) @ replicate 4 (CHR 0x01))"
proof -
  have "newUserCode (replicate 4 (CHR 0x00) @ replicate 4 (CHR 0x01)) = ''BBBBCCCC''"
    by code_simp
  moreover have "filter letter (map upper_char ''bbbb cccc'') = ''BBBBCCCC''" "ascii ''bbbb cccc''" by code_simp+
  ultimately show ?thesis
    using user_code_roundtrip [of "replicate 4 (CHR 0x00) @ replicate 4 (CHR 0x01)" "''bbbb cccc''"] by (simp add: userCodeLength_def)
qed

subsection \<open>Starting a grant\<close>

definition with_user_code :: "request \<Rightarrow> DeviceCode \<Rightarrow> nat \<Rightarrow> DeviceCode" where
  "with_user_code r dc i = dc\<lparr>dc_UserCode := newUserCode (rq_rand r (usercode_name i))\<rparr>"

lemma CreateDeviceCode_failed: "fst (CreateDeviceCode c d) = Inl e \<Longrightarrow> snd (CreateDeviceCode c d) = d"
  by (auto simp: CreateDeviceCode_def raw_stmts split: if_splits)

lemma create_device_code_run:
  assumes "run_state (create_device_code r dc n i) st = (made, st')"
  shows "(\<exists>k<n. made = Some (with_user_code r dc (i + k))
        \<and> (\<forall>j<k. \<exists>e. fst (CreateDeviceCode (with_user_code r dc (i + j)) (st_db st)) = Inl e)
        \<and> fst (CreateDeviceCode (with_user_code r dc (i + k)) (st_db st)) = Inr ()
        \<and> st' = st\<lparr>st_db := snd (CreateDeviceCode (with_user_code r dc (i + k)) (st_db st))\<rparr>)
    \<or> made = None \<and> st' = st \<and> (\<forall>j<n. \<exists>e. fst (CreateDeviceCode (with_user_code r dc (i + j)) (st_db st)) = Inl e)"
  using assms
proof (induction n arbitrary: i st)
  case 0
  then show ?case by simp
next
  case (Suc n)
  let ?c = "\<lambda>k. with_user_code r dc (i + k)"
  show ?case
  proof (cases "fst (CreateDeviceCode (?c 0) (st_db st))")
    case (Inr u)
    then show ?thesis using Suc.prems by (intro disjI1 exI [of _ 0]) (auto simp: with_user_code_def Let_def)
  next
    case (Inl e)
    have rest: "run_state (create_device_code r dc n (Suc i)) st = (made, st')"
      using Suc.prems Inl CreateDeviceCode_failed [OF Inl] by (auto simp: with_user_code_def Let_def)
    have first: "\<exists>e. fst (CreateDeviceCode (?c 0) (st_db st)) = Inl e" using Inl by blast
    have shift: "with_user_code r dc (Suc i + k) = ?c (Suc k)" for k by simp
    from Suc.IH [OF rest, unfolded shift] show ?thesis
    proof (elim disjE exE conjE)
      fix k assume "k < n" "made = Some (?c (Suc k))" "fst (CreateDeviceCode (?c (Suc k)) (st_db st)) = Inr ()"
        "\<forall>j<k. \<exists>e. fst (CreateDeviceCode (?c (Suc j)) (st_db st)) = Inl e"
        "st' = st\<lparr>st_db := snd (CreateDeviceCode (?c (Suc k)) (st_db st))\<rparr>"
      then show ?thesis using first by (intro disjI1 exI [of _ "Suc k"]) (auto simp: less_Suc_eq_0_disj)
    next
      assume "made = None" "st' = st" "\<forall>j<n. \<exists>e. fst (CreateDeviceCode (?c (Suc j)) (st_db st)) = Inl e"
      then show ?thesis using first by (intro disjI2) (auto simp: less_Suc_eq_0_disj)
    qed
  qed
qed

text \<open>C37: The loop that looks for a free user code ends after at most \<open>n\<close> insertions: either it stores one row, with the
  first of the drawn codes that the database takes, or every one of the \<open>n\<close> insertions was refused and the database
  is as it was.\<close>

theorem device_code_attempts:
  assumes "run_state (create_device_code r dc n i) st = (made, st')"
  shows "(\<exists>k<n. made = Some (with_user_code r dc (i + k))
        \<and> (\<forall>j<k. \<exists>e. fst (CreateDeviceCode (with_user_code r dc (i + j)) (st_db st)) = Inl e)
        \<and> fst (CreateDeviceCode (with_user_code r dc (i + k)) (st_db st)) = Inr ()
        \<and> st' = st\<lparr>st_db := snd (CreateDeviceCode (with_user_code r dc (i + k)) (st_db st))\<rparr>)
    \<or> made = None \<and> st' = st \<and> (\<forall>j<n. \<exists>e. fst (CreateDeviceCode (with_user_code r dc (i + j)) (st_db st)) = Inl e)"
  using create_device_code_run [OF assms] .

subsection \<open>Approving and denying\<close>

text \<open>What looking up a typed code leaves: the pending, unexpired row of that code, within the address's budget.\<close>

definition typed_code :: "request \<Rightarrow> db \<Rightarrow> DeviceCode \<Rightarrow> bool" where
  "typed_code r d dc \<longleftrightarrow> dc \<in> set (db_device_codes d) \<and> dc_UserCode dc = normalizeUserCode (PostFormValue r ''user_code'')
     \<and> dc_Status dc = DeviceCodePending \<and> rq_now r \<le> dc_ExpiresAt dc"

lemma typed_found: "GetPendingDeviceCodeByUserCode (normalizeUserCode (PostFormValue r ''user_code'')) (rq_now r) d = Inr dc \<Longrightarrow> typed_code r d dc"
  by (auto simp: GetPendingDeviceCodeByUserCode_def query_def typed_code_def split: sum.splits if_splits dest!: sel1_Inr)

lemma device_limiter_frames [simp]:
  "st_db (snd deviceCodeRate f st) = st_db st" "st_settings (snd deviceCodeRate f st) = st_settings st"
  "fst deviceCodeRate st = st_deviceCodeRate st" "st_db (snd deviceGrantRate f st) = st_db st"
  "st_settings (snd deviceGrantRate f st) = st_settings st" "fst deviceGrantRate st = st_deviceGrantRate st"
  by (simp_all add: limiter_fields)

definition code_budget :: "request \<Rightarrow> srvstate \<Rightarrow> bool" where
  "code_budget r st \<longleftrightarrow> fst (Allowed (clientIP r) deviceCodeMaxAttempts (sv_RateLimitWindow (st_settings st)) (rq_now r) (st_deviceCodeRate st))"

lemma renderDevice_db [simp]:
  "st_db (snd (run_state (renderDevice r user s g vs) st)) = st_db st"
  "st_settings (snd (run_state (renderDevice r user s g vs) st)) = st_settings st"
  by (simp_all add: renderDevice_def)

lemma renderDevice_run: "run_state (renderDevice r user s g vs) st = (resp, st') \<Longrightarrow> st_db st' = st_db st \<and> (\<exists>vs'. resp = Page s ''device'' vs')"
  using renderDevice_db [of r user s g vs st] run_form_page unfolding renderDevice_def by (metis fst_conv snd_conv)

lemma rate_Fail_frames [simp]:
  "st_db (snd (run_state (rate_Fail deviceCodeRate r k t) st)) = st_db st"
  "st_settings (snd (run_state (rate_Fail deviceCodeRate r k t) st)) = st_settings st"
  by (simp_all add: rate_Fail_def)

lemma lookupUserCode_cases:
  assumes "run_state (lookupUserCode r user) st = (x, st')"
  shows "st_db st' = st_db st \<and> st_settings st' = st_settings st
    \<and> (case x of Inl resp \<Rightarrow> \<exists>s vs. resp = Page s ''device'' vs \<and> s \<noteq> 200 | Inr dc \<Rightarrow> code_budget r st \<and> typed_code r (st_db st) dc)"
proof (cases "code_budget r st")
  case False
  then show ?thesis
    using assms by (auto simp: lookupUserCode_def run_rate_Allowed code_budget_def renderDevice_def run_form_page split_beta)
next
  case True
  show ?thesis
  proof (cases "GetPendingDeviceCodeByUserCode (normalizeUserCode (PostFormValue r ''user_code'')) (rq_now r) (st_db st)")
    case (Inl e)
    then show ?thesis
      using assms True by (auto simp: lookupUserCode_def run_rate_Allowed code_budget_def renderDevice_def run_form_page Let_def split_beta)
  next
    case (Inr dc)
    then show ?thesis
      using assms True typed_found [OF Inr] by (auto simp: lookupUserCode_def run_rate_Allowed code_budget_def Let_def)
  qed
qed

text \<open>A device that admits only its owner, as far as its row can be read.\<close>

definition shut_out :: "User \<Rightarrow> DeviceCode \<Rightarrow> db \<Rightarrow> bool" where
  "shut_out user dc d \<longleftrightarrow> dc_DeviceID dc \<noteq> [] \<and> (\<exists>v. GetDevice (dc_DeviceID dc) d = Inr v \<and> dev_OwnerOnly v \<and> dev_OwnerUserID v \<noteq> usr_ID user)"

definition decide :: "DeviceCode \<Rightarrow> (DeviceCode \<Rightarrow> DeviceCode) \<Rightarrow> db \<Rightarrow> db \<Rightarrow> bool" where
  "decide dc f d d' \<longleftrightarrow> db_device_codes d' = upd (\<lambda>c. dc_ID c = dc_ID dc \<and> dc_Status c = DeviceCodePending) f (db_device_codes d)"

definition approved_by :: "request \<Rightarrow> User \<Rightarrow> Session \<Rightarrow> DeviceCode \<Rightarrow> DeviceCode" where
  "approved_by r user sess c = c\<lparr>dc_Status := DeviceCodeApproved, dc_UserID := usr_ID user, dc_AMR := ses_AMR sess,
     dc_AuthTime := (if IsZero (ses_CreatedAt sess) then rq_now r else ses_CreatedAt sess)\<rparr>"

lemma audit_codes: "db_device_codes (snd (AppendAuditEvent e d)) = db_device_codes d"
  by (simp add: AppendAuditEvent_def raw_stmts)

lemma update_device_code_cases:
  "case fst (update_device_code n (dc_ID dc) DeviceCodePending f d) of
     Inl e \<Rightarrow> db_device_codes (snd (update_device_code n (dc_ID dc) DeviceCodePending f d)) = db_device_codes d
   | Inr u \<Rightarrow> decide dc f d (snd (update_device_code n (dc_ID dc) DeviceCodePending f d))"
  by (auto simp: update_device_code_def raw_stmts Let_def requireRow_def decide_def affected_0_iff split_beta
      intro!: upd_none split: sum.split if_splits)

lemma deny_cases:
  assumes "run_state (deny_owner_only r user dc) st = (resp, st') \<or> run_state (deny_grant r user dc) st = (resp, st')"
  shows "(db_device_codes (st_db st') = db_device_codes (st_db st) \<or> decide dc (\<lambda>c. c\<lparr>dc_Status := DeviceCodeDenied\<rparr>) (st_db st) (st_db st'))"
proof -
  let ?d = "snd (DenyDeviceCode (dc_ID dc) (st_db st))"
  have "db_device_codes (st_db st') = db_device_codes ?d"
    using assms
    by (auto simp: deny_owner_only_def deny_grant_def record_defs audit_codes dest!: renderDevice_run split: if_splits)
  then show ?thesis
    using update_device_code_cases [of "''DenyDeviceCode''" dc "\<lambda>c. c\<lparr>dc_Status := DeviceCodeDenied\<rparr>" "st_db st"]
    by (auto simp: DenyDeviceCode_def decide_def split: sum.splits)
qed

lemma approve_cases:
  assumes "run_state (approve_grant r user sess dc) st = (resp, st')"
  shows "(\<exists>vs. resp = Page 400 ''device'' vs) \<and> db_device_codes (st_db st') = db_device_codes (st_db st)
    \<or> (\<exists>vs. resp = Page 200 ''device'' vs) \<and> decide dc (approved_by r user sess) (st_db st) (st_db st')"
proof -
  have a: "ApproveDeviceCode (dc_ID dc) (usr_ID user) (ses_AMR sess) (if IsZero (ses_CreatedAt sess) then rq_now r else ses_CreatedAt sess)
      = update_device_code ''ApproveDeviceCode'' (dc_ID dc) DeviceCodePending (approved_by r user sess)"
    unfolding ApproveDeviceCode_def approved_by_def [abs_def] by (rule refl)
  show ?thesis
    using assms update_device_code_cases [of "''ApproveDeviceCode''" dc "approved_by r user sess" "st_db st"]
    unfolding approve_grant_def a
    by (auto simp: record_defs audit_codes decide_def dest!: renderDevice_run split: sum.splits)
qed

text \<open>C12: A device request changes state on the pages only by the decision of an enabled user in a live session, on a form with a
  CSRF token, within the guessing budget of the address, and only the one pending, unexpired request whose user code
  was typed. It is approved, for that user with the session's methods and time of sign-in, only if they chose to allow
  it and the device does not shut them out; in every other case it is denied.\<close>

theorem device_decision_sound:
  assumes "run_state (requireUser uri (handleDeviceConfirm r) r) st = (resp, st')"
    and "db_device_codes (st_db st') \<noteq> db_device_codes (st_db st)"
  shows "csrf_valid r \<and> code_budget r st \<and> (\<exists>sess user dc. as_user st r sess user \<and> typed_code r (st_db st) dc
    \<and> (if PostFormValue r ''action'' = ''allow'' \<and> \<not> shut_out user dc (st_db st)
       then decide dc (approved_by r user sess) (st_db st) (st_db st')
       else decide dc (\<lambda>c. c\<lparr>dc_Status := DeviceCodeDenied\<rparr>) (st_db st) (st_db st')))"
  using assms(1)
proof (cases rule: requireUser_cases)
  case away
  then show ?thesis using assms(2) by (simp add: grants_frame_def)
next
  case (user sess user st1)
  have same: "db_device_codes (st_db st1) = db_device_codes (st_db st)" "st_settings st1 = st_settings st"
    "db_devices (st_db st1) = db_devices (st_db st)" "db_faults (st_db st1) = db_faults (st_db st)"
    using user(2) by (simp_all add: grants_frame_def)
  have csrf: "csrfOK r = None" using user(3) assms(2) same by (cases "csrfOK r") (auto simp: handleDeviceConfirm_def)
  obtain x st2 where l: "run_state (lookupUserCode r user) st1 = (x, st2)" by fastforce
  note lc = lookupUserCode_cases [OF l]
  obtain dc where dc: "x = Inr dc" using user(3) csrf l lc assms(2) same by (cases x) (auto simp: handleDeviceConfirm_def)
  have typed: "typed_code r (st_db st) dc" using lc dc same by (simp add: typed_code_def)
  have budget: "code_budget r st" using lc dc same(2) by (subst (asm) user(4)) (simp add: code_budget_def)
  have tok: "csrf_valid r" using csrf by (simp add: csrfOK_def split: if_splits)
  have changed: "db_device_codes (st_db st') \<noteq> db_device_codes (st_db st2)" using assms(2) same lc by simp
  have out: "shut_out user dc (st_db st) \<longleftrightarrow> dc_DeviceID dc \<noteq> [] \<and> (case GetDevice (dc_DeviceID dc) (st_db st2) of Inl _ \<Rightarrow> False
      | Inr v \<Rightarrow> dev_OwnerOnly v \<and> dev_OwnerUserID v \<noteq> usr_ID user)"
    using lc same by (auto simp: shut_out_def GetDevice_def query_def fault_def split: sum.splits)
  have run: "run_state (if shut_out user dc (st_db st) then deny_owner_only r user dc
      else if PostFormValue r ''action'' \<noteq> ''allow'' then deny_grant r user dc else approve_grant r user sess dc) st2 = (resp, st')"
    using user(3) csrf l dc out by (simp add: handleDeviceConfirm_def)
  have s2: "decide dc f (st_db st2) (st_db st') = decide dc f (st_db st) (st_db st')" for f
    using lc same by (simp add: decide_def)
  have "if PostFormValue r ''action'' = ''allow'' \<and> \<not> shut_out user dc (st_db st)
      then decide dc (approved_by r user sess) (st_db st2) (st_db st')
      else decide dc (\<lambda>c. c\<lparr>dc_Status := DeviceCodeDenied\<rparr>) (st_db st2) (st_db st')"
    using run deny_cases [of r user dc st2 resp st'] approve_cases [of r user sess dc st2 resp st'] changed
    by (auto split: if_splits)
  then show ?thesis using tok budget user(1) typed unfolding s2 by blast
qed

end
