(* ===== verification/DeviceRun.thy ===== *)
theory DeviceRun
  imports DeviceFlowFacts
begin

text \<open>
  The device authorization grant from end to end: the device asks for a pair of codes, a signed-in user approves the
  short one, and the device's poll with the long one is answered with tokens for that user; and a client the grant
  cannot be started by.
\<close>

subsection \<open>What the two pages leave alone\<close>

fun device_page_op :: "store_op \<Rightarrow> bool" where
  "device_page_op (Account x) = (case x of OpTouchSession _ _ \<Rightarrow> True | OpDeleteSession _ \<Rightarrow> True | _ \<Rightarrow> False)"
| "device_page_op (Grant x) = (case x of OpAppendAuditEvent _ \<Rightarrow> True | _ \<Rightarrow> False)"
| "device_page_op (Enrolment x) = (case x of OpCreateDeviceCode _ \<Rightarrow> True | OpApproveDeviceCode _ _ _ _ \<Rightarrow> True
     | OpDenyDeviceCode _ \<Rightarrow> True | OpConsumeJTI _ _ _ _ \<Rightarrow> True | _ \<Rightarrow> False)"

definition same_parties :: "db \<Rightarrow> db \<Rightarrow> bool" where
  "same_parties d d' \<longleftrightarrow> db_users d' = db_users d \<and> db_clients d' = db_clients d \<and> db_refresh_tokens d' = db_refresh_tokens d
     \<and> db_faults d' = db_faults d"

lemma device_page_step: "device_page_op op \<Longrightarrow> same_parties d (store_step op d)"
proof (cases op)
  case (Account x)
  then show "device_page_op op \<Longrightarrow> ?thesis" by (cases x) (simp_all add: same_parties_def stmt_defs raw_stmts)
next
  case (Grant x)
  then show "device_page_op op \<Longrightarrow> ?thesis" by (cases x) (simp_all add: same_parties_def stmt_defs raw_stmts)
next
  case (Enrolment x)
  then show "device_page_op op \<Longrightarrow> ?thesis"
    by (cases x) (simp_all add: same_parties_def stmt_defs raw_stmts split: sum.split)
qed

lemma runs_parties: "runs device_page_op d d' \<Longrightarrow> same_parties d d'"
proof -
  have "list_all device_page_op ops \<Longrightarrow> same_parties d (fold store_step ops d)" for ops
  proof (induction ops arbitrary: d)
    case Nil
    then show ?case by (simp add: same_parties_def)
  next
    case (Cons op ops)
    then show ?case using device_page_step [of op d] Cons.IH [of "store_step op d"] by (auto simp: same_parties_def)
  qed
  then show "runs device_page_op d d' \<Longrightarrow> same_parties d d'" by (auto simp: runs_def)
qed

lemma performs_create_device_code [performs_rules]: "performs device_page_op (create_device_code r dc n i)"
  by (induction n arbitrary: i) (simp_all only: create_device_code.simps, (intro performs_rules; simp)+)

lemma performs_device_pages [performs_rules]:
  "performs device_page_op (renderDevice r user s g vs)"
  unfolding renderDevice_def by (intro performs_rules; simp)

lemma performs_start [performs_rules]: "performs device_page_op (start_device_grant r client scope dev)"
  unfolding start_device_grant_def by (intro performs_rules; simp)

lemma performs_device_authorization: "performs device_page_op (handleDeviceAuthorization srv r)"
  unfolding handleDeviceAuthorization_def by (intro performs_rules; simp)

lemma performs_lookup [performs_rules]: "performs device_page_op (lookupUserCode r user)"
  unfolding lookupUserCode_def by (intro performs_rules; simp)

lemma performs_decision [performs_rules]: "performs device_page_op (handleDeviceConfirm r user sess)"
  unfolding handleDeviceConfirm_def deny_owner_only_def deny_grant_def approve_grant_def by (intro performs_rules; simp)

lemma performs_requireUser: "(\<And>u s. performs device_page_op (h u s)) \<Longrightarrow> performs device_page_op (requireUser uri h r)"
  unfolding requireUser_def by (intro performs_rules; simp)

subsection \<open>Clients that authenticate with HTTP Basic\<close>

lemma basic_scheme: "\<not> token_scheme srv ''Basic''"
proof -
  have "\<not> EqualFold f ''Basic'' ''DPoP''" "\<not> EqualFold f ''Basic'' ''Bearer''" for f
    by (auto simp: EqualFold_def runes_ascii ascii_def dest!: arg_cong [where f = length])
  then show ?thesis by (simp add: token_scheme_def)
qed

lemma basic_device_refused:
  "fst (authorizationToken r) = ''Basic'' \<Longrightarrow> run_state (authenticateDeviceRequest srv r pr) st = (Inl ErrMissingBearer, st)"
  by (cases "authorizationToken r") (simp add: authenticateDeviceRequest_def resourceToken_def basic_scheme)

definition grant_budget :: "request \<Rightarrow> srvstate \<Rightarrow> bool" where
  "grant_budget r st \<longleftrightarrow> fst (Allowed (clientIP r) deviceGrantMaxPerWindow (sv_RateLimitWindow (st_settings st)) (rq_now r) (st_deviceGrantRate st))"

definition asked_scope :: "request \<Rightarrow> string" where
  "asked_scope r = (let asked = TrimSpace (PostFormValue r ''scope'') in if asked = [] then ScopeOpenID else asked)"

text \<open>C38: A client that authenticates itself with HTTP Basic, as a confidential client does, cannot start the device grant:
  the header is taken for a device's token, and a request that is otherwise in order is refused with 401; no code is
  ever stored.\<close>

theorem basic_client_refused:
  assumes "run_state (handleDeviceAuthorization srv r) st = (resp, st')" and "fst (authorizationToken r) = ''Basic''"
  shows "st_db st' = st_db st \<and> (\<exists>s c desc. resp = OAuthError s c desc)
    \<and> (rq_FormOK r \<and> client_of r st = Some client \<and> grant_budget r st \<and> ScopesSubset (SplitScope (asked_scope r)) (cl_AllowedScopes client)
       \<longrightarrow> resp = OAuthError 401 ''invalid_token'' ''device authentication failed'')"
proof -
  have "TrimSpace [] = []" by code_simp
  then have "rq_Authorization r \<noteq> []" using assms(2) by (auto simp: authorizationToken_def)
  then show ?thesis
    using assms
    by (auto simp: handleDeviceAuthorization_def oauthError_def oauthClientAuthError_def run_rate_Allowed rate_Fail_def grant_budget_def
        asked_scope_def Let_def basic_device_refused split: if_splits option.splits)
qed

subsection \<open>The request of the device\<close>

lemma start_cases:
  assumes "run_state (start_device_grant r client scope dev) st = (Json s ms, st')"
  obtains k where "db_device_codes (st_db st') = db_device_codes (st_db st) @ [with_user_code r (new_device_code r client scope dev) k]"
    and "map_of ms ''device_code'' = Some (JStr (RandomToken (rq_rand r ''devicecode'')))"
    and "map_of ms ''user_code'' = Some (JStr (formatUserCode (newUserCode (rq_rand r (usercode_name k)))))"
proof -
  let ?dc = "new_device_code r client scope dev"
  obtain made st1 where m: "run_state (create_device_code r ?dc 3 0) st = (made, st1)" by fastforce
  obtain c where c: "made = Some c" using assms m by (cases made) (auto simp: start_device_grant_def oauthError_def)
  from create_device_code_run [OF m] c obtain k where k: "c = with_user_code r ?dc k" "fst (CreateDeviceCode c (st_db st)) = Inr ()"
    "st_db st1 = snd (CreateDeviceCode c (st_db st))" by auto
  have "db_device_codes (st_db st1) = db_device_codes (st_db st) @ [c]"
    using k by (auto simp: CreateDeviceCode_def raw_stmts split: if_splits)
  then show ?thesis
    using assms m c k(1)
    by (intro that [of k]) (auto simp: start_device_grant_def record_defs audit_codes with_user_code_def Let_def)
qed

lemma authorization_cases:
  assumes "run_state (handleDeviceAuthorization srv r) st = (Json s ms, st')" and "rq_Authorization r = []"
  obtains client k where "client_of r st = Some client"
    and "db_device_codes (st_db st') = db_device_codes (st_db st) @ [with_user_code r (new_device_code r client (asked_scope r) None) k]"
    and "map_of ms ''device_code'' = Some (JStr (RandomToken (rq_rand r ''devicecode'')))"
    and "map_of ms ''user_code'' = Some (JStr (formatUserCode (newUserCode (rq_rand r (usercode_name k)))))"
proof -
  obtain client st1 where c: "client_of r st = Some client" "run_state (start_device_grant r client (asked_scope r) None) st1 = (Json s ms, st')"
    and same: "st_db st1 = st_db st"
    using assms
    by (auto simp: handleDeviceAuthorization_def oauthError_def oauthClientAuthError_def run_rate_Allowed rate_Fail_def asked_scope_def Let_def
        split: if_splits option.splits)
  from c(2) show ?thesis by (rule start_cases) (use that c(1) same in simp)
qed

subsection \<open>The decision and the poll\<close>

lemma confirm_allowed:
  assumes "run_state (handleDeviceConfirm r user sess) st = (Page 200 n vs, st')" and "PostFormValue r ''action'' = ''allow''"
  shows "\<exists>dc. typed_code r (st_db st) dc \<and> decide dc (approved_by r user sess) (st_db st) (st_db st')"
proof -
  have csrf: "csrfOK r = None" using assms(1) by (auto simp: handleDeviceConfirm_def csrfOK_def split: if_splits)
  obtain x st2 where l: "run_state (lookupUserCode r user) st = (x, st2)" by fastforce
  note lc = lookupUserCode_cases [OF l]
  obtain dc where x: "x = Inr dc" using assms(1) csrf l lc by (cases x) (auto simp: handleDeviceConfirm_def)
  have "run_state (deny_owner_only r user dc) st2 \<noteq> (Page 200 n vs, st')"
    by (auto simp: deny_owner_only_def record_defs dest!: renderDevice_run)
  then have "run_state (approve_grant r user sess dc) st2 = (Page 200 n vs, st')"
    using assms csrf l x by (auto simp: handleDeviceConfirm_def split: if_splits)
  from approve_cases [OF this] show ?thesis using lc x by (auto simp: decide_def)
qed

text \<open>The poll of a device, and the row that it redeems.\<close>

definition polls :: "request \<Rightarrow> string \<Rightarrow> bool" where
  "polls r raw \<longleftrightarrow> rq_FormOK r \<and> rq_DPoP r = [] \<and> PostFormValue r ''grant_type'' = GrantTypeDeviceCode \<and> PostFormValue r ''device_code'' = raw"

lemma affected_one:
  assumes "uniq_on dc_ID t" and "c \<in> set t" and "dc_Status c = DeviceCodeApproved"
  shows "affected (\<lambda>x. dc_ID x = dc_ID c \<and> dc_Status x = DeviceCodeApproved) t = 1"
  using assms
proof (induction t)
  case (Cons x t)
  show ?case
  proof (cases "dc_ID x = dc_ID c")
    case True
    then have "dc_ID c \<notin> dc_ID ` set t" using Cons.prems(1) by (auto simp: uniq_on_def)
    then have "x = c" "affected (\<lambda>x. dc_ID x = dc_ID c \<and> dc_Status x = DeviceCodeApproved) t = 0"
      using Cons.prems(2) True by (auto simp: affected_0_iff) (metis imageI)
    then show ?thesis using Cons.prems(3) by (simp add: affected_def)
  next
    case False
    then show ?thesis using Cons by (auto simp: affected_def uniq_on_def)
  qed
qed simp

lemma grantDeviceCode_completes:
  assumes "polls r raw" and "raw \<noteq> []" and "dc_DeviceCodeHash c = HashToken raw" and "c \<in> set (db_device_codes (st_db st))"
    and "dc_Status c = DeviceCodeApproved" and "dc_DeviceID c = []" and "dc_LastPolledAt c = 0" and "rq_now r \<le> dc_ExpiresAt c"
    and "client_of r st = Some client" and "cl_ClientID client = dc_ClientID c"
    and "GetUserByID (dc_UserID c) (st_db st) = Inr user" and "\<not> usr_Disabled user"
    and "db_ok (st_db st)" and "db_faults (st_db st) = []" and "signs srv"
    and "rq_uuid r ''refresh'' \<notin> rt_ID ` set (db_refresh_tokens (st_db st))"
    and "HashToken (RandomToken (rq_rand r ''refresh'')) \<notin> rt_TokenHash ` set (db_refresh_tokens (st_db st))"
  shows "\<exists>resp st'. run_state (handleToken srv r) st = (Tokens resp, st') \<and> tr_Scope resp = dc_Scope c
    \<and> access_token_for srv (st_settings st) (rq_now r) client user (dc_Scope c)
        \<lparr>tc_amr = dc_AMR c, tc_device = None, tc_jkt = []\<rparr> = Some (tr_AccessToken resp)"
proof -
  let ?d = "st_db st"
  define d1 where "d1 = snd (MarkDeviceCodePolled (dc_ID c) (rq_now r) ?d)"
  define d2 where "d2 = snd (ConsumeDeviceCode (dc_ID c) d1)"
  have codes_ok: "uniq_on dc_DeviceCodeHash (db_device_codes ?d)" "uniq_on dc_ID (db_device_codes ?d)"
    using assms(13) by (simp_all add: db_ok_def device_codes_ok_def)
  have found: "GetDeviceCodeByHash (HashToken raw) ?d = Inr c"
    using sel1_key [OF codes_ok(1) assms(4)] assms(3,14) by (simp add: GetDeviceCodeByHash_def query_def fault_def)
  have d1: "db_device_codes d1 = upd (\<lambda>x. dc_ID x = dc_ID c) (\<lambda>x. x\<lparr>dc_LastPolledAt := rq_now r\<rparr>) (db_device_codes ?d)"
    "db_users d1 = db_users ?d" "db_faults d1 = []" "db_refresh_tokens d1 = db_refresh_tokens ?d"
    using assms(14) by (simp_all add: d1_def MarkDeviceCodePolled_def raw_stmts fault_def)
  have ok1: "db_ok d1"
    using runs_db_ok [OF runs_op [of "\<lambda>_. True" "Enrolment (OpMarkDeviceCodePolled (dc_ID c) (rq_now r))" ?d] assms(13)] by (simp add: d1_def)
  have u1: "uniq_on dc_ID (db_device_codes d1)" using ok1 by (simp add: db_ok_def device_codes_ok_def)
  have in1: "c\<lparr>dc_LastPolledAt := rq_now r\<rparr> \<in> set (db_device_codes d1)"
    using assms(4) by (auto simp: d1(1) set_upd)
  have "affected (\<lambda>x. dc_ID x = dc_ID c \<and> dc_Status x = DeviceCodeApproved) (db_device_codes d1) = 1"
    using affected_one [OF u1 in1] assms(5) by simp
  then have cons: "fst (ConsumeDeviceCode (dc_ID c) d1) = Inr True" using d1(3) by (simp add: ConsumeDeviceCode_True fault_def)
  have ok2: "db_ok d2"
    using runs_db_ok [OF runs_op [of "\<lambda>_. True" "Enrolment (OpConsumeDeviceCode (dc_ID c))" d1] ok1] by (simp add: d2_def)
  have d2: "db_refresh_tokens d2 = db_refresh_tokens ?d" "db_faults d2 = []"
    using d1(3,4) by (simp_all add: d2_def ConsumeDeviceCode_def raw_stmts fault_def Let_def split_beta)
  have usr: "GetUserByID (dc_UserID c) d1 = Inr user" using assms(11,14) d1(2,3) by (simp add: GetUserByID_def query_def fault_def)
  define tc where "tc = \<lparr>tc_amr = dc_AMR c, tc_device = None, tc_jkt = []\<rparr>"
  obtain resp where b: "buildAccessAndID srv (st_settings st) (rq_now r) client user (dc_Scope c) [] (dc_AuthTime c) tc = Some resp"
    using buildAccessAndID_total [OF assms(15)] by blast
  obtain raw2 t where nt: "newRefreshToken (st_settings st) r client user (dc_Scope c) (dc_AuthTime c) [] tc = (raw2, t)"
    and t: "rt_ID t = rq_uuid r ''refresh''" "rt_TokenHash t = HashToken (RandomToken (rq_rand r ''refresh''))"
    by (simp add: newRefreshToken_def Let_def)
  have made: "fst (CreateRefreshToken t d2) = Inr ()"
    using ok2 assms(16,17) t d2 by (intro CreateRefreshToken_ok) (simp_all add: db_ok_def)
  define st1 where "st1 = st\<lparr>st_db := d1\<rparr>"
  have "\<exists>st'. run_state (redeem_device_code srv r client c tc) st1
      = (Tokens (if HasScope (dc_Scope c) ScopeOfflineAccess then resp\<lparr>tr_RefreshToken := raw2\<rparr> else resp), st')"
    using usr assms(12) cons b nt made
    by (auto simp: redeem_device_code_def st1_def d2_def [symmetric] Let_def record_defs)
  moreover have "run_state (grantDeviceCode srv r None) st = run_state (redeem_device_code srv r client c tc) st1"
    using assms(1,2,5-10) found
    by (simp add: grantDeviceCode_def polls_def Let_def dpopJKT_def tc_def st1_def d1_def DeviceCodeApproved_def DeviceCodePending_def DeviceCodeDenied_def)
  ultimately have "\<exists>st'. run_state (grantDeviceCode srv r None) st
      = (Tokens (if HasScope (dc_Scope c) ScopeOfflineAccess then resp\<lparr>tr_RefreshToken := raw2\<rparr> else resp), st')" by simp
  then show ?thesis
    using assms(1) buildAccessAndID_Some [OF b]
    by (auto simp: handleToken_def grant_for_def Let_def polls_def GrantTypeDeviceCode_def tc_def)
qed

subsection \<open>From the device's request to its tokens\<close>

text \<open>C11: For a client alone - no enrolled device behind the request, which has no Authorization header, and no DPoP header on the
  poll -, on a server that can sign and while no statement fails, the device grant ends in tokens. When such a request is answered
  with a pair of codes, and a user answers the page with the short code as it was shown and allows it, and the page says so, then
  the first poll with the long code, by the same client and before the codes expire, is answered with tokens for the scopes that
  were asked for, in the name of the signed-in user who approved it and with the methods of that user's session.\<close>

theorem device_flow_completes:
  assumes "run_state (handleDeviceAuthorization srv r) st = (Json 200 ms, st1)" and "rq_Authorization r = []"
    and "run_state (requireUser uri (handleDeviceConfirm r2) r2) st1 = (Page 200 n vs, st2)" and "PostFormValue r2 ''action'' = ''allow''"
    and "map_of ms ''user_code'' = Some (JStr (PostFormValue r2 ''user_code''))"
    and "polls r3 raw" and "map_of ms ''device_code'' = Some (JStr raw)" and "client_of r3 st2 = client_of r st"
    and "\<forall>i. length (rq_rand r (usercode_name i)) = userCodeLength" and "rq_rand r ''devicecode'' \<noteq> []"
    and "rq_now r3 \<le> rq_now r + deviceCodeTTL" and "db_ok (st_db st)" and "db_faults (st_db st) = []" and "signs srv"
    and "rq_uuid r3 ''refresh'' \<notin> rt_ID ` set (db_refresh_tokens (st_db st))"
    and "HashToken (RandomToken (rq_rand r3 ''refresh'')) \<notin> rt_TokenHash ` set (db_refresh_tokens (st_db st))"
  shows "\<exists>client sess user resp st3. client_of r st = Some client \<and> as_user st1 r2 sess user
    \<and> run_state (handleToken srv r3) st2 = (Tokens resp, st3) \<and> tr_Scope resp = asked_scope r
    \<and> access_token_for srv (st_settings st2) (rq_now r3) client user (asked_scope r)
        \<lparr>tc_amr = ses_AMR sess, tc_device = None, tc_jkt = []\<rparr> = Some (tr_AccessToken resp)"
proof -
  obtain client k where cl: "client_of r st = Some client"
    and codes: "db_device_codes (st_db st1) = db_device_codes (st_db st) @ [with_user_code r (new_device_code r client (asked_scope r) None) k]"
    and ms: "map_of ms ''device_code'' = Some (JStr (RandomToken (rq_rand r ''devicecode'')))"
      "map_of ms ''user_code'' = Some (JStr (formatUserCode (newUserCode (rq_rand r (usercode_name k)))))"
    by (rule authorization_cases [OF assms(1,2)])
  define c where "c = with_user_code r (new_device_code r client (asked_scope r) None) k"
  have c: "dc_UserCode c = newUserCode (rq_rand r (usercode_name k))" "dc_DeviceCodeHash c = HashToken raw" "dc_Status c = DeviceCodePending"
    "dc_DeviceID c = []" "dc_LastPolledAt c = 0" "dc_ExpiresAt c = rq_now r + deviceCodeTTL" "dc_ClientID c = cl_ClientID client"
    "dc_Scope c = asked_scope r"
    using ms(1) assms(7) by (simp_all add: c_def with_user_code_def new_device_code_def)
  have raw: "raw \<noteq> []" using ms(1) assms(7,10) RandomToken_nonempty by auto
  have typed: "normalizeUserCode (PostFormValue r2 ''user_code'') = dc_UserCode c"
    using ms(2) assms(5,9) shown_code_read_back by (simp add: c)
  have p1: "same_parties (st_db st) (st_db st1)" and ok1: "db_ok (st_db st1)"
    using performsD [OF performs_device_authorization assms(1)] assms(12) by (auto intro: runs_parties runs_db_ok)
  have pr: "performs device_page_op (requireUser uri (handleDeviceConfirm r2) r2)" by (rule performs_requireUser) (rule performs_decision)
  have p2: "same_parties (st_db st1) (st_db st2)" and ok2: "db_ok (st_db st2)"
    using performsD [OF pr assms(3)] ok1 by (auto intro: runs_parties runs_db_ok)
  from assms(3) obtain sess user s1 where u: "as_user st1 r2 sess user" "grants_frame st1 s1"
    "run_state (handleDeviceConfirm r2 user sess) s1 = (Page 200 n vs, st2)"
    by (cases rule: requireUser_cases) auto
  have same: "db_device_codes (st_db s1) = db_device_codes (st_db st1)" using u(2) by (simp add: grants_frame_def)
  obtain dc where dc: "typed_code r2 (st_db s1) dc" "decide dc (approved_by r2 user sess) (st_db s1) (st_db st2)"
    using confirm_allowed [OF u(3) assms(4)] by blast
  have cin: "c \<in> set (db_device_codes (st_db s1))" using codes same by (simp add: c_def)
  have "uniq_on dc_UserCode (db_device_codes (st_db s1))" using ok1 same by (simp add: db_ok_def device_codes_ok_def)
  then have "dc = c" using dc(1) typed cin by (auto simp: typed_code_def uniq_on_eq)
  then have in2: "approved_by r2 user sess c \<in> set (db_device_codes (st_db st2))"
    using dc(2) cin c(3) by (auto simp: decide_def set_upd)
  have users: "db_users (st_db st2) = db_users (st_db st1)" using p2 by (simp add: same_parties_def)
  have "uniq_on usr_ID (db_users (st_db st2))" using ok2 by (simp add: db_ok_def users_ok_def)
  then have usr: "GetUserByID (usr_ID user) (st_db st2) = Inr user"
    using u(1) users p1 p2 assms(13) sel1_key [of usr_ID "db_users (st_db st2)" user]
    by (simp add: GetUserByID_def query_def as_user_def same_parties_def fault_def)
  have "\<exists>resp st'. run_state (handleToken srv r3) st2 = (Tokens resp, st') \<and> tr_Scope resp = dc_Scope (approved_by r2 user sess c)
      \<and> access_token_for srv (st_settings st2) (rq_now r3) client user (dc_Scope (approved_by r2 user sess c))
        \<lparr>tc_amr = dc_AMR (approved_by r2 user sess c), tc_device = None, tc_jkt = []\<rparr> = Some (tr_AccessToken resp)"
  proof (rule grantDeviceCode_completes [OF assms(6) raw _ in2])
    show "db_faults (st_db st2) = []" "rq_uuid r3 ''refresh'' \<notin> rt_ID ` set (db_refresh_tokens (st_db st2))"
      "HashToken (RandomToken (rq_rand r3 ''refresh'')) \<notin> rt_TokenHash ` set (db_refresh_tokens (st_db st2))"
      using assms(13,15,16) p1 p2 by (simp_all add: same_parties_def)
    show "client_of r3 st2 = Some client" using assms(8) cl by simp
  qed (use c usr u(1) ok2 assms(11,14) in \<open>simp_all add: approved_by_def as_user_def\<close>)
  then show ?thesis using cl u(1) c(8) by (auto simp: approved_by_def)
qed

end
