(* ===== verification/DeviceSamples.thy ===== *)
theory DeviceSamples
  imports AccountSamples DeviceRun
begin

text \<open>
  A device without an identity of its own that asks the public client \<open>web\<close> for a pair of codes, Alice who approves
  them, and the poll that is answered: the hypotheses of the properties of the device grant hold there.
\<close>

definition grant_db :: db where
  "grant_db = trusted_db\<lparr>db_device_codes := []\<rparr>"

lemma grant_db_simps [simp]:
  "db_clients grant_db = [trusted_client]" "db_sessions grant_db = [alice_session]" "db_users grant_db = [alice, bob]"
  "db_faults grant_db = []" "db_device_codes grant_db = []" "db_refresh_tokens grant_db = []" "\<not> fault grant_db op"
  by (simp_all add: grant_db_def fault_def)

lemma grant_db_ok: "db_ok grant_db"
  using trusted_db_ok by (simp add: grant_db_def db_ok_def ok_defs)

definition start_request :: request where
  "start_request = (form_request [(''client_id'', ''web'')])\<lparr>rq_rand := \<lambda>n. replicate 8 CHR ''r''\<rparr>"

lemma start_request_simps [simp]:
  "rq_FormOK start_request" "rq_Authorization start_request = []" "rq_now start_request = 100" "clientIP start_request = ''10.0.0.1''"
  "rq_rand start_request n = replicate 8 CHR ''r''" "rq_uuid start_request n = ''id/'' @ n"
  "PostFormValue start_request ''scope'' = []" "PostFormValue start_request ''device_name'' = []" "PostFormValue start_request ''device_platform'' = []"
  by (simp_all add: start_request_def form_request_def PostFormValue_def first_value_def) code_simp

lemma web_of: "db_clients (st_db st) = [trusted_client] \<Longrightarrow> db_faults (st_db st) = [] \<Longrightarrow> BasicAuth r = None \<Longrightarrow>
    PostFormValue r ''client_id'' = ''web'' \<Longrightarrow> client_of r st = Some trusted_client"
  by (simp add: client_of_def authenticateClient_def GetClient_def query_def fault_def sel1_def ClientTypeConfidential_def)

lemma no_basic [simp]: "BasicAuth start_request = None" "PostFormValue start_request ''client_id'' = ''web''"
  by (simp_all add: BasicAuth_def start_request_def form_request_def PostFormValue_def first_value_def)

lemma sample_shown: "newUserCode (replicate 8 CHR ''r'') = ''SSSSSSSS''" "formatUserCode ''SSSSSSSS'' = ''SSSS-SSSS''"
  "normalizeUserCode ''SSSS-SSSS'' = ''SSSSSSSS''"
  by code_simp+

definition started :: DeviceCode where
  "started = with_user_code start_request (new_device_code start_request trusted_client ''openid'' None) 0"

lemma started_stored: "fst (CreateDeviceCode started grant_db) = Inr ()" "db_device_codes (snd (CreateDeviceCode started grant_db)) = [started]"
  by (simp_all add: CreateDeviceCode_def raw_stmts device_codes_ok_def)

lemma start_run: "\<exists>st1. run_state (handleDeviceAuthorization plain_server start_request) (sample_state grant_db) =
     (Json 200 [member ''device_code'' (RandomToken (replicate 8 CHR ''r'')), member ''user_code'' ''SSSS-SSSS'',
        member ''verification_uri'' ''https://id/device'', member ''verification_uri_complete'' ''https://id/device?user_code=SSSS-SSSS'',
        (''expires_in'', jint 600), (''interval'', jint 5)], st1)
   \<and> db_sessions (st_db st1) = [alice_session] \<and> db_device_codes (st_db st1) = [started] \<and> st_settings st1 = sample_view
   \<and> st_deviceCodeRate st1 = newRateLimiter"
proof -
  have c: "client_of start_request (sample_state grant_db) = Some trusted_client" by (simp add: web_of)
  have s: "ScopesSubset (SplitScope ''openid'') [''openid'', ''offline_access'']" by code_simp
  have u: "dc_UserCode started = ''SSSSSSSS''" by (simp add: started_def with_user_code_def sample_shown)
  have t: "TrimRight CHR ''/'' ''https://id'' = ''https://id''" by code_simp
  define st1 where "st1 = snd deviceGrantRate (Fail ''10.0.0.1'' (15 * Minute) 100) (sample_state grant_db)"
  have st1: "st_db st1 = grant_db" "st_settings st1 = sample_view" "st_deviceCodeRate st1 = newRateLimiter"
    by (simp_all add: st1_def limiter_fields) (simp add: sample_state_def)
  have made: "run_state (create_device_code start_request (new_device_code start_request trusted_client ''openid'' None) 3 0) st1
      = (Some started, st1\<lparr>st_db := snd (CreateDeviceCode started grant_db)\<rparr>)"
    using started_stored(1) st1(1) by (simp add: eval_nat_numeral started_def with_user_code_def Let_def)
  have "run_state (handleDeviceAuthorization plain_server start_request) (sample_state grant_db)
      = run_state (start_device_grant start_request trusted_client ''openid'' None) st1"
    using c s
    by (simp add: handleDeviceAuthorization_def run_rate_Allowed rate_Fail_def Let_def ScopeOpenID_def st1_def sample_view_def sample_state_def
        limiter_fields)
  moreover have "db_sessions (snd (CreateDeviceCode started grant_db)) = [alice_session]"
    by (simp add: CreateDeviceCode_def raw_stmts)
  ultimately show ?thesis
    using started_stored st1
    by (simp add: start_device_grant_def made u sample_shown t record_defs AppendAuditEvent_def raw_stmts Let_def sample_view_def
        whole_seconds_def deviceCodeTTL_def deviceCodeInterval_def)
qed

definition allow_request :: request where
  "allow_request = page_request [] [(''user_code'', ''SSSS-SSSS''), (''action'', ''allow'')]"

lemma allow_request_simps [simp]:
  "csrfOK allow_request = None" "csrf_valid allow_request" "PostFormValue allow_request ''user_code'' = ''SSSS-SSSS''"
  "PostFormValue allow_request ''action'' = ''allow''" "rq_now allow_request = 100"
  by (simp_all add: allow_request_def)

lemma started_simps [simp]:
  "dc_UserCode started = ''SSSSSSSS''" "dc_Status started = DeviceCodePending" "dc_DeviceID started = []" "dc_ExpiresAt started = 600000000100"
  by (simp_all add: started_def with_user_code_def new_device_code_def sample_shown deviceCodeTTL_def)

lemma sample_parties: "run_state (handleDeviceAuthorization plain_server start_request) (sample_state grant_db) = (resp, st1) \<Longrightarrow>
    db_users (st_db st1) = [alice, bob] \<and> db_clients (st_db st1) = [trusted_client] \<and> db_faults (st_db st1) = []"
  using runs_parties [OF performsD [OF performs_device_authorization, of plain_server start_request "sample_state grant_db" resp st1]]
  by (simp add: same_parties_def)

lemma allow_run:
  assumes "db_users (st_db st) = [alice, bob]" and "db_sessions (st_db st) = [alice_session]" and "db_faults (st_db st) = []"
    and "db_device_codes (st_db st) = [started]" and "st_settings st = sample_view" and "st_deviceCodeRate st = newRateLimiter"
  shows "\<exists>vs st2. run_state (requireUser [] (handleDeviceConfirm allow_request) allow_request) st = (Page 200 ''device'' vs, st2)
    \<and> db_device_codes (st_db st2) \<noteq> [started]"
proof -
  let ?s = "alice_session\<lparr>ses_LastSeenAt := 100\<rparr>" and ?st = "st\<lparr>st_db := snd (TouchSession ''s1'' 100 (st_db st))\<rparr>"
  have g: "run_state (requireUser [] h allow_request) st = run_state (h alice ?s) ?st" for h
    unfolding allow_request_def using assms by (subst sample_guard [of _ alice]) simp_all
  have t: "db_device_codes (snd (TouchSession ''s1'' 100 (st_db st))) = [started]" using assms(4) by (simp add: TouchSession_def raw_stmts)
  have look: "\<exists>rl. run_state (lookupUserCode allow_request alice) ?st = (Inr started, snd deviceCodeRate rl ?st)"
    using assms t
    by (auto simp: lookupUserCode_def run_rate_Allowed sample_view_def sample_shown GetPendingDeviceCodeByUserCode_def query_def sel1_def fault_def Let_def)
  then obtain st2 where l: "run_state (lookupUserCode allow_request alice) ?st = (Inr started, st2)" and st2: "st_db st2 = st_db ?st" by auto
  obtain resp st3 where a: "run_state (approve_grant allow_request alice ?s started) st2 = (resp, st3)" by fastforce
  have run: "run_state (requireUser [] (handleDeviceConfirm allow_request) allow_request) st = (resp, st3)"
    unfolding g using l a by (simp add: handleDeviceConfirm_def)
  have "fst (ApproveDeviceCode (dc_ID started) ''u1'' (ses_AMR ?s) 10 (st_db st2)) = Inr ()"
    using t assms(3) by (simp add: st2 ApproveDeviceCode_def update_device_code_def raw_stmts Let_def affected_def requireRow_def fault_def)
  then have r: "\<exists>vs. resp = Page 200 ''device'' vs"
    using a by (auto simp: approve_grant_def alice_session_def record_defs dest!: renderDevice_run)
  then have "decide started (approved_by allow_request alice ?s) (st_db st2) (st_db st3)" using approve_cases [OF a] by auto
  then have "db_device_codes (st_db st3) = [approved_by allow_request alice ?s started]" using t by (simp add: decide_def st2)
  moreover have "approved_by allow_request alice ?s started \<noteq> started"
    by (auto simp: approved_by_def DeviceCodePending_def DeviceCodeApproved_def dest!: arg_cong [where f = dc_Status])
  ultimately show ?thesis using run r by auto
qed

theorem device_code_attempts_witness:
  "\<exists>k<3. fst (run_state (create_device_code start_request (new_device_code start_request trusted_client ''openid'' None) 3 0) (sample_state grant_db))
     = Some (with_user_code start_request (new_device_code start_request trusted_client ''openid'' None) k)"
proof -
  obtain made st' where run: "run_state (create_device_code start_request (new_device_code start_request trusted_client ''openid'' None) 3 0)
      (sample_state grant_db) = (made, st')" by fastforce
  have "\<exists>j<3. fst (CreateDeviceCode (with_user_code start_request (new_device_code start_request trusted_client ''openid'' None) j) grant_db) = Inr ()"
    using started_stored(1) by (intro exI [of _ 0]) (simp add: started_def)
  then show ?thesis using device_code_attempts [OF run] run by auto
qed

theorem device_decision_sound_witness:
  "\<exists>st sess user. as_user st allow_request sess user \<and> typed_code allow_request (st_db st) started"
proof -
  obtain resp st1 where s: "run_state (handleDeviceAuthorization plain_server start_request) (sample_state grant_db) = (resp, st1)"
    and st1: "db_sessions (st_db st1) = [alice_session]" "db_device_codes (st_db st1) = [started]" "st_settings st1 = sample_view"
      "st_deviceCodeRate st1 = newRateLimiter" using start_run by blast
  note p = sample_parties [OF s]
  obtain vs st2 where "run_state (requireUser [] (handleDeviceConfirm allow_request) allow_request) st1 = (Page 200 ''device'' vs, st2)"
    "db_device_codes (st_db st2) \<noteq> db_device_codes (st_db st1)" using allow_run [of st1] p st1 by auto
  from device_decision_sound [OF this] obtain sess user dc where "as_user st1 allow_request sess user" "typed_code allow_request (st_db st1) dc" by blast
  moreover have "dc = started" using calculation(2) st1(2) by (simp add: typed_code_def)
  ultimately show ?thesis by blast
qed

definition confidential_start :: request where
  "confidential_start = start_request\<lparr>rq_Authorization := ''Basic YXBpOnM=''\<rparr>"

theorem basic_client_refused_witness:
  "\<exists>s c desc. fst (run_state (handleDeviceAuthorization plain_server confidential_start) (sample_state grant_db)) = OAuthError s c desc"
proof -
  have "fst (authorizationToken confidential_start) = ''Basic''"
    unfolding confidential_start_def authorizationToken_def by (simp add: Let_def) code_simp
  from basic_client_refused [OF surjective_pairing this] show ?thesis by blast
qed

definition poll_again :: request where
  "poll_again = form_request [(''grant_type'', GrantTypeDeviceCode), (''client_id'', ''web''), (''device_code'', RandomToken (replicate 8 CHR ''r''))]"

theorem device_flow_completes_witness:
  "\<exists>st1 st2 resp st3 sess user. as_user st1 allow_request sess user
     \<and> run_state (handleToken plain_server poll_again) st2 = (Tokens resp, st3) \<and> tr_Scope resp = ''openid''"
proof -
  obtain ms st1 where s: "run_state (handleDeviceAuthorization plain_server start_request) (sample_state grant_db) = (Json 200 ms, st1)"
    and ms: "map_of ms ''user_code'' = Some (JStr ''SSSS-SSSS'')" "map_of ms ''device_code'' = Some (JStr (RandomToken (replicate 8 CHR ''r'')))"
    and st1: "db_sessions (st_db st1) = [alice_session]" "db_device_codes (st_db st1) = [started]" "st_settings st1 = sample_view"
      "st_deviceCodeRate st1 = newRateLimiter" using start_run by auto
  note p = sample_parties [OF s]
  obtain vs st2 where a: "run_state (requireUser [] (handleDeviceConfirm allow_request) allow_request) st1 = (Page 200 ''device'' vs, st2)"
    using allow_run [of st1] p st1 by auto
  have "performs device_page_op (requireUser [] (handleDeviceConfirm allow_request) allow_request)" by (rule performs_requireUser) (rule performs_decision)
  then have p2: "same_parties (st_db st1) (st_db st2)" using performsD [OF _ a] runs_parties by blast
  have r: "polls poll_again (RandomToken (replicate 8 CHR ''r''))" "PostFormValue poll_again ''client_id'' = ''web''" "BasicAuth poll_again = None"
    "rq_now poll_again = 100"
    by (simp_all add: poll_again_def polls_def form_request_def PostFormValue_def BasicAuth_def)
  have "client_of poll_again st2 = client_of start_request (sample_state grant_db)"
    using p p2 r by (simp add: web_of same_parties_def)
  moreover have "signs plain_server"
    by (simp add: signs_def sign_claims_def plain_server_def table_server_def table_lib_def sample_km_def DefaultSigner_def
        signingMethod_def AlgRS256_def)
  ultimately show ?thesis
    using device_flow_completes [OF s _ a _ _ r(1)] ms grant_db_ok r(4)
    by (simp add: asked_scope_def ScopeOpenID_def userCodeLength_def deviceCodeTTL_def) blast
qed

end
