(* ===== verification/GoTime.thy ===== *)
theory GoTime
  imports GoStd
begin

text \<open>
  The one form in which the device endpoints write an instant: \<open>t.UTC().Format(time.RFC3339)\<close>, for instants from
  the year 1 on. \<open>civil\<close> is the conversion of a day number to a date, in the cycles of 400, 100, 4 and 1 years of
  package \<open>time\<close>; \<open>day_number\<close> counts the days before a date the naive way, and the two are inverse.
\<close>

subsection \<open>The calendar\<close>

definition leap_year :: "nat \<Rightarrow> bool" where
  "leap_year y \<longleftrightarrow> y mod 4 = 0 \<and> (y mod 100 \<noteq> 0 \<or> y mod 400 = 0)"

definition year_days :: "nat \<Rightarrow> nat" where
  "year_days y = (if leap_year y then 366 else 365)"

definition month_lengths :: "nat \<Rightarrow> nat list" where
  "month_lengths y = [31, if leap_year y then 29 else 28, 31, 30, 31, 30, 31, 31, 30, 31, 30, 31]"

text \<open>The years that have passed since 1 January of the year 1, and the day of the current one.\<close>

definition year_and_day :: "nat \<Rightarrow> nat \<times> nat" where
  "year_and_day n =
    (let n400 = n div 146097; a = n mod 146097;
         n100 = min 3 (a div 36524); b = a - 36524 * n100;
         n4 = b div 1461; c = b mod 1461;
         n1 = min 3 (c div 365)
     in (400 * n400 + 100 * n100 + 4 * n4 + n1, c - 365 * n1))"

text \<open>The month in which a day of the year falls, counted from \<open>m\<close>, and the day of the month.\<close>

fun month_and_day :: "nat list \<Rightarrow> nat \<Rightarrow> nat \<Rightarrow> nat \<times> nat" where
  "month_and_day [] m d = (m, d)"
| "month_and_day (l # ls) m d = (if d < l then (m, d) else month_and_day ls (Suc m) (d - l))"

definition civil :: "nat \<Rightarrow> nat \<times> nat \<times> nat" where
  "civil n = (let (y, yd) = year_and_day n; (m, d) = month_and_day (month_lengths (Suc y)) 1 yd in (Suc y, m, Suc d))"

definition day_number :: "nat \<times> nat \<times> nat \<Rightarrow> nat" where
  "day_number = (\<lambda>(y, m, d). sum_list (map year_days [1..<y]) + sum_list (take (m - 1) (month_lengths y)) + (d - 1))"

subsection \<open>Writing\<close>

definition padded :: "nat \<Rightarrow> nat \<Rightarrow> string" where
  "padded w n = (let s = itoa n in replicate (w - length s) CHR ''0'' @ s)"

definition RFC3339 :: "time \<Rightarrow> string" where
  "RFC3339 t = (let s = nat (t div Second); (y, m, d) = civil (s div 86400); sod = s mod 86400
     in padded 4 y @ ''-'' @ padded 2 m @ ''-'' @ padded 2 d @ ''T''
        @ padded 2 (sod div 3600) @ '':'' @ padded 2 (sod div 60 mod 60) @ '':'' @ padded 2 (sod mod 60) @ ''Z'')"

subsection \<open>The two directions of the calendar\<close>

lemma leap_count:
  "(p \<longrightarrow> q) \<Longrightarrow> (q \<longrightarrow> r) \<Longrightarrow> (if r \<and> (\<not> q \<or> p) then 366 else 365) + (b + of_bool q) + a + (c :: nat)
     = 365 + b + (a + of_bool r) + (c + of_bool p)"
  by (cases p; cases q; cases r) simp_all

lemma div_Suc_of_bool: "Suc y div k = y div k + of_bool (Suc y mod k = 0)"
  by (simp add: div_Suc)

lemma days_before_year: "sum_list (map year_days [1..<Suc y]) + y div 100 = 365 * y + y div 4 + y div 400"
proof (induction y)
  case (Suc y)
  have "Suc y mod 400 = 0 \<longrightarrow> Suc y mod 100 = 0" "Suc y mod 100 = 0 \<longrightarrow> Suc y mod 4 = 0"
    by (auto simp: mod_eq_0_iff_dvd elim: dvd_trans [rotated])
  then have "year_days (Suc y) + (Suc y) div 100 + y div 4 + y div 400 = 365 + y div 100 + Suc y div 4 + Suc y div 400"
    unfolding year_days_def leap_year_def div_Suc_of_bool by (rule leap_count)
  moreover have "sum_list (map year_days [1..<Suc (Suc y)]) = sum_list (map year_days [1..<Suc y]) + year_days (Suc y)" by simp
  ultimately show ?case using Suc.IH unfolding mult_Suc_right by linarith
qed simp

lemma year_and_day_sum:
  assumes "year_and_day n = (y, d)"
  shows "365 * y + y div 4 + y div 400 + d = n + y div 100" and "d < year_days (Suc y)"
proof -
  define n400 a n100 b n4 c n1 where v: "n400 = n div 146097" "a = n mod 146097" "n100 = min 3 (a div 36524)" "b = a - 36524 * n100"
    "n4 = b div 1461" "c = b mod 1461" "n1 = min 3 (c div 365)"
  have yd: "y = 400 * n400 + 100 * n100 + 4 * n4 + n1" "d = c - 365 * n1"
    using assms by (simp_all add: year_and_day_def Let_def v)
  have n: "n = 146097 * n400 + a" "a < 146097" by (simp_all add: v)
  have a: "n100 \<le> 3" "a = 36524 * n100 + b" "b < 36524 \<or> n100 = 3 \<and> b \<le> 36524" using n(2) unfolding v(3,4) by linarith+
  have b: "b = 1461 * n4 + c" "c < 1461" by (simp_all add: v(5,6))
  have b': "n4 \<le> 24" "n4 = 24 \<longrightarrow> c < 1460 \<or> n100 = 3" using a(3) b by linarith+
  have c: "n1 \<le> 3" "c = 365 * n1 + d" "d < 365 \<or> n1 = 3 \<and> d \<le> 365" using b(2) yd(2) unfolding v(7) by linarith+
  have q: "y div 4 = 100 * n400 + 25 * n100 + n4" "y div 100 = 4 * n400 + n100" "y div 400 = n400"
    using yd(1) a(1) b'(1) c(1) by linarith+
  show "365 * y + y div 4 + y div 400 + d = n + y div 100"
    unfolding q using yd(1) n(1) a(2) b(1) c(2) by simp
  have "leap_year (Suc y)" if "d = 365"
  proof -
    have n1: "n1 = 3" and m: "Suc y = 400 * n400 + 100 * n100 + 4 * Suc n4" using c that yd(1) by auto
    have "n4 = 24 \<longrightarrow> n100 = 3" using b'(2) c(2) that n1 by auto
    then consider "n4 = 24" "n100 = 3" | "n4 < 24" using b'(1) by linarith
    then show ?thesis
    proof cases
      case 1
      then have "Suc y = 400 * (n400 + 1)" using m by simp
      then show ?thesis unfolding leap_year_def by simp
    next
      case 2
      have "Suc y = 4 * (100 * n400 + 25 * n100 + Suc n4)" using m by simp
      moreover have "Suc y = 100 * (4 * n400 + n100) + 4 * Suc n4" using m by simp
      then have "Suc y mod 100 = (4 * Suc n4) mod 100" by (metis mod_mult_self4)
      ultimately show ?thesis using 2 unfolding leap_year_def by simp
    qed
  qed
  then show "d < year_days (Suc y)" using c(3) by (cases "d = 365") (auto simp: year_days_def)
qed

lemma month_and_day_sum:
  "month_and_day ls m d = (m', d') \<Longrightarrow> m \<le> m' \<and> d = sum_list (take (m' - m) ls) + d'
     \<and> (d < sum_list ls \<longrightarrow> m' - m < length ls \<and> d' < ls ! (m' - m))"
proof (induction ls arbitrary: m d)
  case (Cons l ls)
  show ?case
  proof (cases "d < l")
    case False
    then have "month_and_day ls (Suc m) (d - l) = (m', d')" using Cons.prems by simp
    note ih = Cons.IH [OF this]
    then have "m' - m = Suc (m' - Suc m)" by auto
    then show ?thesis using ih False by auto
  qed (use Cons.prems in auto)
qed simp

text \<open>A day number is written as a date of the calendar and read back as itself.\<close>

lemma day_number_civil: "day_number (civil n) = n"
proof -
  obtain y yd where y: "year_and_day n = (y, yd)" by fastforce
  obtain m d where m: "month_and_day (month_lengths (Suc y)) 1 yd = (m, d)" by fastforce
  have "civil n = (Suc y, m, Suc d)" using y m by (simp add: civil_def)
  then show ?thesis
    using year_and_day_sum(1) [OF y] days_before_year [of y] month_and_day_sum [OF m]
    by (simp add: day_number_def del: upt_Suc)
qed

lemma civil_valid:
  assumes "civil n = (y, m, d)"
  shows "1 \<le> y \<and> 1 \<le> m \<and> m \<le> 12 \<and> 1 \<le> d \<and> d \<le> month_lengths y ! (m - 1)"
proof -
  obtain x yd where x: "year_and_day n = (x, yd)" by fastforce
  have s: "sum_list (month_lengths z) = year_days z" for z by (simp add: month_lengths_def year_days_def)
  have l: "length (month_lengths z) = 12" for z by (simp add: month_lengths_def)
  obtain m' d' where m: "month_and_day (month_lengths (Suc x)) 1 yd = (m', d')" by fastforce
  have "(y, m, d) = (Suc x, m', Suc d')" using assms x m by (simp add: civil_def)
  then show ?thesis
    using month_and_day_sum [OF m] year_and_day_sum(2) [OF x] by (auto simp: s l)
qed

lemma civil_samples: "civil 719162 = (1970, 1, 1)" "civil 738944 = (2024, 2, 29)"
  by (simp_all add: civil_def year_and_day_def month_lengths_def leap_year_def)

end
