(* ===== verification/DeviceApi.thy ===== *)
theory DeviceApi
  imports DeviceFlow GoTime
begin

text \<open>
  The interface of the enrolled devices (\<open>device_api.go\<close>, \<open>device_notify.go\<close>, \<open>pat_handler.go\<close>): enrolment, what a device
  asks about itself and about users, key rotation, posture, its personal access tokens, and its withdrawal. The device
  assertion is in the token endpoint. A notice is recorded as the address and the link its mail carries.
\<close>

subsection \<open>Bodies\<close>

text \<open>The members of the object at the head of a text, each with the text of its value, and \<open>null\<close> as no member.
  \<open>json.Decoder\<close> reads no further than the end of the value, and the reader gives it at most \<open>limit\<close> bytes.\<close>

fun raw_members :: "nat \<Rightarrow> string \<Rightarrow> (string \<times> string) list option" where
  "raw_members 0 s = None"
| "raw_members (Suc n) s0 = (case skip_ws s0 of [] \<Rightarrow> None
     | c # r \<Rightarrow>
       if c \<noteq> quote then None
       else (case json_chars r of None \<Rightarrow> None
         | Some (k, r1) \<Rightarrow>
           if \<not> HasPrefix (skip_ws r1) '':'' then None
           else (let v0 = skip_ws (tl (skip_ws r1)) in
             case json_value (length v0 + 1) v0 of None \<Rightarrow> None
             | Some (_, r2) \<Rightarrow>
               let raw = take (length v0 - length r2) v0 in
               if HasPrefix (skip_ws r2) '','' then map_option (\<lambda>ms. (k, raw) # ms) (raw_members n (tl (skip_ws r2)))
               else if HasPrefix (skip_ws r2) ''}'' then Some [(k, raw)]
               else None)))"

definition raw_object :: "string \<Rightarrow> (string \<times> string) list option" where
  "raw_object s0 = (case skip_ws s0 of [] \<Rightarrow> None
     | c # r \<Rightarrow> if HasPrefix (c # r) ''null'' then Some []
         else if c \<noteq> CHR ''{'' then None
         else if HasPrefix (skip_ws r) ''}'' then Some []
         else raw_members (length r) r)"

definition request_body :: "nat \<Rightarrow> request \<Rightarrow> string" where
  "request_body limit r = take limit (rq_Body r)"

text \<open>How a struct is filled: each member sets the field of its name, compared without regard to case; a member of
  another name is ignored, and a value a field cannot hold is an error.\<close>

type_synonym 'a field = "string \<Rightarrow> 'a \<Rightarrow> 'a option"

fun fill :: "(string \<times> 'a field) list \<Rightarrow> (string \<times> string) list \<Rightarrow> 'a \<Rightarrow> 'a option" where
  "fill fs [] x = Some x"
| "fill fs ((k, raw) # ms) x = (case map_of fs (fold_name k) of None \<Rightarrow> fill fs ms x
     | Some f \<Rightarrow> (case f raw x of None \<Rightarrow> None | Some y \<Rightarrow> fill fs ms y))"

definition text_field :: "(string \<Rightarrow> 'a \<Rightarrow> 'a) \<Rightarrow> 'a field" where
  "text_field put raw x = (case json_decode raw of Some (JStr s) \<Rightarrow> Some (put s x) | Some JNull \<Rightarrow> Some x | _ \<Rightarrow> None)"

text \<open>An \<open>int64\<close> takes a number without fraction and exponent that fits; \<open>json.RawMessage\<close> takes the text.\<close>

definition int64_field :: "(int \<Rightarrow> 'a \<Rightarrow> 'a) \<Rightarrow> 'a field" where
  "int64_field put raw x = (case json_decode raw of Some JNull \<Rightarrow> Some x
     | Some (JNum _) \<Rightarrow> map_option (\<lambda>i. put i x) (Atoi raw) | _ \<Rightarrow> None)"

definition raw_field :: "(string \<Rightarrow> 'a \<Rightarrow> 'a) \<Rightarrow> 'a field" where
  "raw_field put raw x = Some (put raw x)"

definition decode_body :: "nat \<Rightarrow> (string \<times> 'a field) list \<Rightarrow> 'a \<Rightarrow> request \<Rightarrow> 'a option" where
  "decode_body limit fs zero r = (case raw_object (request_body limit r) of None \<Rightarrow> None | Some ms \<Rightarrow> fill fs ms zero)"

subsection \<open>Devices on the wire\<close>

definition evtDeviceEnrollCompleted :: string where "evtDeviceEnrollCompleted = ''device.enrollment.completed''"
definition evtDeviceEnrollFailed :: string where "evtDeviceEnrollFailed = ''device.enrollment.failed''"
definition evtDeviceKeyRotated :: string where "evtDeviceKeyRotated = ''device.key.rotated''"
definition evtDeviceRevoked :: string where "evtDeviceRevoked = ''device.revoked''"
definition evtDeviceTrustChanged :: string where "evtDeviceTrustChanged = ''device.trust.changed''"

definition omitempty :: "string \<Rightarrow> string \<Rightarrow> (string \<times> json) list" where
  "omitempty k v = (if v = [] then [] else [member k v])"

definition instant :: "string \<Rightarrow> time \<Rightarrow> (string \<times> json) list" where
  "instant k t = (if IsZero t then [] else [member k (RFC3339 t)])"

definition deviceToJSON :: "Device \<Rightarrow> string \<Rightarrow> (string \<times> json) list" where
  "deviceToJSON d ownerName =
     [member ''device_id'' (dev_ID d), member ''name'' (dev_Name d), member ''hostname'' (dev_Hostname d),
      member ''platform'' (dev_Platform d), member ''architecture'' (dev_Architecture d),
      member ''fingerprint'' (dev_Fingerprint d), member ''public_key_algorithm'' (dev_PublicKeyAlgorithm d),
      member ''status'' (dev_Status d), member ''trust_level'' (dev_TrustLevel d)]
     @ omitempty ''key_backend'' (dev_KeyBackend d)
     @ (case parsePosture (dev_Posture d) of None \<Rightarrow> [] | Some p \<Rightarrow> [(''posture'', posture_json p)])
     @ instant ''posture_at'' (dev_PostureAt d)
     @ [member ''owner_sub'' (dev_OwnerUserID d)] @ omitempty ''owner_username'' ownerName
     @ [(''owner_only'', JBool (dev_OwnerOnly d))]
     @ instant ''enrolled_at'' (dev_EnrolledAt d) @ instant ''last_seen_at'' (dev_LastSeenAt d)
     @ instant ''revoked_at'' (dev_RevokedAt d)"

definition knownKeyBackends :: "string list" where
  "knownKeyBackends = [KeyBackendFile, KeyBackendDPAPI, KeyBackendTPM, KeyBackendSecureEnclave, KeyBackendStrongBox, KeyBackendAndroidTEE]"

definition normalizeKeyBackend :: "string \<Rightarrow> string" where
  "normalizeKeyBackend v = (let b = ToLower (TrimSpace v) in if b \<in> set knownKeyBackends then b else [])"

subsection \<open>device\_notify.go\<close>

text \<open>The mails are sent in the background; an administrator is told only of a device that awaits approval.\<close>

definition sendNotice :: "string \<Rightarrow> string \<Rightarrow> unit prog" where
  "sendNotice to link = (if to = [] then done_with () else modify (\<lambda>st. st\<lparr>st_mails := st_mails st @ [(to, link)]\<rparr>))"

fun notify_admins :: "User \<Rightarrow> string \<Rightarrow> User list \<Rightarrow> unit prog" where
  "notify_admins owner link [] = done_with ()"
| "notify_admins owner link (a # as) = do {
     _ \<leftarrow> (if \<not> usr_IsAdmin a \<or> usr_Disabled a \<or> usr_Email a = [] \<or> usr_ID a = usr_ID owner then done_with ()
        else sendNotice (usr_Email a) link);
     notify_admins owner link as }"

definition notifyDeviceEnrolled :: "server \<Rightarrow> Device \<Rightarrow> User \<Rightarrow> unit prog" where
  "notifyDeviceEnrolled srv dev owner = (if \<not> srv_mailEnabled srv then done_with () else do {
     cur \<leftarrow> settings_Current;
     let base = TrimRight CHR ''/'' (sv_PublicURL cur);
     _ \<leftarrow> sendNotice (usr_Email owner) (base @ ''/account/devices'');
     (if \<not> IsPending dev then done_with () else do {
       users \<leftarrow> ask ListUsers;
       notify_admins owner (base @ ''/admin/devices/'' @ dev_ID dev) (case users of Inl _ \<Rightarrow> [] | Inr us \<Rightarrow> us) }) })"

definition notifyDeviceApproved :: "server \<Rightarrow> Device \<Rightarrow> unit prog" where
  "notifyDeviceApproved srv dev = (if \<not> srv_mailEnabled srv then done_with () else do {
     cur \<leftarrow> settings_Current;
     owner \<leftarrow> ask (GetUserByID (dev_OwnerUserID dev));
     (case owner of Inl _ \<Rightarrow> done_with ()
      | Inr u \<Rightarrow> sendNotice (usr_Email u) (TrimRight CHR ''/'' (sv_PublicURL cur) @ ''/account/devices'')) })"
subsection \<open>Enrolment\<close>

record enrollBody =
  eb_KeyBackend :: string
  eb_Name :: string
  eb_Hostname :: string
  eb_Platform :: string
  eb_Architecture :: string

definition enroll_fields :: "(string \<times> enrollBody field) list" where
  "enroll_fields = [(''key_backend'', text_field (\<lambda>v b. b\<lparr>eb_KeyBackend := v\<rparr>)), (''name'', text_field (\<lambda>v b. b\<lparr>eb_Name := v\<rparr>)),
     (''hostname'', text_field (\<lambda>v b. b\<lparr>eb_Hostname := v\<rparr>)), (''platform'', text_field (\<lambda>v b. b\<lparr>eb_Platform := v\<rparr>)),
     (''architecture'', text_field (\<lambda>v b. b\<lparr>eb_Architecture := v\<rparr>))]"

definition empty_enroll :: enrollBody where
  "empty_enroll = \<lparr>eb_KeyBackend = [], eb_Name = [], eb_Hostname = [], eb_Platform = [], eb_Architecture = []\<rparr>"

definition maxDeviceAPIBody :: nat where "maxDeviceAPIBody = 65536"

definition enroll_failed :: "request \<Rightarrow> int \<Rightarrow> string \<Rightarrow> string \<Rightarrow> string \<Rightarrow> response prog" where
  "enroll_failed r status code desc detail = do {
     _ \<leftarrow> recordDeviceEnrollment ''failure'';
     _ \<leftarrow> audit r evtDeviceEnrollFailed (entry0\<lparr>ae_detail := detail\<rparr>);
     done_with (apiError status code desc) }"

text \<open>The row of a new device: the names, cut to their lengths, the key of the proof, and the status.\<close>

definition shown_name :: "enrollBody \<Rightarrow> string" where
  "shown_name b =
    (let hostname = truncate_bytes (TrimSpace (eb_Hostname b)) 253; name = truncate_bytes (TrimSpace (eb_Name b)) maxDeviceNameLength
     in if name \<noteq> [] then name else if hostname \<noteq> [] then hostname else ''Unnamed device'')"

definition enrolled_device :: "request \<Rightarrow> bool \<Rightarrow> User \<Rightarrow> Proof \<Rightarrow> string \<Rightarrow> enrollBody \<Rightarrow> Device" where
  "enrolled_device r approval user proof canon b = \<lparr>
     dev_ID = rq_uuid r ''device'', dev_OwnerUserID = usr_ID user, dev_Name = shown_name b,
     dev_Hostname = truncate_bytes (TrimSpace (eb_Hostname b)) 253,
     dev_Platform = truncate_bytes (ToLower (TrimSpace (eb_Platform b))) maxDevicePlatformField,
     dev_Architecture = truncate_bytes (ToLower (TrimSpace (eb_Architecture b))) maxDevicePlatformField,
     dev_PublicKey = canon, dev_PublicKeyAlgorithm = pr_Alg proof, dev_Fingerprint = pr_JKT proof, dev_PreviousFingerprint = [],
     dev_Status = (if approval then DeviceStatusPending else DeviceStatusActive),
     dev_TrustLevel = TrustForKeyBackend (normalizeKeyBackend (eb_KeyBackend b)), dev_KeyBackend = normalizeKeyBackend (eb_KeyBackend b),
     dev_Posture = [], dev_PostureAt = 0, dev_OwnerOnly = False, dev_CreatedAt = rq_now r,
     dev_EnrolledAt = (if approval then 0 else rq_now r), dev_LastSeenAt = 0, dev_RevokedAt = 0\<rparr>"

definition enroll_key :: "server \<Rightarrow> request \<Rightarrow> VerifiedToken \<Rightarrow> User \<Rightarrow> Proof \<Rightarrow> enrollBody \<Rightarrow> response prog" where
  "enroll_key srv r vt user proof b =
    (case canonical (pr_JWK proof) of
       Inl _ \<Rightarrow> enroll_failed r 400 ''invalid_request'' ''unsupported key'' ''bad jwk''
     | Inr canon \<Rightarrow> do {
     used \<leftarrow> ask (FingerprintInUse (pr_JKT proof));
     (case used of
        Inl _ \<Rightarrow> done_with (apiError 500 ''server_error'' ''could not check key'')
      | Inr True \<Rightarrow> enroll_failed r 409 ''key_already_registered''
          ''this key is already registered to a device (revoked keys cannot be re-enrolled)'' ''fingerprint reuse''
      | Inr False \<Rightarrow> do {
     cur \<leftarrow> settings_Current;
     let dev = enrolled_device r (sv_RequireDeviceApproval cur) user proof canon b;
     created \<leftarrow> stmt (CreateDevice dev);
     (case created of
        Inl _ \<Rightarrow> enroll_failed r 409 ''key_already_registered'' ''this key is already registered'' ''create failed''
      | Inr _ \<Rightarrow> do {
     _ \<leftarrow> recordDeviceEnrollment ''success'';
     _ \<leftarrow> audit r evtDeviceEnrollCompleted (issued_entry user (vt_Audience vt)
       (''device='' @ dev_ID dev @ '' alg='' @ dev_PublicKeyAlgorithm dev @ '' status='' @ dev_Status dev));
     _ \<leftarrow> notifyDeviceEnrolled srv dev user;
     done_with (Json 201 (deviceToJSON dev (usr_Username user))) }) }) })"

definition handleEnrollDevice :: "server \<Rightarrow> request \<Rightarrow> response prog" where
  "handleEnrollDevice srv r =
    (let (scheme, raw) = authorizationToken r in
     if raw = [] \<or> \<not> token_scheme srv scheme
     then enroll_failed r 401 ''invalid_token'' ''missing access token'' ''no token''
     else do {
     cur \<leftarrow> settings_Current;
     (case Verify (srv_lib srv) (srv_keys srv) (issuerConfig cur) (rq_now r) raw of
        None \<Rightarrow> enroll_failed r 401 ''invalid_token'' ''invalid or expired access token'' ''bad token''
      | Some vt \<Rightarrow>
     if \<not> IsAccessToken vt then enroll_failed r 401 ''invalid_token'' ''invalid or expired access token'' ''bad token''
     else if \<not> HasScope (vt_Scope vt) ScopeDeviceEnroll
     then enroll_failed r 403 ''insufficient_scope'' ''the device:enroll scope is required'' ''missing scope''
     else if vt_JKT vt = []
     then enroll_failed r 401 ''invalid_token'' ''enrollment requires a DPoP-bound access token'' ''unbound token''
     else do {
     checked \<leftarrow> verifyDPoP srv r (rq_DPoP r) raw;
     (case checked of
        Inl e \<Rightarrow> enroll_failed r 401 ''invalid_dpop_proof'' (dpop_text srv e) ''bad proof''
      | Inr proof \<Rightarrow>
     if pr_JKT proof \<noteq> vt_JKT vt
     then enroll_failed r 401 ''invalid_dpop_proof'' ''proof key does not match the token binding'' ''key substitution''
     else do {
     found \<leftarrow> ask (GetUserByID (vt_Subject vt));
     (case found of
        Inl _ \<Rightarrow> enroll_failed r 401 ''invalid_token'' ''user is not available'' ''user unavailable''
      | Inr user \<Rightarrow>
     if usr_Disabled user then enroll_failed r 401 ''invalid_token'' ''user is not available'' ''user unavailable''
     else (case decode_body maxDeviceAPIBody enroll_fields empty_enroll r of
        None \<Rightarrow> enroll_failed r 400 ''invalid_request'' ''malformed JSON body'' ''bad body''
      | Some b \<Rightarrow> enroll_key srv r vt user proof b)) }) }) })"

subsection \<open>What a device asks\<close>

definition requireDevice :: "server \<Rightarrow> (Device \<Rightarrow> response prog) \<Rightarrow> request \<Rightarrow> response prog" where
  "requireDevice srv next r = do {
     v \<leftarrow> authenticateDeviceRequest srv r None;
     (case v of Inl e \<Rightarrow> done_with (apiError 401 ''invalid_token'' (resource_text srv e)) | Inr dev \<Rightarrow> next dev) }"

definition handleDeviceUserLookup :: "request \<Rightarrow> Device \<Rightarrow> response prog" where
  "handleDeviceUserLookup r dev =
    (let name = ToLower (TrimSpace (QueryGet r ''username'')) in
     if name = [] \<or> 64 < length name then done_with (apiError 400 ''invalid_request'' ''username is required'')
     else do {
     u \<leftarrow> ask (GetUserByUsername name);
     done_with (case (case u of Inl _ \<Rightarrow> None | Inr user \<Rightarrow> if usr_Disabled user then None else Some user) of
         None \<Rightarrow> apiError 404 ''not_found'' ''no such user''
       | Some user \<Rightarrow> Json 200 [member ''sub'' (usr_ID user), member ''username'' (usr_Username user), member ''email'' (usr_Email user)]) })"

definition handleDeviceMe :: "request \<Rightarrow> Device \<Rightarrow> response prog" where
  "handleDeviceMe r dev = do {
     u \<leftarrow> ask (GetUserByID (dev_OwnerUserID dev));
     done_with (Json 200 (deviceToJSON dev (case u of Inl _ \<Rightarrow> [] | Inr user \<Rightarrow> usr_Username user))) }"
subsection \<open>Key rotation\<close>

record rotateBody =
  rb_JWK :: string
  rb_Proof :: string
  rb_KeyBackend :: string

definition rotate_fields :: "(string \<times> rotateBody field) list" where
  "rotate_fields = [(''jwk'', raw_field (\<lambda>v b. b\<lparr>rb_JWK := v\<rparr>)), (''proof'', text_field (\<lambda>v b. b\<lparr>rb_Proof := v\<rparr>)),
     (''key_backend'', text_field (\<lambda>v b. b\<lparr>rb_KeyBackend := v\<rparr>))]"

definition ok_or :: "'a \<Rightarrow> 'e + 'a \<Rightarrow> 'a" where
  "ok_or d x = (case x of Inl _ \<Rightarrow> d | Inr y \<Rightarrow> y)"

text \<open>The device as the answer shows it.\<close>

definition rotated_device :: "Device \<Rightarrow> string \<Rightarrow> string \<Rightarrow> string \<Rightarrow> string \<Rightarrow> string \<Rightarrow> Device" where
  "rotated_device dev canon alg fp backend trust =
    (let v = dev\<lparr>dev_PublicKey := canon, dev_PublicKeyAlgorithm := alg, dev_PreviousFingerprint := dev_Fingerprint dev, dev_Fingerprint := fp\<rparr>
     in if backend \<noteq> [] then v\<lparr>dev_KeyBackend := backend, dev_TrustLevel := trust\<rparr> else v)"

definition trust_after :: "Device \<Rightarrow> string \<Rightarrow> string" where
  "trust_after dev backend = (if backend \<noteq> [] then TrustForKeyBackend backend else dev_TrustLevel dev)"

definition owner_entry :: "Device \<Rightarrow> string \<Rightarrow> auditEntry" where
  "owner_entry dev detail = entry0\<lparr>ae_actorUserID := dev_OwnerUserID dev, ae_success := True, ae_detail := detail\<rparr>"

text \<open>The second half: the replay check, the new fingerprint, the row.\<close>

definition rotate_to :: "request \<Rightarrow> Device \<Rightarrow> JWK \<Rightarrow> Assertion \<Rightarrow> string \<Rightarrow> response prog" where
  "rotate_to r dev key a backend =
    (let newFP = ok_or [] (Thumbprint key); newAlg = ok_or [] (JWK_Algorithm key); canon = ok_or [] (canonical key);
         trust = trust_after dev backend in do {
     fresh \<leftarrow> stmt (ConsumeJTI (JTIHash newFP (as_JTI a)) (dev_ID dev) (as_ExpiresAt a + DefaultSkew) (rq_now r));
     if fresh \<noteq> Inr True then done_with (apiError 400 ''invalid_grant'' ''proof replayed'')
     else do {
     used \<leftarrow> ask (FingerprintInUse newFP);
     if used \<noteq> Inr False then done_with (apiError 409 ''key_already_registered'' ''the new key is already registered'')
     else do {
     rotated \<leftarrow> stmt (RotateDeviceKey (dev_ID dev) canon newAlg newFP backend trust);
     (case rotated of
        Inl _ \<Rightarrow> done_with (apiError 409 ''invalid_grant'' ''device is not active'')
      | Inr _ \<Rightarrow> do {
     let plain = ''device='' @ dev_ID dev @ '' alg='' @ newAlg;
     let changed = backend \<noteq> [] \<and> trust \<noteq> dev_TrustLevel dev;
     let detail = (if changed then plain @ '' key_backend='' @ backend @ '' trust='' @ dev_TrustLevel dev @ ''->'' @ trust else plain);
     _ \<leftarrow> (if changed then audit r evtDeviceTrustChanged (owner_entry dev detail) else done_with ());
     _ \<leftarrow> audit r evtDeviceKeyRotated (owner_entry dev detail);
     done_with (Json 200 (deviceToJSON (rotated_device dev canon newAlg newFP backend trust) [])) }) } } })"

text \<open>\<open>jwktext\<close> is the text of an error of \<open>pop.ParseJWK\<close>.\<close>

definition handleDeviceRotateKey :: "(jwk_err \<Rightarrow> string) \<Rightarrow> server \<Rightarrow> request \<Rightarrow> Device \<Rightarrow> response prog" where
  "handleDeviceRotateKey jwktext srv r dev =
    (case decode_body maxDeviceAPIBody rotate_fields \<lparr>rb_JWK = [], rb_Proof = [], rb_KeyBackend = []\<rparr> r of
       None \<Rightarrow> done_with (apiError 400 ''invalid_request'' ''malformed JSON body'')
     | Some b \<Rightarrow> (case ParseJWK (rb_JWK b) of
       Inl e \<Rightarrow> done_with (apiError 400 ''invalid_request'' (''invalid jwk: '' @ jwktext e))
     | Inr key \<Rightarrow> do {
     cur \<leftarrow> settings_Current;
     (case try_audiences (\<lambda>aud. VerifyAssertion (srv_lib srv) (rq_now r)
              (assertion_opts (ok_or_none (JWK_PublicKey key)) (ok_or [] (JWK_Algorithm key)) aud) (rb_Proof b)) (serverURLsFor srv cur r) of
        Inl e \<Rightarrow> done_with (apiError 400 ''invalid_grant'' (''new-key proof rejected: '' @ srv_errtext srv e))
      | Inr a \<Rightarrow>
     if as_Subject a \<noteq> dev_ID dev then done_with (apiError 400 ''invalid_grant'' ''proof subject must be the device id'')
     else if str_of (as_Claims a ''old_jkt'') \<noteq> dev_Fingerprint dev
     then done_with (apiError 400 ''invalid_grant'' ''proof must name the current key fingerprint in old_jkt'')
     else rotate_to r dev key a (normalizeKeyBackend (rb_KeyBackend b))) }))"

subsection \<open>Withdrawal\<close>

definition handleDeviceUnenroll :: "server \<Rightarrow> request \<Rightarrow> Device \<Rightarrow> response prog" where
  "handleDeviceUnenroll srv r dev = do {
     res \<leftarrow> stmt (RevokeDevice (dev_ID dev) (rq_now r));
     (case res of
        Inl _ \<Rightarrow> done_with (apiError 409 ''invalid_grant'' ''device is not active'')
      | Inr _ \<Rightarrow> do {
     _ \<leftarrow> audit r evtDeviceRevoked (owner_entry dev (''device='' @ dev_ID dev @ '' by=device''));
     _ \<leftarrow> pushRevocation srv r (dev_OwnerUserID dev) (dev_ID dev) ''device unenrolled'';
     done_with (Json 200 [member ''status'' DeviceStatusRevoked]) }) }"

subsection \<open>Posture\<close>

text \<open>\<open>json.Marshal\<close> of a posture; empty fields are left out.\<close>

definition flag_text :: "bool \<Rightarrow> string" where
  "flag_text b = (if b then ''true'' else ''false'')"

definition posture_members :: "DevicePosture \<Rightarrow> (string \<times> string) list" where
  "posture_members p =
     (if po_OSName p \<noteq> [] then [(''os_name'', jstr (po_OSName p))] else [])
     @ (if po_OSVersion p \<noteq> [] then [(''os_version'', jstr (po_OSVersion p))] else [])
     @ (case po_DiskEncrypted p of None \<Rightarrow> [] | Some b \<Rightarrow> [(''disk_encrypted'', flag_text b)])
     @ (case po_ScreenLock p of None \<Rightarrow> [] | Some b \<Rightarrow> [(''screen_lock'', flag_text b)])
     @ (if po_KeyBackend p \<noteq> [] then [(''key_backend'', jstr (po_KeyBackend p))] else [])"

definition object_text :: "(string \<times> string) list \<Rightarrow> string" where
  "object_text ms = ''{'' @ intercalate '','' (map (\<lambda>(k, v). jstr k @ '':'' @ v) ms) @ ''}''"

definition marshalPosture :: "DevicePosture \<Rightarrow> string" where
  "marshalPosture p = object_text (posture_members p)"

definition cleaned_posture :: "DevicePosture \<Rightarrow> DevicePosture" where
  "cleaned_posture p = p\<lparr>po_OSName := truncate_bytes (TrimSpace (po_OSName p)) 64,
     po_OSVersion := truncate_bytes (TrimSpace (po_OSVersion p)) 64, po_KeyBackend := normalizeKeyBackend (po_KeyBackend p)\<rparr>"

text \<open>A posture read from a stream: its first value.\<close>

definition posture_body :: "request \<Rightarrow> DevicePosture option" where
  "posture_body r = (case json_decode_first (request_body 4096 r) of None \<Rightarrow> None | Some v \<Rightarrow> posture_of_json v)"

definition handleDevicePosture :: "request \<Rightarrow> Device \<Rightarrow> response prog" where
  "handleDevicePosture r dev =
    (case posture_body r of
       None \<Rightarrow> done_with (apiError 400 ''invalid_request'' ''malformed JSON body'')
     | Some p0 \<Rightarrow>
     let p = cleaned_posture p0; trust = trust_after dev (po_KeyBackend p) in do {
     res \<leftarrow> stmt (SetDevicePosture (dev_ID dev) (marshalPosture p) (rq_now r) (po_KeyBackend p) trust);
     (case res of
        Inl _ \<Rightarrow> done_with (apiError 500 ''server_error'' ''could not store posture'')
      | Inr _ \<Rightarrow> do {
     _ \<leftarrow> (if trust \<noteq> dev_TrustLevel dev
          then audit r evtDeviceTrustChanged (owner_entry dev (''device='' @ dev_ID dev @ '' key_backend='' @ po_KeyBackend p
            @ '' trust '' @ dev_TrustLevel dev @ '' -> '' @ trust))
          else done_with ());
     done_with (Json 200 [member ''trust_level'' trust, member ''posture_at'' (RFC3339 (rq_now r))]) }) })"
subsection \<open>pat\_handler.go\<close>

definition patDefaultTTL :: duration where "patDefaultTTL = 90 * 24 * Hour"
definition patMaxTTL :: duration where "patMaxTTL = 365 * 24 * Hour"
definition patMinTTL :: duration where "patMinTTL = Hour"

record createPATRequest =
  pb_Name :: string
  pb_Audience :: string
  pb_Scope :: string
  pb_ExpiresIn :: int
  pb_RefreshToken :: string

definition pat_fields :: "(string \<times> createPATRequest field) list" where
  "pat_fields = [(''name'', text_field (\<lambda>v b. b\<lparr>pb_Name := v\<rparr>)), (''audience'', text_field (\<lambda>v b. b\<lparr>pb_Audience := v\<rparr>)),
     (''scope'', text_field (\<lambda>v b. b\<lparr>pb_Scope := v\<rparr>)), (''expires_in'', int64_field (\<lambda>v b. b\<lparr>pb_ExpiresIn := v\<rparr>)),
     (''refresh_token'', text_field (\<lambda>v b. b\<lparr>pb_RefreshToken := v\<rparr>))]"

definition empty_pat_body :: createPATRequest where
  "empty_pat_body = \<lparr>pb_Name = [], pb_Audience = [], pb_Scope = [], pb_ExpiresIn = 0, pb_RefreshToken = []\<rparr>"

text \<open>The product of seconds and the unit of a duration is taken in 64 bits, and the result is clamped.\<close>

definition pat_ttl :: "int \<Rightarrow> duration" where
  "pat_ttl expiresIn =
    (let ttl0 = (if 0 < expiresIn then mul_int64 expiresIn Second else patDefaultTTL);
         ttl1 = (if ttl0 < patMinTTL then patMinTTL else ttl0)
     in if patMaxTTL < ttl1 then patMaxTTL else ttl1)"

definition patView :: "PersonalAccessToken \<Rightarrow> string \<Rightarrow> (string \<times> json) list" where
  "patView p token = [member ''id'' (pat_ID p), member ''name'' (pat_Name p), member ''audience'' (pat_ClientID p),
       member ''scope'' (pat_Scope p), member ''created_at'' (RFC3339 (pat_CreatedAt p)), member ''expires_at'' (RFC3339 (pat_ExpiresAt p))]
     @ (case pat_LastUsedAt p of None \<Rightarrow> [] | Some t \<Rightarrow> [member ''last_used_at'' (RFC3339 t)]) @ omitempty ''token'' token"

definition new_pat :: "request \<Rightarrow> Device \<Rightarrow> User \<Rightarrow> Client \<Rightarrow> createPATRequest \<Rightarrow> string \<Rightarrow> PersonalAccessToken" where
  "new_pat r dev user target b scope = \<lparr>pat_ID = rq_uuid r ''pat'', pat_UserID = usr_ID user, pat_DeviceID = dev_ID dev,
     pat_ClientID = cl_ClientID target, pat_Name = truncate_bytes (TrimSpace (pb_Name b)) 100, pat_Scope = scope,
     pat_CreatedAt = rq_now r, pat_ExpiresAt = rq_now r + pat_ttl (pb_ExpiresIn b), pat_LastUsedAt = None, pat_RevokedAt = None\<rparr>"

definition issue_pat :: "server \<Rightarrow> request \<Rightarrow> Device \<Rightarrow> RefreshToken \<Rightarrow> User \<Rightarrow> Client \<Rightarrow> createPATRequest \<Rightarrow> string \<Rightarrow> response prog" where
  "issue_pat srv r dev rt user target b scope = do {
     cur \<leftarrow> settings_Current;
     (case IssuePersonalAccessToken (srv_lib srv) (srv_keys srv) (issuerConfig cur) (rq_now r) (usr_ID user) (cl_ClientID target) scope
             (rq_uuid r ''pat'') (pat_ttl (pb_ExpiresIn b)) (delegation_claims dev rt user scope) of
        None \<Rightarrow> done_with (apiError 500 ''server_error'' ''could not issue token'')
      | Some token \<Rightarrow> do {
     saved \<leftarrow> stmt (CreatePAT (new_pat r dev user target b scope));
     (case saved of
        Inl _ \<Rightarrow> done_with (apiError 500 ''server_error'' ''could not record token'')
      | Inr _ \<Rightarrow> do {
     _ \<leftarrow> recordToken ''access'';
     _ \<leftarrow> audit r evtTokenIssued (issued_entry user (cl_ClientID target)
       (''personal_access_token device='' @ dev_ID dev @ '' jti='' @ rq_uuid r ''pat''));
     done_with (Json 200 (patView (new_pat r dev user target b scope) token)) }) }) }"

definition handleCreatePAT :: "server \<Rightarrow> request \<Rightarrow> Device \<Rightarrow> response prog" where
  "handleCreatePAT srv r dev =
    (case decode_body 8192 pat_fields empty_pat_body r of
       None \<Rightarrow> done_with (apiError 400 ''invalid_request'' ''malformed JSON body'')
     | Some b \<Rightarrow>
     let audience = TrimSpace (pb_Audience b) in
     if audience = [] then done_with (apiError 400 ''invalid_request'' ''audience is required'')
     else if pb_RefreshToken b = []
     then done_with (apiError 400 ''invalid_request'' ''refresh_token is required to prove the signed-in user'')
     else do {
     stored \<leftarrow> ask (GetRefreshTokenByHash (HashToken (pb_RefreshToken b)));
     (case (case stored of Inl _ \<Rightarrow> None | Inr rt \<Rightarrow> if rt_Revoked rt \<or> After (rq_now r) (rt_ExpiresAt rt) then None else Some rt) of
        None \<Rightarrow> done_with (apiError 401 ''invalid_grant'' ''refresh_token is not valid'')
      | Some rt \<Rightarrow>
     if rt_DeviceID rt \<noteq> dev_ID dev \<or> rt_DPoPJKT rt \<noteq> dev_Fingerprint dev
     then done_with (apiError 401 ''invalid_grant'' ''refresh_token is not bound to this device'')
     else do {
     found \<leftarrow> ask (GetUserByID (rt_UserID rt));
     (case (case found of Inl _ \<Rightarrow> None | Inr u \<Rightarrow> if usr_Disabled u then None else Some u) of
        None \<Rightarrow> done_with (apiError 401 ''invalid_grant'' ''user is not available'')
      | Some user \<Rightarrow> do {
     aud \<leftarrow> ask (GetClient audience);
     (case (case aud of Inl _ \<Rightarrow> None | Inr c \<Rightarrow> if cl_Disabled c then None else Some c) of
        None \<Rightarrow> done_with (apiError 400 ''invalid_target'' ''unknown audience'')
      | Some target \<Rightarrow> (case delegated_scope (pb_Scope b) (rt_Scope rt) (cl_AllowedScopes target) of
        None \<Rightarrow> done_with (apiError 400 ''invalid_scope'' ''scope must be within the user's grant and the audience's allowed scopes'')
      | Some scope \<Rightarrow> issue_pat srv r dev rt user target b scope)) }) }) })"

definition handleListPATs :: "request \<Rightarrow> Device \<Rightarrow> response prog" where
  "handleListPATs r dev = do {
     found \<leftarrow> ask (ListActivePATsForDevice (dev_ID dev) (rq_now r));
     done_with (case found of Inl _ \<Rightarrow> apiError 500 ''server_error'' ''could not list tokens''
       | Inr pats \<Rightarrow> Json 200 [(''tokens'', JArr (map (\<lambda>p. JObj (patView p [])) pats))]) }"

definition PathValue :: "request \<Rightarrow> string \<Rightarrow> string" where
  "PathValue r k = first_value (rq_PathValue r) k"

definition handleRevokePAT :: "request \<Rightarrow> Device \<Rightarrow> response prog" where
  "handleRevokePAT r dev = (let i = PathValue r ''id'' in do {
     res \<leftarrow> stmt (RevokePATForDevice i (dev_ID dev) (rq_now r));
     (case res of
        Inl _ \<Rightarrow> done_with (apiError 500 ''server_error'' ''could not revoke token'')
      | Inr False \<Rightarrow> done_with (apiError 404 ''not_found'' ''no such active token on this device'')
      | Inr True \<Rightarrow> do {
     _ \<leftarrow> audit r evtTokenRevoked (owner_entry dev (''personal_access_token device='' @ dev_ID dev @ '' jti='' @ i));
     done_with (Json 200 [member ''revoked'' i]) }) })"

definition handleRevokedTokens :: "request \<Rightarrow> response prog" where
  "handleRevokedTokens r = do {
     found \<leftarrow> ask (RevokedPATJTIs (rq_now r));
     done_with (case found of Inl _ \<Rightarrow> apiError 500 ''server_error'' ''could not list revoked tokens''
       | Inr jtis \<Rightarrow> Json 200 [(''jtis'', JArr (map JStr jtis)), member ''as_of'' (RFC3339 (rq_now r))]) }"

subsection \<open>The routes\<close>

text \<open>The device routes of the table of \<open>server.go\<close>, each behind the device guard.\<close>

datatype device_route = GetMe | LookupUser | RotateKey | Unenroll | PostPosture | CreateToken | ListTokens | RevokeToken

definition device_route :: "(jwk_err \<Rightarrow> string) \<Rightarrow> server \<Rightarrow> device_route \<Rightarrow> request \<Rightarrow> response prog" where
  "device_route jwktext srv route r = requireDevice srv (case route of
     GetMe \<Rightarrow> handleDeviceMe r | LookupUser \<Rightarrow> handleDeviceUserLookup r | RotateKey \<Rightarrow> handleDeviceRotateKey jwktext srv r
   | Unenroll \<Rightarrow> handleDeviceUnenroll srv r | PostPosture \<Rightarrow> handleDevicePosture r | CreateToken \<Rightarrow> handleCreatePAT srv r
   | ListTokens \<Rightarrow> handleListPATs r | RevokeToken \<Rightarrow> handleRevokePAT r) r"

end
