(* ===== verification/DevicePages.thy ===== *)
theory DevicePages
  imports DeviceApi
begin

text \<open>
  The pages on which people see and withdraw devices (\<open>devices_ui.go\<close>): the owner's own, and the administrators', with
  the guard of the administration (\<open>admin.go\<close>). Of a device's view the values that are local times, the posture and the
  uploaded diagnostics are left out.
\<close>

definition evtDeviceApproved :: string where "evtDeviceApproved = ''device.approved''"
definition evtDeviceDeleted :: string where "evtDeviceDeleted = ''device.deleted''"
definition evtDevicePolicyUpdated :: string where "evtDevicePolicyUpdated = ''device.policy.updated''"

subsection \<open>Views\<close>

definition plural :: "int \<Rightarrow> string" where
  "plural n = (if n = 1 then [] else ''s'')"

definition humanSince :: "time \<Rightarrow> time \<Rightarrow> string" where
  "humanSince now t = (let d = time_Sub now t in
     if d < Minute then ''just now''
     else if d < Hour then (let n = d div Minute in itoa (nat n) @ '' minute'' @ plural n @ '' ago'')
     else if d < 24 * Hour then (let n = d div Hour in itoa (nat n) @ '' hour'' @ plural n @ '' ago'')
     else if d < 48 * Hour then ''yesterday''
     else itoa (nat (d div (24 * Hour))) @ '' days ago'')"

definition flag :: "string \<Rightarrow> bool \<Rightarrow> string \<times> string" where
  "flag k b = (k, if b then ''true'' else ''false'')"

definition viewDevice :: "Device \<Rightarrow> string \<Rightarrow> time \<Rightarrow> (string \<times> string) list" where
  "viewDevice d owner now =
     [(''ID'', dev_ID d), (''Name'', dev_Name d), (''Hostname'', dev_Hostname d), (''Platform'', dev_Platform d),
      (''Architecture'', dev_Architecture d), (''Fingerprint'', dev_Fingerprint d), (''ShortFP'', truncate_bytes (dev_Fingerprint d) 12),
      (''Algorithm'', dev_PublicKeyAlgorithm d), (''Status'', dev_Status d), (''TrustLevel'', dev_TrustLevel d), (''Owner'', owner),
      (''OwnerID'', dev_OwnerUserID d), flag ''IsActive'' (IsActive d), flag ''IsRevoked'' (dev_Status d = DeviceStatusRevoked),
      flag ''IsPending'' (IsPending d), flag ''OwnerOnly'' (dev_OwnerOnly d), (''KeyBackend'', dev_KeyBackend d)]
     @ (if IsZero (dev_PostureAt d) then [] else [(''PostureAt'', humanSince now (dev_PostureAt d))])
     @ [(''LastSeen'', if IsZero (dev_LastSeenAt d) then ''never'' else humanSince now (dev_LastSeenAt d))]"

definition or_empty :: "'e + 'a list \<Rightarrow> 'a list" where
  "or_empty x = (case x of Inl _ \<Rightarrow> [] | Inr xs \<Rightarrow> xs)"

subsection \<open>The owner's pages\<close>

definition renderAccountDevices :: "request \<Rightarrow> User \<Rightarrow> int \<Rightarrow> string \<Rightarrow> string \<Rightarrow> response prog" where
  "renderAccountDevices r user status errMsg saved = do {
     devs \<leftarrow> ask (ListDevicesForUser (usr_ID user));
     form_page r status ''account_devices'' ((''Me'', usr_ID user)
       # concat (map (\<lambda>d. viewDevice d (usr_Username user) (rq_now r)) (or_empty devs)) @ [(''Error'', errMsg), (''Saved'', saved)]) }"

definition handleAccountDevices :: "request \<Rightarrow> User \<Rightarrow> Session \<Rightarrow> response prog" where
  "handleAccountDevices r user sess = renderAccountDevices r user 200 [] []"

definition handleAccountRevokeDevice :: "request \<Rightarrow> User \<Rightarrow> Session \<Rightarrow> response prog" where
  "handleAccountRevokeDevice r user sess = (case csrfOK r of Some resp \<Rightarrow> done_with resp | None \<Rightarrow> do {
     found \<leftarrow> ask (GetDevice (PathValue r ''id''));
     (case (case found of Inl _ \<Rightarrow> None | Inr dev \<Rightarrow> if dev_OwnerUserID dev \<noteq> usr_ID user then None else Some dev) of
        None \<Rightarrow> renderAccountDevices r user 404 ''Device not found.'' []
      | Some dev \<Rightarrow> do {
     res \<leftarrow> stmt (RevokeDevice (dev_ID dev) (rq_now r));
     (case res of
        Inl _ \<Rightarrow> renderAccountDevices r user 400 ''That device is already revoked.'' []
      | Inr _ \<Rightarrow> do {
     _ \<leftarrow> audit r evtDeviceRevoked (entry0\<lparr>ae_actorUserID := usr_ID user, ae_username := usr_Username user, ae_success := True,
       ae_detail := ''device='' @ dev_ID dev @ '' by=owner''\<rparr>);
     renderAccountDevices r user 200 [] ''Device revoked. It can no longer obtain credentials.'' }) }) })"

definition handleAccountDevicePolicy :: "request \<Rightarrow> User \<Rightarrow> Session \<Rightarrow> response prog" where
  "handleAccountDevicePolicy r user sess = (case csrfOK r of Some resp \<Rightarrow> done_with resp | None \<Rightarrow>
     let i = PathValue r ''id''; ownerOnly = (PostFormValue r ''owner_only'' \<in> {''on'', ''true''}) in do {
     res \<leftarrow> stmt (SetDeviceOwnerOnly i (usr_ID user) ownerOnly);
     (case res of
        Inl _ \<Rightarrow> renderAccountDevices r user 404 ''Device not found.'' []
      | Inr _ \<Rightarrow> do {
     _ \<leftarrow> audit r evtDevicePolicyUpdated (entry0\<lparr>ae_actorUserID := usr_ID user, ae_username := usr_Username user, ae_success := True,
       ae_detail := ''device='' @ i @ '' owner_only='' @ (if ownerOnly then ''true'' else ''false'')\<rparr>);
     renderAccountDevices r user 200 [] (if ownerOnly then ''Only you can sign in on this device now.''
       else ''Anyone with an Omni account may now sign in on this device.'') }) })"

subsection \<open>The administrators' pages\<close>

definition requireAdmin :: "string \<Rightarrow> (User \<Rightarrow> response prog) \<Rightarrow> request \<Rightarrow> response prog" where
  "requireAdmin uri next r = do {
     cs \<leftarrow> sessions_Current r;
     (case cs of
        Inl _ \<Rightarrow> done_with (Redirect (''/login?next='' @ QueryEscape uri))
      | Inr sess \<Rightarrow> do {
          who \<leftarrow> ask (GetUserByID (ses_UserID sess));
          (case (case who of Inl _ \<Rightarrow> None | Inr u \<Rightarrow> if \<not> usr_IsAdmin u \<or> usr_Disabled u then None else Some u) of
             None \<Rightarrow> done_with (Redirect ''/login'')
           | Some user \<Rightarrow> next user) }) }"

definition fromDetail :: "request \<Rightarrow> bool" where
  "fromDetail r \<longleftrightarrow> PostFormValue r ''return'' = ''detail''"

definition username_of :: "User list \<Rightarrow> string \<Rightarrow> string" where
  "username_of us i = (case map_of (rev (map (\<lambda>u. (usr_ID u, usr_Username u)) us)) i of None \<Rightarrow> [] | Some n \<Rightarrow> n)"

definition renderAdminDevices :: "request \<Rightarrow> User \<Rightarrow> int \<Rightarrow> string \<Rightarrow> string \<Rightarrow> response prog" where
  "renderAdminDevices r me status errMsg saved = do {
     devs \<leftarrow> ask ListDevices;
     users \<leftarrow> ask ListUsers;
     let vs = or_empty devs;
     form_page r status ''admin_devices'' ([(''Me'', usr_ID me), (''Error'', errMsg), (''Saved'', saved),
         (''Active_'', itoa (length (filter IsActive vs)))]
       @ concat (map (\<lambda>d. viewDevice d (username_of (or_empty users) (dev_OwnerUserID d)) (rq_now r))
           (filter IsActive vs @ filter (\<lambda>d. \<not> IsActive d) vs))) }"

definition handleAdminDevices :: "request \<Rightarrow> User \<Rightarrow> response prog" where
  "handleAdminDevices r me = renderAdminDevices r me 200 [] []"

definition renderAdminDeviceDetail :: "request \<Rightarrow> User \<Rightarrow> int \<Rightarrow> Device \<Rightarrow> string \<Rightarrow> response prog" where
  "renderAdminDeviceDetail r me status dev errMsg = do {
     u \<leftarrow> ask (GetUserByID (dev_OwnerUserID dev));
     form_page r status ''admin_device_detail'' ((''Me'', usr_ID me)
       # viewDevice dev (case u of Inl _ \<Rightarrow> [] | Inr user \<Rightarrow> usr_Username user) (rq_now r)
       @ [(''PublicKey'', dev_PublicKey dev), (''Error'', errMsg)]) }"

definition handleAdminDeviceDetail :: "request \<Rightarrow> User \<Rightarrow> response prog" where
  "handleAdminDeviceDetail r me = do {
     found \<leftarrow> ask (GetDevice (PathValue r ''id''));
     (case found of Inl _ \<Rightarrow> done_with (renderError 404 ''Device not found.'') | Inr dev \<Rightarrow> renderAdminDeviceDetail r me 200 dev []) }"

definition back_to_devices :: "request \<Rightarrow> string \<Rightarrow> response" where
  "back_to_devices r i = Redirect (if fromDetail r then ''/admin/devices/'' @ i else ''/admin/devices'')"

definition admin_entry :: "User \<Rightarrow> string \<Rightarrow> auditEntry" where
  "admin_entry me detail = entry0\<lparr>ae_actorUserID := usr_ID me, ae_success := True, ae_detail := detail\<rparr>"

definition handleAdminRevokeDevice :: "server \<Rightarrow> request \<Rightarrow> User \<Rightarrow> response prog" where
  "handleAdminRevokeDevice srv r me = (case csrfOK r of Some resp \<Rightarrow> done_with resp | None \<Rightarrow> let i = PathValue r ''id'' in do {
     found \<leftarrow> ask (GetDevice i);
     (case found of
        Inl _ \<Rightarrow> renderAdminDevices r me 404 ''Device not found.'' []
      | Inr dev \<Rightarrow> do {
     res \<leftarrow> stmt (RevokeDevice i (rq_now r));
     (case res of
        Inl _ \<Rightarrow> renderAdminDeviceDetail r me 400 dev ''That device is already revoked.''
      | Inr _ \<Rightarrow> do {
     _ \<leftarrow> audit r evtDeviceRevoked (admin_entry me (''device='' @ i @ '' owner='' @ dev_OwnerUserID dev @ '' by=admin''));
     _ \<leftarrow> pushRevocation srv r (dev_OwnerUserID dev) i ''device revoked'';
     done_with (back_to_devices r i) }) }) })"

definition handleAdminApproveDevice :: "server \<Rightarrow> request \<Rightarrow> User \<Rightarrow> response prog" where
  "handleAdminApproveDevice srv r me = (case csrfOK r of Some resp \<Rightarrow> done_with resp | None \<Rightarrow> let i = PathValue r ''id'' in do {
     found \<leftarrow> ask (GetDevice i);
     (case found of
        Inl _ \<Rightarrow> renderAdminDevices r me 404 ''Device not found.'' []
      | Inr dev \<Rightarrow> do {
     res \<leftarrow> stmt (ApproveDevice i (rq_now r));
     (case res of
        Inl _ \<Rightarrow> renderAdminDeviceDetail r me 400 dev ''That device is not pending approval.''
      | Inr _ \<Rightarrow> do {
     _ \<leftarrow> audit r evtDeviceApproved (admin_entry me (''device='' @ i @ '' owner='' @ dev_OwnerUserID dev));
     _ \<leftarrow> notifyDeviceApproved srv dev;
     done_with (back_to_devices r i) }) }) })"

definition handleAdminDeleteDevice :: "server \<Rightarrow> request \<Rightarrow> User \<Rightarrow> response prog" where
  "handleAdminDeleteDevice srv r me = (case csrfOK r of Some resp \<Rightarrow> done_with resp | None \<Rightarrow> let i = PathValue r ''id'' in do {
     res \<leftarrow> stmt (DeleteDevice i);
     (case res of
        Inl _ \<Rightarrow> renderAdminDevices r me 400 ''Only revoked devices can be deleted. Revoke it first.'' []
      | Inr _ \<Rightarrow> do {
     _ \<leftarrow> audit r evtDeviceDeleted (admin_entry me (''device='' @ i));
     _ \<leftarrow> pushRevocation srv r [] i ''device deleted'';
     done_with (Redirect ''/admin/devices'') }) })"

end
