(* ===== verification/DeviceApiFacts.thy ===== *)
theory DeviceApiFacts
  imports DeviceApi DeviceRun
begin

text \<open>
  What the interface of the enrolled devices guarantees: which key a new device gets and who it belongs to, that only the
  holder of both keys replaces one by the other, what a personal access token stands for and how long it can live, that
  a reported posture is read back as it was reported, and that a withdrawn device is withdrawn for good.
\<close>

subsection \<open>What authentication leaves\<close>

text \<open>Checking a proof or a device token changes no table but that of the spent identifiers.\<close>

definition spends :: "srvstate \<Rightarrow> srvstate \<Rightarrow> bool" where
  "spends st st1 \<longleftrightarrow> (\<exists>j. st1 = st\<lparr>st_db := (st_db st)\<lparr>db_jtis := j\<rparr>\<rparr>)"

lemma spends_refl: "spends st st"
  unfolding spends_def by (rule exI [of _ "db_jtis (st_db st)"]) simp

lemma spends_ConsumeJTI: "spends st (st\<lparr>st_db := snd (ConsumeJTI h i x n (st_db st))\<rparr>)"
proof -
  have "snd (ConsumeJTI h i x n d) = d\<lparr>db_jtis := db_jtis (snd (ConsumeJTI h i x n d))\<rparr>" for d
    by (auto simp: ConsumeJTI_def exec_def Let_def)
  from this [of "st_db st"] show ?thesis unfolding spends_def by (intro exI) (rule arg_cong)
qed

lemma verifyDPoP_spends:
  assumes "run_state (verifyDPoP srv r raw tok) st = (x, st1)"
  shows "spends st st1"
  using assms spends_refl [of st] spends_ConsumeJTI [of st]
  by (auto simp: verifyDPoP_def split: sum.splits)

lemma resourceToken_spends:
  assumes "run_state (resourceToken srv r pr) st = (x, st1)"
  shows "spends st st1"
proof -
  obtain scheme raw where a: "authorizationToken r = (scheme, raw)" by fastforce
  obtain y s where v: "run_state (verifyDPoP srv r (rq_DPoP r) raw) st = (y, s)" by fastforce
  show ?thesis
    using assms v verifyDPoP_spends [OF v] spends_refl [of st]
    by (auto simp: resourceToken_def a split: if_splits option.splits)
qed

lemma authenticateDeviceRequest_spends:
  assumes "run_state (authenticateDeviceRequest srv r pr) st = (x, st1)"
  shows "spends st st1"
proof -
  obtain y s where t: "run_state (resourceToken srv r pr) st = (y, s)" by fastforce
  show ?thesis
    using assms t resourceToken_spends [OF t]
    by (auto simp: authenticateDeviceRequest_def split: sum.splits prod.splits if_splits)
qed

lemma requireDevice_cases:
  assumes "run_state (requireDevice srv next r) st = (resp, st')"
  obtains (refused) code desc where "resp = OAuthError 401 code desc" "spends st st'"
    | (device) dev st1 where "device_request srv r None st dev" "spends st st1" "run_state (next dev) st1 = (resp, st')"
proof -
  obtain x st1 where a: "run_state (authenticateDeviceRequest srv r None) st = (x, st1)" by fastforce
  note s = authenticateDeviceRequest_spends [OF a]
  show ?thesis
  proof (cases x)
    case (Inl e)
    then show ?thesis using assms a s by (intro refused) (auto simp: requireDevice_def apiError_def)
  next
    case (Inr dev)
    then show ?thesis using assms a s authenticateDeviceRequest_Inr [OF a [unfolded Inr]]
      by (intro device [of dev st1]) (auto simp: requireDevice_def)
  qed
qed

text \<open>Tables an audit event leaves alone.\<close>

lemma audit_frames [simp]:
  "db_devices (snd (AppendAuditEvent e d)) = db_devices d" "db_pats (snd (AppendAuditEvent e d)) = db_pats d"
  "db_faults (snd (AppendAuditEvent e d)) = db_faults d" "db_users (snd (AppendAuditEvent e d)) = db_users d"
  by (simp_all add: AppendAuditEvent_def raw_stmts)

subsection \<open>Enrolment\<close>

lemma enroll_failed_run:
  "run_state (enroll_failed r s c desc detail) st = (resp, st') \<Longrightarrow> db_devices (st_db st') = db_devices (st_db st) \<and> resp = OAuthError s c desc"
  by (auto simp: enroll_failed_def record_defs apiError_def)

lemma sendNotice_db [simp]: "st_db (snd (run_state (sendNotice to link) st)) = st_db st"
  by (simp add: sendNotice_def)

lemma notify_admins_db [simp]: "st_db (snd (run_state (notify_admins owner link us) st)) = st_db st"
  by (induction us arbitrary: st) (auto simp: split_beta)

lemma notifyDeviceEnrolled_db [simp]: "st_db (snd (run_state (notifyDeviceEnrolled srv dev owner) st)) = st_db st"
  by (auto simp: notifyDeviceEnrolled_def split_beta Let_def)

lemma CreateDevice_run:
  "CreateDevice v d = (res, d') \<Longrightarrow> db_devices d' = (case res of Inl _ \<Rightarrow> db_devices d | Inr _ \<Rightarrow> db_devices d @ [v])"
  by (auto simp: CreateDevice_def raw_stmts split: if_splits)

lemma FingerprintInUse_False:
  "FingerprintInUse fp d = Inr False \<Longrightarrow> \<forall>v \<in> set (db_devices d). dev_Fingerprint v \<noteq> fp \<and> dev_PreviousFingerprint v \<noteq> fp"
  by (auto simp: FingerprintInUse_def query_def affected_0_iff split: if_splits)

definition enrols :: "request \<Rightarrow> bool \<Rightarrow> User \<Rightarrow> Proof \<Rightarrow> enrollBody \<Rightarrow> string \<Rightarrow> db \<Rightarrow> db \<Rightarrow> bool" where
  "enrols r approval user pf b canon d d' \<longleftrightarrow> canonical (pr_JWK pf) = Inr canon
     \<and> (\<forall>v \<in> set (db_devices d). dev_Fingerprint v \<noteq> pr_JKT pf \<and> dev_PreviousFingerprint v \<noteq> pr_JKT pf)
     \<and> db_devices d' = db_devices d @ [enrolled_device r approval user pf canon b]"

lemma enroll_key_cases:
  assumes "run_state (enroll_key srv r vt user pf b) st = (resp, st')"
  shows "db_devices (st_db st') = db_devices (st_db st) \<and> (\<exists>s c desc. resp = OAuthError s c desc)
    \<or> (\<exists>canon ms. enrols r (sv_RequireDeviceApproval (st_settings st)) user pf b canon (st_db st) (st_db st') \<and> resp = Json 201 ms)"
proof (cases "canonical (pr_JWK pf)")
  case (Inl e)
  then show ?thesis using assms by (auto simp: enroll_key_def dest: enroll_failed_run)
next
  case (Inr canon)
  show ?thesis
  proof (cases "FingerprintInUse (pr_JKT pf) (st_db st) = Inr False")
    case False
    then show ?thesis
      using assms Inr by (auto simp: enroll_key_def apiError_def split: sum.splits bool.splits dest: enroll_failed_run)
  next
    case True
    let ?dev = "enrolled_device r (sv_RequireDeviceApproval (st_settings st)) user pf canon b"
    obtain res d1 where c: "CreateDevice ?dev (st_db st) = (res, d1)" by fastforce
    show ?thesis
      using assms Inr True c CreateDevice_run [OF c] FingerprintInUse_False [OF True]
      by (cases res) (auto simp: enroll_key_def record_defs enrols_def Let_def split_beta dest: enroll_failed_run)
  qed
qed
text \<open>The token of an enrolment: an access token of this server with the scope for it, bound to a key.\<close>

definition enroll_token :: "server \<Rightarrow> request \<Rightarrow> srvstate \<Rightarrow> VerifiedToken \<Rightarrow> bool" where
  "enroll_token srv r st vt \<longleftrightarrow>
     Verify (srv_lib srv) (srv_keys srv) (issuerConfig (st_settings st)) (rq_now r) (snd (authorizationToken r)) = Some vt
     \<and> IsAccessToken vt \<and> HasScope (vt_Scope vt) ScopeDeviceEnroll \<and> vt_JKT vt \<noteq> []"

lemma handleEnrollDevice_cases:
  assumes "run_state (handleEnrollDevice srv r) st = (resp, st')"
  shows "db_devices (st_db st') = db_devices (st_db st) \<and> (\<exists>s c desc. resp = OAuthError s c desc)
    \<or> (\<exists>vt pf user b canon ms htu. enroll_token srv r st vt
        \<and> VerifyProof (srv_lib srv) (srv_fold srv) (rq_now r) (proof_opts r (snd (authorizationToken r)) htu) (rq_DPoP r) = Inr pf
        \<and> pr_JKT pf = vt_JKT vt \<and> GetUserByID (vt_Subject vt) (st_db st) = Inr user \<and> \<not> usr_Disabled user
        \<and> decode_body maxDeviceAPIBody enroll_fields empty_enroll r = Some b
        \<and> enrols r (sv_RequireDeviceApproval (st_settings st)) user pf b canon (st_db st) (st_db st') \<and> resp = Json 201 ms)"
proof -
  obtain scheme raw where a: "authorizationToken r = (scheme, raw)" by fastforce
  let ?v = "Verify (srv_lib srv) (srv_keys srv) (issuerConfig (st_settings st)) (rq_now r) raw"
  note failed = enroll_failed_run
  show ?thesis
  proof (cases "token_scheme srv scheme \<and> raw \<noteq> [] \<and> (\<exists>vt. enroll_token srv r st vt)")
    case False
    then show ?thesis
      using assms by (auto simp: handleEnrollDevice_def a enroll_token_def split: if_splits option.splits dest: failed)
  next
    case True
    then obtain vt where vt: "enroll_token srv r st vt" by blast
    obtain x st1 where p: "run_state (verifyDPoP srv r (rq_DPoP r) raw) st = (x, st1)" by fastforce
    obtain j where st1: "st1 = st\<lparr>st_db := (st_db st)\<lparr>db_jtis := j\<rparr>\<rparr>" using verifyDPoP_spends [OF p] by (auto simp: spends_def)
    have run: "run_state (case x of Inl e \<Rightarrow> enroll_failed r 401 ''invalid_dpop_proof'' (dpop_text srv e) ''bad proof''
      | Inr pf \<Rightarrow>
     if pr_JKT pf \<noteq> vt_JKT vt
     then enroll_failed r 401 ''invalid_dpop_proof'' ''proof key does not match the token binding'' ''key substitution''
     else do {
     found \<leftarrow> ask (GetUserByID (vt_Subject vt));
     (case found of
        Inl _ \<Rightarrow> enroll_failed r 401 ''invalid_token'' ''user is not available'' ''user unavailable''
      | Inr user \<Rightarrow>
     if usr_Disabled user then enroll_failed r 401 ''invalid_token'' ''user is not available'' ''user unavailable''
     else (case decode_body maxDeviceAPIBody enroll_fields empty_enroll r of
        None \<Rightarrow> enroll_failed r 400 ''invalid_request'' ''malformed JSON body'' ''bad body''
      | Some b \<Rightarrow> enroll_key srv r vt user pf b)) }) st1 = (resp, st')"
      using assms True vt p by (simp add: handleEnrollDevice_def a enroll_token_def)
    have db: "db_devices (st_db st1) = db_devices (st_db st)" "st_settings st1 = st_settings st"
      "GetUserByID i (st_db st1) = GetUserByID i (st_db st)" for i
      by (simp_all add: st1 GetUserByID_def query_def fault_def)
    show ?thesis
    proof (cases x)
      case (Inl e)
      then show ?thesis using run db by (auto dest: failed)
    next
      case (Inr pf)
      note v = verifyDPoP_Inr(1) [OF p [unfolded Inr]]
      show ?thesis
      proof (cases "pr_JKT pf = vt_JKT vt \<and> (\<exists>user. GetUserByID (vt_Subject vt) (st_db st) = Inr user \<and> \<not> usr_Disabled user)
          \<and> decode_body maxDeviceAPIBody enroll_fields empty_enroll r \<noteq> None")
        case False
        then show ?thesis using run Inr db by (auto split: if_splits sum.splits option.splits dest: failed)
      next
        case True
        then obtain user b where u: "GetUserByID (vt_Subject vt) (st_db st) = Inr user" "\<not> usr_Disabled user"
          "decode_body maxDeviceAPIBody enroll_fields empty_enroll r = Some b" by auto
        have "run_state (enroll_key srv r vt user pf b) st1 = (resp, st')" using run Inr True u db by simp
        from enroll_key_cases [OF this]
        have "db_devices (st_db st') = db_devices (st_db st) \<and> (\<exists>s c desc. resp = OAuthError s c desc)
          \<or> (\<exists>canon ms. enrols r (sv_RequireDeviceApproval (st_settings st)) user pf b canon (st_db st) (st_db st') \<and> resp = Json 201 ms)"
          by (simp add: enrols_def db(1,2))
        then show ?thesis using vt v True u unfolding a snd_conv by blast
      qed
    qed
  qed
qed

text \<open>The key a proof was verified with is the one it carries.\<close>

lemma VerifyProof_key:
  assumes "jwt_contract lib" and "VerifyProof lib uf now opt raw = Inr p"
  shows "\<exists>k. JWK_PublicKey (pr_JWK p) = Inr k \<and> jl_Signed lib raw (key_alg k) k \<and> pr_Alg p = key_alg k
    \<and> Thumbprint (pr_JWK p) = Inr (pr_JKT p)"
proof -
  obtain opts h c j where p: "jl_Parse lib opts proof_key raw = Some (h, c)" "proof_jwk h = Some j" "pr_JWK p = j"
    "Thumbprint j = Inr (pr_JKT p)" "pr_Alg p = str_of (h ''alg'')"
    using assms(2) unfolding VerifyProof_def Let_def
    by (auto split: if_split_asm option.split_asm prod.split_asm sum.split_asm)
  from assms(1)[unfolded jwt_contract_def, rule_format, OF p(1)]
  obtain k where k: "proof_key h = Some k" "jl_Signed lib raw (str_of (h ''alg'')) k" by auto
  have j: "JWK_PublicKey j = Inr k" "JWK_Algorithm j = Inr (str_of (h ''alg''))"
    using k(1) p(2) by (auto simp: proof_key_def proof_jwk_def split: sum.splits option.splits if_splits)
  have "str_of (h ''alg'') = key_alg k"
    using strong_of_JWK [OF j(1)] j(2) by (auto simp: JWK_Algorithm_def split: if_splits)
  with k j p show ?thesis by auto
qed

text \<open>C15: A device is enrolled only with an access token of this server that has the scope for it and is bound to a key,
  and a proof of that key; the device belongs to the token's user, who exists and is not disabled. The key stored for it
  is the key that signed the proof, readable again as that key with its algorithm and its hash as fingerprint; no device
  on file has that fingerprint, or had it as its previous one. It is active at once unless devices await approval, and no
  other device changes.\<close>

theorem enrolment_sound:
  assumes "jwt_contract (srv_lib srv)" and "run_state (handleEnrollDevice srv r) st = (resp, st')"
    and "(\<exists>ms. resp = Json 201 ms) \<or> db_devices (st_db st') \<noteq> db_devices (st_db st)"
  shows "\<exists>dev user vt k j. db_devices (st_db st') = db_devices (st_db st) @ [dev]
    \<and> enroll_token srv r st vt \<and> vt_JKT vt = dev_Fingerprint dev
    \<and> user \<in> set (db_users (st_db st)) \<and> usr_ID user = vt_Subject vt \<and> \<not> usr_Disabled user \<and> dev_OwnerUserID dev = usr_ID user
    \<and> jl_Signed (srv_lib srv) (rq_DPoP r) (key_alg k) k
    \<and> ParseJWK (dev_PublicKey dev) = Inr j \<and> JWK_PublicKey j = Inr k \<and> dev_PublicKeyAlgorithm dev = key_alg k
    \<and> dev_Fingerprint dev = RawURLEncode (Sum256 (dev_PublicKey dev))
    \<and> (\<forall>v \<in> set (db_devices (st_db st)). dev_Fingerprint v \<noteq> dev_Fingerprint dev \<and> dev_PreviousFingerprint v \<noteq> dev_Fingerprint dev)
    \<and> (if sv_RequireDeviceApproval (st_settings st) then IsPending dev else IsActive dev)"
proof -
  obtain vt pf user b canon htu where e: "enroll_token srv r st vt"
    "VerifyProof (srv_lib srv) (srv_fold srv) (rq_now r) (proof_opts r (snd (authorizationToken r)) htu) (rq_DPoP r) = Inr pf"
    "pr_JKT pf = vt_JKT vt" "GetUserByID (vt_Subject vt) (st_db st) = Inr user" "\<not> usr_Disabled user"
    "enrols r (sv_RequireDeviceApproval (st_settings st)) user pf b canon (st_db st) (st_db st')"
    using handleEnrollDevice_cases [OF assms(2)] assms(3) by auto
  define dev where "dev = enrolled_device r (sv_RequireDeviceApproval (st_settings st)) user pf canon b"
  obtain k where k: "JWK_PublicKey (pr_JWK pf) = Inr k" "jl_Signed (srv_lib srv) (rq_DPoP r) (key_alg k) k"
    "pr_Alg pf = key_alg k" "Thumbprint (pr_JWK pf) = Inr (pr_JKT pf)"
    using VerifyProof_key [OF assms(1) e(2)] by blast
  have c: "canonical (pr_JWK pf) = Inr canon" using e(6) by (simp add: enrols_def)
  have dev: "dev_PublicKey dev = canon" "dev_PublicKeyAlgorithm dev = pr_Alg pf" "dev_Fingerprint dev = pr_JKT pf"
    "dev_OwnerUserID dev = usr_ID user"
    "if sv_RequireDeviceApproval (st_settings st) then IsPending dev else IsActive dev"
    by (simp_all add: dev_def enrolled_device_def IsPending_def IsActive_def)
  have "pr_JKT pf = RawURLEncode (Sum256 canon)" using k(4) c by (simp add: Thumbprint_def)
  then show ?thesis
    using e k dev GetUserByID_found [OF e(4)] ParseJWK_canonical [OF k(1) c] PublicKey_required [OF k(1)]
    by (intro exI [of _ dev] exI [of _ user] exI [of _ vt] exI [of _ k] exI [of _ "required (pr_JWK pf)"])
       (simp add: enrols_def dev_def)
qed
subsection \<open>Key rotation\<close>

lemma VerifyAssertion_key:
  assumes "jwt_contract lib" and "VerifyAssertion lib now (assertion_opts (Some k) alg aud) raw = Inr a"
  shows "jl_Signed lib raw alg k \<and> (\<exists>h. jl_ParseUnverified lib raw = Some (h, as_Claims a)) \<and> as_Subject a = str_of (as_Claims a ''sub'')"
proof -
  obtain opts h c where p: "jl_Parse lib opts (\<lambda>_. Some k) raw = Some (h, c)" "jo_methods opts = [alg]" "as_Claims a = c"
    "as_Subject a = str_of (c ''sub'')"
    using assms(2) unfolding VerifyAssertion_def Let_def assertion_opts_def
    by (auto split: if_split_asm option.split_asm prod.split_asm)
  from assms(1)[unfolded jwt_contract_def, rule_format, OF p(1)] p(2-4) show ?thesis by auto
qed

lemma RotateDeviceKey_run:
  "RotateDeviceKey i pk alg fp kb tr d = (res, d') \<Longrightarrow> db_devices d' = (case res of Inl _ \<Rightarrow> db_devices d
     | Inr _ \<Rightarrow> upd (\<lambda>v. dev_ID v = i \<and> IsActive v) (rotate_key pk alg fp kb tr) (db_devices d))"
  by (auto simp: RotateDeviceKey_def raw_stmts requireRow_def IsActive_def affected_0_iff intro!: upd_none split: if_splits)

lemma rotate_to_cases:
  assumes "run_state (rotate_to r dev key a backend) st = (resp, st')"
  shows "db_devices (st_db st') = db_devices (st_db st) \<and> (\<exists>s c desc. resp = OAuthError s c desc)
    \<or> (\<forall>v \<in> set (db_devices (st_db st)). dev_Fingerprint v \<noteq> ok_or [] (Thumbprint key) \<and> dev_PreviousFingerprint v \<noteq> ok_or [] (Thumbprint key))
      \<and> db_devices (st_db st') = upd (\<lambda>v. dev_ID v = dev_ID dev \<and> IsActive v)
          (rotate_key (ok_or [] (canonical key)) (ok_or [] (JWK_Algorithm key)) (ok_or [] (Thumbprint key)) backend (trust_after dev backend))
          (db_devices (st_db st)) \<and> (\<exists>ms. resp = Json 200 ms)"
proof -
  define h where "h = JTIHash (ok_or [] (Thumbprint key)) (as_JTI a)"
  obtain x d1 where j: "ConsumeJTI h (dev_ID dev) (as_ExpiresAt a + DefaultSkew) (rq_now r) (st_db st) = (x, d1)" by fastforce
  have d1: "db_devices d1 = db_devices (st_db st)" using ConsumeJTI_frame(1) j by (metis snd_conv)
  obtain y d2 where k: "RotateDeviceKey (dev_ID dev) (ok_or [] (canonical key)) (ok_or [] (JWK_Algorithm key)) (ok_or [] (Thumbprint key))
      backend (trust_after dev backend) d1 = (y, d2)" by fastforce
  show ?thesis
  proof (cases "x = Inr True \<and> FingerprintInUse (ok_or [] (Thumbprint key)) d1 = Inr False")
    case False
    then show ?thesis
      using assms j d1 by (auto simp: rotate_to_def Let_def apiError_def h_def split: if_splits)
  next
    case True
    then show ?thesis
      using assms j k d1 RotateDeviceKey_run [OF k] FingerprintInUse_False [of "ok_or [] (Thumbprint key)" d1]
      by (cases y) (auto simp: rotate_to_def Let_def apiError_def h_def split: if_splits)
  qed
qed

text \<open>C16: A device's key is replaced only on a request authenticated as that device and a statement signed by the new
  key, which names the device and its current fingerprint. The stored text is then readable as the new key with its algorithm
  and its hash as fingerprint, which no device on file has or had as its previous one; the old fingerprint is kept as the
  previous one, and only this device changes.\<close>

theorem key_rotation_sound:
  assumes "jwt_contract (srv_lib srv)" and "run_state (device_route jwktext srv RotateKey r) st = (resp, st')"
    and "(\<exists>ms. resp = Json 200 ms) \<or> db_devices (st_db st') \<noteq> db_devices (st_db st)"
  shows "\<exists>dev b h c j k pk. device_request srv r None st dev
    \<and> decode_body maxDeviceAPIBody rotate_fields \<lparr>rb_JWK = [], rb_Proof = [], rb_KeyBackend = []\<rparr> r = Some b
    \<and> jl_Signed (srv_lib srv) (rb_Proof b) (key_alg k) k \<and> jl_ParseUnverified (srv_lib srv) (rb_Proof b) = Some (h, c)
    \<and> str_of (c ''sub'') = dev_ID dev \<and> str_of (c ''old_jkt'') = dev_Fingerprint dev
    \<and> ParseJWK pk = Inr j \<and> JWK_PublicKey j = Inr k
    \<and> (\<forall>v \<in> set (db_devices (st_db st)). RawURLEncode (Sum256 pk) \<notin> {dev_Fingerprint v, dev_PreviousFingerprint v})
    \<and> db_devices (st_db st') = upd (\<lambda>v. dev_ID v = dev_ID dev \<and> IsActive v)
        (rotate_key pk (key_alg k) (RawURLEncode (Sum256 pk)) (normalizeKeyBackend (rb_KeyBackend b))
          (trust_after dev (normalizeKeyBackend (rb_KeyBackend b)))) (db_devices (st_db st))"
  using assms(2) unfolding device_route_def device_route.case
proof (cases rule: requireDevice_cases)
  case (refused code desc)
  then show ?thesis using assms(3) by (auto simp: spends_def)
next
  case (device dev st1)
  have same: "db_devices (st_db st1) = db_devices (st_db st)" "st_settings st1 = st_settings st"
    using device(2) by (auto simp: spends_def)
  let ?b0 = "\<lparr>rb_JWK = [], rb_Proof = [], rb_KeyBackend = []\<rparr>"
  obtain b key where b: "decode_body maxDeviceAPIBody rotate_fields ?b0 r = Some b" "ParseJWK (rb_JWK b) = Inr key"
    using device(3) assms(3) same by (auto simp: handleDeviceRotateKey_def apiError_def split: option.splits sum.splits)
  obtain k where k: "JWK_PublicKey key = Inr k" "JWK_Algorithm key = Inr (key_alg k)"
    using b(2) ParseJWK_sound [OF b(2)] by blast
  obtain pk where pk: "canonical key = Inr pk" using canonical_defined [OF k(1)] by blast
  have fp: "Thumbprint key = Inr (RawURLEncode (Sum256 pk))" using pk by (simp add: Thumbprint_def)
  let ?verify = "\<lambda>aud. VerifyAssertion (srv_lib srv) (rq_now r) (assertion_opts (Some k) (key_alg k) aud) (rb_Proof b)"
  obtain a where a: "try_audiences ?verify (serverURLsFor srv (st_settings st) r) = Inr a" "as_Subject a = dev_ID dev"
    "str_of (as_Claims a ''old_jkt'') = dev_Fingerprint dev"
    and run: "run_state (rotate_to r dev key a (normalizeKeyBackend (rb_KeyBackend b))) st1 = (resp, st')"
    using device(3) assms(3) same b k
    by (auto simp: handleDeviceRotateKey_def apiError_def ok_or_none_def ok_or_def split: sum.splits if_splits)
  obtain aud where "?verify aud = Inr a" using try_audiences_Inr [OF a(1)] by blast
  note s = VerifyAssertion_key [OF assms(1) this]
  then obtain h where h: "jl_ParseUnverified (srv_lib srv) (rb_Proof b) = Some (h, as_Claims a)" by blast
  from rotate_to_cases [OF run] assms(3)
  have "(\<forall>v \<in> set (db_devices (st_db st)). RawURLEncode (Sum256 pk) \<notin> {dev_Fingerprint v, dev_PreviousFingerprint v})
    \<and> db_devices (st_db st') = upd (\<lambda>v. dev_ID v = dev_ID dev \<and> IsActive v)
        (rotate_key pk (key_alg k) (RawURLEncode (Sum256 pk)) (normalizeKeyBackend (rb_KeyBackend b))
          (trust_after dev (normalizeKeyBackend (rb_KeyBackend b)))) (db_devices (st_db st))"
    unfolding same fp pk k(2) ok_or_def sum.case by auto
  then show ?thesis
    using device(1) b(1) s h a(2,3) ParseJWK_canonical [OF k(1) pk] PublicKey_required [OF k(1)]
    by (intro exI [of _ dev] exI [of _ b] exI [of _ h] exI [of _ "as_Claims a"] exI [of _ "required key"] exI [of _ k] exI [of _ pk]) simp
qed
subsection \<open>Personal access tokens\<close>

text \<open>However long a token is asked to live, and even where the product of seconds and nanoseconds wraps around at 64
  bits, a personal access token lives at least an hour and at most a year; a wish within these bounds is met exactly,
  and none means 90 days.\<close>

theorem pat_lifetime_bounded:
  "patMinTTL \<le> pat_ttl n \<and> pat_ttl n \<le> patMaxTTL
   \<and> (3600 \<le> n \<and> n \<le> 365 * 24 * 3600 \<longrightarrow> pat_ttl n = n * Second) \<and> (n \<le> 0 \<longrightarrow> pat_ttl n = 90 * 24 * Hour)"
proof -
  have small: "mul_int64 n Second = n * Second" if "3600 \<le> n" "n \<le> 365 * 24 * 3600"
    using that unfolding mul_int64_def sint_sbintrunc' by (intro signed_take_bit_int_eq_self) simp_all
  show ?thesis
    using small by (auto simp: pat_ttl_def Let_def patMinTTL_def patMaxTTL_def patDefaultTTL_def)
qed

text \<open>What stands behind a personal access token.\<close>

definition pat_grounds :: "request \<Rightarrow> db \<Rightarrow> Device \<Rightarrow> createPATRequest \<Rightarrow> RefreshToken \<Rightarrow> User \<Rightarrow> Client \<Rightarrow> string \<Rightarrow> bool" where
  "pat_grounds r d dev b rt user target scope \<longleftrightarrow>
     rt \<in> set (db_refresh_tokens d) \<and> rt_TokenHash rt = HashToken (pb_RefreshToken b) \<and> \<not> rt_Revoked rt \<and> rq_now r \<le> rt_ExpiresAt rt
     \<and> rt_DeviceID rt = dev_ID dev \<and> rt_DPoPJKT rt = dev_Fingerprint dev
     \<and> user \<in> set (db_users d) \<and> usr_ID user = rt_UserID rt \<and> \<not> usr_Disabled user
     \<and> target \<in> set (db_clients d) \<and> cl_ClientID target = TrimSpace (pb_Audience b) \<and> \<not> cl_Disabled target
     \<and> SplitScope scope \<noteq> [] \<and> set (SplitScope scope) \<subseteq> set (SplitScope (rt_Scope rt)) \<inter> set (cl_AllowedScopes target)"

lemma CreatePAT_run:
  assumes "CreatePAT p d = (res, d')" and "pat_LastUsedAt p = None" "pat_RevokedAt p = None"
  shows "db_pats d' = (case res of Inl _ \<Rightarrow> db_pats d | Inr _ \<Rightarrow> db_pats d @ [p])"
proof -
  have "p\<lparr>pat_LastUsedAt := nullTime (ptrTime (pat_LastUsedAt p)), pat_RevokedAt := nullTime (ptrTime (pat_RevokedAt p))\<rparr> = p"
    using assms(2,3) by (simp add: nullTime_def ptrTime_def)
  then show ?thesis using assms(1) by (auto simp: CreatePAT_def raw_stmts split: if_splits)
qed

lemma issue_pat_cases:
  assumes "run_state (issue_pat srv r dev rt user target b scope) st = (resp, st')"
  shows "db_pats (st_db st') = db_pats (st_db st) \<and> (\<exists>s c desc. resp = OAuthError s c desc)
    \<or> (\<exists>tok. IssuePersonalAccessToken (srv_lib srv) (srv_keys srv) (issuerConfig (st_settings st)) (rq_now r) (usr_ID user)
            (cl_ClientID target) scope (rq_uuid r ''pat'') (pat_ttl (pb_ExpiresIn b)) (delegation_claims dev rt user scope) = Some tok
        \<and> resp = Json 200 (patView (new_pat r dev user target b scope) tok)
        \<and> db_pats (st_db st') = db_pats (st_db st) @ [new_pat r dev user target b scope])"
proof -
  obtain x d1 where c: "CreatePAT (new_pat r dev user target b scope) (st_db st) = (x, d1)" by fastforce
  have "db_pats d1 = (case x of Inl _ \<Rightarrow> db_pats (st_db st) | Inr _ \<Rightarrow> db_pats (st_db st) @ [new_pat r dev user target b scope])"
    using CreatePAT_run [OF c] by (simp add: new_pat_def)
  then show ?thesis
    using assms c by (cases x) (auto simp: issue_pat_def apiError_def record_defs split: option.splits)
qed

lemma handleCreatePAT_cases:
  assumes "run_state (handleCreatePAT srv r dev) st = (resp, st')"
  shows "db_pats (st_db st') = db_pats (st_db st) \<and> (\<exists>s c desc. resp = OAuthError s c desc)
    \<or> (\<exists>b rt user target scope. decode_body 8192 pat_fields empty_pat_body r = Some b \<and> pat_grounds r (st_db st) dev b rt user target scope
        \<and> run_state (issue_pat srv r dev rt user target b scope) st = (resp, st'))"
proof -
  have "db_pats (st_db st') = db_pats (st_db st) \<and> (\<exists>s c desc. resp = OAuthError s c desc)
    \<or> (\<exists>b rt user target scope. decode_body 8192 pat_fields empty_pat_body r = Some b
        \<and> GetRefreshTokenByHash (HashToken (pb_RefreshToken b)) (st_db st) = Inr rt \<and> \<not> rt_Revoked rt \<and> rq_now r \<le> rt_ExpiresAt rt
        \<and> rt_DeviceID rt = dev_ID dev \<and> rt_DPoPJKT rt = dev_Fingerprint dev
        \<and> GetUserByID (rt_UserID rt) (st_db st) = Inr user \<and> \<not> usr_Disabled user
        \<and> GetClient (TrimSpace (pb_Audience b)) (st_db st) = Inr target \<and> \<not> cl_Disabled target
        \<and> delegated_scope (pb_Scope b) (rt_Scope rt) (cl_AllowedScopes target) = Some scope
        \<and> run_state (issue_pat srv r dev rt user target b scope) st = (resp, st'))"
    using assms by (auto simp: handleCreatePAT_def Let_def apiError_def split: option.splits sum.splits if_splits)
  then show ?thesis
    using GetRefreshTokenByHash_Inr GetUserByID_found GetClient_Inr delegated_scope_Some unfolding pat_grounds_def by meson
qed

text \<open>C17: A personal access token is created only on a request authenticated as an active device, with a live refresh token
  that is bound to this device and its current key, for the enabled user of that refresh token and an enabled audience,
  with a non-empty scope within the user's grant and the audience's allowed scopes. Exactly one row records it, under the
  id the token carries, to expire when the token does.\<close>

theorem personal_token_sound:
  assumes "run_state (device_route jwktext srv CreateToken r) st = (resp, st')"
    and "(\<exists>ms. resp = Json 200 ms) \<or> db_pats (st_db st') \<noteq> db_pats (st_db st)"
  shows "\<exists>dev b rt user target scope tok p. device_request srv r None st dev
    \<and> decode_body 8192 pat_fields empty_pat_body r = Some b \<and> pat_grounds r (st_db st) dev b rt user target scope
    \<and> IssuePersonalAccessToken (srv_lib srv) (srv_keys srv) (issuerConfig (st_settings st)) (rq_now r) (pat_UserID p) (pat_ClientID p)
        (pat_Scope p) (pat_ID p) (pat_ExpiresAt p - rq_now r) (delegation_claims dev rt user scope) = Some tok
    \<and> pat_UserID p = usr_ID user \<and> pat_ClientID p = cl_ClientID target \<and> pat_Scope p = scope \<and> pat_DeviceID p = dev_ID dev
    \<and> pat_RevokedAt p = None \<and> db_pats (st_db st') = db_pats (st_db st) @ [p] \<and> resp = Json 200 (patView p tok)"
  using assms(1) unfolding device_route_def device_route.case
proof (cases rule: requireDevice_cases)
  case (refused code desc)
  then show ?thesis using assms(2) by (auto simp: spends_def)
next
  case (device dev st1)
  obtain j where st1: "st1 = st\<lparr>st_db := (st_db st)\<lparr>db_jtis := j\<rparr>\<rparr>" using device(2) by (auto simp: spends_def)
  then have same: "db_pats (st_db st1) = db_pats (st_db st)" "st_settings st1 = st_settings st"
    "pat_grounds r (st_db st1) = pat_grounds r (st_db st)"
    by (simp_all add: pat_grounds_def [abs_def])
  obtain b rt user target scope where g: "decode_body 8192 pat_fields empty_pat_body r = Some b"
    "pat_grounds r (st_db st) dev b rt user target scope" "run_state (issue_pat srv r dev rt user target b scope) st1 = (resp, st')"
    using handleCreatePAT_cases [OF device(3)] assms(2) unfolding same by auto
  obtain tok where "IssuePersonalAccessToken (srv_lib srv) (srv_keys srv) (issuerConfig (st_settings st)) (rq_now r) (usr_ID user)
            (cl_ClientID target) scope (rq_uuid r ''pat'') (pat_ttl (pb_ExpiresIn b)) (delegation_claims dev rt user scope) = Some tok"
    "resp = Json 200 (patView (new_pat r dev user target b scope) tok)"
    "db_pats (st_db st') = db_pats (st_db st) @ [new_pat r dev user target b scope]"
    using issue_pat_cases [OF g(3)] assms(2) unfolding same by auto
  then show ?thesis
    using device(1) g(1,2)
    by (intro exI [of _ dev] exI [of _ b] exI [of _ rt] exI [of _ user] exI [of _ target] exI [of _ scope] exI [of _ tok]
          exI [of _ "new_pat r dev user target b scope"])
       (simp add: new_pat_def)
qed
subsection \<open>Posture\<close>

text \<open>The text of a flat object of strings and flags is read back as that object.\<close>

fun scalar_text :: "json \<Rightarrow> string" where
  "scalar_text (JStr s) = jstr s"
| "scalar_text (JBool b) = flag_text b"
| "scalar_text _ = []"

definition scalar :: "json \<Rightarrow> bool" where
  "scalar v \<longleftrightarrow> (case v of JStr s \<Rightarrow> ascii s | JBool _ \<Rightarrow> True | _ \<Rightarrow> False)"

lemma json_value_flag: "json_value (Suc n) (flag_text b @ r) = Some (JBool b, r)"
  by (cases b) (simp_all add: flag_text_def json_ws_def punct_defs HasPrefix_def)

lemma json_value_scalar: "scalar v \<Longrightarrow> 0 < n \<Longrightarrow> json_value n (scalar_text v @ r) = Some (v, r)"
  using json_value_jstr [of _ n r] json_value_flag [of "n - 1"] by (cases v) (auto simp: scalar_def)

lemma json_members_scalars:
  assumes "ms \<noteq> []" "\<forall>(k, v) \<in> set ms. ascii k \<and> scalar v" "length ms < n"
  shows "json_members n (intercalate '','' (map (\<lambda>(k, v). jstr k @ '':'' @ scalar_text v) ms) @ CHR ''}'' # r) = Some (ms, r)"
  using assms
proof (induction ms arbitrary: n rule: induct_list012)
  case (2 m)
  obtain k v where m: "m = (k, v)" by fastforce
  obtain x where n: "n = Suc x" "0 < x" using 2 by (cases n) auto
  obtain t where t: "jstr k = quote # t" "\<And>r. json_chars (t @ r) = Some (k, r)"
    using 2 m jstr_decodes [of k] by auto
  from 2 m n show ?case by (simp add: t json_value_scalar)
next
  case (3 m m' ms)
  obtain k v where m: "m = (k, v)" by fastforce
  obtain x where n: "n = Suc x" "0 < x" using 3 by (cases n) auto
  obtain t where t: "jstr k = quote # t" "\<And>r. json_chars (t @ r) = Some (k, r)"
    using 3 m jstr_decodes [of k] by auto
  have "json_members x (intercalate '','' (map (\<lambda>(k, v). jstr k @ '':'' @ scalar_text v) (m' # ms)) @ CHR ''}'' # r) = Some (m' # ms, r)"
    using 3 n by (intro "3.IH") auto
  with 3 m n show ?case by (simp add: t json_value_scalar)
qed simp

lemma length_intercalate: "length xs \<le> Suc (length (intercalate '','' xs))"
  by (induction "'',''" xs rule: intercalate.induct) auto

lemma json_decode_scalars:
  assumes "\<forall>(k, v) \<in> set ms. ascii k \<and> scalar v"
  shows "json_decode (object_text (map (\<lambda>(k, v). (k, scalar_text v)) ms)) = Some (JObj ms)"
proof (cases "ms = []")
  case True
  then show ?thesis by (simp add: object_text_def json_decode_def json_ws_def HasPrefix_def skip_ws_def)
next
  case False
  let ?t = "intercalate '','' (map (\<lambda>(k, v). jstr k @ '':'' @ scalar_text v) ms)"
  have o: "object_text (map (\<lambda>(k, v). (k, scalar_text v)) ms) = CHR ''{'' # ?t @ ''}''"
    by (simp add: object_text_def comp_def) (intro arg_cong [where f = "intercalate '',''"] map_cong refl, auto)
  have m: "json_members (length ?t + 2) (?t @ ''}'') = Some (ms, [])"
    using json_members_scalars [OF False assms, of "length ?t + 2" "[]"] length_intercalate [of "map (\<lambda>(k, v). jstr k @ '':'' @ scalar_text v) ms"]
    by simp
  obtain k v where "hd ms = (k, v)" by fastforce
  then have "\<exists>u. ?t = quote # u" using False by (cases ms; cases "tl ms") (auto simp: jstr_def)
  then have h: "\<not> HasPrefix (skip_ws (?t @ ''}'')) ''}''" by (auto simp: HasPrefix_def)
  show ?thesis
    unfolding o json_decode_def using m h by (simp add: skip_ws_def numeral_2_eq_2)
qed

lemma marshalPosture_scalars: "\<exists>ms. posture_json p = JObj ms \<and> marshalPosture p = object_text (map (\<lambda>(k, v). (k, scalar_text v)) ms)
    \<and> (ascii (po_OSName p) \<and> ascii (po_OSVersion p) \<and> ascii (po_KeyBackend p) \<longrightarrow> (\<forall>(k, v) \<in> set ms. ascii k \<and> scalar v))"
  by (auto simp: posture_json_def marshalPosture_def posture_members_def scalar_def ascii_def split: option.split)

lemma fold_posture_names [simp]:
  "fold_name ''os_name'' = ''os_name''" "fold_name ''os_version'' = ''os_version''" "fold_name ''disk_encrypted'' = ''disk_encrypted''"
  "fold_name ''screen_lock'' = ''screen_lock''" "fold_name ''key_backend'' = ''key_backend''"
  by code_simp+

lemma posture_json_read: "posture_of_json (posture_json p) = Some p"
  by (cases p) (auto simp: posture_of_json_def posture_json_def empty_posture_def posture_text_def posture_flag_def split: option.split)

lemma parsePosture_marshal:
  assumes "ascii (po_OSName p)" "ascii (po_OSVersion p)" "ascii (po_KeyBackend p)"
  shows "parsePosture (marshalPosture p) = Some p"
proof -
  obtain ms where ms: "posture_json p = JObj ms" "marshalPosture p = object_text (map (\<lambda>(k, v). (k, scalar_text v)) ms)"
    "\<forall>(k, v) \<in> set ms. ascii k \<and> scalar v" using marshalPosture_scalars [of p] assms by auto
  have "marshalPosture p \<noteq> []" by (simp add: ms(2) object_text_def)
  then show ?thesis
    using posture_json_read [of p] json_decode_scalars [OF ms(3)] by (simp add: parsePosture_def ms(1,2))
qed
lemma ascii_TrimSpace:
  assumes "ascii s"
  shows "ascii (TrimSpace s)"
proof -
  have "set (concat (map snd (rev (dropWhile P (rev (dropWhile Q (runes s))))))) \<subseteq> set s" for P Q
    unfolding runes_ascii [OF assms] by (auto dest!: set_dropWhileD)
  then show ?thesis using assms unfolding TrimSpace_def ascii_def list_all_iff by blast
qed

lemma ascii_truncate: "ascii s \<Longrightarrow> ascii (truncate_bytes s n)"
  by (auto simp: truncate_bytes_def ascii_def list_all_iff dest: in_set_takeD)

lemma ascii_key_backend: "ascii (normalizeKeyBackend s)"
proof -
  have "list_all ascii knownKeyBackends" by code_simp
  then have "\<forall>b \<in> set knownKeyBackends. ascii b" unfolding list_all_iff .
  then show ?thesis by (auto simp: normalizeKeyBackend_def Let_def ascii_def)
qed

text \<open>C34: What a device reports about itself in ASCII is what is read of it afterwards, by the administrators' pages and in the
  tokens of the device: the report, trimmed, cut to 64 bytes, with a known key backend or none. It is stored for the device
  that authenticated, with the time; the device's trust follows a reported backend and otherwise stays.\<close>

theorem posture_roundtrip:
  assumes "run_state (device_route jwktext srv PostPosture r) st = (Json 200 ms, st')"
    and "posture_body r = Some p" "ascii (po_OSName p)" "ascii (po_OSVersion p)"
  shows "\<exists>dev. device_request srv r None st dev \<and> (\<forall>v' \<in> set (db_devices (st_db st')). if dev_ID v' = dev_ID dev
      then parsePosture (dev_Posture v') = Some (cleaned_posture p) \<and> dev_PostureAt v' = rq_now r
        \<and> (\<exists>v \<in> set (db_devices (st_db st)). dev_ID v = dev_ID v' \<and> dev_TrustLevel v' =
              (if po_KeyBackend (cleaned_posture p) = [] then dev_TrustLevel v else TrustForKeyBackend (po_KeyBackend (cleaned_posture p))))
      else v' \<in> set (db_devices (st_db st)))"
  using assms(1) unfolding device_route_def device_route.case
proof (cases rule: requireDevice_cases)
  case (device dev st1)
  let ?p = "cleaned_posture p"
  let ?g = "\<lambda>v. if po_KeyBackend ?p \<noteq> [] then v\<lparr>dev_Posture := marshalPosture ?p, dev_PostureAt := rq_now r,
          dev_KeyBackend := po_KeyBackend ?p, dev_TrustLevel := trust_after dev (po_KeyBackend ?p)\<rparr>
        else v\<lparr>dev_Posture := marshalPosture ?p, dev_PostureAt := rq_now r\<rparr>"
  have same: "db_devices (st_db st1) = db_devices (st_db st)" using device(2) by (auto simp: spends_def)
  have rows: "db_devices (st_db st') = upd (\<lambda>v. dev_ID v = dev_ID dev) ?g (db_devices (st_db st))"
    using device(3) assms(2) same
    by (auto simp: handleDevicePosture_def apiError_def Let_def SetDevicePosture_def raw_stmts split: if_splits)
  have read: "parsePosture (marshalPosture ?p) = Some ?p"
    using assms(3,4) by (intro parsePosture_marshal) (simp_all add: cleaned_posture_def ascii_truncate ascii_TrimSpace ascii_key_backend)
  have "if dev_ID v' = dev_ID dev
      then parsePosture (dev_Posture v') = Some ?p \<and> dev_PostureAt v' = rq_now r
        \<and> (\<exists>v \<in> set (db_devices (st_db st)). dev_ID v = dev_ID v' \<and> dev_TrustLevel v' =
              (if po_KeyBackend ?p = [] then dev_TrustLevel v else TrustForKeyBackend (po_KeyBackend ?p)))
      else v' \<in> set (db_devices (st_db st))" if "v' \<in> set (db_devices (st_db st'))" for v'
    using that unfolding rows by (rule in_updE) (auto simp: read trust_after_def)
  then show ?thesis using device(1) by blast
qed simp
subsection \<open>Withdrawal\<close>

definition withdrawn :: "string \<Rightarrow> db \<Rightarrow> bool" where
  "withdrawn i d \<longleftrightarrow> (\<forall>v \<in> set (db_devices d). dev_ID v = i \<longrightarrow> \<not> IsActive v \<and> \<not> IsPending v)"

lemma image_upd: "(\<And>r. g (f r) = g r) \<Longrightarrow> g ` set (upd p f t) = g ` set t"
  by (induction t) auto

lemma rotate_key_ID: "dev_ID (rotate_key pk alg fp kb tr v) = dev_ID v"
  by (simp add: rotate_key_def Let_def)

lemma device_step_ids:
  assumes "\<not> mints_device i (Enrolment x)"
  shows "i \<in> dev_ID ` set (db_devices (device_step x d)) \<Longrightarrow> i \<in> dev_ID ` set (db_devices d)"
proof (cases x)
  case (OpCreateDevice v)
  moreover assume "i \<in> dev_ID ` set (db_devices (device_step x d))"
  ultimately show ?thesis using assms by (auto simp: CreateDevice_def raw_stmts split: if_splits)
next
  case (OpDeleteDevice j)
  moreover assume "i \<in> dev_ID ` set (db_devices (device_step x d))"
  ultimately show ?thesis by (auto simp: DeleteDevice_def raw_stmts set_del split: if_splits)
qed (simp_all add: stmt_defs raw_stmts image_upd rotate_key_ID split: if_splits sum.splits)

lemma store_step_ids:
  assumes "\<not> mints_device i x"
  shows "i \<in> dev_ID ` set (db_devices (store_step x d)) \<Longrightarrow> i \<in> dev_ID ` set (db_devices d)"
proof (cases x)
  case (Account y)
  then show "i \<in> dev_ID ` set (db_devices (store_step x d)) \<Longrightarrow> i \<in> dev_ID ` set (db_devices d)"
    using account_step_devices [of y d] by auto
next
  case (Grant y)
  then show "i \<in> dev_ID ` set (db_devices (store_step x d)) \<Longrightarrow> i \<in> dev_ID ` set (db_devices d)"
    by (simp add: frame_simps)
next
  case (Enrolment y)
  then show "i \<in> dev_ID ` set (db_devices (store_step x d)) \<Longrightarrow> i \<in> dev_ID ` set (db_devices d)"
    using device_step_ids [of i y d] assms by simp
qed

lemma withdrawn_step:
  assumes "db_ok d" "withdrawn i d" "\<not> mints_device i x"
  shows "withdrawn i (store_step x d)"
  unfolding withdrawn_def
proof (intro ballI impI)
  fix v' assume v': "v' \<in> set (db_devices (store_step x d))" "dev_ID v' = i"
  then obtain v where v: "v \<in> set (db_devices d)" "dev_ID v = i" using store_step_ids [OF assms(3), of d] by fastforce
  then show "\<not> IsActive v' \<and> \<not> IsPending v'"
    using device_life [OF assms(1) v(1) v'(1)] v' assms(2,3) by (auto simp: withdrawn_def)
qed

lemma withdrawn_fold:
  "list_all (\<lambda>x. \<not> mints_device i x) xs \<Longrightarrow> db_ok d \<Longrightarrow> withdrawn i d \<Longrightarrow> withdrawn i (fold store_step xs d)"
proof (induction xs arbitrary: d)
  case (Cons x xs)
  then show ?case using run_store_ok [of d "[x]"] withdrawn_step by simp
qed simp

lemma withdrawn_runs: "runs (\<lambda>x. \<not> mints_device i x) d d' \<Longrightarrow> db_ok d \<Longrightarrow> withdrawn i d \<Longrightarrow> withdrawn i d'"
  using withdrawn_fold by (auto simp: runs_def)

lemma withdrawn_refused: "withdrawn i (st_db st) \<Longrightarrow> device_request srv r pr st v \<Longrightarrow> dev_ID v \<noteq> i"
  by (auto simp: withdrawn_def device_request_def)

text \<open>C21: When a device withdraws and the answer says so, its refresh tokens and personal access tokens are revoked at
  once, the gateways are handed the revocation if it can be signed, and the withdrawal is final: whatever the store does afterwards, short of
  registering a device under the same id, no request is taken to come from that device again.\<close>

theorem withdrawal_final:
  assumes "db_ok (st_db st)" and "run_state (device_route jwktext srv Unenroll r) st = (Json 200 ms, st1)"
  shows "\<exists>dev. device_request srv r None st dev
    \<and> (\<forall>t \<in> set (db_refresh_tokens (st_db st1)). rt_DeviceID t = dev_ID dev \<longrightarrow> rt_Revoked t)
    \<and> (\<forall>p \<in> set (db_pats (st_db st1)). pat_DeviceID p = dev_ID dev \<longrightarrow> pat_RevokedAt p \<noteq> None)
    \<and> (\<forall>tok. IssueRevocationToken (srv_lib srv) (srv_keys srv) (issuerConfig (st_settings st)) (rq_now r) (rq_uuid r ''revocation'')
          (dev_OwnerUserID dev) (dev_ID dev) ''device unenrolled'' revocationTokenTTL = Some tok \<and> dev_ID dev \<noteq> []
        \<longrightarrow> st_pushed st1 = st_pushed st @ map (\<lambda>url. (url, tok)) (srv_Webhooks srv))
    \<and> (\<forall>st2 r2 pr v. runs (\<lambda>x. \<not> mints_device (dev_ID dev) x) (st_db st1) (st_db st2) \<and> device_request srv r2 pr st2 v
        \<longrightarrow> dev_ID v \<noteq> dev_ID dev)"
  using assms(2) unfolding device_route_def device_route.case
proof (cases rule: requireDevice_cases)
  case (device dev sta)
  obtain j where sta: "sta = st\<lparr>st_db := (st_db st)\<lparr>db_jtis := j\<rparr>\<rparr>" using device(2) by (auto simp: spends_def)
  obtain d1 where r: "RevokeDevice (dev_ID dev) (rq_now r) (st_db sta) = (Inr (), d1)"
    using device(3) by (cases "RevokeDevice (dev_ID dev) (rq_now r) (st_db sta)") (auto simp: handleDeviceUnenroll_def apiError_def split: sum.splits)
  let ?audited = "snd (AppendAuditEvent (audit_event r evtDeviceRevoked (owner_entry dev (''device='' @ dev_ID dev @ '' by=device''))) d1)"
  have st1: "st_db st1 = ?audited"
    and pushed: "\<forall>tok. IssueRevocationToken (srv_lib srv) (srv_keys srv) (issuerConfig (st_settings st)) (rq_now r) (rq_uuid r ''revocation'')
          (dev_OwnerUserID dev) (dev_ID dev) ''device unenrolled'' revocationTokenTTL = Some tok \<and> dev_ID dev \<noteq> []
        \<longrightarrow> st_pushed st1 = st_pushed st @ map (\<lambda>url. (url, tok)) (srv_Webhooks srv)"
    using device(3) r by (auto simp: handleDeviceUnenroll_def pushRevocation_def sta split: if_splits option.splits)
  have ok: "db_ok (st_db st1)"
  proof -
    have "performs (\<lambda>_. True) (requireDevice srv (handleDeviceUnenroll srv r) r)"
      unfolding requireDevice_def handleDeviceUnenroll_def by (intro performs_rules) simp_all
    from performsD [OF this assms(2) [unfolded device_route_def device_route.case]] runs_db_ok assms(1) show ?thesis by blast
  qed
  note e = RevokeDevice_effect [OF r, of "rq_now r"]
  have w: "withdrawn (dev_ID dev) (st_db st1)" using e by (simp add: withdrawn_def st1)
  have pats: "pat_RevokedAt p \<noteq> None" if "p \<in> set (db_pats d1)" "pat_DeviceID p = dev_ID dev" for p
  proof -
    have "db_pats d1 = revoke_pats (\<lambda>x. pat_DeviceID x = dev_ID dev) (rq_now r) (db_pats (st_db sta))"
      using r by (auto simp: RevokeDevice_def Let_def split: if_splits)
    then show ?thesis using revoke_pats_none [of "\<lambda>x. pat_DeviceID x = dev_ID dev" p] that by simp
  qed
  have tokens: "\<forall>t \<in> set (db_refresh_tokens (st_db st1)). rt_DeviceID t = dev_ID dev \<longrightarrow> rt_Revoked t"
    using e by (simp add: st1)
  have own: "\<forall>p \<in> set (db_pats (st_db st1)). pat_DeviceID p = dev_ID dev \<longrightarrow> pat_RevokedAt p \<noteq> None"
    using pats by (simp add: st1)
  have "dev_ID v \<noteq> dev_ID dev"
    if "runs (\<lambda>x. \<not> mints_device (dev_ID dev) x) (st_db st1) (st_db st2)" "device_request srv r2 pr st2 v" for st2 r2 pr v
    using withdrawn_refused [OF withdrawn_runs [OF that(1) ok w] that(2)] .
  then show ?thesis using device(1) tokens own pushed by blast
qed simp

end
