(* ===== verification/DevicePagesFacts.thy ===== *)
theory DevicePagesFacts
  imports DevicePages DeviceApiFacts
begin

text \<open>
  Who can change a device on the pages, what each change is, and whether the gateways are told: an administrator's
  revocation is handed to them, an owner's is not.
\<close>

subsection \<open>Programs that tell the gateways nothing\<close>

definition quiet :: "'a prog \<Rightarrow> bool" where
  "quiet = state_io_rel (\<lambda>s s'. st_pushed s' = st_pushed s)"

named_theorems quiet_rules \<open>constructs of a program that push nothing\<close>

lemma quietD: "quiet m \<Longrightarrow> run_state m st = (x, st') \<Longrightarrow> st_pushed st' = st_pushed st"
  unfolding quiet_def state_io_rel_def by (metis snd_conv)

lemma quiet_basic [quiet_rules]:
  "quiet (done_with x)" "quiet (ask f)" "quiet (stmt g)" "quiet settings_Current" "quiet (set_cookie n v)"
  by (simp_all add: quiet_def state_io_rel_def set_cookie_def)

lemma quiet_bind [quiet_rules]:
  assumes "quiet m" and "\<And>x. quiet (f x)"
  shows "quiet (State_Monad.bind m f)"
  unfolding quiet_def
proof (rule state_io_relI)
  fix y s s'
  assume run: "run_state (State_Monad.bind m f) s = (y, s')"
  obtain x s1 where m: "run_state m s = (x, s1)" by fastforce
  then have "run_state (f x) s1 = (y, s')" using run by simp
  then show "st_pushed s' = st_pushed s" using quietD [OF assms(1) m] quietD [OF assms(2)] by metis
qed

lemma quiet_cases [quiet_rules]:
  "quiet m \<Longrightarrow> quiet n \<Longrightarrow> quiet (if b then m else n)"
  "quiet m \<Longrightarrow> (\<And>y. quiet (h y)) \<Longrightarrow> quiet (case v of None \<Rightarrow> m | Some y \<Rightarrow> h y)"
  "(\<And>e. quiet (f e)) \<Longrightarrow> (\<And>y. quiet (g y)) \<Longrightarrow> quiet (case w of Inl e \<Rightarrow> f e | Inr y \<Rightarrow> g y)"
  "(\<And>a b. quiet (k a b)) \<Longrightarrow> quiet (case z of (a, b) \<Rightarrow> k a b)"
  by (simp_all split: option.split sum.split prod.split)

lemma quiet_parts [quiet_rules]: "quiet (audit r e x)" "quiet (form_page r s n vs)" "quiet (sessions_Current r)"
proof -
  show "quiet (audit r e x)" unfolding audit_def by (intro quiet_rules)
  have "quiet (csrf_token r)" unfolding csrf_token_def Let_def by (intro quiet_rules)
  then show "quiet (form_page r s n vs)" unfolding form_page_def by (intro quiet_rules)
  show "quiet (sessions_Current r)" unfolding sessions_Current_def by (intro quiet_rules)
qed

lemma quiet_requireUser: "(\<And>user sess. quiet (h user sess)) \<Longrightarrow> quiet (requireUser uri h r)"
  unfolding requireUser_def by (intro quiet_rules)

lemma quiet_owner: "quiet (handleAccountRevokeDevice r user sess)"
  unfolding handleAccountRevokeDevice_def renderAccountDevices_def by (intro quiet_rules)

subsection \<open>The owner\<close>

lemma pages_db [simp]:
  "st_db (snd (run_state (renderAccountDevices r user s e m) st)) = st_db st"
  "st_db (snd (run_state (renderAdminDevices r user s e m) st)) = st_db st"
  "st_db (snd (run_state (renderAdminDeviceDetail r user s v e) st)) = st_db st"
  by (simp_all add: renderAccountDevices_def renderAdminDevices_def renderAdminDeviceDetail_def Let_def)

lemma run_renders:
  "run_state (renderAccountDevices r user s e m) st = (resp, st') \<Longrightarrow> st_db st' = st_db st"
  "run_state (renderAdminDevices r user s e m) st = (resp, st') \<Longrightarrow> st_db st' = st_db st"
  "run_state (renderAdminDeviceDetail r user s v e) st = (resp, st') \<Longrightarrow> st_db st' = st_db st"
  using pages_db by (metis snd_conv)+

lemma pushRevocation_db [simp]: "st_db (snd (run_state (pushRevocation srv r s i m) st)) = st_db st"
  by (simp add: pushRevocation_def split: option.split)

lemma notifyDeviceApproved_db [simp]: "st_db (snd (run_state (notifyDeviceApproved srv v) st)) = st_db st"
  by (simp add: notifyDeviceApproved_def split: sum.split)

text \<open>What revoking a device leaves of it.\<close>

definition revoked_device :: "string \<Rightarrow> db \<Rightarrow> db \<Rightarrow> bool" where
  "revoked_device i d d' \<longleftrightarrow> withdrawn i d' \<and> (\<forall>t \<in> set (db_refresh_tokens d'). rt_DeviceID t = i \<longrightarrow> rt_Revoked t)
     \<and> filter (\<lambda>v. dev_ID v \<noteq> i) (db_devices d') = filter (\<lambda>v. dev_ID v \<noteq> i) (db_devices d)"

lemma filter_upd_other: "(\<And>v. p v \<Longrightarrow> \<not> q v) \<Longrightarrow> (\<And>v. q (f v) = q v) \<Longrightarrow> filter q (upd p f t) = filter q t"
  by (induction t) auto

lemma RevokeDevice_revokes:
  assumes "RevokeDevice i now d = (Inr (), d')"
  shows "revoked_device i d d'"
proof -
  have "db_devices d' = upd (\<lambda>v. dev_ID v = i \<and> dev_Status v \<noteq> DeviceStatusRevoked)
      (\<lambda>v. v\<lparr>dev_Status := DeviceStatusRevoked, dev_RevokedAt := now\<rparr>) (db_devices d)"
    using assms by (auto simp: RevokeDevice_def Let_def split: if_splits)
  then have "filter (\<lambda>v. dev_ID v \<noteq> i) (db_devices d') = filter (\<lambda>v. dev_ID v \<noteq> i) (db_devices d)"
    by (simp only:) (rule filter_upd_other; simp)
  then show ?thesis
    using RevokeDevice_effect [OF assms] by (simp add: revoked_device_def withdrawn_def)
qed

lemma AppendAuditEvent_device [simp]: "revoked_device i d (snd (AppendAuditEvent e d')) = revoked_device i d d'"
  by (simp add: revoked_device_def withdrawn_def)

lemma RevokeDevice_failed: "RevokeDevice i now d = (Inl e, d') \<Longrightarrow> d' = d"
  by (auto simp: RevokeDevice_def Let_def split: if_splits)

text \<open>C23: On the owner's page a device is revoked only by its owner, an enabled user in a live session, on a form with a CSRF
  token; the device and its refresh tokens are then dead and no other device changes. But the gateways are told
  nothing: what has been pushed to the webhooks is what it was before, and a gateway that relies on the push keeps the
  device's sessions until it asks again.\<close>

theorem owner_revocation_not_pushed:
  assumes "run_state (requireUser uri (handleAccountRevokeDevice r) r) st = (resp, st')"
    and "db_devices (st_db st') \<noteq> db_devices (st_db st)"
  shows "csrf_valid r \<and> (\<exists>sess user dev. as_user st r sess user \<and> dev \<in> set (db_devices (st_db st))
      \<and> dev_ID dev = PathValue r ''id'' \<and> dev_OwnerUserID dev = usr_ID user \<and> revoked_device (dev_ID dev) (st_db st) (st_db st'))
    \<and> st_pushed st' = st_pushed st"
  using assms(1)
proof (cases rule: requireUser_cases)
  case away
  then show ?thesis using assms(2) by (simp add: grants_frame_def)
next
  case (user sess user st1)
  have same: "db_devices (st_db st1) = db_devices (st_db st)" using user(2) by (simp add: grants_frame_def)
  have csrf: "csrfOK r = None" using user(3) assms(2) same by (cases "csrfOK r") (auto simp: handleAccountRevokeDevice_def)
  obtain dev where dev: "GetDevice (PathValue r ''id'') (st_db st1) = Inr dev" "dev_OwnerUserID dev = usr_ID user"
    using user(3) csrf assms(2) same
    by (auto simp: handleAccountRevokeDevice_def dest!: run_renders split: sum.splits if_splits)
  obtain d1 where d1: "RevokeDevice (dev_ID dev) (rq_now r) (st_db st1) = (Inr (), d1)"
    using user(3) csrf dev assms(2) same
    by (cases "RevokeDevice (dev_ID dev) (rq_now r) (st_db st1)")
       (auto simp: handleAccountRevokeDevice_def dest!: run_renders RevokeDevice_failed split: sum.splits)
  obtain e where st': "st_db st' = snd (AppendAuditEvent e d1)"
    using user(3) csrf dev d1 by (auto simp: handleAccountRevokeDevice_def dest!: run_renders)
  have "revoked_device (dev_ID dev) (st_db st) (st_db st')"
    using RevokeDevice_revokes [OF d1] same by (simp add: st') (simp add: revoked_device_def)
  moreover have "st_pushed st' = st_pushed st" using quietD [OF quiet_requireUser [OF quiet_owner] assms(1)] .
  moreover have "csrf_valid r" using csrf by (simp add: csrfOK_def split: if_splits)
  ultimately show ?thesis using user(1) dev GetDevice_Inr [OF dev(1)] same by metis
qed
subsection \<open>The administrators\<close>

text \<open>The three decisions of an administrator, behind the guard of the administration.\<close>

datatype admin_action = AdminRevoke | AdminApprove | AdminDelete

definition admin_device :: "server \<Rightarrow> string \<Rightarrow> admin_action \<Rightarrow> request \<Rightarrow> response prog" where
  "admin_device srv uri act r = requireAdmin uri (case act of AdminRevoke \<Rightarrow> handleAdminRevokeDevice srv r
     | AdminApprove \<Rightarrow> handleAdminApproveDevice srv r | AdminDelete \<Rightarrow> handleAdminDeleteDevice srv r) r"

lemma requireAdmin_cases:
  assumes "run_state (requireAdmin uri h r) st = (resp, st')"
  obtains (away) t where "resp = Redirect t" "grants_frame st st'"
    | (admin) sess user st1 where "as_user st r sess user" "usr_IsAdmin user" "grants_frame st st1"
        "run_state (h user) st1 = (resp, st')" "st1 = st\<lparr>st_db := st_db st1\<rparr>"
proof -
  have "run_state (requireUser uri (\<lambda>user sess. if usr_IsAdmin user then h user else done_with (Redirect ''/login'')) r) st = (resp, st')"
    using assms unfolding requireAdmin_def requireUser_def
    by (auto split: prod.splits sum.splits if_splits)
  then show ?thesis
  proof (cases rule: requireUser_cases)
    case (user sess user st1)
    then show ?thesis by (cases "usr_IsAdmin user") (auto intro: away admin)
  qed (auto intro: away)
qed

lemma ApproveDevice_run:
  "ApproveDevice i t d = (res, d') \<Longrightarrow> db_devices d' = (case res of Inl _ \<Rightarrow> db_devices d
     | Inr _ \<Rightarrow> upd (\<lambda>v. dev_ID v = i \<and> IsPending v) (\<lambda>v. v\<lparr>dev_Status := DeviceStatusActive, dev_EnrolledAt := t\<rparr>) (db_devices d))"
  by (auto simp: ApproveDevice_def raw_stmts requireRow_def IsPending_def affected_0_iff intro!: upd_none split: if_splits)

lemma DeleteDevice_run:
  "DeleteDevice i d = (res, d') \<Longrightarrow> db_devices d' = (case res of Inl _ \<Rightarrow> db_devices d
     | Inr _ \<Rightarrow> del (\<lambda>v. dev_ID v = i \<and> dev_Status v = DeviceStatusRevoked) (db_devices d))"
  by (auto simp: DeleteDevice_def raw_stmts requireRow_def affected_0_iff del_def filter_id_conv split: if_splits)

definition admin_change :: "admin_action \<Rightarrow> request \<Rightarrow> db \<Rightarrow> db \<Rightarrow> bool" where
  "admin_change act r d d' \<longleftrightarrow> (let i = PathValue r ''id'' in case act of
     AdminRevoke \<Rightarrow> revoked_device i d d'
   | AdminApprove \<Rightarrow> db_devices d' = upd (\<lambda>v. dev_ID v = i \<and> IsPending v) (\<lambda>v. v\<lparr>dev_Status := DeviceStatusActive, dev_EnrolledAt := rq_now r\<rparr>)
       (db_devices d)
   | AdminDelete \<Rightarrow> db_devices d' = del (\<lambda>v. dev_ID v = i \<and> dev_Status v = DeviceStatusRevoked) (db_devices d))"

text \<open>The gateways have been handed a revocation of the device \<open>i\<close>, if its token could be signed.\<close>

definition handed_over :: "server \<Rightarrow> request \<Rightarrow> string \<Rightarrow> string \<Rightarrow> string \<Rightarrow> srvstate \<Rightarrow> srvstate \<Rightarrow> bool" where
  "handed_over srv r subject i reason st st' \<longleftrightarrow> (\<forall>tok. i \<noteq> [] \<and>
     IssueRevocationToken (srv_lib srv) (srv_keys srv) (issuerConfig (st_settings st)) (rq_now r) (rq_uuid r ''revocation'') subject i reason
       revocationTokenTTL = Some tok \<longrightarrow> st_pushed st' = st_pushed st @ map (\<lambda>url. (url, tok)) (srv_Webhooks srv))"

lemma pushRevocation_hands_over:
  assumes "st_pushed s = st_pushed st" "st_settings s = st_settings st"
  shows "handed_over srv r subject i reason st (snd (run_state (pushRevocation srv r subject i reason) s))"
  using assms by (auto simp: handed_over_def pushRevocation_def split: option.split)

lemma revoke_cases:
  assumes "run_state (handleAdminRevokeDevice srv r me) st = (resp, st')"
  shows "db_devices (st_db st') = db_devices (st_db st)
    \<or> csrf_valid r \<and> admin_change AdminRevoke r (st_db st) (st_db st')
      \<and> (\<exists>dev. GetDevice (PathValue r ''id'') (st_db st) = Inr dev
          \<and> handed_over srv r (dev_OwnerUserID dev) (PathValue r ''id'') ''device revoked'' st st')"
proof (cases "csrfOK r = None \<and> (\<exists>dev d1. GetDevice (PathValue r ''id'') (st_db st) = Inr dev
      \<and> RevokeDevice (PathValue r ''id'') (rq_now r) (st_db st) = (Inr (), d1))")
  case False
  then show ?thesis
    using assms by (cases "RevokeDevice (PathValue r ''id'') (rq_now r) (st_db st)")
      (auto simp: handleAdminRevokeDevice_def Let_def dest!: run_renders RevokeDevice_failed split: option.splits sum.splits)
next
  case True
  then obtain dev d1 where g: "csrfOK r = None" "GetDevice (PathValue r ''id'') (st_db st) = Inr dev"
    "RevokeDevice (PathValue r ''id'') (rq_now r) (st_db st) = (Inr (), d1)" by blast
  define s where "s = st\<lparr>st_db := snd (AppendAuditEvent (audit_event r evtDeviceRevoked
      (admin_entry me (''device='' @ PathValue r ''id'' @ '' owner='' @ dev_OwnerUserID dev @ '' by=admin''))) d1)\<rparr>"
  have s': "st' = snd (run_state (pushRevocation srv r (dev_OwnerUserID dev) (PathValue r ''id'') ''device revoked'') s)"
    using assms g by (simp add: handleAdminRevokeDevice_def Let_def split_beta s_def)
  have s: "st_pushed s = st_pushed st" "st_settings s = st_settings st" by (simp_all add: s_def)
  have "csrf_valid r" using g(1) by (simp add: csrfOK_def split: if_splits)
  moreover have "revoked_device (PathValue r ''id'') (st_db st) (st_db st')"
    using RevokeDevice_revokes [OF g(3)] by (simp add: s' s_def)
  ultimately show ?thesis
    using g(2) pushRevocation_hands_over [OF s] by (simp add: admin_change_def s')
qed

lemma approve_device_cases:
  assumes "run_state (handleAdminApproveDevice srv r me) st = (resp, st')"
  shows "db_devices (st_db st') = db_devices (st_db st) \<or> csrf_valid r \<and> admin_change AdminApprove r (st_db st) (st_db st')"
proof -
  obtain res d1 where a: "ApproveDevice (PathValue r ''id'') (rq_now r) (st_db st) = (res, d1)" by fastforce
  note d1 = ApproveDevice_run [OF a]
  show ?thesis
  proof (cases "csrfOK r")
    case None
    then have "csrf_valid r" by (simp add: csrfOK_def split: if_splits)
    then show ?thesis
      using assms None a d1
      by (cases res) (auto simp: handleAdminApproveDevice_def Let_def admin_change_def split_beta dest!: run_renders split: sum.splits)
  qed (use assms in \<open>auto simp: handleAdminApproveDevice_def\<close>)
qed

lemma delete_cases:
  assumes "run_state (handleAdminDeleteDevice srv r me) st = (resp, st')"
  shows "db_devices (st_db st') = db_devices (st_db st)
    \<or> csrf_valid r \<and> admin_change AdminDelete r (st_db st) (st_db st') \<and> handed_over srv r [] (PathValue r ''id'') ''device deleted'' st st'"
proof -
  obtain res d1 where a: "DeleteDevice (PathValue r ''id'') (st_db st) = (res, d1)" by fastforce
  note d1 = DeleteDevice_run [OF a]
  show ?thesis
  proof (cases "csrfOK r")
    case None
    then have "csrf_valid r" by (simp add: csrfOK_def split: if_splits)
    then show ?thesis
      using assms None a d1
      by (cases res)
         (auto simp: handleAdminDeleteDevice_def Let_def admin_change_def split_beta dest!: run_renders intro!: pushRevocation_hands_over)
  qed (use assms in \<open>auto simp: handleAdminDeleteDevice_def\<close>)
qed

text \<open>C22: The administrators' pages change a device only for an enabled administrator in a live session, on a form with a CSRF
  token, and only the device that is named: approval makes a pending one active, deletion removes a revoked one, and
  revocation kills it with its refresh tokens. Revocation and deletion are handed to the gateways at once, if they can be
  signed.\<close>

theorem admin_device_sound:
  assumes "run_state (admin_device srv uri act r) st = (resp, st')"
    and "db_devices (st_db st') \<noteq> db_devices (st_db st)"
  shows "csrf_valid r \<and> (\<exists>sess admin. as_user st r sess admin \<and> usr_IsAdmin admin) \<and> admin_change act r (st_db st) (st_db st')
    \<and> (act = AdminRevoke \<longrightarrow> (\<exists>dev \<in> set (db_devices (st_db st)). dev_ID dev = PathValue r ''id''
          \<and> handed_over srv r (dev_OwnerUserID dev) (PathValue r ''id'') ''device revoked'' st st'))
    \<and> (act = AdminDelete \<longrightarrow> handed_over srv r [] (PathValue r ''id'') ''device deleted'' st st')"
  using assms(1) unfolding admin_device_def
proof (cases rule: requireAdmin_cases)
  case away
  then show ?thesis using assms(2) by (simp add: grants_frame_def)
next
  case (admin sess user st1)
  have same: "db_devices (st_db st1) = db_devices (st_db st)" "st_pushed st1 = st_pushed st" "st_settings st1 = st_settings st"
    using admin(3) by (simp add: grants_frame_def) (subst admin(5), simp)+
  have change: "admin_change a r (st_db st1) d' = admin_change a r (st_db st) d'"
    and over: "handed_over srv r sub i m st1 st' = handed_over srv r sub i m st st'" for a d' sub i m
    using same by (simp_all add: admin_change_def handed_over_def revoked_device_def split: admin_action.split)
  show ?thesis
  proof (cases act)
    case AdminRevoke
    with admin(4) revoke_cases [of srv r user st1 resp st'] show ?thesis
      using assms(2) admin(1,2) GetDevice_Inr [of "PathValue r ''id''" "st_db st1"] unfolding change over same by auto
  next
    case AdminApprove
    with admin(4) approve_device_cases [of srv r user st1 resp st'] show ?thesis
      using assms(2) admin(1,2) unfolding change same by auto
  next
    case AdminDelete
    with admin(4) delete_cases [of srv r user st1 resp st'] show ?thesis
      using assms(2) admin(1,2) unfolding change over same by auto
  qed
qed

end
