(* ===== verification/DeviceApiSamples.thy ===== *)
theory DeviceApiSamples
  imports DeviceSamples DevicePagesFacts
begin

text \<open>
  Requests in which the hypotheses of the properties of the device interface hold: a laptop that enrols with a bound
  token and a proof of its key, the device \<open>d1\<close> of Alice's that rotates its key, reports, asks for a personal access token
  and withdraws, and its revocation on the pages of Alice and of an administrator.
\<close>

subsection \<open>A library that checks keys\<close>

definition keyed_lib :: "(string \<Rightarrow> (claims \<times> claims \<times> pubkey) option) \<Rightarrow> jwtlib" where
  "keyed_lib tab = \<lparr>jl_Sign = \<lambda>m key hd cl. Some ''signed'',
     jl_Parse = \<lambda>opts kf raw. (case tab raw of None \<Rightarrow> None
       | Some (h, c, k) \<Rightarrow> if kf h = Some k \<and> str_of (h ''alg'') \<in> set (jo_methods opts) \<and> (jo_validate opts \<longrightarrow> claims_valid opts c)
           then Some (h, c) else None),
     jl_ParseUnverified = \<lambda>raw. map_option (\<lambda>(h, c, k). (h, c)) (tab raw),
     jl_Signed = \<lambda>raw alg key. (case tab raw of None \<Rightarrow> False | Some (h, c, k) \<Rightarrow> key = k)\<rparr>"

lemma keyed_lib_contract: "jwt_contract (keyed_lib tab)"
  by (auto simp: jwt_contract_def keyed_lib_def split: option.splits if_splits)

definition keyed_server :: "(string \<Rightarrow> (claims \<times> claims \<times> pubkey) option) \<Rightarrow> server" where
  "keyed_server tab = (table_server Map.empty)\<lparr>srv_lib := keyed_lib tab\<rparr>"

lemma keyed_server_simps [simp]:
  "srv_lib (keyed_server tab) = keyed_lib tab" "srv_keys (keyed_server tab) = sample_km" "srv_fold (keyed_server tab) = id"
  "srv_IssuerAliases (keyed_server tab) = []" "srv_Webhooks (keyed_server tab) = []"
  by (simp_all add: keyed_server_def table_server_def)

subsection \<open>Enrolment\<close>

definition enroll_claims :: claims where
  "enroll_claims = access_claims (issuerConfig sample_view) 100 ''u1'' ''omni'' ''openid device:enroll'' [''cnf'' \<mapsto> JObj [member ''jkt'' sample_jkt]]"

definition enroll_proof_claims :: claims where
  "enroll_proof_claims = proof_claims (replicate 16 CHR ''r'') ''POST'' ''https://id/token'' ''tok'' 0"

definition enroll_table :: "string \<Rightarrow> (claims \<times> claims \<times> pubkey) option" where
  "enroll_table = [''tok'' \<mapsto> (sample_header, enroll_claims, RSAKey 15 3), ''proof'' \<mapsto> (sample_proof_header, enroll_proof_claims, snd sample_signer)]"

definition enroll_body :: string where
  \<open>enroll_body = ''{"name": "Laptop", "key_backend": "TPM"}''\<close>

definition enroll_request :: request where
  "enroll_request = (form_request [])\<lparr>rq_Authorization := ''DPoP tok'', rq_DPoP := ''proof'', rq_Body := enroll_body\<rparr>"

definition laptop_db :: db where
  "laptop_db = device_db\<lparr>db_devices := []\<rparr>"

definition enroll_proof :: Proof where
  "enroll_proof = \<lparr>pr_JWK = sample_jwk, pr_JKT = sample_jkt, pr_Alg = AlgEdDSA, pr_JTI = randomID (replicate 16 CHR ''r''),
     pr_HTM = ''POST'', pr_HTU = ''https://id/token'', pr_ATH = AccessTokenHash ''tok'', pr_IssuedAt = 0\<rparr>"

lemma AccessTokenHash_not_Nil [simp]: "AccessTokenHash s \<noteq> []"
  by (auto simp: AccessTokenHash_def RawURLEncode_Nil dest: arg_cong [where f = length])

lemma enroll_proof_verified:
  "VerifyProof (keyed_lib enroll_table) id 100 \<lparr>po_Skew = 0, po_HTM = ''POST'', po_HTU = ''https://id/token'', po_AccessToken = ''tok''\<rparr>
     ''proof'' = Inr enroll_proof"
proof -
  have "url_Parse ''https://id/token'' \<noteq> None" by code_simp
  then have "sameHTU id ''https://id/token'' ''https://id/token''" using sameHTU_refl by blast
  then show ?thesis
    using sample_header_key sample_randomID sample_thumbprint
    by (simp add: VerifyProof_def keyed_lib_def enroll_table_def enroll_proof_claims_def proof_claims_def Let_def DefaultSkew_def
        time_of_Unix_def Unix_def enroll_proof_def AllowedAlgs_def sample_proof_header_def [THEN fun_cong, of "''alg''"])
qed

lemma enroll_token_verified:
  "\<exists>vt. Verify (keyed_lib enroll_table) sample_km (issuerConfig sample_view) 100 ''tok'' = Some vt \<and> IsAccessToken vt
     \<and> HasScope (vt_Scope vt) ScopeDeviceEnroll \<and> vt_JKT vt = sample_jkt \<and> vt_Subject vt = ''u1''"
proof -
  have "Fields (intercalate '' '' [''openid'', ''device:enroll'']) = [''openid'', ''device:enroll'']"
    by (rule Fields_intercalate) (simp add: word_str_def IsSpace_def)
  then have s: "HasScope ''openid device:enroll'' ScopeDeviceEnroll"
    by (simp add: HasScope_def SplitScope_def ScopeDeviceEnroll_def)
  have c: "enroll_claims ''iss'' = Some (JStr ''https://id'')" "enroll_claims ''sub'' = Some (JStr ''u1'')"
    "enroll_claims ''scope'' = Some (JStr ''openid device:enroll'')" "enroll_claims ''token_use'' = Some (JStr TokenUseAccess)"
    "enroll_claims ''exp'' = Some (jint (Unix (100 + 15 * Minute)))" "enroll_claims ''nbf'' = None"
    "enroll_claims ''cnf'' = Some (JObj [member ''jkt'' sample_jkt])"
    by (simp_all add: enroll_claims_def access_claims_def issuerConfig_def sample_view_def)
  have "Verify (keyed_lib enroll_table) sample_km (issuerConfig sample_view) 100 ''tok'' \<noteq> None"
    by (simp add: Verify_def keyed_lib_def enroll_table_def sample_header_def sample_km_def key_for_def PublicKey_def issuerConfig_def
        sample_view_def AlgRS256_def claims_valid_def c jint_def time_of_Unix_def Unix_def)
  then obtain vt where vt: "Verify (keyed_lib enroll_table) sample_km (issuerConfig sample_view) 100 ''tok'' = Some vt" by blast
  then have "vt_Claims vt = enroll_claims \<and> vt_Scope vt = str_of (enroll_claims ''scope'') \<and> vt_JKT vt = cnf_jkt enroll_claims
      \<and> vt_Subject vt = str_of (enroll_claims ''sub'')"
    by (auto simp: Verify_def keyed_lib_def enroll_table_def split: if_splits)
  with vt s c show ?thesis by (simp add: IsAccessToken_def cnf_jkt_def)
qed

lemma enroll_body_decoded:
  "decode_body maxDeviceAPIBody enroll_fields empty_enroll enroll_request = Some (empty_enroll\<lparr>eb_Name := ''Laptop'', eb_KeyBackend := ''TPM''\<rparr>)"
proof -
  have b: "request_body maxDeviceAPIBody enroll_request = enroll_body"
    by (simp add: request_body_def enroll_request_def enroll_body_def maxDeviceAPIBody_def)
  have m: \<open>raw_object enroll_body = Some [(''name'', ''"Laptop"''), (''key_backend'', ''"TPM"'')]\<close>
    by code_simp
  have f: "fill enroll_fields [(''name'', ''\"Laptop\"''), (''key_backend'', ''\"TPM\"'')] empty_enroll
      = Some (empty_enroll\<lparr>eb_Name := ''Laptop'', eb_KeyBackend := ''TPM''\<rparr>)"
    by code_simp
  show ?thesis unfolding decode_body_def b m option.case f ..
qed
lemma laptop_db_simps [simp]:
  "db_users laptop_db = [alice, bob]" "db_faults laptop_db = []" "db_devices laptop_db = []" "db_jtis laptop_db = []"
  by (simp_all add: laptop_db_def)

lemma enroll_request_simps [simp]:
  "rq_now enroll_request = 100" "rq_DPoP enroll_request = ''proof''" "rq_Method enroll_request = ''POST''" "rq_Path enroll_request = ''/token''"
  "authorizationToken enroll_request = (''DPoP'', ''tok'')"
proof -
  show "rq_now enroll_request = 100" "rq_DPoP enroll_request = ''proof''" "rq_Method enroll_request = ''POST''" "rq_Path enroll_request = ''/token''"
    by (simp_all add: enroll_request_def form_request_def)
  have "rq_Authorization enroll_request = ''DPoP tok''" by (simp add: enroll_request_def)
  moreover have "(let h = TrimSpace ''DPoP tok'' in
     if CHR '' '' \<notin> set h then ('''', '''') else (before CHR '' '' h, TrimSpace (after CHR '' '' h))) = (''DPoP'', ''tok'')" by code_simp
  ultimately show "authorizationToken enroll_request = (''DPoP'', ''tok'')" by (simp add: authorizationToken_def)
qed

lemma enroll_dpop:
  "\<exists>j. run_state (verifyDPoP (keyed_server enroll_table) enroll_request ''proof'' ''tok'') (sample_state laptop_db) =
    (Inr enroll_proof, sample_state (laptop_db\<lparr>db_jtis := j\<rparr>))"
proof -
  let ?h = "JTIHash sample_jkt (randomID (replicate 16 CHR ''r''))"
  have u: "serverURLsFor (keyed_server enroll_table) sample_view enroll_request = [''https://id/token'']"
    by (simp add: serverURLsFor_def sample_view_def TrimRight_def Let_def)
  have c: "ConsumeJTI ?h [] (2 * DefaultSkew) 100 laptop_db = (Inr True, laptop_db\<lparr>db_jtis := [\<lparr>jti_Hash = ?h, jti_DeviceID = [], jti_ExpiresAt = 2 * DefaultSkew\<rparr>]\<rparr>)"
    by (simp add: ConsumeJTI_def exec_def fault_def Let_def affected_def del_def)
  have "run_state (verifyDPoP (keyed_server enroll_table) enroll_request ''proof'' ''tok'') (sample_state laptop_db) =
    (Inr enroll_proof, (sample_state laptop_db)\<lparr>st_db := snd (ConsumeJTI ?h [] (2 * DefaultSkew) 100 laptop_db)\<rparr>)"
    using enroll_proof_verified c
    by (simp add: verifyDPoP_def u proof_opts_def) (simp add: enroll_proof_def)
  then show ?thesis unfolding c by (auto simp: sample_state_def)
qed

theorem enrolment_sound_witness:
  "\<exists>ms st' dev. run_state (handleEnrollDevice (keyed_server enroll_table) enroll_request) (sample_state laptop_db) = (Json 201 ms, st')
     \<and> db_devices (st_db st') = [dev] \<and> dev_OwnerUserID dev = ''u1'' \<and> IsActive dev \<and> dev_Fingerprint dev = sample_jkt"
proof -
  let ?srv = "keyed_server enroll_table" and ?st = "sample_state laptop_db"
  obtain vt where vt: "Verify (keyed_lib enroll_table) sample_km (issuerConfig sample_view) 100 ''tok'' = Some vt" "IsAccessToken vt"
    "HasScope (vt_Scope vt) ScopeDeviceEnroll" "vt_JKT vt = sample_jkt" "vt_Subject vt = ''u1''" using enroll_token_verified by blast
  obtain j where j: "run_state (verifyDPoP ?srv enroll_request ''proof'' ''tok'') ?st = (Inr enroll_proof, sample_state (laptop_db\<lparr>db_jtis := j\<rparr>))"
    using enroll_dpop by blast
  let ?b = "empty_enroll\<lparr>eb_Name := ''Laptop'', eb_KeyBackend := ''TPM''\<rparr>" and ?d = "laptop_db\<lparr>db_jtis := j\<rparr>"
  have p: "pr_JKT enroll_proof = sample_jkt" "canonical (pr_JWK enroll_proof) = Inr sample_key_text"
    by (simp_all add: enroll_proof_def sample_canonical)
  have "\<exists>ms st'. run_state (enroll_key ?srv enroll_request vt alice enroll_proof ?b) (sample_state ?d) = (Json 201 ms, st')"
    using p by (simp add: enroll_key_def FingerprintInUse_def query_def fault_def affected_def record_defs CreateDevice_def raw_stmts devices_ok_def
        fk_user_def enrolled_device_def Let_def split_beta)
  then obtain ms st' where "run_state (enroll_key ?srv enroll_request vt alice enroll_proof ?b) (sample_state ?d) = (Json 201 ms, st')" by blast
  then have run: "run_state (handleEnrollDevice ?srv enroll_request) ?st = (Json 201 ms, st')"
    using vt j p enroll_body_decoded by (simp add: handleEnrollDevice_def token_scheme_def)
  have lib: "jwt_contract (srv_lib ?srv)" by (simp add: keyed_lib_contract)
  obtain dev vt' and user :: User where d: "db_devices (st_db st') = db_devices (st_db ?st) @ [dev]" "enroll_token ?srv enroll_request ?st vt'"
    "vt_JKT vt' = dev_Fingerprint dev" "usr_ID user = vt_Subject vt'" "dev_OwnerUserID dev = usr_ID user"
    "if sv_RequireDeviceApproval (st_settings ?st) then IsPending dev else IsActive dev"
    using enrolment_sound [OF lib run disjI1 [OF exI [of _ ms, OF refl]]] by (elim exE conjE) (rule that)
  have vt': "vt' = vt" using d(2) vt(1) by (simp add: enroll_token_def)
  then show ?thesis using run vt d by (simp add: sample_view_def)
qed

subsection \<open>Requests of the device \<open>d1\<close>\<close>

text \<open>Its token is not bound to a key, so that no proof is asked for.\<close>

definition api_claims :: claims where
  "api_claims = [''sub'' \<mapsto> JStr ''d1'', ''token_use'' \<mapsto> JStr TokenUseDevice]"

definition api_server :: server where
  "api_server = table_server [''tok'' \<mapsto> (Map.empty, api_claims)]"

definition api_request :: "string \<Rightarrow> request" where
  "api_request body = (form_request [])\<lparr>rq_Authorization := ''DPoP tok'', rq_Body := body\<rparr>"

lemma api_request_simps [simp]:
  "rq_now (api_request b) = 100" "rq_Body (api_request b) = b" "authorizationToken (api_request b) = (''DPoP'', ''tok'')"
  "rq_uuid (api_request b) n = ''id/'' @ n"
proof -
  show "rq_now (api_request b) = 100" "rq_Body (api_request b) = b" "rq_uuid (api_request b) n = ''id/'' @ n"
    by (simp_all add: api_request_def form_request_def)
  have "authorizationToken (api_request b) = authorizationToken enroll_request"
    by (simp add: authorizationToken_def api_request_def enroll_request_def)
  then show "authorizationToken (api_request b) = (''DPoP'', ''tok'')" by simp
qed

definition api_token :: VerifiedToken where
  "api_token = \<lparr>vt_Subject = ''d1'', vt_Audience = [], vt_Scope = [], vt_Email = [], vt_PreferredUsername = [], vt_DeviceID = [],
      vt_DeviceTrust = [], vt_JKT = [], vt_Claims = api_claims\<rparr>"

lemma api_token_verified: "Verify (srv_lib api_server) (srv_keys api_server) cfg now ''tok'' = Some api_token"
  by (simp add: Verify_def api_server_def table_server_def table_lib_def api_claims_def cnf_jkt_def audienceString_def api_token_def)

lemma api_guard:
  assumes "Verify (srv_lib srv) (srv_keys srv) (issuerConfig (st_settings st)) 100 ''tok'' = Some api_token"
    and "db_devices (st_db st) = [v]" "db_faults (st_db st) = []" "dev_ID v = ''d1''" "IsActive v"
  shows "run_state (requireDevice srv next (api_request b)) st = run_state (next v) st"
proof -
  have "IsDeviceToken api_token" by (simp add: api_token_def IsDeviceToken_def api_claims_def)
  then show ?thesis
    using assms
    by (simp add: requireDevice_def authenticateDeviceRequest_def resourceToken_def token_scheme_def GetDevice_def query_def fault_def sel1_def)
      (simp add: api_token_def GetDevice_def query_def fault_def sel1_def)
qed

lemma device_db_more [simp]: "\<not> fault device_db op" "db_pats device_db = [alice_pat]"
  by (simp_all add: fault_def) (simp add: device_db_def token_db_def sample_db_def)

theorem withdrawal_final_witness:
  "\<exists>ms st1 dev. run_state (device_route (\<lambda>_. []) api_server Unenroll (api_request [])) (sample_state device_db) = (Json 200 ms, st1)
     \<and> device_request api_server (api_request []) None (sample_state device_db) dev"
proof -
  have ok: "db_ok device_db" using sample_db_ok
    by (simp add: device_db_def token_db_def db_ok_def ok_defs sample_db_def EnrollmentClientID_def)
  have g: "run_state (device_route (\<lambda>_. []) api_server Unenroll (api_request [])) (sample_state device_db)
      = run_state (handleDeviceUnenroll api_server (api_request []) sample_device) (sample_state device_db)"
    unfolding device_route_def device_route.case by (rule api_guard) (simp_all add: api_token_verified)
  have "fst (RevokeDevice ''d1'' 100 device_db) = Inr ()"
    by (simp add: RevokeDevice_def Let_def raw_stmts affected_def sample_device_def alice_device_def DeviceStatusRevoked_def)
  then have "\<exists>ms st1. run_state (device_route (\<lambda>_. []) api_server Unenroll (api_request [])) (sample_state device_db) = (Json 200 ms, st1)"
    unfolding g by (simp add: handleDeviceUnenroll_def split_beta)
  then obtain ms st1 where run: "run_state (device_route (\<lambda>_. []) api_server Unenroll (api_request [])) (sample_state device_db) = (Json 200 ms, st1)"
    by blast
  have "\<exists>dev. device_request api_server (api_request []) None (sample_state device_db) dev"
    using withdrawal_final [OF _ run] ok by (simp only: sample_state_simps) blast
  then show ?thesis using run by blast
qed

subsection \<open>Posture\<close>

definition posture_request :: request where
  \<open>posture_request = api_request ''{"os_name": "Linux", "key_backend": "TPM"}''\<close>

definition linux_posture :: DevicePosture where
  "linux_posture = empty_posture\<lparr>po_OSName := ''Linux'', po_KeyBackend := ''TPM''\<rparr>"

lemma posture_request_body: "posture_body posture_request = Some linux_posture"
proof -
  have \<open>json_decode_first ''{"os_name": "Linux", "key_backend": "TPM"}'' = Some (JObj [member ''os_name'' ''Linux'', member ''key_backend'' ''TPM''])\<close>
    by code_simp
  moreover have "posture_of_json (JObj [member ''os_name'' ''Linux'', member ''key_backend'' ''TPM'']) = Some linux_posture"
    by code_simp
  ultimately show ?thesis by (simp add: posture_body_def posture_request_def request_body_def)
qed

theorem posture_roundtrip_witness:
  "\<exists>ms st' v. run_state (device_route (\<lambda>_. []) api_server PostPosture posture_request) (sample_state device_db) = (Json 200 ms, st')
     \<and> db_devices (st_db st') = [v] \<and> parsePosture (dev_Posture v) = Some (cleaned_posture linux_posture) \<and> dev_TrustLevel v = TrustForKeyBackend ''tpm''"
proof -
  let ?v = "sample_device\<lparr>dev_Posture := marshalPosture (cleaned_posture linux_posture), dev_PostureAt := 100,
      dev_KeyBackend := ''tpm'', dev_TrustLevel := TrustForKeyBackend ''tpm''\<rparr>"
  have b: "po_KeyBackend (cleaned_posture linux_posture) = ''tpm''" by code_simp
  have g: "run_state (device_route (\<lambda>_. []) api_server PostPosture posture_request) (sample_state device_db)
      = run_state (handleDevicePosture posture_request sample_device) (sample_state device_db)"
    unfolding device_route_def device_route.case posture_request_def by (rule api_guard) (simp_all add: api_token_verified)
  have r: "rq_now posture_request = 100" by (simp add: posture_request_def)
  have d: "fst (SetDevicePosture ''d1'' t 100 ''tpm'' tr device_db) = Inr ()" 
     "db_devices (snd (SetDevicePosture ''d1'' t 100 ''tpm'' tr device_db))
        = [sample_device\<lparr>dev_Posture := t, dev_PostureAt := 100, dev_KeyBackend := ''tpm'', dev_TrustLevel := tr\<rparr>]" for t tr
    by (simp_all add: SetDevicePosture_def raw_stmts)
  have "\<exists>ms st'. run_state (device_route (\<lambda>_. []) api_server PostPosture posture_request) (sample_state device_db) = (Json 200 ms, st')
      \<and> db_devices (st_db st') = [?v]"
    unfolding g using d b by (simp add: handleDevicePosture_def posture_request_body Let_def r trust_after_def split_beta)
  then obtain ms st' where run: "run_state (device_route (\<lambda>_. []) api_server PostPosture posture_request) (sample_state device_db) = (Json 200 ms, st')"
    and v: "db_devices (st_db st') = [?v]" by blast
  have a: "ascii (po_OSName linux_posture)" "ascii (po_OSVersion linux_posture)" by code_simp+
  obtain dev where dev: "device_request api_server posture_request None (sample_state device_db) dev" and rows:
    "\<forall>v' \<in> set (db_devices (st_db st')). if dev_ID v' = dev_ID dev
       then parsePosture (dev_Posture v') = Some (cleaned_posture linux_posture) \<and> dev_PostureAt v' = rq_now posture_request
         \<and> (\<exists>v \<in> set (db_devices (st_db (sample_state device_db))). dev_ID v = dev_ID v' \<and> dev_TrustLevel v' =
              (if po_KeyBackend (cleaned_posture linux_posture) = [] then dev_TrustLevel v
               else TrustForKeyBackend (po_KeyBackend (cleaned_posture linux_posture))))
       else v' \<in> set (db_devices (st_db (sample_state device_db)))"
    using posture_roundtrip [OF run posture_request_body a] by (elim exE conjE) (rule that)
  have "dev_ID dev = ''d1''" using dev by (simp add: device_request_def)
  then have "parsePosture (dev_Posture ?v) = Some (cleaned_posture linux_posture)" using bspec [OF rows, of ?v] unfolding v by simp
  then show ?thesis using run v by (intro exI conjI) auto
qed

subsection \<open>Personal access tokens\<close>

theorem pat_lifetime_bounded_witness:
  "pat_ttl 7200 = 2 * Hour \<and> pat_ttl 0 = 90 * 24 * Hour"
  using pat_lifetime_bounded [of 7200] pat_lifetime_bounded [of 0] by simp

definition pat_request :: request where
  \<open>pat_request = api_request ''{"audience": "web", "refresh_token": "refresh"}''\<close>

definition pat_body :: createPATRequest where
  "pat_body = empty_pat_body\<lparr>pb_Audience := ''web'', pb_RefreshToken := ''refresh''\<rparr>"

lemma pat_request_body: "decode_body 8192 pat_fields empty_pat_body pat_request = Some pat_body"
proof -
  have b: \<open>request_body 8192 pat_request = ''{"audience": "web", "refresh_token": "refresh"}''\<close>
    by (simp add: request_body_def pat_request_def)
  have m: \<open>raw_object ''{"audience": "web", "refresh_token": "refresh"}'' =
      Some [(''audience'', ''"web"''), (''refresh_token'', ''"refresh"'')]\<close>
    by code_simp
  have f: \<open>fill pat_fields [(''audience'', ''"web"''), (''refresh_token'', ''"refresh"'')] empty_pat_body = Some pat_body\<close>
    by code_simp
  show ?thesis unfolding decode_body_def b m option.case f ..
qed

theorem personal_token_sound_witness:
  "\<exists>ms st' p. run_state (device_route (\<lambda>_. []) api_server CreateToken pat_request) (sample_state device_db) = (Json 200 ms, st')
     \<and> db_pats (st_db st') = db_pats device_db @ [p] \<and> pat_DeviceID p = ''d1'' \<and> pat_UserID p = ''u1'' \<and> pat_ClientID p = ''web''"
proof -
  have g: "run_state (device_route (\<lambda>_. []) api_server CreateToken pat_request) (sample_state device_db)
      = run_state (handleCreatePAT api_server pat_request sample_device) (sample_state device_db)"
    unfolding device_route_def device_route.case pat_request_def by (rule api_guard) (simp_all add: api_token_verified)
  have b: "pb_Audience pat_body = ''web''" "pb_RefreshToken pat_body = ''refresh''" "pb_Scope pat_body = []"
    by (simp_all add: pat_body_def empty_pat_body_def)
  have r: "rq_now pat_request = 100" "rq_uuid pat_request n = ''id/'' @ n" for n by (simp_all add: pat_request_def)
  have "\<exists>ms st'. run_state (issue_pat api_server pat_request sample_device bound_refresh alice web_client pat_body ''openid'') (sample_state device_db) = (Json 200 ms, st')"
    by (simp add: issue_pat_def IssuePersonalAccessToken_def sign_claims_def api_server_def table_server_def table_lib_def sample_km_def DefaultSigner_def
        signingMethod_def AlgRS256_def CreatePAT_def raw_stmts record_defs pats_ok_def new_pat_def r alice_pat_def)
  then obtain ms st' where "run_state (issue_pat api_server pat_request sample_device bound_refresh alice web_client pat_body ''openid'') (sample_state device_db) = (Json 200 ms, st')"
    by blast
  then have run: "run_state (device_route (\<lambda>_. []) api_server CreateToken pat_request) (sample_state device_db) = (Json 200 ms, st')"
    unfolding g by (simp add: handleCreatePAT_def pat_request_body b r GetRefreshTokenByHash_def GetUserByID_def query_def fault_def sel1_def
        delegated_openid)
  obtain dev b' rt user target scope tok p where p: "device_request api_server pat_request None (sample_state device_db) dev"
    "decode_body 8192 pat_fields empty_pat_body pat_request = Some b'"
    "pat_grounds pat_request (st_db (sample_state device_db)) dev b' rt user target scope"
    "pat_UserID p = usr_ID user" "pat_ClientID p = cl_ClientID target" "pat_DeviceID p = dev_ID dev"
    "db_pats (st_db st') = db_pats (st_db (sample_state device_db)) @ [p]"
    using personal_token_sound [OF run disjI1 [OF exI [of _ ms, OF refl]]] by (elim exE conjE) (rule that)
  have "dev = sample_device" "b' = pat_body" using p(1,2) by (simp_all add: device_request_def pat_request_body)
  moreover have "rt_UserID rt = ''u1''" "usr_ID user = rt_UserID rt" "cl_ClientID target = ''web''" using p(3) calculation(2) b by (auto simp: pat_grounds_def)
  ultimately show ?thesis using run p(4-7) by (intro exI conjI) auto
qed

subsection \<open>Key rotation\<close>

text \<open>The device has the fingerprint \<open>fp1\<close>; it proves the sample key.\<close>

definition rotate_token :: claims where
  "rotate_token = [''iss'' \<mapsto> JStr ''https://id'', ''sub'' \<mapsto> JStr ''d1'', ''token_use'' \<mapsto> JStr TokenUseDevice, ''exp'' \<mapsto> jint 1000]"

definition rotate_claims :: claims where
  "rotate_claims = assertion_claims (replicate 16 CHR ''r'') ''d1'' ''https://id/token'' 0 Minute [''old_jkt'' \<mapsto> JStr ''fp1'']"

definition rotate_table :: "string \<Rightarrow> (claims \<times> claims \<times> pubkey) option" where
  "rotate_table = [''tok'' \<mapsto> (sample_header, rotate_token, RSAKey 15 3),
     ''assertion'' \<mapsto> ([''alg'' \<mapsto> JStr AlgEdDSA], rotate_claims, snd sample_signer)]"

definition rotate_request :: request where
  \<open>rotate_request = api_request ''{"jwk": {"crv":"Ed25519","kty":"OKP","x":"a2tra2tra2tra2tra2tra2tra2tra2tra2tra2tra2s"}, "proof": "assertion"}''\<close>

definition rotate_db :: db where
  "rotate_db = device_db\<lparr>db_devices := [alice_device]\<rparr>"

lemma rotate_db_simps [simp]:
  "db_faults rotate_db = []" "db_devices rotate_db = [alice_device]" "db_jtis rotate_db = []" "db_users rotate_db = [alice, bob]"
  by (simp_all add: rotate_db_def)

lemma rotate_body:
  "decode_body maxDeviceAPIBody rotate_fields \<lparr>rb_JWK = [], rb_Proof = [], rb_KeyBackend = []\<rparr> rotate_request
     = Some \<lparr>rb_JWK = sample_key_text, rb_Proof = ''assertion'', rb_KeyBackend = []\<rparr>"
proof -
  have k: \<open>sample_key_text = ''{"crv":"Ed25519","kty":"OKP","x":"a2tra2tra2tra2tra2tra2tra2tra2tra2tra2tra2s"}''\<close>
    by code_simp
  have m: \<open>raw_object ''{"jwk": {"crv":"Ed25519","kty":"OKP","x":"a2tra2tra2tra2tra2tra2tra2tra2tra2tra2tra2s"}, "proof": "assertion"}''
      = Some [(''jwk'', ''{"crv":"Ed25519","kty":"OKP","x":"a2tra2tra2tra2tra2tra2tra2tra2tra2tra2tra2s"}''), (''proof'', ''"assertion"'')]\<close>
    by code_simp
  have n: "fold_name ''jwk'' = ''jwk''" "fold_name ''proof'' = ''proof''" by code_simp+
  have d: \<open>json_decode ''"assertion"'' = Some (JStr ''assertion'')\<close> by code_simp
  show ?thesis
    by (simp add: decode_body_def request_body_def rotate_request_def maxDeviceAPIBody_def m k n d rotate_fields_def raw_field_def text_field_def)
qed

lemma rotate_token_verified:
  "\<exists>vt. Verify (keyed_lib rotate_table) sample_km (issuerConfig sample_view) 100 ''tok'' = Some vt \<and> IsDeviceToken vt \<and> vt_Subject vt = ''d1'' \<and> vt_JKT vt = []"
proof -
  have c: "rotate_token ''iss'' = Some (JStr ''https://id'')" "rotate_token ''sub'' = Some (JStr ''d1'')" "rotate_token ''nbf'' = None"
    "rotate_token ''token_use'' = Some (JStr TokenUseDevice)" "rotate_token ''exp'' = Some (jint 1000)" "rotate_token ''cnf'' = None"
    by (simp_all add: rotate_token_def)
  have "Verify (keyed_lib rotate_table) sample_km (issuerConfig sample_view) 100 ''tok'' \<noteq> None"
    by (simp add: Verify_def keyed_lib_def rotate_table_def sample_header_def sample_km_def key_for_def PublicKey_def issuerConfig_def
        sample_view_def AlgRS256_def claims_valid_def c jint_def time_of_Unix_def Unix_def)
  then obtain vt where vt: "Verify (keyed_lib rotate_table) sample_km (issuerConfig sample_view) 100 ''tok'' = Some vt" by blast
  then have "vt_Claims vt = rotate_token \<and> vt_JKT vt = cnf_jkt rotate_token \<and> vt_Subject vt = str_of (rotate_token ''sub'')"
    by (auto simp: Verify_def keyed_lib_def rotate_table_def split: if_splits)
  with vt c show ?thesis by (simp add: IsDeviceToken_def cnf_jkt_def)
qed

definition rotate_assertion :: Assertion where
  "rotate_assertion = \<lparr>as_Issuer = ''d1'', as_Subject = ''d1'', as_JTI = randomID (replicate 16 CHR ''r''), as_KID = [], as_IssuedAt = 0,
     as_ExpiresAt = Minute, as_Claims = rotate_claims\<rparr>"

lemma rotate_assertion_verified:
  "VerifyAssertion (keyed_lib rotate_table) 100 (assertion_opts (Some (snd sample_signer)) AlgEdDSA ''https://id/token'') ''assertion'' = Inr rotate_assertion"
  using sample_randomID
  by (simp add: VerifyAssertion_def assertion_opts_def keyed_lib_def rotate_table_def rotate_assertion_def rotate_claims_def assertion_claims_def
      Let_def AlgEdDSA_def DefaultSkew_def MaxAssertionLifetime_def claims_valid_def time_of_Unix_def Unix_def jint_def time_Sub_def
      numericDate_def trunc_def audience_of_def)

lemma rotate_key_facts:
  "ParseJWK sample_key_text = Inr (required sample_jwk)" "JWK_PublicKey (required sample_jwk) = Inr (snd sample_signer)"
  "JWK_Algorithm (required sample_jwk) = Inr AlgEdDSA" "canonical (required sample_jwk) = Inr sample_key_text"
  "Thumbprint (required sample_jwk) = Inr sample_jkt" "sample_jkt \<noteq> ''fp1''"
proof -
  show s: "ParseJWK sample_key_text = Inr (required sample_jwk)" "JWK_PublicKey (required sample_jwk) = Inr (snd sample_signer)"
    by (rule sample_stored_key)+
  show "JWK_Algorithm (required sample_jwk) = Inr AlgEdDSA"
    using Algorithm_required [OF sample_jwk_key] by (simp add: sample_signer_def key_alg_def)
  show c: "canonical (required sample_jwk) = Inr sample_key_text"
    using sample_canonical by (simp add: canonical_def sample_jwk_key s(2)) (simp add: required_def sample_jwk_def)
  then show "Thumbprint (required sample_jwk) = Inr sample_jkt" using sample_thumbprint(1) sample_canonical by (simp add: Thumbprint_def)
  have e: "sample_jkt = RawURLEncode (Sum256 sample_key_text)" using sample_thumbprint(1) by (simp add: Thumbprint_def sample_canonical)
  have "length sample_jkt = 43" unfolding e RawURLEncode_def length_b64_encode by simp
  then show "sample_jkt \<noteq> ''fp1''" by (auto dest: arg_cong [where f = length])
qed

theorem key_rotation_sound_witness:
  "\<exists>ms st' pk j. run_state (device_route (\<lambda>_. []) (keyed_server rotate_table) RotateKey rotate_request) (sample_state rotate_db) = (Json 200 ms, st')
     \<and> ParseJWK pk = Inr j \<and> JWK_PublicKey j = Inr (snd sample_signer)
     \<and> db_devices (st_db st') = [rotate_key pk AlgEdDSA (RawURLEncode (Sum256 pk)) [] ''enrolled'' alice_device]"
proof -
  let ?srv = "keyed_server rotate_table" and ?st = "sample_state rotate_db"
  obtain vt where vt: "Verify (keyed_lib rotate_table) sample_km (issuerConfig sample_view) 100 ''tok'' = Some vt" "IsDeviceToken vt"
    "vt_Subject vt = ''d1''" "vt_JKT vt = []" using rotate_token_verified by blast
  have a: "dev_ID alice_device = ''d1''" "IsActive alice_device" "dev_Fingerprint alice_device = ''fp1''" "dev_PreviousFingerprint alice_device = []"
    "dev_OwnerUserID alice_device = ''u1''" "dev_Status alice_device = DeviceStatusActive" "dev_TrustLevel alice_device = ''enrolled''"
    by (simp_all add: alice_device_def IsActive_def DeviceStatusActive_def)
  have au: "authorizationToken rotate_request = (''DPoP'', ''tok'')" "rq_now rotate_request = 100" by (simp_all add: rotate_request_def)
  have g: "run_state (device_route (\<lambda>_. []) ?srv RotateKey rotate_request) ?st
      = run_state (handleDeviceRotateKey (\<lambda>_. []) ?srv rotate_request alice_device) ?st"
    using vt a au
    by (simp add: device_route_def requireDevice_def authenticateDeviceRequest_def resourceToken_def token_scheme_def GetDevice_def query_def
        fault_def sel1_def)
  have u: "serverURLsFor ?srv sample_view rotate_request = [''https://id/token'']"
    by (simp add: serverURLsFor_def sample_view_def TrimRight_def Let_def rotate_request_def api_request_def form_request_def)
  have r: "as_Subject rotate_assertion = ''d1''" "str_of (as_Claims rotate_assertion ''old_jkt'') = ''fp1''"
    by (simp_all add: rotate_assertion_def rotate_claims_def assertion_claims_def Let_def)
  have nonempty: "[] \<noteq> sample_jkt" using sample_thumbprint(2) by metis
  have "\<exists>ms st'. run_state (rotate_to rotate_request alice_device (required sample_jwk) rotate_assertion []) ?st = (Json 200 ms, st')"
    using a nonempty rotate_key_facts(3-6)
    by (simp add: rotate_to_def ok_or_def Let_def au ConsumeJTI_def exec_def fault_def affected_def FingerprintInUse_def query_def RotateDeviceKey_def
        raw_stmts requireRow_def del_def devices_ok_def fk_user_def rotate_key_def split_beta)
  then obtain ms st' where "run_state (rotate_to rotate_request alice_device (required sample_jwk) rotate_assertion []) ?st = (Json 200 ms, st')" by blast
  moreover have "normalizeKeyBackend [] = []" by code_simp
  ultimately have run: "run_state (device_route (\<lambda>_. []) ?srv RotateKey rotate_request) ?st = (Json 200 ms, st')"
    unfolding g using rotate_key_facts(1-3) rotate_assertion_verified r a
    by (simp add: handleDeviceRotateKey_def rotate_body u au ok_or_none_def ok_or_def)
  have lib: "jwt_contract (srv_lib ?srv)" by (simp add: keyed_lib_contract)
  obtain dev b h c j k pk where d: "device_request ?srv rotate_request None ?st dev"
    "decode_body maxDeviceAPIBody rotate_fields \<lparr>rb_JWK = [], rb_Proof = [], rb_KeyBackend = []\<rparr> rotate_request = Some b"
    "jl_Signed (srv_lib ?srv) (rb_Proof b) (key_alg k) k" "ParseJWK pk = Inr j" "JWK_PublicKey j = Inr k"
    "db_devices (st_db st') = upd (\<lambda>v. dev_ID v = dev_ID dev \<and> IsActive v)
        (rotate_key pk (key_alg k) (RawURLEncode (Sum256 pk)) (normalizeKeyBackend (rb_KeyBackend b))
          (trust_after dev (normalizeKeyBackend (rb_KeyBackend b)))) (db_devices (st_db ?st))"
    using key_rotation_sound [OF lib run disjI1 [OF exI [of _ ms, OF refl]]] by (elim exE conjE) (rule that)
  have "dev = alice_device" "b = \<lparr>rb_JWK = sample_key_text, rb_Proof = ''assertion'', rb_KeyBackend = []\<rparr>"
    using d(1,2) by (simp_all add: device_request_def rotate_body)
  moreover have k: "k = snd sample_signer" using d(3) calculation(2) by (simp add: keyed_lib_def rotate_table_def)
  moreover have "normalizeKeyBackend [] = []" "key_alg (snd sample_signer) = AlgEdDSA" by code_simp (simp add: sample_signer_def key_alg_def)
  ultimately have rows: "db_devices (st_db st') = [rotate_key pk AlgEdDSA (RawURLEncode (Sum256 pk)) [] ''enrolled'' alice_device]"
    using d(6) a by (simp add: trust_after_def)
  show ?thesis using run rows d(4) d(5) [unfolded k] by blast
qed

subsection \<open>The pages\<close>

text \<open>Alice's browser posts the form for the device \<open>d1\<close>; she is an administrator, too.\<close>

definition device_form :: request where
  "device_form = (page_request [] [])\<lparr>rq_PathValue := [(''id'', ''d1'')]\<rparr>"

lemma device_form_simps [simp]:
  "rq_now device_form = 100" "csrfOK device_form = None" "PathValue device_form ''id'' = ''d1''"
  "sessions_Current device_form = sessions_Current (page_request [] [])" "rq_uuid device_form n = ''id/'' @ n"
proof -
  show "rq_now device_form = 100" "PathValue device_form ''id'' = ''d1''" "rq_uuid device_form n = ''id/'' @ n"
    by (simp_all add: device_form_def PathValue_def)
  have "Cookie device_form n = Cookie (page_request [] []) n" for n by (simp add: device_form_def Cookie_def)
  then show "csrfOK device_form = None" "sessions_Current device_form = sessions_Current (page_request [] [])"
    using page_csrf(1) [of "[]" "[]"]
    by (simp_all add: csrfOK_def sessions_Current_def device_form_def csrf_valid_def PostFormValue_def)
qed

definition shared_db :: db where
  "shared_db = device_db\<lparr>db_sessions := [alice_session]\<rparr>"

lemma shared_db_simps [simp]:
  "db_sessions shared_db = [alice_session]" "db_faults shared_db = []" "db_users shared_db = [alice, bob]"
  "db_devices shared_db = [sample_device]"
  by (simp_all add: shared_db_def)

lemma touched_devices [simp]: "db_devices (snd (TouchSession i t d)) = db_devices d"
  by (simp add: TouchSession_def raw_stmts)

lemma alice_admin: "usr_IsAdmin alice"
  by (simp add: alice_def)

lemma sample_revoked:
  assumes "db_devices d = [sample_device]" "db_faults d = []"
  shows "fst (RevokeDevice ''d1'' 100 d) = Inr ()" and "db_devices (snd (RevokeDevice ''d1'' 100 d)) \<noteq> [sample_device]"
proof -
  have s: "dev_Status sample_device = DeviceStatusActive" "DeviceStatusActive \<noteq> DeviceStatusRevoked"
    by (simp_all add: sample_device_def alice_device_def DeviceStatusActive_def DeviceStatusRevoked_def)
  then show "fst (RevokeDevice ''d1'' 100 d) = Inr ()"
    using assms by (simp add: RevokeDevice_def Let_def raw_stmts affected_def fault_def)
  show "db_devices (snd (RevokeDevice ''d1'' 100 d)) \<noteq> [sample_device]"
    using assms s by (auto simp: RevokeDevice_def Let_def raw_stmts affected_def fault_def dest!: arg_cong [where f = dev_Status])
qed

theorem owner_revocation_not_pushed_witness:
  "\<exists>resp st'. run_state (requireUser [] (handleAccountRevokeDevice device_form) device_form) (sample_state shared_db) = (resp, st')
     \<and> st_pushed st' = st_pushed (sample_state shared_db) \<and> revoked_device ''d1'' shared_db (st_db st')"
proof -
  let ?d = "snd (TouchSession ''s1'' 100 shared_db)" and ?s = "alice_session\<lparr>ses_LastSeenAt := 100\<rparr>"
  let ?st = "(sample_state shared_db)\<lparr>st_db := ?d\<rparr>"
  have g: "run_state (requireUser [] h device_form) (sample_state shared_db) = run_state (h alice ?s) ?st" for h
    using sample_guard [of "sample_state shared_db" alice "[]" h "[]" "[]"] by (simp add: requireUser_def)
  note r = sample_revoked [of ?d, simplified]
  obtain resp st' where run: "run_state (requireUser [] (handleAccountRevokeDevice device_form) device_form) (sample_state shared_db) = (resp, st')"
    by fastforce
  then have "db_devices (st_db st') = db_devices (snd (RevokeDevice ''d1'' 100 ?d))"
    unfolding g using r by (auto simp: handleAccountRevokeDevice_def split_beta dest!: run_renders)
  then have "db_devices (st_db st') \<noteq> db_devices (st_db (sample_state shared_db))" using r by simp
  from owner_revocation_not_pushed [OF run this] run show ?thesis by auto
qed

theorem admin_device_sound_witness:
  "\<exists>resp st'. run_state (admin_device plain_server [] AdminRevoke device_form) (sample_state shared_db) = (resp, st')
     \<and> admin_change AdminRevoke device_form shared_db (st_db st')"
proof -
  let ?d = "snd (TouchSession ''s1'' 100 shared_db)" and ?s = "alice_session\<lparr>ses_LastSeenAt := 100\<rparr>"
  let ?st = "(sample_state shared_db)\<lparr>st_db := ?d\<rparr>"
  have g: "run_state (requireAdmin [] h device_form) (sample_state shared_db) = run_state (h alice) ?st" for h
    using alice_admin by (simp add: requireAdmin_def sample_Current alice_session_def GetUserByID_def query_def sel1_def fault_def)
  note r = sample_revoked [of ?d, simplified]
  obtain resp st' where run: "run_state (admin_device plain_server [] AdminRevoke device_form) (sample_state shared_db) = (resp, st')"
    by fastforce
  then have "db_devices (st_db st') = db_devices (snd (RevokeDevice ''d1'' 100 ?d))"
    using r by (auto simp: admin_device_def g handleAdminRevokeDevice_def split_beta Let_def)
  then have "db_devices (st_db st') \<noteq> db_devices (st_db (sample_state shared_db))" using r by simp
  from admin_device_sound [OF run this] run show ?thesis by auto
qed

end
