(* ===== verification/Encryption.thy ===== *)
theory Encryption
  imports WebBase
begin

text \<open>
  Encryption at rest (\<open>internal/crypto/aesgcm.go\<close>): the text that is stored is the base64 of a nonce and of what
  AES-GCM seals under it. The cipher of the standard library is a parameter: for a key, a nonce and a text it seals, and
  for a key, a nonce and a sealed text it opens or refuses.
\<close>

definition KeySize :: nat where "KeySize = 32"
definition nonceSize :: nat where "nonceSize = 12"

record aead =
  ae_Seal :: "string \<Rightarrow> string \<Rightarrow> string \<Rightarrow> string"
  ae_Open :: "string \<Rightarrow> string \<Rightarrow> string \<Rightarrow> string option"

text \<open>\<open>base64.StdEncoding\<close>: groups of four characters, filled with equals signs.\<close>

definition StdEncode :: "string \<Rightarrow> string" where
  "StdEncode s = (let t = RawStdEncode s in t @ replicate ((4 - length t mod 4) mod 4) CHR ''='')"

text \<open>An encryptor is the key it was made of.\<close>

definition NewEncryptor :: "string \<Rightarrow> string option" where
  "NewEncryptor key = (if length key \<noteq> KeySize then None else Some key)"

definition GenerateKeyB64 :: "string option \<Rightarrow> string option" where
  "GenerateKeyB64 rnd = map_option StdEncode rnd"

definition NewEncryptorFromB64 :: "string \<Rightarrow> string option" where
  "NewEncryptorFromB64 keyB64 = (case StdDecode keyB64 of None \<Rightarrow> None | Some key \<Rightarrow> NewEncryptor key)"

definition Encrypt :: "aead \<Rightarrow> string \<Rightarrow> string option \<Rightarrow> string \<Rightarrow> string option" where
  "Encrypt gcm key rnd plaintext = map_option (\<lambda>nonce. StdEncode (nonce @ ae_Seal gcm key nonce plaintext)) rnd"

definition Decrypt :: "aead \<Rightarrow> string \<Rightarrow> string \<Rightarrow> string option" where
  "Decrypt gcm key encoded = (case StdDecode encoded of
     None \<Rightarrow> None
   | Some raw \<Rightarrow> if length raw < nonceSize then None else ae_Open gcm key (take nonceSize raw) (drop nonceSize raw))"

subsection \<open>Reading back\<close>

lemma length_RawStd_mod: "length (RawStdEncode s) mod 4 \<noteq> 1"
  using b64_digit_count [of "length s"] by (simp add: RawStdEncode_def length_b64_encode add.commute)

lemma TrimRight_fill:
  assumes "c \<notin> set t"
  shows "TrimRight c (t @ replicate n c) = t"
proof -
  have "dropWhile (\<lambda>d. d = c) (replicate n c @ rev t) = dropWhile (\<lambda>d. d = c) (rev t)" by (induction n) simp_all
  moreover have "dropWhile (\<lambda>d. d = c) (rev t) = rev t" using assms by (cases "rev t") (auto simp flip: set_rev [of t])
  ultimately show ?thesis by (simp add: TrimRight_def)
qed

lemma fill_count:
  assumes "(k::nat) mod 4 \<noteq> 1"
  shows "(k + (4 - k mod 4) mod 4) mod 4 = 0 \<and> (4 - k mod 4) mod 4 \<le> 2"
proof -
  have "k mod 4 < 4" by simp
  then consider "k mod 4 = 0" | "k mod 4 = 2" | "k mod 4 = 3" using assms by linarith
  moreover have "(k + (4 - k mod 4) mod 4) mod 4 = (k mod 4 + (4 - k mod 4) mod 4) mod 4" by (simp only: mod_add_left_eq)
  ultimately show ?thesis by cases simp_all
qed

lemma StdDecode_StdEncode [simp]: "StdDecode (StdEncode s) = Some s"
proof -
  let ?t = "RawStdEncode s" and ?n = "(4 - length (RawStdEncode s) mod 4) mod 4"
  have al: "c \<in> set b64std_alphabet" if "c \<in> set ?t" for c
    using that b64_encode_set [of b64std_alphabet c s] by (simp add: RawStdEncode_def b64std_alphabet_def)
  have "CHR ''='' \<notin> set b64std_alphabet" "CHR 10 \<notin> set b64std_alphabet" "CHR 13 \<notin> set b64std_alphabet"
    by (simp_all add: b64std_alphabet_def)
  then have no: "CHR ''='' \<notin> set ?t" "CHR 10 \<notin> set ?t" "CHR 13 \<notin> set ?t" using al by blast+
  have nl: "strip_newlines (StdEncode s) = StdEncode s"
    using no by (auto simp: strip_newlines_def StdEncode_def Let_def filter_id_conv)
  have n: "(length ?t + ?n) mod 4 = 0" "?n \<le> 2"
    using fill_count [OF length_RawStd_mod] by blast+
  show ?thesis
    using TrimRight_fill [OF no(1), of ?n] nl n
    by (simp add: StdDecode_def StdEncode_def Let_def RawStd_roundtrip)
qed

text \<open>What the cipher is documented to do: it opens what it sealed under the same key and nonce, and nothing else.\<close>

definition aead_ok :: "aead \<Rightarrow> bool" where
  "aead_ok gcm \<longleftrightarrow> (\<forall>k n p. ae_Open gcm k n (ae_Seal gcm k n p) = Some p)
     \<and> (\<forall>k n c p. ae_Open gcm k n c = Some p \<longrightarrow> c = ae_Seal gcm k n p)"

text \<open>What was encrypted is read back with the same key, whatever nonce was drawn, a generated key is one the server
  accepts, and nothing decrypts but a sealed text: a stored value that decrypts to a text is the base64 of some nonce
  with exactly what the cipher seals of that text.\<close>

theorem secrets_roundtrip:
  assumes "aead_ok gcm" and "length nonce = nonceSize" and "length rnd = KeySize"
  shows "\<exists>enc key. Encrypt gcm rnd (Some nonce) plain = Some enc \<and> Decrypt gcm rnd enc = Some plain
    \<and> GenerateKeyB64 (Some rnd) = Some key \<and> NewEncryptorFromB64 key = Some rnd
    \<and> (\<forall>stored p. Decrypt gcm rnd stored = Some p \<longrightarrow>
         (\<exists>n. length n = nonceSize \<and> StdDecode stored = Some (n @ ae_Seal gcm rnd n p)))"
proof -
  have "Decrypt gcm rnd (StdEncode (nonce @ ae_Seal gcm rnd nonce plain)) = Some plain"
    using assms by (simp add: Decrypt_def aead_ok_def)
  moreover have "\<exists>n. length n = nonceSize \<and> StdDecode stored = Some (n @ ae_Seal gcm rnd n p)" if D: "Decrypt gcm rnd stored = Some p" for stored p
  proof -
    obtain raw where raw: "StdDecode stored = Some raw" "nonceSize \<le> length raw" "ae_Open gcm rnd (take nonceSize raw) (drop nonceSize raw) = Some p"
      using D by (cases "StdDecode stored") (auto simp: Decrypt_def not_less split: if_splits)
    then have "drop nonceSize raw = ae_Seal gcm rnd (take nonceSize raw) p" using assms(1) by (simp add: aead_ok_def)
    then show ?thesis using raw by (intro exI [of _ "take nonceSize raw"]) (metis append_take_drop_id length_take min.absorb2)
  qed
  ultimately show ?thesis
    using assms(3) by (simp add: Encrypt_def GenerateKeyB64_def NewEncryptorFromB64_def NewEncryptor_def)
qed

definition toy_aead :: aead where
  "toy_aead = \<lparr>ae_Seal = \<lambda>k n p. ''t'' @ p, ae_Open = \<lambda>k n c. if c \<noteq> [] \<and> hd c = CHR ''t'' then Some (tl c) else None\<rparr>"

theorem secrets_roundtrip_witness:
  "\<exists>enc. Encrypt toy_aead (replicate 32 CHR ''k'') (Some (replicate 12 CHR ''n'')) ''secret'' = Some enc
     \<and> Decrypt toy_aead (replicate 32 CHR ''k'') enc = Some ''secret''"
proof -
  have "aead_ok toy_aead" by (auto simp: aead_ok_def toy_aead_def split: if_splits) (metis list.collapse)
  from secrets_roundtrip [OF this, of "replicate 12 CHR ''n''" "replicate 32 CHR ''k''" "''secret''"] show ?thesis
    by (auto simp: nonceSize_def KeySize_def)
qed

end
