(* ===== verification/Spec2Isabelle.thy ===== *)
theory Spec2Isabelle
  imports DeviceApiSamples Encryption
begin

text \<open>
  A model of \<open>omni-identity\<close>, an OpenID Connect provider written in Go, and the theorems that make it
  correct. The server keeps accounts, browser sessions, OAuth clients, authorization codes, refresh tokens, signing
  keys and enrolled devices in a SQL database; its HTTP handlers sign people in (password, directory, second factor),
  authorize clients, issue and check tokens, and enrol devices whose keys are proved by DPoP.

  \<^bold>\<open>Parts and theories\<close>, each theory importing only earlier ones:

  \<^item> \<open>Prelude\<close>: instants and durations in nanoseconds, the errors of the store, tables as lists of rows, and the
    interface locales \<open>table\<close> (a table and its key), \<open>single_use\<close> (a credential that is spent at most once) and
    \<open>codec\<close> (an encoding and its decoder). Each is interpreted on the model: the tables in \<open>StoreBase\<close>, the codecs
    in \<open>GoCrypto\<close>, and the six single-use credentials in \<open>StoreMachine\<close>.
  \<^item> \<open>GoStd\<close>, \<open>GoCrypto\<close>, \<open>GoUrl\<close>, \<open>GoJson\<close>, \<open>UrlText\<close>: what the program uses of Go's standard library,
    written out: byte strings and UTF-8, SHA-1, SHA-256 and HMAC on words, base64, base32 and hex, \<open>net/url\<close>,
    \<open>encoding/json\<close>; with round trips.
  \<^item> \<open>Model\<close> (\<open>internal/model/model.go\<close>): a record per struct, fields prefixed by the type.
  \<^item> \<open>Oidc\<close> (\<open>internal/oidc\<close>), \<open>Credentials\<close> (\<open>internal/auth\<close>), \<open>RateLimit\<close>
    (\<open>internal/web/ratelimit.go\<close>), \<open>Encryption\<close> (\<open>internal/crypto/aesgcm.go\<close>), \<open>Jwk\<close> and \<open>Pop\<close>
    (\<open>internal/pop\<close>), \<open>Jwt\<close> (\<open>internal/tokens\<close>): the pure cores.
  \<^item> \<open>StoreBase\<close>, \<open>Accounts\<close>, \<open>Grants\<close>, \<open>DeviceStore\<close>, \<open>Store\<close> (\<open>internal/store\<close>): the database
    is the record \<open>db\<close>, one list of rows per table; a repository method is a function from \<open>db\<close> to a result and
    the database after it. \<open>Store\<close> collects the statements in one operation type with the step relation
    \<open>store_step\<close>; \<open>StoreMachine\<close> and \<open>StoreFacts\<close> prove what holds of every run.
  \<^item> \<open>Sessions\<close>, \<open>Settings\<close>, \<open>WebBase\<close>: browser sessions, the live settings, and what the handlers of
    \<open>internal/web\<close> share: the \<open>server\<close> (what is fixed when it starts), the state \<open>srvstate\<close> (database,
    settings, rate limiters, counters), the \<open>request\<close> and the \<open>response\<close>. A handler is a program of the state
    monad; \<open>ask\<close> reads the database, \<open>stmt\<close> runs a statement.
  \<^item> \<open>TokenEndpoint\<close> (token, token exchange, device assertion, introspection, revocation, userinfo),
    \<open>Authorize\<close> (authorization, consent, logout, discovery), \<open>Login\<close> (login form, second factor, set-up, password
    links), \<open>Account\<close> (the account pages and the second factor's enrolment), \<open>DeviceFlow\<close> (device
    authorization and its pages), \<open>DeviceApi\<close> (what an enrolled device calls: enrolment, key rotation, posture,
    personal access tokens, withdrawal; with the calendar of \<open>GoTime\<close> for the times it reads back), \<open>DevicePages\<close> (the
    devices on the pages of owners and administrators): the handlers, one definition each, in the order of the files; a
    long handler is split where the code returns early.
  \<^item> \<open>TokenOps\<close>, \<open>LoginOps\<close>, \<open>HandlerLogic\<close>: which statements a handler may run (\<open>performs\<close>) and a Hoare
    logic for handlers (\<open>triple\<close>). \<open>TokenFacts\<close>, \<open>AuthorizeFacts\<close>, \<open>LoginFacts\<close>, \<open>SignInFacts\<close>,
    \<open>PasswordFacts\<close>, \<open>AccountFacts\<close>, \<open>DeviceFlowFacts\<close>, \<open>DeviceRun\<close>, \<open>DeviceApiFacts\<close>,
    \<open>DevicePagesFacts\<close>: the properties of the endpoints.
  \<^item> \<open>Samples\<close>, \<open>TokenSamples\<close>, \<open>SignInSamples\<close>, \<open>AccountSamples\<close>, \<open>DeviceSamples\<close>,
    \<open>DeviceApiSamples\<close>: small databases and requests in which the
    hypotheses of the properties hold.

  \<^bold>\<open>How they interact.\<close> A client sends a browser to \<open>handleAuthorize\<close>, which parks the request in the database or
  issues a code; \<open>handleLoginSubmit\<close>, \<open>handleMFASubmit\<close> and \<open>handleConsentSubmit\<close> take the parked request up
  by its identifier; \<open>handleToken\<close> redeems the code, and tokens made by \<open>Jwt\<close> are read again by introspection,
  userinfo and the device endpoints. A device asks \<open>handleDeviceAuthorization\<close> for a pair of codes, a signed-in user
  approves the short one in \<open>handleDeviceConfirm\<close>, and the device polls with the long one at \<open>handleToken\<close>. With a
  token from there, bound to its key, it enrols in \<open>handleEnrollDevice\<close>; from then on it signs assertions for device tokens
  at \<open>handleToken\<close> and calls the routes of \<open>device_route\<close> with them, each behind \<open>requireDevice\<close>.

  \<^bold>\<open>What the lemmas show.\<close>

  \<^item> Codes and tokens: the whole authorization code flow succeeds; a code goes only to a registered address of an enabled
    client, for the user of a live session, is redeemed only by that client with its verifier, and never twice, whatever
    statements run in between; a replayed refresh token revokes its family; issued tokens verify, and what verifies was
    signed under a known key, unexpired, for this issuer; introspection tells a client of its own tokens only.
  \<^item> Signing in: a login form opens a session only after the password, directory or second factor was checked under the rate
    limits and lock-outs; a refused name or password is answered with one page, but for the attempt limits, a locked account and
    a damaged hash; the sign-in pages lead to no foreign site; the form behind a password link sets a password only by an unused
    link, and the account page only with the old one; on the account pages the second factor changes only by its own user's
    proof, and its recovery codes work once; the first administrator is made only with the set-up token.
  \<^item> Devices: the device grant from the device's request over the user's approval to its tokens; what the device grant,
    the token exchange and the device assertion demand; proofs are bound to key, address, time and access token; a device
    enrols for the user and with the key of its token, and its key is replaced only by who holds both keys; a personal
    access token rests on a live refresh token of the device and its key, and lives between an hour and a year; a posture
    is read back as it was reported; a device that withdraws is refused for good; who can change a device on the pages;
    life cycles of devices and device codes.
  \<^item> Store: the sweep of expired rows changes no answer of a statement that heeds a row's expiry, and lets the look-up of a
    device code by its hash lose expired codes only; single use of every credential. The database takes no statement that
    would break a uniqueness or reference constraint; that every run keeps them is a lemma the rest builds on.
  \<^item> Findings: a demand for a fresh sign-in is not enforced, the transaction that consumes a code does not repeat its
    condition, key thumbprints are not unique, a client that
    authenticates with HTTP Basic cannot start the device grant, gateways are not told when an owner revokes a device.

  \<^bold>\<open>Parameters.\<close> Argon2 (\<open>srv_idkey\<close>), the JWT library and PKCS #8 (\<open>jwtlib\<close>), AES-GCM (\<open>aead\<close>), the
  Unicode tables above Latin-1, the directory connectors, and the texts of library errors are arguments of the
  definitions; what a theorem assumes of them is a hypothesis with a witness. Random bytes and UUIDs are functions of
  the request, keyed by the place that draws them. \<open>db_faults\<close> names the statements that fail with a database
  error, so every error path of a handler is reachable.

  \<^bold>\<open>Bounds and fuel.\<close> Durations and counters of the database are unbounded integers, which hold every value the
  code's 64-bit fields hold; where the code can overflow in 64 bits (the products in \<open>maxAgeExceeded\<close> and \<open>pat_ttl\<close>,
  conversions in TOTP) the wrap is written out. The JSON decoder recurses on fuel that starts at the length of the text, which is enough
  because every step consumes a byte; the rune and base64 loops have termination proofs; the retry loop of the device
  codes is bounded by its count.

  \<^bold>\<open>Not modelled.\<close> Response headers and cookie attributes, HTML, logging and mail transport; page values are those a
  decision depends on. One clock reading serves a whole request. The reset mail and the notices about
  devices are sent within their request, not beside it, and a mail is its address and its link; the check of a dummy password for unknown users, whose only effect is time, is left out. SQL is modelled by what
  the statements do, with SQLite's precision of time; the limit \<open>ParseQuery\<close> puts on the number of parameters is
  not. Letters are folded exactly in ASCII only; a time in a token is not bounded as a 64-bit number, and one that is 0 counts as
  present; the sweep reads the clock once. The administration pages except those of devices, the upload of diagnostics, WebAuthn ceremonies, configuration, the LDAP client, log shipping, migrations and the
  enrolment agent are not modelled: they are input and output, forms over the repositories above, or clients of
  libraries that are not part of the repository.
\<close>

end
